(* ===== verification/Prelude.thy ===== *)
theory Prelude
  imports Main "HOL-Library.AList"
begin

text \<open>
  Shared vocabulary of the development: Python's truthiness on strings and optional strings,
  insertion-ordered dictionaries (association lists with distinct keys), the interface those
  dictionaries offer as a locale, and the counting lemmas that the accounting invariants of the
  scheduler rest on.
\<close>


named_theorems cap_intros \<open>operations that respect the live-container ceiling\<close>
named_theorems acct_intros \<open>preservation of the accounting invariant\<close>

section \<open>Python truthiness\<close>

text \<open>\<open>a or b\<close> on strings: the empty string is falsy.\<close>

definition or_str :: "string \<Rightarrow> string \<Rightarrow> string" where
  "or_str a b = (if a = '''' then b else a)"

text \<open>The truth value of a \<open>str | None\<close>.\<close>

definition truthy :: "string option \<Rightarrow> bool" where
  "truthy s = (case s of None \<Rightarrow> False | Some x \<Rightarrow> x \<noteq> '''')"

text \<open>\<open>s or None\<close> on a \<open>str | None\<close>.\<close>

definition or_none :: "string option \<Rightarrow> string option" where
  "or_none s = (if truthy s then s else None)"

lemma truthy_simps [simp]: "\<not> truthy None" "truthy (Some x) \<longleftrightarrow> x \<noteq> ''''"
  by (simp_all add: truthy_def)

lemma or_str_simps [simp]:
  "or_str '''' b = b" "or_str a a = a" "a \<noteq> '''' \<Longrightarrow> or_str a b = a"
  by (simp_all add: or_str_def)

section \<open>Insertion-ordered dictionaries\<close>

type_synonym ('k, 'v) dict = "('k \<times> 'v) list"

definition dict_get :: "('k, 'v) dict \<Rightarrow> 'k \<Rightarrow> 'v option" where
  "dict_get d k = map_of d k"

definition dict_set :: "('k, 'v) dict \<Rightarrow> 'k \<Rightarrow> 'v \<Rightarrow> ('k, 'v) dict" where
  "dict_set d k v = AList.update k v d"

definition dict_pop :: "('k, 'v) dict \<Rightarrow> 'k \<Rightarrow> ('k, 'v) dict" where
  "dict_pop d k = AList.delete k d"

definition dict_keys :: "('k, 'v) dict \<Rightarrow> 'k list" where
  "dict_keys d = map fst d"

lemma dict_keys_update:
  "dict_keys (AList.update k v d) = (if k \<in> set (dict_keys d) then dict_keys d else dict_keys d @ [k])"
  by (induction d) (auto simp: dict_keys_def)

lemma dict_keys_delete: "dict_keys (AList.delete k d) = filter (\<lambda>x. x \<noteq> k) (dict_keys d)"
  by (induction d) (auto simp: dict_keys_def AList.delete_eq)

text \<open>
  The laws every component relies on when it keeps a Python \<open>dict\<close>: what a lookup returns after a
  store or a removal, and that the key order is the order of first insertion.
\<close>

locale ordered_dict =
  fixes get :: "'d \<Rightarrow> 'k \<Rightarrow> 'v option"
    and put :: "'d \<Rightarrow> 'k \<Rightarrow> 'v \<Rightarrow> 'd"
    and pop :: "'d \<Rightarrow> 'k \<Rightarrow> 'd"
    and keys :: "'d \<Rightarrow> 'k list"
  assumes get_put: "get (put d k v) = (get d)(k \<mapsto> v)"
    and get_pop: "get (pop d k) = (get d)(k := None)"
    and keys_put: "keys (put d k v) = (if k \<in> set (keys d) then keys d else keys d @ [k])"
    and keys_pop: "keys (pop d k) = filter (\<lambda>x. x \<noteq> k) (keys d)"
    and keys_iff: "k \<in> set (keys d) \<longleftrightarrow> get d k \<noteq> None"
begin

lemma finite_dom: "finite {k. get d k \<noteq> None}"
proof -
  have "{k. get d k \<noteq> None} = set (keys d)"
    using keys_iff by blast
  then show ?thesis by simp
qed

lemma put_distinct: "distinct (keys d) \<Longrightarrow> distinct (keys (put d k v))"
  by (simp add: keys_put)

lemma pop_distinct: "distinct (keys d) \<Longrightarrow> distinct (keys (pop d k))"
  by (simp add: keys_pop)

lemma pop_put_same: "get (pop (put d k v) k) = (get d)(k := None)"
  by (simp add: get_put get_pop)

lemma put_other: "k' \<noteq> k \<Longrightarrow> get (put d k v) k' = get d k'"
  by (simp add: get_put)

lemma pop_other: "k' \<noteq> k \<Longrightarrow> get (pop d k) k' = get d k'"
  by (simp add: get_pop)

lemma last_put_fresh: "k \<notin> set (keys d) \<Longrightarrow> last (keys (put d k v)) = k"
  by (simp add: keys_put)

end

interpretation dct: ordered_dict dict_get dict_set dict_pop dict_keys
proof
  fix d :: "('k, 'v) dict" and k v
  show "dict_get (dict_set d k v) = (dict_get d)(k \<mapsto> v)"
    by (simp add: dict_get_def dict_set_def update_conv' fun_eq_iff)
  show "dict_get (dict_pop d k) = (dict_get d)(k := None)"
    by (simp add: dict_get_def dict_pop_def delete_conv' fun_eq_iff)
  show "dict_keys (dict_set d k v) = (if k \<in> set (dict_keys d) then dict_keys d else dict_keys d @ [k])"
    by (simp add: dict_set_def dict_keys_update)
  show "dict_keys (dict_pop d k) = filter (\<lambda>x. x \<noteq> k) (dict_keys d)"
    by (simp add: dict_pop_def dict_keys_delete)
  show "k \<in> set (dict_keys d) \<longleftrightarrow> dict_get d k \<noteq> None"
    by (force simp: dict_get_def dict_keys_def map_of_eq_None_iff)
qed

lemmas dict_simps [simp] = dct.get_put dct.get_pop dct.keys_put dct.keys_pop

section \<open>Counting the entries of a table that satisfy a predicate\<close>

definition cnt :: "('v \<Rightarrow> bool) \<Rightarrow> ('k \<Rightarrow> 'v) \<Rightarrow> int" where
  "cnt P f = int (card {j. P (f j)})"

lemma cnt_nonneg [simp]: "0 \<le> cnt P f"
  by (simp add: cnt_def)

lemma cnt_fun_upd:
  assumes "finite {j. P (f j)}"
  shows "cnt P (f(k := g)) = cnt P f + of_bool (P g) - of_bool (P (f k))"
proof -
  define A where "A = {j. P (f j)} - {k}"
  have A: "finite A" "k \<notin> A" using assms by (auto simp: A_def)
  have new: "{j. P ((f(k := g)) j)} = (if P g then insert k A else A)" by (auto simp: A_def)
  have old: "{j. P (f j)} = (if P (f k) then insert k A else A)" by (auto simp: A_def)
  have "cnt P (f(k := g)) = int (card A) + of_bool (P g)"
    unfolding cnt_def new using A by simp
  moreover have "cnt P f = int (card A) + of_bool (P (f k))"
    unfolding cnt_def old using A by simp
  ultimately show ?thesis by simp
qed

lemma cnt_pos: "finite {j. P (f j)} \<Longrightarrow> P (f k) \<Longrightarrow> 1 \<le> cnt P f"
  using card_gt_0_iff [of "{j. P (f j)}"] by (auto simp: cnt_def)

lemma cnt_mono: "finite {j. Q (f j)} \<Longrightarrow> (\<And>j. P (f j) \<Longrightarrow> Q (f j)) \<Longrightarrow> cnt P f \<le> cnt Q f"
  unfolding cnt_def by (auto intro: card_mono)

lemma cnt_cong: "(\<And>j. P (f j) = Q (g j)) \<Longrightarrow> cnt P f = cnt Q g"
  by (simp add: cnt_def)

section \<open>Lists\<close>

text \<open>\<open>if x not in xs: xs.append(x)\<close>\<close>

definition append_new :: "'a \<Rightarrow> 'a list \<Rightarrow> 'a list" where
  "append_new x xs = (if x \<in> set xs then xs else xs @ [x])"

lemma set_append_new [simp]: "set (append_new x xs) = insert x (set xs)"
  by (auto simp: append_new_def)

lemma distinct_append_new [simp]: "distinct (append_new x xs) = distinct xs"
  by (simp add: append_new_def)

end
