(* ===== verification/Py_Json.thy ===== *)
theory Py_Json
  imports Complex_Main Prelude
begin

text \<open>
  The Python values that come out of \<open>json.loads\<close> and are passed around as \<open>dict[str, Any]\<close>:
  the value type, Python's truth value, equality, ordering and membership on it, each operation
  that may raise returning \<open>None\<close> for the exception. A float is the rational number it denotes;
  the non-finite floats, which are not JSON, are not represented.
\<close>

datatype json =
    JNull
  | JBool bool
  | JInt int
  | JFloat rat
  | JStr string
  | JList "json list"
  | JObj "(string \<times> json) list"

type_synonym payload = "(string \<times> json) list"

section \<open>Truth value, types and subscripts\<close>

text \<open>\<open>bool(v)\<close>\<close>

fun py_bool :: "json \<Rightarrow> bool" where
  "py_bool JNull = False"
| "py_bool (JBool b) = b"
| "py_bool (JInt n) = (n \<noteq> 0)"
| "py_bool (JFloat r) = (r \<noteq> 0)"
| "py_bool (JStr s) = (s \<noteq> [])"
| "py_bool (JList xs) = (xs \<noteq> [])"
| "py_bool (JObj kvs) = (kvs \<noteq> [])"

text \<open>The number a bool, int or float stands for in arithmetic and comparisons.\<close>

fun py_num :: "json \<Rightarrow> rat option" where
  "py_num (JBool b) = Some (of_bool b)"
| "py_num (JInt n) = Some (of_int n)"
| "py_num (JFloat r) = Some r"
| "py_num _ = None"

text \<open>\<open>d.get(k)\<close> on a dict, \<open>None\<close> when the key is absent.\<close>

definition obj_get :: "(string \<times> json) list \<Rightarrow> string \<Rightarrow> json option" where
  "obj_get d k = map_of d k"

text \<open>\<open>d.get(k, dflt)\<close>\<close>

definition get_or :: "(string \<times> json) list \<Rightarrow> string \<Rightarrow> json \<Rightarrow> json" where
  "get_or d k dflt = (case obj_get d k of None \<Rightarrow> dflt | Some v \<Rightarrow> v)"

text \<open>\<open>s.strip()\<close>\<close>

definition is_space :: "char \<Rightarrow> bool" where
  "is_space c = (let n = of_char c :: nat in (9 \<le> n \<and> n \<le> 13) \<or> (28 \<le> n \<and> n \<le> 32) \<or> n = 133 \<or> n = 160)"

definition str_strip :: "string \<Rightarrow> string" where
  "str_strip s = rev (dropWhile is_space (rev (dropWhile is_space s)))"

section \<open>Equality\<close>

text \<open>
  Python's \<open>==\<close>: numbers by value across \<open>bool\<close>, \<open>int\<close> and \<open>float\<close>, lists elementwise, dicts by
  key regardless of order. A JSON object has distinct keys, so two objects are equal when they
  have as many keys and every entry of the first has an equal partner in the second.
\<close>

function (sequential) py_eq :: "json \<Rightarrow> json \<Rightarrow> bool" where
  "py_eq JNull JNull = True"
| "py_eq (JStr a) (JStr b) = (a = b)"
| "py_eq (JList xs) (JList ys) =
     (length xs = length ys \<and> (\<forall>(x, y) \<in> set (zip xs ys). py_eq x y))"
| "py_eq (JObj a) (JObj b) =
     (length a = length b \<and>
      (\<forall>(k, v) \<in> set a. case map_of b k of None \<Rightarrow> False | Some w \<Rightarrow> py_eq v w))"
| "py_eq a b = (case (py_num a, py_num b) of (Some m, Some n) \<Rightarrow> m = n | _ \<Rightarrow> False)"
  by pat_completeness auto
termination
proof (relation "measure (\<lambda>(a, b). size a)", goal_cases)
  case 1
  then show ?case by simp
next
  case (2 xs ys z x y)
  then have "x \<in> set xs" by (auto dest: set_zip_leftD)
  then have "size x < Suc (size_list size xs)"
    by (induction xs) auto
  then show ?case by simp
next
  case (3 a b p k v w)
  then have "(k, v) \<in> set a" by simp
  then have "size v < Suc (size_list (size_prod (\<lambda>_. 0) size) a)"
    by (induction a) auto
  then show ?case by simp
qed

text \<open>\<open>x in xs\<close> on a list (identity implies equality on these values).\<close>

definition py_in_list :: "json \<Rightarrow> json list \<Rightarrow> bool" where
  "py_in_list x xs = (\<exists>y \<in> set xs. py_eq x y)"

section \<open>Ordering\<close>

fun str_less :: "string \<Rightarrow> string \<Rightarrow> bool" where
  "str_less _ [] = False"
| "str_less [] (_ # _) = True"
| "str_less (a # as) (b # bs) =
     (if a = b then str_less as bs else (of_char a :: nat) < of_char b)"

text \<open>
  Python's \<open><\<close>: numbers, strings (by code point) and lists (by the first unequal element);
  any other pair of types raises \<open>TypeError\<close>.
\<close>

function (sequential) py_less :: "json \<Rightarrow> json \<Rightarrow> bool option" where
  "py_less (JStr a) (JStr b) = Some (str_less a b)"
| "py_less (JList (x # xs)) (JList (y # ys)) =
     (if py_eq x y then py_less (JList xs) (JList ys) else py_less x y)"
| "py_less (JList xs) (JList ys) = Some (xs = [] \<and> ys \<noteq> [])"
| "py_less a b = (case (py_num a, py_num b) of (Some m, Some n) \<Rightarrow> Some (m < n) | _ \<Rightarrow> None)"
  by pat_completeness auto
termination
  by (relation "measure (\<lambda>(a, b). size a)") auto

text \<open>\<open>a <= b\<close>; on lists the first unequal element decides, equal lists compare equal.\<close>

function (sequential) py_le :: "json \<Rightarrow> json \<Rightarrow> bool option" where
  "py_le (JStr a) (JStr b) = Some (a = b \<or> str_less a b)"
| "py_le (JList (x # xs)) (JList (y # ys)) =
     (if py_eq x y then py_le (JList xs) (JList ys) else py_le x y)"
| "py_le (JList xs) (JList ys) = Some (xs = [])"
| "py_le a b = (case (py_num a, py_num b) of (Some m, Some n) \<Rightarrow> Some (m \<le> n) | _ \<Rightarrow> None)"
  by pat_completeness auto
termination
  by (relation "measure (\<lambda>(a, b). size a)") auto

section \<open>Containment\<close>

text \<open>Substring test, \<open>pat in s\<close> on strings.\<close>

fun is_prefix_of :: "string \<Rightarrow> string \<Rightarrow> bool" where
  "is_prefix_of [] _ = True"
| "is_prefix_of (_ # _) [] = False"
| "is_prefix_of (a # as) (b # bs) = (a = b \<and> is_prefix_of as bs)"

fun is_substr :: "string \<Rightarrow> string \<Rightarrow> bool" where
  "is_substr pat [] = (pat = [])"
| "is_substr pat (c # cs) = (is_prefix_of pat (c # cs) \<or> is_substr pat cs)"

lemma is_prefix_of_iff: "is_prefix_of p s \<longleftrightarrow> (\<exists>r. s = p @ r)"
  by (induction p s rule: is_prefix_of.induct) auto

lemma is_substr_iff: "is_substr p s \<longleftrightarrow> (\<exists>l r. s = l @ p @ r)"
proof (induction s)
  case Nil
  then show ?case by auto
next
  case (Cons c cs)
  show ?case
  proof
    assume "is_substr p (c # cs)"
    then consider "is_prefix_of p (c # cs)" | "is_substr p cs" by auto
    then show "\<exists>l r. c # cs = l @ p @ r"
    proof cases
      case 1
      then show ?thesis by (auto simp: is_prefix_of_iff intro: exI [of _ "[]"])
    next
      case 2
      then obtain l r where "cs = l @ p @ r" using Cons.IH by blast
      then have "c # cs = (c # l) @ p @ r" by simp
      then show ?thesis by blast
    qed
  next
    assume "\<exists>l r. c # cs = l @ p @ r"
    then obtain l r where lr: "c # cs = l @ p @ r" by blast
    show "is_substr p (c # cs)"
    proof (cases l)
      case Nil
      with lr have "is_prefix_of p (c # cs)" unfolding is_prefix_of_iff by auto
      then show ?thesis by simp
    next
      case (Cons _ l')
      with lr have "cs = l' @ p @ r" by simp
      then show ?thesis using Cons.IH by auto
    qed
  qed
qed

text \<open>\<open>b in a\<close>, with \<open>None\<close> for the \<open>TypeError\<close>.\<close>

fun py_contains :: "json \<Rightarrow> json \<Rightarrow> bool option" where
  "py_contains (JStr s) b = (case b of JStr p \<Rightarrow> Some (is_substr p s) | _ \<Rightarrow> None)"
| "py_contains (JList xs) b = Some (py_in_list b xs)"
| "py_contains (JObj kvs) b =
     (case b of
        JStr k \<Rightarrow> Some (k \<in> fst ` set kvs)
      | JList _ \<Rightarrow> None
      | JObj _ \<Rightarrow> None
      | _ \<Rightarrow> Some False)"
| "py_contains _ b = None"

end
