(* ===== verification/Permissions.thy ===== *)
theory Permissions
  imports Py_Json "HOL-Library.List_Lexorder" "HOL-Library.Char_ord"
begin

text \<open>
  The role and capability model of \<^verbatim>\<open>src/src/rolemesh/auth/permissions.py\<close>: the role-to-action
  table, the derived superset for platform administrators, the fail-closed check \<open>user_can\<close>, the
  sorted capability list, and the agents' permission bits with their dictionary form.
\<close>

section \<open>User roles\<close>

definition tenant_role_actions :: "(string, string list) dict" where
  "tenant_role_actions =
    [(''owner'',
       [''coworker.create'', ''coworker.manage'', ''coworker.use'', ''skill.create'',
        ''skill.manage'', ''mcp.configure'', ''approval_policy.manage'',
        ''credential.byok.manage'', ''safety.read'', ''safety.rule.manage'', ''user.manage'',
        ''tenant.manage'', ''task.manage'']),
     (''admin'',
       [''coworker.create'', ''coworker.manage'', ''coworker.use'', ''skill.create'',
        ''skill.manage'', ''mcp.configure'', ''approval_policy.manage'', ''safety.read'',
        ''safety.rule.manage'', ''user.manage'', ''task.manage'']),
     (''member'', [''coworker.create'', ''coworker.use'', ''skill.create''])]"

definition platform_only_actions :: "string list" where
  "platform_only_actions =
    [''credential.pool.manage'', ''model.manage'', ''platform.tenant.manage'',
     ''safety.platform.manage'']"

definition all_known_actions :: "string list" where
  "all_known_actions = remdups (platform_only_actions @ concat (map snd tenant_role_actions))"

definition user_role_actions :: "(string, string list) dict" where
  "user_role_actions = dict_set tenant_role_actions ''platform_admin'' all_known_actions"

definition user_can :: "string \<Rightarrow> string \<Rightarrow> bool" where
  "user_can role action =
     (case dict_get user_role_actions role of None \<Rightarrow> False | Some acts \<Rightarrow> action \<in> set acts)"

definition role_capabilities :: "string \<Rightarrow> string list" where
  "role_capabilities role =
     sort (case dict_get user_role_actions role of None \<Rightarrow> [] | Some acts \<Rightarrow> acts)"

section \<open>Agent permissions\<close>

record agent_permissions =
  task_schedule :: bool
  task_manage_others :: bool
  agent_delegate :: bool

definition default_permissions :: agent_permissions where
  "default_permissions =
     \<lparr>task_schedule = False, task_manage_others = False, agent_delegate = False\<rparr>"

definition perms_to_dict :: "agent_permissions \<Rightarrow> (string \<times> json) list" where
  "perms_to_dict p =
     [(''task_schedule'', JBool (task_schedule p)),
      (''task_manage_others'', JBool (task_manage_others p)),
      (''agent_delegate'', JBool (agent_delegate p))]"

definition perms_from_dict :: "(string \<times> json) list \<Rightarrow> agent_permissions" where
  "perms_from_dict d =
     (let bit = (\<lambda>k. case obj_get d k of None \<Rightarrow> False | Some v \<Rightarrow> py_bool v)
      in \<lparr>task_schedule = bit ''task_schedule'',
          task_manage_others = bit ''task_manage_others'',
          agent_delegate = bit ''agent_delegate''\<rparr>)"

section \<open>Lemmas\<close>

lemma user_role_actions_get:
  "dict_get user_role_actions role =
     (if role = ''platform_admin'' then Some all_known_actions else dict_get tenant_role_actions role)"
  by (simp add: user_role_actions_def)

lemma tenant_actions_known:
  "dict_get tenant_role_actions role = Some acts \<Longrightarrow> set acts \<subseteq> set all_known_actions"
  by (force simp: dict_get_def all_known_actions_def dest: map_of_SomeD)

lemma platform_only_disjoint:
  "dict_get tenant_role_actions role = Some acts \<Longrightarrow> set acts \<inter> set platform_only_actions = {}"
  by (auto simp: dict_get_def tenant_role_actions_def platform_only_actions_def split: if_splits)

lemma role_actions_distinct:
  "dict_get user_role_actions role = Some acts \<Longrightarrow> distinct acts"
  unfolding user_role_actions_get
  by (auto simp: all_known_actions_def dict_get_def tenant_role_actions_def split: if_splits)

text \<open>
  The platform administrator is a superset of every role, while a platform-only action is held
  by no other role: whatever a role may do the platform administrator may do, and an action of
  the platform plane is granted exactly to the platform administrator.
\<close>

theorem platform_admin_superset:
  "(user_can role action \<longrightarrow> user_can ''platform_admin'' action) \<and>
   (action \<in> set platform_only_actions \<longrightarrow> (user_can role action \<longleftrightarrow> role = ''platform_admin''))"
proof (intro conjI impI)
  assume "user_can role action"
  then show "user_can ''platform_admin'' action"
    using tenant_actions_known
    by (auto simp: user_can_def user_role_actions_get split: option.splits if_splits)
next
  assume "action \<in> set platform_only_actions"
  then show "user_can role action \<longleftrightarrow> role = ''platform_admin''"
    using platform_only_disjoint
    by (auto simp: user_can_def user_role_actions_get all_known_actions_def
        split: option.splits if_splits)
qed

theorem platform_admin_superset_witness:
  "user_can ''owner'' ''tenant.manage'' \<and> user_can ''platform_admin'' ''tenant.manage'' \<and>
   \<not> user_can ''owner'' ''model.manage''"
proof -
  have o: "user_can ''owner'' ''tenant.manage''"
    unfolding user_can_def user_role_actions_get
    by (simp add: dict_get_def tenant_role_actions_def)
  have m: "''model.manage'' \<in> set platform_only_actions"
    by (simp add: platform_only_actions_def)
  show ?thesis
    using o m platform_admin_superset [of "''owner''" "''tenant.manage''"]
      platform_admin_superset [of "''owner''" "''model.manage''"] by simp
qed

text \<open>
  C31. The capability list the web client reads is exactly the set of actions the server-side
  check grants, sorted and without repetition; an unknown role gets the empty list.
\<close>

theorem role_capabilities_exact:
  "set (role_capabilities role) = {a. user_can role a} \<and> sorted (role_capabilities role) \<and>
   distinct (role_capabilities role) \<and>
   (role \<notin> {''owner'', ''admin'', ''member'', ''platform_admin''} \<longrightarrow> role_capabilities role = [])"
proof -
  have "role_capabilities role = []"
    if "role \<notin> {''owner'', ''admin'', ''member'', ''platform_admin''}"
    using that unfolding role_capabilities_def user_role_actions_get
    by (simp add: dict_get_def tenant_role_actions_def)
  then show ?thesis
    using role_actions_distinct [of role]
    by (auto simp: role_capabilities_def user_can_def split: option.splits)
qed

theorem role_capabilities_exact_witness:
  "role_capabilities ''guest'' = [] \<and> ''coworker.use'' \<in> set (role_capabilities ''member'')"
proof -
  have "user_can ''member'' ''coworker.use''"
    unfolding user_can_def user_role_actions_get
    by (simp add: dict_get_def tenant_role_actions_def)
  then show ?thesis
    using role_capabilities_exact [of "''guest''"] role_capabilities_exact [of "''member''"]
    by simp
qed

lemma perms_roundtrip: "perms_from_dict (perms_to_dict p) = p"
  by (simp add: perms_from_dict_def perms_to_dict_def obj_get_def)

lemma perms_from_empty: "perms_from_dict [] = default_permissions"
  by (simp add: perms_from_dict_def default_permissions_def obj_get_def)

end
