(* ===== verification/Core_Types.thy ===== *)
theory Core_Types
  imports Permissions
begin

text \<open>
  The data model of \<^verbatim>\<open>src/src/rolemesh/core/types.py\<close>: one record per dataclass, in the source's
  order and with every field. A \<open>str | None\<close> field is a \<open>string option\<close>; a \<open>dict\<close> is an
  insertion-ordered dictionary; field names carry a short prefix because record fields share one
  name space.
\<close>

section \<open>Security and container mount types\<close>

record additional_mount =
  am_host_path :: string
  am_container_path :: "string option"
  am_readonly :: bool

record container_config =
  cc_additional_mounts :: "additional_mount list"
  cc_timeout :: int
  cc_runtime :: "string option"
  cc_memory_limit :: "string option"
  cc_cpu_limit :: "rat option"

section \<open>MCP server configuration\<close>

record mcp_server_config =
  mcp_name :: string
  mcp_type :: string
  mcp_url :: string
  mcp_headers :: "(string, string) dict"
  mcp_auth_mode :: string
  mcp_tool_reversibility :: "(string, bool) dict"

section \<open>Multi-tenant data model\<close>

record tenant =
  t_id :: string
  t_name :: string
  t_slug :: "string option"
  t_plan :: "string option"
  t_max_concurrent_containers :: int
  t_last_message_cursor :: "string option"
  t_created_at :: string
  t_status :: string

record user =
  u_id :: string
  u_tenant_id :: string
  u_name :: string
  u_email :: "string option"
  u_role :: string
  u_channel_ids :: "(string, string) dict"
  u_created_at :: string
  u_external_sub :: "string option"

record coworker =
  c_id :: string
  c_tenant_id :: string
  c_name :: string
  c_folder :: string
  c_agent_backend :: string
  c_system_prompt :: "string option"
  c_container_config :: "container_config option"
  c_max_concurrent_containers :: int
  c_status :: string
  c_created_at :: string
  c_permissions :: "agent_permissions option"
  c_model_id :: "string option"
  c_created_by_user_id :: "string option"
  c_visibility :: string
  c_is_frontdesk :: bool
  c_routing_description :: "string option"

definition coworker_post_init :: "coworker \<Rightarrow> coworker" where
  "coworker_post_init c =
     (if c_permissions c = None then c\<lparr>c_permissions := Some default_permissions\<rparr> else c)"

record skill_file =
  sf_path :: string
  sf_content :: string
  sf_mime_type :: string
  sf_updated_at :: string

record skill =
  sk_id :: string
  sk_tenant_id :: string
  sk_name :: string
  sk_frontmatter_common :: "(string, json) dict"
  sk_frontmatter_backend :: "(string, (string, json) dict) dict"
  sk_enabled :: bool
  sk_created_at :: string
  sk_updated_at :: string
  sk_created_by_user_id :: "string option"
  sk_visibility :: string
  sk_files :: "(string, skill_file) dict"

record channel_binding =
  cb_id :: string
  cb_coworker_id :: string
  cb_tenant_id :: string
  cb_channel_type :: string
  cb_credentials :: "(string, string) dict"
  cb_bot_display_name :: "string option"
  cb_status :: string
  cb_created_at :: string
  cb_bot_username :: "string option"

record conversation =
  cv_id :: string
  cv_tenant_id :: string
  cv_coworker_id :: string
  cv_channel_binding_id :: string
  cv_channel_chat_id :: string
  cv_name :: "string option"
  cv_last_agent_invocation :: "string option"
  cv_created_at :: string
  cv_user_id :: "string option"
  cv_parent_conversation_id :: "string option"

section \<open>Legacy registered groups\<close>

record registered_group =
  rg_name :: string
  rg_folder :: string
  rg_added_at :: string
  rg_container_config :: "container_config option"

definition registered_group_to_coworker :: "registered_group \<Rightarrow> string \<Rightarrow> string \<Rightarrow> coworker" where
  "registered_group_to_coworker grp tenant_id coworker_id =
     coworker_post_init
       \<lparr>c_id = coworker_id, c_tenant_id = tenant_id, c_name = rg_name grp,
        c_folder = rg_folder grp, c_agent_backend = ''claude'', c_system_prompt = None,
        c_container_config = rg_container_config grp, c_max_concurrent_containers = 2,
        c_status = ''active'', c_created_at = '''', c_permissions = None, c_model_id = None,
        c_created_by_user_id = None, c_visibility = ''private'', c_is_frontdesk = False,
        c_routing_description = None\<rparr>"

lemma coworker_post_init_permissions: "c_permissions (coworker_post_init c) \<noteq> None"
  by (simp add: coworker_post_init_def)

lemma registered_group_least_privilege:
  "c_permissions (registered_group_to_coworker g t c) = Some default_permissions"
  by (simp add: registered_group_to_coworker_def coworker_post_init_def)

end
