(* ===== verification/Orch_State.thy ===== *)
theory Orch_State
  imports Core_Types
begin

text \<open>
  The orchestrator's runtime state, \<^verbatim>\<open>src/src/rolemesh/core/orchestrator_state.py\<close>: the cached
  coworkers with their conversations, the three-level turn-admission counters (global, tenant,
  coworker) and the live-container counter. The interface the scheduler uses of it is the locale
  \<open>turn_admission\<close>, interpreted here on the counters.
\<close>

section \<open>State\<close>

record conversation_state =
  cs_conversation :: conversation
  cs_session_id :: "string option"
  cs_last_agent_timestamp :: string
  cs_active_run_id :: "string option"

record coworker_state =
  cw_config :: coworker
  cw_conversations :: "(string, conversation_state) dict"
  cw_channel_bindings :: "(string, channel_binding) dict"
  cw_mcp_configs :: "mcp_server_config list"
  cw_skills :: "skill list"

definition from_coworker ::
  "coworker \<Rightarrow> mcp_server_config list option \<Rightarrow> skill list option \<Rightarrow> coworker_state" where
  "from_coworker cw mcps sks =
     \<lparr>cw_config = cw, cw_conversations = [], cw_channel_bindings = [],
      cw_mcp_configs = (case mcps of None \<Rightarrow> [] | Some xs \<Rightarrow> xs),
      cw_skills = (case sks of None \<Rightarrow> [] | Some xs \<Rightarrow> xs)\<rparr>"

record orch_state =
  o_tenants :: "(string, tenant) dict"
  o_coworkers :: "(string, coworker_state) dict"
  o_global_active :: int
  o_global_limit :: int
  o_tenant_active :: "(string, int) dict"
  o_coworker_active :: "(string, int) dict"
  o_live_containers :: int

definition new_orch_state :: "int \<Rightarrow> orch_state" where
  "new_orch_state limit =
     \<lparr>o_tenants = [], o_coworkers = [], o_global_active = 0, o_global_limit = limit,
      o_tenant_active = [], o_coworker_active = [], o_live_containers = 0\<rparr>"

text \<open>\<open>counter.get(key, 0)\<close>\<close>

definition tenant_used :: "orch_state \<Rightarrow> string \<Rightarrow> int" where
  "tenant_used os t = (case dict_get (o_tenant_active os) t of None \<Rightarrow> 0 | Some n \<Rightarrow> n)"

definition coworker_used :: "orch_state \<Rightarrow> string \<Rightarrow> int" where
  "coworker_used os c = (case dict_get (o_coworker_active os) c of None \<Rightarrow> 0 | Some n \<Rightarrow> n)"

section \<open>Admission and accounting\<close>

definition can_start_container :: "orch_state \<Rightarrow> string \<Rightarrow> string \<Rightarrow> bool" where
  "can_start_container os tenant_id coworker_id =
     (if o_global_active os \<ge> o_global_limit os then False
      else if (case dict_get (o_tenants os) tenant_id of None \<Rightarrow> False
               | Some tn \<Rightarrow> tenant_used os tenant_id \<ge> t_max_concurrent_containers tn) then False
      else \<not> (case dict_get (o_coworkers os) coworker_id of None \<Rightarrow> False
              | Some cw \<Rightarrow>
                  coworker_used os coworker_id \<ge> c_max_concurrent_containers (cw_config cw)))"

definition increment_active :: "orch_state \<Rightarrow> string \<Rightarrow> string \<Rightarrow> orch_state" where
  "increment_active os t c =
     os\<lparr>o_global_active := o_global_active os + 1,
        o_tenant_active := dict_set (o_tenant_active os) t (tenant_used os t + 1),
        o_coworker_active := dict_set (o_coworker_active os) c (coworker_used os c + 1)\<rparr>"

definition decrement_active :: "orch_state \<Rightarrow> string \<Rightarrow> string \<Rightarrow> orch_state" where
  "decrement_active os t c =
     os\<lparr>o_global_active := max 0 (o_global_active os - 1),
        o_tenant_active := dict_set (o_tenant_active os) t (max 0 (tenant_used os t - 1)),
        o_coworker_active := dict_set (o_coworker_active os) c (max 0 (coworker_used os c - 1))\<rparr>"

definition can_spawn_container :: "orch_state \<Rightarrow> bool" where
  "can_spawn_container os = (o_live_containers os < o_global_limit os)"

definition acquire_container :: "orch_state \<Rightarrow> orch_state" where
  "acquire_container os = os\<lparr>o_live_containers := o_live_containers os + 1\<rparr>"

definition release_container :: "orch_state \<Rightarrow> orch_state" where
  "release_container os = os\<lparr>o_live_containers := max 0 (o_live_containers os - 1)\<rparr>"

section \<open>Lookups\<close>

definition get_coworker_by_folder :: "orch_state \<Rightarrow> string \<Rightarrow> string \<Rightarrow> coworker_state option" where
  "get_coworker_by_folder os tenant_id folder =
     List.find (\<lambda>cw. c_tenant_id (cw_config cw) = tenant_id \<and> c_folder (cw_config cw) = folder)
       (map snd (o_coworkers os))"

fun first_conv ::
  "(coworker_state \<Rightarrow> conversation_state option) \<Rightarrow> coworker_state list \<Rightarrow>
   (coworker_state \<times> conversation_state) option" where
  "first_conv f [] = None"
| "first_conv f (cw # cws) =
     (case f cw of Some conv \<Rightarrow> Some (cw, conv) | None \<Rightarrow> first_conv f cws)"

definition get_conversation ::
  "orch_state \<Rightarrow> string \<Rightarrow> (coworker_state \<times> conversation_state) option" where
  "get_conversation os conversation_id =
     first_conv
       (\<lambda>cw. List.find (\<lambda>conv. cv_id (cs_conversation conv) = conversation_id)
               (map snd (cw_conversations cw)))
       (map snd (o_coworkers os))"

definition find_conversation_by_binding_and_chat ::
  "orch_state \<Rightarrow> string \<Rightarrow> string \<Rightarrow> (coworker_state \<times> conversation_state) option" where
  "find_conversation_by_binding_and_chat os binding_id channel_chat_id =
     first_conv
       (\<lambda>cw. if \<exists>b \<in> set (map snd (cw_channel_bindings cw)). cb_id b = binding_id
             then List.find (\<lambda>conv. cv_channel_binding_id (cs_conversation conv) = binding_id \<and>
                               cv_channel_chat_id (cs_conversation conv) = channel_chat_id)
                    (map snd (cw_conversations cw))
             else None)
       (map snd (o_coworkers os))"

lemma first_conv_Some:
  "first_conv f cws = Some (cw, conv) \<Longrightarrow> cw \<in> set cws \<and> f cw = Some conv"
  by (induction cws) (auto split: option.splits)

lemma first_conv_None: "first_conv f cws = None \<longleftrightarrow> (\<forall>cw \<in> set cws. f cw = None)"
  by (induction cws) (auto split: option.splits)

section \<open>What the counters promise the scheduler\<close>

text \<open>
  The contract of turn admission, over any state that counts turns per tenant and coworker:
  starting a turn adds one at each of the three levels, finishing it takes one off (never below
  zero), and an admitted turn stays within every configured limit.
\<close>

locale turn_admission =
  fixes can_start :: "'o \<Rightarrow> 't \<Rightarrow> 'c \<Rightarrow> bool"
    and incr :: "'o \<Rightarrow> 't \<Rightarrow> 'c \<Rightarrow> 'o"
    and decr :: "'o \<Rightarrow> 't \<Rightarrow> 'c \<Rightarrow> 'o"
    and used :: "'o \<Rightarrow> int"
    and used_t :: "'o \<Rightarrow> 't \<Rightarrow> int"
    and used_c :: "'o \<Rightarrow> 'c \<Rightarrow> int"
    and limit :: "'o \<Rightarrow> int"
    and limit_t :: "'o \<Rightarrow> 't \<Rightarrow> int option"
    and limit_c :: "'o \<Rightarrow> 'c \<Rightarrow> int option"
  assumes can_start_iff: "can_start os t c \<longleftrightarrow>
      used os < limit os \<and> (\<forall>m. limit_t os t = Some m \<longrightarrow> used_t os t < m) \<and>
      (\<forall>m. limit_c os c = Some m \<longrightarrow> used_c os c < m)"
    and used_incr: "used (incr os t c) = used os + 1"
    and used_t_incr: "used_t (incr os t c) t' = used_t os t' + of_bool (t' = t)"
    and used_c_incr: "used_c (incr os t c) c' = used_c os c' + of_bool (c' = c)"
    and used_decr: "used (decr os t c) = max 0 (used os - 1)"
    and used_t_decr: "used_t (decr os t c) t' = (if t' = t then max 0 (used_t os t - 1) else used_t os t')"
    and used_c_decr: "used_c (decr os t c) c' = (if c' = c then max 0 (used_c os c - 1) else used_c os c')"
    and limits_incr: "limit (incr os t c) = limit os" "limit_t (incr os t c) = limit_t os"
      "limit_c (incr os t c) = limit_c os"
    and limits_decr: "limit (decr os t c) = limit os" "limit_t (decr os t c) = limit_t os"
      "limit_c (decr os t c) = limit_c os"
begin

text \<open>All three ceilings are respected.\<close>

definition bounded :: "'o \<Rightarrow> bool" where
  "bounded os \<longleftrightarrow> used os \<le> limit os \<and> (\<forall>t m. limit_t os t = Some m \<longrightarrow> used_t os t \<le> m) \<and>
     (\<forall>c m. limit_c os c = Some m \<longrightarrow> used_c os c \<le> m)"

lemma bounded_incr: "bounded os \<Longrightarrow> can_start os t c \<Longrightarrow> bounded (incr os t c)"
  by (auto simp: bounded_def can_start_iff used_incr used_t_incr used_c_incr limits_incr)

lemma bounded_decr:
  assumes b: "bounded os" and pos: "1 \<le> used os" "1 \<le> used_t os t" "1 \<le> used_c os c"
  shows "bounded (decr os t c)"
proof -
  have "used_t os t - 1 \<le> m" if "limit_t os t = Some m" for m
    using b that by (force simp: bounded_def)
  moreover have "used_c os c - 1 \<le> m" if "limit_c os c = Some m" for m
    using b that by (force simp: bounded_def)
  ultimately show ?thesis
    using b pos by (auto simp: bounded_def used_decr used_t_decr used_c_decr limits_decr)
qed

lemma decr_incr_used:
  "0 \<le> used os \<Longrightarrow> used (decr (incr os t c) t c) = used os"
  by (simp add: used_incr used_decr)

lemma decr_incr_used_t:
  "0 \<le> used_t os t \<Longrightarrow> used_t (decr (incr os t c) t c) t' = used_t os t'"
  by (simp add: used_t_incr used_t_decr)

lemma incr_blocks:
  "limit os = used os + 1 \<Longrightarrow> \<not> can_start (incr os t c) t' c'"
  by (simp add: can_start_iff used_incr limits_incr)

lemma can_start_incr: "can_start (incr os t c) t' c' \<Longrightarrow> can_start os t' c'"
proof -
  assume a: "can_start (incr os t c) t' c'"
  have "used os < limit os"
    using a by (simp add: can_start_iff used_incr limits_incr)
  moreover have "used_t os t' < m" if "limit_t os t' = Some m" for m
    using a that by (auto simp: can_start_iff used_t_incr limits_incr of_bool_def split: if_splits)
  moreover have "used_c os c' < m" if "limit_c os c' = Some m" for m
    using a that by (auto simp: can_start_iff used_c_incr limits_incr of_bool_def split: if_splits)
  ultimately show ?thesis by (simp add: can_start_iff)
qed

end

definition tenant_limit :: "orch_state \<Rightarrow> string \<Rightarrow> int option" where
  "tenant_limit os t = map_option t_max_concurrent_containers (dict_get (o_tenants os) t)"

definition coworker_limit :: "orch_state \<Rightarrow> string \<Rightarrow> int option" where
  "coworker_limit os c =
     map_option (\<lambda>cw. c_max_concurrent_containers (cw_config cw)) (dict_get (o_coworkers os) c)"

lemma tenant_used_set [simp]:
  "tenant_used (os\<lparr>o_tenant_active := dict_set (o_tenant_active os) t n\<rparr>) t' =
     (if t' = t then n else tenant_used os t')"
  by (simp add: tenant_used_def)

lemma coworker_used_set [simp]:
  "coworker_used (os\<lparr>o_coworker_active := dict_set (o_coworker_active os) c n\<rparr>) c' =
     (if c' = c then n else coworker_used os c')"
  by (simp add: coworker_used_def)

lemma used_frame [simp]:
  "tenant_used (os\<lparr>o_global_active := g\<rparr>) = tenant_used os"
  "coworker_used (os\<lparr>o_global_active := g\<rparr>) = coworker_used os"
  "tenant_used (os\<lparr>o_live_containers := g\<rparr>) = tenant_used os"
  "coworker_used (os\<lparr>o_live_containers := g\<rparr>) = coworker_used os"
  "tenant_used (os\<lparr>o_coworker_active := d\<rparr>) = tenant_used os"
  "coworker_used (os\<lparr>o_tenant_active := e\<rparr>) = coworker_used os"
  by (simp_all add: tenant_used_def coworker_used_def fun_eq_iff)

interpretation adm: turn_admission can_start_container increment_active decrement_active
  o_global_active tenant_used coworker_used o_global_limit tenant_limit coworker_limit
  by unfold_locales
    (auto simp: can_start_container_def increment_active_def decrement_active_def
      tenant_limit_def coworker_limit_def tenant_used_def coworker_used_def fun_eq_iff
      split: option.splits)

text \<open>The ceilings of the configuration, spelled out on the counters.\<close>

definition within_limits :: "orch_state \<Rightarrow> bool" where
  "within_limits os \<longleftrightarrow> o_global_active os \<le> o_global_limit os \<and>
     (\<forall>t tn. dict_get (o_tenants os) t = Some tn \<longrightarrow> tenant_used os t \<le> t_max_concurrent_containers tn) \<and>
     (\<forall>c cw. dict_get (o_coworkers os) c = Some cw \<longrightarrow>
        coworker_used os c \<le> c_max_concurrent_containers (cw_config cw))"

lemma within_limits_adm: "within_limits os \<longleftrightarrow> adm.bounded os"
  by (auto simp: within_limits_def adm.bounded_def tenant_limit_def coworker_limit_def)

lemma within_limits_increment:
  "within_limits os \<Longrightarrow> can_start_container os t c \<Longrightarrow> within_limits (increment_active os t c)"
  unfolding within_limits_adm by (rule adm.bounded_incr)

lemma live_simps [simp]:
  "o_live_containers (acquire_container os) = o_live_containers os + 1"
  "o_live_containers (release_container os) = max 0 (o_live_containers os - 1)"
  "o_live_containers (increment_active os t c) = o_live_containers os"
  "o_live_containers (decrement_active os t c) = o_live_containers os"
  "o_global_active (acquire_container os) = o_global_active os"
  "o_global_active (release_container os) = o_global_active os"
  "tenant_used (acquire_container os) = tenant_used os"
  "tenant_used (release_container os) = tenant_used os"
  "coworker_used (acquire_container os) = coworker_used os"
  "coworker_used (release_container os) = coworker_used os"
  by (simp_all add: acquire_container_def release_container_def increment_active_def
      decrement_active_def)

lemma limits_frame [simp]:
  "o_global_limit (acquire_container os) = o_global_limit os"
  "o_global_limit (release_container os) = o_global_limit os"
  "o_global_limit (increment_active os t c) = o_global_limit os"
  "o_global_limit (decrement_active os t c) = o_global_limit os"
  "tenant_limit (acquire_container os) = tenant_limit os"
  "tenant_limit (release_container os) = tenant_limit os"
  "coworker_limit (acquire_container os) = coworker_limit os"
  "coworker_limit (release_container os) = coworker_limit os"
  by (simp_all add: acquire_container_def release_container_def increment_active_def
      decrement_active_def tenant_limit_def coworker_limit_def fun_eq_iff)

lemma can_start_container_live [simp]:
  "can_start_container (acquire_container os) t c = can_start_container os t c"
  "can_start_container (release_container os) t c = can_start_container os t c"
  by (simp_all add: adm.can_start_iff)

lemma within_limits_live [simp]:
  "within_limits (acquire_container os) = within_limits os"
  "within_limits (release_container os) = within_limits os"
  by (simp_all add: within_limits_adm adm.bounded_def)

end
