(* ===== verification/Scheduler.thy ===== *)
theory Scheduler
  imports Orch_State
begin

text \<open>
  The group queue of \<^verbatim>\<open>src/src/rolemesh/container/scheduler.py\<close>: per-conversation container
  concurrency under the three-level turn limits and the live-container ceiling. One definition per
  method of \<open>GroupQueue\<close>, over a state record with every field of the class.

  The event loop runs a method, and each stretch of a coroutine between two awaits, without
  interruption. \<open>_run_for_group\<close> and \<open>_run_task\<close> are therefore two definitions each, before and
  after their single await. \<open>_background_tasks\<close> is split into the coroutines that have been
  created but have not run yet (\<open>q_spawned\<close>) and those suspended at an await (\<open>q_running\<close>).
  Callbacks are represented by whether they are wired, task bodies by an opaque handle, and a
  NATS publication by the coroutine that performs it.
\<close>

section \<open>Data\<close>

definition max_retries :: int where
  "max_retries = 5"

definition base_retry_ms :: int where
  "base_retry_ms = 5000"

record queued_task =
  qt_id :: string
  qt_group_jid :: string
  qt_fn :: nat
  qt_tenant_id :: string
  qt_coworker_id :: string

text \<open>What an armed idle timer will call.\<close>

datatype idle_cb = CbRequestShutdown | CbReapAdopted

record group_state =
  g_active :: bool
  g_processing :: bool
  g_slot_held :: bool
  g_last_active_at :: int
  g_idle_waiting :: bool
  g_is_task_container :: bool
  g_running_task_id :: "string option"
  g_pending_messages :: bool
  g_pending_tasks :: "queued_task list"
  g_is_running :: bool
  g_container_name :: "string option"
  g_group_folder :: "string option"
  g_job_id :: "string option"
  g_retry_count :: int
  g_tenant_id :: string
  g_coworker_id :: string
  g_idle_handle :: "idle_cb option"
  g_awaiting_approval :: "string set"
  g_adopted :: bool
  g_missing_sweeps :: int

definition new_group :: group_state where
  "new_group =
     \<lparr>g_active = False, g_processing = False, g_slot_held = False, g_last_active_at = 0,
      g_idle_waiting = False, g_is_task_container = False, g_running_task_id = None,
      g_pending_messages = False, g_pending_tasks = [], g_is_running = False,
      g_container_name = None, g_group_folder = None, g_job_id = None, g_retry_count = 0,
      g_tenant_id = '''', g_coworker_id = '''', g_idle_handle = None, g_awaiting_approval = {},
      g_adopted = False, g_missing_sweeps = 0\<rparr>"

datatype callback = OnQueued | OnContainerStarting | OnMessagesDropped

text \<open>The coroutines the queue launches.\<close>

datatype bg_task =
    RunForGroup string string
  | RunTask string queued_task
  | Callback callback string
  | RetryTask string int
  | SendInput string string
  | SendShutdown string string
  | SendInterrupt string

record queue =
  q_groups :: "(string, group_state) dict"
  q_idle_timeout_ms :: int
  q_warm :: "(string, int) dict"
  q_waiting_groups :: "string list"
  q_process_messages_fn :: bool
  q_on_queued :: bool
  q_on_container_starting :: bool
  q_on_messages_dropped :: bool
  q_shutting_down :: bool
  q_spawned :: "bg_task list"
  q_running :: "bg_task list"
  q_transport :: bool
  q_runtime :: bool
  q_orch :: orch_state

definition new_queue :: "bool \<Rightarrow> bool \<Rightarrow> orch_state \<Rightarrow> int \<Rightarrow> queue" where
  "new_queue transport runtime os idle_timeout_ms =
     \<lparr>q_groups = [], q_idle_timeout_ms = idle_timeout_ms, q_warm = [], q_waiting_groups = [],
      q_process_messages_fn = False, q_on_queued = False, q_on_container_starting = False,
      q_on_messages_dropped = False, q_shutting_down = False, q_spawned = [], q_running = [],
      q_transport = transport, q_runtime = runtime, q_orch = os\<rparr>"

section \<open>Groups and background tasks\<close>

definition spawn :: "bg_task \<Rightarrow> queue \<Rightarrow> queue" where
  "spawn t q = q\<lparr>q_spawned := q_spawned q @ [t]\<rparr>"

text \<open>The state object of a group; a group that has none yet looks like a fresh one.\<close>

definition grp :: "queue \<Rightarrow> string \<Rightarrow> group_state" where
  "grp q jid = (case dict_get (q_groups q) jid of None \<Rightarrow> new_group | Some g \<Rightarrow> g)"

definition get_group :: "string \<Rightarrow> queue \<Rightarrow> queue" where
  "get_group jid q =
     (case dict_get (q_groups q) jid of
        None \<Rightarrow> q\<lparr>q_groups := dict_set (q_groups q) jid new_group\<rparr>
      | Some _ \<Rightarrow> q)"

text \<open>An assignment to attributes of a group's state object.\<close>

definition upd_group :: "string \<Rightarrow> (group_state \<Rightarrow> group_state) \<Rightarrow> queue \<Rightarrow> queue" where
  "upd_group jid f q = q\<lparr>q_groups := dict_set (q_groups q) jid (f (grp q jid))\<rparr>"

definition pop_warm :: "string \<Rightarrow> queue \<Rightarrow> queue" where
  "pop_warm jid q = q\<lparr>q_warm := dict_pop (q_warm q) jid\<rparr>"

definition can_start_turn :: "queue \<Rightarrow> string \<Rightarrow> string \<Rightarrow> bool" where
  "can_start_turn q tenant_id coworker_id = can_start_container (q_orch q) tenant_id coworker_id"

definition can_spawn :: "queue \<Rightarrow> bool" where
  "can_spawn q = can_spawn_container (q_orch q)"

section \<open>Slot accounting\<close>

definition acquire_turn :: "string \<Rightarrow> queue \<Rightarrow> queue" where
  "acquire_turn jid q =
     (let st = grp q jid in
      if g_slot_held st then q
      else (upd_group jid (\<lambda>g. g\<lparr>g_slot_held := True\<rparr>) q)
             \<lparr>q_orch := increment_active (q_orch q) (g_tenant_id st) (g_coworker_id st)\<rparr>)"

definition release_turn :: "string \<Rightarrow> queue \<Rightarrow> queue" where
  "release_turn jid q =
     (let st = grp q jid in
      if \<not> g_slot_held st then q
      else (upd_group jid (\<lambda>g. g\<lparr>g_slot_held := False\<rparr>) q)
             \<lparr>q_orch := decrement_active (q_orch q) (g_tenant_id st) (g_coworker_id st)\<rparr>)"

definition acquire_live :: "string \<Rightarrow> queue \<Rightarrow> queue" where
  "acquire_live jid q =
     (if g_active (grp q jid) then q
      else (upd_group jid (\<lambda>g. g\<lparr>g_active := True\<rparr>) q)\<lparr>q_orch := acquire_container (q_orch q)\<rparr>)"

definition release_live :: "string \<Rightarrow> queue \<Rightarrow> queue" where
  "release_live jid q =
     (if \<not> g_active (grp q jid) then q
      else (upd_group jid (\<lambda>g. g\<lparr>g_active := False\<rparr>) q)\<lparr>q_orch := release_container (q_orch q)\<rparr>)"

definition reserve_slot :: "string \<Rightarrow> queue \<Rightarrow> queue" where
  "reserve_slot jid q =
     (let q1 = acquire_live jid q;
          q2 = upd_group jid (\<lambda>g. g\<lparr>g_processing := True\<rparr>) q1
      in acquire_turn jid q2)"

definition set_process_messages_fn :: "queue \<Rightarrow> queue" where
  "set_process_messages_fn q = q\<lparr>q_process_messages_fn := True\<rparr>"

definition set_on_queued :: "queue \<Rightarrow> queue" where
  "set_on_queued q = q\<lparr>q_on_queued := True\<rparr>"

definition set_on_container_starting :: "queue \<Rightarrow> queue" where
  "set_on_container_starting q = q\<lparr>q_on_container_starting := True\<rparr>"

definition set_on_messages_dropped :: "queue \<Rightarrow> queue" where
  "set_on_messages_dropped q = q\<lparr>q_on_messages_dropped := True\<rparr>"

definition fire :: "bool \<Rightarrow> callback \<Rightarrow> string \<Rightarrow> queue \<Rightarrow> queue" where
  "fire wired cb jid q = (if wired then spawn (Callback cb jid) q else q)"

section \<open>Winding containers down\<close>

definition request_shutdown :: "string \<Rightarrow> queue \<Rightarrow> queue" where
  "request_shutdown jid q0 =
     (let q = get_group jid q0; st = grp q jid in
      if \<not> g_active st \<or> \<not> truthy (g_job_id st) then q
      else if \<not> q_transport q then q
      else spawn (SendShutdown jid (the (g_job_id st))) q)"

definition interrupt_current_turn :: "string \<Rightarrow> queue \<Rightarrow> queue" where
  "interrupt_current_turn jid q0 =
     (let q = get_group jid q0; st = grp q jid in
      if \<not> g_active st \<or> \<not> truthy (g_job_id st) then q
      else if \<not> q_transport q then q
      else spawn (SendInterrupt jid) q)"

definition evict_lru_warm :: "queue \<Rightarrow> queue" where
  "evict_lru_warm q =
     (case List.find (\<lambda>v. case dict_get (q_groups q) v of None \<Rightarrow> False
                         | Some st \<Rightarrow> g_active st \<and> \<not> g_processing st)
             (dict_keys (q_warm q)) of
        None \<Rightarrow> q
      | Some victim \<Rightarrow> request_shutdown victim q)"

section \<open>Enqueueing work\<close>

definition set_ids :: "string \<Rightarrow> string \<Rightarrow> group_state \<Rightarrow> group_state" where
  "set_ids tenant_id coworker_id g =
     g\<lparr>g_tenant_id := or_str tenant_id (g_tenant_id g),
       g_coworker_id := or_str coworker_id (g_coworker_id g)\<rparr>"

definition add_waiting :: "string \<Rightarrow> queue \<Rightarrow> queue" where
  "add_waiting jid q = q\<lparr>q_waiting_groups := append_new jid (q_waiting_groups q)\<rparr>"

text \<open>The eviction an over-full live-container ceiling triggers when turn admission is fine.\<close>

definition evict_if_needed :: "string \<Rightarrow> queue \<Rightarrow> queue" where
  "evict_if_needed jid q =
     (let st = grp q jid in
      if can_start_turn q (g_tenant_id st) (g_coworker_id st) \<and> \<not> can_spawn q
      then evict_lru_warm q else q)"

definition enqueue_message_check :: "string \<Rightarrow> string \<Rightarrow> string \<Rightarrow> queue \<Rightarrow> queue" where
  "enqueue_message_check jid tenant_id coworker_id q0 =
     (if q_shutting_down q0 then q0
      else
        let q = upd_group jid (set_ids tenant_id coworker_id) (get_group jid q0);
            st = grp q jid
        in
        if g_active st then upd_group jid (\<lambda>g. g\<lparr>g_pending_messages := True\<rparr>) q
        else if \<not> can_start_turn q (g_tenant_id st) (g_coworker_id st) \<or> \<not> can_spawn q then
          let q1 = upd_group jid (\<lambda>g. g\<lparr>g_pending_messages := True\<rparr>) q;
              q2 = add_waiting jid q1;
              q3 = evict_if_needed jid q2
          in fire (q_on_queued q3) OnQueued jid q3
        else spawn (RunForGroup jid ''messages'') (reserve_slot jid q))"

definition enqueue_task ::
  "string \<Rightarrow> string \<Rightarrow> nat \<Rightarrow> string \<Rightarrow> string \<Rightarrow> queue \<Rightarrow> queue" where
  "enqueue_task jid task_id fn tenant_id coworker_id q0 =
     (if q_shutting_down q0 then q0
      else
        let q = upd_group jid (set_ids tenant_id coworker_id) (get_group jid q0);
            st = grp q jid;
            task = \<lparr>qt_id = task_id, qt_group_jid = jid, qt_fn = fn,
                    qt_tenant_id = g_tenant_id st, qt_coworker_id = g_coworker_id st\<rparr>;
            push = upd_group jid (\<lambda>g. g\<lparr>g_pending_tasks := g_pending_tasks g @ [task]\<rparr>)
        in
        if g_running_task_id st = Some task_id then q
        else if \<exists>t \<in> set (g_pending_tasks st). qt_id t = task_id then q
        else if g_active st then
          let q1 = push q in
          (if g_idle_waiting st then request_shutdown jid q1 else q1)
        else if \<not> can_start_turn q (g_tenant_id st) (g_coworker_id st) \<or> \<not> can_spawn q then
          evict_if_needed jid (add_waiting jid (push q))
        else spawn (RunTask jid task) (reserve_slot jid q))"

definition register_process ::
  "string \<Rightarrow> string \<Rightarrow> string option \<Rightarrow> string option \<Rightarrow> queue \<Rightarrow> queue" where
  "register_process jid container_name group_folder job_id q =
     upd_group jid
       (\<lambda>g. g\<lparr>g_is_running := True, g_container_name := Some container_name,
              g_group_folder := (if truthy group_folder then group_folder else g_group_folder g),
              g_job_id := (if truthy job_id then job_id else g_job_id g)\<rparr>)
       (get_group jid q)"

definition get_active_container_name :: "string \<Rightarrow> queue \<Rightarrow> string option" where
  "get_active_container_name jid q =
     (case dict_get (q_groups q) jid of None \<Rightarrow> None | Some st \<Rightarrow> g_container_name st)"

section \<open>Draining\<close>

definition has_pending :: "group_state \<Rightarrow> bool" where
  "has_pending st = (g_pending_tasks st \<noteq> [] \<or> g_pending_messages st)"

text \<open>Start a group's next piece of pending work: a task before messages.\<close>

definition pop_task :: "string \<Rightarrow> queue \<Rightarrow> queue" where
  "pop_task jid = upd_group jid (\<lambda>g. g\<lparr>g_pending_tasks := tl (g_pending_tasks g)\<rparr>)"

fun drain_loop :: "string list \<Rightarrow> queue \<Rightarrow> string list \<times> queue" where
  "drain_loop [] q = ([], q)"
| "drain_loop (jid # rest) q0 =
     (let q = get_group jid q0; st = grp q jid in
      if g_active st then drain_loop rest q
      else if \<not> (can_start_turn q (g_tenant_id st) (g_coworker_id st) \<and> can_spawn q) then
        (let (remaining, q') = drain_loop rest q in (jid # remaining, q'))
      else case g_pending_tasks st of
          task # _ \<Rightarrow>
            drain_loop rest (spawn (RunTask jid task) (reserve_slot jid (pop_task jid q)))
        | [] \<Rightarrow>
            if g_pending_messages st
            then drain_loop rest (spawn (RunForGroup jid ''drain'') (reserve_slot jid q))
            else drain_loop rest q)"

definition drain_waiting :: "queue \<Rightarrow> queue" where
  "drain_waiting q =
     (let (remaining, q') = drain_loop (q_waiting_groups q) q
      in q'\<lparr>q_waiting_groups := remaining\<rparr>)"

definition drain_group :: "string \<Rightarrow> queue \<Rightarrow> queue" where
  "drain_group jid q0 =
     (if q_shutting_down q0 then q0
      else
        let q = get_group jid q0; st = grp q jid in
        if has_pending st then
          (if can_start_turn q (g_tenant_id st) (g_coworker_id st) \<and> can_spawn q then
             let q1 = reserve_slot jid q in
             (case g_pending_tasks st of
                task # _ \<Rightarrow> spawn (RunTask jid task) (pop_task jid q1)
              | [] \<Rightarrow> spawn (RunForGroup jid ''drain'') q1)
           else drain_waiting (add_waiting jid q))
        else drain_waiting q)"

section \<open>Idle timer, turn completion and approval suspension\<close>

definition cancel_idle_timer :: "string \<Rightarrow> queue \<Rightarrow> queue" where
  "cancel_idle_timer jid q = upd_group jid (\<lambda>g. g\<lparr>g_idle_handle := None\<rparr>) (get_group jid q)"

definition arm_idle_timer :: "string \<Rightarrow> queue \<Rightarrow> queue" where
  "arm_idle_timer jid q0 =
     (let q = cancel_idle_timer jid q0; st = grp q jid in
      if g_awaiting_approval st \<noteq> {} \<or> g_processing st then q
      else upd_group jid
             (\<lambda>g. g\<lparr>g_idle_handle :=
                     Some (if g_adopted g then CbReapAdopted else CbRequestShutdown)\<rparr>) q)"

definition touch_warm :: "string \<Rightarrow> int \<Rightarrow> queue \<Rightarrow> queue" where
  "touch_warm jid ts q = q\<lparr>q_warm := dict_pop (q_warm q) jid @ [(jid, ts)]\<rparr>"

definition notify_idle :: "string \<Rightarrow> int \<Rightarrow> queue \<Rightarrow> queue" where
  "notify_idle jid now q0 =
     (let q = get_group jid q0 in
      if g_awaiting_approval (grp q jid) \<noteq> {} then q
      else
        let q1 = release_turn jid q;
            q2 = upd_group jid (\<lambda>g. g\<lparr>g_processing := False, g_idle_waiting := True,
                                      g_last_active_at := now\<rparr>) q1;
            st = grp q2 jid;
            q3 = (if g_active st \<and> \<not> g_is_task_container st then touch_warm jid now q2 else q2);
            q4 = (if g_pending_tasks st \<noteq> [] then request_shutdown jid q3
                  else arm_idle_timer jid q3)
        in drain_waiting q4)"

definition suspend_for_approval :: "string \<Rightarrow> string \<Rightarrow> queue \<Rightarrow> queue" where
  "suspend_for_approval jid request_id q =
     upd_group jid
       (\<lambda>g. g\<lparr>g_idle_waiting := False,
              g_awaiting_approval := insert request_id (g_awaiting_approval g)\<rparr>)
       (cancel_idle_timer jid (get_group jid q))"

definition resume_from_approval :: "string \<Rightarrow> string \<Rightarrow> queue \<Rightarrow> bool \<times> queue" where
  "resume_from_approval jid request_id q0 =
     (let q = get_group jid q0 in
      if request_id \<notin> g_awaiting_approval (grp q jid) then (False, q)
      else
        let q1 = upd_group jid
                   (\<lambda>g. g\<lparr>g_awaiting_approval := g_awaiting_approval g - {request_id}\<rparr>) q;
            st = grp q1 jid
        in (True,
            if g_awaiting_approval st = {} \<and> \<not> g_is_task_container st
            then arm_idle_timer jid q1 else q1))"

definition is_awaiting_approval :: "string \<Rightarrow> queue \<Rightarrow> bool" where
  "is_awaiting_approval jid q =
     (case dict_get (q_groups q) jid of None \<Rightarrow> False | Some st \<Rightarrow> g_awaiting_approval st \<noteq> {})"

definition adopt_orphan_container ::
  "string \<Rightarrow> string \<Rightarrow> string \<Rightarrow> string \<Rightarrow> queue \<Rightarrow> queue" where
  "adopt_orphan_container jid job_id tenant_id coworker_id q =
     (let q1 = upd_group jid (set_ids tenant_id coworker_id) (get_group jid q);
          q2 = acquire_live jid q1
      in upd_group jid
           (\<lambda>g. g\<lparr>g_processing := False, g_is_running := True, g_is_task_container := False,
                  g_adopted := True, g_job_id := Some job_id\<rparr>) q2)"

definition reap_adopted :: "string \<Rightarrow> queue \<Rightarrow> queue" where
  "reap_adopted jid q =
     (let q1 = get_group jid (request_shutdown jid q);
          q2 = pop_warm jid (release_live jid (release_turn jid q1));
          q3 = upd_group jid
                 (\<lambda>g. g\<lparr>g_processing := False, g_is_running := False, g_adopted := False,
                        g_container_name := None, g_job_id := None, g_idle_handle := None\<rparr>) q2
      in drain_group jid q3)"

definition send_message :: "string \<Rightarrow> string \<Rightarrow> queue \<Rightarrow> bool \<times> queue" where
  "send_message jid text q0 =
     (let q = get_group jid q0; st = grp q jid in
      if \<not> g_active st \<or> \<not> truthy (g_job_id st) \<or> g_is_task_container st then (False, q)
      else if \<not> q_transport q then (False, q)
      else
        let deliver =
              (\<lambda>r. (True, spawn (SendInput jid text)
                            (upd_group jid (\<lambda>g. g\<lparr>g_idle_waiting := False\<rparr>) r)))
        in
        if g_processing st then deliver q
        else if \<not> can_start_turn q (g_tenant_id st) (g_coworker_id st) then (False, q)
        else deliver
               (upd_group jid (\<lambda>g. g\<lparr>g_processing := True\<rparr>)
                 (acquire_turn jid (pop_warm jid (cancel_idle_timer jid q)))))"

section \<open>Running containers\<close>

definition schedule_retry :: "string \<Rightarrow> queue \<Rightarrow> queue" where
  "schedule_retry jid q =
     (let n = g_retry_count (grp q jid) + 1 in
      if n > max_retries then
        let q1 = upd_group jid (\<lambda>g. g\<lparr>g_retry_count := 0\<rparr>) q
        in fire (q_on_messages_dropped q1) OnMessagesDropped jid q1
      else
        spawn (RetryTask jid (base_retry_ms * 2 ^ nat (n - 1)))
          (upd_group jid (\<lambda>g. g\<lparr>g_retry_count := n\<rparr>) q))"

definition run_for_group_begin :: "string \<Rightarrow> queue \<Rightarrow> queue" where
  "run_for_group_begin jid q =
     (let q1 = upd_group jid
                 (\<lambda>g. g\<lparr>g_idle_waiting := False, g_is_task_container := False,
                        g_pending_messages := False\<rparr>) (get_group jid q);
          q2 = reserve_slot jid (cancel_idle_timer jid q1)
      in fire (q_on_container_starting q2) OnContainerStarting jid q2)"

text \<open>How the awaited \<open>_process_messages_fn\<close> (or its absence) ends.\<close>

datatype outcome = NoFn | Success | Failure | Raised | Cancelled

definition run_for_group_end :: "outcome \<Rightarrow> string \<Rightarrow> queue \<Rightarrow> queue" where
  "run_for_group_end out jid q =
     (let q1 = (case out of
                  Success \<Rightarrow> upd_group jid (\<lambda>g. g\<lparr>g_retry_count := 0\<rparr>) q
                | Failure \<Rightarrow> schedule_retry jid q
                | Raised \<Rightarrow> schedule_retry jid q
                | _ \<Rightarrow> q);
          q2 = pop_warm jid (release_live jid (release_turn jid q1));
          q3 = upd_group jid
                 (\<lambda>g. g\<lparr>g_processing := False, g_is_running := False, g_container_name := None,
                        g_group_folder := None, g_job_id := None\<rparr>) q2
      in drain_group jid q3)"

definition run_task_begin :: "string \<Rightarrow> queued_task \<Rightarrow> queue \<Rightarrow> queue" where
  "run_task_begin jid task q =
     (let q1 = upd_group jid
                 (\<lambda>g. g\<lparr>g_idle_waiting := False, g_is_task_container := True,
                        g_running_task_id := Some (qt_id task)\<rparr>) (get_group jid q)
      in reserve_slot jid (cancel_idle_timer jid q1))"

definition run_task_end :: "string \<Rightarrow> queue \<Rightarrow> queue" where
  "run_task_end jid q =
     (let q2 = pop_warm jid (release_live jid (release_turn jid q));
          q3 = upd_group jid
                 (\<lambda>g. g\<lparr>g_processing := False, g_is_task_container := False,
                        g_running_task_id := None, g_is_running := False,
                        g_container_name := None, g_group_folder := None, g_job_id := None\<rparr>) q2
      in drain_group jid q3)"

section \<open>The out-of-band reaper and shutdown\<close>

definition reap_ghost :: "string \<Rightarrow> queue \<Rightarrow> queue" where
  "reap_ghost jid q =
     (let q1 = pop_warm jid (release_live jid (release_turn jid (get_group jid q)));
          q2 = cancel_idle_timer jid q1;
          q3 = upd_group jid
                 (\<lambda>g. g\<lparr>g_processing := False, g_is_running := False,
                        g_is_task_container := False, g_running_task_id := None,
                        g_container_name := None, g_job_id := None, g_missing_sweeps := 0\<rparr>) q2
      in drain_group jid q3)"

fun sweep_loop :: "string set \<Rightarrow> string list \<Rightarrow> queue \<Rightarrow> int \<times> queue" where
  "sweep_loop live [] q = (0, q)"
| "sweep_loop live (jid # rest) q =
     (let st = grp q jid in
      if \<not> g_active st then
        sweep_loop live rest (upd_group jid (\<lambda>g. g\<lparr>g_missing_sweeps := 0\<rparr>) q)
      else if truthy (g_container_name st) \<and> the (g_container_name st) \<in> live then
        sweep_loop live rest (upd_group jid (\<lambda>g. g\<lparr>g_missing_sweeps := 0\<rparr>) q)
      else if g_container_name st = None then sweep_loop live rest q
      else
        let n = g_missing_sweeps st + 1;
            q1 = upd_group jid (\<lambda>g. g\<lparr>g_missing_sweeps := n\<rparr>) q
        in
        if n < 2 then sweep_loop live rest q1
        else let (reaped, q2) = sweep_loop live rest (reap_ghost jid q1) in (reaped + 1, q2))"

text \<open>
  \<open>reconcile_once\<close>: the guard is read when the call starts (\<open>entry\<close>), the sweep runs on the state
  at the time \<open>list_live\<close> returns; \<open>None\<close> is a \<open>list_live\<close> that failed.
\<close>

definition reconcile_once :: "queue \<Rightarrow> string set option \<Rightarrow> queue \<Rightarrow> int \<times> queue" where
  "reconcile_once entry live q =
     (if q_shutting_down entry \<or> \<not> q_runtime entry then (0, q)
      else case live of
          None \<Rightarrow> (0, q)
        | Some names \<Rightarrow> sweep_loop names (dict_keys (q_groups q)) q)"

text \<open>The containers \<open>shutdown\<close> stops, in order, and the state it leaves.\<close>

definition shutdown :: "queue \<Rightarrow> string list \<times> queue" where
  "shutdown q =
     (let names = map (\<lambda>g. the (g_container_name g))
                    (filter (\<lambda>g. g_is_running g \<and> truthy (g_container_name g))
                      (map snd (q_groups q)))
      in (if q_runtime q then names else [], q\<lparr>q_shutting_down := True\<rparr>))"

end
