(* ===== verification/Scheduler_Inv.thy ===== *)
theory Scheduler_Inv
  imports Scheduler
begin

text \<open>
  The invariants of the group queue: the counters equal what the groups hold (\<open>acct\<close>), and the
  per-group discipline (\<open>gok\<close>) that ties flags, warm pool, waiting list and runners together.
  The effect of every primitive on the group table and its frame are simplification rules, so that
  each operation is handled by a few lines.
\<close>

section \<open>Effect of the primitives\<close>

lemma grp_get_group [simp]: "grp (get_group j q) = grp q"
  by (auto simp: grp_def get_group_def fun_eq_iff split: option.splits)

lemma grp_upd_group [simp]: "grp (upd_group j f q) = (grp q)(j := f (grp q j))"
  by (auto simp: grp_def upd_group_def fun_eq_iff)

lemma grp_frame [simp]:
  "grp (q\<lparr>q_warm := w\<rparr>) = grp q"
  "grp (q\<lparr>q_waiting_groups := ws\<rparr>) = grp q"
  "grp (q\<lparr>q_spawned := ts\<rparr>) = grp q"
  "grp (q\<lparr>q_running := ts\<rparr>) = grp q"
  "grp (q\<lparr>q_shutting_down := b\<rparr>) = grp q"
  "grp (q\<lparr>q_orch := os\<rparr>) = grp q"
  by (simp_all add: grp_def fun_eq_iff)

lemma get_group_frame [simp]:
  "q_warm (get_group j q) = q_warm q" "q_waiting_groups (get_group j q) = q_waiting_groups q"
  "q_spawned (get_group j q) = q_spawned q" "q_running (get_group j q) = q_running q"
  "q_shutting_down (get_group j q) = q_shutting_down q" "q_orch (get_group j q) = q_orch q"
  "q_transport (get_group j q) = q_transport q"
  by (simp_all add: get_group_def split: option.split)

lemma upd_group_frame [simp]:
  "q_warm (upd_group j f q) = q_warm q"
  "q_waiting_groups (upd_group j f q) = q_waiting_groups q"
  "q_spawned (upd_group j f q) = q_spawned q" "q_running (upd_group j f q) = q_running q"
  "q_shutting_down (upd_group j f q) = q_shutting_down q" "q_orch (upd_group j f q) = q_orch q"
  "q_transport (upd_group j f q) = q_transport q"
  by (simp_all add: upd_group_def)

lemma spawn_frame [simp]:
  "grp (spawn t q) = grp q" "q_warm (spawn t q) = q_warm q"
  "q_waiting_groups (spawn t q) = q_waiting_groups q" "q_running (spawn t q) = q_running q"
  "q_shutting_down (spawn t q) = q_shutting_down q" "q_orch (spawn t q) = q_orch q"
  "q_spawned (spawn t q) = q_spawned q @ [t]"
  by (simp_all add: spawn_def)

lemma pop_warm_frame [simp]:
  "grp (pop_warm j q) = grp q" "q_warm (pop_warm j q) = dict_pop (q_warm q) j"
  "q_waiting_groups (pop_warm j q) = q_waiting_groups q" "q_running (pop_warm j q) = q_running q"
  "q_shutting_down (pop_warm j q) = q_shutting_down q" "q_orch (pop_warm j q) = q_orch q"
  "q_spawned (pop_warm j q) = q_spawned q"
  by (simp_all add: pop_warm_def)

lemma add_waiting_frame [simp]:
  "grp (add_waiting j q) = grp q" "q_warm (add_waiting j q) = q_warm q"
  "q_waiting_groups (add_waiting j q) = append_new j (q_waiting_groups q)"
  "q_running (add_waiting j q) = q_running q"
  "q_shutting_down (add_waiting j q) = q_shutting_down q" "q_orch (add_waiting j q) = q_orch q"
  "q_spawned (add_waiting j q) = q_spawned q"
  by (simp_all add: add_waiting_def)

lemma grp_acquire_turn [simp]:
  "grp (acquire_turn j q) = (grp q)(j := (grp q j)\<lparr>g_slot_held := True\<rparr>)"
  by (auto simp: acquire_turn_def Let_def fun_eq_iff)

lemma grp_release_turn [simp]:
  "grp (release_turn j q) = (grp q)(j := (grp q j)\<lparr>g_slot_held := False\<rparr>)"
  by (auto simp: release_turn_def Let_def fun_eq_iff)

lemma grp_acquire_live [simp]:
  "grp (acquire_live j q) = (grp q)(j := (grp q j)\<lparr>g_active := True\<rparr>)"
  by (auto simp: acquire_live_def fun_eq_iff)

lemma grp_release_live [simp]:
  "grp (release_live j q) = (grp q)(j := (grp q j)\<lparr>g_active := False\<rparr>)"
  by (auto simp: release_live_def fun_eq_iff)

lemma turn_frame [simp]:
  "q_warm (acquire_turn j q) = q_warm q" "q_warm (release_turn j q) = q_warm q"
  "q_waiting_groups (acquire_turn j q) = q_waiting_groups q"
  "q_waiting_groups (release_turn j q) = q_waiting_groups q"
  "q_spawned (acquire_turn j q) = q_spawned q" "q_spawned (release_turn j q) = q_spawned q"
  "q_running (acquire_turn j q) = q_running q" "q_running (release_turn j q) = q_running q"
  "q_shutting_down (acquire_turn j q) = q_shutting_down q"
  "q_shutting_down (release_turn j q) = q_shutting_down q"
  by (simp_all add: acquire_turn_def release_turn_def Let_def)

lemma live_frame [simp]:
  "q_warm (acquire_live j q) = q_warm q" "q_warm (release_live j q) = q_warm q"
  "q_waiting_groups (acquire_live j q) = q_waiting_groups q"
  "q_waiting_groups (release_live j q) = q_waiting_groups q"
  "q_spawned (acquire_live j q) = q_spawned q" "q_spawned (release_live j q) = q_spawned q"
  "q_running (acquire_live j q) = q_running q" "q_running (release_live j q) = q_running q"
  "q_shutting_down (acquire_live j q) = q_shutting_down q"
  "q_shutting_down (release_live j q) = q_shutting_down q"
  by (simp_all add: acquire_live_def release_live_def)

lemma reserve_frame [simp]:
  "grp (reserve_slot j q) =
     (grp q)(j := (grp q j)\<lparr>g_active := True, g_processing := True, g_slot_held := True\<rparr>)"
  "q_warm (reserve_slot j q) = q_warm q"
  "q_waiting_groups (reserve_slot j q) = q_waiting_groups q"
  "q_spawned (reserve_slot j q) = q_spawned q" "q_running (reserve_slot j q) = q_running q"
  "q_shutting_down (reserve_slot j q) = q_shutting_down q"
  by (simp_all add: reserve_slot_def Let_def)

lemma pop_task_frame [simp]:
  "grp (pop_task j q) = (grp q)(j := (grp q j)\<lparr>g_pending_tasks := tl (g_pending_tasks (grp q j))\<rparr>)"
  "q_warm (pop_task j q) = q_warm q" "q_waiting_groups (pop_task j q) = q_waiting_groups q"
  "q_spawned (pop_task j q) = q_spawned q" "q_running (pop_task j q) = q_running q"
  "q_shutting_down (pop_task j q) = q_shutting_down q" "q_orch (pop_task j q) = q_orch q"
  by (simp_all add: pop_task_def)

lemma cancel_frame [simp]:
  "grp (cancel_idle_timer j q) = (grp q)(j := (grp q j)\<lparr>g_idle_handle := None\<rparr>)"
  "q_warm (cancel_idle_timer j q) = q_warm q"
  "q_waiting_groups (cancel_idle_timer j q) = q_waiting_groups q"
  "q_spawned (cancel_idle_timer j q) = q_spawned q"
  "q_running (cancel_idle_timer j q) = q_running q"
  "q_shutting_down (cancel_idle_timer j q) = q_shutting_down q"
  "q_orch (cancel_idle_timer j q) = q_orch q"
  by (simp_all add: cancel_idle_timer_def)

lemma touch_warm_frame [simp]:
  "grp (touch_warm j n q) = grp q" "q_warm (touch_warm j n q) = dict_pop (q_warm q) j @ [(j, n)]"
  "q_waiting_groups (touch_warm j n q) = q_waiting_groups q"
  "q_running (touch_warm j n q) = q_running q"
  "q_shutting_down (touch_warm j n q) = q_shutting_down q" "q_orch (touch_warm j n q) = q_orch q"
  "q_spawned (touch_warm j n q) = q_spawned q"
  by (simp_all add: touch_warm_def)

section \<open>Runners\<close>

text \<open>A runner is a coroutine that owns a group's container from spawn to exit.\<close>

fun runner_jid :: "bg_task \<Rightarrow> string option" where
  "runner_jid (RunForGroup j r) = Some j"
| "runner_jid (RunTask j t) = Some j"
| "runner_jid _ = None"

definition n_runners :: "bg_task list \<Rightarrow> string \<Rightarrow> nat" where
  "n_runners ts j = length (filter (\<lambda>t. runner_jid t = Some j) ts)"

lemma n_runners_simps [simp]:
  "n_runners [] j = 0"
  "n_runners (t # ts) j = of_bool (runner_jid t = Some j) + n_runners ts j"
  "n_runners (ts @ us) j = n_runners ts j + n_runners us j"
  by (simp_all add: n_runners_def)

lemma n_runners_remove1:
  "t \<in> set ts \<Longrightarrow> n_runners ts j = of_bool (runner_jid t = Some j) + n_runners (remove1 t ts) j"
  by (induction ts) auto

text \<open>Launching a coroutine that is no runner changes nothing the invariants look at.\<close>

definition same_core :: "queue \<Rightarrow> queue \<Rightarrow> bool" where
  "same_core q q' \<longleftrightarrow> grp q' = grp q \<and> q_warm q' = q_warm q \<and>
     q_waiting_groups q' = q_waiting_groups q \<and> n_runners (q_spawned q') = n_runners (q_spawned q) \<and>
     n_runners (q_running q') = n_runners (q_running q) \<and>
     q_shutting_down q' = q_shutting_down q \<and> q_orch q' = q_orch q"

lemma same_core_refl [simp]: "same_core q q"
  by (simp add: same_core_def)

lemma same_core_get_group [simp]: "same_core q (get_group j q)"
  by (simp add: same_core_def)

lemma same_core_spawn: "runner_jid t = None \<Longrightarrow> same_core q (spawn t q)"
  by (simp add: same_core_def fun_eq_iff)

lemma same_core_trans: "same_core q q' \<Longrightarrow> same_core q' q'' \<Longrightarrow> same_core q q''"
  by (simp add: same_core_def)

lemma same_core_request_shutdown [simp]: "same_core q (request_shutdown j q)"
  by (simp add: same_core_def request_shutdown_def Let_def fun_eq_iff)

lemma same_core_interrupt [simp]: "same_core q (interrupt_current_turn j q)"
  by (simp add: same_core_def interrupt_current_turn_def Let_def fun_eq_iff)

lemma same_core_evict_lru_warm [simp]: "same_core q (evict_lru_warm q)"
  by (simp add: evict_lru_warm_def split: option.split)

lemma same_core_evict_if_needed [simp]: "same_core q (evict_if_needed j q)"
  by (simp add: evict_if_needed_def Let_def)

lemma same_core_fire [simp]: "same_core q (fire w cb j q)"
  by (simp add: fire_def same_core_spawn)

section \<open>The counters are exact\<close>

abbreviation held_t :: "string \<Rightarrow> group_state \<Rightarrow> bool" where
  "held_t t \<equiv> \<lambda>g. g_slot_held g \<and> g_tenant_id g = t"

abbreviation held_c :: "string \<Rightarrow> group_state \<Rightarrow> bool" where
  "held_c c \<equiv> \<lambda>g. g_slot_held g \<and> g_coworker_id g = c"

definition acct :: "queue \<Rightarrow> bool" where
  "acct q \<longleftrightarrow> o_global_active (q_orch q) = cnt g_slot_held (grp q) \<and>
     (\<forall>t. tenant_used (q_orch q) t = cnt (held_t t) (grp q)) \<and>
     (\<forall>c. coworker_used (q_orch q) c = cnt (held_c c) (grp q)) \<and>
     o_live_containers (q_orch q) = cnt g_active (grp q)"

lemma finite_groups:
  assumes "\<not> P new_group"
  shows "finite {j. P (grp q j)}"
proof (rule finite_subset)
  show "{j. P (grp q j)} \<subseteq> {j. dict_get (q_groups q) j \<noteq> None}"
    using assms by (auto simp: grp_def split: option.splits)
  show "finite {j. dict_get (q_groups q) j \<noteq> None}" by (rule dct.finite_dom)
qed

lemma new_group_flags [simp]:
  "\<not> g_slot_held new_group" "\<not> g_active new_group" "g_container_name new_group = None"
  by (simp_all add: new_group_def)

lemma cnt_grp_upd [simp]:
  "\<not> P new_group \<Longrightarrow>
   cnt P ((grp q)(j := g)) = cnt P (grp q) + of_bool (P g) - of_bool (P (grp q j))"
  by (rule cnt_fun_upd) (rule finite_groups)

lemma cnt_grp_pos: "\<not> P new_group \<Longrightarrow> P (grp q j) \<Longrightarrow> 1 \<le> cnt P (grp q)"
  by (rule cnt_pos [where k = j]) (simp_all add: finite_groups)

text \<open>The part of a group's state the counters depend on.\<close>

definition acct_key :: "group_state \<Rightarrow> bool \<times> bool \<times> (string \<times> string) option" where
  "acct_key g = (g_slot_held g, g_active g,
     if g_slot_held g then Some (g_tenant_id g, g_coworker_id g) else None)"

lemma acct_key_upd [simp]:
  "acct_key (g\<lparr>g_processing := v0\<rparr>) = acct_key g"
  "acct_key (g\<lparr>g_last_active_at := v1\<rparr>) = acct_key g"
  "acct_key (g\<lparr>g_idle_waiting := v2\<rparr>) = acct_key g"
  "acct_key (g\<lparr>g_is_task_container := v3\<rparr>) = acct_key g"
  "acct_key (g\<lparr>g_running_task_id := v4\<rparr>) = acct_key g"
  "acct_key (g\<lparr>g_pending_messages := v5\<rparr>) = acct_key g"
  "acct_key (g\<lparr>g_pending_tasks := v6\<rparr>) = acct_key g"
  "acct_key (g\<lparr>g_is_running := v7\<rparr>) = acct_key g"
  "acct_key (g\<lparr>g_container_name := v8\<rparr>) = acct_key g"
  "acct_key (g\<lparr>g_group_folder := v9\<rparr>) = acct_key g"
  "acct_key (g\<lparr>g_job_id := v10\<rparr>) = acct_key g"
  "acct_key (g\<lparr>g_retry_count := v11\<rparr>) = acct_key g"
  "acct_key (g\<lparr>g_idle_handle := v12\<rparr>) = acct_key g"
  "acct_key (g\<lparr>g_awaiting_approval := v13\<rparr>) = acct_key g"
  "acct_key (g\<lparr>g_adopted := v14\<rparr>) = acct_key g"
  "acct_key (g\<lparr>g_missing_sweeps := v15\<rparr>) = acct_key g"
  by (simp_all add: acct_key_def)

lemma acct_cong:
  assumes "\<And>j. acct_key (grp q' j) = acct_key (grp q j)" and "q_orch q' = q_orch q"
  shows "acct q' \<longleftrightarrow> acct q"
proof -
  have held: "g_slot_held (grp q' j) = g_slot_held (grp q j)"
    and act: "g_active (grp q' j) = g_active (grp q j)" for j
    using assms(1) [of j] by (simp_all add: acct_key_def)
  have ids: "g_tenant_id (grp q' j) = g_tenant_id (grp q j) \<and>
      g_coworker_id (grp q' j) = g_coworker_id (grp q j)" if "g_slot_held (grp q j)" for j
    using assms(1) [of j] that by (simp add: acct_key_def split: if_splits)
  have "cnt g_slot_held (grp q') = cnt g_slot_held (grp q)"
    and "cnt g_active (grp q') = cnt g_active (grp q)"
    and "\<And>t. cnt (held_t t) (grp q') = cnt (held_t t) (grp q)"
    and "\<And>c. cnt (held_c c) (grp q') = cnt (held_c c) (grp q)"
    using held act ids by (auto intro!: cnt_cong)
  then show ?thesis using assms(2) by (simp add: acct_def)
qed

lemma acct_same_core: "same_core q q' \<Longrightarrow> acct q' \<longleftrightarrow> acct q"
  by (rule acct_cong) (simp_all add: same_core_def)

lemma acct_upd [acct_intros]:
  "acct q \<Longrightarrow> acct_key (f (grp q j)) = acct_key (grp q j) \<Longrightarrow> acct (upd_group j f q)"
  by (subst acct_cong [where q = q]) auto

lemma acct_frame [simp]:
  "acct (get_group j q) = acct q" "acct (pop_warm j q) = acct q" "acct (spawn t q) = acct q"
  "acct (add_waiting j q) = acct q" "acct (touch_warm j n q) = acct q"
  "acct (pop_task j q) = acct q" "acct (cancel_idle_timer j q) = acct q"
  "acct (q\<lparr>q_waiting_groups := ws\<rparr>) = acct q" "acct (q\<lparr>q_spawned := ts\<rparr>) = acct q"
  "acct (q\<lparr>q_running := ts\<rparr>) = acct q" "acct (q\<lparr>q_shutting_down := b\<rparr>) = acct q"
  by (rule acct_cong; simp add: acct_key_def)+

lemma acct_acquire_turn [acct_intros]: "acct q \<Longrightarrow> acct (acquire_turn j q)"
  unfolding acct_def
  by (auto simp: acquire_turn_def Let_def adm.used_incr adm.used_t_incr adm.used_c_incr)

lemma acct_acquire_live [acct_intros]: "acct q \<Longrightarrow> acct (acquire_live j q)"
  unfolding acct_def by (auto simp: acquire_live_def)

lemma acct_held_pos:
  assumes "acct q" and "g_slot_held (grp q j)"
  shows "1 \<le> o_global_active (q_orch q)" "1 \<le> tenant_used (q_orch q) (g_tenant_id (grp q j))"
    "1 \<le> coworker_used (q_orch q) (g_coworker_id (grp q j))"
  using assms cnt_grp_pos [of g_slot_held q j] cnt_grp_pos [of "held_t (g_tenant_id (grp q j))" q j]
    cnt_grp_pos [of "held_c (g_coworker_id (grp q j))" q j]
  by (auto simp: acct_def)

lemma acct_live_pos: "acct q \<Longrightarrow> g_active (grp q j) \<Longrightarrow> 1 \<le> o_live_containers (q_orch q)"
  using cnt_grp_pos [of g_active q j] by (auto simp: acct_def)

lemma acct_release_turn [acct_intros]: "acct q \<Longrightarrow> acct (release_turn j q)"
  using acct_held_pos [of q j] unfolding acct_def
  by (auto simp: release_turn_def Let_def adm.used_decr adm.used_t_decr adm.used_c_decr)

lemma acct_release_live [acct_intros]: "acct q \<Longrightarrow> acct (release_live j q)"
  using acct_live_pos [of q j] unfolding acct_def by (auto simp: release_live_def)

lemma acct_reserve_slot [acct_intros]: "acct q \<Longrightarrow> acct (reserve_slot j q)"
  unfolding reserve_slot_def Let_def by (intro acct_intros) (simp_all add: acct_key_def)

text \<open>The compound operations keep the counters exact, for any state and any arguments.\<close>

lemma can_start_frame [simp]:
  "can_start_turn (get_group j q) = can_start_turn q" "can_spawn (get_group j q) = can_spawn q"
  "can_start_turn (pop_task j q) = can_start_turn q" "can_spawn (pop_task j q) = can_spawn q"
  "can_start_turn (upd_group j f q) = can_start_turn q" "can_spawn (upd_group j f q) = can_spawn q"
  by (simp_all add: can_start_turn_def can_spawn_def fun_eq_iff)

text \<open>
  One round of the drain: the group is skipped because it has a container or nothing to do, stays
  queued because the limits refuse it, or is started on its first pending piece of work.
\<close>

lemma drain_loop_Cons_cases:
  obtains
    (skip) "drain_loop (j # ws) q = drain_loop ws (get_group j q)"
      "g_active (grp q j) \<or> \<not> has_pending (grp q j)"
  | (blocked) "drain_loop (j # ws) q =
        (j # fst (drain_loop ws (get_group j q)), snd (drain_loop ws (get_group j q)))"
      "\<not> (can_start_turn q (g_tenant_id (grp q j)) (g_coworker_id (grp q j)) \<and> can_spawn q)"
      "\<not> g_active (grp q j)"
  | (start) t q1 where "drain_loop (j # ws) q = drain_loop ws (spawn t (reserve_slot j q1))"
      "runner_jid t = Some j" "\<not> g_active (grp q j)"
      "can_start_turn q (g_tenant_id (grp q j)) (g_coworker_id (grp q j))" "can_spawn q"
      "q1 = get_group j q \<or> q1 = pop_task j (get_group j q)"
proof (cases "g_active (grp q j)")
  case True
  then show ?thesis by (intro skip) (simp_all add: Let_def)
next
  case False
  show ?thesis
  proof (cases "can_start_turn q (g_tenant_id (grp q j)) (g_coworker_id (grp q j)) \<and> can_spawn q")
    case adm: True
    show ?thesis
    proof (cases "g_pending_tasks (grp q j)")
      case Nil
      show ?thesis
      proof (cases "g_pending_messages (grp q j)")
        case True
        then show ?thesis
          using False adm Nil by (intro start [of "RunForGroup j ''drain''"]) (auto simp: Let_def)
      next
        case no_msg: False
        then show ?thesis
          using False adm Nil by (intro skip) (simp_all add: Let_def has_pending_def)
      qed
    next
      case (Cons t ts)
      then show ?thesis
        using False adm by (intro start [of "RunTask j t"]) (auto simp: Let_def)
    qed
  next
    case blk: False
    then show ?thesis
      using False by (intro blocked) (auto simp: Let_def split: prod.split)
  qed
qed

declare drain_loop.simps(2) [simp del]

lemma acct_drain_loop: "acct q \<Longrightarrow> acct (snd (drain_loop ws q))"
proof (induction ws arbitrary: q)
  case (Cons j ws)
  show ?case
    by (cases rule: drain_loop_Cons_cases [where j = j and ws = ws and q = q])
      (use Cons in \<open>auto simp: acct_reserve_slot\<close>)
qed simp

lemma acct_drain_waiting [acct_intros]: "acct q \<Longrightarrow> acct (drain_waiting q)"
  using acct_drain_loop [of q "q_waiting_groups q"]
  by (auto simp: drain_waiting_def split: prod.split)

lemma acct_drain_group [acct_intros]: "acct q \<Longrightarrow> acct (drain_group j q)"
  by (auto simp: drain_group_def Let_def intro!: acct_intros split: list.split)

lemma acct_arm_idle_timer [acct_intros]: "acct q \<Longrightarrow> acct (arm_idle_timer j q)"
  by (auto simp: arm_idle_timer_def Let_def intro!: acct_intros)

lemma acct_same_core_simps [simp]:
  "acct (request_shutdown j q) = acct q" "acct (interrupt_current_turn j q) = acct q"
  "acct (evict_if_needed j q) = acct q" "acct (fire w cb j q) = acct q"
  by (rule acct_same_core; simp)+

text \<open>
  The identifiers of a group must not change while it holds a turn slot or has pending work: a
  release is booked on the identifiers current at that time, and the drain admits pending work
  under them. Callers always pass the same pair for a conversation.
\<close>

definition ids_stable :: "string \<Rightarrow> string \<Rightarrow> string \<Rightarrow> queue \<Rightarrow> bool" where
  "ids_stable j t c q \<longleftrightarrow>
     (g_slot_held (grp q j) \<or> has_pending (grp q j) \<longrightarrow>
        t \<in> {'''', g_tenant_id (grp q j)} \<and> c \<in> {'''', g_coworker_id (grp q j)})"

lemma acct_set_ids: "acct q \<Longrightarrow> ids_stable j t c q \<Longrightarrow> acct (upd_group j (set_ids t c) q)"
  by (rule acct_upd) (auto simp: acct_key_def set_ids_def ids_stable_def)

lemma acct_enqueue_message:
  assumes "acct q" "ids_stable j t c q"
  shows "acct (enqueue_message_check j t c q)"
proof -
  have "acct (upd_group j (set_ids t c) (get_group j q))"
    using assms by (intro acct_set_ids) (simp_all add: ids_stable_def)
  then show ?thesis
    using assms(1) by (auto simp: enqueue_message_check_def Let_def intro!: acct_intros)
qed

lemma acct_enqueue_task:
  assumes "acct q" "ids_stable j t c q"
  shows "acct (enqueue_task j tid fn t c q)"
proof -
  have "acct (upd_group j (set_ids t c) (get_group j q))"
    using assms by (intro acct_set_ids) (simp_all add: ids_stable_def)
  then show ?thesis
    using assms(1) by (auto simp: enqueue_task_def Let_def intro!: acct_intros)
qed

lemma acct_register [acct_intros]: "acct q \<Longrightarrow> acct (register_process j n f jb q)"
  by (auto simp: register_process_def intro!: acct_intros)

lemma acct_notify_idle [acct_intros]: "acct q \<Longrightarrow> acct (notify_idle j now q)"
  by (auto simp: notify_idle_def Let_def intro!: acct_intros)

lemma acct_suspend [acct_intros]: "acct q \<Longrightarrow> acct (suspend_for_approval j r q)"
  by (auto simp: suspend_for_approval_def intro!: acct_intros)

lemma acct_resume [acct_intros]: "acct q \<Longrightarrow> acct (snd (resume_from_approval j r q))"
  by (auto simp: resume_from_approval_def Let_def intro!: acct_intros)

lemma acct_adopt:
  assumes "acct q" "ids_stable j t c q"
  shows "acct (adopt_orphan_container j job t c q)"
proof -
  have "acct (upd_group j (set_ids t c) (get_group j q))"
    using assms by (intro acct_set_ids) (simp_all add: ids_stable_def)
  then show ?thesis
    by (auto simp: adopt_orphan_container_def Let_def intro!: acct_intros)
qed

lemma acct_reap_adopted [acct_intros]: "acct q \<Longrightarrow> acct (reap_adopted j q)"
  by (auto simp: reap_adopted_def Let_def intro!: acct_intros)

lemma acct_send_message [acct_intros]: "acct q \<Longrightarrow> acct (snd (send_message j txt q))"
  by (auto simp: send_message_def Let_def intro!: acct_intros)

lemma acct_schedule_retry [acct_intros]: "acct q \<Longrightarrow> acct (schedule_retry j q)"
  by (auto simp: schedule_retry_def Let_def intro!: acct_intros)

lemma acct_run_for_group_begin [acct_intros]: "acct q \<Longrightarrow> acct (run_for_group_begin j q)"
  by (auto simp: run_for_group_begin_def Let_def intro!: acct_intros)

lemma acct_run_for_group_end [acct_intros]: "acct q \<Longrightarrow> acct (run_for_group_end out j q)"
  by (auto simp: run_for_group_end_def Let_def intro!: acct_intros split: outcome.split)

lemma acct_run_task_begin [acct_intros]: "acct q \<Longrightarrow> acct (run_task_begin j t q)"
  by (auto simp: run_task_begin_def Let_def intro!: acct_intros)

lemma acct_run_task_end [acct_intros]: "acct q \<Longrightarrow> acct (run_task_end j q)"
  by (auto simp: run_task_end_def Let_def intro!: acct_intros)

lemma acct_reap_ghost [acct_intros]: "acct q \<Longrightarrow> acct (reap_ghost j q)"
  by (auto simp: reap_ghost_def Let_def intro!: acct_intros)

lemma acct_sweep_loop: "acct q \<Longrightarrow> acct (snd (sweep_loop live js q))"
proof (induction live js q rule: sweep_loop.induct)
  case (1 live q)
  then show ?case by simp
next
  case (2 live j js q)
  have upd: "acct (upd_group j (\<lambda>g. g\<lparr>g_missing_sweeps := n\<rparr>) q)" for n
    using "2.prems" by (intro acct_intros) simp_all
  then show ?case
    using "2" by (auto simp: Let_def acct_reap_ghost split: prod.split)
qed

lemma acct_reconcile [acct_intros]: "acct q \<Longrightarrow> acct (snd (reconcile_once entry live q))"
  by (auto simp: reconcile_once_def acct_sweep_loop split: option.split)

lemma acct_shutdown [acct_intros]: "acct q \<Longrightarrow> acct (snd (shutdown q))"
  by (simp add: shutdown_def Let_def)

end
