(* ===== verification/Scheduler_Disc.thy ===== *)
theory Scheduler_Disc
  imports Scheduler_Inv
begin

text \<open>
  The discipline of the group queue. \<open>flags_ok\<close> relates the flags of one group; \<open>link_ok\<close> relates
  a group to the waiting list, the warm pool and the runners; \<open>discW\<close> adds the configured limits.
  The set \<open>W\<close> stands for the groups that are known to be queued, which differs from the waiting
  list only while a drain is under way. Each operation preserves the discipline; the premises say
  what its caller guarantees.
\<close>

section \<open>The invariant\<close>

definition flags_ok :: "group_state \<Rightarrow> bool" where
  "flags_ok g \<longleftrightarrow>
     (g_slot_held g \<longleftrightarrow> g_processing g) \<and> (g_slot_held g \<longrightarrow> g_active g) \<and>
     (g_awaiting_approval g \<noteq> {} \<longrightarrow> g_idle_handle g = None \<and> \<not> g_idle_waiting g) \<and>
     0 \<le> g_retry_count g \<and> g_retry_count g \<le> max_retries \<and>
     (\<not> g_active g \<longrightarrow> g_container_name g = None) \<and>
     (g_adopted g \<longrightarrow> g_active g \<and> g_container_name g = None) \<and>
     (g_idle_handle g = Some CbReapAdopted \<longrightarrow> g_adopted g)"

definition link_ok :: "queue \<Rightarrow> string set \<Rightarrow> string \<Rightarrow> bool" where
  "link_ok q W j \<longleftrightarrow>
     (\<not> g_active (grp q j) \<and> has_pending (grp q j) \<longrightarrow> j \<in> W \<or> q_shutting_down q) \<and>
     (j \<in> set (dict_keys (q_warm q)) \<longrightarrow> g_active (grp q j) \<and> \<not> g_processing (grp q j)) \<and>
     n_runners (q_spawned q) j + n_runners (q_running q) j \<le> 1 \<and>
     (0 < n_runners (q_spawned q) j \<longrightarrow> g_slot_held (grp q j)) \<and>
     (0 < n_runners (q_running q) j \<longrightarrow> g_active (grp q j)) \<and>
     (g_adopted (grp q j) \<longrightarrow> n_runners (q_spawned q) j + n_runners (q_running q) j = 0)"

definition discW :: "string set \<Rightarrow> queue \<Rightarrow> bool" where
  "discW W q \<longleftrightarrow> within_limits (q_orch q) \<and> (\<forall>j. flags_ok (grp q j) \<and> link_ok q W j)"

definition disc :: "queue \<Rightarrow> bool" where
  "disc q \<longleftrightarrow> discW (set (q_waiting_groups q)) q \<and> distinct (q_waiting_groups q)"

lemma flags_ok_new [simp]: "flags_ok new_group"
  by (simp add: flags_ok_def new_group_def max_retries_def)

lemma flags_ok_upd [simp]:
  "flags_ok (g\<lparr>g_last_active_at := v0\<rparr>) = flags_ok g"
  "flags_ok (g\<lparr>g_is_task_container := v1\<rparr>) = flags_ok g"
  "flags_ok (g\<lparr>g_running_task_id := v2\<rparr>) = flags_ok g"
  "flags_ok (g\<lparr>g_pending_messages := v3\<rparr>) = flags_ok g"
  "flags_ok (g\<lparr>g_pending_tasks := v4\<rparr>) = flags_ok g"
  "flags_ok (g\<lparr>g_is_running := v5\<rparr>) = flags_ok g"
  "flags_ok (g\<lparr>g_group_folder := v6\<rparr>) = flags_ok g"
  "flags_ok (g\<lparr>g_job_id := v7\<rparr>) = flags_ok g"
  "flags_ok (g\<lparr>g_tenant_id := v8\<rparr>) = flags_ok g"
  "flags_ok (g\<lparr>g_coworker_id := v9\<rparr>) = flags_ok g"
  "flags_ok (g\<lparr>g_missing_sweeps := v10\<rparr>) = flags_ok g"
  by (simp_all add: flags_ok_def)

text \<open>An operation that touches one group only: the others keep their part of the invariant.\<close>

lemma discW_update:
  assumes "discW W q" and "within_limits (q_orch q')"
    and "\<And>k. k \<noteq> j \<Longrightarrow> grp q' k = grp q k"
    and "\<And>k. k \<noteq> j \<Longrightarrow> n_runners (q_spawned q') k = n_runners (q_spawned q) k"
    and "\<And>k. k \<noteq> j \<Longrightarrow> n_runners (q_running q') k = n_runners (q_running q) k"
    and "\<And>k. k \<noteq> j \<Longrightarrow> k \<in> set (dict_keys (q_warm q')) \<Longrightarrow> k \<in> set (dict_keys (q_warm q))"
    and "\<And>k. k \<noteq> j \<Longrightarrow> k \<in> W \<Longrightarrow> k \<in> W'"
    and "q_shutting_down q' = q_shutting_down q"
    and "flags_ok (grp q' j)" "link_ok q' W' j"
  shows "discW W' q'"
proof -
  have "flags_ok (grp q' k) \<and> link_ok q' W' k" for k
  proof (cases "k = j")
    case True
    then show ?thesis using assms(9,10) by simp
  next
    case False
    then have "flags_ok (grp q k) \<and> link_ok q W k" using assms(1) by (simp add: discW_def)
    then show ?thesis
      using assms(3-8) False by (auto simp: link_ok_def)
  qed
  then show ?thesis using assms(2) by (simp add: discW_def)
qed

lemma discW_flags: "discW W q \<Longrightarrow> flags_ok (grp q j)"
  by (simp add: discW_def)

lemma discW_link: "discW W q \<Longrightarrow> link_ok q W j"
  by (simp add: discW_def)

lemma discW_limits: "discW W q \<Longrightarrow> within_limits (q_orch q)"
  by (simp add: discW_def)

lemma discW_same_core: "same_core q q' \<Longrightarrow> discW W q' \<longleftrightarrow> discW W q"
  by (simp add: discW_def link_ok_def same_core_def)

lemma disc_same_core: "same_core q q' \<Longrightarrow> disc q' \<longleftrightarrow> disc q"
  by (simp add: disc_def discW_same_core) (simp add: same_core_def)

lemma discW_frame [simp]:
  "discW W (get_group j q) = discW W q" "discW W (request_shutdown j q) = discW W q"
  "discW W (interrupt_current_turn j q) = discW W q" "discW W (evict_if_needed j q) = discW W q"
  "discW W (fire w cb j q) = discW W q" "discW W (add_waiting j q) = discW W q"
  "discW W (q\<lparr>q_waiting_groups := ws\<rparr>) = discW W q"
  by (simp_all add: discW_same_core) (simp_all add: discW_def link_ok_def)

lemma discW_mono: "discW W q \<Longrightarrow> W \<subseteq> W' \<Longrightarrow> discW W' q"
  by (auto simp: discW_def link_ok_def)

text \<open>A group that needs no queueing can be taken off the set.\<close>

lemma discW_drop:
  "discW (insert j W) q \<Longrightarrow> g_active (grp q j) \<or> \<not> has_pending (grp q j) \<or> q_shutting_down q \<Longrightarrow> discW W q"
  by (auto simp: discW_def link_ok_def)

lemma discW_spawn [simp]: "runner_jid t = None \<Longrightarrow> discW W (spawn t q) = discW W q"
  by (rule discW_same_core) (rule same_core_spawn)

text \<open>Assignments to attributes that keep a group's part of the invariant.\<close>

lemma discW_upd:
  assumes "discW W q" and "flags_ok (f (grp q j))"
    and "link_ok q W j \<Longrightarrow> link_ok (upd_group j f q) W j"
  shows "discW W (upd_group j f q)"
  by (rule discW_update [OF assms(1), where j = j])
    (use assms in \<open>auto simp: discW_limits dest: discW_link\<close>)

section \<open>Starting a runner\<close>

lemma orch_reserve:
  "\<not> g_active (grp q j) \<Longrightarrow> \<not> g_slot_held (grp q j) \<Longrightarrow>
   q_orch (reserve_slot j q) =
     increment_active (acquire_container (q_orch q)) (g_tenant_id (grp q j)) (g_coworker_id (grp q j))"
  by (simp add: reserve_slot_def Let_def acquire_turn_def acquire_live_def)

lemma orch_reserve_held:
  "g_active (grp q j) \<Longrightarrow> g_slot_held (grp q j) \<Longrightarrow> q_orch (reserve_slot j q) = q_orch q"
  by (simp add: reserve_slot_def Let_def acquire_turn_def acquire_live_def)

text \<open>
  The one place where containers start: an inactive group that turn admission accepts gets its
  slot and its runner in the same step, and the queue entry it may have had is no longer needed.
\<close>

lemma discW_start:
  assumes d: "discW W q" and inact: "\<not> g_active (grp q j)"
    and adm: "can_start_turn q (g_tenant_id (grp q j)) (g_coworker_id (grp q j))"
    and t: "runner_jid t = Some j" and W: "W \<subseteq> insert j W'"
  shows "discW W' (spawn t (reserve_slot j q))"
proof -
  have fl: "flags_ok (grp q j)" and lk: "link_ok q W j"
    using d by (simp_all add: discW_def)
  have nh: "\<not> g_slot_held (grp q j)" using fl inact by (auto simp: flags_ok_def)
  have lim: "within_limits (q_orch (reserve_slot j q))"
    using adm d nh inact by (simp add: orch_reserve within_limits_increment discW_def can_start_turn_def)
  show ?thesis
  proof (rule discW_update [OF d, where j = j])
    show "flags_ok (grp (spawn t (reserve_slot j q)) j)"
      using fl by (auto simp: flags_ok_def)
    show "link_ok (spawn t (reserve_slot j q)) W' j"
      using lk fl inact nh t by (auto simp: link_ok_def flags_ok_def)
  qed (use lim t W in auto)
qed

lemma discW_pop_task: "discW W q \<Longrightarrow> discW W (pop_task j q)"
  unfolding pop_task_def
  by (rule discW_upd)
    (auto simp: link_ok_def has_pending_def dest: discW_flags [of _ _ j])

lemma spawn_pop_task: "spawn t (pop_task j q) = pop_task j (spawn t q)"
  by (simp add: spawn_def pop_task_def upd_group_def grp_def)

section \<open>Draining\<close>

lemma drain_loop_subset: "set (fst (drain_loop ws q)) \<subseteq> set ws"
proof (induction ws arbitrary: q)
  case (Cons j ws)
  show ?case
    by (cases rule: drain_loop_Cons_cases [where j = j and ws = ws and q = q]) (use Cons in auto)
qed simp

lemma drain_loop_distinct: "distinct ws \<Longrightarrow> distinct (fst (drain_loop ws q))"
proof (induction ws arbitrary: q)
  case (Cons j ws)
  show ?case
    by (cases rule: drain_loop_Cons_cases [where j = j and ws = ws and q = q])
      (use Cons drain_loop_subset [of ws "get_group j q"] in auto)
qed simp

lemma drain_loop_frame:
  "q_waiting_groups (snd (drain_loop ws q)) = q_waiting_groups q \<and>
   q_running (snd (drain_loop ws q)) = q_running q \<and>
   q_shutting_down (snd (drain_loop ws q)) = q_shutting_down q \<and>
   q_warm (snd (drain_loop ws q)) = q_warm q"
proof (induction ws arbitrary: q)
  case (Cons j ws)
  show ?case
    by (cases rule: drain_loop_Cons_cases [where j = j and ws = ws and q = q]) (auto simp: Cons.IH)
qed simp

lemma discW_drain_loop:
  "discW (set ws \<union> R) q \<Longrightarrow> discW (set (fst (drain_loop ws q)) \<union> R) (snd (drain_loop ws q))"
proof (induction ws arbitrary: q R)
  case (Cons j ws)
  have d: "discW (insert j (set ws \<union> R)) q" using Cons.prems by simp
  show ?case
  proof (cases rule: drain_loop_Cons_cases [where j = j and ws = ws and q = q])
    case skip
    then have "discW (set ws \<union> R) q" using d by (blast intro: discW_drop)
    then show ?thesis using skip(1) Cons.IH [of R "get_group j q"] by simp
  next
    case blocked
    then show ?thesis using d Cons.IH [of "insert j R" "get_group j q"] by simp
  next
    case (start t q1)
    have "discW (insert j (set ws \<union> R)) q1"
      using start(6) d by (auto intro: discW_pop_task)
    moreover have "\<not> g_active (grp q1 j)" "can_start_turn q1 (g_tenant_id (grp q1 j)) (g_coworker_id (grp q1 j))"
      using start by auto
    ultimately have "discW (set ws \<union> R) (spawn t (reserve_slot j q1))"
      using start(2) by (rule discW_start) auto
    then show ?thesis using start(1) Cons.IH by simp
  qed
qed simp

lemma discW_drain_waiting:
  "discW (set (q_waiting_groups q)) q \<Longrightarrow>
   discW (set (q_waiting_groups (drain_waiting q))) (drain_waiting q)"
  using discW_drain_loop [of "q_waiting_groups q" "{}" q]
  by (auto simp: drain_waiting_def split: prod.splits)

lemma disc_drain_waiting: "disc q \<Longrightarrow> disc (drain_waiting q)"
  using discW_drain_waiting [of q] drain_loop_distinct [of "q_waiting_groups q" q]
  by (auto simp: disc_def drain_waiting_def split: prod.splits)

text \<open>After a container exit the group itself is excused from the waiting list until it is drained.\<close>

lemma disc_drain_group:
  assumes d: "discW (insert j (set (q_waiting_groups q))) q" and dist: "distinct (q_waiting_groups q)"
    and inact: "\<not> g_active (grp q j)"
  shows "disc (drain_group j q)"
proof -
  let ?adm = "can_start_turn q (g_tenant_id (grp q j)) (g_coworker_id (grp q j))"
  consider (down) "q_shutting_down q"
    | (idle) "\<not> q_shutting_down q" "\<not> has_pending (grp q j)"
    | (wait) "\<not> q_shutting_down q" "has_pending (grp q j)" "\<not> (?adm \<and> can_spawn q)"
    | (go) "\<not> q_shutting_down q" "has_pending (grp q j)" "?adm" "can_spawn q"
    by blast
  then show ?thesis
  proof cases
    case down
    then show ?thesis using d dist by (auto simp: drain_group_def disc_def intro: discW_drop)
  next
    case idle
    then have "disc (get_group j q)" using d dist by (auto simp: disc_def intro: discW_drop)
    then show ?thesis using idle by (simp add: drain_group_def Let_def disc_drain_waiting)
  next
    case wait
    have "disc (add_waiting j (get_group j q))" using d dist by (simp add: disc_def)
    then show ?thesis using wait by (auto simp: drain_group_def Let_def disc_drain_waiting)
  next
    case go
    have st: "discW (set (q_waiting_groups q)) (spawn t (reserve_slot j (get_group j q)))"
      if "runner_jid t = Some j" for t
      by (rule discW_start [where W = "insert j (set (q_waiting_groups q))"])
        (use d inact go that in auto)
    show ?thesis
    proof (cases "g_pending_tasks (grp q j)")
      case Nil
      then show ?thesis using go dist st [of "RunForGroup j ''drain''"]
        by (simp add: drain_group_def Let_def disc_def)
    next
      case (Cons t ts)
      then show ?thesis using go dist discW_pop_task [OF st [of "RunTask j t"]]
        by (simp add: drain_group_def Let_def disc_def spawn_pop_task)
    qed
  qed
qed

section \<open>Enqueueing\<close>

lemma flags_ok_set_ids [simp]: "flags_ok (set_ids t c g) = flags_ok g"
  by (simp add: set_ids_def)

lemma discW_quiet:
  assumes "discW W q" and "flags_ok (f (grp q j))"
    and "g_active (f (grp q j)) = g_active (grp q j)" "g_processing (f (grp q j)) = g_processing (grp q j)"
    and "g_slot_held (f (grp q j)) = g_slot_held (grp q j)" "g_adopted (f (grp q j)) = g_adopted (grp q j)"
    and "has_pending (f (grp q j)) \<Longrightarrow> g_active (grp q j) \<or> j \<in> W \<or> has_pending (grp q j)"
  shows "discW W (upd_group j f q)"
  by (rule discW_upd) (use assms in \<open>auto simp: link_ok_def\<close>)

lemma discW_set_ids: "discW W q \<Longrightarrow> discW W (upd_group j (set_ids t c) q)"
  by (rule discW_quiet) (auto simp: discW_flags set_ids_def has_pending_def)

lemma disc_get_group [simp]: "disc (get_group j q) = disc q"
  by (simp add: disc_def)

lemma disc_request_shutdown [simp]: "disc (request_shutdown j q) = disc q"
  by (rule disc_same_core) simp

lemma disc_evict_fire [simp]: "disc (evict_if_needed j q) = disc q" "disc (fire w cb j q) = disc q"
  by (rule disc_same_core; simp)+

lemma disc_enqueue_message:
  assumes "disc q"
  shows "disc (enqueue_message_check j t c q)"
proof -
  define r where "r = upd_group j (set_ids t c) (get_group j q)"
  have d: "discW (set (q_waiting_groups r)) r" and dist: "distinct (q_waiting_groups r)"
    using assms by (simp_all add: r_def disc_def discW_set_ids)
  let ?P = "\<lambda>g. g\<lparr>g_pending_messages := True\<rparr>"
  have busy: "disc (upd_group j ?P r)" if "g_active (grp r j)"
    using discW_quiet [OF d, of ?P j] that dist by (simp add: disc_def discW_flags [OF d])
  have "discW (insert j (set (q_waiting_groups r))) (upd_group j ?P r)"
    by (rule discW_quiet) (use discW_mono [OF d] in \<open>auto simp: discW_flags [OF d]\<close>)
  then have wait: "disc (add_waiting j (upd_group j ?P r))"
    using dist by (simp add: disc_def)
  have go: "disc (spawn (RunForGroup j ''messages'') (reserve_slot j r))"
    if "\<not> g_active (grp r j)" "can_start_turn r (g_tenant_id (grp r j)) (g_coworker_id (grp r j))"
    using discW_start [OF d that, of "RunForGroup j ''messages''"] dist by (auto simp: disc_def)
  show ?thesis
    using assms busy wait go
    by (auto simp: enqueue_message_check_def Let_def r_def [symmetric] disc_same_core)
qed

lemma disc_enqueue_task:
  assumes "disc q"
  shows "disc (enqueue_task j tid fn t c q)"
proof -
  define r where "r = upd_group j (set_ids t c) (get_group j q)"
  have d: "discW (set (q_waiting_groups r)) r" and dist: "distinct (q_waiting_groups r)"
    using assms by (simp_all add: r_def disc_def discW_set_ids)
  have dr: "disc r" using d dist by (simp add: disc_def)
  let ?P = "\<lambda>task g. g\<lparr>g_pending_tasks := g_pending_tasks g @ [task]\<rparr>"
  have busy: "disc (upd_group j (?P task) r)" if "g_active (grp r j)" for task
    using discW_quiet [OF d, of "?P task" j] that dist by (simp add: disc_def discW_flags [OF d])
  have "discW (insert j (set (q_waiting_groups r))) (upd_group j (?P task) r)" for task
    by (rule discW_quiet) (use discW_mono [OF d] in \<open>auto simp: discW_flags [OF d]\<close>)
  then have wait: "disc (add_waiting j (upd_group j (?P task) r))" for task
    using dist by (simp add: disc_def)
  have go: "disc (spawn (RunTask j task) (reserve_slot j r))"
    if "\<not> g_active (grp r j)" "can_start_turn r (g_tenant_id (grp r j)) (g_coworker_id (grp r j))" for task
    using discW_start [OF d that, of "RunTask j task"] dist by (auto simp: disc_def)
  show ?thesis
    using assms dr busy wait go
    by (auto simp: enqueue_task_def Let_def r_def [symmetric] disc_same_core)
qed

section \<open>Idle timer and approvals\<close>

lemma discW_cancel: "discW W q \<Longrightarrow> discW W (cancel_idle_timer j q)"
  unfolding cancel_idle_timer_def
  by (rule discW_quiet) (use discW_flags [of W q j] in \<open>auto simp: flags_ok_def has_pending_def\<close>)

lemma discW_arm:
  assumes "discW W q"
  shows "discW W (arm_idle_timer j q)"
proof -
  have c: "discW W (cancel_idle_timer j q)" using assms by (rule discW_cancel)
  show ?thesis
    unfolding arm_idle_timer_def Let_def
    by (auto intro!: discW_quiet c)
      (use discW_flags [OF assms, of j] in \<open>auto simp: flags_ok_def has_pending_def\<close>)
qed

lemma arm_frame [simp]:
  "q_waiting_groups (arm_idle_timer j q) = q_waiting_groups q"
  "q_spawned (arm_idle_timer j q) = q_spawned q" "q_running (arm_idle_timer j q) = q_running q"
  by (simp_all add: arm_idle_timer_def Let_def)

lemma disc_arm: "disc q \<Longrightarrow> disc (arm_idle_timer j q)"
  by (simp add: disc_def discW_arm)

lemma disc_suspend:
  assumes "disc q"
  shows "disc (suspend_for_approval j r q)"
proof -
  have c: "discW (set (q_waiting_groups q)) (cancel_idle_timer j (get_group j q))"
    using assms by (intro discW_cancel) (simp add: disc_def)
  show ?thesis
    unfolding suspend_for_approval_def disc_def
    by (auto intro!: discW_quiet c)
      (use discW_flags [OF c, of j] assms in \<open>auto simp: flags_ok_def has_pending_def disc_def\<close>)
qed

lemma disc_resume:
  assumes "disc q"
  shows "disc (snd (resume_from_approval j r q))"
proof -
  let ?u = "upd_group j (\<lambda>g. g\<lparr>g_awaiting_approval := g_awaiting_approval g - {r}\<rparr>) (get_group j q)"
  have d: "discW (set (q_waiting_groups q)) (get_group j q)" using assms by (simp add: disc_def)
  have "discW (set (q_waiting_groups q)) ?u" if "r \<in> g_awaiting_approval (grp q j)"
    by (rule discW_quiet [OF d])
      (use discW_flags [OF d, of j] that in \<open>auto simp: flags_ok_def has_pending_def\<close>)
  then have "disc ?u" if "r \<in> g_awaiting_approval (grp q j)" using assms that by (simp add: disc_def)
  then show ?thesis using assms by (auto simp: resume_from_approval_def Let_def disc_arm)
qed

lemma disc_register:
  assumes "disc q" "0 < n_runners (q_running q) j"
  shows "disc (register_process j n f jb q)"
proof -
  have d: "discW (set (q_waiting_groups q)) (get_group j q)" using assms by (simp add: disc_def)
  have "g_active (grp q j)" "\<not> g_adopted (grp q j)"
    using discW_link [OF d, of j] assms(2) by (auto simp: link_ok_def)
  then have "discW (set (q_waiting_groups q)) (register_process j n f jb q)"
    unfolding register_process_def
    by (intro discW_quiet [OF d])
      (use discW_flags [OF d, of j] in \<open>auto simp: flags_ok_def has_pending_def\<close>)
  then show ?thesis using assms by (simp add: disc_def register_process_def)
qed

lemma disc_adopt:
  assumes "disc q"
    and "\<not> g_active (grp q j) \<or> (g_adopted (grp q j) \<and> \<not> g_processing (grp q j))"
  shows "disc (adopt_orphan_container j job t c q)"
proof -
  have d: "discW (set (q_waiting_groups q)) q" using assms(1) by (simp add: disc_def)
  define r where "r = adopt_orphan_container j job t c q"
  define g where "g = (grp q j)\<lparr>g_tenant_id := or_str t (g_tenant_id (grp q j)),
      g_coworker_id := or_str c (g_coworker_id (grp q j)), g_active := True, g_processing := False,
      g_is_running := True, g_is_task_container := False, g_adopted := True, g_job_id := Some job\<rparr>"
  have r: "grp r = (grp q)(j := g)" "q_warm r = q_warm q" "q_spawned r = q_spawned q"
    "q_running r = q_running q" "q_shutting_down r = q_shutting_down q"
    "q_waiting_groups r = q_waiting_groups q"
    by (simp_all add: r_def g_def adopt_orphan_container_def Let_def set_ids_def)
  have lim: "within_limits (q_orch r)"
    using discW_limits [OF d] by (simp add: r_def adopt_orphan_container_def Let_def acquire_live_def)
  have fl: "flags_ok g"
    using discW_flags [OF d, of j] assms(2)
    by (cases "g_active (grp q j)"; cases "g_processing (grp q j)") (simp_all add: g_def flags_ok_def)
  have "n_runners (q_spawned q) j = 0 \<and> n_runners (q_running q) j = 0"
  proof (cases "g_active (grp q j)")
    case True
    then show ?thesis using discW_link [OF d, of j] assms(2) by (simp add: link_ok_def)
  next
    case False
    then have "\<not> g_slot_held (grp q j)"
      using discW_flags [OF d, of j] by (auto simp: flags_ok_def)
    then show ?thesis using False discW_link [OF d, of j] by (simp add: link_ok_def)
  qed
  then have "link_ok r (set (q_waiting_groups q)) j"
    by (simp add: link_ok_def r) (simp add: g_def)
  then have "discW (set (q_waiting_groups q)) r"
    by (intro discW_update [OF d lim, where j = j]) (auto simp: r fl)
  then show ?thesis using assms(1) r(6) by (simp add: disc_def r_def)
qed

section \<open>Releasing\<close>

lemma within_decrement:
  assumes "acct q" "g_slot_held (grp q j)" "within_limits (q_orch q)"
  shows "within_limits (decrement_active (q_orch q) (g_tenant_id (grp q j)) (g_coworker_id (grp q j)))"
  using assms(3) acct_held_pos [OF assms(1,2)] unfolding within_limits_adm
  by (intro adm.bounded_decr) simp_all

lemma within_release_turn:
  "acct q \<Longrightarrow> within_limits (q_orch q) \<Longrightarrow> within_limits (q_orch (release_turn j q))"
  by (simp add: release_turn_def Let_def within_decrement)

lemma within_release_live:
  "within_limits (q_orch q) \<Longrightarrow> within_limits (q_orch (release_live j q))"
  by (simp add: release_live_def)

text \<open>A container exit: slot, live count, warm entry and identity of the group are all reset.\<close>

lemma disc_exit:
  assumes q: "disc q" "acct q" "n_runners (q_spawned q) j = 0" "n_runners (q_running q) j = 0"
    and r: "\<And>k. k \<noteq> j \<Longrightarrow> grp r k = grp q k"
      "q_orch r = q_orch (release_live j (release_turn j q))"
      "q_warm r = dict_pop (q_warm q) j" "q_waiting_groups r = q_waiting_groups q"
      "q_spawned r = q_spawned q" "q_running r = q_running q" "q_shutting_down r = q_shutting_down q"
    and g: "flags_ok (grp r j)" "\<not> g_adopted (grp r j)" "\<not> g_active (grp r j)"
  shows "disc (drain_group j r)"
proof (rule disc_drain_group)
  have d: "discW (set (q_waiting_groups q)) q" using q(1) by (simp add: disc_def)
  have nf: "\<not> g_slot_held (grp r j)" using g by (auto simp: flags_ok_def)
  have "discW (insert j (set (q_waiting_groups q))) r"
  proof (rule discW_update [OF d, where j = j])
    show "within_limits (q_orch r)"
      using d q(2) by (simp add: r(2) within_release_live within_release_turn discW_limits)
    show "link_ok r (insert j (set (q_waiting_groups q))) j"
      using q(3,4) g nf by (simp add: link_ok_def r(2-))
  qed (simp_all add: r g)
  then show "discW (insert j (set (q_waiting_groups r))) r" by (simp add: r(4))
qed (use q(1) g(3) in \<open>simp_all add: r(4) disc_def\<close>)

lemma disc_reap_adopted:
  assumes "disc q" "acct q" "g_adopted (grp q j)"
  shows "disc (reap_adopted j q)"
proof -
  let ?q = "get_group j (request_shutdown j q)"
  have sc: "same_core q (request_shutdown j q)" by simp
  have d: "disc ?q" and a: "acct ?q" using assms(1,2) by simp_all
  have l: "link_ok q (set (q_waiting_groups q)) j" and fl: "flags_ok (grp q j)"
    using assms(1) by (auto simp: disc_def discW_def)
  have n: "n_runners (q_spawned ?q) j = 0" "n_runners (q_running ?q) j = 0" "grp ?q = grp q"
    using sc l assms(3) by (simp_all add: same_core_def link_ok_def)
  show ?thesis
    unfolding reap_adopted_def Let_def
    by (rule disc_exit [OF d a n(1,2)]) (use n(3) fl in \<open>auto simp: flags_ok_def\<close>)
qed

lemma disc_notify_idle:
  assumes "disc q" "acct q" "n_runners (q_spawned q) j = 0"
  shows "disc (notify_idle j now q)"
proof (cases "g_awaiting_approval (grp q j) = {}")
  case False
  then show ?thesis using assms(1) by (simp add: notify_idle_def Let_def)
next
  case True
  define r where "r = upd_group j (\<lambda>g. g\<lparr>g_processing := False, g_idle_waiting := True,
                                      g_last_active_at := now\<rparr>) (release_turn j (get_group j q))"
  define r' where "r' = (if g_active (grp r j) \<and> \<not> g_is_task_container (grp r j)
                         then touch_warm j now r else r)"
  have d: "discW (set (q_waiting_groups q)) q" using assms(1) by (simp add: disc_def)
  have fl: "flags_ok (grp q j)" and lk: "link_ok q (set (q_waiting_groups q)) j"
    using d by (auto simp: discW_def)
  have "discW (set (q_waiting_groups q)) r'"
  proof (rule discW_update [OF d, where j = j])
    show "within_limits (q_orch r')"
      using within_release_turn [of "get_group j q" j] assms(2) discW_limits [OF d]
      by (simp add: r_def r'_def)
    show "flags_ok (grp r' j)" using fl True by (auto simp: r'_def r_def flags_ok_def)
    show "link_ok r' (set (q_waiting_groups q)) j"
      using lk assms(3) fl by (auto simp: r'_def r_def link_ok_def has_pending_def flags_ok_def)
  qed (auto simp: r_def r'_def dict_keys_def dict_pop_def AList.delete_eq split: if_splits)
  moreover have "q_waiting_groups r' = q_waiting_groups q" by (simp add: r'_def r_def)
  ultimately have dr: "disc r'" using assms(1) by (simp add: disc_def)
  have eq: "notify_idle j now q =
      drain_waiting (if g_pending_tasks (grp r j) \<noteq> [] then request_shutdown j r' else arm_idle_timer j r')"
    using True by (simp add: notify_idle_def Let_def r_def r'_def)
  show ?thesis unfolding eq using dr by (simp add: disc_drain_waiting disc_arm)
qed

lemma disc_send_message:
  assumes "disc q"
  shows "disc (snd (send_message j txt q))"
proof -
  let ?W = "set (q_waiting_groups q)"
  have d: "discW ?W q" using assms by (simp add: disc_def)
  have fl: "flags_ok (grp q j)" and lk: "link_ok q ?W j" using d by (auto simp: discW_def)
  let ?I = "\<lambda>g. g\<lparr>g_idle_waiting := False\<rparr>"
  have mid: "disc (spawn (SendInput j txt) (upd_group j ?I (get_group j q)))"
  proof -
    have "discW ?W (upd_group j ?I (get_group j q))"
      by (rule discW_quiet) (use d fl in \<open>auto simp: flags_ok_def has_pending_def\<close>)
    then show ?thesis using assms by (simp add: disc_def)
  qed
  define r where "r = upd_group j ?I (upd_group j (\<lambda>g. g\<lparr>g_processing := True\<rparr>)
      (acquire_turn j (pop_warm j (cancel_idle_timer j (get_group j q)))))"
  have resume: "disc (spawn (SendInput j txt) r)"
    if "g_active (grp q j)" "\<not> g_processing (grp q j)"
      "can_start_turn q (g_tenant_id (grp q j)) (g_coworker_id (grp q j))"
  proof -
    have nh: "\<not> g_slot_held (grp q j)" using fl that by (auto simp: flags_ok_def)
    have "discW ?W r"
    proof (rule discW_update [OF d, where j = j])
      show "within_limits (q_orch r)"
        using nh that(3) discW_limits [OF d]
        by (simp add: r_def acquire_turn_def within_limits_increment can_start_turn_def)
    qed (use fl lk that nh in \<open>auto simp: r_def flags_ok_def link_ok_def\<close>)
    then show ?thesis using assms by (simp add: disc_def r_def)
  qed
  show ?thesis
    using assms mid resume by (auto simp: send_message_def Let_def r_def)
qed

section \<open>Runners\<close>

lemma discW_retry:
  assumes "discW W q"
  shows "discW W (schedule_retry j q)"
proof -
  have fl: "flags_ok (grp q j)" using assms by (simp add: discW_def)
  have "discW W (upd_group j (\<lambda>g. g\<lparr>g_retry_count := 0\<rparr>) q)"
    by (rule discW_quiet) (use assms fl in \<open>auto simp: flags_ok_def has_pending_def max_retries_def\<close>)
  moreover have "discW W (upd_group j (\<lambda>g. g\<lparr>g_retry_count := g_retry_count (grp q j) + 1\<rparr>) q)"
    if "g_retry_count (grp q j) + 1 \<le> max_retries"
    by (rule discW_quiet) (use assms fl that in \<open>auto simp: flags_ok_def has_pending_def\<close>)
  ultimately show ?thesis by (auto simp: schedule_retry_def Let_def)
qed

lemma retry_frame [simp]:
  "q_waiting_groups (schedule_retry j q) = q_waiting_groups q"
  "n_runners (q_spawned (schedule_retry j q)) k = n_runners (q_spawned q) k"
  "q_running (schedule_retry j q) = q_running q"
  by (simp_all add: schedule_retry_def Let_def fire_def)

lemma disc_run_for_group_end:
  assumes "disc q" "acct q" "n_runners (q_spawned q) j = 0" "n_runners (q_running q) j = 0"
    and "\<not> g_adopted (grp q j)"
  shows "disc (run_for_group_end out j q)"
proof -
  define r where "r = (case out of
                  Success \<Rightarrow> upd_group j (\<lambda>g. g\<lparr>g_retry_count := 0\<rparr>) q
                | Failure \<Rightarrow> schedule_retry j q | Raised \<Rightarrow> schedule_retry j q | _ \<Rightarrow> q)"
  have d: "discW (set (q_waiting_groups q)) q" using assms(1) by (simp add: disc_def)
  have "discW (set (q_waiting_groups q)) (upd_group j (\<lambda>g. g\<lparr>g_retry_count := 0\<rparr>) q)"
    by (rule discW_quiet)
      (use d discW_flags [OF d, of j] in \<open>auto simp: flags_ok_def has_pending_def max_retries_def\<close>)
  then have dr: "disc r" using assms(1) d by (auto simp: r_def disc_def discW_retry split: outcome.split)
  have ar: "acct r" using assms(2) by (auto simp: r_def intro!: acct_intros split: outcome.split)
  have fr: "flags_ok (grp r j)" using dr by (simp add: disc_def discW_def)
  have nr: "n_runners (q_spawned r) j = 0" "n_runners (q_running r) j = 0"
    using assms(3,4) by (auto simp: r_def split: outcome.split)
  have nad: "\<not> g_adopted (grp r j)"
    using assms(5) by (auto simp: r_def schedule_retry_def Let_def fire_def split: outcome.split)
  show ?thesis
    unfolding run_for_group_end_def Let_def r_def [symmetric]
    by (rule disc_exit [OF dr ar nr], simp_all) (use fr nad in \<open>auto simp: flags_ok_def\<close>)
qed

lemma disc_run_task_end:
  assumes "disc q" "acct q" "n_runners (q_spawned q) j = 0" "n_runners (q_running q) j = 0"
    and "\<not> g_adopted (grp q j)"
  shows "disc (run_task_end j q)"
proof -
  have "flags_ok (grp q j)" using assms(1) by (simp add: disc_def discW_def)
  then show ?thesis
    unfolding run_task_end_def Let_def
    by (intro disc_exit [OF assms(1-4)], simp_all) (use assms in \<open>auto simp: flags_ok_def\<close>)
qed

lemma disc_reap_ghost:
  assumes "disc q" "acct q" "n_runners (q_spawned q) j = 0" "n_runners (q_running q) j = 0"
    and "\<not> g_adopted (grp q j)"
  shows "disc (reap_ghost j q)"
proof -
  have fl: "flags_ok (grp q j)" using assms(1) by (simp add: disc_def discW_def)
  show ?thesis
    unfolding reap_ghost_def Let_def
    by (rule disc_exit [OF assms(1-4)], simp_all)
      (use fl assms(5) in \<open>auto simp: flags_ok_def release_turn_def release_live_def Let_def\<close>)
qed

text \<open>
  A spawned runner already owns its slot and its live container, so its first stretch changes no
  counter; it only moves from the spawned to the running coroutines.
\<close>

lemma disc_begin:
  assumes "disc q" "t \<in> set (q_spawned q)" "runner_jid t = Some j"
    and r: "\<And>k. k \<noteq> j \<Longrightarrow> grp r k = grp q k" "q_orch r = q_orch q" "q_warm r = q_warm q"
      "q_waiting_groups r = q_waiting_groups q" "q_shutting_down r = q_shutting_down q"
      "n_runners (q_spawned r) = n_runners (remove1 t (q_spawned q))"
      "q_running r = q_running q @ [t]"
    and g: "g_active (grp r j)" "g_processing (grp r j)" "g_slot_held (grp r j)"
      "g_idle_handle (grp r j) = None" "\<not> g_idle_waiting (grp r j)"
      "g_retry_count (grp r j) = g_retry_count (grp q j)" "g_adopted (grp r j) = g_adopted (grp q j)"
  shows "disc r"
proof -
  have d: "discW (set (q_waiting_groups q)) q" using assms(1) by (simp add: disc_def)
  have fl: "flags_ok (grp q j)" and lk: "link_ok q (set (q_waiting_groups q)) j"
    using d by (auto simp: discW_def)
  have n: "n_runners (q_spawned q) k = of_bool (k = j) + n_runners (q_spawned r) k" for k
    using n_runners_remove1 [OF assms(2), of k] assms(3) by (auto simp: r(6))
  have na: "\<not> g_adopted (grp q j)" and sp: "0 < n_runners (q_spawned q) j"
    using lk n [of j] by (auto simp: link_ok_def)
  have "g_processing (grp q j)" using lk fl sp by (auto simp: link_ok_def flags_ok_def)
  then have nw: "j \<notin> set (dict_keys (q_warm q))" using lk by (auto simp: link_ok_def)
  have "discW (set (q_waiting_groups q)) r"
  proof (rule discW_update [OF d, where j = j])
    show "within_limits (q_orch r)" using d by (simp add: r(2) discW_limits)
    show "flags_ok (grp r j)" using fl g na by (auto simp: flags_ok_def)
    show "link_ok r (set (q_waiting_groups q)) j"
      using lk g na nw n [of j] assms(3) by (auto simp: link_ok_def r(2-5,7))
    show "n_runners (q_spawned r) k = n_runners (q_spawned q) k" if "k \<noteq> j" for k
      using n [of k] that by simp
    show "n_runners (q_running r) k = n_runners (q_running q) k" if "k \<noteq> j" for k
      using that assms(3) by (simp add: r(7))
  qed (simp_all add: r(1-5))
  then show ?thesis using assms(1) by (simp add: disc_def r(4))
qed

text \<open>Coroutines that end, or die, without running their final part.\<close>

lemma discW_forget:
  assumes "discW W q"
    and "\<And>j. n_runners (q_spawned r) j = n_runners (q_spawned q) j"
    and "\<And>j. n_runners (q_running r) j \<le> n_runners (q_running q) j"
    and "grp r = grp q" "q_orch r = q_orch q" "q_warm r = q_warm q" "q_shutting_down r = q_shutting_down q"
  shows "discW W r"
proof -
  have "link_ok r W j" for j
    using discW_link [OF assms(1), of j] assms(3) [of j] by (auto simp: link_ok_def assms(2,4-))
  then show ?thesis using assms(1,4,5) by (simp add: discW_def)
qed

lemma disc_forget_running:
  assumes "disc q"
  shows "disc (q\<lparr>q_running := remove1 t (q_running q)\<rparr>)"
proof -
  have "n_runners (remove1 t (q_running q)) j \<le> n_runners (q_running q) j" for j
    using n_runners_remove1 [of t "q_running q" j] by (cases "t \<in> set (q_running q)") (auto simp: remove1_idem)
  then show ?thesis using assms by (auto simp: disc_def intro: discW_forget)
qed

section \<open>The reaper sweep\<close>

text \<open>
  The premise of a sweep: a group whose runner is still there is not about to be confirmed as a
  ghost. The two-sweep confirmation is meant to give a dying runner time to clean up by itself.
\<close>

definition sweep_safe :: "string set \<Rightarrow> queue \<Rightarrow> string \<Rightarrow> bool" where
  "sweep_safe live q j \<longleftrightarrow>
     n_runners (q_spawned q) j + n_runners (q_running q) j = 0 \<or>
     g_container_name (grp q j) = None \<or>
     (truthy (g_container_name (grp q j)) \<and> the (g_container_name (grp q j)) \<in> live) \<or>
     g_missing_sweeps (grp q j) < 1"

lemma sweep_safe_cong:
  "grp r k = grp q k \<Longrightarrow> n_runners (q_spawned r) k = n_runners (q_spawned q) k \<Longrightarrow>
   n_runners (q_running r) k = n_runners (q_running q) k \<Longrightarrow> sweep_safe live r k = sweep_safe live q k"
  by (simp add: sweep_safe_def)

lemma sweep_safe_start:
  assumes "flags_ok (grp q j)" "\<not> g_active (grp q j)" "runner_jid t = Some j" "sweep_safe live q k"
  shows "sweep_safe live (spawn t (reserve_slot j q)) k"
proof (cases "k = j")
  case True
  then show ?thesis using assms(1,2) by (simp add: sweep_safe_def flags_ok_def)
next
  case False
  then show ?thesis using assms(3,4) by (simp add: sweep_safe_def)
qed

lemma sweep_safe_pop_task [simp]: "sweep_safe live (pop_task j q) k = sweep_safe live q k"
  by (simp add: sweep_safe_def)

lemma sweep_safe_get_group [simp]: "sweep_safe live (get_group j q) k = sweep_safe live q k"
  by (simp add: sweep_safe_def)

lemma sweep_safe_drain_loop:
  "\<forall>j. flags_ok (grp q j) \<Longrightarrow> sweep_safe live q k \<Longrightarrow> sweep_safe live (snd (drain_loop ws q)) k"
proof (induction ws arbitrary: q)
  case (Cons j ws)
  show ?case
  proof (cases rule: drain_loop_Cons_cases [where j = j and ws = ws and q = q])
    case skip
    then show ?thesis using Cons by simp
  next
    case blocked
    then show ?thesis using Cons by simp
  next
    case (start t q1)
    have q1: "\<forall>i. flags_ok (grp q1 i)" "sweep_safe live q1 k" "\<not> g_active (grp q1 j)"
      using start(3,6) Cons.prems by auto
    have "\<forall>i. flags_ok (grp (spawn t (reserve_slot j q1)) i)"
      using q1(1) by (auto simp: flags_ok_def)
    moreover have "sweep_safe live (spawn t (reserve_slot j q1)) k"
      using q1 start(2) by (auto intro: sweep_safe_start)
    ultimately show ?thesis using start(1) Cons.IH by simp
  qed
qed simp

lemma sweep_safe_drain_waiting:
  "\<forall>j. flags_ok (grp q j) \<Longrightarrow> sweep_safe live q k \<Longrightarrow> sweep_safe live (drain_waiting q) k"
  using sweep_safe_drain_loop [of q live k "q_waiting_groups q"]
  by (auto simp: drain_waiting_def sweep_safe_def split: prod.splits)

lemma sweep_safe_drain_group:
  assumes "\<forall>j. flags_ok (grp q j)" "sweep_safe live q k" "\<not> g_active (grp q j)"
  shows "sweep_safe live (drain_group j q) k"
proof -
  have w: "sweep_safe live (drain_waiting (get_group j q)) k"
    "sweep_safe live (drain_waiting (add_waiting j (get_group j q))) k"
    using assms by (auto intro!: sweep_safe_drain_waiting) (simp_all add: sweep_safe_def)
  have s: "sweep_safe live (spawn t (reserve_slot j (get_group j q))) k" if "runner_jid t = Some j" for t
    using sweep_safe_start [of "get_group j q" j t live k] assms that by simp
  show ?thesis
    using assms(2) w s [of "RunForGroup j ''drain''"] s [of "RunTask j t" for t]
    by (auto simp: drain_group_def Let_def spawn_pop_task split: list.split)
qed

text \<open>
  A sweep is a sequence of marks and reaps, each reap on a consistent state and for a group without
  a runner; whatever those two keep, a sweep keeps.
\<close>

lemma sweep_loop_keeps:
  assumes "\<And>q j n. Q q \<Longrightarrow> Q (upd_group j (\<lambda>g. g\<lparr>g_missing_sweeps := n\<rparr>) q)"
    and "\<And>q j. disc q \<Longrightarrow> acct q \<Longrightarrow> Q q \<Longrightarrow> n_runners (q_spawned q) j = 0 \<Longrightarrow>
      n_runners (q_running q) j = 0 \<Longrightarrow> \<not> g_adopted (grp q j) \<Longrightarrow> g_active (grp q j) \<Longrightarrow> Q (reap_ghost j q)"
  shows "disc q \<Longrightarrow> acct q \<Longrightarrow> distinct js \<Longrightarrow> \<forall>j \<in> set js. sweep_safe live q j \<Longrightarrow> Q q \<Longrightarrow>
   disc (snd (sweep_loop live js q)) \<and> Q (snd (sweep_loop live js q))"
proof (induction js arbitrary: q)
  case Nil
  then show ?case by simp
next
  case (Cons j js)
  let ?m = "\<lambda>n g. g\<lparr>g_missing_sweeps := n\<rparr>"
  have mark: "disc (upd_group j (?m n) q)" "acct (upd_group j (?m n) q)"
    "\<forall>k \<in> set js. sweep_safe live (upd_group j (?m n) q) k" for n
  proof -
    have d: "discW (set (q_waiting_groups q)) q" using Cons.prems(1) by (simp add: disc_def)
    have "discW (set (q_waiting_groups q)) (upd_group j (?m n) q)"
      by (rule discW_quiet [OF d]) (simp_all add: discW_flags [OF d] has_pending_def)
    then show "disc (upd_group j (?m n) q)" using Cons.prems(1) by (simp add: disc_def)
    show "acct (upd_group j (?m n) q)" using Cons.prems(2) by (rule acct_upd) simp
    show "\<forall>k \<in> set js. sweep_safe live (upd_group j (?m n) q) k"
      using Cons.prems(3,4) by (auto simp: sweep_safe_def)
  qed
  have fl: "flags_ok (grp q j)" using Cons.prems(1) by (simp add: disc_def discW_def)
  show ?case
  proof (cases "\<not> g_active (grp q j) \<or>
      (truthy (g_container_name (grp q j)) \<and> the (g_container_name (grp q j)) \<in> live) \<or>
      g_container_name (grp q j) = None \<or> g_missing_sweeps (grp q j) + 1 < 2")
    case True
    then show ?thesis using Cons mark assms(1) by (auto simp: Let_def)
  next
    case False
    define q1 where "q1 = upd_group j (?m (g_missing_sweeps (grp q j) + 1)) q"
    have none: "n_runners (q_spawned q1) j = 0" "n_runners (q_running q1) j = 0"
      using Cons.prems(4) False by (auto simp: sweep_safe_def q1_def)
    have nad: "\<not> g_adopted (grp q1 j)" using fl False by (auto simp: flags_ok_def q1_def)
    have r: "disc (reap_ghost j q1)" "acct (reap_ghost j q1)"
      using mark none nad by (auto simp: q1_def intro: disc_reap_ghost acct_reap_ghost)
    have "sweep_safe live (reap_ghost j q1) k" if "k \<in> set js" for k
    proof -
      have fl1: "flags_ok (grp q1 i)" for i using mark(1) by (simp add: disc_def discW_def q1_def)
      have "flags_ok ((grp q1 j)\<lparr>g_slot_held := False, g_active := False, g_idle_handle := None,
          g_processing := False, g_is_running := False, g_is_task_container := False,
          g_running_task_id := None, g_container_name := None\<rparr>)"
        using fl1 [of j] nad by (simp add: flags_ok_def)
      moreover have "sweep_safe live q1 k" "k \<noteq> j" using mark(3) that Cons.prems(3) by (auto simp: q1_def)
      ultimately show ?thesis
        unfolding reap_ghost_def Let_def
        by (intro sweep_safe_drain_group) (use fl1 in \<open>simp_all add: sweep_safe_def\<close>)
    qed
    moreover have "Q (reap_ghost j q1)"
      using assms(2) [of q1 j] mark none nad assms(1) Cons.prems(5) False by (simp add: q1_def)
    ultimately have "disc (snd (sweep_loop live js (reap_ghost j q1))) \<and>
        Q (snd (sweep_loop live js (reap_ghost j q1)))"
      using Cons.IH r Cons.prems(3) by simp
    then show ?thesis using False by (auto simp: Let_def q1_def split: prod.split)
  qed
qed

lemma disc_sweep_loop:
  "disc q \<Longrightarrow> acct q \<Longrightarrow> distinct js \<Longrightarrow> \<forall>j \<in> set js. sweep_safe live q j \<Longrightarrow>
   disc (snd (sweep_loop live js q))"
  using sweep_loop_keeps [where Q = "\<lambda>_. True"] by simp

end
