(* ===== verification/Scheduler_Run.thy ===== *)
theory Scheduler_Run
  imports Scheduler_Disc
begin

text \<open>
  Executions of the group queue. A call is one uninterrupted stretch on the event loop: a method
  invoked by the orchestrator, a timer that fires, or a background coroutine that starts, resumes
  or dies. \<open>qexec\<close> performs it, \<open>admissible\<close> says what the callers guarantee, and \<open>reach\<close> is the set
  of states reachable by any interleaving of admissible calls. The configured limits do not change
  during a run.
\<close>

section \<open>Calls\<close>

datatype qcall =
    CSetup
  | CEnqueueMessage string string string
  | CEnqueueTask string string nat string string
  | CRegister string string "string option" "string option"
  | CNotifyIdle string int
  | CArmIdle string
  | CSuspend string string
  | CResume string string
  | CAdopt string string string string
  | CSendMessage string string
  | CRequestShutdown string
  | CInterrupt string
  | CIdleFires string
  | CStart bg_task
  | CFinish bg_task outcome
  | CDie bg_task
  | CReconcile "string set option"
  | CShutdown

text \<open>A background coroutine runs for the first time.\<close>

definition start_task :: "bg_task \<Rightarrow> queue \<Rightarrow> queue" where
  "start_task t q0 =
     (let q = q0\<lparr>q_spawned := remove1 t (q_spawned q0), q_running := q_running q0 @ [t]\<rparr> in
      case t of
        RunForGroup j _ \<Rightarrow> run_for_group_begin j q
      | RunTask j task \<Rightarrow> run_task_begin j task q
      | _ \<Rightarrow> q)"

text \<open>
  A background coroutine resumes after its await and runs to its end. A retry that wakes up
  enqueues its group again unless the queue is shutting down.
\<close>

definition finish_task :: "bg_task \<Rightarrow> outcome \<Rightarrow> queue \<Rightarrow> queue" where
  "finish_task t out q0 =
     (let q = q0\<lparr>q_running := remove1 t (q_running q0)\<rparr> in
      case t of
        RunForGroup j _ \<Rightarrow> run_for_group_end out j q
      | RunTask j _ \<Rightarrow> run_task_end j q
      | RetryTask j _ \<Rightarrow>
          if q_shutting_down q then q
          else enqueue_message_check j (g_tenant_id (grp q j)) (g_coworker_id (grp q j)) q
      | _ \<Rightarrow> q)"

definition idle_fires :: "string \<Rightarrow> queue \<Rightarrow> queue" where
  "idle_fires j q =
     (case g_idle_handle (grp q j) of
        None \<Rightarrow> q
      | Some CbRequestShutdown \<Rightarrow> request_shutdown j q
      | Some CbReapAdopted \<Rightarrow> reap_adopted j q)"

fun qexec :: "qcall \<Rightarrow> queue \<Rightarrow> queue" where
  "qexec CSetup q =
     set_on_messages_dropped (set_on_container_starting (set_on_queued (set_process_messages_fn q)))"
| "qexec (CEnqueueMessage j t c) q = enqueue_message_check j t c q"
| "qexec (CEnqueueTask j tid fn t c) q = enqueue_task j tid fn t c q"
| "qexec (CRegister j n f jb) q = register_process j n f jb q"
| "qexec (CNotifyIdle j now) q = notify_idle j now q"
| "qexec (CArmIdle j) q = arm_idle_timer j q"
| "qexec (CSuspend j r) q = suspend_for_approval j r q"
| "qexec (CResume j r) q = snd (resume_from_approval j r q)"
| "qexec (CAdopt j job t c) q = adopt_orphan_container j job t c q"
| "qexec (CSendMessage j txt) q = snd (send_message j txt q)"
| "qexec (CRequestShutdown j) q = request_shutdown j q"
| "qexec (CInterrupt j) q = interrupt_current_turn j q"
| "qexec (CIdleFires j) q = idle_fires j q"
| "qexec (CStart t) q = start_task t q"
| "qexec (CFinish t out) q = finish_task t out q"
| "qexec (CDie t) q = q\<lparr>q_running := remove1 t (q_running q)\<rparr>"
| "qexec (CReconcile live) q = snd (reconcile_once q live q)"
| "qexec CShutdown q = snd (shutdown q)"

text \<open>
  What the environment guarantees. A conversation keeps its tenant and coworker while it holds a
  turn slot or has pending work; containers register themselves and report the end of a turn from inside a runner that
  has started; a container is adopted for a group that has none (or an adopted one waiting on an
  approval), which is the situation after a restart; and a runner whose container has been gone for
  two sweeps has ended.
\<close>

fun admissible :: "qcall \<Rightarrow> queue \<Rightarrow> bool" where
  "admissible (CEnqueueMessage j t c) q = ids_stable j t c q"
| "admissible (CEnqueueTask j tid fn t c) q = ids_stable j t c q"
| "admissible (CRegister j n f jb) q = (0 < n_runners (q_running q) j)"
| "admissible (CNotifyIdle j now) q = (n_runners (q_spawned q) j = 0)"
| "admissible (CAdopt j job t c) q =
     (ids_stable j t c q \<and>
      (\<not> g_active (grp q j) \<or> (g_adopted (grp q j) \<and> \<not> g_processing (grp q j))))"
| "admissible (CStart t) q = (t \<in> set (q_spawned q))"
| "admissible (CFinish t out) q = (t \<in> set (q_running q))"
| "admissible (CReconcile live) q =
     (case live of None \<Rightarrow> True | Some names \<Rightarrow> \<forall>j \<in> set (dict_keys (q_groups q)). sweep_safe names q j)"
| "admissible _ q = True"

text \<open>No turn is in flight, no container is alive, and the configuration has no negative limit.\<close>

definition fresh_orch :: "orch_state \<Rightarrow> bool" where
  "fresh_orch os \<longleftrightarrow> o_global_active os = 0 \<and> o_tenant_active os = [] \<and> o_coworker_active os = [] \<and>
     o_live_containers os = 0 \<and> 0 \<le> o_global_limit os \<and>
     (\<forall>tn \<in> snd ` set (o_tenants os). 0 \<le> t_max_concurrent_containers tn) \<and>
     (\<forall>cw \<in> snd ` set (o_coworkers os). 0 \<le> c_max_concurrent_containers (cw_config cw))"

inductive reach :: "queue \<Rightarrow> bool" where
  init: "fresh_orch os \<Longrightarrow> reach (new_queue tr rt os ms)"
| call: "reach q \<Longrightarrow> admissible c q \<Longrightarrow> reach (qexec c q)"

inductive_cases reach_initE: "reach (new_queue tr rt os ms)"

fun qrun :: "qcall list \<Rightarrow> queue \<Rightarrow> queue" where
  "qrun [] q = q"
| "qrun (c # cs) q = qrun cs (qexec c q)"

fun all_admissible :: "qcall list \<Rightarrow> queue \<Rightarrow> bool" where
  "all_admissible [] q = True"
| "all_admissible (c # cs) q = (admissible c q \<and> all_admissible cs (qexec c q))"

lemma reach_qrun: "reach q \<Longrightarrow> all_admissible cs q \<Longrightarrow> reach (qrun cs q)"
  by (induction cs arbitrary: q) (auto intro: reach.call)

section \<open>The invariant of every reachable state\<close>

definition groups_wf :: "queue \<Rightarrow> bool" where
  "groups_wf q \<longleftrightarrow> distinct (dict_keys (q_groups q))"

lemma groups_wf_prims [simp]:
  "groups_wf q \<Longrightarrow> groups_wf (upd_group j f q)" "groups_wf q \<Longrightarrow> groups_wf (get_group j q)"
  "groups_wf (spawn t q) = groups_wf q" "groups_wf (pop_warm j q) = groups_wf q"
  "groups_wf (add_waiting j q) = groups_wf q" "groups_wf (touch_warm j n q) = groups_wf q"
  "groups_wf (q\<lparr>q_orch := os\<rparr>) = groups_wf q" "groups_wf (q\<lparr>q_waiting_groups := ws\<rparr>) = groups_wf q"
  "groups_wf (q\<lparr>q_running := ts\<rparr>) = groups_wf q" "groups_wf (q\<lparr>q_spawned := ts\<rparr>) = groups_wf q"
  "groups_wf (q\<lparr>q_shutting_down := b\<rparr>) = groups_wf q"
  by (auto simp: groups_wf_def upd_group_def get_group_def spawn_def pop_warm_def add_waiting_def
      touch_warm_def split: option.split)

lemma groups_wf_slots [simp]:
  "groups_wf q \<Longrightarrow> groups_wf (acquire_turn j q)" "groups_wf q \<Longrightarrow> groups_wf (release_turn j q)"
  "groups_wf q \<Longrightarrow> groups_wf (acquire_live j q)" "groups_wf q \<Longrightarrow> groups_wf (release_live j q)"
  by (simp_all add: acquire_turn_def release_turn_def acquire_live_def release_live_def Let_def)

lemma groups_wf_helpers [simp]:
  "groups_wf q \<Longrightarrow> groups_wf (reserve_slot j q)" "groups_wf q \<Longrightarrow> groups_wf (pop_task j q)"
  "groups_wf q \<Longrightarrow> groups_wf (cancel_idle_timer j q)" "groups_wf q \<Longrightarrow> groups_wf (request_shutdown j q)"
  "groups_wf q \<Longrightarrow> groups_wf (interrupt_current_turn j q)" "groups_wf q \<Longrightarrow> groups_wf (fire w cb j q)"
  by (simp_all add: reserve_slot_def pop_task_def cancel_idle_timer_def request_shutdown_def
      interrupt_current_turn_def fire_def Let_def)

lemma groups_wf_drain_loop: "groups_wf q \<Longrightarrow> groups_wf (snd (drain_loop ws q))"
proof (induction ws arbitrary: q)
  case (Cons j ws)
  show ?case
    by (cases rule: drain_loop_Cons_cases [where j = j and ws = ws and q = q])
      (auto simp: Cons.IH Cons.prems)
qed simp

lemma groups_wf_drain [simp]:
  "groups_wf q \<Longrightarrow> groups_wf (drain_waiting q)"
  using groups_wf_drain_loop [of q "q_waiting_groups q"]
  by (auto simp: drain_waiting_def split: prod.split)

lemma groups_wf_drain_group [simp]: "groups_wf q \<Longrightarrow> groups_wf (drain_group j q)"
  by (simp add: drain_group_def Let_def split: list.split)

lemma groups_wf_ops [simp]:
  "groups_wf q \<Longrightarrow> groups_wf (evict_if_needed j q)" "groups_wf q \<Longrightarrow> groups_wf (arm_idle_timer j q)"
  "groups_wf q \<Longrightarrow> groups_wf (schedule_retry j q)"
  by (simp_all add: evict_if_needed_def evict_lru_warm_def arm_idle_timer_def schedule_retry_def
      Let_def split: option.split)

lemma groups_wf_methods [simp]:
  "groups_wf q \<Longrightarrow> groups_wf (enqueue_message_check j t c q)"
  "groups_wf q \<Longrightarrow> groups_wf (enqueue_task j tid fn t c q)"
  "groups_wf q \<Longrightarrow> groups_wf (register_process j n f jb q)"
  "groups_wf q \<Longrightarrow> groups_wf (notify_idle j now q)"
  "groups_wf q \<Longrightarrow> groups_wf (suspend_for_approval j r q)"
  "groups_wf q \<Longrightarrow> groups_wf (snd (resume_from_approval j r q))"
  "groups_wf q \<Longrightarrow> groups_wf (adopt_orphan_container j job t c q)"
  "groups_wf q \<Longrightarrow> groups_wf (reap_adopted j q)"
  "groups_wf q \<Longrightarrow> groups_wf (snd (send_message j txt q))"
  by (simp_all add: enqueue_message_check_def enqueue_task_def register_process_def notify_idle_def
      suspend_for_approval_def resume_from_approval_def adopt_orphan_container_def reap_adopted_def
      send_message_def Let_def)

lemma groups_wf_runners [simp]:
  "groups_wf q \<Longrightarrow> groups_wf (run_for_group_begin j q)"
  "groups_wf q \<Longrightarrow> groups_wf (run_for_group_end out j q)"
  "groups_wf q \<Longrightarrow> groups_wf (run_task_begin j task q)" "groups_wf q \<Longrightarrow> groups_wf (run_task_end j q)"
  "groups_wf q \<Longrightarrow> groups_wf (reap_ghost j q)"
  by (simp_all add: run_for_group_begin_def run_for_group_end_def run_task_begin_def
      run_task_end_def reap_ghost_def Let_def split: outcome.split)

lemma groups_wf_sweep: "groups_wf q \<Longrightarrow> groups_wf (snd (sweep_loop live js q))"
  by (induction js arbitrary: q) (simp_all add: Let_def case_prod_beta)

lemma groups_wf_setup [simp]: "groups_wf (qexec CSetup q) = groups_wf q"
  by (simp add: groups_wf_def set_process_messages_fn_def set_on_queued_def
      set_on_container_starting_def set_on_messages_dropped_def)

lemma groups_wf_qexec: "groups_wf q \<Longrightarrow> groups_wf (qexec c q)"
  by (cases c)
    (auto simp: start_task_def finish_task_def idle_fires_def reconcile_once_def shutdown_def Let_def
      groups_wf_sweep simp del: qexec.simps(1)
      split: option.split idle_cb.split bg_task.split)

definition qinv :: "queue \<Rightarrow> bool" where
  "qinv q \<longleftrightarrow> groups_wf q \<and> acct q \<and> disc q"

lemma same_core_setup: "same_core q (qexec CSetup q)"
  by (simp add: same_core_def grp_def set_process_messages_fn_def set_on_queued_def
      set_on_container_starting_def set_on_messages_dropped_def fun_eq_iff)

lemma acct_qexec:
  assumes "acct q" "admissible c q"
  shows "acct (qexec c q)"
proof (cases c)
  case CSetup
  then show ?thesis using assms(1) acct_same_core [OF same_core_setup] by simp
next
  case (CStart t)
  then show ?thesis
    using assms(1) by (auto simp: start_task_def Let_def intro!: acct_intros split: bg_task.split)
next
  case (CFinish t out)
  then show ?thesis
    using assms(1)
    by (auto simp: finish_task_def Let_def ids_stable_def
        intro!: acct_intros acct_enqueue_message split: bg_task.split)
next
  case (CIdleFires j)
  then show ?thesis
    using assms(1) by (auto simp: idle_fires_def intro!: acct_intros split: option.split idle_cb.split)
qed (use assms in \<open>auto intro: acct_intros acct_enqueue_message acct_enqueue_task acct_adopt\<close>)

lemma disc_start_task:
  assumes "disc q" "t \<in> set (q_spawned q)"
  shows "disc (start_task t q)"
proof (cases "runner_jid t")
  case None
  have "same_core q (start_task t q)"
    using None n_runners_remove1 [OF assms(2)]
    by (cases t) (auto simp: start_task_def Let_def same_core_def fun_eq_iff)
  then show ?thesis using assms(1) by (simp add: disc_same_core)
next
  case (Some j)
  have d: "discW (set (q_waiting_groups q)) q" using assms(1) by (simp add: disc_def)
  have "0 < n_runners (q_spawned q) j" using n_runners_remove1 [OF assms(2), of j] Some by simp
  then have h: "g_slot_held (grp q j)" "g_active (grp q j)"
    using discW_link [OF d, of j] discW_flags [OF d, of j] by (auto simp: link_ok_def flags_ok_def)
  show ?thesis
    by (rule disc_begin [OF assms Some]; insert Some h; cases t;
        simp add: start_task_def Let_def run_for_group_begin_def run_task_begin_def fire_def
          orch_reserve_held fun_eq_iff)
qed

lemma disc_finish_task:
  assumes "disc q" "acct q" "t \<in> set (q_running q)"
  shows "disc (finish_task t out q)"
proof -
  define r where "r = q\<lparr>q_running := remove1 t (q_running q)\<rparr>"
  have dr: "disc r" and ar: "acct r" using assms(1,2) by (simp_all add: r_def disc_forget_running)
  have d: "discW (set (q_waiting_groups q)) q" using assms(1) by (simp add: disc_def)
  have "n_runners (q_spawned r) j = 0 \<and> n_runners (q_running r) j = 0 \<and> \<not> g_adopted (grp r j)"
    if "runner_jid t = Some j" for j
    using discW_link [OF d, of j] n_runners_remove1 [OF assms(3), of j] that
    by (auto simp: link_ok_def r_def)
  then show ?thesis
    using dr ar
    by (auto simp: finish_task_def Let_def r_def [symmetric]
        intro: disc_run_for_group_end disc_run_task_end disc_enqueue_message split: bg_task.split)
qed

lemma disc_qexec:
  assumes "qinv q" "admissible c q"
  shows "disc (qexec c q)"
proof -
  have q: "disc q" "acct q" "groups_wf q" using assms(1) by (simp_all add: qinv_def)
  show ?thesis
  proof (cases c)
    case CSetup
    then show ?thesis using q(1) disc_same_core [OF same_core_setup] by simp
  next
    case (CIdleFires j)
    have "flags_ok (grp q j)" using q(1) by (simp add: disc_def discW_def)
    then show ?thesis
      using CIdleFires q
      by (auto simp: idle_fires_def flags_ok_def intro: disc_reap_adopted split: option.split idle_cb.split)
  next
    case (CReconcile live)
    then show ?thesis
      using q assms(2)
      by (auto simp: reconcile_once_def groups_wf_def intro!: disc_sweep_loop split: option.split)
  next
    case CShutdown
    then show ?thesis
      using q(1) by (auto simp: shutdown_def Let_def disc_def discW_def link_ok_def)
  next
    case (CInterrupt j)
    then show ?thesis using q(1) by (simp add: disc_same_core [OF same_core_interrupt])
  qed (use q assms(2) in \<open>auto intro: disc_enqueue_message disc_enqueue_task disc_register
      disc_notify_idle disc_arm disc_suspend disc_resume disc_adopt disc_send_message
      disc_start_task disc_finish_task disc_forget_running\<close>)
qed

lemma qinv_init: "fresh_orch os \<Longrightarrow> qinv (new_queue tr rt os ms)"
proof -
  assume f: "fresh_orch os"
  have g: "grp (new_queue tr rt os ms) = (\<lambda>_. new_group)"
    by (simp add: grp_def new_queue_def dict_get_def fun_eq_iff)
  have "within_limits os"
    using f by (force simp: within_limits_def fresh_orch_def tenant_used_def coworker_used_def
        dict_get_def dest: map_of_SomeD)
  then have "disc (new_queue tr rt os ms)"
    by (simp add: disc_def discW_def link_ok_def g)
      (simp add: new_queue_def has_pending_def new_group_def dict_keys_def)
  moreover have "acct (new_queue tr rt os ms)"
    using f by (simp add: acct_def g cnt_def)
      (simp add: new_queue_def fresh_orch_def tenant_used_def coworker_used_def dict_get_def)
  ultimately show ?thesis
    by (simp add: qinv_def groups_wf_def) (simp add: new_queue_def dict_keys_def)
qed

theorem reach_qinv: "reach q \<Longrightarrow> qinv q"
proof (induction rule: reach.induct)
  case (init os tr rt ms)
  then show ?case by (rule qinv_init)
next
  case (call q c)
  then show ?case
    using disc_qexec acct_qexec groups_wf_qexec by (auto simp: qinv_def)
qed

lemma reach_flags: "reach q \<Longrightarrow> flags_ok (grp q j)"
  using reach_qinv by (simp add: qinv_def disc_def discW_def)

lemma reach_link: "reach q \<Longrightarrow> link_ok q (set (q_waiting_groups q)) j"
  using reach_qinv by (simp add: qinv_def disc_def discW_def)

lemma reach_acct: "reach q \<Longrightarrow> acct q"
  using reach_qinv by (simp add: qinv_def)

end
