(* ===== verification/Scheduler_Props.thy ===== *)
theory Scheduler_Props
  imports Scheduler_Run "HOL-Library.Sublist"
begin

text \<open>
  What the group queue promises, stated for every reachable state or for every call: the counters
  are exact and within the limits, a conversation never runs twice, no accepted work is lost, the
  drain leaves nothing startable behind, and a conversation waiting for an approval is not reaped.
\<close>

section \<open>The live-container ceiling\<close>

definition capped :: "int \<Rightarrow> queue \<Rightarrow> bool" where
  "capped L q \<longleftrightarrow> 0 \<le> L \<and> o_live_containers (q_orch q) \<le> L \<and> o_global_limit (q_orch q) \<le> L"

lemma capped_orch: "q_orch q' = q_orch q \<Longrightarrow> capped L q' = capped L q"
  by (simp add: capped_def)

lemma capped_same_core: "same_core q q' \<Longrightarrow> capped L q' = capped L q"
  by (simp add: same_core_def capped_def)

lemma capped_frame [simp]:
  "capped L (get_group j q) = capped L q" "capped L (upd_group j f q) = capped L q"
  "capped L (spawn t q) = capped L q" "capped L (pop_warm j q) = capped L q"
  "capped L (add_waiting j q) = capped L q" "capped L (touch_warm j n q) = capped L q"
  "capped L (cancel_idle_timer j q) = capped L q" "capped L (pop_task j q) = capped L q"
  "capped L (q\<lparr>q_waiting_groups := ws\<rparr>) = capped L q" "capped L (q\<lparr>q_running := ts\<rparr>) = capped L q"
  "capped L (q\<lparr>q_spawned := ts\<rparr>) = capped L q" "capped L (q\<lparr>q_shutting_down := b\<rparr>) = capped L q"
  by (simp_all add: capped_def)

lemma capped_same_core_simps [simp]:
  "capped L (request_shutdown j q) = capped L q" "capped L (interrupt_current_turn j q) = capped L q"
  "capped L (evict_if_needed j q) = capped L q" "capped L (fire w cb j q) = capped L q"
  by (rule capped_same_core; simp)+

lemma capped_release [cap_intros]:
  "capped L q \<Longrightarrow> capped L (release_turn j q)" "capped L q \<Longrightarrow> capped L (release_live j q)"
  "capped L q \<Longrightarrow> capped L (acquire_turn j q)"
  by (auto simp: capped_def release_turn_def release_live_def acquire_turn_def Let_def)

lemma capped_reserve: "capped L q \<Longrightarrow> can_spawn q \<or> g_active (grp q j) \<Longrightarrow> capped L (reserve_slot j q)"
  by (auto simp: capped_def reserve_slot_def acquire_live_def acquire_turn_def Let_def can_spawn_def
      can_spawn_container_def)

lemma capped_drain_loop: "capped L q \<Longrightarrow> capped L (snd (drain_loop ws q))"
proof (induction ws arbitrary: q)
  case (Cons j ws)
  show ?case
    by (cases rule: drain_loop_Cons_cases [where j = j and ws = ws and q = q])
      (auto simp: Cons.IH Cons.prems capped_reserve)
qed simp

lemma capped_drain [cap_intros]:
  "capped L q \<Longrightarrow> capped L (drain_waiting q)"
  using capped_drain_loop [of L q "q_waiting_groups q"]
  by (auto simp: drain_waiting_def split: prod.split)

lemma capped_drain_group [cap_intros]: "capped L q \<Longrightarrow> capped L (drain_group j q)"
  by (auto simp: drain_group_def Let_def capped_reserve capped_drain split: list.split)

lemma capped_arm [cap_intros]: "capped L q \<Longrightarrow> capped L (arm_idle_timer j q)"
  by (simp add: arm_idle_timer_def Let_def)

lemma capped_methods [cap_intros]:
  "capped L q \<Longrightarrow> capped L (enqueue_message_check j t c q)"
  "capped L q \<Longrightarrow> capped L (enqueue_task j tid fn t c q)"
  "capped L q \<Longrightarrow> capped L (register_process j n f jb q)"
  "capped L q \<Longrightarrow> capped L (suspend_for_approval j r q)"
  "capped L q \<Longrightarrow> capped L (snd (resume_from_approval j r q))"
  "capped L q \<Longrightarrow> capped L (reap_adopted j q)"
  "capped L q \<Longrightarrow> capped L (snd (send_message j txt q))"
  "capped L q \<Longrightarrow> capped L (schedule_retry j q)"
  by (simp_all add: enqueue_message_check_def enqueue_task_def register_process_def
      suspend_for_approval_def resume_from_approval_def reap_adopted_def send_message_def
      schedule_retry_def Let_def capped_reserve capped_arm capped_release capped_drain_group)

lemma capped_notify [cap_intros]: "capped L q \<Longrightarrow> capped L (notify_idle j now q)"
  by (simp add: notify_idle_def Let_def capped_arm capped_release capped_drain)

lemma capped_ends [cap_intros]:
  "capped L q \<Longrightarrow> capped L (run_for_group_end out j q)" "capped L q \<Longrightarrow> capped L (run_task_end j q)"
  "capped L q \<Longrightarrow> capped L (reap_ghost j q)"
  by (auto simp: run_for_group_end_def run_task_end_def reap_ghost_def Let_def
      intro!: cap_intros split: outcome.split)

lemma capped_sweep: "capped L q \<Longrightarrow> capped L (snd (sweep_loop live js q))"
  by (induction js arbitrary: q) (simp_all add: Let_def case_prod_beta capped_ends)

lemma capped_begin:
  assumes "capped L q" "g_active (grp q j)"
  shows "capped L (run_for_group_begin j q)" "capped L (run_task_begin j task q)"
  using assms by (simp_all add: run_for_group_begin_def run_task_begin_def Let_def capped_reserve)

lemma spawned_active:
  assumes "reach q" "t \<in> set (q_spawned q)" "runner_jid t = Some j"
  shows "g_active (grp q j)"
  using reach_link [OF assms(1), of j] reach_flags [OF assms(1), of j]
    n_runners_remove1 [OF assms(2), of j] assms(3)
  by (simp add: link_ok_def flags_ok_def)

lemma capped_start:
  assumes "reach q" "capped L q" "t \<in> set (q_spawned q)"
  shows "capped L (start_task t q)"
  using spawned_active [OF assms(1,3)] assms(2)
  by (cases t) (simp_all add: start_task_def Let_def capped_begin)

lemma capped_qexec:
  assumes "reach q" "admissible c q" "capped L q" "\<And>j job t w. c \<noteq> CAdopt j job t w"
  shows "capped L (qexec c q)"
proof (cases c)
  case CSetup
  have "q_orch (qexec CSetup q) = q_orch q" using same_core_setup [of q] by (simp add: same_core_def)
  then show ?thesis using CSetup assms(3) capped_orch by blast
next
  case (CFinish t out)
  then show ?thesis
    using assms(3) by (auto simp: finish_task_def Let_def intro!: cap_intros split: bg_task.split)
next
  case (CIdleFires j)
  then show ?thesis
    using assms(3) by (auto simp: idle_fires_def intro!: cap_intros split: option.split idle_cb.split)
next
  case (CStart t)
  then show ?thesis using assms capped_start by simp
next
  case (CReconcile live)
  then show ?thesis using assms(3) by (auto simp: reconcile_once_def capped_sweep split: option.split)
next
  case CShutdown
  then show ?thesis using assms(3) by (simp add: shutdown_def Let_def)
qed (use assms in \<open>auto intro: cap_intros\<close>)

section \<open>The drain is maximal\<close>

lemma can_start_spawn [simp]:
  "can_start_turn (spawn t q) = can_start_turn q" "can_spawn (spawn t q) = can_spawn q"
  by (simp_all add: can_start_turn_def can_spawn_def fun_eq_iff)

lemma reserve_monotone:
  "can_start_turn (reserve_slot j q) t c \<Longrightarrow> can_start_turn q t c"
  "can_spawn (reserve_slot j q) \<Longrightarrow> can_spawn q"
  by (auto simp: reserve_slot_def acquire_live_def acquire_turn_def Let_def can_start_turn_def
      can_spawn_def can_spawn_container_def dest: adm.can_start_incr split: if_splits)

definition startable :: "queue \<Rightarrow> string \<Rightarrow> bool" where
  "startable q j \<longleftrightarrow> can_start_turn q (g_tenant_id (grp q j)) (g_coworker_id (grp q j)) \<and> can_spawn q"

lemma startable_get_group [simp]: "startable (get_group j q) k = startable q k"
  by (simp add: startable_def)

lemma startable_pop_task [simp]: "startable (pop_task j q) k = startable q k"
  by (simp add: startable_def)

lemma startable_start: "startable (spawn t (reserve_slot j q)) k \<Longrightarrow> startable q k"
  by (auto simp: startable_def dest: reserve_monotone split: if_splits)

lemma startable_drain_loop: "startable (snd (drain_loop ws q)) k \<Longrightarrow> startable q k"
proof (induction ws arbitrary: q)
  case (Cons j ws)
  show ?case
    by (cases rule: drain_loop_Cons_cases [where j = j and ws = ws and q = q])
      (use Cons.prems in \<open>auto dest!: Cons.IH startable_start\<close>)
qed simp

lemma drain_loop_rest_blocked:
  "k \<in> set (fst (drain_loop ws q)) \<Longrightarrow> \<not> startable (snd (drain_loop ws q)) k"
proof (induction ws arbitrary: q)
  case (Cons j ws)
  show ?case
  proof (cases rule: drain_loop_Cons_cases [where j = j and ws = ws and q = q])
    case blocked
    have "\<not> startable q j" using blocked(2) by (simp add: startable_def)
    then show ?thesis
      using Cons blocked(1) startable_drain_loop [of ws "get_group j q" j] by auto
  qed (use Cons in auto)
qed simp

lemma drain_loop_subseq: "subseq (fst (drain_loop ws q)) ws"
proof (induction ws arbitrary: q)
  case (Cons j ws)
  show ?case
    by (cases rule: drain_loop_Cons_cases [where j = j and ws = ws and q = q])
      (auto simp: Cons.IH)
qed simp

section \<open>A concrete run\<close>

text \<open>
  Two conversations of one tenant whose plan allows one turn at a time: the first gets its
  container and is suspended for an approval, the second has to wait.
\<close>

definition demo_tenant :: tenant where
  "demo_tenant = \<lparr>t_id = ''acme'', t_name = ''Acme'', t_slug = None, t_plan = None,
     t_max_concurrent_containers = 1, t_last_message_cursor = None, t_created_at = '''',
     t_status = ''active''\<rparr>"

definition demo_queue :: queue where
  "demo_queue = new_queue True True ((new_orch_state 2)\<lparr>o_tenants := [(''acme'', demo_tenant)]\<rparr>) 60000"

definition demo_calls :: "qcall list" where
  "demo_calls =
     [CSetup, CEnqueueMessage ''a'' ''acme'' ''bot'', CStart (RunForGroup ''a'' ''messages''),
      CRegister ''a'' ''box'' None (Some ''job1''), CEnqueueMessage ''b'' ''acme'' ''bot'',
      CSuspend ''a'' ''r1'']"

definition demo_state :: queue where
  "demo_state = qrun demo_calls demo_queue"

lemma demo_queue_fresh: "fresh_orch ((new_orch_state 2)\<lparr>o_tenants := [(''acme'', demo_tenant)]\<rparr>)"
  by (simp add: fresh_orch_def new_orch_state_def demo_tenant_def)

lemma demo_admissible: "all_admissible demo_calls demo_queue"
  by code_simp

lemma demo_reach: "reach demo_state"
  unfolding demo_state_def demo_queue_def
  by (rule reach_qrun [OF reach.init [OF demo_queue_fresh]])
    (simp add: demo_admissible [unfolded demo_queue_def])

section \<open>Properties\<close>

text \<open>C1. In every reachable state of the group queue the admission counters are exact: the global,
  per-tenant and per-coworker counters equal the number of conversations that hold a turn slot (of
  that tenant, of that coworker), and the live-container counter equals the number of conversations
  with a container. No path through enqueueing, draining, retries, approvals, adoption, reaping or
  shutdown leaks a slot or counts one twice.\<close>

theorem counters_exact:
  assumes "reach q"
  shows "o_global_active (q_orch q) = int (card {j. g_slot_held (grp q j)}) \<and>
     tenant_used (q_orch q) t = int (card {j. g_slot_held (grp q j) \<and> g_tenant_id (grp q j) = t}) \<and>
     coworker_used (q_orch q) c = int (card {j. g_slot_held (grp q j) \<and> g_coworker_id (grp q j) = c}) \<and>
     o_live_containers (q_orch q) = int (card {j. g_active (grp q j)})"
  using reach_acct [OF assms] by (simp add: acct_def cnt_def)

theorem counters_exact_witness:
  "reach demo_state \<and> tenant_used (q_orch demo_state) ''acme'' = 1 \<and>
   card {j. g_slot_held (grp demo_state j) \<and> g_tenant_id (grp demo_state j) = ''acme''} = 1"
proof -
  have "tenant_used (q_orch demo_state) ''acme'' = 1" by code_simp
  then show ?thesis using counters_exact [OF demo_reach, of "''acme''" "''''"] demo_reach by simp
qed

text \<open>C15. In every reachable state the turns in flight respect the configured limits: the global
  limit, every configured tenant's limit and every configured coworker's limit; and no more turns
  are in flight than containers are alive.\<close>

theorem limits_respected:
  assumes "reach q"
  shows "0 \<le> o_global_active (q_orch q) \<and> o_global_active (q_orch q) \<le> o_global_limit (q_orch q) \<and>
     (dict_get (o_tenants (q_orch q)) t = Some tn \<longrightarrow>
        tenant_used (q_orch q) t \<le> t_max_concurrent_containers tn) \<and>
     (dict_get (o_coworkers (q_orch q)) c = Some cw \<longrightarrow>
        coworker_used (q_orch q) c \<le> c_max_concurrent_containers (cw_config cw)) \<and>
     o_global_active (q_orch q) \<le> o_live_containers (q_orch q)"
proof -
  have "within_limits (q_orch q)" using reach_qinv [OF assms] by (simp add: qinv_def disc_def discW_def)
  moreover have "{j. g_slot_held (grp q j)} \<subseteq> {j. g_active (grp q j)}"
    using reach_flags [OF assms] by (auto simp: flags_ok_def)
  then have "cnt g_slot_held (grp q) \<le> cnt g_active (grp q)"
    by (simp add: cnt_def card_mono finite_groups)
  ultimately show ?thesis
    using reach_acct [OF assms] by (auto simp: within_limits_def acct_def)
qed

theorem limits_respected_witness:
  "reach demo_state \<and> dict_get (o_tenants (q_orch demo_state)) ''acme'' = Some demo_tenant \<and>
   tenant_used (q_orch demo_state) ''acme'' \<le> 1"
proof -
  have "dict_get (o_tenants (q_orch demo_state)) ''acme'' = Some demo_tenant" by code_simp
  then show ?thesis
    using limits_respected [OF demo_reach, of "''acme''" demo_tenant] demo_reach
    by (simp add: demo_tenant_def)
qed

text \<open>No call other than the adoption of an orphan pushes the number of live containers above
  the container ceiling: it stays at most the larger of its previous value and the configured
  limit.\<close>

theorem live_ceiling:
  assumes "reach q" "admissible c q" "\<And>j job t w. c \<noteq> CAdopt j job t w"
  shows "o_live_containers (q_orch (qexec c q)) \<le>
     max (o_live_containers (q_orch q)) (o_global_limit (q_orch q))"
proof -
  have "0 \<le> o_live_containers (q_orch q)" using reach_acct [OF assms(1)] by (simp add: acct_def)
  then have "capped (max (o_live_containers (q_orch q)) (o_global_limit (q_orch q))) q"
    by (simp add: capped_def)
  then show ?thesis using capped_qexec [OF assms(1,2) _ assms(3)] by (auto simp: capped_def)
qed

theorem live_ceiling_witness:
  "o_live_containers (q_orch (qexec (CEnqueueTask ''c'' ''t1'' 0 ''beta'' ''bot'') demo_state)) \<le> 2"
proof -
  have a: "admissible (CEnqueueTask ''c'' ''t1'' 0 ''beta'' ''bot'') demo_state" by code_simp
  have "o_live_containers (q_orch demo_state) = 1 \<and> o_global_limit (q_orch demo_state) = 2" by code_simp
  then show ?thesis using live_ceiling [OF demo_reach a] by simp
qed

text \<open>A conversation never runs twice: in every reachable state at most one runner coroutine of
  it exists, created or suspended; a runner that has not started yet has its turn slot reserved, a
  started one has its container counted, and an adopted container has no runner.\<close>

theorem one_runner_per_group:
  assumes "reach q"
  shows "n_runners (q_spawned q @ q_running q) j \<le> 1 \<and>
     (0 < n_runners (q_spawned q) j \<longrightarrow> g_slot_held (grp q j) \<and> g_active (grp q j)) \<and>
     (0 < n_runners (q_running q) j \<longrightarrow> g_active (grp q j)) \<and>
     (g_adopted (grp q j) \<longrightarrow> n_runners (q_spawned q @ q_running q) j = 0)"
  using reach_link [OF assms, of j] reach_flags [OF assms, of j]
  by (auto simp: link_ok_def flags_ok_def)

theorem one_runner_per_group_witness:
  "reach demo_state \<and> n_runners (q_running demo_state) ''a'' = 1 \<and> g_active (grp demo_state ''a'')"
proof -
  have "n_runners (q_running demo_state) ''a'' = 1" by code_simp
  then show ?thesis using one_runner_per_group [OF demo_reach, of "''a''"] demo_reach by simp
qed

text \<open>Accepted work is not lost: in every reachable state, a conversation without a container
  that has pending messages or tasks is on the waiting list, which holds no duplicates, unless the
  queue is shutting down.\<close>

theorem no_lost_work:
  assumes "reach q" "\<not> q_shutting_down q" "\<not> g_active (grp q j)" "has_pending (grp q j)"
  shows "j \<in> set (q_waiting_groups q) \<and> distinct (q_waiting_groups q)"
  using reach_link [OF assms(1), of j] reach_qinv [OF assms(1)] assms(2-4)
  by (auto simp: link_ok_def qinv_def disc_def)

theorem no_lost_work_witness:
  "has_pending (grp demo_state ''b'') \<and> ''b'' \<in> set (q_waiting_groups demo_state)"
proof -
  have "\<not> q_shutting_down demo_state" "\<not> g_active (grp demo_state ''b'')"
    "has_pending (grp demo_state ''b'')" by code_simp+
  then show ?thesis using no_lost_work [OF demo_reach] by blast
qed

text \<open>Draining the waiting list is maximal: in any state whatsoever, every conversation still on
  the list after \<open>_drain_waiting\<close> is refused by the turn limits or by the container ceiling, and the
  survivors keep their relative order.\<close>

theorem drain_waiting_maximal:
  assumes "k \<in> set (q_waiting_groups (drain_waiting q))"
  shows "\<not> startable (drain_waiting q) k \<and>
     subseq (q_waiting_groups (drain_waiting q)) (q_waiting_groups q)"
  using assms drain_loop_rest_blocked [of k "q_waiting_groups q" q]
    drain_loop_subseq [of "q_waiting_groups q" q]
  by (auto simp: drain_waiting_def startable_def can_start_turn_def can_spawn_def split: prod.splits)

theorem drain_waiting_maximal_witness:
  "''b'' \<in> set (q_waiting_groups (drain_waiting demo_state)) \<and> \<not> startable (drain_waiting demo_state) ''b''"
proof -
  have "''b'' \<in> set (q_waiting_groups (drain_waiting demo_state))" by code_simp
  then show ?thesis using drain_waiting_maximal by blast
qed

text \<open>A conversation that waits for an approval is not reaped: no idle timer is armed for it, a
  timer that fires does nothing, the end of its turn keeps its slot and container, and arming the
  timer is refused, until the last outstanding request is resolved.\<close>

theorem approval_blocks_reaping:
  assumes "reach q" "g_awaiting_approval (grp q j) \<noteq> {}"
  shows "g_idle_handle (grp q j) = None \<and> idle_fires j q = q \<and>
     grp (notify_idle j now q) = grp q \<and> q_orch (notify_idle j now q) = q_orch q \<and>
     g_idle_handle (grp (arm_idle_timer j q) j) = None \<and>
     (g_awaiting_approval (grp q j) \<noteq> {r} \<longrightarrow>
        g_idle_handle (grp (snd (resume_from_approval j r q)) j) = None)"
  using reach_flags [OF assms(1), of j] assms(2)
  by (auto simp: flags_ok_def idle_fires_def notify_idle_def arm_idle_timer_def
      resume_from_approval_def Let_def)

theorem approval_blocks_reaping_witness:
  "idle_fires ''a'' demo_state = demo_state \<and> grp (notify_idle ''a'' 7 demo_state) = grp demo_state"
proof -
  have "g_awaiting_approval (grp demo_state ''a'') \<noteq> {}" by code_simp
  then show ?thesis using approval_blocks_reaping [OF demo_reach] by blast
qed

end
