(* ===== verification/Scheduler_Live.thy ===== *)
theory Scheduler_Live
  imports Scheduler_Props
begin

text \<open>
  The queue is work conserving: in every reachable state that is not shutting down, a conversation
  that has pending work and no container is one that the limits refuse right now. Together with the
  counters being exact, a conversation waits only while others hold the capacity it needs.
\<close>

section \<open>The limits never change\<close>

definition lims :: "queue \<Rightarrow> int \<times> (string \<Rightarrow> int option) \<times> (string \<Rightarrow> int option)" where
  "lims q = (o_global_limit (q_orch q), tenant_limit (q_orch q), coworker_limit (q_orch q))"

lemma lims_orch: "q_orch q' = q_orch q \<Longrightarrow> lims q' = lims q"
  by (simp add: lims_def)

lemma lims_frame [simp]:
  "lims (get_group j q) = lims q" "lims (upd_group j f q) = lims q" "lims (spawn t q) = lims q"
  "lims (pop_warm j q) = lims q" "lims (add_waiting j q) = lims q" "lims (pop_task j q) = lims q"
  "lims (cancel_idle_timer j q) = lims q" "lims (q\<lparr>q_waiting_groups := ws\<rparr>) = lims q"
  by (simp_all add: lims_def)

lemma lims_slots [simp]:
  "lims (acquire_turn j q) = lims q" "lims (release_turn j q) = lims q"
  "lims (acquire_live j q) = lims q" "lims (release_live j q) = lims q"
  "lims (reserve_slot j q) = lims q"
  by (auto simp: lims_def acquire_turn_def release_turn_def acquire_live_def release_live_def
      reserve_slot_def Let_def adm.limits_incr adm.limits_decr)

lemma lims_same_core [simp]:
  "lims (request_shutdown j q) = lims q" "lims (fire w cb j q) = lims q"
  by (rule lims_orch; use same_core_request_shutdown [of q j] same_core_fire [of q w cb j] in
      \<open>simp add: same_core_def\<close>)+

text \<open>
  With exact counters, a state whose conversations hold no less, under the same limits, admits no
  more.
\<close>

lemma startable_mono:
  assumes a: "acct q" "acct q'" and l: "lims q' = lims q" and g: "grp q' = (grp q)(j := g)"
    and ids: "g_tenant_id g = g_tenant_id (grp q j)" "g_coworker_id g = g_coworker_id (grp q j)"
    and up: "g_slot_held (grp q j) \<Longrightarrow> g_slot_held g" "g_active (grp q j) \<Longrightarrow> g_active g"
    and s: "startable q' k"
  shows "startable q k"
proof -
  have mono: "cnt P (grp q) \<le> cnt P (grp q')" if "\<not> P new_group" "P (grp q j) \<Longrightarrow> P g" for P
    using that by (simp add: g)
  have "cnt g_slot_held (grp q) \<le> cnt g_slot_held (grp q')" "cnt g_active (grp q) \<le> cnt g_active (grp q')"
    using up by (intro mono; simp)+
  moreover have "cnt (held_t t) (grp q) \<le> cnt (held_t t) (grp q')"
    "cnt (held_c t) (grp q) \<le> cnt (held_c t) (grp q')" for t
    using up ids by (intro mono; simp)+
  moreover have "g_tenant_id (grp q' k) = g_tenant_id (grp q k)" "g_coworker_id (grp q' k) = g_coworker_id (grp q k)"
    using ids by (simp_all add: g)
  ultimately show ?thesis
    using s a l
    by (fastforce simp: startable_def can_start_turn_def can_spawn_def can_spawn_container_def
        adm.can_start_iff acct_def lims_def dest: order.strict_trans1)
qed

lemma grp_fire [simp]: "grp (fire w cb j q) = grp q"
  by (simp add: fire_def)

lemma request_shutdown_frame [simp]:
  "grp (request_shutdown j q) = grp q" "q_shutting_down (request_shutdown j q) = q_shutting_down q"
  using same_core_request_shutdown [of q j] by (simp_all add: same_core_def)

section \<open>The invariant\<close>

definition wc :: "queue \<Rightarrow> bool" where
  "wc q \<longleftrightarrow> q_shutting_down q \<or> (\<forall>k. \<not> g_active (grp q k) \<and> has_pending (grp q k) \<longrightarrow> \<not> startable q k)"

lemma wc_cong:
  "grp q' = grp q \<Longrightarrow> q_orch q' = q_orch q \<Longrightarrow> q_shutting_down q' = q_shutting_down q \<Longrightarrow> wc q' = wc q"
  by (simp add: wc_def startable_def can_start_turn_def can_spawn_def)

lemma wc_same_core: "same_core q q' \<Longrightarrow> wc q' = wc q"
  by (rule wc_cong) (simp_all add: same_core_def)

lemma wc_frame [simp]:
  "wc (get_group j q) = wc q" "wc (spawn t q) = wc q" "wc (pop_warm j q) = wc q"
  "wc (add_waiting j q) = wc q" "wc (q\<lparr>q_running := ts\<rparr>) = wc q" "wc (q\<lparr>q_spawned := ts\<rparr>) = wc q"
  by (rule wc_cong; simp)+

lemma wc_same_core_simps [simp]:
  "wc (request_shutdown j q) = wc q" "wc (interrupt_current_turn j q) = wc q"
  "wc (evict_if_needed j q) = wc q" "wc (fire w cb j q) = wc q"
  by (rule wc_same_core; simp)+

lemma wc_upd:
  assumes "wc q"
    and "\<not> g_active (f (grp q j)) \<Longrightarrow> has_pending (f (grp q j)) \<Longrightarrow> \<not> q_shutting_down q \<Longrightarrow>
      \<not> startable (upd_group j f q) j"
  shows "wc (upd_group j f q)"
  using assms by (auto simp: wc_def startable_def)

lemma wc_upd_quiet:
  assumes "wc q" "g_active (f (grp q j)) = g_active (grp q j)" "has_pending (f (grp q j)) = has_pending (grp q j)"
    and "g_tenant_id (f (grp q j)) = g_tenant_id (grp q j)" "g_coworker_id (f (grp q j)) = g_coworker_id (grp q j)"
  shows "wc (upd_group j f q)"
  using assms by (intro wc_upd) (auto simp: wc_def startable_def)

lemma wc_start: "wc q \<Longrightarrow> wc (reserve_slot j q)"
proof -
  assume w: "wc q"
  have "startable q k" if "startable (reserve_slot j q) k" for k
    using that by (auto simp: startable_def dest: reserve_monotone split: if_splits)
  then show ?thesis using w by (auto simp: wc_def)
qed

lemma wc_drained:
  assumes "disc (drain_waiting q)"
  shows "wc (drain_waiting q)"
proof -
  have "\<not> startable (drain_waiting q) k" if "k \<in> set (q_waiting_groups (drain_waiting q))" for k
    using that drain_loop_rest_blocked [of k "q_waiting_groups q" q]
    by (auto simp: drain_waiting_def startable_def can_start_turn_def can_spawn_def split: prod.splits)
  then show ?thesis using assms by (auto simp: wc_def disc_def discW_def link_ok_def)
qed

text \<open>
  The exit of a container: the group gives back what it held and is drained. If its own work starts
  at once, nobody else is better off than before; otherwise the whole list is drained.
\<close>

lemma wc_exit:
  assumes w: "wc q" and a: "acct q" "acct r" and act: "g_active (grp q j)"
    and g: "\<And>k. k \<noteq> j \<Longrightarrow> grp r k = grp q k" and l: "lims r = lims q" and sd: "q_shutting_down r = q_shutting_down q"
    and ids: "g_tenant_id (grp r j) = g_tenant_id (grp q j)" "g_coworker_id (grp r j) = g_coworker_id (grp q j)"
    and d: "disc (drain_group j r)"
  shows "wc (drain_group j r)"
proof -
  have start: "wc (spawn t (f (reserve_slot j (get_group j r))))"
    if f: "f = (\<lambda>x. x) \<or> f = pop_task j" for t f
  proof -
    let ?q' = "f (reserve_slot j (get_group j r))"
    have "acct ?q'" "lims ?q' = lims q" "q_shutting_down ?q' = q_shutting_down q"
      using f a(2) l sd by (auto simp: acct_reserve_slot)
    moreover have g': "grp ?q' = (grp q)(j := grp ?q' j)" "g_active (grp ?q' j)" "g_slot_held (grp ?q' j)"
      "g_tenant_id (grp ?q' j) = g_tenant_id (grp r j)" "g_coworker_id (grp ?q' j) = g_coworker_id (grp r j)"
      using f g by (auto simp: fun_eq_iff)
    ultimately have "startable q k" if "startable ?q' k" for k
      using startable_mono [OF a(1), of ?q' j "grp ?q' j" k] that ids by simp
    moreover have "grp ?q' k = grp q k" if "k \<noteq> j" for k using f g that by auto
    ultimately have "wc ?q'"
      using w g'(2) \<open>q_shutting_down ?q' = q_shutting_down q\<close> by (metis wc_def)
    then show ?thesis by simp
  qed
  show ?thesis
  proof (cases "q_shutting_down r")
    case True
    then show ?thesis by (simp add: drain_group_def wc_def)
  next
    case False
    then show ?thesis
      using d start [of "\<lambda>x. x"] start [of "pop_task j"]
      by (auto simp: drain_group_def Let_def wc_drained split: list.splits if_splits)
  qed
qed

lemma wc_set_ids:
  assumes "wc q" "ids_stable j t c q"
  shows "wc (upd_group j (set_ids t c) (get_group j q))"
proof (rule wc_upd)
  assume p: "has_pending (set_ids t c (grp (get_group j q) j))" "\<not> g_active (set_ids t c (grp (get_group j q) j))"
    and sd: "\<not> q_shutting_down (get_group j q)"
  then have "has_pending (grp q j)" "\<not> g_active (grp q j)" by (simp_all add: set_ids_def has_pending_def)
  moreover from this have "set_ids t c (grp q j) = grp q j"
    using assms(2) by (auto simp: ids_stable_def set_ids_def or_str_def)
  ultimately show "\<not> startable (upd_group j (set_ids t c) (get_group j q)) j"
    using assms(1) sd by (simp add: wc_def startable_def)
qed (use assms in simp)

lemma wc_enqueue_message:
  assumes "wc q" "ids_stable j t c q"
  shows "wc (enqueue_message_check j t c q)"
proof -
  define r where "r = upd_group j (set_ids t c) (get_group j q)"
  have w: "wc r" using assms by (simp add: r_def wc_set_ids)
  have "wc (upd_group j (\<lambda>g. g\<lparr>g_pending_messages := True\<rparr>) r)" if "g_active (grp r j) \<or> \<not> startable r j"
    using w that by (intro wc_upd) (auto simp: startable_def)
  then show ?thesis
    using assms(1) wc_start [OF w]
    by (simp add: enqueue_message_check_def r_def [symmetric] Let_def startable_def)
qed

lemma wc_enqueue_task:
  assumes "wc q" "ids_stable j t c q"
  shows "wc (enqueue_task j tid fn t c q)"
proof -
  define r where "r = upd_group j (set_ids t c) (get_group j q)"
  have w: "wc r" using assms by (simp add: r_def wc_set_ids)
  have "wc (upd_group j (\<lambda>g. g\<lparr>g_pending_tasks := g_pending_tasks g @ ts\<rparr>) r)"
    if "g_active (grp r j) \<or> \<not> startable r j" for ts
    using w that by (intro wc_upd) (auto simp: startable_def)
  then show ?thesis
    using assms(1) wc_start [OF w] w
    by (simp add: enqueue_task_def r_def [symmetric] Let_def startable_def)
qed

lemma wc_quiet_ops:
  assumes "wc q"
  shows "wc (register_process j n f jb q)" "wc (cancel_idle_timer j q)" "wc (arm_idle_timer j q)"
    "wc (suspend_for_approval j r q)" "wc (snd (resume_from_approval j r q))"
  using assms
  by (auto simp: register_process_def cancel_idle_timer_def arm_idle_timer_def suspend_for_approval_def
      resume_from_approval_def Let_def has_pending_def intro!: wc_upd_quiet)

lemma wc_acquire_turn: "wc q \<Longrightarrow> wc (acquire_turn j q)"
proof -
  assume w: "wc q"
  have "startable q k" if "startable (acquire_turn j q) k" for k
    using that
    by (auto simp: startable_def can_start_turn_def can_spawn_def acquire_turn_def Let_def
        can_spawn_container_def dest: adm.can_start_incr split: if_splits)
  then show ?thesis using w by (auto simp: wc_def has_pending_def split: if_splits)
qed

lemma wc_send_message: "wc q \<Longrightarrow> wc (snd (send_message j txt q))"
  by (auto simp: send_message_def Let_def has_pending_def
      intro!: wc_upd_quiet wc_acquire_turn wc_quiet_ops(2))

lemma wc_adopt:
  assumes "wc q" "ids_stable j t c q"
  shows "wc (adopt_orphan_container j job t c q)"
proof -
  define r where "r = upd_group j (set_ids t c) (get_group j q)"
  have w: "wc r" using assms by (simp add: r_def wc_set_ids)
  have "startable r k" if "startable (acquire_live j r) k" for k
    using that
    by (auto simp: startable_def can_start_turn_def can_spawn_def acquire_live_def
        can_spawn_container_def split: if_splits)
  then have "wc (acquire_live j r)" using w by (auto simp: wc_def split: if_splits)
  then show ?thesis
    by (auto simp: adopt_orphan_container_def r_def [symmetric] Let_def has_pending_def intro!: wc_upd_quiet)
qed

lemma wc_begin:
  assumes "wc q" "g_active (grp q j)"
  shows "wc (run_for_group_begin j q)" "wc (run_task_begin j task q)"
proof -
  have "wc (upd_group j f (get_group j q))" if "g_active (f (grp q j))" for f
    using assms that by (intro wc_upd) auto
  then show "wc (run_for_group_begin j q)" "wc (run_task_begin j task q)"
    using assms(2)
    by (auto simp: run_for_group_begin_def run_task_begin_def Let_def intro!: wc_start wc_quiet_ops(2))
qed

text \<open>The calls that give capacity back.\<close>

lemma wc_notify_idle:
  assumes "wc q" "disc (notify_idle j now q)"
  shows "wc (notify_idle j now q)"
  using assms by (auto simp: notify_idle_def Let_def wc_drained split: if_splits)

lemma wc_ends:
  assumes w: "wc q" and a: "acct q" and act: "g_active (grp q j)"
  shows "disc (run_for_group_end out j q) \<Longrightarrow> wc (run_for_group_end out j q)"
    and "disc (run_task_end j q) \<Longrightarrow> wc (run_task_end j q)"
    and "disc (reap_ghost j q) \<Longrightarrow> wc (reap_ghost j q)"
    and "disc (reap_adopted j q) \<Longrightarrow> wc (reap_adopted j q)"
proof -
  define s where "s = (case out of Success \<Rightarrow> upd_group j (\<lambda>g. g\<lparr>g_retry_count := 0\<rparr>) q
     | Failure \<Rightarrow> schedule_retry j q | Raised \<Rightarrow> schedule_retry j q | _ \<Rightarrow> q)"
  have s: "wc s" "acct s" "g_active (grp s j)"
    using w a act
    by (auto simp: s_def schedule_retry_def Let_def has_pending_def intro!: wc_upd_quiet acct_intros
        split: outcome.split)
  show "wc (run_for_group_end out j q)" if "disc (run_for_group_end out j q)"
    using that unfolding run_for_group_end_def s_def [symmetric] Let_def
    by (intro wc_exit [OF s(1,2) _ s(3)]) (auto intro!: acct_intros s)
  show "wc (run_task_end j q)" if "disc (run_task_end j q)"
    using that unfolding run_task_end_def Let_def
    by (intro wc_exit [OF w a _ act]) (auto intro!: acct_intros a)
  show "wc (reap_ghost j q)" if "disc (reap_ghost j q)"
    using that unfolding reap_ghost_def Let_def
    by (intro wc_exit [OF w a _ act]) (auto intro!: acct_intros a)
  show "wc (reap_adopted j q)" if "disc (reap_adopted j q)"
    using that unfolding reap_adopted_def Let_def
    by (intro wc_exit [OF w a _ act]) (auto intro!: acct_intros a)
qed

lemma wc_finish:
  assumes "wc q" "qinv q" "t \<in> set (q_running q)"
  shows "wc (finish_task t out q)"
proof -
  define r where "r = q\<lparr>q_running := remove1 t (q_running q)\<rparr>"
  have r: "wc r" "acct r" using assms by (simp_all add: r_def qinv_def)
  have d: "disc (finish_task t out q)" using assms by (auto simp: qinv_def intro: disc_finish_task)
  have "g_active (grp r j)" if "runner_jid t = Some j" for j
    using assms(2) n_runners_remove1 [OF assms(3), of j] that
    by (auto simp: qinv_def disc_def discW_def link_ok_def r_def)
  then show ?thesis
    using d r unfolding finish_task_def Let_def r_def [symmetric]
    by (auto simp: ids_stable_def intro: wc_ends wc_enqueue_message split: bg_task.splits)
qed

lemma wc_qexec:
  assumes w: "wc q" and i: "qinv q" and a: "admissible c q"
  shows "wc (qexec c q)"
proof -
  have d: "disc (qexec c q)" using i a by (rule disc_qexec)
  have fl: "flags_ok (grp q j)" and lk: "link_ok q (set (q_waiting_groups q)) j" for j
    using i by (simp_all add: qinv_def disc_def discW_def)
  show ?thesis
  proof (cases c)
    case CSetup
    then show ?thesis using w wc_same_core [OF same_core_setup] by simp
  next
    case (CIdleFires j)
    have "wc (reap_adopted j q)" if "g_idle_handle (grp q j) = Some CbReapAdopted"
      using that CIdleFires d fl [of j] i w
      by (intro wc_ends) (auto simp: qinv_def flags_ok_def idle_fires_def)
    then show ?thesis
      using CIdleFires w by (auto simp: idle_fires_def split: option.split idle_cb.split)
  next
    case (CStart t)
    have "g_active (grp q j)" if "runner_jid t = Some j" for j
      using that a CStart n_runners_remove1 [of t "q_spawned q" j] lk [of j] fl [of j]
      by (auto simp: link_ok_def flags_ok_def)
    then show ?thesis using CStart w by (cases t) (auto simp: start_task_def Let_def intro!: wc_begin)
  next
    case (CReconcile live)
    have "wc (snd (sweep_loop names (dict_keys (q_groups q)) q))" if "live = Some names" for names
      by (rule sweep_loop_keeps [where Q = wc, THEN conjunct2])
        (use that CReconcile a i w in \<open>auto simp: qinv_def groups_wf_def has_pending_def
          intro: wc_upd_quiet wc_ends disc_reap_ghost\<close>)
    then show ?thesis using CReconcile w by (auto simp: reconcile_once_def split: option.split)
  next
    case CShutdown
    then show ?thesis by (simp add: shutdown_def Let_def wc_def)
  qed (use a d w i in \<open>auto intro: wc_enqueue_message wc_enqueue_task wc_quiet_ops wc_notify_idle
      wc_adopt wc_send_message wc_finish\<close>)
qed

lemma reach_wc: "reach q \<Longrightarrow> wc q"
proof (induction rule: reach.induct)
  case (init os tr rt ms)
  then show ?case
    by (simp add: wc_def grp_def new_queue_def dict_get_def has_pending_def new_group_def)
next
  case (call q c)
  then show ?case using reach_qinv wc_qexec by blast
qed

text \<open>C2. The queue is work conserving: in every reachable state, unless it is shutting down, a
  conversation with pending work and no container is refused by the current limits. A slot or a
  container that is given back is handed on within the same event-loop step, so nothing waits for a
  wake-up that never comes.\<close>

theorem work_conserving:
  assumes "reach q" "\<not> q_shutting_down q" "\<not> g_active (grp q j)" "has_pending (grp q j)"
  shows "\<not> (can_start_turn q (g_tenant_id (grp q j)) (g_coworker_id (grp q j)) \<and> can_spawn q)"
  using reach_wc [OF assms(1)] assms(2-4) by (auto simp: wc_def startable_def)

theorem work_conserving_witness:
  "has_pending (grp demo_state ''b'') \<and>
   \<not> (can_start_turn demo_state (g_tenant_id (grp demo_state ''b'')) (g_coworker_id (grp demo_state ''b'')) \<and>
      can_spawn demo_state)"
proof -
  have "\<not> q_shutting_down demo_state" "\<not> g_active (grp demo_state ''b'')"
    "has_pending (grp demo_state ''b'')" by code_simp+
  then show ?thesis using work_conserving [OF demo_reach] by blast
qed

end
