(* ===== verification/Scheduler_Paths.thy ===== *)
theory Scheduler_Paths
  imports Scheduler_Live
begin

text \<open>
  The behaviour of the queue along particular paths: the back-off of failing conversations, the
  delivery of a follow-up message, and two corners of the code whose comments promise more than the
  code does.
\<close>

section \<open>Back-off\<close>

lemma wired_frame [simp]:
  "q_on_messages_dropped (upd_group j f q) = q_on_messages_dropped q"
  "q_on_messages_dropped (spawn t q) = q_on_messages_dropped q"
  by (simp_all add: upd_group_def spawn_def)

lemma schedule_retry_step:
  assumes "g_retry_count (grp q j) = n" "n < max_retries" "0 \<le> n"
  shows "g_retry_count (grp (schedule_retry j q) j) = n + 1 \<and>
     q_spawned (schedule_retry j q) = q_spawned q @ [RetryTask j (base_retry_ms * 2 ^ nat n)] \<and>
     q_on_messages_dropped (schedule_retry j q) = q_on_messages_dropped q"
  using assms by (simp add: schedule_retry_def Let_def max_retries_def)

lemma schedule_retry_last:
  assumes "g_retry_count (grp q j) = max_retries"
  shows "g_retry_count (grp (schedule_retry j q) j) = 0 \<and>
     q_spawned (schedule_retry j q) =
       q_spawned q @ (if q_on_messages_dropped q then [Callback OnMessagesDropped j] else [])"
  using assms by (simp add: schedule_retry_def Let_def fire_def)

text \<open>A conversation that keeps failing is retried five times, after 5, 10, 20, 40 and 80
  seconds; the sixth failure gives up: it tells the \<open>on_messages_dropped\<close> callback when one is wired
  and resets the counter, so that the next message starts with a full budget.\<close>

theorem retry_schedule:
  assumes "g_retry_count (grp q j) = 0"
  shows "q_spawned ((schedule_retry j ^^ 6) q) =
       q_spawned q @ map (RetryTask j) [5000, 10000, 20000, 40000, 80000] @
       (if q_on_messages_dropped q then [Callback OnMessagesDropped j] else []) \<and>
     g_retry_count (grp ((schedule_retry j ^^ 6) q) j) = 0"
proof -
  note step = schedule_retry_step [of _ j]
  define q1 where "q1 = schedule_retry j q"
  define q2 where "q2 = schedule_retry j q1"
  define q3 where "q3 = schedule_retry j q2"
  define q4 where "q4 = schedule_retry j q3"
  define q5 where "q5 = schedule_retry j q4"
  have 1: "g_retry_count (grp q1 j) = 1" "q_spawned q1 = q_spawned q @ [RetryTask j 5000]"
    "q_on_messages_dropped q1 = q_on_messages_dropped q"
    using step [of q 0] assms by (simp_all add: q1_def max_retries_def base_retry_ms_def)
  have 2: "g_retry_count (grp q2 j) = 2" "q_spawned q2 = q_spawned q1 @ [RetryTask j 10000]"
    "q_on_messages_dropped q2 = q_on_messages_dropped q"
    using step [of q1 1] 1 by (simp_all add: q2_def max_retries_def base_retry_ms_def)
  have 3: "g_retry_count (grp q3 j) = 3" "q_spawned q3 = q_spawned q2 @ [RetryTask j 20000]"
    "q_on_messages_dropped q3 = q_on_messages_dropped q"
    using step [of q2 2] 2 by (simp_all add: q3_def max_retries_def base_retry_ms_def)
  have 4: "g_retry_count (grp q4 j) = 4" "q_spawned q4 = q_spawned q3 @ [RetryTask j 40000]"
    "q_on_messages_dropped q4 = q_on_messages_dropped q"
    using step [of q3 3] 3 by (simp_all add: q4_def max_retries_def base_retry_ms_def)
  have 5: "g_retry_count (grp q5 j) = 5" "q_spawned q5 = q_spawned q4 @ [RetryTask j 80000]"
    "q_on_messages_dropped q5 = q_on_messages_dropped q"
    using step [of q4 4] 4 by (simp_all add: q5_def max_retries_def base_retry_ms_def)
  have "(schedule_retry j ^^ 6) q = schedule_retry j q5"
    by (simp add: eval_nat_numeral q1_def q2_def q3_def q4_def q5_def)
  then show ?thesis using schedule_retry_last [of q5 j] 1 2 3 4 5 by (simp add: max_retries_def)
qed

theorem retry_schedule_witness:
  "q_spawned ((schedule_retry ''a'' ^^ 6) demo_queue) =
     map (RetryTask ''a'') [5000, 10000, 20000, 40000, 80000]"
proof -
  have "g_retry_count (grp demo_queue ''a'') = 0" "q_spawned demo_queue = []"
    "\<not> q_on_messages_dropped demo_queue" by code_simp+
  then show ?thesis using retry_schedule [of demo_queue "''a''"] by simp
qed

section \<open>Follow-up messages\<close>

text \<open>In a reachable state, a follow-up message is delivered to the live container exactly when
  there is one that is no task container, the transport is wired, and either a turn is already in
  flight or turn admission grants a new one. When it is delivered to a warm container, the
  conversation holds a turn slot afterwards, has left the warm pool and is no longer idle-reaped;
  when it is refused, no conversation and no counter has changed.\<close>

theorem send_message_admission:
  assumes "reach q"
  shows "(fst (send_message j txt q) \<longleftrightarrow>
       g_active (grp q j) \<and> truthy (g_job_id (grp q j)) \<and> \<not> g_is_task_container (grp q j) \<and> q_transport q \<and>
       (g_processing (grp q j) \<or> can_start_turn q (g_tenant_id (grp q j)) (g_coworker_id (grp q j)))) \<and>
     (fst (send_message j txt q) \<longrightarrow>
       g_slot_held (grp (snd (send_message j txt q)) j) \<and>
       j \<notin> set (dict_keys (q_warm (snd (send_message j txt q)))) \<and>
       q_spawned (snd (send_message j txt q)) = q_spawned q @ [SendInput j txt] \<and>
       (\<not> g_processing (grp q j) \<longrightarrow> g_idle_handle (grp (snd (send_message j txt q)) j) = None)) \<and>
     (\<not> fst (send_message j txt q) \<longrightarrow>
       grp (snd (send_message j txt q)) = grp q \<and> q_orch (snd (send_message j txt q)) = q_orch q)"
  using reach_flags [OF assms, of j] reach_link [OF assms, of j]
  by (auto simp: send_message_def Let_def flags_ok_def link_ok_def)

theorem send_message_admission_witness:
  "fst (send_message ''a'' ''hi'' demo_state) \<and>
   g_slot_held (grp (snd (send_message ''a'' ''hi'' demo_state)) ''a'')"
proof -
  have "g_active (grp demo_state ''a'') \<and> truthy (g_job_id (grp demo_state ''a'')) \<and>
      \<not> g_is_task_container (grp demo_state ''a'') \<and> q_transport demo_state \<and> g_processing (grp demo_state ''a'')"
    by code_simp
  then show ?thesis using send_message_admission [OF demo_reach, of "''a''" "''hi''"] by blast
qed

section \<open>Two corners\<close>

text \<open>The guard against queueing a task twice looks at the running and the pending tasks, and
  not at a task whose runner has been created but has not run yet: two immediate calls for the same
  idle conversation leave a runner for the task and the same task pending behind it.\<close>

theorem enqueue_task_window:
  assumes "\<not> q_shutting_down q" "\<not> g_active (grp q j)" "g_pending_tasks (grp q j) = []"
    and "g_running_task_id (grp q j) = None" "can_spawn q" "t \<noteq> ''''" "c \<noteq> ''''" "can_start_turn q t c"
    and "q2 = enqueue_task j tid fn t c (enqueue_task j tid fn t c q)"
  shows "(\<exists>k. RunTask j k \<in> set (q_spawned q2) \<and> qt_id k = tid) \<and>
     (\<exists>k. k \<in> set (g_pending_tasks (grp q2 j)) \<and> qt_id k = tid)"
proof -
  define k where "k = \<lparr>qt_id = tid, qt_group_jid = j, qt_fn = fn, qt_tenant_id = t, qt_coworker_id = c\<rparr>"
  define q1 where "q1 = spawn (RunTask j k) (reserve_slot j (upd_group j (set_ids t c) (get_group j q)))"
  have q1: "enqueue_task j tid fn t c q = q1"
    using assms(1-8) by (simp add: enqueue_task_def q1_def k_def Let_def set_ids_def or_str_def)
  have g1: "g_active (grp q1 j)" "g_pending_tasks (grp q1 j) = []" "g_running_task_id (grp q1 j) = None"
    "\<not> q_shutting_down q1"
    using assms(1,3,4) by (simp_all add: q1_def set_ids_def)
  define q' where
    "q' = upd_group j (\<lambda>g. g\<lparr>g_pending_tasks := g_pending_tasks g @ [k]\<rparr>) (upd_group j (set_ids t c) (get_group j q1))"
  have "q2 = q' \<or> q2 = request_shutdown j q'"
    using g1 assms(6,7,9) unfolding q1
    by (simp add: enqueue_task_def q'_def k_def Let_def set_ids_def or_str_def)
  moreover have "RunTask j k \<in> set (q_spawned q')" "k \<in> set (g_pending_tasks (grp q' j))"
    by (simp_all add: q'_def q1_def)
  moreover have "set (q_spawned q') \<subseteq> set (q_spawned (request_shutdown j q'))"
    by (auto simp: request_shutdown_def Let_def)
  moreover have "qt_id k = tid" by (simp add: k_def)
  ultimately show ?thesis by (metis request_shutdown_frame(1) subsetD)
qed

theorem enqueue_task_window_witness:
  "g_pending_tasks (grp (enqueue_task ''c'' ''t1'' 0 ''beta'' ''bot''
     (enqueue_task ''c'' ''t1'' 0 ''beta'' ''bot'' demo_queue)) ''c'') \<noteq> []"
proof -
  have "\<not> q_shutting_down demo_queue" "\<not> g_active (grp demo_queue ''c'')"
    "g_pending_tasks (grp demo_queue ''c'') = []" "g_running_task_id (grp demo_queue ''c'') = None"
    "can_spawn demo_queue" "can_start_turn demo_queue ''beta'' ''bot''" by code_simp+
  then show ?thesis using enqueue_task_window [of demo_queue "''c''" "''beta''" "''bot''" _ "''t1''" 0] by auto
qed

text \<open>A container adopted after a restart that receives a follow-up message while its approval
  is pending is never reaped: after the approval is resolved the conversation holds a turn slot and
  a container, has no runner that could end the turn, no idle timer to fire, and the ghost sweep
  passes it over because an adopted container has no name.\<close>

theorem adopted_followup_wedged:
  assumes "reach q" "g_adopted (grp q j)" "g_awaiting_approval (grp q j) = {r}"
    and "fst (send_message j txt q)"
  defines "q2 \<equiv> snd (resume_from_approval j r (snd (send_message j txt q)))"
  shows "g_active (grp q2 j) \<and> g_slot_held (grp q2 j) \<and> g_awaiting_approval (grp q2 j) = {} \<and>
     n_runners (q_spawned q2 @ q_running q2) j = 0 \<and> idle_fires j q2 = q2 \<and>
     sweep_loop live [j] q2 = (0, q2)"
proof -
  have fl: "flags_ok (grp q j)" and lk: "link_ok q (set (q_waiting_groups q)) j"
    using assms(1) by (simp_all add: reach_flags reach_link)
  show ?thesis
    using assms(2-4) fl lk unfolding q2_def
    by (auto simp: send_message_def resume_from_approval_def arm_idle_timer_def idle_fires_def Let_def
        flags_ok_def link_ok_def truthy_def split: if_splits)
qed

text \<open>The state after a restart: the row of a pending approval is re-adopted and suspended.\<close>

definition demo_adopted :: queue where
  "demo_adopted = qrun [CAdopt ''a'' ''job1'' ''acme'' ''bot'', CSuspend ''a'' ''r1''] demo_queue"

lemma demo_adopted_reach: "reach demo_adopted"
  unfolding demo_adopted_def
proof (rule reach_qrun)
  show "reach demo_queue" unfolding demo_queue_def by (rule reach.init [OF demo_queue_fresh])
  show "all_admissible [CAdopt ''a'' ''job1'' ''acme'' ''bot'', CSuspend ''a'' ''r1''] demo_queue"
    by code_simp
qed

theorem adopted_followup_wedged_witness:
  "g_slot_held (grp (snd (resume_from_approval ''a'' ''r1''
     (snd (send_message ''a'' ''hi'' demo_adopted)))) ''a'')"
proof -
  have h: "g_adopted (grp demo_adopted ''a'')" "g_awaiting_approval (grp demo_adopted ''a'') = {''r1''}"
    "fst (send_message ''a'' ''hi'' demo_adopted)" by code_simp+
  show ?thesis using adopted_followup_wedged [OF demo_adopted_reach h, of "{}"] by blast
qed

end
