(* ===== verification/Approval_Policy.thy ===== *)
theory Approval_Policy
  imports Py_Json "HOL-Library.Product_Lexorder"
begin

text \<open>
  The approval policy matcher of \<^verbatim>\<open>src/src/agent_runner/approval/policy.py\<close>: the evaluator and the
  write-time validator of the condition language, and the choice of the policy that governs a tool
  call. A condition and the parameters of a call are JSON values; every exception of the source is
  an error value. The abstract language \<open>cond\<close> with its meaning \<open>sem\<close> is the specification that the
  evaluator implements on validated conditions.
\<close>

section \<open>Data\<close>

record approval_policy =
  p_id :: string
  p_tenant_id :: string
  p_mcp_server_name :: string
  p_tool_name :: string
  p_condition_expr :: json
  p_enabled :: bool
  p_priority :: int
  p_updated_at :: int
  p_created_at :: "int option"

text \<open>
  Why a condition could not be evaluated: the two reasons \<open>_ConditionEvalError\<close> is raised for, with
  the field and the operator its message names, and any other exception.
\<close>

datatype eval_error =
    MissingField json
  | BadComparison string json
  | MalformedCondition

section \<open>Operators\<close>

definition op_eq :: "json \<Rightarrow> json \<Rightarrow> bool option" where
  "op_eq a b = Some (py_eq a b)"

definition op_ne :: "json \<Rightarrow> json \<Rightarrow> bool option" where
  "op_ne a b = Some (\<not> py_eq a b)"

definition op_gt :: "json \<Rightarrow> json \<Rightarrow> bool option" where
  "op_gt a b = py_less b a"

definition op_ge :: "json \<Rightarrow> json \<Rightarrow> bool option" where
  "op_ge a b = py_le b a"

definition op_lt :: "json \<Rightarrow> json \<Rightarrow> bool option" where
  "op_lt a b = py_less a b"

definition op_le :: "json \<Rightarrow> json \<Rightarrow> bool option" where
  "op_le a b = py_le a b"

text \<open>Of the JSON values only a list is a collection in the sense of \<open>_is_collection\<close>.\<close>

fun is_collection :: "json \<Rightarrow> bool" where
  "is_collection (JList _) = True"
| "is_collection _ = False"

definition op_in :: "json \<Rightarrow> json \<Rightarrow> bool option" where
  "op_in a b = (if \<not> is_collection b then None else py_contains b a)"

definition op_not_in :: "json \<Rightarrow> json \<Rightarrow> bool option" where
  "op_not_in a b = map_option Not (op_in a b)"

definition op_contains :: "json \<Rightarrow> json \<Rightarrow> bool option" where
  "op_contains a b = py_contains a b"

definition ops :: "(string, json \<Rightarrow> json \<Rightarrow> bool option) dict" where
  "ops = [(''=='', op_eq), (''!='', op_ne), (''>'', op_gt), (''>='', op_ge), (''<'', op_lt),
     (''<='', op_le), (''in'', op_in), (''not_in'', op_not_in), (''contains'', op_contains)]"

text \<open>A list or a dict cannot be looked up in a dict.\<close>

fun hashable :: "json \<Rightarrow> bool" where
  "hashable (JList _) = False"
| "hashable (JObj _) = False"
| "hashable _ = True"

section \<open>Evaluation\<close>

type_synonym params = "(string \<times> json) list"

text \<open>The comparison at a leaf, once field, operator and value have been read.\<close>

definition leaf_eval :: "json \<Rightarrow> json \<Rightarrow> json \<Rightarrow> params \<Rightarrow> eval_error + bool" where
  "leaf_eval field oper value ps =
     (case oper of
        JStr opn \<Rightarrow>
          (case dict_get ops opn of
             None \<Rightarrow> Inl MalformedCondition
           | Some fn \<Rightarrow>
               if \<not> hashable field then Inl MalformedCondition
               else
                 (case (case field of JStr f \<Rightarrow> obj_get ps f | _ \<Rightarrow> None) of
                    None \<Rightarrow> Inl (MissingField field)
                  | Some actual \<Rightarrow>
                      (case fn actual value of
                         None \<Rightarrow> Inl (BadComparison opn field)
                       | Some b \<Rightarrow> Inr b)))
      | _ \<Rightarrow> Inl MalformedCondition)"

lemma size_obj_entry:
  "map_of e k = Some v \<Longrightarrow> size v < Suc (size_list (size_prod (\<lambda>_. 0) size) e)"
  by (induction e) (auto split: if_splits)

function (sequential) cond_eval :: "json \<Rightarrow> params \<Rightarrow> eval_error + bool"
  and eval_all :: "json list \<Rightarrow> params \<Rightarrow> eval_error + bool"
  and eval_any :: "json list \<Rightarrow> params \<Rightarrow> eval_error + bool" where
  "cond_eval (JObj e) ps =
     (case map_of e ''always'' of
        Some (JBool b) \<Rightarrow> Inr b
      | Some _ \<Rightarrow> Inl MalformedCondition
      | None \<Rightarrow>
     (case map_of e ''and'' of
        Some (JList (s # ss)) \<Rightarrow> eval_all (s # ss) ps
      | Some _ \<Rightarrow> Inl MalformedCondition
      | None \<Rightarrow>
     (case map_of e ''or'' of
        Some (JList (s # ss)) \<Rightarrow> eval_any (s # ss) ps
      | Some _ \<Rightarrow> Inl MalformedCondition
      | None \<Rightarrow>
     (case (map_of e ''field'', map_of e ''op'', map_of e ''value'') of
        (Some field, Some oper, Some value) \<Rightarrow> leaf_eval field oper value ps
      | _ \<Rightarrow> Inl MalformedCondition))))"
| "cond_eval _ ps = Inl MalformedCondition"
| "eval_all [] ps = Inr True"
| "eval_all (s # ss) ps =
     (case cond_eval s ps of
        Inl err \<Rightarrow> Inl err
      | Inr False \<Rightarrow> Inr False
      | Inr True \<Rightarrow> eval_all ss ps)"
| "eval_any [] ps = Inr False"
| "eval_any (s # ss) ps =
     (case cond_eval s ps of
        Inl err \<Rightarrow> Inl err
      | Inr True \<Rightarrow> Inr True
      | Inr False \<Rightarrow> eval_any ss ps)"
  by pat_completeness auto
termination
  by (relation "measure (\<lambda>x. case x of Inl (e, _) \<Rightarrow> size e
        | Inr (Inl (ss, _)) \<Rightarrow> size_list size ss | Inr (Inr (ss, _)) \<Rightarrow> size_list size ss)")
    (auto dest: size_obj_entry)

definition evaluate_condition_explained :: "json \<Rightarrow> params \<Rightarrow> bool \<times> eval_error option" where
  "evaluate_condition_explained e ps =
     (case cond_eval e ps of Inr b \<Rightarrow> (b, None) | Inl err \<Rightarrow> (True, Some err))"

definition evaluate_condition :: "json \<Rightarrow> params \<Rightarrow> bool" where
  "evaluate_condition e ps = fst (evaluate_condition_explained e ps)"

section \<open>Validation\<close>

datatype val_error =
    TooDeep
  | NotAnObject
  | AlwaysKeys
  | AlwaysBool
  | ConnectiveKeys string
  | ConnectiveList string
  | LeafKeys
  | LeafField
  | UnknownOp
  | UnhashableOp

definition max_condition_depth :: nat where
  "max_condition_depth = 32"

definition val_leaf :: "params \<Rightarrow> val_error option" where
  "val_leaf e =
     (if set (map fst e) \<noteq> {''field'', ''op'', ''value''} then Some LeafKeys
      else if (case map_of e ''field'' of Some (JStr f) \<Rightarrow> f = [] | _ \<Rightarrow> True) then Some LeafField
      else case map_of e ''op'' of
          Some oper \<Rightarrow>
            if \<not> hashable oper then Some UnhashableOp
            else if (case oper of JStr opn \<Rightarrow> dict_get ops opn \<noteq> None | _ \<Rightarrow> False) then None
            else Some UnknownOp
        | None \<Rightarrow> Some UnknownOp)"

text \<open>\<open>None\<close> is a condition that passes, \<open>Some err\<close> the exception; \<open>UnhashableOp\<close> is a \<open>TypeError\<close>.\<close>

function (sequential) validate_condition_expr :: "nat \<Rightarrow> json \<Rightarrow> val_error option"
  and validate_subs :: "nat \<Rightarrow> json list \<Rightarrow> val_error option" where
  "validate_condition_expr depth (JObj e) =
     (let ks = set (map fst e) in
      if depth > max_condition_depth then Some TooDeep
      else if ''always'' \<in> ks then
        (if ks \<noteq> {''always''} then Some AlwaysKeys
         else case map_of e ''always'' of Some (JBool _) \<Rightarrow> None | _ \<Rightarrow> Some AlwaysBool)
      else if ''and'' \<in> ks \<or> ''or'' \<in> ks then
        (let conn = (if ''and'' \<in> ks then ''and'' else ''or'') in
         if ks \<noteq> {conn} then Some (ConnectiveKeys conn)
         else case map_of e conn of
             Some (JList (s # ss)) \<Rightarrow> validate_subs (depth + 1) (s # ss)
           | _ \<Rightarrow> Some (ConnectiveList conn))
      else val_leaf e)"
| "validate_condition_expr depth _ =
     (if depth > max_condition_depth then Some TooDeep else Some NotAnObject)"
| "validate_subs depth [] = None"
| "validate_subs depth (s # ss) =
     (case validate_condition_expr depth s of
        Some err \<Rightarrow> Some err
      | None \<Rightarrow> validate_subs depth ss)"
  by pat_completeness auto
termination
  by (relation "measure (\<lambda>x. case x of Inl (_, e) \<Rightarrow> size e | Inr (_, ss) \<Rightarrow> size_list size ss)")
    (auto dest: size_obj_entry)

section \<open>Choosing the policy\<close>

text \<open>\<open>max\<close> with a key returns the first element with the greatest key.\<close>

fun max_by :: "('a \<Rightarrow> 'k::linorder) \<Rightarrow> 'a \<Rightarrow> 'a list \<Rightarrow> 'a" where
  "max_by key best [] = best"
| "max_by key best (x # xs) = max_by key (if key best < key x then x else best) xs"

definition policy_matches :: "string \<Rightarrow> string \<Rightarrow> params \<Rightarrow> approval_policy \<Rightarrow> bool" where
  "policy_matches server tool ps p =
     (p_enabled p \<and> p_mcp_server_name p = server \<and> (p_tool_name p = ''*'' \<or> p_tool_name p = tool) \<and>
      evaluate_condition (p_condition_expr p) ps)"

definition policy_key :: "approval_policy \<Rightarrow> int \<times> int" where
  "policy_key p = (p_priority p, p_updated_at p)"

definition find_matching_policy ::
  "approval_policy list \<Rightarrow> string \<Rightarrow> string \<Rightarrow> params \<Rightarrow> approval_policy option" where
  "find_matching_policy policies server tool ps =
     (case filter (policy_matches server tool ps) policies of
        [] \<Rightarrow> None
      | c # cs \<Rightarrow> Some (max_by policy_key c cs))"

section \<open>The condition language, abstractly\<close>

datatype cond =
    CAlways bool
  | CLeaf string string json
  | CAnd "cond list"
  | COr "cond list"

text \<open>
  The meaning of a condition: conjunction and disjunction from left to right, stopping at the first
  operand that settles them or cannot be evaluated.
\<close>

fun sem_list :: "bool \<Rightarrow> (eval_error + bool) list \<Rightarrow> eval_error + bool" where
  "sem_list unit [] = Inr unit"
| "sem_list unit (r # rs) = (if r = Inr unit then sem_list unit rs else r)"

primrec sem :: "cond \<Rightarrow> params \<Rightarrow> eval_error + bool" where
  "sem (CAlways b) ps = Inr b"
| "sem (CLeaf f opn v) ps =
     (case obj_get ps f of
        None \<Rightarrow> Inl (MissingField (JStr f))
      | Some a \<Rightarrow>
          (case the (dict_get ops opn) a v of None \<Rightarrow> Inl (BadComparison opn (JStr f)) | Some b \<Rightarrow> Inr b))"
| "sem (CAnd cs) ps = sem_list True (map (\<lambda>c. sem c ps) cs)"
| "sem (COr cs) ps = sem_list False (map (\<lambda>c. sem c ps) cs)"

primrec cond_depth :: "cond \<Rightarrow> nat" where
  "cond_depth (CAlways b) = 0"
| "cond_depth (CLeaf f opn v) = 0"
| "cond_depth (CAnd cs) = Suc (foldr max (map cond_depth cs) 0)"
| "cond_depth (COr cs) = Suc (foldr max (map cond_depth cs) 0)"

text \<open>Well-formed: known operators, named fields, no empty connective.\<close>

primrec cond_wf :: "cond \<Rightarrow> bool" where
  "cond_wf (CAlways b) = True"
| "cond_wf (CLeaf f opn v) = (f \<noteq> [] \<and> dict_get ops opn \<noteq> None)"
| "cond_wf (CAnd cs) = (cs \<noteq> [] \<and> list_all cond_wf cs)"
| "cond_wf (COr cs) = (cs \<noteq> [] \<and> list_all cond_wf cs)"

primrec cond_fields :: "cond \<Rightarrow> string set" where
  "cond_fields (CAlways b) = {}"
| "cond_fields (CLeaf f opn v) = {f}"
| "cond_fields (CAnd cs) = \<Union> (set (map cond_fields cs))"
| "cond_fields (COr cs) = \<Union> (set (map cond_fields cs))"

text \<open>The JSON form an editor would write.\<close>

primrec encode :: "cond \<Rightarrow> json" where
  "encode (CAlways b) = JObj [(''always'', JBool b)]"
| "encode (CLeaf f opn v) = JObj [(''field'', JStr f), (''op'', JStr opn), (''value'', v)]"
| "encode (CAnd cs) = JObj [(''and'', JList (map encode cs))]"
| "encode (COr cs) = JObj [(''or'', JList (map encode cs))]"

lemma foldr_max_le: "foldr max xs (0::nat) \<le> n \<longleftrightarrow> (\<forall>x \<in> set xs. x \<le> n)"
  by (induction xs) auto

lemma eval_all_sem:
  "(\<And>s. s \<in> set ss \<Longrightarrow> cond_eval s ps = f s) \<Longrightarrow> eval_all ss ps = sem_list True (map f ss)"
  by (induction ss) (auto split: sum.split bool.split)

lemma eval_any_sem:
  "(\<And>s. s \<in> set ss \<Longrightarrow> cond_eval s ps = f s) \<Longrightarrow> eval_any ss ps = sem_list False (map f ss)"
  by (induction ss) (auto split: sum.split bool.split)

text \<open>The validator accepts a condition only if it is the JSON form, up to key order, of a
  well-formed condition of bounded depth, and the evaluator then computes its meaning.\<close>

definition denotes :: "json \<Rightarrow> cond \<Rightarrow> bool" where
  "denotes e c \<longleftrightarrow> cond_wf c \<and> (\<forall>ps. cond_eval e ps = sem c ps)"

lemma denotes_list:
  assumes "\<forall>s \<in> set ss. \<exists>c. denotes s c \<and> cond_depth c \<le> n"
  obtains cs where "list_all cond_wf cs" "length cs = length ss" "\<forall>c \<in> set cs. cond_depth c \<le> n"
    "\<And>ps. eval_all ss ps = sem (CAnd cs) ps" "\<And>ps. eval_any ss ps = sem (COr cs) ps"
proof -
  obtain f where f: "\<forall>s \<in> set ss. denotes s (f s) \<and> cond_depth (f s) \<le> n" using assms by metis
  have "eval_all ss ps = sem (CAnd (map f ss)) ps" "eval_any ss ps = sem (COr (map f ss)) ps" for ps
    using f eval_all_sem [of ss ps "\<lambda>s. sem (f s) ps"] eval_any_sem [of ss ps "\<lambda>s. sem (f s) ps"]
    by (simp_all add: denotes_def comp_def)
  then show thesis using f by (intro that [of "map f ss"]) (auto simp: denotes_def list_all_iff)
qed

lemma val_leaf_denotes:
  assumes "val_leaf e = None"
  obtains f opn v where "denotes (JObj e) (CLeaf f opn v)"
proof -
  from assms have ks: "set (map fst e) = {''field'', ''op'', ''value''}" by (auto simp: val_leaf_def split: if_splits)
  from assms obtain f where f: "map_of e ''field'' = Some (JStr f)" "f \<noteq> []"
    by (auto simp: val_leaf_def split: if_splits option.splits json.splits)
  from assms f obtain opn where opn: "map_of e ''op'' = Some (JStr opn)" "dict_get ops opn \<noteq> None"
    by (auto simp: val_leaf_def split: if_splits option.splits json.splits)
  have "''value'' \<in> fst ` set e" using ks by auto
  then obtain v where v: "map_of e ''value'' = Some v" by (metis map_of_eq_None_iff not_None_eq)
  have none: "map_of e ''always'' = None" "map_of e ''and'' = None" "map_of e ''or'' = None"
    using ks by (auto simp: map_of_eq_None_iff)
  have "denotes (JObj e) (CLeaf f opn v)"
    using f opn v none by (auto simp: denotes_def leaf_eval_def split: option.split)
  then show thesis by (rule that)
qed

lemma validate_denotes:
  "validate_condition_expr d e = None \<Longrightarrow> d \<le> max_condition_depth \<and>
     (\<exists>c. denotes e c \<and> cond_depth c \<le> max_condition_depth - d)"
  "validate_subs d ss = None \<Longrightarrow>
     \<forall>s \<in> set ss. \<exists>c. denotes s c \<and> cond_depth c \<le> max_condition_depth - d \<and> d \<le> max_condition_depth"
proof (induction d e and d ss rule: validate_condition_expr_validate_subs.induct)
  case (1 d e)
  let ?ks = "set (map fst e)"
  have d: "d \<le> max_condition_depth" using "1.prems" by (auto simp: Let_def split: if_splits)
  consider (always) "''always'' \<in> ?ks" | (conn) "''always'' \<notin> ?ks" "''and'' \<in> ?ks \<or> ''or'' \<in> ?ks"
    | (leaf) "''always'' \<notin> ?ks" "\<not> (''and'' \<in> ?ks \<or> ''or'' \<in> ?ks)" by blast
  then show ?case
  proof cases
    case always
    then obtain b where "map_of e ''always'' = Some (JBool b)"
      using "1.prems" by (auto simp: Let_def split: if_splits option.splits json.splits)
    then have "denotes (JObj e) (CAlways b)" by (simp add: denotes_def)
    then show ?thesis using d by force
  next
    case conn
    define k where "k = (if ''and'' \<in> ?ks then ''and'' else ''or'')"
    have ks: "?ks = {k}" using "1.prems" conn d by (auto simp: Let_def k_def split: if_splits)
    obtain s ss where ss: "map_of e k = Some (JList (s # ss))" "validate_subs (d + 1) (s # ss) = None"
      using "1.prems" conn d ks
      by (auto simp: Let_def k_def split: if_splits option.splits json.splits list.splits)
    have "\<forall>s \<in> set (s # ss). \<exists>c. denotes s c \<and> cond_depth c \<le> max_condition_depth - (d + 1) \<and>
        d + 1 \<le> max_condition_depth"
      using "1.IH" ss d conn ks by (auto simp: k_def split: if_splits)
    then obtain cs where cs: "list_all cond_wf cs" "length cs = length (s # ss)"
      "\<forall>c \<in> set cs. cond_depth c \<le> max_condition_depth - (d + 1)"
      "\<And>ps. eval_all (s # ss) ps = sem (CAnd cs) ps" "\<And>ps. eval_any (s # ss) ps = sem (COr cs) ps"
      and d1: "d + 1 \<le> max_condition_depth"
      using denotes_list [of "s # ss" "max_condition_depth - (d + 1)"] by (metis list.set_intros(1))
    have "foldr max (map cond_depth cs) 0 \<le> max_condition_depth - (d + 1)"
      using cs(3) by (simp add: foldr_max_le)
    then have dep: "Suc (foldr max (map cond_depth cs) 0) \<le> max_condition_depth - d" using d1 by linarith
    have none: "map_of e x = None" if "x \<noteq> k" for x using that ks by (auto simp: map_of_eq_None_iff)
    show ?thesis
    proof (cases "k = ''and''")
      case True
      then have "denotes (JObj e) (CAnd cs)"
        using none [of "''always''"] ss(1) cs by (auto simp: denotes_def simp del: eval_all.simps sem.simps)
      then show ?thesis using d dep by (intro conjI exI [of _ "CAnd cs"]) simp_all
    next
      case False
      then have "k = ''or''" by (simp add: k_def split: if_splits)
      then have "denotes (JObj e) (COr cs)"
        using none [of "''always''"] none [of "''and''"] ss(1) cs
        by (auto simp: denotes_def simp del: eval_any.simps sem.simps)
      then show ?thesis using d dep by (intro conjI exI [of _ "COr cs"]) simp_all
    qed
  next
    case leaf
    then have "val_leaf e = None" using "1.prems" d by (auto simp: Let_def split: if_splits)
    then obtain f opn v where "denotes (JObj e) (CLeaf f opn v)" by (rule val_leaf_denotes)
    then show ?thesis using d by force
  qed
qed (auto split: if_splits option.splits)

lemma validate_subs_iff: "validate_subs d ss = None \<longleftrightarrow> (\<forall>s \<in> set ss. validate_condition_expr d s = None)"
  by (induction ss) (auto split: option.split)

lemma validate_encode:
  "cond_wf c \<Longrightarrow> d + cond_depth c \<le> max_condition_depth \<Longrightarrow> validate_condition_expr d (encode c) = None"
proof (induction c arbitrary: d)
  case (CLeaf f opn v)
  then show ?case by (auto simp: val_leaf_def)
next
  case (CAnd cs)
  have "foldr max (map cond_depth cs) 0 \<le> max_condition_depth - (d + 1)" and "d + 1 \<le> max_condition_depth"
    using CAnd.prems(2) by simp_all
  then have "validate_subs (d + 1) (map encode cs) = None"
    using CAnd.IH CAnd.prems(1) by (force simp: validate_subs_iff list_all_iff foldr_max_le)
  then show ?case using CAnd.prems by (cases cs) auto
next
  case (COr cs)
  have "foldr max (map cond_depth cs) 0 \<le> max_condition_depth - (d + 1)" and "d + 1 \<le> max_condition_depth"
    using COr.prems(2) by simp_all
  then have "validate_subs (d + 1) (map encode cs) = None"
    using COr.IH COr.prems(1) by (force simp: validate_subs_iff list_all_iff foldr_max_le)
  then show ?case using COr.prems by (cases cs) auto
qed simp

lemma eval_encode:
  "(\<And>c. c \<in> set cs \<Longrightarrow> cond_eval (encode c) ps = sem c ps) \<Longrightarrow>
     eval_all (map encode cs) ps = sem_list True (map (\<lambda>c. sem c ps) cs)"
  "(\<And>c. c \<in> set cs \<Longrightarrow> cond_eval (encode c) ps = sem c ps) \<Longrightarrow>
     eval_any (map encode cs) ps = sem_list False (map (\<lambda>c. sem c ps) cs)"
  by (induction cs) (auto split: sum.split bool.split)

lemma encode_denotes: "cond_wf c \<Longrightarrow> cond_eval (encode c) ps = sem c ps"
proof (induction c)
  case (CLeaf f opn v)
  then show ?case by (auto simp: leaf_eval_def split: option.split)
next
  case (CAnd cs)
  have "eval_all (map encode cs) ps = sem_list True (map (\<lambda>c. sem c ps) cs)"
    using CAnd by (intro eval_encode) (auto simp: list_all_iff)
  then show ?case using CAnd.prems by (cases cs) auto
next
  case (COr cs)
  have "eval_any (map encode cs) ps = sem_list False (map (\<lambda>c. sem c ps) cs)"
    using COr by (intro eval_encode) (auto simp: list_all_iff)
  then show ?case using COr.prems by (cases cs) auto
qed simp

text \<open>What keeps a condition from being evaluated once it has been validated.\<close>

lemma sem_list_Inl: "sem_list u rs = Inl err \<Longrightarrow> Inl err \<in> set rs"
  by (induction rs) (auto split: if_splits)

lemma sem_errors:
  "cond_wf c \<Longrightarrow> sem c ps = Inl err \<Longrightarrow>
   (\<exists>f \<in> cond_fields c. err = MissingField (JStr f) \<and> obj_get ps f = None) \<or>
   (\<exists>f opn. err = BadComparison opn (JStr f))"
proof (induction c)
  case (CAnd cs)
  then obtain c where c: "c \<in> set cs" "sem c ps = Inl err" by (auto dest!: sem_list_Inl)
  then show ?case using CAnd.IH [OF c(1)] CAnd.prems(1) by (force simp: list_all_iff)
next
  case (COr cs)
  then obtain c where c: "c \<in> set cs" "sem c ps = Inl err" by (auto dest!: sem_list_Inl)
  then show ?case using COr.IH [OF c(1)] COr.prems(1) by (force simp: list_all_iff)
qed (auto split: option.splits)

section \<open>Properties\<close>

text \<open>The write-time validator is sound for the run-time evaluator: a condition it accepts denotes
  a well-formed condition of the documented grammar, nested at most 32 deep, and for every tool
  call the evaluator computes exactly its meaning. In particular an accepted condition is never
  malformed at run time: the gate can be forced only by a field the call lacks or by operands that
  do not compare.\<close>

theorem validated_condition_evaluates:
  assumes "validate_condition_expr 0 e = None"
  shows "\<exists>c. cond_wf c \<and> cond_depth c \<le> 32 \<and> (\<forall>ps. cond_eval e ps = sem c ps) \<and>
     (\<forall>ps. cond_eval e ps \<noteq> Inl MalformedCondition)"
proof -
  obtain c where c: "denotes e c" "cond_depth c \<le> max_condition_depth"
    using validate_denotes(1) [OF assms] by auto
  then show ?thesis
    using sem_errors [of c] by (intro exI [of _ c]) (auto simp: denotes_def max_condition_depth_def)
qed

theorem validated_condition_evaluates_witness:
  "cond_eval (JObj [(''value'', JInt 100), (''op'', JStr ''>''), (''field'', JStr ''amount'')])
     [(''amount'', JStr ''lots'')] \<noteq> Inl MalformedCondition"
proof -
  have "validate_condition_expr 0
      (JObj [(''value'', JInt 100), (''op'', JStr ''>''), (''field'', JStr ''amount'')]) = None"
    by code_simp
  then show ?thesis using validated_condition_evaluates by blast
qed

text \<open>The validator is complete for the documented grammar: the JSON form of every well-formed
  condition nested at most 32 deep is accepted, and evaluating it gives the condition's meaning.\<close>

theorem documented_conditions_accepted:
  assumes "cond_wf c" "cond_depth c \<le> 32"
  shows "validate_condition_expr 0 (encode c) = None \<and> cond_eval (encode c) ps = sem c ps"
  using validate_encode [of c 0] encode_denotes [OF assms(1)] assms
  by (simp add: max_condition_depth_def)

theorem documented_conditions_accepted_witness:
  "validate_condition_expr 0 (encode (CAnd [CLeaf ''amount'' ''>'' (JInt 100), CAlways True])) = None"
proof -
  have "cond_wf (CAnd [CLeaf ''amount'' ''>'' (JInt 100), CAlways True])"
    "cond_depth (CAnd [CLeaf ''amount'' ''>'' (JInt 100), CAlways True]) \<le> 32"
    by code_simp+
  then show ?thesis using documented_conditions_accepted by blast
qed

text \<open>C21. The gate fails closed: a tool call is let through without approval exactly when every
  enabled policy for its server and tool has a condition that evaluates cleanly to false. A
  condition that is malformed, names an absent field or compares incomparable values never lets a
  call through.\<close>

theorem gate_fails_closed:
  "find_matching_policy policies server tool ps = None \<longleftrightarrow>
   (\<forall>p. p \<notin> set policies \<or> \<not> p_enabled p \<or> p_mcp_server_name p \<noteq> server \<or>
      p_tool_name p \<notin> {''*'', tool} \<or> cond_eval (p_condition_expr p) ps = Inr False)"
proof -
  have ev: "\<not> evaluate_condition e ps \<longleftrightarrow> cond_eval e ps = Inr False" for e
    by (auto simp: evaluate_condition_def evaluate_condition_explained_def split: sum.split)
  have "find_matching_policy policies server tool ps = None \<longleftrightarrow>
      filter (policy_matches server tool ps) policies = []"
    by (simp add: find_matching_policy_def split: list.split)
  also have "\<dots> \<longleftrightarrow> (\<forall>p \<in> set policies. \<not> policy_matches server tool ps p)"
    by (simp add: filter_empty_conv)
  finally show ?thesis using ev by (auto simp: policy_matches_def)
qed

theorem gate_fails_closed_witness:
  "find_matching_policy [\<lparr>p_id = ''p'', p_tenant_id = ''t'', p_mcp_server_name = ''bank'',
     p_tool_name = ''*'', p_condition_expr = JObj [(''field'', JStr ''amuont''), (''op'', JStr ''>''),
     (''value'', JInt 5)], p_enabled = True, p_priority = 0, p_updated_at = 0, p_created_at = None\<rparr>]
     ''bank'' ''pay'' [(''amount'', JInt 1)] \<noteq> None"
proof -
  have "cond_eval (JObj [(''field'', JStr ''amuont''), (''op'', JStr ''>''), (''value'', JInt 5)])
      [(''amount'', JInt 1)] \<noteq> Inr False" by code_simp
  then show ?thesis unfolding gate_fails_closed by auto
qed

lemma max_by_spec:
  "(max_by key b xs = b \<and> (\<forall>x \<in> set xs. key x \<le> key b)) \<or>
   (\<exists>l r. xs = l @ max_by key b xs # r \<and> key b < key (max_by key b xs) \<and>
      (\<forall>x \<in> set l. key x < key (max_by key b xs)) \<and> (\<forall>x \<in> set r. key x \<le> key (max_by key b xs)))"
proof (induction xs arbitrary: b)
  case (Cons x xs)
  show ?case
  proof (cases "key b < key x")
    case True
    consider "max_by key x xs = x" "\<forall>y \<in> set xs. key y \<le> key x"
      | l r where "xs = l @ max_by key x xs # r" "key x < key (max_by key x xs)"
        "\<forall>y \<in> set l. key y < key (max_by key x xs)" "\<forall>y \<in> set r. key y \<le> key (max_by key x xs)"
      using Cons.IH [of x] by blast
    then show ?thesis
    proof cases
      case 1
      then show ?thesis using True by (intro disjI2 exI [of _ "[]"] exI [of _ xs]) simp
    next
      case (2 l r)
      then show ?thesis using True by (intro disjI2 exI [of _ "x # l"] exI [of _ r]) auto
    qed
  next
    case False
    consider "max_by key b xs = b" "\<forall>y \<in> set xs. key y \<le> key b"
      | l r where "xs = l @ max_by key b xs # r" "key b < key (max_by key b xs)"
        "\<forall>y \<in> set l. key y < key (max_by key b xs)" "\<forall>y \<in> set r. key y \<le> key (max_by key b xs)"
      using Cons.IH [of b] by blast
    then show ?thesis
    proof cases
      case 1
      then show ?thesis using False by simp
    next
      case (2 l r)
      then show ?thesis using False by (intro disjI2 exI [of _ "x # l"] exI [of _ r]) auto
    qed
  qed
qed simp

lemma max_by_split:
  obtains l r where "b # xs = l @ max_by key b xs # r" "\<forall>x \<in> set l. key x < key (max_by key b xs)"
    "\<forall>x \<in> set r. key x \<le> key (max_by key b xs)"
  using max_by_spec [of key b xs]
proof (elim disjE exE conjE)
  assume "max_by key b xs = b" "\<forall>x \<in> set xs. key x \<le> key b"
  then show thesis using that [of "[]" xs] by simp
next
  fix l r
  assume "xs = l @ max_by key b xs # r" "key b < key (max_by key b xs)"
    "\<forall>x \<in> set l. key x < key (max_by key b xs)" "\<forall>x \<in> set r. key x \<le> key (max_by key b xs)"
  then show thesis using that [of "b # l" r] by auto
qed

lemma filter_splitE:
  assumes "filter P xs = l @ p # r"
  obtains l' r' where "xs = l' @ p # r'" "P p" "filter P l' = l" "filter P r' = r"
proof -
  have "\<exists>l' r'. xs = l' @ p # r' \<and> P p \<and> filter P l' = l \<and> filter P r' = r"
    using assms
  proof (induction xs arbitrary: l)
    case (Cons x xs)
    show ?case
    proof (cases "P x \<and> l = []")
      case True
      then show ?thesis using Cons.prems by (intro exI [of _ "[]"] exI [of _ xs]) auto
    next
      case False
      then have "filter P xs = (if P x then tl l else l) @ p # r" using Cons.prems by (cases l) auto
      then obtain l' r' where "xs = l' @ p # r'" "P p" "filter P l' = (if P x then tl l else l)"
        "filter P r' = r" using Cons.IH by blast
      then show ?thesis
        using False Cons.prems by (intro exI [of _ "x # l'"] exI [of _ r']) (cases l; auto)
    qed
  qed simp
  then show thesis using that by blast
qed

text \<open>The policy that governs a call is one that matches it, and it is the first, in list order, of
  those with the greatest priority and, among equal priorities, the newest update time: earlier
  matches are strictly smaller in that order, later ones at most equal.\<close>

theorem governing_policy_maximal:
  assumes "find_matching_policy policies server tool ps = Some p"
  shows "\<exists>l r. policies = l @ p # r \<and> policy_matches server tool ps p \<and>
     (\<forall>q \<in> set l. policy_matches server tool ps q \<longrightarrow> policy_key q < policy_key p) \<and>
     (\<forall>q \<in> set r. policy_matches server tool ps q \<longrightarrow> policy_key q \<le> policy_key p)"
proof -
  let ?m = "policy_matches server tool ps"
  obtain c cs where cs: "filter ?m policies = c # cs" and p: "p = max_by policy_key c cs"
    using assms by (auto simp: find_matching_policy_def split: list.splits)
  obtain l r where lr: "filter ?m policies = l @ p # r" "\<forall>x \<in> set l. policy_key x < policy_key p"
    "\<forall>x \<in> set r. policy_key x \<le> policy_key p"
    using max_by_split [of c cs policy_key] unfolding cs p by blast
  obtain l' r' where "policies = l' @ p # r'" "?m p" "filter ?m l' = l" "filter ?m r' = r"
    using lr(1) by (rule filter_splitE)
  then show ?thesis using lr by (intro exI [of _ l'] exI [of _ r']) auto
qed

definition demo_policy :: "string \<Rightarrow> int \<Rightarrow> int \<Rightarrow> approval_policy" where
  "demo_policy i prio upd = \<lparr>p_id = i, p_tenant_id = ''t'', p_mcp_server_name = ''bank'',
     p_tool_name = ''*'', p_condition_expr = JObj [(''always'', JBool True)], p_enabled = True,
     p_priority = prio, p_updated_at = upd, p_created_at = None\<rparr>"

theorem governing_policy_maximal_witness:
  "\<exists>l r. [demo_policy ''a'' 1 9, demo_policy ''b'' 2 3, demo_policy ''c'' 2 4] = l @ demo_policy ''c'' 2 4 # r \<and>
     policy_matches ''bank'' ''pay'' [] (demo_policy ''c'' 2 4)"
proof -
  have "find_matching_policy [demo_policy ''a'' 1 9, demo_policy ''b'' 2 3, demo_policy ''c'' 2 4]
      ''bank'' ''pay'' [] = Some (demo_policy ''c'' 2 4)"
    by code_simp
  from governing_policy_maximal [OF this] show ?thesis by blast
qed

text \<open>The validator does not reject every malformed condition with its own error: a leaf whose
  operator is a list or an object escapes as a \<open>TypeError\<close>, whatever the field and the value.\<close>

theorem unhashable_operator_escapes:
  assumes "f \<noteq> []" "\<not> hashable oper"
  shows "validate_condition_expr 0 (JObj [(''field'', JStr f), (''op'', oper), (''value'', v)]) =
     Some UnhashableOp"
  using assms by (auto simp: val_leaf_def max_condition_depth_def)

theorem unhashable_operator_escapes_witness:
  "validate_condition_expr 0 (JObj [(''field'', JStr ''amount''), (''op'', JList []), (''value'', JNull)]) =
     Some UnhashableOp"
  by (rule unhashable_operator_escapes) simp_all

end
