(* ===== verification/Approval_Store.thy ===== *)
theory Approval_Store
  imports Approval_Policy "HOL-Library.Multiset"
begin

text \<open>
  The approval tables of \<^verbatim>\<open>src/src/rolemesh/db/approval.py\<close>: policies and requests with the
  statements the module issues. A table is the list of its rows in insertion order; ids and times
  the database would mint are arguments. Rows with equal sort keys are listed in insertion order.
  The columns hold the values the row mapping functions return, the jsonb columns as JSON values.
\<close>

section \<open>Rows\<close>

record approval_request =
  r_id :: string
  r_tenant_id :: string
  r_coworker_id :: string
  r_conversation_id :: "string option"
  r_policy_id :: "string option"
  r_user_id :: "string option"
  r_job_id :: string
  r_mcp_server_name :: string
  r_action :: json
  r_action_summary :: "json option"
  r_rationale :: "string option"
  r_triggered_by :: "json option"
  r_status :: string
  r_decided_by :: "string option"
  r_note :: "string option"
  r_requested_at :: int
  r_expires_at :: int
  r_decided_at :: "int option"

record approval_store =
  st_policies :: "approval_policy list"
  st_requests :: "approval_request list"

definition resolved_statuses :: "string list" where
  "resolved_statuses = [''approved'', ''rejected'', ''expired'', ''cancelled'']"

text \<open>\<open>LIMIT\<close> and \<open>OFFSET\<close>; no limit means the whole list and ignores the offset.\<close>

definition paged :: "nat option \<Rightarrow> nat \<Rightarrow> 'a list \<Rightarrow> 'a list" where
  "paged limit offset xs = (case limit of None \<Rightarrow> xs | Some n \<Rightarrow> take n (drop offset xs))"

section \<open>Policies\<close>

definition create_approval_policy ::
  "string \<Rightarrow> int \<Rightarrow> string \<Rightarrow> string \<Rightarrow> string \<Rightarrow> json option \<Rightarrow> bool \<Rightarrow> int \<Rightarrow> approval_store \<Rightarrow>
   approval_policy \<times> approval_store" where
  "create_approval_policy new_id now tenant server tool expr enabled priority st =
     (let row = \<lparr>p_id = new_id, p_tenant_id = tenant, p_mcp_server_name = server, p_tool_name = tool,
                 p_condition_expr =
                   (case expr of None \<Rightarrow> JObj [(''always'', JBool True)] | Some e \<Rightarrow> e),
                 p_enabled = enabled, p_priority = priority, p_updated_at = now,
                 p_created_at = Some now\<rparr>
      in (row, st\<lparr>st_policies := st_policies st @ [row]\<rparr>))"

definition get_approval_policy :: "string \<Rightarrow> string \<Rightarrow> approval_store \<Rightarrow> approval_policy option" where
  "get_approval_policy pid tenant st =
     List.find (\<lambda>p. p_id p = pid \<and> p_tenant_id p = tenant) (st_policies st)"

definition policy_rows :: "string \<Rightarrow> bool \<Rightarrow> approval_store \<Rightarrow> approval_policy list" where
  "policy_rows tenant enabled_only st =
     filter (\<lambda>p. p_tenant_id p = tenant \<and> (enabled_only \<longrightarrow> p_enabled p)) (st_policies st)"

definition list_approval_policies ::
  "string \<Rightarrow> bool \<Rightarrow> nat option \<Rightarrow> nat \<Rightarrow> approval_store \<Rightarrow> approval_policy list" where
  "list_approval_policies tenant enabled_only limit offset st =
     paged limit offset
       (sort_key (\<lambda>p. (- p_priority p, - p_updated_at p)) (policy_rows tenant enabled_only st))"

definition count_approval_policies :: "string \<Rightarrow> bool \<Rightarrow> approval_store \<Rightarrow> int" where
  "count_approval_policies tenant enabled_only st = int (length (policy_rows tenant enabled_only st))"

definition opt_set :: "'a option \<Rightarrow> 'a \<Rightarrow> 'a" where
  "opt_set new old = (case new of None \<Rightarrow> old | Some v \<Rightarrow> v)"

definition patch_policy ::
  "int \<Rightarrow> string option \<Rightarrow> string option \<Rightarrow> json option \<Rightarrow> bool option \<Rightarrow> int option \<Rightarrow> approval_policy \<Rightarrow>
   approval_policy" where
  "patch_policy now server tool expr enabled priority p =
     p\<lparr>p_mcp_server_name := opt_set server (p_mcp_server_name p),
       p_tool_name := opt_set tool (p_tool_name p),
       p_condition_expr := opt_set expr (p_condition_expr p),
       p_enabled := opt_set enabled (p_enabled p),
       p_priority := opt_set priority (p_priority p), p_updated_at := now\<rparr>"

definition update_approval_policy ::
  "int \<Rightarrow> string \<Rightarrow> string \<Rightarrow> string option \<Rightarrow> string option \<Rightarrow> json option \<Rightarrow> bool option \<Rightarrow> int option \<Rightarrow>
   approval_store \<Rightarrow> approval_policy option \<times> approval_store" where
  "update_approval_policy now pid tenant server tool expr enabled priority st =
     (if server = None \<and> tool = None \<and> expr = None \<and> enabled = None \<and> priority = None
      then (get_approval_policy pid tenant st, st)
      else
        let st' = st\<lparr>st_policies :=
              map (\<lambda>p. if p_id p = pid \<and> p_tenant_id p = tenant
                       then patch_policy now server tool expr enabled priority p else p)
                (st_policies st)\<rparr>
        in (get_approval_policy pid tenant st', st'))"

definition delete_approval_policy :: "string \<Rightarrow> string \<Rightarrow> approval_store \<Rightarrow> bool \<times> approval_store" where
  "delete_approval_policy pid tenant st =
     (length (filter (\<lambda>p. p_id p = pid \<and> p_tenant_id p = tenant) (st_policies st)) = 1,
      st\<lparr>st_policies := filter (\<lambda>p. \<not> (p_id p = pid \<and> p_tenant_id p = tenant)) (st_policies st)\<rparr>)"

section \<open>Requests\<close>

text \<open>
  The insert of a pending row. The id is the caller's or the minted \<open>new_id\<close>; \<open>None\<close> is the violation
  of the primary key.
\<close>

definition create_approval_request ::
  "string \<Rightarrow> int \<Rightarrow> string \<Rightarrow> string \<Rightarrow> string \<Rightarrow> string \<Rightarrow> json \<Rightarrow> int \<Rightarrow> string option \<Rightarrow> string option \<Rightarrow>
   string option \<Rightarrow> json option \<Rightarrow> string option \<Rightarrow> json option \<Rightarrow> string option \<Rightarrow> approval_store \<Rightarrow>
   (approval_request \<times> approval_store) option" where
  "create_approval_request new_id now tenant coworker job server action expires conv policy user
     summary rationale triggered rid st =
     (let row = \<lparr>r_id = (case rid of None \<Rightarrow> new_id | Some i \<Rightarrow> i), r_tenant_id = tenant,
                 r_coworker_id = coworker, r_conversation_id = conv, r_policy_id = policy,
                 r_user_id = user, r_job_id = job, r_mcp_server_name = server, r_action = action,
                 r_action_summary = summary, r_rationale = rationale, r_triggered_by = triggered,
                 r_status = ''pending'', r_decided_by = None, r_note = None, r_requested_at = now,
                 r_expires_at = expires, r_decided_at = None\<rparr>
      in if r_id row \<in> r_id ` set (st_requests st) then None
         else Some (row, st\<lparr>st_requests := st_requests st @ [row]\<rparr>))"

definition get_approval_request :: "string \<Rightarrow> string \<Rightarrow> approval_store \<Rightarrow> approval_request option" where
  "get_approval_request rid tenant st =
     List.find (\<lambda>r. r_id r = rid \<and> r_tenant_id r = tenant) (st_requests st)"

text \<open>The shared filter; \<open>children\<close> are the ids of the delegation children of the conversation.\<close>

definition pending_requests_filter ::
  "string \<Rightarrow> string option \<Rightarrow> string list \<Rightarrow> approval_request \<Rightarrow> bool" where
  "pending_requests_filter tenant conv children r =
     (r_tenant_id r = tenant \<and> r_status r = ''pending'' \<and>
      (case conv of
         None \<Rightarrow> True
       | Some c \<Rightarrow>
           (case r_conversation_id r of None \<Rightarrow> False | Some rc \<Rightarrow> rc = c \<or> rc \<in> set children)))"

definition list_pending_requests_for_tenant ::
  "string \<Rightarrow> string option \<Rightarrow> string list \<Rightarrow> nat option \<Rightarrow> nat \<Rightarrow> approval_store \<Rightarrow> approval_request list" where
  "list_pending_requests_for_tenant tenant conv children limit offset st =
     paged limit offset
       (sort_key r_requested_at (filter (pending_requests_filter tenant conv children) (st_requests st)))"

definition count_pending_requests_for_tenant ::
  "string \<Rightarrow> string option \<Rightarrow> string list \<Rightarrow> approval_store \<Rightarrow> int" where
  "count_pending_requests_for_tenant tenant conv children st =
     int (length (filter (pending_requests_filter tenant conv children) (st_requests st)))"

definition list_requests_for_conversation ::
  "string \<Rightarrow> string \<Rightarrow> approval_store \<Rightarrow> approval_request list" where
  "list_requests_for_conversation conv tenant st =
     sort_key r_requested_at
       (filter (\<lambda>r. r_tenant_id r = tenant \<and> r_conversation_id r = Some conv) (st_requests st))"

definition list_pending_requests_all_tenants :: "approval_store \<Rightarrow> approval_request list" where
  "list_pending_requests_all_tenants st =
     sort_key r_requested_at (filter (\<lambda>r. r_status r = ''pending'') (st_requests st))"

text \<open>
  The first-wins transition; \<open>Inl ()\<close> is the \<open>ValueError\<close> for a status that is not terminal.
\<close>

definition resolvable :: "string \<Rightarrow> string \<Rightarrow> approval_request \<Rightarrow> bool" where
  "resolvable rid tenant r = (r_id r = rid \<and> r_tenant_id r = tenant \<and> r_status r = ''pending'')"

definition settle :: "int \<Rightarrow> string \<Rightarrow> string option \<Rightarrow> string option \<Rightarrow> approval_request \<Rightarrow> approval_request" where
  "settle now status by note r =
     r\<lparr>r_status := status, r_decided_by := by, r_note := note, r_decided_at := Some now\<rparr>"

definition resolve_approval_request ::
  "int \<Rightarrow> string \<Rightarrow> string \<Rightarrow> string \<Rightarrow> string option \<Rightarrow> string option \<Rightarrow> approval_store \<Rightarrow>
   (unit + approval_request option) \<times> approval_store" where
  "resolve_approval_request now rid tenant status by note st =
     (if status \<notin> set resolved_statuses then (Inl (), st)
      else
        (Inr (map_option (settle now status by note) (List.find (resolvable rid tenant) (st_requests st))),
         st\<lparr>st_requests := map (\<lambda>r. if resolvable rid tenant r then settle now status by note r else r)
                            (st_requests st)\<rparr>))"

section \<open>The first-wins contract\<close>

text \<open>
  What the coordinator relies on: a table of entries of which some are open; a resolution succeeds
  exactly on an open entry and closes it for good.
\<close>

locale first_wins =
  fixes inv :: "'s \<Rightarrow> bool"
    and entry :: "'s \<Rightarrow> 'k \<Rightarrow> 'r option"
    and is_open :: "'r \<Rightarrow> bool"
    and resolve :: "'a \<Rightarrow> 'k \<Rightarrow> 's \<Rightarrow> 'r option \<times> 's"
  assumes inv_resolve: "inv s \<Longrightarrow> inv (snd (resolve a k s))"
    and resolve_Some: "inv s \<Longrightarrow> fst (resolve a k s) = Some r \<Longrightarrow>
      (\<exists>r0. entry s k = Some r0 \<and> is_open r0) \<and> entry (snd (resolve a k s)) k = Some r \<and> \<not> is_open r"
    and resolve_None: "inv s \<Longrightarrow> fst (resolve a k s) = None \<Longrightarrow> entry (snd (resolve a k s)) k = entry s k"
    and resolve_other: "inv s \<Longrightarrow> k' \<noteq> k \<Longrightarrow> entry (snd (resolve a k s)) k' = entry s k'"
begin

text \<open>A sequence of resolution attempts, and the results of those that won \<open>k\<close>.\<close>

fun attempts :: "('a \<times> 'k) list \<Rightarrow> 's \<Rightarrow> 's" where
  "attempts [] s = s"
| "attempts ((a, k) # as) s = attempts as (snd (resolve a k s))"

fun wins :: "'k \<Rightarrow> ('a \<times> 'k) list \<Rightarrow> 's \<Rightarrow> 'r list" where
  "wins k [] s = []"
| "wins k ((a, k') # as) s =
     (case fst (resolve a k' s) of
        Some r \<Rightarrow> (if k' = k then [r] else []) @ wins k as (snd (resolve a k' s))
      | None \<Rightarrow> wins k as (snd (resolve a k' s)))"

lemma closed_loses: "inv s \<Longrightarrow> entry s k = Some r \<Longrightarrow> \<not> is_open r \<Longrightarrow> fst (resolve a k s) = None"
  using resolve_Some [of s a k] by (cases "fst (resolve a k s)") auto

lemma closed_step:
  "inv s \<Longrightarrow> entry s k = Some r \<Longrightarrow> \<not> is_open r \<Longrightarrow> entry (snd (resolve a k' s)) k = Some r"
  using closed_loses [of s k r a] resolve_None [of s a k] resolve_other [of s k k' a]
  by (cases "k' = k") auto

lemma closed_no_win:
  "inv s \<Longrightarrow> entry s k = Some r \<Longrightarrow> \<not> is_open r \<Longrightarrow> wins k as s = [] \<and> entry (attempts as s) k = Some r"
proof (induction as arbitrary: s)
  case (Cons x as)
  obtain a k' where x: "x = (a, k')" by (cases x)
  show ?case
    using Cons.IH [OF inv_resolve [OF Cons.prems(1), of a k'] closed_step [OF Cons.prems, of a k'] Cons.prems(3)]
      closed_loses [OF Cons.prems, of a]
    by (auto simp: x split: option.split)
qed simp

lemma at_most_one_win: "inv s \<Longrightarrow> length (wins k as s) \<le> 1"
proof (induction as arbitrary: s)
  case (Cons x as)
  obtain a k' where x: "x = (a, k')" by (cases x)
  show ?case
  proof (cases "k' = k \<and> fst (resolve a k' s) \<noteq> None")
    case True
    then obtain r where r: "fst (resolve a k s) = Some r" by auto
    then have "wins k as (snd (resolve a k s)) = []"
      using resolve_Some [OF Cons.prems r] closed_no_win inv_resolve Cons.prems by blast
    then show ?thesis using r True by (simp add: x)
  next
    case False
    then show ?thesis using Cons.IH Cons.prems inv_resolve by (auto simp: x split: option.split)
  qed
qed simp

lemma win_is_final:
  assumes "inv s" "wins k as s = [r]"
  shows "entry (attempts as s) k = Some r"
  using assms
proof (induction as arbitrary: s)
  case (Cons x as)
  obtain a k' where x: "x = (a, k')" by (cases x)
  have i: "inv (snd (resolve a k' s))" using Cons.prems inv_resolve by blast
  show ?case
  proof (cases "k' = k \<and> fst (resolve a k' s) \<noteq> None")
    case True
    then obtain r' where r: "fst (resolve a k s) = Some r'" by auto
    then show ?thesis
      using resolve_Some [OF Cons.prems(1) r] closed_no_win [of "snd (resolve a k s)" k] i Cons.prems True
      by (auto simp: x)
  next
    case False
    then show ?thesis using Cons i by (auto simp: x split: option.splits if_splits)
  qed
qed simp

end

section \<open>The request table honours it\<close>

definition requests_wf :: "approval_store \<Rightarrow> bool" where
  "requests_wf st \<longleftrightarrow> distinct (map r_id (st_requests st))"

definition request_row :: "approval_store \<Rightarrow> string \<Rightarrow> approval_request option" where
  "request_row st rid = List.find (\<lambda>r. r_id r = rid) (st_requests st)"

definition is_pending :: "approval_request \<Rightarrow> bool" where
  "is_pending r \<longleftrightarrow> r_status r = ''pending''"

text \<open>A call of \<open>resolve_approval_request\<close> as an attempt: its arguments and what it returns.\<close>

type_synonym resolution = "int \<times> string \<times> string \<times> string option \<times> string option"

definition resolve_attempt ::
  "resolution \<Rightarrow> string \<Rightarrow> approval_store \<Rightarrow> approval_request option \<times> approval_store" where
  "resolve_attempt a rid st =
     (case a of (now, tenant, status, by, note) \<Rightarrow>
        (case resolve_approval_request now rid tenant status by note st of
           (res, st') \<Rightarrow> (case res of Inl _ \<Rightarrow> None | Inr r \<Rightarrow> r, st')))"

lemma find_map_same_id:
  "(\<And>r. r_id (f r) = r_id r) \<Longrightarrow>
   List.find (\<lambda>r. r_id r = rid) (map f rs) = map_option f (List.find (\<lambda>r. r_id r = rid) rs)"
  by (induction rs) auto

lemma find_resolvable:
  "distinct (map r_id rs) \<Longrightarrow>
   List.find (resolvable rid tenant) rs =
     (case List.find (\<lambda>r. r_id r = rid) rs of
        Some r \<Rightarrow> if resolvable rid tenant r then Some r else None | None \<Rightarrow> None)"
proof (induction rs)
  case (Cons r rs)
  have "List.find (\<lambda>x. r_id x = rid) rs = None" if "r_id r = rid"
    using Cons.prems that by (auto simp: find_None_iff) (metis image_eqI)
  then show ?case using Cons by (auto simp: resolvable_def split: option.split)
qed simp

lemma settle_simps [simp]:
  "r_id (settle now s by n r) = r_id r" "r_status (settle now s by n r) = s"
  "r_tenant_id (settle now s by n r) = r_tenant_id r"
  "r_decided_by (settle now s by n r) = by"
  by (simp_all add: settle_def)

lemma request_row_id: "request_row st rid = Some r \<Longrightarrow> r_id r = rid"
  by (auto simp: request_row_def find_Some_iff)

lemma request_row_resolve:
  "request_row (snd (resolve_attempt (now, tenant, status, by, note) rid st)) rid' =
     map_option (\<lambda>r. if status \<in> set resolved_statuses \<and> resolvable rid tenant r
                     then settle now status by note r else r) (request_row st rid')"
  by (auto simp: resolve_attempt_def resolve_approval_request_def request_row_def find_map_same_id
      option.map_ident split: prod.split)

lemma resolve_attempt_result:
  "requests_wf st \<Longrightarrow>
   fst (resolve_attempt (now, tenant, status, by, note) rid st) =
     (case request_row st rid of
        Some r \<Rightarrow> if status \<in> set resolved_statuses \<and> resolvable rid tenant r
                  then Some (settle now status by note r) else None
      | None \<Rightarrow> None)"
  by (auto simp: resolve_attempt_def resolve_approval_request_def request_row_def requests_wf_def
      find_resolvable split: option.split)

lemma requests_wf_resolve:
  "requests_wf (snd (resolve_attempt a rid st)) = requests_wf st"
proof -
  obtain now tenant status who memo where a: "a = (now, tenant, status, who, memo)" by (cases a) auto
  have "map r_id (st_requests (snd (resolve_attempt a rid st))) = map r_id (st_requests st)"
    by (simp add: a resolve_attempt_def resolve_approval_request_def)
  then show ?thesis by (simp add: requests_wf_def)
qed

lemma pending_not_resolved [simp]: "''pending'' \<notin> set resolved_statuses"
  by (simp add: resolved_statuses_def)

interpretation tbl: first_wins requests_wf request_row is_pending resolve_attempt
proof
  fix s a k r
  assume wf: "requests_wf s" and r: "fst (resolve_attempt a k s) = Some r"
  obtain now tenant status who memo where a: "a = (now, tenant, status, who, memo)" by (cases a) auto
  obtain r0 where "request_row s k = Some r0" "status \<in> set resolved_statuses" "resolvable k tenant r0"
    "r = settle now status who memo r0"
    using r resolve_attempt_result [OF wf, of now tenant status who memo k]
    by (auto simp: a split: option.splits if_splits)
  then show "(\<exists>r0. request_row s k = Some r0 \<and> is_pending r0) \<and>
      request_row (snd (resolve_attempt a k s)) k = Some r \<and> \<not> is_pending r"
    by (auto simp: a request_row_resolve is_pending_def resolvable_def)
next
  fix s a k
  assume wf: "requests_wf s" and none: "fst (resolve_attempt a k s) = None"
  obtain now tenant status who memo where a: "a = (now, tenant, status, who, memo)" by (cases a) auto
  show "request_row (snd (resolve_attempt a k s)) k = request_row s k"
    using none resolve_attempt_result [OF wf, of now tenant status who memo k]
    by (cases "request_row s k") (auto simp: a request_row_resolve split: if_splits)
next
  fix s and k k' :: string and a :: resolution
  assume "k' \<noteq> k"
  obtain now tenant status who memo where a: "a = (now, tenant, status, who, memo)" by (cases a) auto
  have "\<not> resolvable k tenant r" if "request_row s k' = Some r" for r
    using that \<open>k' \<noteq> k\<close> by (auto simp: resolvable_def dest: request_row_id)
  then show "request_row (snd (resolve_attempt a k s)) k' = request_row s k'"
    by (cases "request_row s k'") (auto simp: a request_row_resolve)
qed (simp add: requests_wf_resolve)

section \<open>Properties\<close>

text \<open>What the module's writes do to the request table, one after the other.\<close>

datatype store_call =
    SResolve string resolution
  | SCreate approval_request
  | SPolicy "approval_store \<Rightarrow> approval_policy list"

definition insert_request :: "approval_request \<Rightarrow> approval_store \<Rightarrow> approval_store" where
  "insert_request r st =
     (case create_approval_request (r_id r) (r_requested_at r) (r_tenant_id r) (r_coworker_id r)
        (r_job_id r) (r_mcp_server_name r) (r_action r) (r_expires_at r) (r_conversation_id r)
        (r_policy_id r) (r_user_id r) (r_action_summary r) (r_rationale r) (r_triggered_by r)
        (Some (r_id r)) st of
        None \<Rightarrow> st
      | Some (_, st') \<Rightarrow> st')"

fun store_exec :: "store_call \<Rightarrow> approval_store \<Rightarrow> approval_store" where
  "store_exec (SResolve rid a) st = snd (resolve_attempt a rid st)"
| "store_exec (SCreate r) st = insert_request r st"
| "store_exec (SPolicy f) st = st\<lparr>st_policies := f st\<rparr>"

fun store_run :: "store_call list \<Rightarrow> approval_store \<Rightarrow> approval_store" where
  "store_run [] st = st"
| "store_run (c # cs) st = store_run cs (store_exec c st)"

lemma request_row_append:
  "request_row (st\<lparr>st_requests := st_requests st @ [r]\<rparr>) rid =
     (case request_row st rid of Some x \<Rightarrow> Some x | None \<Rightarrow> if r_id r = rid then Some r else None)"
proof -
  have "List.find P (xs @ [r]) = (case List.find P xs of Some x \<Rightarrow> Some x | None \<Rightarrow> if P r then Some r else None)"
    for P and xs :: "approval_request list"
    by (induction xs) auto
  then show ?thesis by (simp add: request_row_def)
qed

lemma insert_request_cases:
  obtains (dup) "insert_request r st = st" "r_id r \<in> r_id ` set (st_requests st)"
  | (new) r' where "insert_request r st = st\<lparr>st_requests := st_requests st @ [r']\<rparr>" "r_id r' = r_id r"
      "r_status r' = ''pending''" "r_tenant_id r' = r_tenant_id r" "r_id r \<notin> r_id ` set (st_requests st)"
proof (cases "r_id r \<in> r_id ` set (st_requests st)")
  case True
  then show thesis using dup by (simp add: insert_request_def create_approval_request_def Let_def)
next
  case False
  then show thesis
    using new [of "r\<lparr>r_status := ''pending'', r_decided_by := None, r_note := None, r_decided_at := None\<rparr>"]
    by (simp add: insert_request_def create_approval_request_def Let_def)
qed

lemma request_row_mem: "request_row st rid = None \<longleftrightarrow> rid \<notin> r_id ` set (st_requests st)"
  by (auto simp: request_row_def find_None_iff)

lemma store_exec_wf: "requests_wf st \<Longrightarrow> requests_wf (store_exec c st)"
proof (cases c)
  case (SCreate r)
  assume "requests_wf st"
  then show ?thesis
    by (cases rule: insert_request_cases [of r st]) (auto simp: SCreate requests_wf_def)
next
  case (SResolve rid a)
  assume "requests_wf st"
  then show ?thesis by (simp add: SResolve requests_wf_resolve)
qed (simp add: requests_wf_def)

lemma store_exec_final:
  assumes "requests_wf st" "request_row st rid = Some r" "r_status r \<noteq> ''pending''"
  shows "request_row (store_exec c st) rid = Some r"
proof (cases c)
  case (SCreate x)
  then show ?thesis
    by (cases rule: insert_request_cases [of x st]) (auto simp: assms request_row_append)
next
  case (SResolve rid' a)
  then show ?thesis using tbl.closed_step [OF assms(1,2)] assms(3) by (simp add: is_pending_def)
next
  case (SPolicy f)
  then show ?thesis using assms(2) by (simp add: request_row_def)
qed

text \<open>A decision is final: once a request has left the pending state, no sequence of
  resolutions, new requests and policy edits changes its row again, and every later attempt to
  resolve it returns no row. Whoever writes first, human, timeout or cancellation, wins.\<close>

theorem decision_is_final:
  assumes "requests_wf st" "request_row st rid = Some r" "r_status r \<noteq> ''pending''"
  shows "request_row (store_run cs st) rid = Some r \<and>
     fst (resolve_attempt a rid (store_run cs st)) = None"
  using assms
proof (induction cs arbitrary: st)
  case Nil
  then show ?case using tbl.closed_loses [of st rid r a] by (simp add: is_pending_def)
next
  case (Cons c cs)
  show ?case
    using Cons.IH [OF store_exec_wf [OF Cons.prems(1)] store_exec_final [OF Cons.prems] Cons.prems(3)] by simp
qed

definition demo_request :: approval_request where
  "demo_request = \<lparr>r_id = ''r1'', r_tenant_id = ''acme'', r_coworker_id = ''bot'', r_conversation_id = Some ''a'',
     r_policy_id = None, r_user_id = Some ''u1'', r_job_id = ''job1'', r_mcp_server_name = ''bank'',
     r_action = JObj [], r_action_summary = None, r_rationale = None, r_triggered_by = None,
     r_status = ''pending'', r_decided_by = None, r_note = None, r_requested_at = 1, r_expires_at = 90,
     r_decided_at = None\<rparr>"

definition demo_store :: approval_store where
  "demo_store = \<lparr>st_policies = [], st_requests = [demo_request]\<rparr>"

theorem decision_is_final_witness:
  "fst (resolve_attempt (9, ''acme'', ''approved'', Some ''u1'', None) ''r1''
     (store_run [SResolve ''r1'' (7, ''acme'', ''rejected'', None, None)]
       (store_run [SResolve ''r1'' (5, ''acme'', ''expired'', None, None)] demo_store))) = None"
proof -
  have "requests_wf (store_run [SResolve ''r1'' (5, ''acme'', ''expired'', None, None)] demo_store)"
    "request_row (store_run [SResolve ''r1'' (5, ''acme'', ''expired'', None, None)] demo_store) ''r1'' =
       Some (settle 5 ''expired'' None None demo_request)"
    "r_status (settle 5 ''expired'' None None demo_request) \<noteq> ''pending''"
    by code_simp+
  from decision_is_final [OF this] show ?thesis by blast
qed

text \<open>Of any sequence of attempts to resolve requests, at most one wins a given request, and if
  one does, its status, decider and note are what the table holds at the end.\<close>

theorem one_resolution_wins:
  assumes "requests_wf st"
  shows "length (tbl.wins rid as st) \<le> 1 \<and>
     (\<forall>r. tbl.wins rid as st \<noteq> [r] \<or> request_row (tbl.attempts as st) rid = Some r)"
  using tbl.at_most_one_win [OF assms] tbl.win_is_final [OF assms] by blast

theorem one_resolution_wins_witness:
  "length (tbl.wins ''r1'' [((5, ''acme'', ''approved'', Some ''u1'', None), ''r1''),
     ((6, ''acme'', ''expired'', None, None), ''r1'')] demo_store) \<le> 1"
proof -
  have "requests_wf demo_store" by code_simp
  from one_resolution_wins [OF this] show ?thesis by blast
qed

lemma filter_map_fixed:
  assumes "\<And>x. P x \<Longrightarrow> f x = x" "\<And>x. P (f x) \<Longrightarrow> P x"
  shows "filter P (map f xs) = filter P xs"
proof (induction xs)
  case (Cons x xs)
  show ?case using Cons assms(1) [of x] assms(2) [of x] by (cases "P x") auto
qed simp

lemma resolve_confined:
  "other \<noteq> tenant \<Longrightarrow>
   filter (\<lambda>r. r_tenant_id r = other)
     (st_requests (snd (resolve_approval_request now rid tenant status who memo st))) =
   filter (\<lambda>r. r_tenant_id r = other) (st_requests st)"
  unfolding resolve_approval_request_def
  by (auto simp: resolvable_def intro!: filter_map_fixed split: if_splits)

lemma update_confined:
  "other \<noteq> tenant \<Longrightarrow>
   filter (\<lambda>p. p_tenant_id p = other)
     (st_policies (snd (update_approval_policy now pid tenant server tool expr enabled prio st))) =
   filter (\<lambda>p. p_tenant_id p = other) (st_policies st)"
proof -
  assume o: "other \<noteq> tenant"
  let ?f = "\<lambda>p. if p_id p = pid \<and> p_tenant_id p = tenant
      then patch_policy now server tool expr enabled prio p else p"
  have "filter (\<lambda>p. p_tenant_id p = other) (map ?f (st_policies st)) =
      filter (\<lambda>p. p_tenant_id p = other) (st_policies st)"
    using o by (intro filter_map_fixed) (simp_all add: patch_policy_def split: if_splits)
  then show ?thesis by (simp only: update_approval_policy_def Let_def split: if_split) simp
qed

lemma delete_confined:
  "other \<noteq> tenant \<Longrightarrow>
   filter (\<lambda>p. p_tenant_id p = other) (st_policies (snd (delete_approval_policy pid tenant st))) =
   filter (\<lambda>p. p_tenant_id p = other) (st_policies st)"
  by (auto simp: delete_approval_policy_def intro: filter_cong)

text \<open>The request and policy operations are confined to the tenant they are given: a lookup
  returns a row of that tenant only, and updating, deleting or resolving changes no row of another
  tenant.\<close>

theorem tenant_confined:
  assumes "other \<noteq> tenant"
  shows "(\<forall>r. get_approval_request rid tenant st \<noteq> Some r \<or> r_tenant_id r = tenant) \<and>
     (\<forall>p. get_approval_policy pid tenant st \<noteq> Some p \<or> p_tenant_id p = tenant) \<and>
     filter (\<lambda>r. r_tenant_id r = other)
       (st_requests (snd (resolve_approval_request now rid tenant status who note st))) =
       filter (\<lambda>r. r_tenant_id r = other) (st_requests st) \<and>
     filter (\<lambda>p. p_tenant_id p = other)
       (st_policies (snd (update_approval_policy now pid tenant server tool expr enabled prio st))) =
       filter (\<lambda>p. p_tenant_id p = other) (st_policies st) \<and>
     filter (\<lambda>p. p_tenant_id p = other) (st_policies (snd (delete_approval_policy pid tenant st))) =
       filter (\<lambda>p. p_tenant_id p = other) (st_policies st)"
  using assms resolve_confined update_confined delete_confined
  by (auto simp: get_approval_request_def get_approval_policy_def find_Some_iff)

theorem tenant_confined_witness:
  "filter (\<lambda>r. r_tenant_id r = ''acme'')
     (st_requests (snd (resolve_approval_request 5 ''r1'' ''evil'' ''approved'' None None demo_store))) =
   [demo_request]"
proof -
  have "filter (\<lambda>r. r_tenant_id r = ''acme'') (st_requests demo_store) = [demo_request]" by code_simp
  then show ?thesis
    using tenant_confined [of "''acme''" "''evil''" "''r1''" demo_store "''p''" 5 "''approved''" None None
        None None None None None] by simp
qed

section \<open>The listing order and the matcher\<close>

lemma find_filter: "List.find P xs = (case filter P xs of [] \<Rightarrow> None | x # _ \<Rightarrow> Some x)"
  by (induction xs) auto

lemma max_by_descending:
  "sorted_wrt (\<lambda>a b. key b \<le> key a) (c # cs) \<Longrightarrow> max_by key c cs = c"
proof (induction cs)
  case (Cons x cs)
  then have "\<not> key c < key x" "sorted_wrt (\<lambda>a b. key b \<le> key a) (c # cs)" by (auto simp: not_less)
  then show ?case using Cons.IH by simp
qed simp

lemma neg_key_le: "(- p_priority a, - p_updated_at a) \<le> (- p_priority b, - p_updated_at b) \<longleftrightarrow>
   policy_key b \<le> policy_key a"
  by (auto simp: policy_key_def less_eq_prod_def)

lemma listed_descending:
  "sorted_wrt (\<lambda>a b. policy_key b \<le> policy_key a) (list_approval_policies t eo None 0 st)"
  using sorted_sort_key [of "\<lambda>p. (- p_priority p, - p_updated_at p)" "policy_rows t eo st"]
  unfolding sorted_map neg_key_le by (simp add: list_approval_policies_def paged_def)

text \<open>Taking the first policy of the listing that matches a call gives the same answer as the
  matcher, and when no two of the listed policies tie in priority and update time, the matcher gives
  that answer for the policies in whatever order it receives them.\<close>

theorem listing_agrees_with_matcher:
  assumes "mset policies = mset (list_approval_policies tenant True None 0 st)"
    and "inj_on policy_key (set policies)"
  shows "List.find (policy_matches server tool ps) (list_approval_policies tenant True None 0 st) =
       find_matching_policy (list_approval_policies tenant True None 0 st) server tool ps \<and>
     find_matching_policy policies server tool ps =
       find_matching_policy (list_approval_policies tenant True None 0 st) server tool ps"
proof
  let ?l = "list_approval_policies tenant True None 0 st" and ?m = "policy_matches server tool ps"
  have sorted: "sorted_wrt (\<lambda>a b. policy_key b \<le> policy_key a) (filter ?m ?l)"
    using listed_descending by (rule sorted_wrt_filter)
  then show first: "List.find ?m ?l = find_matching_policy ?l server tool ps"
    by (auto simp: find_filter find_matching_policy_def max_by_descending simp del: sorted_wrt.simps(2)
        split: list.split)
  have ms: "mset (filter ?m policies) = mset (filter ?m ?l)" using assms(1) by simp
  show "find_matching_policy policies server tool ps = find_matching_policy ?l server tool ps"
  proof (cases "filter ?m ?l")
    case Nil
    then show ?thesis using ms by (simp add: find_matching_policy_def)
  next
    case (Cons b bs)
    then obtain c cs where c: "filter ?m policies = c # cs" using ms by (cases "filter ?m policies") auto
    have eq: "set (c # cs) = set (b # bs)" using ms unfolding c Cons by (rule mset_eq_setD)
    have top: "policy_key x \<le> policy_key b" if "x \<in> set (b # bs)" for x
      using that sorted unfolding Cons by auto
    obtain l r where lr: "c # cs = l @ max_by policy_key c cs # r"
      "\<forall>x \<in> set l. policy_key x < policy_key (max_by policy_key c cs)"
      "\<forall>x \<in> set r. policy_key x \<le> policy_key (max_by policy_key c cs)"
      by (rule max_by_split)
    have m: "max_by policy_key c cs \<in> set (b # bs)" "b \<in> set (c # cs)"
      using lr(1) eq by (metis in_set_conv_decomp, simp)
    moreover have "policy_key b \<le> policy_key (max_by policy_key c cs)"
      using m(2) lr(2,3) unfolding lr(1) by (auto intro: less_imp_le)
    ultimately have "policy_key (max_by policy_key c cs) = policy_key b" using top by fastforce
    moreover have "max_by policy_key c cs \<in> set policies" "b \<in> set policies"
      using m eq filter_is_subset [of ?m policies] unfolding c by blast+
    ultimately have "max_by policy_key c cs = b" using assms(2) by (auto dest: inj_onD)
    then show ?thesis
      using sorted unfolding Cons
      by (simp add: find_matching_policy_def c Cons max_by_descending del: sorted_wrt.simps(2))
  qed
qed

theorem listing_agrees_with_matcher_witness:
  "find_matching_policy [demo_policy ''a'' 1 9, demo_policy ''b'' 2 3] ''bank'' ''pay'' [] =
   find_matching_policy
     (list_approval_policies ''t'' True None 0
       \<lparr>st_policies = [demo_policy ''a'' 1 9, demo_policy ''b'' 2 3], st_requests = []\<rparr>) ''bank'' ''pay'' []"
proof -
  let ?st = "\<lparr>st_policies = [demo_policy ''a'' 1 9, demo_policy ''b'' 2 3], st_requests = []\<rparr>"
  have l: "list_approval_policies ''t'' True None 0 ?st = [demo_policy ''b'' 2 3, demo_policy ''a'' 1 9]"
    by code_simp
  have "mset [demo_policy ''a'' 1 9, demo_policy ''b'' 2 3] = mset (list_approval_policies ''t'' True None 0 ?st)"
    unfolding l by simp
  moreover have "inj_on policy_key (set [demo_policy ''a'' 1 9, demo_policy ''b'' 2 3])"
    by (simp add: policy_key_def demo_policy_def)
  ultimately show ?thesis using listing_agrees_with_matcher by blast
qed

end
