(* ===== verification/Approval_Coordinator.thy ===== *)
theory Approval_Coordinator
  imports Approval_Store Scheduler_Live
begin

text \<open>
  The approval coordinator of \<^verbatim>\<open>src/src/rolemesh/orchestration/approval_coordinator.py\<close>, on the
  group queue and the request table. Every handler is split at its awaits: what it does up to the
  first one, a suspended coroutine (\<open>cont\<close>) for each await, and what it does when it resumes. A
  database statement is executed at some moment while its coroutine is suspended, and may raise.
  Handlers of different messages interleave freely.

  The fields of a payload are strings or JSON values as the container sends them, \<open>expires_at\<close>
  already parsed. A publication or a notification that raises is swallowed by the source; the model
  records the attempt.
\<close>

section \<open>State\<close>

definition approval_queue_key :: "string option \<Rightarrow> string \<Rightarrow> string" where
  "approval_queue_key conv coworker = (case conv of Some c \<Rightarrow> or_str c coworker | None \<Rightarrow> coworker)"

record pending_approval =
  pa_request_id :: string
  pa_job_id :: string
  pa_key :: string
  pa_tenant_id :: string
  pa_coworker_id :: string
  pa_conversation_id :: "string option"
  pa_expires_at :: int
  pa_adopted :: bool
  pa_expiry_armed :: bool

record approval_payload =
  ap_request_id :: "string option"
  ap_job_id :: "string option"
  ap_coworker_id :: "string option"
  ap_mcp_server_name :: "string option"
  ap_tool_name :: "string option"
  ap_conversation_id :: "string option"
  ap_user_id :: "string option"
  ap_policy_id :: "string option"
  ap_params :: "json option"
  ap_action_summary :: "json option"
  ap_rationale :: "json option"
  ap_triggered_by :: "json option"
  ap_tenant_id :: "string option"
  ap_expires_at :: "int option"

text \<open>A relayed decision: the job, and the published payload.\<close>

record relay =
  d_job_id :: string
  d_request_id :: string
  d_decision :: string
  d_decided_by :: "string option"
  d_note :: "string option"

datatype notice = StatusWaiting approval_request | HardNotice approval_request string

text \<open>Why a row is being resolved, with what the coroutine still needs afterwards.\<close>

datatype purpose =
    ForCancel
  | ForDecision string "string option" "string option"
  | ForExpiry
  | ForRecovery int "approval_request list"

text \<open>
  The suspended coroutines. \<open>KCreate\<close> and \<open>KResolve\<close> wait for a statement that has not been executed,
  \<open>KCreated\<close> and \<open>KResolved\<close> hold its result, \<open>KPublished\<close> waits for the relay, \<open>KExpiry\<close> has not
  run yet, \<open>KScan\<close> and \<open>KScanned\<close> belong to the restart recovery.
\<close>

datatype cont =
    KCreate approval_payload string int
  | KCreated approval_payload "approval_request option"
  | KResolve purpose string string string string "string option" "string option"
  | KResolved purpose string string "approval_request option"
  | KPublished string approval_request string
  | KExpiry string
  | KScan
  | KScanned "approval_request list option"

record coordinator =
  co_queue :: queue
  co_store :: approval_store
  co_pending :: "(string, pending_approval) dict"
  co_published :: "relay list"
  co_notices :: "notice list"
  co_waiting :: "cont list"
  co_timeout :: int

definition wait_for :: "cont \<Rightarrow> coordinator \<Rightarrow> coordinator" where
  "wait_for k co = co\<lparr>co_waiting := co_waiting co @ [k]\<rparr>"

definition notify :: "notice \<Rightarrow> coordinator \<Rightarrow> coordinator" where
  "notify n co = co\<lparr>co_notices := co_notices co @ [n]\<rparr>"

definition safe_publish_decision ::
  "string \<Rightarrow> string \<Rightarrow> string \<Rightarrow> string option \<Rightarrow> string option \<Rightarrow> coordinator \<Rightarrow> coordinator" where
  "safe_publish_decision job rid decision who memo co =
     co\<lparr>co_published := co_published co @
          [\<lparr>d_job_id = job, d_request_id = rid, d_decision = decision, d_decided_by = who, d_note = memo\<rparr>]\<rparr>"

section \<open>Local resolution and expiry\<close>

definition resolve_local :: "string \<Rightarrow> coordinator \<Rightarrow> coordinator" where
  "resolve_local rid co =
     (case dict_get (co_pending co) rid of
        None \<Rightarrow> co
      | Some p \<Rightarrow>
          co\<lparr>co_pending := dict_pop (co_pending co) rid,
             co_queue := snd (resume_from_approval (pa_key p) rid (co_queue co))\<rparr>)"

text \<open>Suspend the conversation, cache the request and arm its expiry.\<close>

definition arm_expiry :: "pending_approval \<Rightarrow> pending_approval" where
  "arm_expiry p = p\<lparr>pa_expiry_armed := True\<rparr>"

definition hold_request :: "pending_approval \<Rightarrow> coordinator \<Rightarrow> coordinator" where
  "hold_request p co =
     co\<lparr>co_queue := suspend_for_approval (pa_key p) (pa_request_id p) (co_queue co),
        co_pending := dict_set (co_pending co) (pa_request_id p) (arm_expiry p)\<rparr>"

definition fire_expiry :: "string \<Rightarrow> coordinator \<Rightarrow> coordinator" where
  "fire_expiry rid co = wait_for (KExpiry rid) co"

section \<open>Handlers up to their first await\<close>

text \<open>\<open>payload.get(k) or None\<close>\<close>

definition payload_tenant :: "(string \<Rightarrow> string option) \<Rightarrow> string \<Rightarrow> approval_payload \<Rightarrow> string option" where
  "payload_tenant resolve_tenant coworker p =
     (if truthy (resolve_tenant coworker) then resolve_tenant coworker
      else if truthy (ap_tenant_id p) then ap_tenant_id p
      else None)"

definition on_approval_request ::
  "(string \<Rightarrow> string option) \<Rightarrow> int \<Rightarrow> approval_payload \<Rightarrow> coordinator \<Rightarrow> coordinator" where
  "on_approval_request resolve_tenant now p co =
     (case (ap_request_id p, ap_job_id p, ap_coworker_id p, ap_mcp_server_name p, ap_tool_name p) of
        (Some rid, Some job, Some coworker, Some server, Some tool) \<Rightarrow>
          if dict_get (co_pending co) rid \<noteq> None then co
          else
            (case payload_tenant resolve_tenant coworker p of
               None \<Rightarrow>
                 safe_publish_decision job rid ''reject'' None
                   (Some ''Unresolvable tenant (fail-closed)'') co
             | Some tenant \<Rightarrow>
                 let expires = (case ap_expires_at p of Some t \<Rightarrow> t | None \<Rightarrow> now + co_timeout co);
                     conv = or_none (ap_conversation_id p)
                 in wait_for (KCreate p tenant expires)
                      (hold_request
                        \<lparr>pa_request_id = rid, pa_job_id = job, pa_key = approval_queue_key conv coworker,
                         pa_tenant_id = tenant, pa_coworker_id = coworker, pa_conversation_id = conv,
                         pa_expires_at = expires, pa_adopted = False, pa_expiry_armed = False\<rparr> co))
      | _ \<Rightarrow> co)"

definition on_approval_cancel :: "string option \<Rightarrow> coordinator \<Rightarrow> coordinator" where
  "on_approval_cancel request_id co =
     (case request_id of
        None \<Rightarrow> co
      | Some rid \<Rightarrow>
          (case dict_get (co_pending co) rid of
             None \<Rightarrow> co
           | Some p \<Rightarrow>
               wait_for (KResolve ForCancel rid (pa_job_id p) (pa_tenant_id p) ''cancelled'' None None) co))"

definition decision_status :: "string \<Rightarrow> string" where
  "decision_status decision = (if decision = ''approve'' then ''approved'' else ''rejected'')"

text \<open>The flag says whether the guards were passed; if not, \<open>decide\<close> has returned \<open>False\<close>.\<close>

definition decide ::
  "string \<Rightarrow> string \<Rightarrow> string option \<Rightarrow> string option \<Rightarrow> string option \<Rightarrow> string option \<Rightarrow> coordinator \<Rightarrow>
   bool \<times> coordinator" where
  "decide rid decision who memo expected_tenant expected_conversation co =
     (case dict_get (co_pending co) rid of
        None \<Rightarrow> (False, co)
      | Some p \<Rightarrow>
          if expected_tenant \<noteq> None \<and> Some (pa_tenant_id p) \<noteq> expected_tenant then (False, co)
          else if expected_conversation \<noteq> None \<and> pa_conversation_id p \<noteq> expected_conversation
          then (False, co)
          else
            (True,
             wait_for (KResolve (ForDecision decision who memo) rid (pa_job_id p) (pa_tenant_id p)
               (decision_status decision) who memo) co))"

definition handle_expiry :: "string \<Rightarrow> coordinator \<Rightarrow> coordinator" where
  "handle_expiry rid co =
     (case dict_get (co_pending co) rid of
        None \<Rightarrow> co
      | Some p \<Rightarrow>
          wait_for (KResolve ForExpiry rid (pa_job_id p) (pa_tenant_id p) ''expired'' None None) co)"

definition recover_pending :: "coordinator \<Rightarrow> coordinator" where
  "recover_pending co = wait_for KScan co"

text \<open>The loop over the scanned rows, up to the first past-deadline row, whose resolution it awaits.\<close>

fun recover_rows :: "int \<Rightarrow> approval_request list \<Rightarrow> coordinator \<Rightarrow> coordinator" where
  "recover_rows now [] co = co"
| "recover_rows now (r # rs) co =
     (if dict_get (co_pending co) (r_id r) \<noteq> None then recover_rows now rs co
      else if r_expires_at r \<le> now then
        wait_for (KResolve (ForRecovery now rs) (r_id r) (r_job_id r) (r_tenant_id r) ''expired'' None None) co
      else
        let key = approval_queue_key (r_conversation_id r) (r_coworker_id r);
            co1 = co\<lparr>co_queue := adopt_orphan_container key (r_job_id r) (r_tenant_id r) (r_coworker_id r)
                                   (co_queue co)\<rparr>
        in recover_rows now rs
             (hold_request
               \<lparr>pa_request_id = r_id r, pa_job_id = r_job_id r, pa_key = key, pa_tenant_id = r_tenant_id r,
                pa_coworker_id = r_coworker_id r, pa_conversation_id = r_conversation_id r,
                pa_expires_at = r_expires_at r, pa_adopted = True, pa_expiry_armed = False\<rparr> co1))"

section \<open>Statements and resumptions\<close>

text \<open>
  The statement of a suspended coroutine is executed at time \<open>now\<close>; \<open>ok\<close> says whether the database
  accepts it. A raising statement changes nothing and yields no row.
\<close>

definition json_dict :: "json option \<Rightarrow> json" where
  "json_dict v = (case v of Some (JObj kvs) \<Rightarrow> JObj kvs | _ \<Rightarrow> JObj [])"

definition json_opt_dict :: "json option \<Rightarrow> json option" where
  "json_opt_dict v = (case v of Some (JObj kvs) \<Rightarrow> Some (JObj kvs) | _ \<Rightarrow> None)"

definition json_opt_str :: "json option \<Rightarrow> string option" where
  "json_opt_str v = (case v of Some (JStr s) \<Rightarrow> Some s | _ \<Rightarrow> None)"

definition create_for ::
  "int \<Rightarrow> approval_payload \<Rightarrow> string \<Rightarrow> int \<Rightarrow> approval_store \<Rightarrow> (approval_request \<times> approval_store) option" where
  "create_for now p tenant expires st =
     create_approval_request '''' now tenant (the (ap_coworker_id p)) (the (ap_job_id p))
       (the (ap_mcp_server_name p))
       (JObj [(''tool_name'', JStr (the (ap_tool_name p))), (''params'', json_dict (ap_params p))])
       expires (or_none (ap_conversation_id p)) (or_none (ap_policy_id p)) (or_none (ap_user_id p))
       (ap_action_summary p) (json_opt_str (ap_rationale p)) (json_opt_dict (ap_triggered_by p))
       (ap_request_id p) st"

fun run_statement :: "int \<Rightarrow> bool \<Rightarrow> cont \<Rightarrow> approval_store \<Rightarrow> cont \<times> approval_store" where
  "run_statement now ok (KCreate p tenant expires) st =
     (if \<not> ok then (KCreated p None, st)
      else case create_for now p tenant expires st of
          None \<Rightarrow> (KCreated p None, st)
        | Some (row, st') \<Rightarrow> (KCreated p (Some row), st'))"
| "run_statement now ok (KResolve u rid job tenant status who memo) st =
     (if \<not> ok then (KResolved u rid job None, st)
      else case resolve_attempt (now, tenant, status, who, memo) rid st of
          (row, st') \<Rightarrow> (KResolved u rid job row, st'))"
| "run_statement now ok KScan st =
     (KScanned (if ok then Some (list_pending_requests_all_tenants st) else None), st)"
| "run_statement now ok k st = (k, st)"

definition hard_notice :: "approval_request option \<Rightarrow> string \<Rightarrow> coordinator \<Rightarrow> coordinator" where
  "hard_notice row status co = (case row of None \<Rightarrow> co | Some r \<Rightarrow> notify (HardNotice r status) co)"

text \<open>A coroutine whose await has completed runs to its next await or its end.\<close>

fun resume :: "int \<Rightarrow> cont \<Rightarrow> coordinator \<Rightarrow> coordinator" where
  "resume now (KCreated p None) co = resolve_local (the (ap_request_id p)) co"
| "resume now (KCreated p (Some row)) co =
     (if or_none (ap_user_id p) = None
      then snd (decide (the (ap_request_id p)) ''reject'' None (Some ''No approver (fail-closed)'') None None co)
      else notify (StatusWaiting row) co)"
| "resume now (KResolved ForCancel rid job row) co =
     hard_notice row ''cancelled'' (resolve_local rid co)"
| "resume now (KResolved (ForDecision decision who memo) rid job None) co = resolve_local rid co"
| "resume now (KResolved (ForDecision decision who memo) rid job (Some row)) co =
     wait_for (KPublished rid row (decision_status decision))
       (safe_publish_decision job rid decision who memo co)"
| "resume now (KResolved ForExpiry rid job row) co = hard_notice row ''expired'' (resolve_local rid co)"
| "resume now (KResolved (ForRecovery t rs) rid job row) co =
     recover_rows t rs (hard_notice row ''expired'' co)"
| "resume now (KPublished rid row status) co =
     (let co1 = resolve_local rid co in
      if status = ''rejected'' then notify (HardNotice row ''rejected'') co1 else co1)"
| "resume now (KExpiry rid) co = handle_expiry rid co"
| "resume now (KScanned None) co = co"
| "resume now (KScanned (Some rows)) co = recover_rows now rows co"
| "resume now k co = wait_for k co"

section \<open>Events\<close>

datatype cevent =
    ERequest int approval_payload
  | ECancel "string option"
  | EDecide string string "string option" "string option" "string option" "string option"
  | EExpiryFires string
  | ERecover
  | EStatement nat int bool
  | EResume nat int
  | EQueue qcall

definition drop_nth :: "nat \<Rightarrow> 'a list \<Rightarrow> 'a list" where
  "drop_nth i xs = take i xs @ drop (Suc i) xs"

fun cexec :: "(string \<Rightarrow> string option) \<Rightarrow> cevent \<Rightarrow> coordinator \<Rightarrow> coordinator" where
  "cexec rt (ERequest now p) co = on_approval_request rt now p co"
| "cexec rt (ECancel rid) co = on_approval_cancel rid co"
| "cexec rt (EDecide rid decision who memo et ec) co = snd (decide rid decision who memo et ec co)"
| "cexec rt (EExpiryFires rid) co = fire_expiry rid co"
| "cexec rt ERecover co = recover_pending co"
| "cexec rt (EStatement i now ok) co =
     (let (k, st) = run_statement now ok (co_waiting co ! i) (co_store co)
      in co\<lparr>co_waiting := (co_waiting co)[i := k], co_store := st\<rparr>)"
| "cexec rt (EResume i now) co =
     resume now (co_waiting co ! i) (co\<lparr>co_waiting := drop_nth i (co_waiting co)\<rparr>)"
| "cexec rt (EQueue c) co = co\<lparr>co_queue := qexec c (co_queue co)\<rparr>"

end
