(* ===== verification/Coordinator_Props.thy ===== *)
theory Coordinator_Props
  imports Approval_Coordinator
begin

text \<open>
  Runs of the approval coordinator and what they guarantee: the suspension of a conversation and the
  cached request go together, an approval is relayed only for a row the approver decided, a
  conversation with a pending request is not reaped, and a forged request id decides nothing.
\<close>

section \<open>Runs\<close>

fun is_statement :: "cont \<Rightarrow> bool" where
  "is_statement (KCreate _ _ _) = True"
| "is_statement (KResolve _ _ _ _ _ _ _) = True"
| "is_statement KScan = True"
| "is_statement _ = False"

text \<open>
  The recovery adopts a container only for a conversation that has none of its own, as right after
  a restart; the condition follows the loop of \<open>recover_rows\<close>.
\<close>

fun recover_ok :: "int \<Rightarrow> approval_request list \<Rightarrow> coordinator \<Rightarrow> bool" where
  "recover_ok now [] co = True"
| "recover_ok now (r # rs) co =
     (if dict_get (co_pending co) (r_id r) \<noteq> None then recover_ok now rs co
      else if r_expires_at r \<le> now then True
      else
        let key = approval_queue_key (r_conversation_id r) (r_coworker_id r) in
        admissible (CAdopt key (r_job_id r) (r_tenant_id r) (r_coworker_id r)) (co_queue co) \<and>
        recover_ok now rs (recover_rows now [r] co))"

fun resume_ok :: "int \<Rightarrow> cont \<Rightarrow> coordinator \<Rightarrow> bool" where
  "resume_ok now (KResolved (ForRecovery t rs) rid job row) co = recover_ok t rs co"
| "resume_ok now (KScanned (Some rows)) co = recover_ok now rows co"
| "resume_ok now k co = (\<not> is_statement k)"

text \<open>The calls on the queue that are not the coordinator's own.\<close>

fun foreign_call :: "qcall \<Rightarrow> bool" where
  "foreign_call (CSuspend _ _) = False"
| "foreign_call (CResume _ _) = False"
| "foreign_call (CAdopt _ _ _ _) = False"
| "foreign_call _ = True"

fun ce_ok :: "cevent \<Rightarrow> coordinator \<Rightarrow> bool" where
  "ce_ok (EExpiryFires rid) co =
     (case dict_get (co_pending co) rid of None \<Rightarrow> False | Some p \<Rightarrow> pa_expiry_armed p)"
| "ce_ok (EStatement i now ok) co = (i < length (co_waiting co) \<and> is_statement (co_waiting co ! i))"
| "ce_ok (EResume i now) co =
     (i < length (co_waiting co) \<and>
      resume_ok now (co_waiting co ! i) (co\<lparr>co_waiting := drop_nth i (co_waiting co)\<rparr>))"
| "ce_ok (EQueue c) co = (foreign_call c \<and> admissible c (co_queue co))"
| "ce_ok _ co = True"

text \<open>A coordinator just constructed, on a queue with no suspended conversation.\<close>

definition new_coordinator :: "queue \<Rightarrow> approval_store \<Rightarrow> int \<Rightarrow> coordinator" where
  "new_coordinator q st timeout =
     \<lparr>co_queue = q, co_store = st, co_pending = [], co_published = [], co_notices = [], co_waiting = [],
      co_timeout = timeout\<rparr>"

definition unsuspended :: "queue \<Rightarrow> bool" where
  "unsuspended q \<longleftrightarrow> (\<forall>k. g_awaiting_approval (grp q k) = {})"

inductive creach :: "(string \<Rightarrow> string option) \<Rightarrow> coordinator \<Rightarrow> bool" for rt where
  start: "reach q \<Longrightarrow> unsuspended q \<Longrightarrow> requests_wf st \<Longrightarrow> creach rt (new_coordinator q st timeout)"
| event: "creach rt co \<Longrightarrow> ce_ok e co \<Longrightarrow> creach rt (cexec rt e co)"

section \<open>The suspend and resume interface of the queue\<close>

text \<open>
  What the coordinator relies on: suspending adds a request to the set a conversation waits for,
  resuming removes it. The client's lemma: kept in step with a table from requests to
  conversations, the sets are exactly the table read backwards.
\<close>

locale approval_hold =
  fixes awaiting :: "'q \<Rightarrow> 'k \<Rightarrow> 'r set"
    and suspend :: "'k \<Rightarrow> 'r \<Rightarrow> 'q \<Rightarrow> 'q"
    and release :: "'k \<Rightarrow> 'r \<Rightarrow> 'q \<Rightarrow> 'q"
  assumes awaiting_suspend: "awaiting (suspend k r q) = (awaiting q)(k := insert r (awaiting q k))"
    and awaiting_release: "awaiting (release k r q) = (awaiting q)(k := awaiting q k - {r})"
begin

definition in_step :: "'q \<Rightarrow> ('r \<rightharpoonup> 'k) \<Rightarrow> bool" where
  "in_step q m \<longleftrightarrow> (\<forall>k r. r \<in> awaiting q k \<longleftrightarrow> m r = Some k)"

lemma in_step_suspend: "in_step q m \<Longrightarrow> m r = None \<Longrightarrow> in_step (suspend k r q) (m(r \<mapsto> k))"
  by (auto simp: in_step_def awaiting_suspend)

lemma in_step_release: "in_step q m \<Longrightarrow> m r = Some k \<Longrightarrow> in_step (release k r q) (m(r := None))"
  by (auto simp: in_step_def awaiting_release)

lemma in_step_held: "in_step q m \<Longrightarrow> m r = Some k \<Longrightarrow> awaiting q k \<noteq> {}"
  by (auto simp: in_step_def)

lemma in_step_cong: "awaiting q' = awaiting q \<Longrightarrow> in_step q' m = in_step q m"
  by (simp add: in_step_def)

end

definition aw :: "queue \<Rightarrow> string \<Rightarrow> string set" where
  "aw q k = g_awaiting_approval (grp q k)"

definition release_approval :: "string \<Rightarrow> string \<Rightarrow> queue \<Rightarrow> queue" where
  "release_approval k r q = snd (resume_from_approval k r q)"

lemma aw_grp: "grp q' = grp q \<Longrightarrow> aw q' = aw q"
  by (simp add: aw_def fun_eq_iff)

lemma aw_upd: "g_awaiting_approval (f (grp q j)) = g_awaiting_approval (grp q j) \<Longrightarrow> aw (upd_group j f q) = aw q"
  by (simp add: aw_def fun_eq_iff)

lemma aw_frame [simp]:
  "aw (get_group j q) = aw q" "aw (spawn t q) = aw q" "aw (pop_warm j q) = aw q" "aw (add_waiting j q) = aw q"
  "aw (touch_warm j n q) = aw q" "aw (q\<lparr>q_running := ts\<rparr>) = aw q" "aw (q\<lparr>q_spawned := ts\<rparr>) = aw q"
  "aw (q\<lparr>q_waiting_groups := ws\<rparr>) = aw q" "aw (q\<lparr>q_shutting_down := b\<rparr>) = aw q"
  "aw (request_shutdown j q) = aw q" "aw (fire w cb j q) = aw q" "aw (acquire_turn j q) = aw q"
  "aw (release_turn j q) = aw q" "aw (acquire_live j q) = aw q" "aw (release_live j q) = aw q"
  "aw (reserve_slot j q) = aw q" "aw (pop_task j q) = aw q" "aw (cancel_idle_timer j q) = aw q"
  by (simp_all add: aw_def fun_eq_iff)

lemma aw_same_core [simp]:
  "aw (interrupt_current_turn j q) = aw q" "aw (evict_if_needed j q) = aw q"
  using same_core_interrupt [of q j] same_core_evict_if_needed [of q j]
  by (auto simp: same_core_def intro: aw_grp)

lemma aw_drain_loop: "aw (snd (drain_loop ws q)) = aw q"
proof (induction ws arbitrary: q)
  case (Cons j ws)
  show ?case
    by (cases rule: drain_loop_Cons_cases [where j = j and ws = ws and q = q]) (auto simp: Cons.IH)
qed simp

lemma aw_drain [simp]: "aw (drain_waiting q) = aw q" "aw (drain_group j q) = aw q"
proof -
  have d: "aw (drain_waiting q) = aw q" for q
    using aw_drain_loop [of "q_waiting_groups q" q] by (auto simp: drain_waiting_def split: prod.split)
  show "aw (drain_waiting q) = aw q" by (rule d)
  show "aw (drain_group j q) = aw q" by (simp add: drain_group_def Let_def d split: list.split)
qed

lemma aw_methods [simp]:
  "aw (arm_idle_timer j q) = aw q" "aw (enqueue_message_check j t c q) = aw q"
  "aw (enqueue_task j tid fn t c q) = aw q" "aw (register_process j n f jb q) = aw q"
  "aw (notify_idle j now q) = aw q" "aw (adopt_orphan_container j job t c q) = aw q"
  "aw (reap_adopted j q) = aw q" "aw (snd (send_message j txt q)) = aw q"
  "aw (schedule_retry j q) = aw q" "aw (run_for_group_begin j q) = aw q"
  "aw (run_task_begin j task q) = aw q" "aw (run_task_end j q) = aw q" "aw (reap_ghost j q) = aw q"
proof -
  show arm: "aw (arm_idle_timer j q) = aw q" for j q by (simp add: arm_idle_timer_def Let_def aw_upd)
  show "aw (notify_idle j now q) = aw q" by (simp add: notify_idle_def Let_def aw_upd arm)
qed (simp_all add: enqueue_message_check_def enqueue_task_def register_process_def
    adopt_orphan_container_def reap_adopted_def send_message_def schedule_retry_def run_for_group_begin_def
    run_task_begin_def run_task_end_def reap_ghost_def Let_def aw_upd set_ids_def)

lemma aw_end [simp]: "aw (run_for_group_end out j q) = aw q"
  by (cases out) (simp_all add: run_for_group_end_def Let_def aw_upd)

lemma aw_sweep: "aw (snd (sweep_loop live js q)) = aw q"
  by (induction js arbitrary: q) (simp_all add: Let_def case_prod_beta aw_upd)

interpretation hold: approval_hold aw suspend_for_approval release_approval
proof
  show "aw (suspend_for_approval k r q) = (aw q)(k := insert r (aw q k))" for k r q
    by (auto simp: aw_def suspend_for_approval_def fun_eq_iff)
  have arm: "aw (arm_idle_timer k q) = aw q" for k q by simp
  show "aw (release_approval k r q) = (aw q)(k := aw q k - {r})" for k r q
  proof (cases "r \<in> g_awaiting_approval (grp q k)")
    case True
    then show ?thesis
      by (simp add: release_approval_def resume_from_approval_def Let_def arm)
        (auto simp: aw_def fun_eq_iff)
  next
    case False
    then show ?thesis
      by (auto simp: release_approval_def resume_from_approval_def Let_def aw_def fun_eq_iff)
  qed
qed

lemma aw_foreign: "foreign_call c \<Longrightarrow> aw (qexec c q) = aw q"
proof (cases c)
  case CSetup
  then show ?thesis using aw_grp [of "qexec CSetup q" q] same_core_setup [of q] by (simp only: same_core_def)
next
  case (CStart t)
  then show ?thesis by (cases t) (simp_all add: start_task_def Let_def)
next
  case (CFinish t out)
  then show ?thesis by (cases t) (simp_all add: finish_task_def Let_def)
next
  case (CIdleFires j)
  then show ?thesis by (simp add: idle_fires_def split: option.split idle_cb.split)
next
  case (CReconcile live)
  then show ?thesis by (simp add: reconcile_once_def aw_sweep split: option.split)
next
  case CShutdown
  then show ?thesis by (simp add: shutdown_def Let_def)
qed simp_all

section \<open>Suspensions and cached requests go together\<close>

definition keys :: "coordinator \<Rightarrow> string \<rightharpoonup> string" where
  "keys co r = map_option pa_key (dict_get (co_pending co) r)"

lemma keys_frame [simp]:
  "keys (co\<lparr>co_waiting := ks\<rparr>) = keys co" "keys (co\<lparr>co_notices := ns\<rparr>) = keys co"
  "keys (co\<lparr>co_published := ds\<rparr>) = keys co" "keys (co\<lparr>co_store := st\<rparr>) = keys co"
  "keys (co\<lparr>co_queue := q\<rparr>) = keys co"
  by (simp_all add: keys_def fun_eq_iff)

definition cinv :: "coordinator \<Rightarrow> bool" where
  "cinv co \<longleftrightarrow> reach (co_queue co) \<and> hold.in_step (co_queue co) (keys co)"

lemma cinv_frame [simp]:
  "cinv (wait_for k co) = cinv co" "cinv (notify n co) = cinv co" "cinv (hard_notice row s co) = cinv co"
  "cinv (safe_publish_decision job rid d who memo co) = cinv co"
  "cinv (co\<lparr>co_waiting := ks\<rparr>) = cinv co" "cinv (co\<lparr>co_store := st\<rparr>) = cinv co"
  by (simp_all add: cinv_def wait_for_def notify_def hard_notice_def safe_publish_decision_def
      split: option.split)

lemma pending_frame [simp]:
  "co_pending (wait_for k co) = co_pending co" "co_pending (notify n co) = co_pending co"
  "co_queue (wait_for k co) = co_queue co"
  by (simp_all add: wait_for_def notify_def)

lemma keys_hold: "keys (hold_request p co) = (keys co)(pa_request_id p \<mapsto> pa_key p)"
  by (simp add: keys_def hold_request_def arm_expiry_def fun_eq_iff)

lemma keys_resolve_local: "keys (resolve_local rid co) = (keys co)(rid := None)"
  by (auto simp: keys_def resolve_local_def fun_eq_iff split: option.split)

lemma cinv_hold:
  assumes "cinv co" "dict_get (co_pending co) (pa_request_id p) = None"
  shows "cinv (hold_request p co)"
proof -
  have "reach (qexec (CSuspend (pa_key p) (pa_request_id p)) (co_queue co))"
    using assms(1) by (intro reach.call) (simp_all add: cinv_def)
  moreover have "hold.in_step (suspend_for_approval (pa_key p) (pa_request_id p) (co_queue co))
      ((keys co)(pa_request_id p \<mapsto> pa_key p))"
    using assms by (intro hold.in_step_suspend) (simp_all add: cinv_def keys_def)
  ultimately show ?thesis unfolding cinv_def keys_hold by (simp add: hold_request_def)
qed

lemma cinv_resolve_local:
  assumes "cinv co"
  shows "cinv (resolve_local rid co)"
proof (cases "dict_get (co_pending co) rid")
  case None
  then show ?thesis using assms by (simp add: resolve_local_def)
next
  case (Some p)
  have "reach (qexec (CResume (pa_key p) rid) (co_queue co))"
    using assms by (intro reach.call) (simp_all add: cinv_def)
  moreover have "hold.in_step (release_approval (pa_key p) rid (co_queue co)) ((keys co)(rid := None))"
    using assms Some by (intro hold.in_step_release) (simp_all add: cinv_def keys_def)
  ultimately show ?thesis
    unfolding cinv_def keys_resolve_local by (simp add: resolve_local_def Some release_approval_def)
qed

lemma cinv_adopt:
  assumes "cinv co" "admissible (CAdopt key job t c) (co_queue co)"
  shows "cinv (co\<lparr>co_queue := adopt_orphan_container key job t c (co_queue co)\<rparr>)"
proof -
  have "reach (qexec (CAdopt key job t c) (co_queue co))"
    using assms by (intro reach.call) (simp_all add: cinv_def)
  then show ?thesis
    using assms(1) hold.in_step_cong [of "adopt_orphan_container key job t c (co_queue co)" "co_queue co"]
    by (simp add: cinv_def keys_def)
qed

lemma cinv_recover_rows: "cinv co \<Longrightarrow> recover_ok now rs co \<Longrightarrow> cinv (recover_rows now rs co)"
proof (induction rs arbitrary: co)
  case (Cons r rs)
  show ?case
  proof (cases "dict_get (co_pending co) (r_id r) \<noteq> None \<or> r_expires_at r \<le> now")
    case True
    then show ?thesis using Cons by (auto split: if_splits)
  next
    case False
    have "cinv (recover_rows now [r] co)"
      using False Cons.prems by (auto simp: Let_def intro!: cinv_hold cinv_adopt)
    then show ?thesis using Cons False by (auto simp: Let_def)
  qed
qed simp

lemma cinv_decide: "cinv co \<Longrightarrow> cinv (snd (decide rid d who memo et ec co))"
  by (simp add: decide_def split: option.split)

lemma recover_ok_cong:
  "co_queue a = co_queue b \<Longrightarrow> co_pending a = co_pending b \<Longrightarrow> recover_ok t rs a = recover_ok t rs b"
proof (induction rs arbitrary: a b)
  case (Cons r rs)
  have "co_queue (recover_rows t [r] a) = co_queue (recover_rows t [r] b)"
    "co_pending (recover_rows t [r] a) = co_pending (recover_rows t [r] b)"
    using Cons.prems by (simp_all add: Let_def hold_request_def)
  from Cons.IH [OF this] Cons.IH [OF Cons.prems] show ?case
    using Cons.prems by (simp add: Let_def del: recover_rows.simps admissible.simps)
qed simp

lemma cinv_resume: "cinv co \<Longrightarrow> resume_ok now k co \<Longrightarrow> cinv (resume now k co)"
proof (induction now k co rule: resume.induct)
  case (7 now t rs rid job row co)
  have "recover_ok t rs (hard_notice row ''expired'' co) = recover_ok t rs co"
    by (rule recover_ok_cong) (simp_all add: hard_notice_def notify_def split: option.split)
  then show ?case using 7 by (simp add: cinv_recover_rows)
qed (simp_all add: cinv_resolve_local cinv_decide cinv_recover_rows handle_expiry_def Let_def split: option.split)

lemma cinv_request: "cinv co \<Longrightarrow> cinv (on_approval_request rt now p co)"
  by (auto simp: on_approval_request_def Let_def intro!: cinv_hold split: option.split)

lemma cinv_cexec: "cinv co \<Longrightarrow> ce_ok e co \<Longrightarrow> cinv (cexec rt e co)"
proof (cases e)
  case (EQueue c)
  assume i: "cinv co" and ok: "ce_ok e co"
  have "reach (qexec c (co_queue co))" using i ok EQueue by (intro reach.call) (simp_all add: cinv_def)
  then show ?thesis
    using i ok EQueue hold.in_step_cong [OF aw_foreign, of c "co_queue co"] by (simp add: cinv_def keys_def)
next
  case (EStatement i now ok)
  assume "cinv co"
  then show ?thesis using EStatement by (simp add: cinv_def keys_def split: prod.split)
qed (auto simp: cinv_request cinv_decide cinv_resume on_approval_cancel_def fire_expiry_def
    recover_pending_def split: option.split)

lemma creach_cinv: "creach rt co \<Longrightarrow> cinv co"
proof (induction rule: creach.induct)
  case (start q st timeout)
  then show ?case
    by (simp add: cinv_def new_coordinator_def keys_def hold.in_step_def aw_def unsuspended_def dict_get_def)
qed (rule cinv_cexec)

section \<open>Relayed approvals are authorised\<close>

text \<open>Who approved a request, according to the relays made and those about to be made.\<close>

fun won_by :: "string \<Rightarrow> cont \<Rightarrow> string option list" where
  "won_by rid (KResolved (ForDecision decision who memo) rid' job (Some row)) =
     (if rid' = rid \<and> decision = ''approve'' then [who] else [])"
| "won_by rid _ = []"

definition relayed_by :: "string \<Rightarrow> relay list \<Rightarrow> string option list" where
  "relayed_by rid ds = map d_decided_by (filter (\<lambda>d. d_request_id d = rid \<and> d_decision d = ''approve'') ds)"

definition approvals :: "string \<Rightarrow> coordinator \<Rightarrow> string option list" where
  "approvals rid co = relayed_by rid (co_published co) @ concat (map (won_by rid) (co_waiting co))"

fun cont_wf :: "cont \<Rightarrow> bool" where
  "cont_wf (KResolve (ForDecision decision who memo) rid job tenant status who' memo') =
     (status = decision_status decision \<and> who' = who)"
| "cont_wf _ = True"

definition authorised :: "string \<Rightarrow> coordinator \<Rightarrow> bool" where
  "authorised rid co \<longleftrightarrow> approvals rid co = [] \<or>
     (\<exists>who row. approvals rid co = [who] \<and> request_row (co_store co) rid = Some row \<and>
        r_status row = ''approved'' \<and> r_decided_by row = who)"

definition ainv :: "coordinator \<Rightarrow> bool" where
  "ainv co \<longleftrightarrow> requests_wf (co_store co) \<and> list_all cont_wf (co_waiting co) \<and> (\<forall>rid. authorised rid co)"

lemma ainv_cong:
  "co_store b = co_store a \<Longrightarrow> co_published b = co_published a \<Longrightarrow> co_waiting b = co_waiting a \<Longrightarrow> ainv b = ainv a"
  by (simp add: ainv_def authorised_def approvals_def)

lemma ainv_frame [simp]:
  "ainv (resolve_local rid co) = ainv co" "ainv (notify n co) = ainv co" "ainv (hard_notice row s co) = ainv co"
  "ainv (hold_request p co) = ainv co" "ainv (co\<lparr>co_queue := q\<rparr>) = ainv co"
  by (rule ainv_cong; simp add: resolve_local_def notify_def hard_notice_def hold_request_def split: option.split)+

lemma ainv_wait: "ainv co \<Longrightarrow> cont_wf k \<Longrightarrow> (\<And>rid. won_by rid k = []) \<Longrightarrow> ainv (wait_for k co)"
  by (simp add: ainv_def authorised_def approvals_def wait_for_def)

lemma ainv_decide: "ainv co \<Longrightarrow> ainv (snd (decide rid d who memo et ec co))"
  by (auto simp: decide_def intro!: ainv_wait split: option.split)

lemma ainv_recover_rows: "ainv co \<Longrightarrow> ainv (recover_rows now rs co)"
  by (induction rs arbitrary: co) (auto simp: Let_def intro!: ainv_wait)

lemma concat_split:
  "i < length xs \<Longrightarrow>
   concat (map f xs) = concat (map f (take i xs)) @ f (xs ! i) @ concat (map f (drop (Suc i) xs))"
  by (subst (1) id_take_nth_drop [of i xs]) simp_all

lemma concat_update:
  "i < length xs \<Longrightarrow>
   concat (map f (xs[i := y])) = concat (map f (take i xs)) @ f y @ concat (map f (drop (Suc i) xs))"
  by (simp add: upd_conv_take_nth_drop)

lemma concat_drop_nth:
  "i < length xs \<Longrightarrow>
   concat (map f (drop_nth i xs)) = concat (map f (take i xs)) @ concat (map f (drop (Suc i) xs))"
  by (simp add: drop_nth_def)

lemma singleton_middle: "xs @ ys @ a # zs = [b] \<Longrightarrow> xs = [] \<and> ys = [] \<and> zs = [] \<and> a = b"
  by (cases xs; cases ys) auto

lemma list_all_drop_nth: "list_all P xs \<Longrightarrow> list_all P (drop_nth i xs)"
  by (auto simp: drop_nth_def list_all_iff dest: in_set_takeD in_set_dropD)

text \<open>Executing a statement keeps decided rows, and can add one approval only to a pending row.\<close>

lemma create_for_final:
  assumes "create_for now p tenant expires st = Some (r, st')" "requests_wf st"
  shows "requests_wf st'" "request_row st rid = Some row \<Longrightarrow> request_row st' rid = Some row"
  using assms
  by (auto simp: create_for_def create_approval_request_def Let_def requests_wf_def request_row_append
      split: if_splits)

lemma run_statement_store:
  assumes "run_statement now ok k st = (k', st')" "requests_wf st"
  shows "requests_wf st'"
    and "request_row st rid = Some row \<Longrightarrow> r_status row \<noteq> ''pending'' \<Longrightarrow> request_row st' rid = Some row"
proof -
  show "requests_wf st'"
    using assms requests_wf_resolve
    by (cases k) (auto split: if_splits option.splits prod.splits dest: create_for_final(1),
        metis requests_wf_resolve snd_conv)
  show "request_row st' rid = Some row" if "request_row st rid = Some row" "r_status row \<noteq> ''pending''"
    using assms that
    by (cases k) (auto split: if_splits option.splits prod.splits dest: create_for_final(2),
        metis is_pending_def snd_conv tbl.closed_step)
qed

lemma won_by_other [simp]:
  "decision \<noteq> ''approve'' \<Longrightarrow> won_by x (KResolved (ForDecision decision who memo) rid job row) = []"
  by (cases row) auto

lemma won_by_nonempty:
  "won_by rid k \<noteq> [] \<Longrightarrow> \<exists>who memo job row. k = KResolved (ForDecision ''approve'' who memo) rid job (Some row)"
  by (cases "(rid, k)" rule: won_by.cases) (auto split: if_splits)

lemma run_statement_won:
  assumes "run_statement now ok k st = (k', st')" "requests_wf st" "cont_wf k" "is_statement k"
  obtains "\<And>rid. won_by rid k' = []" "cont_wf k'"
  | rid who row r0 where "won_by rid k' = [who]" "\<And>x. x \<noteq> rid \<Longrightarrow> won_by x k' = []" "cont_wf k'"
      "request_row st rid = Some r0" "r_status r0 = ''pending''"
      "request_row st' rid = Some row" "r_status row = ''approved''" "r_decided_by row = who"
proof (cases k)
  case (KResolve u rid job tenant status who memo)
  show ?thesis
  proof (cases "ok \<and> u \<in> range (case_prod (case_prod ForDecision)) \<and>
      fst (resolve_attempt (now, tenant, status, who, memo) rid st) \<noteq> None \<and> status = ''approved''")
    case True
    then obtain row where row: "fst (resolve_attempt (now, tenant, status, who, memo) rid st) = Some row" by auto
    obtain decision w m where u: "u = ForDecision decision w m" using True by (auto split: prod.splits)
    have a: "decision = ''approve''" "w = who"
      using assms(3) True by (auto simp: KResolve u decision_status_def split: if_splits)
    obtain r0 where r0: "request_row st rid = Some r0" "is_pending r0"
      and r: "request_row (snd (resolve_attempt (now, tenant, status, who, memo) rid st)) rid = Some row"
      using tbl.resolve_Some [OF assms(2) row] by blast
    have "row = settle now status who memo r0"
      using row r0(1) resolve_attempt_result [OF assms(2), of now tenant status who memo rid]
      by (simp split: if_splits)
    then have "r_status row = ''approved''" "r_decided_by row = who" using True by simp_all
    moreover have "k' = KResolved u rid job (Some row)"
      "st' = snd (resolve_attempt (now, tenant, status, who, memo) rid st)"
      using assms(1) True row by (auto simp: KResolve split: prod.splits)
    ultimately show ?thesis
      using that(2) [of rid who r0 row] r0 r a by (simp add: u is_pending_def)
  next
    case False
    have "won_by x k' = [] \<and> cont_wf k'" for x
      using assms(1,3) False
      by (cases u) (auto simp: KResolve decision_status_def image_iff split: if_splits prod.splits option.splits)
    then show ?thesis using that(1) by blast
  qed
qed (use assms that in \<open>auto split: if_splits option.splits\<close>)

lemma ainv_statement:
  assumes i: "ainv co" and n: "i < length (co_waiting co)" "is_statement (co_waiting co ! i)"
    and s: "run_statement now ok (co_waiting co ! i) (co_store co) = (k', st')"
  shows "ainv (co\<lparr>co_waiting := (co_waiting co)[i := k'], co_store := st'\<rparr>)"
proof -
  let ?k = "co_waiting co ! i"
  have wf: "requests_wf (co_store co)" and cw: "cont_wf ?k"
    using i n(1) by (auto simp: ainv_def list_all_length)
  have quiet: "won_by rid ?k = []" for rid using n(2) by (cases ?k) simp_all
  have waiting: "concat (map (won_by rid) (co_waiting co)) =
      concat (map (won_by rid) (take i (co_waiting co))) @ concat (map (won_by rid) (drop (Suc i) (co_waiting co)))"
    for rid using concat_split [OF n(1), of "won_by rid"] quiet by simp
  have kept: "authorised rid (co\<lparr>co_waiting := (co_waiting co)[i := k'], co_store := st'\<rparr>)"
    if "won_by rid k' = []" for rid
    using i that run_statement_store(2) [OF s wf]
    by (fastforce simp: ainv_def authorised_def approvals_def waiting concat_update [OF n(1)])
  have rest: "requests_wf st' \<and> list_all cont_wf ((co_waiting co)[i := k'])" if "cont_wf k'"
    using i that run_statement_store(1) [OF s wf]
    by (auto simp: ainv_def list_all_iff dest: set_update_subset_insert [THEN subsetD])
  show ?thesis
  proof (rule run_statement_won [OF s wf cw n(2)])
    assume "\<And>rid. won_by rid k' = []" "cont_wf k'"
    then show ?thesis using kept rest by (simp add: ainv_def)
  next
    fix rid who row r0
    assume k: "won_by rid k' = [who]" "\<And>x. x \<noteq> rid \<Longrightarrow> won_by x k' = []" "cont_wf k'"
      and r: "request_row (co_store co) rid = Some r0" "r_status r0 = ''pending''"
        "request_row st' rid = Some row" "r_status row = ''approved''" "r_decided_by row = who"
    have "approvals rid co = []" using i r(1,2) by (auto simp: ainv_def authorised_def dest: spec [of _ rid])
    then have "approvals rid (co\<lparr>co_waiting := (co_waiting co)[i := k'], co_store := st'\<rparr>) = [who]"
      using k(1) by (simp add: approvals_def waiting concat_update [OF n(1)] del: concat_eq_Nil_conv)
    then have "authorised x (co\<lparr>co_waiting := (co_waiting co)[i := k'], co_store := st'\<rparr>)" for x
      using r kept k(2) by (cases "x = rid") (auto simp: authorised_def)
    then show ?thesis using rest k(3) by (simp add: ainv_def)
  qed
qed

text \<open>Resuming a coroutine: only the relay of a won decision moves an approval, from the coroutine to
  the published relays.\<close>

lemma ainv_resume_quiet:
  assumes "ainv co" "\<And>rid. won_by rid k = []" "\<not> is_statement k"
  shows "ainv (resume now k co)"
  using assms
proof (induction now k co rule: resume.induct)
  case (5 now decision who memo rid job row co)
  have d: "decision \<noteq> ''approve''" using "5.prems"(2) [of rid] by auto
  then have "ainv (safe_publish_decision job rid decision who memo co)"
    using "5.prems"(1) by (simp add: ainv_def authorised_def approvals_def relayed_by_def safe_publish_decision_def)
  then show ?case by (auto intro!: ainv_wait)
next
  case (7 now t rs rid job row co)
  then show ?case by (simp add: ainv_recover_rows)
qed (auto simp: ainv_decide ainv_recover_rows handle_expiry_def Let_def intro!: ainv_wait split: option.split)

lemma ainv_resume:
  assumes i: "ainv co" and n: "i < length (co_waiting co)" "\<not> is_statement (co_waiting co ! i)"
  shows "ainv (resume now (co_waiting co ! i) (co\<lparr>co_waiting := drop_nth i (co_waiting co)\<rparr>))"
proof -
  let ?k = "co_waiting co ! i" and ?co = "co\<lparr>co_waiting := drop_nth i (co_waiting co)\<rparr>"
  have split: "approvals rid co = relayed_by rid (co_published co) @
      concat (map (won_by rid) (take i (co_waiting co))) @ won_by rid ?k @
      concat (map (won_by rid) (drop (Suc i) (co_waiting co)))" for rid
    using concat_split [OF n(1), of "won_by rid"] by (simp add: approvals_def)
  have dropped: "approvals rid ?co = relayed_by rid (co_published co) @
      concat (map (won_by rid) (take i (co_waiting co))) @ concat (map (won_by rid) (drop (Suc i) (co_waiting co)))"
    for rid by (simp add: approvals_def concat_drop_nth [OF n(1)])
  have auth: "authorised rid co" for rid using i by (simp add: ainv_def)
  have base: "requests_wf (co_store co)" "list_all cont_wf (co_waiting ?co)"
    using i by (auto simp: ainv_def list_all_drop_nth)
  show ?thesis
  proof (cases "\<exists>rid. won_by rid ?k \<noteq> []")
    case False
    then have "authorised rid ?co" for rid
      using auth [of rid] by (simp add: authorised_def split dropped)
    then have "ainv ?co" using base by (simp add: ainv_def)
    then show ?thesis using False n(2) by (intro ainv_resume_quiet) auto
  next
    case True
    then obtain rid who memo job row where k: "?k = KResolved (ForDecision ''approve'' who memo) rid job (Some row)"
      using won_by_nonempty by blast
    let ?co' = "safe_publish_decision job rid ''approve'' who memo ?co"
    have "approvals x ?co' = approvals x co" if "x \<noteq> rid" for x
      using that by (simp add: split) (simp add: k approvals_def concat_drop_nth [OF n(1)]
          safe_publish_decision_def relayed_by_def)
    moreover have one: "approvals rid co = [who]"
      using auth [of rid] by (auto simp: authorised_def split k dest: singleton_middle)
    moreover have "relayed_by rid (co_published co) = []"
      "concat (map (won_by rid) (take i (co_waiting co))) = []"
      "concat (map (won_by rid) (drop (Suc i) (co_waiting co))) = []"
      using singleton_middle [OF one [unfolded split k, simplified]] by simp_all
    then have "approvals rid ?co' = [who]"
      by (simp add: approvals_def concat_drop_nth [OF n(1)] safe_publish_decision_def relayed_by_def
          del: concat_eq_Nil_conv)
    ultimately have "authorised x ?co'" for x
      using auth [of x] by (cases "x = rid") (auto simp: authorised_def safe_publish_decision_def)
    then have "ainv ?co'" using base by (simp add: ainv_def safe_publish_decision_def)
    then show ?thesis by (auto simp: k intro!: ainv_wait)
  qed
qed

lemma ainv_request: "ainv co \<Longrightarrow> ainv (on_approval_request rt now p co)"
proof -
  assume i: "ainv co"
  have "ainv (safe_publish_decision job rid ''reject'' None memo co)" for job rid memo
    using i by (simp add: ainv_def authorised_def approvals_def relayed_by_def safe_publish_decision_def)
  then show ?thesis
    using i by (auto simp: on_approval_request_def Let_def intro!: ainv_wait split: option.split)
qed

lemma ainv_cexec: "ainv co \<Longrightarrow> ce_ok e co \<Longrightarrow> ainv (cexec rt e co)"
proof (cases e)
  case (EStatement i now ok)
  assume "ainv co" "ce_ok e co"
  then show ?thesis using EStatement ainv_statement by (auto split: prod.split)
next
  case (EResume i now)
  assume "ainv co" "ce_ok e co"
  moreover have "\<not> is_statement k" if "resume_ok now k co'" for k co'
    using that by (cases k; simp)
  ultimately show ?thesis using EResume by (auto intro!: ainv_resume)
qed (auto simp: ainv_request ainv_decide on_approval_cancel_def fire_expiry_def recover_pending_def
    intro!: ainv_wait split: option.split)

lemma creach_ainv: "creach rt co \<Longrightarrow> ainv co"
proof (induction rule: creach.induct)
  case (start q st timeout)
  then show ?case
    by (simp add: ainv_def new_coordinator_def authorised_def approvals_def relayed_by_def)
qed (rule ainv_cexec)

section \<open>Concrete runs\<close>

fun crun :: "(string \<Rightarrow> string option) \<Rightarrow> cevent list \<Rightarrow> coordinator \<Rightarrow> coordinator" where
  "crun rt [] co = co"
| "crun rt (e # es) co = crun rt es (cexec rt e co)"

fun crun_ok :: "(string \<Rightarrow> string option) \<Rightarrow> cevent list \<Rightarrow> coordinator \<Rightarrow> bool" where
  "crun_ok rt [] co = True"
| "crun_ok rt (e # es) co = (ce_ok e co \<and> crun_ok rt es (cexec rt e co))"

lemma crun_append: "crun rt (xs @ ys) co = crun rt ys (crun rt xs co)"
  by (induction xs arbitrary: co) simp_all

lemma creach_crun: "creach rt co \<Longrightarrow> crun_ok rt es co \<Longrightarrow> creach rt (crun rt es co)"
  by (induction es arbitrary: co) (auto intro: creach.event)

definition demo_tenant_of :: "string \<Rightarrow> string option" where
  "demo_tenant_of c = (if c = ''bot'' then Some ''acme'' else None)"

definition demo_payload :: "string option \<Rightarrow> approval_payload" where
  "demo_payload user = \<lparr>ap_request_id = Some ''r1'', ap_job_id = Some ''job1'', ap_coworker_id = Some ''bot'',
     ap_mcp_server_name = Some ''bank'', ap_tool_name = Some ''pay'', ap_conversation_id = Some ''a'',
     ap_user_id = user, ap_policy_id = None, ap_params = None, ap_action_summary = None, ap_rationale = None,
     ap_triggered_by = None, ap_tenant_id = None, ap_expires_at = Some 500\<rparr>"

definition demo_co :: coordinator where
  "demo_co = new_coordinator demo_queue \<lparr>st_policies = [], st_requests = []\<rparr> 300000"

lemma demo_co_reach: "creach rt demo_co"
proof -
  have "reach demo_queue" unfolding demo_queue_def by (rule reach.init [OF demo_queue_fresh])
  moreover have "unsuspended demo_queue"
    by (simp add: unsuspended_def demo_queue_def new_queue_def grp_def dict_get_def new_group_def)
  moreover have "requests_wf \<lparr>st_policies = [], st_requests = []\<rparr>" by (simp add: requests_wf_def)
  ultimately show ?thesis unfolding demo_co_def by (rule creach.start)
qed

text \<open>A request is raised and persisted; then its approver approves it and the decision is relayed.\<close>

definition demo_held :: coordinator where
  "demo_held = crun demo_tenant_of
     [ERequest 10 (demo_payload (Some ''u1'')), EStatement 0 11 True, EResume 0 12] demo_co"

definition demo_approved :: coordinator where
  "demo_approved = crun demo_tenant_of
     [EDecide ''r1'' ''approve'' (Some ''u1'') None (Some ''acme'') (Some ''a''), EStatement 0 20 True,
      EResume 0 21] demo_held"

lemma demo_held_reach: "creach demo_tenant_of demo_held"
  unfolding demo_held_def by (rule creach_crun [OF demo_co_reach]) code_simp

lemma demo_approved_reach: "creach demo_tenant_of demo_approved"
  unfolding demo_approved_def by (rule creach_crun [OF demo_held_reach]) code_simp

lemma demo_held_cached: "\<exists>p. dict_get (co_pending demo_held) ''r1'' = Some p \<and> pa_key p = ''a''"
proof -
  have "map_option pa_key (dict_get (co_pending demo_held) ''r1'') = Some ''a''" by code_simp
  then show ?thesis by auto
qed

section \<open>Properties\<close>

text \<open>C3. An approval is relayed to a container only when it is authorised: in every reachable state of
  the coordinator, whatever the interleaving of requests, decisions, cancellations, expiries,
  failing statements and restarts, a relayed \<open>approve\<close> belongs to a request whose stored status is
  approved, decided by the user the relay names, and it is the only one relayed for that request.\<close>

theorem approve_relay_authorised:
  assumes "creach rt co" "d \<in> set (co_published co)" "d_decision d = ''approve''"
  shows "\<exists>row. request_row (co_store co) (d_request_id d) = Some row \<and> r_status row = ''approved'' \<and>
       r_decided_by row = d_decided_by d \<and>
       filter (\<lambda>x. d_request_id x = d_request_id d \<and> d_decision x = ''approve'') (co_published co) = [d]"
proof -
  define L where "L = filter (\<lambda>x. d_request_id x = d_request_id d \<and> d_decision x = ''approve'') (co_published co)"
  have auth: "authorised (d_request_id d) co" using creach_ainv [OF assms(1)] by (simp add: ainv_def)
  have mem: "d \<in> set L" using assms(2,3) by (simp add: L_def)
  have app: "approvals (d_request_id d) co =
      map d_decided_by L @ concat (map (won_by (d_request_id d)) (co_waiting co))"
    by (simp add: approvals_def relayed_by_def L_def)
  obtain who row where r: "approvals (d_request_id d) co = [who]"
    "request_row (co_store co) (d_request_id d) = Some row" "r_status row = ''approved''" "r_decided_by row = who"
    using auth mem by (auto simp: authorised_def app)
  have "L = [d] \<and> d_decided_by d = who" using r(1) mem unfolding app by (cases L) auto
  then show ?thesis using r L_def by auto
qed

theorem approve_relay_authorised_witness:
  "\<exists>row. request_row (co_store demo_approved) ''r1'' = Some row \<and> r_status row = ''approved'' \<and>
     r_decided_by row = Some ''u1''"
proof -
  let ?d = "\<lparr>d_job_id = ''job1'', d_request_id = ''r1'', d_decision = ''approve'', d_decided_by = Some ''u1'',
      d_note = None\<rparr>"
  have "co_published demo_approved = [?d]" by code_simp
  then show ?thesis using approve_relay_authorised [OF demo_approved_reach, of ?d] by auto
qed

text \<open>C20. The suspension of a conversation and the cached requests go together: in every reachable state
  a conversation waits for a request exactly when the coordinator has that request cached for it.
  No path leaks a suspension, and none loses one.\<close>

theorem suspension_matches_cache:
  assumes "creach rt co"
  shows "rid \<in> g_awaiting_approval (grp (co_queue co) k) \<longleftrightarrow>
     (\<exists>p. dict_get (co_pending co) rid = Some p \<and> pa_key p = k)"
  using creach_cinv [OF assms] by (auto simp: cinv_def hold.in_step_def aw_def keys_def)

theorem suspension_matches_cache_witness:
  "''r1'' \<in> g_awaiting_approval (grp (co_queue demo_held) ''a'')"
proof -
  show ?thesis using suspension_matches_cache [OF demo_held_reach] demo_held_cached by blast
qed

text \<open>While a request is cached as pending, its conversation is protected from idle reaping: no timer
  is armed for it, firing one does nothing, and the end of a turn leaves every conversation as it
  is.\<close>

theorem pending_request_protects:
  assumes "creach rt co" "dict_get (co_pending co) rid = Some p"
  shows "g_idle_handle (grp (co_queue co) (pa_key p)) = None \<and>
     idle_fires (pa_key p) (co_queue co) = co_queue co \<and>
     grp (notify_idle (pa_key p) now (co_queue co)) = grp (co_queue co)"
proof -
  have q: "reach (co_queue co)" and s: "hold.in_step (co_queue co) (keys co)"
    using creach_cinv [OF assms(1)] by (simp_all add: cinv_def)
  have "aw (co_queue co) (pa_key p) \<noteq> {}"
    using hold.in_step_held [OF s, of rid] assms(2) by (simp add: keys_def)
  then show ?thesis
    using reach_flags [OF q, of "pa_key p"]
    by (auto simp: aw_def flags_ok_def idle_fires_def notify_idle_def Let_def)
qed

theorem pending_request_protects_witness:
  "idle_fires ''a'' (co_queue demo_held) = co_queue demo_held"
proof -
  obtain p where "dict_get (co_pending demo_held) ''r1'' = Some p" "pa_key p = ''a''"
    using demo_held_cached by blast
  then show ?thesis using pending_request_protects [OF demo_held_reach] by metis
qed

fun settles :: "cont \<Rightarrow> string option" where
  "settles (KCreated p None) = ap_request_id p"
| "settles (KResolved ForCancel rid job row) = Some rid"
| "settles (KResolved ForExpiry rid job row) = Some rid"
| "settles (KResolved (ForDecision decision who memo) rid job None) = Some rid"
| "settles (KPublished rid row status) = Some rid"
| "settles _ = None"

lemma keys_notify [simp]: "keys (notify n co) = keys co" "keys (hard_notice row s co) = keys co"
  by (simp_all add: notify_def hard_notice_def split: option.split)

lemma settles_keys: "settles k = Some rid \<Longrightarrow> keys (resume now k co) rid = None"
  by (induction now k co rule: resume.induct) (auto simp: keys_resolve_local Let_def)

text \<open>Every handler that settles a request releases it: when a cancellation, an expiry, a decision
  that lost its race, a relayed decision or a failed insert runs to its end, the request is no
  longer cached and no conversation waits for it.\<close>

theorem settled_request_released:
  assumes "creach rt co" "i < length (co_waiting co)" "settles (co_waiting co ! i) = Some rid"
  shows "dict_get (co_pending (cexec rt (EResume i now) co)) rid = None \<and>
     (\<forall>k. rid \<notin> g_awaiting_approval (grp (co_queue (cexec rt (EResume i now) co)) k))"
proof -
  let ?co = "cexec rt (EResume i now) co"
  have "ce_ok (EResume i now) co"
    using assms(2,3) by (cases "co_waiting co ! i") (auto split: purpose.splits option.splits elim: settles.elims)
  from creach_cinv [OF creach.event [OF assms(1) this]] have "hold.in_step (co_queue ?co) (keys ?co)"
    unfolding cinv_def by blast
  moreover have "keys ?co rid = None" using settles_keys [OF assms(3)] by simp
  ultimately show ?thesis by (simp add: hold.in_step_def aw_def keys_def)
qed

theorem settled_request_released_witness:
  "dict_get (co_pending (cexec demo_tenant_of (EResume 0 30) demo_approved)) ''r1'' = None"
proof -
  have "0 < length (co_waiting demo_approved)" "settles (co_waiting demo_approved ! 0) = Some ''r1''"
    by code_simp+
  from settled_request_released [OF demo_approved_reach this] show ?thesis by blast
qed

text \<open>A request id alone decides nothing: a decision that comes from another tenant than the
  request's, or from another conversation when the channel names one, is refused before any
  statement is issued or any relay is made, and so is a decision on a request that is not pending;
  the state does not change at all.\<close>

theorem forged_decision_refused:
  assumes "dict_get (co_pending co) rid = None \<or>
     (\<exists>p. dict_get (co_pending co) rid = Some p \<and>
        ((\<exists>t. et = Some t \<and> t \<noteq> pa_tenant_id p) \<or> (\<exists>c. ec = Some c \<and> pa_conversation_id p \<noteq> Some c)))"
  shows "decide rid decision who memo et ec co = (False, co)"
  using assms by (auto simp: decide_def)

theorem forged_decision_refused_witness:
  "decide ''r1'' ''approve'' (Some ''mallory'') None (Some ''evil'') None demo_held = (False, demo_held)"
proof -
  have "map_option pa_tenant_id (dict_get (co_pending demo_held) ''r1'') = Some ''acme''" by code_simp
  then obtain p where "dict_get (co_pending demo_held) ''r1'' = Some p" "pa_tenant_id p = ''acme''" by auto
  then show ?thesis by (intro forged_decision_refused) auto
qed

definition reject_run :: "(string \<Rightarrow> string option) \<Rightarrow> int \<Rightarrow> approval_payload \<Rightarrow> coordinator \<Rightarrow> coordinator" where
  "reject_run rt now p co =
     crun rt [ERequest now p, EStatement 0 now True, EResume 0 now, EStatement 0 now True, EResume 0 now,
              EResume 0 now] co"

text \<open>A request without an approver fails closed: left to run, the handler persists the request,
  resolves it as rejected, relays a \<open>reject\<close> to the job and releases the conversation.\<close>

theorem no_approver_rejected:
  assumes "creach rt co" "co_waiting co = []" "dict_get (co_pending co) rid = None"
    and "rid \<notin> r_id ` set (st_requests (co_store co))"
    and "ap_request_id p = Some rid" "ap_job_id p = Some job" "ap_coworker_id p = Some cw"
    and "ap_mcp_server_name p = Some server" "ap_tool_name p = Some tool"
    and "payload_tenant rt cw p = Some tenant" "or_none (ap_user_id p) = None"
  shows "map_option r_status (request_row (co_store (reject_run rt now p co)) rid) = Some ''rejected'' \<and>
     co_published (reject_run rt now p co) = co_published co @
       [\<lparr>d_job_id = job, d_request_id = rid, d_decision = ''reject'', d_decided_by = None,
         d_note = Some ''No approver (fail-closed)''\<rparr>] \<and>
     dict_get (co_pending (reject_run rt now p co)) rid = None \<and> co_waiting (reject_run rt now p co) = []"
proof -
  have wf: "requests_wf (co_store co)" using creach_ainv [OF assms(1)] by (simp add: ainv_def)
  define pa where "pa = \<lparr>pa_request_id = rid, pa_job_id = job,
     pa_key = approval_queue_key (or_none (ap_conversation_id p)) cw, pa_tenant_id = tenant, pa_coworker_id = cw,
     pa_conversation_id = or_none (ap_conversation_id p),
     pa_expires_at = (case ap_expires_at p of Some t \<Rightarrow> t | None \<Rightarrow> now + co_timeout co), pa_adopted = False,
     pa_expiry_armed = False\<rparr>"
  define co1 where "co1 = hold_request pa co"
  define ex where "ex = pa_expires_at pa"
  have c1: "cexec rt (ERequest now p) co = wait_for (KCreate p tenant ex) co1"
    using assms(3,5-10) by (simp add: on_approval_request_def Let_def co1_def pa_def ex_def)
  obtain row st where st: "create_for now p tenant ex (co_store co) = Some (row, st)"
    and row: "r_id row = rid" "r_status row = ''pending''" "r_tenant_id row = tenant"
    and st': "st = (co_store co)\<lparr>st_requests := st_requests (co_store co) @ [row]\<rparr>"
    using assms(4,5) by (auto simp: create_for_def create_approval_request_def Let_def)
  have wf': "requests_wf st" using create_for_final(1) [OF st wf] .
  have rr: "request_row st rid = Some row"
    using assms(4) row(1) by (simp add: st' request_row_append request_row_mem [THEN iffD2])
  obtain row2 st2 where r2: "resolve_attempt (now, tenant, ''rejected'', None, Some ''No approver (fail-closed)'')
      rid st = (Some row2, st2)" and st2: "request_row st2 rid = Some row2" "r_status row2 = ''rejected''"
    using resolve_attempt_result [OF wf', of now tenant "''rejected''" None "Some ''No approver (fail-closed)''" rid]
      request_row_resolve [of now tenant "''rejected''" None "Some ''No approver (fail-closed)''" rid st rid] rr row
    by (cases "resolve_attempt (now, tenant, ''rejected'', None, Some ''No approver (fail-closed)'') rid st")
      (auto simp: resolvable_def resolved_statuses_def)
  have pend: "dict_get (co_pending co1) rid = Some (arm_expiry pa)"
    by (simp add: co1_def hold_request_def pa_def)
  have w1: "co_waiting co1 = []" "co_store co1 = co_store co" "co_published co1 = co_published co"
    using assms(2) by (simp_all add: co1_def hold_request_def)
  have "reject_run rt now p co = resolve_local rid
      (safe_publish_decision job rid ''reject'' None (Some ''No approver (fail-closed)'')
        (co1\<lparr>co_store := st2\<rparr>)) \<lparr>co_notices := co_notices co1 @ [HardNotice row2 ''rejected'']\<rparr>"
    using w1 st r2 pend assms(2,5,11)
    by (simp add: reject_run_def c1 wait_for_def drop_nth_def decide_def decision_status_def arm_expiry_def
        safe_publish_decision_def resolve_local_def notify_def pa_def del: cexec.simps(1))
  then show ?thesis
    using w1 st2 pend
    by (simp add: resolve_local_def safe_publish_decision_def)
qed

theorem no_approver_rejected_witness:
  "map_option r_status (request_row (co_store (reject_run demo_tenant_of 10 (demo_payload None) demo_co)) ''r1'') =
     Some ''rejected''"
proof -
  have "co_waiting demo_co = []" "dict_get (co_pending demo_co) ''r1'' = None"
    "''r1'' \<notin> r_id ` set (st_requests (co_store demo_co))"
    "payload_tenant demo_tenant_of ''bot'' (demo_payload None) = Some ''acme''"
    "or_none (ap_user_id (demo_payload None)) = None"
    by code_simp+
  then show ?thesis
    using no_approver_rejected [OF demo_co_reach, of "''r1''" "demo_payload None" "''job1''" "''bot''" "''bank''"
        "''pay''" demo_tenant_of "''acme''" 10]
    by (simp add: demo_payload_def)
qed

lemma resolve_absent:
  "rid \<notin> r_id ` set (st_requests st) \<Longrightarrow> resolve_attempt a rid st = (None, st)"
proof -
  assume absent: "rid \<notin> r_id ` set (st_requests st)"
  have none: "\<not> resolvable rid tn r" if "r \<in> set (st_requests st)" for tn r
    using that absent by (auto simp: resolvable_def)
  then have "List.find (resolvable rid tn) (st_requests st) = None" for tn by (simp add: find_None_iff)
  moreover have "map (\<lambda>r. if resolvable rid tn r then f r else r) (st_requests st) = st_requests st" for tn f
    using none by (intro map_idI) simp
  ultimately show ?thesis
    by (simp add: resolve_attempt_def resolve_approval_request_def split: prod.split)
qed

lemma run_cancel_absent:
  "rid \<notin> r_id ` set (st_requests st) \<Longrightarrow>
   run_statement now ok (KResolve ForCancel rid job tn status who memo) st = (KResolved ForCancel rid job None, st)"
  by (simp add: resolve_absent)

text \<open>C31. A cancellation can overtake the insert of its own request. In any state in which the insert of a request
  is outstanding and the request cached, let the container cancel, and let the statement of the
  cancellation be answered, whether executed or refused, before the one of the insert. Then the
  cancellation finds no row and drops the cached request, and the insert stores a row that is
  pending: in the state reached, every decision on it is refused, and a further cancellation and the
  expiry do nothing. With an approver, the user has been shown the card of the row. The statement is
  about these events only: a recovery, which scans the table, can still find the row.\<close>

theorem cancel_overtakes_insert:
  assumes "i < length (co_waiting co)" "co_waiting co ! i = KCreate p tenant expires" "ap_request_id p = Some rid"
    and "dict_get (co_pending co) rid = Some pa" "rid \<notin> r_id ` set (st_requests (co_store co))"
    and "n = length (co_waiting co)"
    and "co' = crun rt [ECancel (Some rid), EStatement n t1 ok, EResume n t2, EStatement i t3 True, EResume i t4] co"
  shows "\<exists>row. request_row (co_store co') rid = Some row \<and> r_status row = ''pending'' \<and>
    dict_get (co_pending co') rid = None \<and>
    (\<forall>decision who memo et ec. decide rid decision who memo et ec co' = (False, co')) \<and>
    on_approval_cancel (Some rid) co' = co' \<and> handle_expiry rid co' = co' \<and>
    (or_none (ap_user_id p) \<noteq> None \<longrightarrow> StatusWaiting row \<in> set (co_notices co'))"
proof -
  let ?k = "KResolved ForCancel rid (pa_job_id pa) None"
  let ?co2 = "resolve_local rid co"
  have gone: "dict_get (co_pending ?co2) rid = None" using assms(4) by (simp add: resolve_local_def)
  have same: "co_waiting ?co2 = co_waiting co" "co_store ?co2 = co_store co" "co_notices ?co2 = co_notices co"
    using assms(4) by (simp_all add: resolve_local_def)
  have drop: "drop_nth (length (co_waiting co)) (co_waiting co @ [k]) = co_waiting co" for k by (simp add: drop_nth_def)
  have cancelled: "crun rt [ECancel (Some rid), EStatement n t1 ok, EResume n t2] co = ?co2"
  proof -
    have "on_approval_cancel (Some rid) co =
        co\<lparr>co_waiting := co_waiting co @ [KResolve ForCancel rid (pa_job_id pa) (pa_tenant_id pa) ''cancelled'' None None]\<rparr>"
      using assms(4) by (simp add: on_approval_cancel_def wait_for_def)
    then show ?thesis
      using assms(4-6) run_cancel_absent [OF assms(5)]
      by (simp add: drop hard_notice_def resolve_local_def nth_append list_update_append)
  qed
  obtain row st where row: "create_for t3 p tenant expires (co_store co) = Some (row, st)"
    "st_requests st = st_requests (co_store co) @ [row]" "r_id row = rid" "r_status row = ''pending''"
    using assms(3,5) by (auto simp: create_for_def create_approval_request_def Let_def)
  let ?co3 = "?co2\<lparr>co_store := st, co_waiting := drop_nth i ((co_waiting co)[i := KCreated p (Some row)])\<rparr>"
  have co': "co' = resume t4 (KCreated p (Some row)) ?co3"
    using assms(1-3) row(1) crun_append [of rt "[ECancel (Some rid), EStatement n t1 ok, EResume n t2]" _ co]
    unfolding assms(7) by (simp add: cancelled [simplified] same)
  have pending: "dict_get (co_pending ?co3) rid = None" using gone by simp
  then have fields: "dict_get (co_pending co') rid = None" "co_store co' = st"
    "or_none (ap_user_id p) \<noteq> None \<Longrightarrow> StatusWaiting row \<in> set (co_notices co')"
    unfolding co' using assms(3) by (auto simp: decide_def notify_def)
  have "List.find (\<lambda>r. r_id r = rid) (rs @ [row]) = Some row" if "rid \<notin> r_id ` set rs" for rs
    using that row(3) by (induction rs) auto
  then have "request_row st rid = Some row" using row(2) assms(5) by (simp add: request_row_def)
  then show ?thesis
    using fields row(4) by (auto simp: decide_def on_approval_cancel_def handle_expiry_def)
qed

definition overtaken_at :: coordinator where
  "overtaken_at = crun demo_tenant_of [ERequest 10 (demo_payload (Some ''u1''))] demo_co"

theorem cancel_overtakes_insert_witness:
  "creach demo_tenant_of overtaken_at \<and>
   (\<exists>row. let co' = crun demo_tenant_of
        [ECancel (Some ''r1''), EStatement 1 11 True, EResume 1 12, EStatement 0 13 True, EResume 0 14] overtaken_at in
      request_row (co_store co') ''r1'' = Some row \<and> r_status row = ''pending'' \<and>
      decide ''r1'' ''approve'' (Some ''u1'') None (Some ''acme'') (Some ''a'') co' = (False, co') \<and>
      StatusWaiting row \<in> set (co_notices co'))"
proof
  show "creach demo_tenant_of overtaken_at"
    unfolding overtaken_at_def by (rule creach_crun [OF demo_co_reach]) code_simp
  obtain p tenant expires where k: "co_waiting overtaken_at ! 0 = KCreate p tenant expires" "ap_request_id p = Some ''r1''"
    "or_none (ap_user_id p) \<noteq> None"
  proof -
    have "case co_waiting overtaken_at ! 0 of KCreate p tenant expires \<Rightarrow> ap_request_id p = Some ''r1'' \<and> or_none (ap_user_id p) \<noteq> None
        | _ \<Rightarrow> False" by code_simp
    then show thesis using that by (auto split: cont.splits)
  qed
  have l: "length (co_waiting overtaken_at) = 1" "''r1'' \<notin> r_id ` set (st_requests (co_store overtaken_at))" by code_simp+
  then have 0: "0 < length (co_waiting overtaken_at)" "1 = length (co_waiting overtaken_at)" by simp_all
  have "dict_get (co_pending overtaken_at) ''r1'' \<noteq> None" by code_simp
  then obtain pa where pa: "dict_get (co_pending overtaken_at) ''r1'' = Some pa" by blast
  from cancel_overtakes_insert [OF 0(1) k(1,2) pa l(2) 0(2) refl, of demo_tenant_of 11 True 12 13 14] k(3)
  show "\<exists>row. let co' = crun demo_tenant_of
        [ECancel (Some ''r1''), EStatement 1 11 True, EResume 1 12, EStatement 0 13 True, EResume 0 14] overtaken_at in
      request_row (co_store co') ''r1'' = Some row \<and> r_status row = ''pending'' \<and>
      decide ''r1'' ''approve'' (Some ''u1'') None (Some ''acme'') (Some ''a'') co' = (False, co') \<and>
      StatusWaiting row \<in> set (co_notices co')"
    unfolding Let_def by blast
qed

end
