(* ===== verification/Approval_Awaiter.thy ===== *)
theory Approval_Awaiter
  imports Approval_Store
begin

text \<open>
  The block-and-await primitive of \<^verbatim>\<open>src/src/agent_runner/approval/awaiter.py\<close>.

  A call of \<open>await_decision\<close> is a task with a future: it publishes the request, waits, and leaves by
  way of its \<open>finally\<close> block. What happens between its suspensions is a list of events: the publish
  returns or fails, a decision is routed to the future, the timer of \<open>wait_for\<close> fires, the user stops
  the turn, the event loop resumes the task, another call begins. The request ids (UUIDs) and the
  ISO form of a date are arguments. A publish that the code attempts is recorded whether or not the
  broker takes it.
\<close>

section \<open>State\<close>

record approval_decision =
  ad_approved :: bool
  ad_timed_out :: bool
  ad_note :: "string option"

datatype future = Waiting | Resolved params | FutCancelled

datatype phase = Publishing | Awaiting

datatype interrupt = PublishError string | TimedOut | Stopped

record await_task =
  at_future :: future
  at_phase :: phase
  at_interrupt :: "interrupt option"

record awaiter =
  aw_job_id :: string
  aw_timeout_ms :: int
  aw_pending :: "(string, await_task) dict"
  aw_sent :: "(string \<times> params) list"

text \<open>How a coroutine can end other than by returning: an \<open>Exception\<close>, the \<open>CancelledError\<close> of a stopped
  turn, or not at all, still suspended when the events end.\<close>

datatype raised = Exn string | CancelledExn | Suspended

section \<open>Operations\<close>

definition aw_subject :: "awaiter \<Rightarrow> string \<Rightarrow> string" where
  "aw_subject aw leaf = ''agent.'' @ aw_job_id aw @ ''.'' @ leaf"

text \<open>\<open>{**a, **b}\<close>\<close>

definition dict_merge :: "params \<Rightarrow> params \<Rightarrow> params" where
  "dict_merge a b = fold (\<lambda>(k, v) d. dict_set d k v) b a"

definition request_message :: "(int \<Rightarrow> string) \<Rightarrow> int \<Rightarrow> string \<Rightarrow> params \<Rightarrow> awaiter \<Rightarrow> params" where
  "request_message isofmt now rid body aw =
     dict_merge
       (dict_merge [(''request_id'', JStr rid), (''job_id'', JStr (aw_job_id aw))] body)
       [(''requested_at'', JStr (isofmt now)), (''expires_at'', JStr (isofmt (now + aw_timeout_ms aw)))]"

text \<open>The call up to the \<open>await\<close> of its publish.\<close>

definition await_begin :: "(int \<Rightarrow> string) \<Rightarrow> int \<Rightarrow> string \<Rightarrow> params \<Rightarrow> awaiter \<Rightarrow> awaiter" where
  "await_begin isofmt now rid body aw =
     aw\<lparr>aw_pending := dict_set (aw_pending aw) rid
          \<lparr>at_future = Waiting, at_phase = Publishing, at_interrupt = None\<rparr>,
        aw_sent := aw_sent aw @ [(aw_subject aw ''approval_request'', request_message isofmt now rid body aw)]\<rparr>"

definition with_task :: "string \<Rightarrow> (await_task \<Rightarrow> await_task) \<Rightarrow> awaiter \<Rightarrow> awaiter" where
  "with_task rid f aw =
     (case dict_get (aw_pending aw) rid of
        None \<Rightarrow> aw
      | Some t \<Rightarrow> aw\<lparr>aw_pending := dict_set (aw_pending aw) rid (f t)\<rparr>)"

text \<open>\<open>resolve_decision\<close>: whether the payload was routed, and the new state.\<close>

definition resolve_decision :: "params \<Rightarrow> awaiter \<Rightarrow> bool \<times> awaiter" where
  "resolve_decision payload aw =
     (case obj_get payload ''request_id'' of
        Some (JStr rid) \<Rightarrow>
          (case dict_get (aw_pending aw) rid of
             None \<Rightarrow> (False, aw)
           | Some t \<Rightarrow>
               if at_future t \<noteq> Waiting then (False, aw)
               else (True, aw\<lparr>aw_pending := dict_set (aw_pending aw) rid (t\<lparr>at_future := Resolved payload\<rparr>)\<rparr>))
      | _ \<Rightarrow> (False, aw))"

text \<open>A pending future is cancelled together with the task that waits for it.\<close>

definition cancel_future :: "await_task \<Rightarrow> await_task" where
  "cancel_future t =
     (if at_phase t = Awaiting \<and> at_future t = Waiting then t\<lparr>at_future := FutCancelled\<rparr> else t)"

definition timer_fires :: "await_task \<Rightarrow> await_task" where
  "timer_fires t =
     (if at_phase t = Awaiting \<and> at_interrupt t = None
      then (cancel_future t)\<lparr>at_interrupt := Some TimedOut\<rparr> else t)"

definition stop_task :: "await_task \<Rightarrow> await_task" where
  "stop_task t = (cancel_future t)\<lparr>at_interrupt := Some Stopped\<rparr>"

definition publish_done :: "await_task \<Rightarrow> await_task" where
  "publish_done t = (if at_interrupt t = None then t\<lparr>at_phase := Awaiting\<rparr> else t)"

definition publish_failed :: "string \<Rightarrow> await_task \<Rightarrow> await_task" where
  "publish_failed err t =
     (if at_phase t = Publishing \<and> at_interrupt t = None then t\<lparr>at_interrupt := Some (PublishError err)\<rparr> else t)"

text \<open>Only the string \<open>approve\<close> reads as an approval: no other JSON value prints as it.\<close>

definition is_approve :: "params \<Rightarrow> bool" where
  "is_approve payload = (obj_get payload ''decision'' = Some (JStr ''approve''))"

definition read_decision :: "params \<Rightarrow> approval_decision" where
  "read_decision payload =
     (if is_approve payload then \<lparr>ad_approved = True, ad_timed_out = False, ad_note = None\<rparr>
      else \<lparr>ad_approved = False, ad_timed_out = False,
            ad_note = (case obj_get payload ''note'' of
                         Some (JStr n) \<Rightarrow> if n = [] then None else Some n
                       | _ \<Rightarrow> None)\<rparr>)"

text \<open>What the task does when it is resumed, \<open>None\<close> while it has nothing to go on with.\<close>

definition task_result :: "await_task \<Rightarrow> (raised + approval_decision) option" where
  "task_result t =
     (case at_interrupt t of
        Some (PublishError err) \<Rightarrow> Some (Inl (Exn err))
      | Some Stopped \<Rightarrow> Some (Inl CancelledExn)
      | Some TimedOut \<Rightarrow> Some (Inr \<lparr>ad_approved = False, ad_timed_out = True, ad_note = None\<rparr>)
      | None \<Rightarrow>
          (case (at_phase t, at_future t) of
             (Awaiting, Resolved p) \<Rightarrow> Some (Inr (read_decision p))
           | _ \<Rightarrow> None))"

definition clean_approve :: "raised + approval_decision \<Rightarrow> bool" where
  "clean_approve r = (case r of Inl _ \<Rightarrow> False | Inr d \<Rightarrow> ad_approved d)"

text \<open>The \<open>finally\<close> block, with \<open>_safe_publish_cancel\<close>.\<close>

definition await_end :: "string \<Rightarrow> raised + approval_decision \<Rightarrow> awaiter \<Rightarrow> awaiter" where
  "await_end rid r aw =
     aw\<lparr>aw_pending := dict_pop (aw_pending aw) rid,
        aw_sent := aw_sent aw @
          (if clean_approve r then []
           else [(aw_subject aw ''approval_cancel'', [(''request_id'', JStr rid)])])\<rparr>"

section \<open>Events\<close>

datatype aw_event =
    AwBegin int string params
  | AwPublished string
  | AwPublishFailed string string
  | AwDecision params
  | AwTimer string
  | AwStop string
  | AwResume string

definition aw_resume :: "string \<Rightarrow> awaiter \<Rightarrow> awaiter \<times> (string \<times> (raised + approval_decision)) option" where
  "aw_resume rid aw =
     (case dict_get (aw_pending aw) rid of
        None \<Rightarrow> (aw, None)
      | Some t \<Rightarrow>
          (case task_result t of
             None \<Rightarrow> (aw, None)
           | Some r \<Rightarrow> (await_end rid r aw, Some (rid, r))))"

fun aw_exec ::
  "(int \<Rightarrow> string) \<Rightarrow> aw_event \<Rightarrow> awaiter \<Rightarrow> awaiter \<times> (string \<times> (raised + approval_decision)) option" where
  "aw_exec isofmt (AwBegin now rid body) aw = (await_begin isofmt now rid body aw, None)"
| "aw_exec isofmt (AwPublished rid) aw = (with_task rid publish_done aw, None)"
| "aw_exec isofmt (AwPublishFailed rid err) aw = (with_task rid (publish_failed err) aw, None)"
| "aw_exec isofmt (AwDecision payload) aw = (snd (resolve_decision payload aw), None)"
| "aw_exec isofmt (AwTimer rid) aw = (with_task rid timer_fires aw, None)"
| "aw_exec isofmt (AwStop rid) aw = (with_task rid stop_task aw, None)"
| "aw_exec isofmt (AwResume rid) aw = aw_resume rid aw"

text \<open>The caller's view: the call, the events until it ends, the events left over.\<close>

fun await_loop ::
  "(int \<Rightarrow> string) \<Rightarrow> string \<Rightarrow> aw_event list \<Rightarrow> awaiter \<Rightarrow>
    (raised + approval_decision) \<times> aw_event list \<times> awaiter" where
  "await_loop isofmt rid [] aw = (Inl Suspended, [], aw)"
| "await_loop isofmt rid (e # es) aw =
     (case aw_exec isofmt e aw of
        (aw', Some (rid', r)) \<Rightarrow> if rid' = rid then (r, es, aw') else await_loop isofmt rid es aw'
      | (aw', None) \<Rightarrow> await_loop isofmt rid es aw')"

definition await_decision ::
  "(int \<Rightarrow> string) \<Rightarrow> int \<Rightarrow> string \<Rightarrow> params \<Rightarrow> aw_event list \<Rightarrow> awaiter \<Rightarrow>
    (raised + approval_decision) \<times> aw_event list \<times> awaiter" where
  "await_decision isofmt now rid body evs aw = await_loop isofmt rid evs (await_begin isofmt now rid body aw)"

section \<open>First decision wins\<close>

definition future_of :: "awaiter \<Rightarrow> string \<Rightarrow> future option" where
  "future_of aw rid = map_option at_future (dict_get (aw_pending aw) rid)"

text \<open>A decision for a given request, with the future it leaves.\<close>

definition route_decision :: "params \<Rightarrow> string \<Rightarrow> awaiter \<Rightarrow> future option \<times> awaiter" where
  "route_decision body rid aw =
     (let payload = (''request_id'', JStr rid) # body; (ok, aw') = resolve_decision payload aw
      in (if ok then Some (Resolved payload) else None, aw'))"

lemma resolve_decision_id:
  "obj_get payload ''request_id'' = Some (JStr rid) \<Longrightarrow>
   resolve_decision payload aw =
     (if future_of aw rid = Some Waiting
      then (True, with_task rid (\<lambda>t. t\<lparr>at_future := Resolved payload\<rparr>) aw) else (False, aw))"
  by (auto simp: resolve_decision_def future_of_def with_task_def split: option.split)

lemma future_of_with_task:
  "future_of (with_task rid f aw) rid' =
     (if rid' = rid then map_option (\<lambda>t. at_future (f t)) (dict_get (aw_pending aw) rid) else future_of aw rid')"
  by (auto simp: future_of_def with_task_def split: option.split)

lemma route_decision_eq:
  "route_decision body rid aw =
     (if future_of aw rid = Some Waiting
      then (Some (Resolved ((''request_id'', JStr rid) # body)),
            with_task rid (\<lambda>t. t\<lparr>at_future := Resolved ((''request_id'', JStr rid) # body)\<rparr>) aw)
      else (None, aw))"
  using resolve_decision_id [of "(''request_id'', JStr rid) # body" rid aw]
  by (simp add: route_decision_def obj_get_def Let_def)

interpretation aw: first_wins "\<lambda>_. True" future_of "\<lambda>f. f = Waiting" route_decision
proof
  fix aw a k r
  assume "fst (route_decision a k aw) = Some r"
  then show "(\<exists>r0. future_of aw k = Some r0 \<and> r0 = Waiting) \<and>
      future_of (snd (route_decision a k aw)) k = Some r \<and> r \<noteq> Waiting"
    by (cases "dict_get (aw_pending aw) k")
      (auto simp: route_decision_eq future_of_with_task future_of_def with_task_def split: if_splits)
qed (auto simp: route_decision_eq future_of_with_task)

text \<open>Of all decisions that arrive for a request at most one is taken, and it stays: replayed, contradicting or
  late decisions change nothing, and neither do decisions for other requests of the same run.\<close>

lemma first_decision_wins:
  "length (aw.wins rid ds aw) \<le> 1 \<and>
   (aw.wins rid ds aw = [f] \<longrightarrow> future_of (aw.attempts ds aw) rid = Some f)"
  using aw.at_most_one_win aw.win_is_final by simp

section \<open>Outcomes\<close>

lemma cancel_future_resolved [simp]:
  "at_future (cancel_future t) = Resolved p \<longleftrightarrow> at_future t = Resolved p"
  by (simp add: cancel_future_def)

lemma task_ops_resolved [simp]:
  "at_future (timer_fires t) = Resolved p \<longleftrightarrow> at_future t = Resolved p"
  "at_future (stop_task t) = Resolved p \<longleftrightarrow> at_future t = Resolved p"
  "at_future (publish_done t) = Resolved p \<longleftrightarrow> at_future t = Resolved p"
  "at_future (publish_failed err t) = Resolved p \<longleftrightarrow> at_future t = Resolved p"
  by (simp_all add: timer_fires_def stop_task_def publish_done_def publish_failed_def)

text \<open>A future is resolved by a decision for its request and by nothing else.\<close>

lemma resolved_step:
  assumes "future_of (fst (aw_exec isofmt e aw)) rid = Some (Resolved p)"
  shows "future_of aw rid = Some (Resolved p) \<or>
    (e = AwDecision p \<and> obj_get p ''request_id'' = Some (JStr rid))"
proof (cases e)
  case (AwDecision payload)
  show ?thesis
  proof (cases "\<exists>r. obj_get payload ''request_id'' = Some (JStr r)")
    case True
    then show ?thesis
      using assms AwDecision
      by (auto simp: resolve_decision_id future_of_with_task split: if_splits)
  next
    case False
    then have "resolve_decision payload aw = (False, aw)"
      by (auto simp: resolve_decision_def split: option.split json.split)
    then show ?thesis using assms AwDecision by simp
  qed
next
  case (AwResume r)
  then show ?thesis
    using assms
    by (auto simp: aw_resume_def await_end_def future_of_def split: option.splits if_splits)
qed (use assms in \<open>auto simp: future_of_with_task await_begin_def split: if_splits\<close>,
     auto simp: future_of_def split: if_splits)

lemma exec_result:
  assumes "aw_exec isofmt e aw = (aw', Some (rid, r))"
  shows "\<exists>t. dict_get (aw_pending aw) rid = Some t \<and> task_result t = Some r \<and> aw' = await_end rid r aw"
  using assms by (cases e) (auto simp: aw_resume_def split: option.splits)

lemma approved_result:
  assumes "task_result t = Some r" "clean_approve r"
  shows "\<exists>p. at_future t = Resolved p \<and> is_approve p"
  using assms
  by (auto simp: task_result_def clean_approve_def read_decision_def
      split: option.splits interrupt.splits phase.splits future.splits if_splits)

lemma await_loop_approved:
  assumes "await_loop isofmt rid evs aw = (r, rest, aw')" "clean_approve r"
  shows "\<exists>p. is_approve p \<and> obj_get p ''request_id'' = Some (JStr rid) \<and> AwDecision p \<in> set evs \<or>
    is_approve p \<and> future_of aw rid = Some (Resolved p)"
  using assms(1)
proof (induction evs arbitrary: aw)
  case Nil
  then show ?case using assms(2) by (auto simp: clean_approve_def)
next
  case (Cons e es)
  obtain a res where x: "aw_exec isofmt e aw = (a, res)" by (cases "aw_exec isofmt e aw")
  show ?case
  proof (cases "\<exists>q. res = Some (rid, q)")
    case True
    then obtain q where q: "aw_exec isofmt e aw = (a, Some (rid, q))" using x by blast
    then have "q = r" using Cons.prems by simp
    then show ?thesis using exec_result [OF q] approved_result assms(2) by (fastforce simp: future_of_def)
  next
    case False
    then have "await_loop isofmt rid es a = (r, rest, aw')"
      using Cons.prems x by (auto split: option.splits)
    from Cons.IH [OF this] show ?thesis
      using resolved_step [of isofmt e aw rid] x by (metis fst_conv list.set_intros)
  qed
qed

lemma await_loop_ended:
  assumes "await_loop isofmt rid evs aw = (r, rest, aw')" "r \<noteq> Inl Suspended"
  shows "dict_get (aw_pending aw') rid = None \<and>
    (\<not> clean_approve r \<longrightarrow> (aw_subject aw' ''approval_cancel'', [(''request_id'', JStr rid)]) \<in> set (aw_sent aw'))"
  using assms(1)
proof (induction evs arbitrary: aw)
  case Nil
  then show ?case using assms(2) by simp
next
  case (Cons e es)
  obtain a res where x: "aw_exec isofmt e aw = (a, res)" by (cases "aw_exec isofmt e aw")
  show ?case
  proof (cases "\<exists>q. res = Some (rid, q)")
    case True
    then obtain q where q: "aw_exec isofmt e aw = (a, Some (rid, q))" using x by blast
    then have "q = r" "a = aw'" using Cons.prems by simp_all
    then show ?thesis using exec_result [OF q] by (auto simp: await_end_def aw_subject_def)
  next
    case False
    then show ?thesis using Cons.IH [of a] Cons.prems x by (auto split: option.splits)
  qed
qed

text \<open>A call of \<open>await_decision\<close> reports an approval only if a decision with the word approve and its own
  request id arrived while it was waiting. However it ends, its request is no longer pending, and
  unless it was approved a cancellation is sent: on rejection, timeout, stop and on a failed publish.\<close>

theorem await_decision_sound:
  assumes "await_decision isofmt now rid body evs aw = (r, rest, aw')"
  shows "(clean_approve r \<longrightarrow>
       (\<exists>p. AwDecision p \<in> set evs \<and> obj_get p ''request_id'' = Some (JStr rid) \<and>
            obj_get p ''decision'' = Some (JStr ''approve''))) \<and>
    (r \<noteq> Inl Suspended \<longrightarrow>
       dict_get (aw_pending aw') rid = None \<and>
       (clean_approve r \<or> (aw_subject aw' ''approval_cancel'', [(''request_id'', JStr rid)]) \<in> set (aw_sent aw')))"
proof -
  have "future_of (await_begin isofmt now rid body aw) rid = Some Waiting"
    by (simp add: await_begin_def future_of_def)
  then show ?thesis
    using await_loop_approved [of isofmt rid evs "await_begin isofmt now rid body aw" r rest aw']
      await_loop_ended [of isofmt rid evs "await_begin isofmt now rid body aw" r rest aw'] assms
    by (auto simp: await_decision_def is_approve_def)
qed

definition demo_awaiter :: awaiter where
  "demo_awaiter = \<lparr>aw_job_id = ''job1'', aw_timeout_ms = 300000, aw_pending = [], aw_sent = []\<rparr>"

definition demo_decision :: "string \<Rightarrow> params" where
  "demo_decision w = [(''request_id'', JStr ''r1''), (''decision'', JStr w)]"

theorem await_decision_sound_witness:
  "\<exists>p. AwDecision p \<in> set [AwPublished ''r1'', AwDecision (demo_decision ''approve''), AwResume ''r1''] \<and>
       obj_get p ''request_id'' = Some (JStr ''r1'') \<and> obj_get p ''decision'' = Some (JStr ''approve'')"
proof -
  have "await_decision (\<lambda>_. ''t'') 0 ''r1'' []
      [AwPublished ''r1'', AwDecision (demo_decision ''approve''), AwResume ''r1''] demo_awaiter =
    (Inr \<lparr>ad_approved = True, ad_timed_out = False, ad_note = None\<rparr>, [],
     demo_awaiter\<lparr>aw_sent := [(''agent.job1.approval_request'',
       [(''request_id'', JStr ''r1''), (''job_id'', JStr ''job1''), (''requested_at'', JStr ''t''),
        (''expires_at'', JStr ''t'')])]\<rparr>)" by code_simp
  from await_decision_sound [OF this] show ?thesis by (simp add: clean_approve_def)
qed

end
