(* ===== verification/Safety_Pipeline.thy ===== *)
theory Safety_Pipeline
  imports Py_Json "HOL-Library.Sublist"
begin

text \<open>
  The safety pipeline: the types of \<^verbatim>\<open>src/src/rolemesh/safety/types.py\<close>, the check registry of
  \<^verbatim>\<open>registry.py\<close>, the audit event of \<^verbatim>\<open>audit.py\<close> and \<open>pipeline_run\<close> of \<^verbatim>\<open>pipeline_core.py\<close>.

  A check is an argument: what it is registered as, and a function from the context and the rule's
  configuration to a verdict or an exception. A rule is the snapshot \<open>Rule.to_snapshot_dict\<close> writes,
  with all its keys. The digest of a payload (SHA-256 of its JSON text) and Python's \<open>str\<close> on a JSON
  value are arguments as well. The result carries the audit events in the order they are published;
  whether the publisher succeeds does not influence it.
\<close>

section \<open>Types\<close>

datatype stage = INPUT_PROMPT | PRE_TOOL_CALL | POST_TOOL_RESULT | MODEL_OUTPUT | PRE_COMPACTION | EGRESS_REQUEST

fun stage_value :: "stage \<Rightarrow> string" where
  "stage_value INPUT_PROMPT = ''input_prompt''"
| "stage_value PRE_TOOL_CALL = ''pre_tool_call''"
| "stage_value POST_TOOL_RESULT = ''post_tool_result''"
| "stage_value MODEL_OUTPUT = ''model_output''"
| "stage_value PRE_COMPACTION = ''pre_compaction''"
| "stage_value EGRESS_REQUEST = ''egress_request''"

definition control_stages :: "stage list" where
  "control_stages = [INPUT_PROMPT, PRE_TOOL_CALL, MODEL_OUTPUT, EGRESS_REQUEST]"

record tool_info =
  ti_name :: string
  ti_reversible :: bool

record safety_context =
  cx_stage :: stage
  cx_tenant_id :: string
  cx_coworker_id :: string
  cx_user_id :: string
  cx_job_id :: string
  cx_conversation_id :: string
  cx_payload :: "(string \<times> json) list"
  cx_tool :: "tool_info option"

record finding =
  fi_code :: string
  fi_severity :: string
  fi_message :: string
  fi_metadata :: "(string \<times> json) list"

record verdict =
  v_action :: string
  v_reason :: "string option"
  v_modified_payload :: "json option"
  v_findings :: "finding list"
  v_appended_context :: "string option"
  v_firing_rule_id :: "string option"
  v_firing_check_id :: "string option"

definition plain_verdict :: "string \<Rightarrow> verdict" where
  "plain_verdict a = \<lparr>v_action = a, v_reason = None, v_modified_payload = None, v_findings = [],
     v_appended_context = None, v_firing_rule_id = None, v_firing_check_id = None\<rparr>"

record safety_rule =
  ru_id :: string
  ru_tenant_id :: string
  ru_coworker_id :: "string option"
  ru_stage :: string
  ru_check_id :: string
  ru_config :: json
  ru_priority :: int
  ru_enabled :: bool
  ru_description :: string

record safety_check =
  sc_id :: string
  sc_stages :: "stage list"
  sc_cost_class :: string
  sc_check :: "safety_context \<Rightarrow> (string \<times> json) list \<Rightarrow> string + verdict"

section \<open>The registry\<close>

type_synonym check_registry = "(string, safety_check) dict"

text \<open>\<open>None\<close> is the \<open>ValueError\<close> for a duplicate registration.\<close>

definition register :: "safety_check \<Rightarrow> check_registry \<Rightarrow> check_registry option" where
  "register c reg = (if dict_get reg (sc_id c) \<noteq> None then None else Some (dict_set reg (sc_id c) c))"

definition reg_get :: "check_registry \<Rightarrow> string \<Rightarrow> safety_check option" where
  "reg_get reg i = dict_get reg i"

definition reg_has :: "check_registry \<Rightarrow> string \<Rightarrow> bool" where
  "reg_has reg i = (dict_get reg i \<noteq> None)"

definition reg_ids :: "check_registry \<Rightarrow> string list" where
  "reg_ids reg = dict_keys reg"

section \<open>Audit events\<close>

record audit_event =
  ae_tenant_id :: string
  ae_coworker_id :: "string option"
  ae_conversation_id :: "string option"
  ae_job_id :: "string option"
  ae_user_id :: "string option"
  ae_stage :: string
  ae_verdict_action :: string
  ae_triggered_rule_ids :: "string list"
  ae_findings :: "finding list"
  ae_context_digest :: string
  ae_context_summary :: string

definition get_str :: "(json \<Rightarrow> string) \<Rightarrow> (string \<times> json) list \<Rightarrow> string \<Rightarrow> string \<Rightarrow> string" where
  "get_str pstr d k dflt = (case obj_get d k of None \<Rightarrow> dflt | Some v \<Rightarrow> pstr v)"

definition summarize_context :: "(json \<Rightarrow> string) \<Rightarrow> string \<Rightarrow> (string \<times> json) list \<Rightarrow> string" where
  "summarize_context pstr st payload =
     (if st = ''pre_tool_call'' then ''tool='' @ get_str pstr payload ''tool_name'' ''?''
      else if st = ''input_prompt'' then ''prompt='' @ take 40 (get_str pstr payload ''prompt'' [])
      else if st = ''model_output'' then ''output='' @ take 40 (get_str pstr payload ''text'' [])
      else if st = ''post_tool_result'' then ''tool_result='' @ get_str pstr payload ''tool_name'' ''?''
      else if st = ''pre_compaction'' then ''compaction''
      else st)"

definition nonempty :: "string \<Rightarrow> string option" where
  "nonempty s = (if s = [] then None else Some s)"

record audit_env =
  en_digest :: "(string \<times> json) list \<Rightarrow> string"
  en_str :: "json \<Rightarrow> string"

text \<open>A rule without an id publishes nothing.\<close>

definition publish_audit :: "audit_env \<Rightarrow> safety_context \<Rightarrow> safety_rule \<Rightarrow> verdict \<Rightarrow> audit_event list" where
  "publish_audit en ctx rule v =
     (if ru_id rule = [] then []
      else [\<lparr>ae_tenant_id = cx_tenant_id ctx, ae_coworker_id = nonempty (cx_coworker_id ctx),
             ae_conversation_id = nonempty (cx_conversation_id ctx), ae_job_id = nonempty (cx_job_id ctx),
             ae_user_id = nonempty (cx_user_id ctx), ae_stage = stage_value (cx_stage ctx),
             ae_verdict_action = v_action v, ae_triggered_rule_ids = [ru_id rule],
             ae_findings = v_findings v, ae_context_digest = en_digest en (cx_payload ctx),
             ae_context_summary =
               summarize_context (en_str en) (stage_value (cx_stage ctx)) (cx_payload ctx)\<rparr>])"

section \<open>The pipeline\<close>

definition allowed_actions :: "string list" where
  "allowed_actions = [''allow'', ''block'', ''redact'', ''warn'', ''require_approval'']"

definition short_circuit_actions :: "string list" where
  "short_circuit_actions = [''block'', ''require_approval'']"

definition rule_applies :: "safety_rule \<Rightarrow> safety_context \<Rightarrow> bool" where
  "rule_applies rule ctx =
     (ru_enabled rule \<and> ru_stage rule = stage_value (cx_stage ctx) \<and>
      (case ru_coworker_id rule of None \<Rightarrow> True | Some c \<Rightarrow> c = cx_coworker_id ctx))"

definition rule_config :: "safety_rule \<Rightarrow> (string \<times> json) list" where
  "rule_config rule = (case ru_config rule of JObj kvs \<Rightarrow> kvs | _ \<Rightarrow> [])"

text \<open>The override of a rule: none, a supported action, or something else that disables the rule.\<close>

datatype override = NoOverride | Override string | BadOverride

definition action_override :: "(string \<times> json) list \<Rightarrow> override" where
  "action_override cfg =
     (case obj_get cfg ''action_override'' of
        None \<Rightarrow> NoOverride
      | Some JNull \<Rightarrow> NoOverride
      | Some (JStr a) \<Rightarrow>
          if a \<in> {''block'', ''warn'', ''require_approval''} then Override a else BadOverride
      | Some _ \<Rightarrow> BadOverride)"

record pipe_state =
  ps_ctx :: safety_context
  ps_findings :: "finding list"
  ps_redacted :: bool
  ps_warns :: "string list"
  ps_audit :: "audit_event list"

datatype pipe_step = Continue pipe_state | Return verdict pipe_state | Raise string pipe_state

definition fail_mode :: "string \<Rightarrow> pipe_state \<Rightarrow> pipe_step" where
  "fail_mode err ps = (if cx_stage (ps_ctx ps) \<in> set control_stages then Raise err ps else Continue ps)"

text \<open>Rules that are passed over: unknown check, stage dropped by the check, slow check on a reversible
  tool, unsupported override.\<close>

definition rule_skipped :: "check_registry \<Rightarrow> safety_context \<Rightarrow> safety_rule \<Rightarrow> bool" where
  "rule_skipped reg ctx rule =
     (case reg_get reg (ru_check_id rule) of
        None \<Rightarrow> True
      | Some c \<Rightarrow>
          cx_stage ctx \<notin> set (sc_stages c) \<or>
          (cx_stage ctx = PRE_TOOL_CALL \<and> sc_cost_class c = ''slow'' \<and>
           (case cx_tool ctx of None \<Rightarrow> False | Some t \<Rightarrow> ti_reversible t)) \<or>
          action_override (rule_config rule) = BadOverride)"

definition overridden :: "safety_rule \<Rightarrow> verdict \<Rightarrow> verdict" where
  "overridden rule v =
     (case action_override (rule_config rule) of
        Override a \<Rightarrow> if v_action v \<noteq> ''allow'' then v\<lparr>v_action := a\<rparr> else v
      | _ \<Rightarrow> v)"

definition is_dict :: "json option \<Rightarrow> bool" where
  "is_dict j = (case j of Some (JObj _) \<Rightarrow> True | _ \<Rightarrow> False)"

definition push_context :: "verdict \<Rightarrow> string list \<Rightarrow> string list" where
  "push_context v ws = (if truthy (v_appended_context v) then ws @ [the (v_appended_context v)] else ws)"

text \<open>What a verdict that has passed the checks on its shape does.\<close>

definition apply_verdict :: "audit_env \<Rightarrow> safety_rule \<Rightarrow> verdict \<Rightarrow> pipe_state \<Rightarrow> pipe_step" where
  "apply_verdict en rule v ps0 =
     (let ps = ps0\<lparr>ps_findings := ps_findings ps0 @ v_findings v,
                   ps_audit := ps_audit ps0 @ publish_audit en (ps_ctx ps0) rule v\<rparr>
      in
      if v_action v \<in> set short_circuit_actions then
        Return (v\<lparr>v_findings := ps_findings ps, v_firing_rule_id := nonempty (ru_id rule),
                  v_firing_check_id := nonempty (ru_check_id rule)\<rparr>) ps
      else if v_action v = ''redact'' then
        (case v_modified_payload v of
           Some (JObj kvs) \<Rightarrow>
             Continue (ps\<lparr>ps_ctx := (ps_ctx ps)\<lparr>cx_payload := kvs\<rparr>, ps_redacted := True,
                          ps_warns := push_context v (ps_warns ps)\<rparr>)
         | _ \<Rightarrow> Continue ps)
      else if v_action v = ''warn'' then Continue (ps\<lparr>ps_warns := push_context v (ps_warns ps)\<rparr>)
      else Continue ps)"

definition pipe_rule :: "audit_env \<Rightarrow> check_registry \<Rightarrow> safety_rule \<Rightarrow> pipe_state \<Rightarrow> pipe_step" where
  "pipe_rule en reg rule ps =
     (if rule_skipped reg (ps_ctx ps) rule then Continue ps
      else
        (case sc_check (the (reg_get reg (ru_check_id rule))) (ps_ctx ps) (rule_config rule) of
           Inl err \<Rightarrow> fail_mode err ps
         | Inr v0 \<Rightarrow>
             if v_action v0 \<notin> set allowed_actions then fail_mode ''unsupported action'' ps
             else
               (let v = overridden rule v0 in
                if v_action v = ''redact'' \<and> \<not> is_dict (v_modified_payload v)
                then fail_mode ''redact without payload'' ps
                else apply_verdict en rule v ps)))"

fun pipe_loop :: "audit_env \<Rightarrow> check_registry \<Rightarrow> safety_rule list \<Rightarrow> pipe_state \<Rightarrow> pipe_step" where
  "pipe_loop en reg [] ps = Continue ps"
| "pipe_loop en reg (r # rs) ps =
     (case pipe_rule en reg r ps of
        Continue ps' \<Rightarrow> pipe_loop en reg rs ps'
      | other \<Rightarrow> other)"

fun join_with :: "string \<Rightarrow> string list \<Rightarrow> string" where
  "join_with sep [] = []"
| "join_with sep [x] = x"
| "join_with sep (x # y # xs) = x @ sep @ join_with sep (y # xs)"

definition tail_verdict :: "pipe_state \<Rightarrow> verdict" where
  "tail_verdict ps =
     (let combined = (if ps_warns ps = [] then None
                      else Some (join_with [CHR 0x0A, CHR 0x0A] (ps_warns ps)))
      in
      if ps_redacted ps then
        (plain_verdict ''redact'')\<lparr>v_modified_payload := Some (JObj (cx_payload (ps_ctx ps))),
           v_findings := ps_findings ps, v_appended_context := combined\<rparr>
      else if combined \<noteq> None then
        (plain_verdict ''warn'')\<lparr>v_findings := ps_findings ps, v_appended_context := combined\<rparr>
      else (plain_verdict ''allow'')\<lparr>v_findings := ps_findings ps\<rparr>)"

definition applicable_rules :: "safety_rule list \<Rightarrow> safety_context \<Rightarrow> safety_rule list" where
  "applicable_rules rules ctx = sort_key (\<lambda>r. - ru_priority r) (filter (\<lambda>r. rule_applies r ctx) rules)"

text \<open>The exception or the verdict, and the published audit events.\<close>

definition pipeline_run ::
  "audit_env \<Rightarrow> safety_rule list \<Rightarrow> check_registry \<Rightarrow> safety_context \<Rightarrow> (string + verdict) \<times> audit_event list" where
  "pipeline_run en rules reg ctx =
     (case pipe_loop en reg (applicable_rules rules ctx)
             \<lparr>ps_ctx = ctx, ps_findings = [], ps_redacted = False, ps_warns = [], ps_audit = []\<rparr> of
        Return v ps \<Rightarrow> (Inr v, ps_audit ps)
      | Raise err ps \<Rightarrow> (Inl err, ps_audit ps)
      | Continue ps \<Rightarrow> (Inr (tail_verdict ps), ps_audit ps))"

text \<open>The orchestrator's entry point, which does not even start the pipeline without rules.\<close>

definition run_orchestrator_pipeline ::
  "audit_env \<Rightarrow> check_registry \<Rightarrow> safety_context \<Rightarrow> safety_rule list \<Rightarrow> (string + verdict) \<times> audit_event list" where
  "run_orchestrator_pipeline en reg ctx rules =
     (if rules = [] then (Inr (plain_verdict ''allow''), []) else pipeline_run en rules reg ctx)"

section \<open>The loop\<close>

text \<open>Only the payload of the context changes along the way.\<close>

definition with_payload :: "safety_context \<Rightarrow> (string \<times> json) list \<Rightarrow> safety_context" where
  "with_payload ctx p = ctx\<lparr>cx_payload := p\<rparr>"

lemma with_payload_simps [simp]:
  "cx_stage (with_payload ctx p) = cx_stage ctx" "cx_tool (with_payload ctx p) = cx_tool ctx"
  "with_payload (with_payload ctx p) p' = with_payload ctx p'" "with_payload ctx (cx_payload ctx) = ctx"
  "cx_payload (with_payload ctx p) = p"
  by (simp_all add: with_payload_def)

lemma rule_skipped_payload [simp]: "rule_skipped reg (with_payload ctx p) r = rule_skipped reg ctx r"
  by (simp add: rule_skipped_def split: option.split)

text \<open>The verdict a rule settles on for a payload, \<open>None\<close> when its check fails or misbehaves.\<close>

definition rule_verdict :: "check_registry \<Rightarrow> safety_rule \<Rightarrow> safety_context \<Rightarrow> verdict option" where
  "rule_verdict reg r ctx =
     (case sc_check (the (reg_get reg (ru_check_id r))) ctx (rule_config r) of
        Inl _ \<Rightarrow> None
      | Inr v0 \<Rightarrow>
          if v_action v0 \<notin> set allowed_actions \<or>
             (v_action (overridden r v0) = ''redact'' \<and> \<not> is_dict (v_modified_payload (overridden r v0)))
          then None else Some (overridden r v0))"

lemma pipe_rule_cases:
  obtains
    (skipped) "pipe_rule en reg r ps = Continue ps" "rule_skipped reg (ps_ctx ps) r"
  | (failed) err where "pipe_rule en reg r ps = fail_mode err ps"
      "\<not> rule_skipped reg (ps_ctx ps) r" "rule_verdict reg r (ps_ctx ps) = None"
  | (verdict) v where "pipe_rule en reg r ps = apply_verdict en r v ps" "\<not> rule_skipped reg (ps_ctx ps) r"
      "rule_verdict reg r (ps_ctx ps) = Some v"
proof (cases "rule_skipped reg (ps_ctx ps) r")
  case True
  then show thesis by (intro skipped) (simp_all add: pipe_rule_def)
next
  case False
  show thesis
  proof (cases "rule_verdict reg r (ps_ctx ps)")
    case None
    then have "\<exists>err. pipe_rule en reg r ps = fail_mode err ps"
      using False by (auto simp: pipe_rule_def rule_verdict_def Let_def split: sum.splits if_splits)
    then show thesis using failed False None by blast
  next
    case (Some v)
    then show thesis
      using False
      by (intro verdict [of v]) (auto simp: pipe_rule_def rule_verdict_def Let_def split: sum.splits if_splits)
  qed
qed

text \<open>The payload the next rule sees, and the state it starts from.\<close>

definition next_payload :: "verdict \<Rightarrow> (string \<times> json) list \<Rightarrow> (string \<times> json) list" where
  "next_payload v p =
     (if v_action v = ''redact'' then (case v_modified_payload v of Some (JObj kvs) \<Rightarrow> kvs | _ \<Rightarrow> p) else p)"

definition next_state :: "audit_env \<Rightarrow> safety_rule \<Rightarrow> verdict \<Rightarrow> pipe_state \<Rightarrow> pipe_state" where
  "next_state en r v ps =
     \<lparr>ps_ctx = with_payload (ps_ctx ps) (next_payload v (cx_payload (ps_ctx ps))),
      ps_findings = ps_findings ps @ v_findings v,
      ps_redacted = (ps_redacted ps \<or> v_action v = ''redact''),
      ps_warns = (if v_action v \<in> {''redact'', ''warn''} then push_context v (ps_warns ps) else ps_warns ps),
      ps_audit = ps_audit ps @ publish_audit en (ps_ctx ps) r v\<rparr>"

lemma apply_verdict_go:
  assumes "v_action v \<notin> set short_circuit_actions" "v_action v = ''redact'' \<Longrightarrow> is_dict (v_modified_payload v)"
  shows "apply_verdict en r v ps = Continue (next_state en r v ps)"
proof (cases "v_action v = ''redact''")
  case True
  then obtain kvs where "v_modified_payload v = Some (JObj kvs)"
    using assms(2) by (auto simp: is_dict_def split: option.splits json.splits)
  then show ?thesis
    using assms(1) True by (simp add: apply_verdict_def next_state_def next_payload_def with_payload_def Let_def)
next
  case False
  then show ?thesis using assms(1) by (simp add: apply_verdict_def next_state_def next_payload_def Let_def)
qed

lemma rule_verdict_dict:
  "rule_verdict reg r ctx = Some v \<Longrightarrow> v_action v = ''redact'' \<Longrightarrow> is_dict (v_modified_payload v)"
  by (auto simp: rule_verdict_def split: sum.splits if_splits)

text \<open>One rule: it is passed over, its failure is handled, it stops the pipeline, or it hands on.\<close>

lemma pipe_rule_outcome:
  obtains
    (skipped) "pipe_rule en reg r ps = Continue ps" "rule_skipped reg (ps_ctx ps) r"
  | (raised) err where "pipe_rule en reg r ps = Raise err ps" "cx_stage (ps_ctx ps) \<in> set control_stages"
      "\<not> rule_skipped reg (ps_ctx ps) r" "rule_verdict reg r (ps_ctx ps) = None"
  | (ignored) "pipe_rule en reg r ps = Continue ps" "cx_stage (ps_ctx ps) \<notin> set control_stages"
      "\<not> rule_skipped reg (ps_ctx ps) r" "rule_verdict reg r (ps_ctx ps) = None"
  | (stop) v where
      "pipe_rule en reg r ps =
         Return (v\<lparr>v_findings := ps_findings ps @ v_findings v, v_firing_rule_id := nonempty (ru_id r),
                   v_firing_check_id := nonempty (ru_check_id r)\<rparr>)
           (ps\<lparr>ps_findings := ps_findings ps @ v_findings v,
               ps_audit := ps_audit ps @ publish_audit en (ps_ctx ps) r v\<rparr>)"
      "v_action v \<in> set short_circuit_actions" "\<not> rule_skipped reg (ps_ctx ps) r"
      "rule_verdict reg r (ps_ctx ps) = Some v"
  | (pass) v where "pipe_rule en reg r ps = Continue (next_state en r v ps)"
      "v_action v \<notin> set short_circuit_actions" "\<not> rule_skipped reg (ps_ctx ps) r"
      "rule_verdict reg r (ps_ctx ps) = Some v"
proof (cases rule: pipe_rule_cases [of en reg r ps])
  case skipped
  then show thesis by (rule that(1))
next
  case (failed err)
  then show thesis using that(2,3) by (auto simp: fail_mode_def split: if_splits)
next
  case (verdict v)
  show thesis
  proof (cases "v_action v \<in> set short_circuit_actions")
    case True
    then show thesis using verdict by (intro that(4) [of v]) (simp_all add: apply_verdict_def Let_def)
  next
    case False
    then show thesis
      using verdict apply_verdict_go [OF False] rule_verdict_dict [OF verdict(3)] by (intro that(5) [of v]) simp_all
  qed
qed

lemma pipe_rule_frame:
  "pipe_rule en reg r ps = Continue ps' \<Longrightarrow> \<exists>p. ps_ctx ps' = with_payload (ps_ctx ps) p"
  by (cases rule: pipe_rule_outcome [of en reg r ps])
    (auto simp: next_state_def intro: exI [of _ "cx_payload (ps_ctx ps)"])

definition refused :: "pipe_step \<Rightarrow> bool" where
  "refused s = (case s of Continue _ \<Rightarrow> False | Raise _ _ \<Rightarrow> True
     | Return v _ \<Rightarrow> v_action v \<in> set short_circuit_actions)"

lemma pipe_rule_stops: "(\<exists>ps'. pipe_rule en reg r ps = Continue ps') \<or> refused (pipe_rule en reg r ps)"
  by (cases rule: pipe_rule_outcome [of en reg r ps]) (simp_all add: refused_def)

lemma pipe_loop_stops: "(\<exists>ps'. pipe_loop en reg rs ps = Continue ps') \<or> refused (pipe_loop en reg rs ps)"
proof (induction rs arbitrary: ps)
  case (Cons r rs)
  then show ?case using pipe_rule_stops [of en reg r ps] by (auto split: pipe_step.split)
qed simp

section \<open>Properties\<close>

text \<open>A check for the examples: it reports a string it looks for in the prompt.\<close>

definition demo_ctx :: "string \<Rightarrow> safety_context" where
  "demo_ctx txt = \<lparr>cx_stage = INPUT_PROMPT, cx_tenant_id = ''acme'', cx_coworker_id = ''bot'', cx_user_id = ''u1'',
     cx_job_id = ''job1'', cx_conversation_id = ''a'', cx_payload = [(''prompt'', JStr txt)], cx_tool = None\<rparr>"

definition demo_rule :: "string \<Rightarrow> string \<Rightarrow> int \<Rightarrow> safety_rule" where
  "demo_rule i c prio = \<lparr>ru_id = i, ru_tenant_id = ''acme'', ru_coworker_id = None, ru_stage = ''input_prompt'',
     ru_check_id = c, ru_config = JObj [], ru_priority = prio, ru_enabled = True, ru_description = []\<rparr>"

definition demo_check :: "string \<Rightarrow> (safety_context \<Rightarrow> string + verdict) \<Rightarrow> safety_check" where
  "demo_check i f = \<lparr>sc_id = i, sc_stages = [INPUT_PROMPT], sc_cost_class = ''cheap'', sc_check = (\<lambda>ctx cfg. f ctx)\<rparr>"

definition demo_registry :: check_registry where
  "demo_registry =
     [(''deny'', demo_check ''deny'' (\<lambda>_. Inr (plain_verdict ''block''))),
      (''mask'', demo_check ''mask'' (\<lambda>_. Inr ((plain_verdict ''redact'')\<lparr>v_modified_payload :=
         Some (JObj [(''prompt'', JStr ''***'')])\<rparr>))),
      (''ok'', demo_check ''ok'' (\<lambda>_. Inr (plain_verdict ''allow'')))]"

definition demo_env :: audit_env where
  "demo_env = \<lparr>en_digest = (\<lambda>_. ''d''), en_str = (\<lambda>_. ''s'')\<rparr>"

text \<open>What a run that ends without short-circuit has done: every rule was passed over, failed on an
  observational stage, or handed on a verdict.\<close>

lemma pipe_loop_clean:
  assumes "pipe_loop en reg rs ps = Continue ps'" "\<not> ps_redacted ps'" "ps_warns ps' = []"
  shows "\<not> ps_redacted ps \<and> ps_warns ps = [] \<and> ps_ctx ps' = ps_ctx ps \<and>
    (\<forall>r \<in> set rs. rule_skipped reg (ps_ctx ps) r \<or>
       (cx_stage (ps_ctx ps) \<notin> set control_stages \<and> rule_verdict reg r (ps_ctx ps) = None) \<or>
       (\<exists>v. rule_verdict reg r (ps_ctx ps) = Some v \<and>
          (v_action v = ''allow'' \<or> (v_action v = ''warn'' \<and> \<not> truthy (v_appended_context v)))))"
  using assms
proof (induction rs arbitrary: ps)
  case (Cons r rs)
  show ?case
  proof (cases rule: pipe_rule_outcome [of en reg r ps])
    case (pass v)
    have i: "\<not> ps_redacted (next_state en r v ps)" "ps_warns (next_state en r v ps) = []"
      "ps_ctx ps' = ps_ctx (next_state en r v ps)"
      "\<forall>x \<in> set rs. rule_skipped reg (ps_ctx (next_state en r v ps)) x \<or>
         (cx_stage (ps_ctx (next_state en r v ps)) \<notin> set control_stages \<and>
           rule_verdict reg x (ps_ctx (next_state en r v ps)) = None) \<or>
         (\<exists>w. rule_verdict reg x (ps_ctx (next_state en r v ps)) = Some w \<and>
           (v_action w = ''allow'' \<or> (v_action w = ''warn'' \<and> \<not> truthy (v_appended_context w))))"
      using Cons.IH [of "next_state en r v ps"] Cons.prems pass(1) by auto
    have "v_action v \<in> set allowed_actions"
      using pass(4) by (auto simp: rule_verdict_def overridden_def action_override_def allowed_actions_def
          split: sum.splits if_splits override.splits option.splits json.splits)
    then have v: "v_action v = ''allow'' \<or> (v_action v = ''warn'' \<and> \<not> truthy (v_appended_context v))"
      using i(1,2) pass(2)
      by (auto simp: next_state_def push_context_def short_circuit_actions_def allowed_actions_def split: if_splits)
    then have "ps_ctx (next_state en r v ps) = ps_ctx ps" "\<not> ps_redacted ps \<and> ps_warns ps = []"
      using i(1,2) by (auto simp: next_state_def next_payload_def push_context_def split: if_splits)
    then show ?thesis using i(3,4) v pass(4) by auto
  qed (use Cons in auto)
qed simp

text \<open>A clean bill means what it says: if the pipeline's verdict on a control stage is allow, then every
  applicable rule that was not passed over ran its check on the original payload, and the check
  returned normally with allow, or with a warning that carries no text. In particular no check
  raised, redacted or blocked.\<close>

theorem allow_means_all_clear:
  assumes "fst (pipeline_run en rules reg ctx) = Inr v" "v_action v = ''allow''"
    and "cx_stage ctx \<in> set control_stages" "r \<in> set rules" "rule_applies r ctx" "\<not> rule_skipped reg ctx r"
  shows "\<exists>w. rule_verdict reg r ctx = Some w \<and>
     (v_action w = ''allow'' \<or> (v_action w = ''warn'' \<and> \<not> truthy (v_appended_context w)))"
proof -
  define ps where "ps = \<lparr>ps_ctx = ctx, ps_findings = [], ps_redacted = False, ps_warns = [], ps_audit = []\<rparr>"
  have r: "r \<in> set (applicable_rules rules ctx)" using assms(4,5) by (simp add: applicable_rules_def)
  have ref: "\<not> refused (pipe_loop en reg (applicable_rules rules ctx) ps)"
    using assms(1,2) unfolding pipeline_run_def ps_def [symmetric]
    by (auto simp: refused_def short_circuit_actions_def split: pipe_step.splits)
  then obtain ps' where ps': "pipe_loop en reg (applicable_rules rules ctx) ps = Continue ps'"
    using pipe_loop_stops by blast
  have "v = tail_verdict ps'"
    using assms(1) ps' unfolding pipeline_run_def ps_def [symmetric] by simp
  then have "\<not> ps_redacted ps'" "ps_warns ps' = []"
    using assms(2) by (auto simp: tail_verdict_def plain_verdict_def Let_def split: if_splits)
  from pipe_loop_clean [OF ps' this] r assms(3,6) show ?thesis by (auto simp: ps_def)
qed

theorem allow_means_all_clear_witness:
  "\<exists>w. rule_verdict demo_registry (demo_rule ''r3'' ''ok'' 5) (demo_ctx ''hi'') = Some w \<and>
     (v_action w = ''allow'' \<or> (v_action w = ''warn'' \<and> \<not> truthy (v_appended_context w)))"
proof (rule allow_means_all_clear)
  show "fst (pipeline_run demo_env [demo_rule ''r3'' ''ok'' 5] demo_registry (demo_ctx ''hi'')) =
      Inr (plain_verdict ''allow'')" by code_simp
  show "v_action (plain_verdict ''allow'') = ''allow''" by code_simp
  show "cx_stage (demo_ctx ''hi'') \<in> set control_stages" by code_simp
  show "demo_rule ''r3'' ''ok'' 5 \<in> set [demo_rule ''r3'' ''ok'' 5]" by simp
  show "rule_applies (demo_rule ''r3'' ''ok'' 5) (demo_ctx ''hi'')" by code_simp
  show "\<not> rule_skipped demo_registry (demo_ctx ''hi'') (demo_rule ''r3'' ''ok'' 5)" by code_simp
qed

text \<open>The payload after the redactions of a list of rules, each applied to what the previous ones left.\<close>

fun redaction_chain :: "check_registry \<Rightarrow> safety_context \<Rightarrow> safety_rule list \<Rightarrow> (string \<times> json) list" where
  "redaction_chain reg ctx [] = cx_payload ctx"
| "redaction_chain reg ctx (r # rs) =
     redaction_chain reg
       (if rule_skipped reg ctx r then ctx
        else case rule_verdict reg r ctx of
            None \<Rightarrow> ctx
          | Some v \<Rightarrow> with_payload ctx (next_payload v (cx_payload ctx))) rs"

lemma pipe_loop_payload:
  "pipe_loop en reg rs ps = Continue ps' \<Longrightarrow> cx_payload (ps_ctx ps') = redaction_chain reg (ps_ctx ps) rs"
proof (induction rs arbitrary: ps)
  case (Cons r rs)
  show ?case
  proof (cases rule: pipe_rule_outcome [of en reg r ps])
    case (pass v)
    have "ps_ctx (next_state en r v ps) = with_payload (ps_ctx ps) (next_payload v (cx_payload (ps_ctx ps)))"
      by (simp add: next_state_def)
    then show ?thesis using Cons.IH [of "next_state en r v ps"] Cons.prems pass by simp
  qed (use Cons in auto)
qed simp

lemma pipe_loop_append:
  "pipe_loop en reg (xs @ ys) ps = (case pipe_loop en reg xs ps of Continue ps' \<Rightarrow> pipe_loop en reg ys ps' | s \<Rightarrow> s)"
  by (induction xs arbitrary: ps) (auto split: pipe_step.split)

lemma pipe_loop_refused:
  "refused (pipe_loop en reg xs ps) \<Longrightarrow> pipe_loop en reg (xs @ ys) ps = pipe_loop en reg xs ps"
  by (auto simp: pipe_loop_append refused_def split: pipe_step.splits)

lemma pipe_loop_frame: "pipe_loop en reg rs ps = Continue ps' \<Longrightarrow> \<exists>p. ps_ctx ps' = with_payload (ps_ctx ps) p"
proof (induction rs arbitrary: ps)
  case Nil
  then show ?case by (auto intro: exI [of _ "cx_payload (ps_ctx ps')"])
next
  case (Cons r rs)
  then obtain q where q: "pipe_rule en reg r ps = Continue q" "pipe_loop en reg rs q = Continue ps'"
    by (auto split: pipe_step.splits)
  then show ?case using Cons.IH [OF q(2)] pipe_rule_frame [OF q(1)] by auto
qed

lemma pipe_loop_fires:
  "pipe_loop en reg rs ps = Return v q \<Longrightarrow> \<exists>r \<in> set rs. v_firing_rule_id v = nonempty (ru_id r)"
proof (induction rs arbitrary: ps)
  case (Cons r rs)
  show ?case by (cases rule: pipe_rule_outcome [of en reg r ps]) (use Cons in auto)
qed simp

text \<open>A rule that objects to the payload the rules before it leave stops the loop, if they have not.\<close>

lemma pipe_loop_objection:
  assumes "\<not> rule_skipped reg (ps_ctx ps) r"
    and "case rule_verdict reg r (with_payload (ps_ctx ps) (redaction_chain reg (ps_ctx ps) before)) of
           None \<Rightarrow> cx_stage (ps_ctx ps) \<in> set control_stages
         | Some v \<Rightarrow> v_action v \<in> set short_circuit_actions"
  shows "refused (pipe_loop en reg (before @ [r]) ps)"
proof (cases "\<exists>q. pipe_loop en reg before ps = Continue q")
  case True
  then obtain q where q: "pipe_loop en reg before ps = Continue q" by blast
  then obtain p where p: "ps_ctx q = with_payload (ps_ctx ps) p" using pipe_loop_frame by blast
  then have "p = redaction_chain reg (ps_ctx ps) before" using pipe_loop_payload [OF q] by simp
  then have "refused (pipe_rule en reg r q)"
    using assms p by (cases rule: pipe_rule_outcome [of en reg r q]) (auto simp: refused_def)
  then show ?thesis using q by (auto simp: pipe_loop_append refused_def split: pipe_step.splits)
next
  case False
  then show ?thesis using pipe_loop_stops [of en reg before ps] by (auto simp: pipe_loop_append split: pipe_step.splits)
qed

text \<open>C27. No rule can be outvoted by a rule that lets the turn pass. Take an applicable rule in its place in the
  order the pipeline runs, and the payload as the redactions of the rules before it leave it. If the
  rule objects to that payload, that is, settles on block or require\_approval, or, on a control
  stage, its check raises or misbehaves, then the pipeline refuses: it raises, or its verdict is block
  or require\_approval and comes from this rule or one before it. Which of the two verdicts it is may
  be decided by an earlier rule; an objection to the original payload that an earlier redaction
  removes does not count.\<close>

theorem objection_refuses:
  assumes "applicable_rules rules ctx = before @ r # after" "\<not> rule_skipped reg ctx r"
    and "case rule_verdict reg r (with_payload ctx (redaction_chain reg ctx before)) of
           None \<Rightarrow> cx_stage ctx \<in> set control_stages
         | Some v \<Rightarrow> v_action v \<in> {''block'', ''require_approval''}"
  shows "case fst (pipeline_run en rules reg ctx) of
           Inl err \<Rightarrow> True
         | Inr v \<Rightarrow> v_action v \<in> {''block'', ''require_approval''} \<and>
             v_firing_rule_id v \<in> set (map (\<lambda>x. nonempty (ru_id x)) (before @ [r]))"
proof -
  define ps where "ps = \<lparr>ps_ctx = ctx, ps_findings = [], ps_redacted = False, ps_warns = [], ps_audit = []\<rparr>"
  have ref: "refused (pipe_loop en reg (before @ [r]) ps)"
    by (rule pipe_loop_objection)
      (use assms(2,3) in \<open>simp_all add: ps_def short_circuit_actions_def split: option.splits\<close>)
  then have "pipe_loop en reg (applicable_rules rules ctx) ps = pipe_loop en reg (before @ [r]) ps"
    using pipe_loop_refused [of en reg "before @ [r]" ps after] unfolding assms(1) by simp
  then show ?thesis
    unfolding pipeline_run_def ps_def [symmetric] using ref pipe_loop_fires [of en reg "before @ [r]" ps]
    by (fastforce simp: refused_def short_circuit_actions_def split: pipe_step.splits)
qed

theorem objection_refuses_witness:
  "case fst (pipeline_run demo_env [demo_rule ''r2'' ''deny'' 1, demo_rule ''r1'' ''mask'' 200] demo_registry
       (demo_ctx ''hello'')) of
     Inl err \<Rightarrow> True
   | Inr v \<Rightarrow> v_action v \<in> {''block'', ''require_approval''} \<and> v_firing_rule_id v \<in> {Some ''r1'', Some ''r2''}"
proof -
  have 1: "applicable_rules [demo_rule ''r2'' ''deny'' 1, demo_rule ''r1'' ''mask'' 200] (demo_ctx ''hello'') =
      [demo_rule ''r1'' ''mask'' 200] @ demo_rule ''r2'' ''deny'' 1 # []" by code_simp
  have 2: "\<not> rule_skipped demo_registry (demo_ctx ''hello'') (demo_rule ''r2'' ''deny'' 1)" by code_simp
  have 3: "case rule_verdict demo_registry (demo_rule ''r2'' ''deny'' 1) (with_payload (demo_ctx ''hello'')
        (redaction_chain demo_registry (demo_ctx ''hello'') [demo_rule ''r1'' ''mask'' 200])) of
      None \<Rightarrow> cx_stage (demo_ctx ''hello'') \<in> set control_stages
    | Some v \<Rightarrow> v_action v \<in> {''block'', ''require_approval''}"
    by code_simp
  have ids: "set (map (\<lambda>x. nonempty (ru_id x)) ([demo_rule ''r1'' ''mask'' 200] @ [demo_rule ''r2'' ''deny'' 1])) =
      {Some ''r1'', Some ''r2''}"
    by (simp add: demo_rule_def nonempty_def)
  from objection_refuses [OF 1 2 3, of demo_env] show ?thesis unfolding ids .
qed

text \<open>Redactions chain: a redact verdict of the pipeline carries the payload obtained by running the
  applicable rules in order of falling priority, rules of equal priority in snapshot order, where
  every rule sees the payload as the redactions before it left it.\<close>

theorem redactions_chain:
  assumes "fst (pipeline_run en rules reg ctx) = Inr v" "v_action v = ''redact''"
  shows "v_modified_payload v = Some (JObj (redaction_chain reg ctx (applicable_rules rules ctx))) \<and>
     sorted_wrt (\<lambda>a b. ru_priority b \<le> ru_priority a) (applicable_rules rules ctx) \<and>
     filter (\<lambda>r. ru_priority r = k) (applicable_rules rules ctx) =
       filter (\<lambda>r. rule_applies r ctx \<and> ru_priority r = k) rules"
proof -
  define ps where "ps = \<lparr>ps_ctx = ctx, ps_findings = [], ps_redacted = False, ps_warns = [], ps_audit = []\<rparr>"
  have "\<not> refused (pipe_loop en reg (applicable_rules rules ctx) ps)"
    using assms unfolding pipeline_run_def ps_def [symmetric]
    by (auto simp: refused_def short_circuit_actions_def split: pipe_step.splits)
  then obtain ps' where ps': "pipe_loop en reg (applicable_rules rules ctx) ps = Continue ps'"
    using pipe_loop_stops by blast
  have "v = tail_verdict ps'"
    using assms(1) ps' unfolding pipeline_run_def ps_def [symmetric] by simp
  then have "v_modified_payload v = Some (JObj (cx_payload (ps_ctx ps')))"
    using assms(2) by (auto simp: tail_verdict_def plain_verdict_def Let_def split: if_splits)
  moreover have "cx_payload (ps_ctx ps') = redaction_chain reg ctx (applicable_rules rules ctx)"
    using pipe_loop_payload [OF ps'] by (simp add: ps_def)
  moreover have "sorted_wrt (\<lambda>a b. ru_priority b \<le> ru_priority a) (applicable_rules rules ctx)"
    using sorted_sort_key [of "\<lambda>r. - ru_priority r" "filter (\<lambda>r. rule_applies r ctx) rules"]
    unfolding sorted_map by (simp add: applicable_rules_def)
  moreover have "filter (\<lambda>r. ru_priority r = k) (applicable_rules rules ctx) =
      filter (\<lambda>r. rule_applies r ctx \<and> ru_priority r = k) rules"
    using sort_key_stable [of "\<lambda>r. - ru_priority r" "- k" "filter (\<lambda>r. rule_applies r ctx) rules"]
    by (simp add: applicable_rules_def)
  ultimately show ?thesis by simp
qed

theorem redactions_chain_witness:
  "v_modified_payload ((plain_verdict ''redact'')\<lparr>v_modified_payload := Some (JObj [(''prompt'', JStr ''***'')])\<rparr>) =
   Some (JObj (redaction_chain demo_registry (demo_ctx ''hi'')
     (applicable_rules [demo_rule ''r3'' ''ok'' 5, demo_rule ''r1'' ''mask'' 9] (demo_ctx ''hi''))))"
proof -
  have "fst (pipeline_run demo_env [demo_rule ''r3'' ''ok'' 5, demo_rule ''r1'' ''mask'' 9] demo_registry
        (demo_ctx ''hi'')) =
      Inr ((plain_verdict ''redact'')\<lparr>v_modified_payload := Some (JObj [(''prompt'', JStr ''***'')])\<rparr>)"
    "v_action ((plain_verdict ''redact'')\<lparr>v_modified_payload := Some (JObj [(''prompt'', JStr ''***'')])\<rparr>) = ''redact''"
    by code_simp+
  from redactions_chain [OF this] show ?thesis by blast
qed

text \<open>The rules that settled on a verdict, each with the context it saw and the verdict, up to the one
  that ends the run.\<close>

fun verdict_trace ::
  "check_registry \<Rightarrow> safety_context \<Rightarrow> safety_rule list \<Rightarrow> (safety_rule \<times> safety_context \<times> verdict) list" where
  "verdict_trace reg ctx [] = []"
| "verdict_trace reg ctx (r # rs) =
     (if rule_skipped reg ctx r then verdict_trace reg ctx rs
      else case rule_verdict reg r ctx of
          None \<Rightarrow> if cx_stage ctx \<in> set control_stages then [] else verdict_trace reg ctx rs
        | Some v \<Rightarrow> (r, ctx, v) #
            (if v_action v \<in> set short_circuit_actions then []
             else verdict_trace reg (with_payload ctx (next_payload v (cx_payload ctx))) rs))"

definition final_state :: "pipe_step \<Rightarrow> pipe_state" where
  "final_state s = (case s of Continue q \<Rightarrow> q | Return v q \<Rightarrow> q | Raise err q \<Rightarrow> q)"

lemma final_state_simps [simp]:
  "final_state (Continue q) = q" "final_state (Return v q) = q" "final_state (Raise err q) = q"
  by (simp_all add: final_state_def)

lemma next_state_simps [simp]:
  "ps_ctx (next_state en r v ps) = with_payload (ps_ctx ps) (next_payload v (cx_payload (ps_ctx ps)))"
  "ps_audit (next_state en r v ps) = ps_audit ps @ publish_audit en (ps_ctx ps) r v"
  "ps_findings (next_state en r v ps) = ps_findings ps @ v_findings v"
  by (simp_all add: next_state_def)

lemma pipe_loop_audit:
  "ps_audit (final_state (pipe_loop en reg rs ps)) =
     ps_audit ps @ concat (map (\<lambda>(r, c, v). publish_audit en c r v) (verdict_trace reg (ps_ctx ps) rs))"
proof (induction rs arbitrary: ps)
  case (Cons r rs)
  show ?case by (cases rule: pipe_rule_outcome [of en reg r ps]) (simp_all add: Cons.IH)
qed simp

lemma pipe_loop_findings:
  "ps_findings (final_state (pipe_loop en reg rs ps)) =
     ps_findings ps @ concat (map (\<lambda>(r, c, v). v_findings v) (verdict_trace reg (ps_ctx ps) rs))"
proof (induction rs arbitrary: ps)
  case (Cons r rs)
  show ?case by (cases rule: pipe_rule_outcome [of en reg r ps]) (simp_all add: Cons.IH)
qed simp

lemma pipe_loop_return_findings: "pipe_loop en reg rs ps = Return w q \<Longrightarrow> v_findings w = ps_findings q"
proof (induction rs arbitrary: ps)
  case (Cons r rs)
  show ?case
  proof (cases rule: pipe_rule_outcome [of en reg r ps])
    case (stop v)
    then show ?thesis using Cons.prems by auto
  qed (use Cons in simp_all)
qed simp

text \<open>C28. The audit trail is exact: the pipeline publishes one event for every rule that settled on a verdict,
  in the order the rules ran and with the payload digest the rule actually saw, and none for a rule
  that was passed over, failed, or came after the end of the run. The findings of the final verdict
  are the findings of those verdicts in the same order.\<close>

theorem audit_trail:
  "snd (pipeline_run en rules reg ctx) =
     concat (map (\<lambda>(r, c, v). publish_audit en c r v) (verdict_trace reg ctx (applicable_rules rules ctx))) \<and>
   (case fst (pipeline_run en rules reg ctx) of
      Inl err \<Rightarrow> True
    | Inr w \<Rightarrow> v_findings w =
        concat (map (\<lambda>(r, c, v). v_findings v) (verdict_trace reg ctx (applicable_rules rules ctx))))"
proof -
  define ps where "ps = \<lparr>ps_ctx = ctx, ps_findings = [], ps_redacted = False, ps_warns = [], ps_audit = []\<rparr>"
  note facts = pipe_loop_audit [of en reg "applicable_rules rules ctx" ps]
    pipe_loop_findings [of en reg "applicable_rules rules ctx" ps]
    pipe_loop_return_findings [of en reg "applicable_rules rules ctx" ps]
  show ?thesis
  proof (cases "pipe_loop en reg (applicable_rules rules ctx) ps")
    case (Continue q)
    then show ?thesis
      using facts(1,2)
      by (simp add: pipeline_run_def tail_verdict_def plain_verdict_def Let_def ps_def)
  next
    case (Return w q)
    then show ?thesis using facts(1,2) facts(3) [OF Return] by (simp add: pipeline_run_def ps_def)
  next
    case (Raise err q)
    then show ?thesis using facts(1) by (simp add: pipeline_run_def ps_def)
  qed
qed

end
