(* ===== verification/Hook_Registry.thy ===== *)
theory Hook_Registry
  imports Approval_Awaiter Safety_Pipeline
begin

text \<open>
  The fan-out of hooks: the events of \<^verbatim>\<open>src/src/agent_runner/hooks/events.py\<close>, the registry of
  \<^verbatim>\<open>hooks/registry.py\<close>, and the bridges that turn its answers into what the two backends do,
  \<^verbatim>\<open>src/src/agent_runner/claude_backend.py\<close> and \<^verbatim>\<open>src/src/agent_runner/pi_backend.py\<close>.

  A handler is a record of the methods it has, \<open>None\<close> for one it lacks; a method takes the event and
  the state of the world and returns a result, or what it raises, with the new state. Printing an
  exception is an argument of the bridges only through its message.
\<close>

section \<open>Events and verdicts\<close>

record tool_call_event =
  te_tool_name :: string
  te_tool_input :: params
  te_tool_call_id :: string

record tool_call_verdict =
  tv_block :: bool
  tv_reason :: "string option"
  tv_modified_input :: "params option"

record tool_result_event =
  tr_tool_name :: string
  tr_tool_input :: params
  tr_tool_result :: string
  tr_is_error :: bool
  tr_tool_call_id :: string

record tool_result_verdict =
  rv_appended_context :: "string option"

record compaction_event =
  ce_transcript_path :: "string option"
  ce_session_id :: "string option"
  ce_messages :: "json list"

record user_prompt_event =
  ue_prompt :: string

record user_prompt_verdict =
  uv_block :: bool
  uv_reason :: "string option"
  uv_appended_context :: "string option"

record stop_event =
  se_reason :: string
  se_session_id :: "string option"

definition block_call :: "string \<Rightarrow> tool_call_verdict" where
  "block_call why = \<lparr>tv_block = True, tv_reason = Some why, tv_modified_input = None\<rparr>"

definition modify_call :: "params \<Rightarrow> tool_call_verdict" where
  "modify_call i = \<lparr>tv_block = False, tv_reason = None, tv_modified_input = Some i\<rparr>"

section \<open>The registry\<close>

type_synonym ('s, 'e, 'r) hook = "'e \<Rightarrow> 's \<Rightarrow> (raised + 'r) \<times> 's"

record 's hook_handler =
  on_pre_tool_use :: "('s, tool_call_event, tool_call_verdict option) hook option"
  on_post_tool_use :: "('s, tool_result_event, tool_result_verdict option) hook option"
  on_post_tool_use_failure :: "('s, tool_result_event, unit) hook option"
  on_pre_compact :: "('s, compaction_event, unit) hook option"
  on_user_prompt_submit :: "('s, user_prompt_event, user_prompt_verdict option) hook option"
  on_stop :: "('s, stop_event, unit) hook option"

definition no_hooks :: "'s hook_handler" where
  "no_hooks = \<lparr>on_pre_tool_use = None, on_post_tool_use = None, on_post_tool_use_failure = None,
     on_pre_compact = None, on_user_prompt_submit = None, on_stop = None\<rparr>"

definition register_hook :: "'s hook_handler list \<Rightarrow> 's hook_handler \<Rightarrow> 's hook_handler list" where
  "register_hook hs h = hs @ [h]"

text \<open>\<open>emit_pre_tool_use\<close>: every handler sees the input as the handlers before it left it.\<close>

fun pre_tool_use_loop ::
  "'s hook_handler list \<Rightarrow> tool_call_event \<Rightarrow> bool \<Rightarrow> 's \<Rightarrow> (raised + tool_call_verdict option) \<times> 's" where
  "pre_tool_use_loop [] ev modified s =
     (Inr (if modified then Some (modify_call (te_tool_input ev)) else None), s)"
| "pre_tool_use_loop (h # hs) ev modified s =
     (case on_pre_tool_use h of
        None \<Rightarrow> pre_tool_use_loop hs ev modified s
      | Some f \<Rightarrow>
          (case f ev s of
             (Inl err, s') \<Rightarrow> (Inl err, s')
           | (Inr None, s') \<Rightarrow> pre_tool_use_loop hs ev modified s'
           | (Inr (Some v), s') \<Rightarrow>
               if tv_block v then (Inr (Some v), s')
               else
                 (case tv_modified_input v of
                    None \<Rightarrow> pre_tool_use_loop hs ev modified s'
                  | Some i \<Rightarrow> pre_tool_use_loop hs (ev\<lparr>te_tool_input := i\<rparr>) True s')))"

definition emit_pre_tool_use ::
  "'s hook_handler list \<Rightarrow> tool_call_event \<Rightarrow> 's \<Rightarrow> (raised + tool_call_verdict option) \<times> 's" where
  "emit_pre_tool_use hs ev s = pre_tool_use_loop hs ev False s"

definition paragraphs :: "string list \<Rightarrow> string" where
  "paragraphs xs = join_with [CHR 0x0A, CHR 0x0A] xs"

fun user_prompt_loop ::
  "'s hook_handler list \<Rightarrow> user_prompt_event \<Rightarrow> string list \<Rightarrow> 's \<Rightarrow> (raised + user_prompt_verdict option) \<times> 's" where
  "user_prompt_loop [] ev appended s =
     (Inr (if appended = [] then None
           else Some \<lparr>uv_block = False, uv_reason = None, uv_appended_context = Some (paragraphs appended)\<rparr>), s)"
| "user_prompt_loop (h # hs) ev appended s =
     (case on_user_prompt_submit h of
        None \<Rightarrow> user_prompt_loop hs ev appended s
      | Some f \<Rightarrow>
          (case f ev s of
             (Inl err, s') \<Rightarrow> (Inl err, s')
           | (Inr None, s') \<Rightarrow> user_prompt_loop hs ev appended s'
           | (Inr (Some v), s') \<Rightarrow>
               if uv_block v then (Inr (Some v), s')
               else user_prompt_loop hs ev
                 (if truthy (uv_appended_context v) then appended @ [the (uv_appended_context v)] else appended) s'))"

definition emit_user_prompt_submit ::
  "'s hook_handler list \<Rightarrow> user_prompt_event \<Rightarrow> 's \<Rightarrow> (raised + user_prompt_verdict option) \<times> 's" where
  "emit_user_prompt_submit hs ev s = user_prompt_loop hs ev [] s"

text \<open>Observational hooks swallow an \<open>Exception\<close>, not a cancellation.\<close>

fun post_tool_use_loop ::
  "'s hook_handler list \<Rightarrow> tool_result_event \<Rightarrow> string list \<Rightarrow> 's \<Rightarrow> (raised + tool_result_verdict option) \<times> 's" where
  "post_tool_use_loop [] ev appended s =
     (Inr (if appended = [] then None else Some \<lparr>rv_appended_context = Some (paragraphs appended)\<rparr>), s)"
| "post_tool_use_loop (h # hs) ev appended s =
     (case on_post_tool_use h of
        None \<Rightarrow> post_tool_use_loop hs ev appended s
      | Some f \<Rightarrow>
          (case f ev s of
             (Inl (Exn _), s') \<Rightarrow> post_tool_use_loop hs ev appended s'
           | (Inl err, s') \<Rightarrow> (Inl err, s')
           | (Inr None, s') \<Rightarrow> post_tool_use_loop hs ev appended s'
           | (Inr (Some v), s') \<Rightarrow> post_tool_use_loop hs ev
               (if truthy (rv_appended_context v) then appended @ [the (rv_appended_context v)] else appended) s'))"

definition emit_post_tool_use ::
  "'s hook_handler list \<Rightarrow> tool_result_event \<Rightarrow> 's \<Rightarrow> (raised + tool_result_verdict option) \<times> 's" where
  "emit_post_tool_use hs ev s = post_tool_use_loop hs ev [] s"

fun observe_loop :: "('h \<Rightarrow> ('s, 'e, unit) hook option) \<Rightarrow> 'h list \<Rightarrow> 'e \<Rightarrow> 's \<Rightarrow> (raised + unit) \<times> 's" where
  "observe_loop sel [] ev s = (Inr (), s)"
| "observe_loop sel (h # hs) ev s =
     (case sel h of
        None \<Rightarrow> observe_loop sel hs ev s
      | Some f \<Rightarrow>
          (case f ev s of
             (Inl (Exn _), s') \<Rightarrow> observe_loop sel hs ev s'
           | (Inl err, s') \<Rightarrow> (Inl err, s')
           | (Inr _, s') \<Rightarrow> observe_loop sel hs ev s'))"

definition emit_post_tool_use_failure ::
  "'s hook_handler list \<Rightarrow> tool_result_event \<Rightarrow> 's \<Rightarrow> (raised + unit) \<times> 's" where
  "emit_post_tool_use_failure hs ev s = observe_loop on_post_tool_use_failure hs ev s"

definition emit_pre_compact :: "'s hook_handler list \<Rightarrow> compaction_event \<Rightarrow> 's \<Rightarrow> (raised + unit) \<times> 's" where
  "emit_pre_compact hs ev s = observe_loop on_pre_compact hs ev s"

definition emit_stop :: "'s hook_handler list \<Rightarrow> stop_event \<Rightarrow> 's \<Rightarrow> (raised + unit) \<times> 's" where
  "emit_stop hs ev s = observe_loop on_stop hs ev s"

section \<open>The bridges\<close>

text \<open>What the Claude SDK is told about a tool call.\<close>

datatype claude_reply = NoOpinion | Deny string | UpdatedInput params

definition or_reason :: "string option \<Rightarrow> string \<Rightarrow> string" where
  "or_reason r dflt = (if truthy r then the r else dflt)"

definition claude_pre_tool_use ::
  "'s hook_handler list \<Rightarrow> string \<Rightarrow> params \<Rightarrow> string \<Rightarrow> 's \<Rightarrow> (raised + claude_reply) \<times> 's" where
  "claude_pre_tool_use hs name input callid s =
     (case emit_pre_tool_use hs \<lparr>te_tool_name = name, te_tool_input = input, te_tool_call_id = callid\<rparr> s of
        (Inl (Exn err), s') \<Rightarrow> (Inr (Deny (''Hook system error: '' @ err)), s')
      | (Inl err, s') \<Rightarrow> (Inl err, s')
      | (Inr None, s') \<Rightarrow> (Inr NoOpinion, s')
      | (Inr (Some v), s') \<Rightarrow>
          (Inr (if tv_block v then Deny (or_reason (tv_reason v) ''Tool call blocked by hook'')
                else case tv_modified_input v of Some i \<Rightarrow> UpdatedInput i | None \<Rightarrow> NoOpinion), s'))"

text \<open>The same on Pi, which has no way to change the input: \<open>None\<close> lets the call run as it is.\<close>

definition pi_handle_tool_call ::
  "'s hook_handler list \<Rightarrow> string \<Rightarrow> params \<Rightarrow> string \<Rightarrow> 's \<Rightarrow> (raised + string option) \<times> 's" where
  "pi_handle_tool_call hs name input callid s =
     (case emit_pre_tool_use hs \<lparr>te_tool_name = name, te_tool_input = input, te_tool_call_id = callid\<rparr> s of
        (Inl (Exn err), s') \<Rightarrow> (Inr (Some (''Hook system error: '' @ err)), s')
      | (Inl err, s') \<Rightarrow> (Inl err, s')
      | (Inr None, s') \<Rightarrow> (Inr None, s')
      | (Inr (Some v), s') \<Rightarrow>
          (Inr (if tv_block v then Some (or_reason (tv_reason v) ''Tool call blocked by hook'') else None), s'))"

text \<open>The text of a tool response and whether it is an error.\<close>

definition block_texts :: "json list \<Rightarrow> string" where
  "block_texts bs =
     concat (map (\<lambda>b. case b of
        JObj kvs \<Rightarrow> (case obj_get kvs ''text'' of Some (JStr t) \<Rightarrow> t | _ \<Rightarrow> [])
      | JStr t \<Rightarrow> t
      | _ \<Rightarrow> []) bs)"

definition json_truthy :: "json option \<Rightarrow> bool" where
  "json_truthy v = (case v of None \<Rightarrow> False | Some j \<Rightarrow> py_bool j)"

fun tool_response_text :: "json \<Rightarrow> string \<times> bool" where
  "tool_response_text (JStr t) = (t, False)"
| "tool_response_text (JObj r) =
     (let is_error = json_truthy (obj_get r ''isError'') \<or> json_truthy (obj_get r ''is_error'') in
      case obj_get r ''content'' of
        Some (JList bs) \<Rightarrow> (block_texts bs, is_error)
      | Some (JStr t) \<Rightarrow> (t, is_error)
      | _ \<Rightarrow> ([], is_error))"
| "tool_response_text (JList bs) = (block_texts bs, False)"
| "tool_response_text _ = ([], False)"

text \<open>\<open>post_tool_use\<close> of the Claude bridge: the additional context, if any.\<close>

definition claude_post_tool_use ::
  "'s hook_handler list \<Rightarrow> string \<Rightarrow> params \<Rightarrow> json \<Rightarrow> string \<Rightarrow> 's \<Rightarrow> (raised + string option) \<times> 's" where
  "claude_post_tool_use hs name input response callid s =
     (let (txt, is_error) = tool_response_text response;
          ev = \<lparr>tr_tool_name = name, tr_tool_input = input, tr_tool_result = txt, tr_is_error = is_error,
                tr_tool_call_id = callid\<rparr>
      in
      if is_error then
        (case emit_post_tool_use_failure hs ev s of
           (Inl err, s') \<Rightarrow> (Inl err, s')
         | (Inr _, s') \<Rightarrow> (Inr None, s'))
      else
        (case emit_post_tool_use hs ev s of
           (Inl err, s') \<Rightarrow> (Inl err, s')
         | (Inr None, s') \<Rightarrow> (Inr None, s')
         | (Inr (Some v), s') \<Rightarrow> (Inr (or_none (rv_appended_context v)), s')))"

text \<open>A prompt is blocked with a reason, extended, or left alone.\<close>

datatype prompt_reply = PromptAsIs | PromptBlocked string | PromptContext string

definition claude_user_prompt_submit ::
  "'s hook_handler list \<Rightarrow> string \<Rightarrow> 's \<Rightarrow> (raised + prompt_reply) \<times> 's" where
  "claude_user_prompt_submit hs prompt s =
     (case emit_user_prompt_submit hs \<lparr>ue_prompt = prompt\<rparr> s of
        (Inl (Exn err), s') \<Rightarrow> (Inr (PromptBlocked (''Hook system error: '' @ err)), s')
      | (Inl err, s') \<Rightarrow> (Inl err, s')
      | (Inr None, s') \<Rightarrow> (Inr PromptAsIs, s')
      | (Inr (Some v), s') \<Rightarrow>
          (Inr (if uv_block v then PromptBlocked (or_reason (uv_reason v) ''Prompt blocked by hook'')
                else if truthy (uv_appended_context v) then PromptContext (the (uv_appended_context v))
                else PromptAsIs), s'))"

text \<open>\<open>_apply_user_prompt_hook\<close> of the Pi backend: the text to send, \<open>Inl\<close> the reason of the block it reports.\<close>

definition pi_apply_user_prompt_hook ::
  "'s hook_handler list \<Rightarrow> string \<Rightarrow> 's \<Rightarrow> (raised + (string + string)) \<times> 's" where
  "pi_apply_user_prompt_hook hs txt s =
     (case emit_user_prompt_submit hs \<lparr>ue_prompt = txt\<rparr> s of
        (Inl (Exn err), s') \<Rightarrow> (Inr (Inl (''Hook system error: '' @ err)), s')
      | (Inl err, s') \<Rightarrow> (Inl err, s')
      | (Inr None, s') \<Rightarrow> (Inr (Inr txt), s')
      | (Inr (Some v), s') \<Rightarrow>
          (Inr (if uv_block v then Inl (or_reason (uv_reason v) ''Prompt blocked by hook'')
                else if truthy (uv_appended_context v)
                then Inr (the (uv_appended_context v) @ [CHR 0x0A, CHR 0x0A] @ txt)
                else Inr txt), s'))"

end
