(* ===== verification/Mcp_Naming.thy ===== *)
theory Mcp_Naming
  imports Approval_Policy
begin

text \<open>
  The names under which the model sees MCP tools, and what the gates read back from them:
  \<^verbatim>\<open>src/src/pi/mcp_naming.py\<close>, \<open>parse_mcp_tool_name\<close> of
  \<^verbatim>\<open>src/src/agent_runner/hooks/handlers/approval.py\<close>, the reversibility table of
  \<^verbatim>\<open>src/src/rolemesh/safety/tool_reversibility.py\<close> with \<open>ToolContext.get_tool_reversibility\<close>, and
  the pattern for server names of \<^verbatim>\<open>src/src/webui/schemas_v1.py\<close>.

  The registry of aliases is explicit state; SHA-1 in hexadecimal is an argument.
\<close>

section \<open>Splitting strings\<close>

text \<open>\<open>s.partition(sep)\<close> for a non-empty separator.\<close>

fun str_partition :: "string \<Rightarrow> string \<Rightarrow> string \<times> string \<times> string" where
  "str_partition sep [] = ([], [], [])"
| "str_partition sep (c # cs) =
     (if is_prefix_of sep (c # cs) then ([], sep, drop (length sep) (c # cs))
      else (let (a, m, r) = str_partition sep cs in (c # a, m, r)))"

lemma str_partition_length: "length (snd (snd (str_partition sep s))) \<le> length s - length (fst (snd (str_partition sep s)))"
proof (induction s)
  case (Cons c cs)
  then show ?case by (cases "str_partition sep cs") auto
qed simp

lemma str_partition_shorter: "str_partition sep s = (a, m # ms, r) \<Longrightarrow> length r < length s"
  using str_partition_length [of sep s] by (cases s) auto

text \<open>\<open>s.count(sep)\<close>: occurrences that do not overlap, from the left.\<close>

function str_count :: "string \<Rightarrow> string \<Rightarrow> nat" where
  "str_count sep s =
     (case str_partition sep s of
        (a, [], r) \<Rightarrow> 0
      | (a, m # ms, r) \<Rightarrow> Suc (str_count sep r))"
  by pat_completeness auto
termination
  by (relation "measure (\<lambda>(sep, s). length s)") (auto dest!: sym [of _ "str_partition _ _"] str_partition_shorter)

declare str_count.simps [simp del]

text \<open>\<open>"__"\<close>\<close>

definition dunder :: string where
  "dunder = ''__''"

lemma str_partition_found:
  assumes "\<not> is_substr dunder s" "s = [] \<or> last s \<noteq> CHR ''_''"
  shows "str_partition dunder (s @ dunder @ r) = (s, dunder, r)"
  using assms
proof (induction s)
  case Nil
  then show ?case by (simp add: dunder_def)
next
  case (Cons c s)
  have IH: "str_partition dunder (s @ dunder @ r) = (s, dunder, r)"
    using Cons by (auto simp: dunder_def split: if_splits)
  have "\<not> is_prefix_of dunder (c # s @ dunder @ r)"
    using Cons.prems by (cases s) (auto simp: dunder_def)
  then show ?case using IH by (simp add: dunder_def)
qed

lemma str_count_found: "str_partition dunder s = (a, dunder, r) \<Longrightarrow> str_count dunder s = Suc (str_count dunder r)"
  by (subst str_count.simps) (simp add: dunder_def)

lemma str_partition_join:
  "str_partition sep s = (a, m, r) \<Longrightarrow> m \<noteq> [] \<Longrightarrow> sep \<noteq> [] \<Longrightarrow> s = a @ sep @ r"
proof (induction s arbitrary: a)
  case (Cons c cs)
  show ?case
  proof (cases "is_prefix_of sep (c # cs)")
    case True
    then show ?thesis using Cons.prems by (auto simp: is_prefix_of_iff)
  next
    case False
    obtain a' m' r' where p: "str_partition sep cs = (a', m', r')" by (cases "str_partition sep cs")
    then show ?thesis using Cons.IH [of a'] Cons.prems False by auto
  qed
qed auto

section \<open>Composing and restoring names\<close>

definition tool_name_max :: nat where
  "tool_name_max = 64"

definition hash_len :: nat where
  "hash_len = 7"

definition legal_char :: "char \<Rightarrow> bool" where
  "legal_char c =
     (let n = of_char c :: nat in
      (48 \<le> n \<and> n \<le> 57) \<or> (65 \<le> n \<and> n \<le> 90) \<or> (97 \<le> n \<and> n \<le> 122) \<or> n = 95 \<or> n = 45)"

text \<open>The registry of aliases: server name and alias to the remote tool name.\<close>

type_synonym alias_registry = "(string \<times> string, string) dict"

definition mcp_prefix :: "string \<Rightarrow> string" where
  "mcp_prefix server = ''mcp__'' @ server @ ''__''"

text \<open>\<open>Inl\<close> is the \<open>ValueError\<close> for a server name that leaves no room.\<close>

definition compose_llm_tool_name ::
  "(string \<Rightarrow> string) \<Rightarrow> string \<Rightarrow> string \<Rightarrow> alias_registry \<Rightarrow> unit + string \<times> alias_registry" where
  "compose_llm_tool_name sha1_hex server remote reg =
     (let prefix = mcp_prefix server;
          plain = prefix @ remote;
          budget = int tool_name_max - int (length prefix)
      in
      if budget < int hash_len + 2 then Inl ()
      else
        (let seg = map (\<lambda>c. if legal_char c then c else CHR ''_'') remote in
         if seg = remote \<and> length plain \<le> tool_name_max then Inr (plain, reg)
         else
           (let digest = take hash_len (sha1_hex plain);
                short = take (nat (budget - int hash_len - 1)) seg @ ''_'' @ digest
            in Inr (prefix @ short, dict_set reg (server, short) remote))))"

definition restore_bare_tool_name :: "alias_registry \<Rightarrow> string \<Rightarrow> string \<Rightarrow> string" where
  "restore_bare_tool_name reg server bare = (case dict_get reg (server, bare) of None \<Rightarrow> bare | Some t \<Rightarrow> t)"

definition parse_mcp_tool_name :: "alias_registry \<Rightarrow> string \<Rightarrow> (string \<times> string) option" where
  "parse_mcp_tool_name reg name =
     (if \<not> is_prefix_of ''mcp__'' name then None
      else
        (let (server, sep, tool) = str_partition dunder (drop 5 name) in
         if sep = [] \<or> server = [] \<or> tool = [] then None
         else Some (server, restore_bare_tool_name reg server tool)))"

text \<open>The pattern the API demands of a server name, at most 20 characters.\<close>

definition server_name_ok :: "string \<Rightarrow> bool" where
  "server_name_ok s =
     (s \<noteq> [] \<and> length s \<le> 20 \<and>
      (let n = of_char (hd s) :: nat in (65 \<le> n \<and> n \<le> 90) \<or> (97 \<le> n \<and> n \<le> 122)) \<and>
      list_all legal_char (tl s))"

section \<open>Reversibility\<close>

definition builtin_reversibility :: "(string, bool) dict" where
  "builtin_reversibility =
     [(''Read'', True), (''Grep'', True), (''Glob'', True), (''WebFetch'', True), (''WebSearch'', True),
      (''TodoRead'', True), (''Edit'', False), (''Write'', False), (''MultiEdit'', False), (''Bash'', False),
      (''NotebookEdit'', False), (''TodoWrite'', False), (''Task'', False)]"

definition get_tool_reversibility :: "string \<Rightarrow> (string, bool) dict option \<Rightarrow> bool" where
  "get_tool_reversibility name overrides =
     (case dict_get builtin_reversibility name of
        Some b \<Rightarrow> b
      | None \<Rightarrow>
          (case overrides of
             None \<Rightarrow> False
           | Some m \<Rightarrow> (case dict_get m name of None \<Rightarrow> False | Some b \<Rightarrow> b)))"

definition resolve_from_full_tool_name :: "string \<Rightarrow> (string, (string, bool) dict) dict \<Rightarrow> bool" where
  "resolve_from_full_tool_name full maps =
     (if is_prefix_of ''mcp__'' full \<and> 2 \<le> str_count dunder full then
        (let (x, y, rest) = str_partition dunder full;
             (server, z, bare) = str_partition dunder rest
         in get_tool_reversibility bare (dict_get maps server))
      else get_tool_reversibility full None)"

text \<open>\<open>ToolContext.get_tool_reversibility\<close>\<close>

definition ctx_tool_reversibility ::
  "alias_registry \<Rightarrow> (string, (string, bool) dict) dict \<Rightarrow> string \<Rightarrow> bool" where
  "ctx_tool_reversibility reg maps name =
     resolve_from_full_tool_name
       (case parse_mcp_tool_name reg name of
          None \<Rightarrow> name
        | Some (server, tool) \<Rightarrow> ''mcp__'' @ server @ ''__'' @ tool) maps"

section \<open>What the gates read back\<close>

text \<open>A server name that the separator cannot split.\<close>

definition splits_cleanly :: "string \<Rightarrow> bool" where
  "splits_cleanly s = (s \<noteq> [] \<and> \<not> is_substr dunder s \<and> last s \<noteq> CHR ''_'')"

lemma parse_prefixed:
  assumes "splits_cleanly server" "tool \<noteq> []"
  shows "parse_mcp_tool_name reg (mcp_prefix server @ tool) = Some (server, restore_bare_tool_name reg server tool)"
proof -
  have "str_partition dunder (server @ dunder @ tool) = (server, dunder, tool)"
    using assms(1) by (intro str_partition_found) (auto simp: splits_cleanly_def)
  then show ?thesis
    using assms by (simp add: parse_mcp_tool_name_def mcp_prefix_def dunder_def splits_cleanly_def)
qed

lemma compose_cases:
  assumes "compose_llm_tool_name sha1_hex server tool reg = Inr (name, reg')"
  obtains
    (plain) "name = mcp_prefix server @ tool" "reg' = reg" "list_all legal_char tool"
      "length name \<le> tool_name_max"
  | (aliased) n where "name = mcp_prefix server @ take n (map (\<lambda>c. if legal_char c then c else CHR ''_'') tool)
        @ ''_'' @ take hash_len (sha1_hex (mcp_prefix server @ tool))"
      "reg' = dict_set reg (server, take n (map (\<lambda>c. if legal_char c then c else CHR ''_'') tool)
        @ ''_'' @ take hash_len (sha1_hex (mcp_prefix server @ tool))) tool"
      "length (mcp_prefix server) + n + 8 = tool_name_max"
proof (cases "map (\<lambda>c. if legal_char c then c else CHR ''_'') tool = tool \<and>
    length (mcp_prefix server @ tool) \<le> tool_name_max")
  case True
  have "legal_char c" if "c \<in> set tool" for c
  proof -
    have "(if legal_char c then c else CHR ''_'') = c"
      using True that map_eq_conv [of "\<lambda>c. if legal_char c then c else CHR ''_''" tool id] by auto
    then show ?thesis by (auto simp: legal_char_def split: if_splits)
  qed
  then show thesis
    using True assms
    by (intro plain) (auto simp: compose_llm_tool_name_def Let_def list_all_iff split: if_splits)
next
  case False
  define n where "n = nat (int tool_name_max - int (length (mcp_prefix server)) - int hash_len - 1)"
  have "int hash_len + 2 \<le> int tool_name_max - int (length (mcp_prefix server))"
    using assms by (auto simp: compose_llm_tool_name_def Let_def split: if_splits)
  then have "length (mcp_prefix server) + n + 8 = tool_name_max" by (simp add: n_def hash_len_def)
  with False assms show thesis
    by (intro aliased [of n]) (auto simp: compose_llm_tool_name_def Let_def n_def split: if_splits)
qed

lemma resolve_prefixed:
  assumes "splits_cleanly server"
  shows "resolve_from_full_tool_name (''mcp__'' @ server @ ''__'' @ tool) maps =
    get_tool_reversibility tool (dict_get maps server)"
proof -
  have 1: "str_partition dunder (''mcp__'' @ server @ ''__'' @ tool) = (''mcp'', dunder, server @ ''__'' @ tool)"
    using str_partition_found [of "''mcp''" "server @ ''__'' @ tool"] by (simp add: dunder_def)
  have 2: "str_partition dunder (server @ ''__'' @ tool) = (server, dunder, tool)"
    using str_partition_found [of server tool] assms by (auto simp: splits_cleanly_def dunder_def)
  have "str_count dunder (''mcp__'' @ server @ ''__'' @ tool) = Suc (str_count dunder (server @ ''__'' @ tool))"
    using str_count_found [OF 1] by simp
  moreover have "str_count dunder (server @ ''__'' @ tool) = Suc (str_count dunder tool)"
    using str_count_found [OF 2] by simp
  ultimately have "2 \<le> str_count dunder (''mcp__'' @ server @ ''__'' @ tool)" by simp
  then show ?thesis using 1 2 by (simp add: resolve_from_full_tool_name_def)
qed

lemma parse_composed:
  assumes "compose_llm_tool_name sha1_hex server tool reg = Inr (name, reg')" "splits_cleanly server" "tool \<noteq> []"
  obtains seg where "name = mcp_prefix server @ seg"
    "\<And>r. parse_mcp_tool_name r name = Some (server, restore_bare_tool_name r server seg)"
    "seg = tool \<and> reg' = reg \<or> reg' = dict_set reg (server, seg) tool"
  using assms(1)
proof (cases rule: compose_cases)
  case plain
  then show ?thesis using that parse_prefixed [OF assms(2,3)] by simp
next
  case (aliased n)
  then show ?thesis using that parse_prefixed [OF assms(2)] by simp
qed

text \<open>The tools of a coworker's servers, composed one after the other as they are loaded.\<close>

fun compose_all ::
  "(string \<Rightarrow> string) \<Rightarrow> (string \<times> string) list \<Rightarrow> alias_registry \<Rightarrow> unit + string list \<times> alias_registry" where
  "compose_all sha1_hex [] reg = Inr ([], reg)"
| "compose_all sha1_hex ((server, tool) # tools) reg =
     (case compose_llm_tool_name sha1_hex server tool reg of
        Inl _ \<Rightarrow> Inl ()
      | Inr (name, reg') \<Rightarrow>
          (case compose_all sha1_hex tools reg' of
             Inl _ \<Rightarrow> Inl ()
           | Inr (names, reg'') \<Rightarrow> Inr (name # names, reg'')))"

text \<open>Composing writes only entries under the names it returns.\<close>

lemma compose_all_keeps:
  "compose_all sha1_hex tools reg = Inr (names, reg') \<Longrightarrow> list_all (\<lambda>(s, t). splits_cleanly s \<and> t \<noteq> []) tools \<Longrightarrow>
   mcp_prefix server @ seg \<notin> set names \<Longrightarrow> dict_get reg' (server, seg) = dict_get reg (server, seg)"
proof (induction sha1_hex tools reg arbitrary: names rule: compose_all.induct)
  case (2 sha1_hex s t tools reg)
  obtain name reg1 where c: "compose_llm_tool_name sha1_hex s t reg = Inr (name, reg1)"
    using "2.prems"(1) by (auto split: sum.splits)
  obtain ns where ns: "compose_all sha1_hex tools reg1 = Inr (ns, reg')" "names = name # ns"
    using "2.prems"(1) c by (auto split: sum.splits)
  have ok: "splits_cleanly s" "t \<noteq> []" "list_all (\<lambda>(s, t). splits_cleanly s \<and> t \<noteq> []) tools" using "2.prems"(2) by simp_all
  have "dict_get reg' (server, seg) = dict_get reg1 (server, seg)"
    using "2.IH" [OF c refl ns(1) ok(3)] "2.prems"(3) ns(2) by simp
  moreover obtain sg where "name = mcp_prefix s @ sg" "sg = t \<and> reg1 = reg \<or> reg1 = dict_set reg (s, sg) t"
    using parse_composed [OF c ok(1,2)] by metis
  then have "dict_get reg1 (server, seg) = dict_get reg (server, seg)" using "2.prems"(3) ns(2) by auto
  ultimately show ?case by simp
qed simp

lemma compose_all_reads:
  "compose_all sha1_hex tools reg = Inr (names, reg') \<Longrightarrow> list_all (\<lambda>(s, t). splits_cleanly s \<and> t \<noteq> []) tools \<Longrightarrow>
   distinct names \<Longrightarrow> (\<And>s seg. mcp_prefix s @ seg \<in> set names \<Longrightarrow> dict_get reg (s, seg) = None) \<Longrightarrow>
   list_all2 (\<lambda>name st. parse_mcp_tool_name reg' name = Some st \<and> splits_cleanly (fst st)) names tools"
proof (induction sha1_hex tools reg arbitrary: names rule: compose_all.induct)
  case (2 sha1_hex s t tools reg)
  obtain name reg1 where c: "compose_llm_tool_name sha1_hex s t reg = Inr (name, reg1)"
    using "2.prems"(1) by (auto split: sum.splits)
  obtain ns where ns: "compose_all sha1_hex tools reg1 = Inr (ns, reg')" "names = name # ns"
    using "2.prems"(1) c by (auto split: sum.splits)
  have ok: "splits_cleanly s" "t \<noteq> []" "list_all (\<lambda>(s, t). splits_cleanly s \<and> t \<noteq> []) tools" using "2.prems"(2) by simp_all
  obtain seg where seg: "name = mcp_prefix s @ seg"
    "\<And>r. parse_mcp_tool_name r name = Some (s, restore_bare_tool_name r s seg)"
    "seg = t \<and> reg1 = reg \<or> reg1 = dict_set reg (s, seg) t"
    using parse_composed [OF c ok(1,2)] by blast
  have new: "mcp_prefix s @ seg \<notin> set ns" using "2.prems"(3) ns(2) seg(1) by simp
  have "dict_get reg (s, seg) = None" using "2.prems"(4) [of s seg] ns(2) seg(1) by simp
  then have "restore_bare_tool_name reg' s seg = t"
    using compose_all_keeps [OF ns(1) ok(3) new] seg(3) by (auto simp: restore_bare_tool_name_def)
  moreover have "dict_get reg1 (s', seg') = None" if "mcp_prefix s' @ seg' \<in> set ns" for s' seg'
  proof -
    have "(s', seg') \<noteq> (s, seg)" using that new by auto
    then have "dict_get reg1 (s', seg') = dict_get reg (s', seg')" using seg(3) by auto
    then show ?thesis using "2.prems"(4) [of s' seg'] that ns(2) by simp
  qed
  then have "list_all2 (\<lambda>name st. parse_mcp_tool_name reg' name = Some st \<and> splits_cleanly (fst st)) ns tools"
    using "2.IH" [OF c refl ns(1) ok(3)] "2.prems"(3) ns(2) by simp
  ultimately show ?case using seg(2) ns(2) ok(1) by simp
qed simp

text \<open>C29. What the gates read back from a tool's name is the tool: when all the tools of a process have been composed,
  in whatever order, from an empty registry, no two got the same name, and the name of every server
  is one the separator cannot split (no double underscore in it and no underscore at its end, which
  the API does not demand), then the approval gate parses every name the model was given, aliased or
  not, into its server and the original tool name, and the reversibility lookup uses the entry of
  that tool.\<close>

theorem tool_name_roundtrip:
  assumes "compose_all sha1_hex tools [] = Inr (names, reg)" "distinct names"
    and "list_all (\<lambda>(s, t). splits_cleanly s \<and> t \<noteq> []) tools"
  shows "list_all2 (\<lambda>name (server, tool). parse_mcp_tool_name reg name = Some (server, tool) \<and>
      ctx_tool_reversibility reg maps name = get_tool_reversibility tool (dict_get maps server)) names tools"
proof (rule list_all2_mono)
  show "list_all2 (\<lambda>name st. parse_mcp_tool_name reg name = Some st \<and> splits_cleanly (fst st)) names tools"
    by (rule compose_all_reads [OF assms(1,3,2)]) (simp add: dict_get_def)
  fix name st assume "parse_mcp_tool_name reg name = Some st \<and> splits_cleanly (fst st)"
  then show "case st of (server, tool) \<Rightarrow> parse_mcp_tool_name reg name = Some (server, tool) \<and>
      ctx_tool_reversibility reg maps name = get_tool_reversibility tool (dict_get maps server)"
    by (cases st) (simp add: ctx_tool_reversibility_def resolve_prefixed [simplified])
qed

text \<open>A stand-in for the digest.\<close>

definition demo_sha1 :: "string \<Rightarrow> string" where
  "demo_sha1 s = ''da39a3ee5e6b4b0d3255bfef95601890afd80709''"

definition demo_tools :: "(string \<times> string) list" where
  "demo_tools = [(''pay'', ''re.fund''), (''pay'', ''charge'')]"

theorem tool_name_roundtrip_witness:
  "parse_mcp_tool_name [((''pay'', ''re_fund_da39a3e''), ''re.fund'')] ''mcp__pay__re_fund_da39a3e'' =
     Some (''pay'', ''re.fund'') \<and>
   ctx_tool_reversibility [((''pay'', ''re_fund_da39a3e''), ''re.fund'')] [(''pay'', [(''re.fund'', True)])]
     ''mcp__pay__re_fund_da39a3e'' =
   get_tool_reversibility ''re.fund'' (dict_get [(''pay'', [(''re.fund'', True)])] ''pay'')"
proof -
  have 1: "compose_all demo_sha1 demo_tools [] =
      Inr ([''mcp__pay__re_fund_da39a3e'', ''mcp__pay__charge''], [((''pay'', ''re_fund_da39a3e''), ''re.fund'')])" by code_simp
  have 2: "distinct [''mcp__pay__re_fund_da39a3e'', ''mcp__pay__charge'']" by simp
  have 3: "list_all (\<lambda>(s, t). splits_cleanly s \<and> t \<noteq> []) demo_tools" by code_simp
  from tool_name_roundtrip [OF 1 2 3, of "[(''pay'', [(''re.fund'', True)])]"] show ?thesis
    by (simp add: demo_tools_def)
qed

text \<open>Every name shown to the model keeps the contract: for a server name the API accepts, composing never
  fails, and the name starts with the server's prefix, is at most 64 characters long and uses only
  letters, digits, underscore and hyphen, provided the digest does.\<close>

theorem tool_name_contract:
  assumes "server_name_ok server" "list_all legal_char (sha1_hex (mcp_prefix server @ tool))"
  shows "\<exists>name reg'. compose_llm_tool_name sha1_hex server tool reg = Inr (name, reg') \<and>
    length name \<le> tool_name_max \<and> list_all legal_char name \<and> is_prefix_of (mcp_prefix server) name"
proof -
  have "length (mcp_prefix server) \<le> 27" using assms(1) by (simp add: server_name_ok_def mcp_prefix_def)
  then have "compose_llm_tool_name sha1_hex server tool reg \<noteq> Inl ()"
    by (simp add: compose_llm_tool_name_def Let_def hash_len_def tool_name_max_def)
  then obtain name reg' where c: "compose_llm_tool_name sha1_hex server tool reg = Inr (name, reg')"
    by (cases "compose_llm_tool_name sha1_hex server tool reg") auto
  have "legal_char (hd server)" "list_all legal_char (tl server)" "server \<noteq> []"
    using assms(1) by (auto simp: server_name_ok_def legal_char_def Let_def)
  then have "list_all legal_char server" by (cases server) auto
  moreover have "list_all legal_char ''mcp__''" "list_all legal_char ''__''" by code_simp+
  ultimately have pre: "list_all legal_char (mcp_prefix server)" by (simp add: mcp_prefix_def)
  from c show ?thesis
  proof (cases rule: compose_cases)
    case plain
    then show ?thesis using pre c by (auto simp: is_prefix_of_iff)
  next
    case (aliased n)
    have "legal_char (CHR ''_'')" by code_simp
    then have "list_all legal_char (take n (map (\<lambda>c. if legal_char c then c else CHR ''_'') tool))"
      by (auto simp: list_all_iff dest: in_set_takeD)
    moreover have "list_all legal_char (take hash_len (sha1_hex (mcp_prefix server @ tool)))"
      using assms(2) by (auto simp: list_all_iff dest: in_set_takeD)
    moreover have "length name \<le> tool_name_max" using aliased(1,3) by (simp add: hash_len_def)
    ultimately show ?thesis
      using c aliased(1) pre \<open>legal_char (CHR ''_'')\<close> by (auto simp: is_prefix_of_iff)
  qed
qed

theorem tool_name_contract_witness:
  "\<exists>name reg'. compose_llm_tool_name demo_sha1 ''pay'' ''re.fund'' [] = Inr (name, reg') \<and>
    length name \<le> tool_name_max \<and> list_all legal_char name \<and> is_prefix_of (mcp_prefix ''pay'') name"
  by (rule tool_name_contract) code_simp+

text \<open>A server name with two underscores in a row is cut at them.\<close>

lemma parse_cut_short:
  assumes "splits_cleanly a" "b @ ''__'' @ tool \<noteq> []"
  shows "\<exists>t. parse_mcp_tool_name reg (mcp_prefix (a @ ''__'' @ b) @ tool) = Some (a, t)"
  using parse_prefixed [OF assms, of reg] by (simp add: mcp_prefix_def)

end
