(* ===== verification/Py_Str.thy ===== *)
theory Py_Str
  imports Py_Json
begin

text \<open>
  Python's string operations that several components use: lower case, suffix test, splitting at a
  character, joining, decimal printing and \<open>int(s)\<close>. A character is a code point below 256.
\<close>

section \<open>Case, suffixes, splitting and joining\<close>

definition lower_char :: "char \<Rightarrow> char" where
  "lower_char c =
     (let n = of_char c :: nat in
      if (65 \<le> n \<and> n \<le> 90) \<or> (192 \<le> n \<and> n \<le> 222 \<and> n \<noteq> 215) then char_of (n + 32) else c)"

definition str_lower :: "string \<Rightarrow> string" where
  "str_lower s = map lower_char s"

definition ends_with :: "string \<Rightarrow> string \<Rightarrow> bool" where
  "ends_with s suf = is_prefix_of (rev suf) (rev s)"

lemma ends_with_iff: "ends_with s suf \<longleftrightarrow> (\<exists>l. s = l @ suf)"
proof
  assume "ends_with s suf"
  then obtain r where "rev s = rev suf @ r" by (auto simp: ends_with_def is_prefix_of_iff)
  then have "s = rev r @ suf" by (metis rev_append rev_rev_ident)
  then show "\<exists>l. s = l @ suf" by blast
qed (auto simp: ends_with_def is_prefix_of_iff)

text \<open>\<open>s.split(c)\<close> for a single character.\<close>

fun split_at :: "char \<Rightarrow> string \<Rightarrow> string list" where
  "split_at c [] = [[]]"
| "split_at c (x # xs) =
     (if x = c then [] # split_at c xs
      else (case split_at c xs of [] \<Rightarrow> [[x]] | p # ps \<Rightarrow> (x # p) # ps))"

text \<open>\<open>sep.join(xs)\<close>\<close>

definition join_with :: "string \<Rightarrow> string list \<Rightarrow> string" where
  "join_with sep xs = (case xs of [] \<Rightarrow> [] | y # ys \<Rightarrow> y @ concat (map (\<lambda>x. sep @ x) ys))"

section \<open>Decimal numbers\<close>

function show_nat :: "nat \<Rightarrow> string" where
  "show_nat n = (if n < 10 then [char_of (48 + n)] else show_nat (n div 10) @ [char_of (48 + n mod 10)])"
  by pat_completeness auto
termination
  by (relation "measure id") auto

definition show_int :: "int \<Rightarrow> string" where
  "show_int i = (if i < 0 then ''-'' @ show_nat (nat (- i)) else show_nat (nat i))"

text \<open>
  \<open>int(s)\<close> in base ten: surrounding white space, one sign, digits with single underscores between
  them; \<open>None\<close> for the \<open>ValueError\<close>. The argument \<open>us\<close> says that an underscore may come next.
\<close>

definition digit_of :: "char \<Rightarrow> nat option" where
  "digit_of c = (let n = of_char c :: nat in if 48 \<le> n \<and> n \<le> 57 then Some (n - 48) else None)"

fun int_digits :: "bool \<Rightarrow> nat \<Rightarrow> string \<Rightarrow> nat option" where
  "int_digits us acc [] = (if us then Some acc else None)"
| "int_digits us acc (c # cs) =
     (case digit_of c of
        Some d \<Rightarrow> int_digits True (10 * acc + d) cs
      | None \<Rightarrow> if c = CHR ''_'' \<and> us then int_digits False acc cs else None)"

definition int_of_str :: "string \<Rightarrow> int option" where
  "int_of_str s =
     (case str_strip s of
        [] \<Rightarrow> None
      | c # cs \<Rightarrow>
          if c = CHR ''-'' then map_option (\<lambda>n. - int n) (int_digits False 0 cs)
          else if c = CHR ''+'' then map_option int (int_digits False 0 cs)
          else map_option int (int_digits False 0 (c # cs)))"

text \<open>\<open>int(v)\<close> of a value, given the conversion of a string; \<open>None\<close> for the exception.\<close>

fun py_int :: "(string \<Rightarrow> int option) \<Rightarrow> json \<Rightarrow> int option" where
  "py_int f (JBool b) = Some (of_bool b)"
| "py_int f (JInt n) = Some n"
| "py_int f (JFloat r) = Some (if r < 0 then - \<lfloor>- r\<rfloor> else \<lfloor>r\<rfloor>)"
| "py_int f (JStr s) = f s"
| "py_int f _ = None"

section \<open>Splitting undoes joining; printed numbers are read back\<close>

lemma split_at_no_sep: "c \<notin> set s \<Longrightarrow> split_at c s = [s]"
  by (induction s) auto

lemma split_at_not_Nil [simp]: "split_at c s \<noteq> []"
  by (cases s) (auto split: list.splits)

lemma split_at_append: "c \<notin> set a \<Longrightarrow> split_at c (a @ c # s) = a # split_at c s"
  by (induction a) auto

lemma split_at_join:
  "xs \<noteq> [] \<Longrightarrow> \<forall>x \<in> set xs. c \<notin> set x \<Longrightarrow> split_at c (join_with [c] xs) = xs"
proof (induction xs)
  case (Cons x xs)
  show ?case
  proof (cases xs)
    case Nil
    then show ?thesis using Cons.prems by (simp add: join_with_def split_at_no_sep)
  next
    case (Cons y ys)
    then have "join_with [c] (x # xs) = x @ c # join_with [c] xs" by (simp add: join_with_def)
    then show ?thesis using Cons.IH Cons.prems Cons by (simp add: split_at_append)
  qed
qed simp

lemma join_with_Cons: "join_with sep (x # xs) = (if xs = [] then x else x @ sep @ join_with sep xs)"
  by (cases xs) (simp_all add: join_with_def)

lemma join_with_mem: "x \<in> set xs \<Longrightarrow> \<exists>l r. join_with sep xs = l @ x @ r"
proof (induction xs)
  case (Cons y ys)
  show ?case
  proof (cases "x = y")
    case True
    then have "join_with sep (y # ys) = [] @ x @ concat (map (\<lambda>z. sep @ z) ys)" by (simp add: join_with_def)
    then show ?thesis by blast
  next
    case False
    then obtain l r where "join_with sep ys = l @ x @ r" using Cons by auto
    then have "join_with sep (y # ys) = (y @ sep @ l) @ x @ r"
      using Cons.prems False by (auto simp: join_with_Cons)
    then show ?thesis by blast
  qed
qed simp

lemma is_substr_trans: "is_substr a b \<Longrightarrow> is_substr b c \<Longrightarrow> is_substr a c"
  unfolding is_substr_iff by (metis append_assoc)

lemma join_split: "join_with [c] (split_at c s) = s"
  by (induction s) (auto simp: join_with_Cons split: list.splits)

lemma split_at_substr: "x \<in> set (split_at c s) \<Longrightarrow> is_substr x s"
  unfolding is_substr_iff using join_with_mem [of x "split_at c s" "[c]"] by (simp add: join_split)

lemma digit_of_char:
  "n < 10 \<Longrightarrow> digit_of (char_of (48 + n)) = Some n" "n < 10 \<Longrightarrow> digit_of (char_of (n + 48)) = Some n"
  by (simp_all add: digit_of_def Let_def)

lemma int_digits_show:
  "int_digits us acc (show_nat n @ s) = int_digits True (acc * 10 ^ length (show_nat n) + n) s"
proof (induction n arbitrary: us acc s rule: show_nat.induct)
  case (1 n)
  show ?case
  proof (cases "n < 10")
    case True
    then have "show_nat n = [char_of (48 + n)]" by simp
    then show ?thesis using True by (simp add: digit_of_char algebra_simps del: show_nat.simps)
  next
    case False
    have "show_nat n = show_nat (n div 10) @ [char_of (48 + n mod 10)]"
      using False by (subst show_nat.simps) simp
    moreover have "10 * (n div 10) + n mod 10 = n" by simp
    ultimately show ?thesis using 1 False by (simp add: digit_of_char algebra_simps del: show_nat.simps)
  qed
qed

end
