(* ===== verification/Tool_Gate.thy ===== *)
theory Tool_Gate
  imports Hook_Registry Mcp_Naming Py_Str "HOL-Library.Char_ord" "HOL-Library.List_Lexorder"
begin

text \<open>
  The two gates in front of a tool call, and their wiring: \<open>ApprovalHookHandler\<close> of
  \<^verbatim>\<open>src/src/agent_runner/hooks/handlers/approval.py\<close>, \<open>SafetyHookHandler\<close> of
  \<^verbatim>\<open>src/src/agent_runner/safety/hook_handler.py\<close>, the snapshot of safety rules of
  \<^verbatim>\<open>src/src/rolemesh/safety/loader.py\<close>, and the part of \<open>run_query_loop\<close> in
  \<^verbatim>\<open>src/src/agent_runner/main.py\<close> that registers the handlers and routes decisions.

  The world a handler runs in has the two awaiters, each with the events that happen to it, the
  supply of request ids, the clock, the alias registry and the audit events published so far.
  Formats the gates only pass on (dates, the text that explains a condition that could not be
  evaluated, Python's \<open>str\<close> and \<open>int\<close> on strings) are arguments.
\<close>

section \<open>The world\<close>

record gate_world =
  gw_business :: awaiter
  gw_business_events :: "aw_event list"
  gw_safety :: awaiter
  gw_safety_events :: "aw_event list"
  gw_ids :: "string list"
  gw_now :: int
  gw_aliases :: alias_registry
  gw_audit :: "audit_event list"

record gate_env =
  ge_audit :: audit_env
  ge_isofmt :: "int \<Rightarrow> string"
  ge_rationale :: "eval_error \<Rightarrow> string"
  ge_int_of_str :: "string \<Rightarrow> int option"
  ge_parse_date :: "string \<Rightarrow> int option"

text \<open>\<open>id_factory()\<close>\<close>

definition next_id :: "gate_world \<Rightarrow> string" where
  "next_id w = (case gw_ids w of [] \<Rightarrow> [] | i # _ \<Rightarrow> i)"

definition business_await :: "gate_env \<Rightarrow> params \<Rightarrow> gate_world \<Rightarrow> (raised + approval_decision) \<times> gate_world" where
  "business_await ge body w =
     (let (r, rest, aw) = await_decision (ge_isofmt ge) (gw_now w) (next_id w) body (gw_business_events w) (gw_business w)
      in (r, w\<lparr>gw_business := aw, gw_business_events := rest, gw_ids := tl (gw_ids w)\<rparr>))"

definition safety_await :: "gate_env \<Rightarrow> params \<Rightarrow> gate_world \<Rightarrow> (raised + approval_decision) \<times> gate_world" where
  "safety_await ge body w =
     (let (r, rest, aw) = await_decision (ge_isofmt ge) (gw_now w) (next_id w) body (gw_safety_events w) (gw_safety w)
      in (r, w\<lparr>gw_safety := aw, gw_safety_events := rest, gw_ids := tl (gw_ids w)\<rparr>))"

section \<open>Optional strings\<close>

definition jopt :: "string option \<Rightarrow> json" where
  "jopt s = (case s of None \<Rightarrow> JNull | Some x \<Rightarrow> JStr x)"

section \<open>The approval handler\<close>

record approval_handler =
  ah_policies :: "approval_policy list"
  ah_tenant_id :: string
  ah_coworker_id :: string
  ah_conversation_id :: "string option"
  ah_user_id :: "string option"
  ah_timeout_ms :: int

definition action_summary :: "string \<Rightarrow> string \<Rightarrow> params \<Rightarrow> string" where
  "action_summary server tool ps =
     (let base = server @ ''.'' @ tool in
      if ps = [] then base else base @ ''('' @ join_with '', '' (take 5 (sort (map fst ps))) @ '')'')"

definition approval_body ::
  "approval_handler \<Rightarrow> string \<Rightarrow> string \<Rightarrow> params \<Rightarrow> approval_policy \<Rightarrow> string option \<Rightarrow> params" where
  "approval_body ah server tool ps p rationale =
     [(''tenant_id'', JStr (ah_tenant_id ah)), (''coworker_id'', JStr (ah_coworker_id ah)),
      (''conversation_id'', jopt (ah_conversation_id ah)), (''user_id'', jopt (ah_user_id ah)),
      (''policy_id'', JStr (p_id p)), (''mcp_server_name'', JStr server), (''tool_name'', JStr tool),
      (''params'', JObj ps), (''action_summary'', JStr (action_summary server tool ps)),
      (''rationale'', jopt rationale)]"

definition with_note :: "string \<Rightarrow> string option \<Rightarrow> string" where
  "with_note why memo = (if truthy memo then why @ '' Note: '' @ the memo else why)"

definition approval_await_decision ::
  "gate_env \<Rightarrow> approval_handler \<Rightarrow> string \<Rightarrow> string \<Rightarrow> params \<Rightarrow> approval_policy \<Rightarrow> string option \<Rightarrow> gate_world \<Rightarrow>
    (raised + tool_call_verdict option) \<times> gate_world" where
  "approval_await_decision ge ah server tool ps p rationale w =
     (case business_await ge (approval_body ah server tool ps p rationale) w of
        (Inl err, w') \<Rightarrow> (Inl err, w')
      | (Inr d, w') \<Rightarrow>
          (Inr (if ad_approved d then None
                else if ad_timed_out d then
                  Some (block_call (''Approval request for '' @ server @ ''.'' @ tool @ '' timed out after '' @
                    show_int (ah_timeout_ms ah div 1000) @ ''s without a decision; the tool call was not executed.''))
                else
                  Some (block_call (with_note (''Tool call '' @ server @ ''.'' @ tool @
                    '' was rejected by the approver.'') (ad_note d)))), w'))"

definition approval_on_pre_tool_use ::
  "gate_env \<Rightarrow> approval_handler \<Rightarrow> (gate_world, tool_call_event, tool_call_verdict option) hook" where
  "approval_on_pre_tool_use ge ah ev w =
     (case parse_mcp_tool_name (gw_aliases w) (te_tool_name ev) of
        None \<Rightarrow> (Inr None, w)
      | Some (server, tool) \<Rightarrow>
          (case find_matching_policy (ah_policies ah) server tool (te_tool_input ev) of
             None \<Rightarrow> (Inr None, w)
           | Some p \<Rightarrow>
               approval_await_decision ge ah server tool (te_tool_input ev) p
                 (map_option (ge_rationale ge)
                   (snd (evaluate_condition_explained (p_condition_expr p) (te_tool_input ev)))) w))"

text \<open>\<open>int(v or 0)\<close>, \<open>None\<close> for the exception.\<close>

fun py_int_or_zero :: "(string \<Rightarrow> int option) \<Rightarrow> json \<Rightarrow> int option" where
  "py_int_or_zero f JNull = Some 0"
| "py_int_or_zero f (JBool b) = Some (of_bool b)"
| "py_int_or_zero f (JInt n) = Some n"
| "py_int_or_zero f (JFloat r) = Some (if r < 0 then - \<lfloor>- r\<rfloor> else \<lfloor>r\<rfloor>)"
| "py_int_or_zero f (JStr s) = (if s = [] then Some 0 else f s)"
| "py_int_or_zero f (JList xs) = (if xs = [] then Some 0 else None)"
| "py_int_or_zero f (JObj kvs) = (if kvs = [] then Some 0 else None)"

text \<open>\<open>_parse_updated_at\<close>: anything that is not an ISO date counts as the epoch.\<close>

definition parse_updated_at :: "(string \<Rightarrow> int option) \<Rightarrow> json option \<Rightarrow> int" where
  "parse_updated_at f v =
     (case v of Some (JStr s) \<Rightarrow> (case f s of Some t \<Rightarrow> t | None \<Rightarrow> 0) | _ \<Rightarrow> 0)"

fun policy_of_row :: "gate_env \<Rightarrow> json \<Rightarrow> approval_policy option" where
  "policy_of_row ge (JObj item) =
     (let str = get_str (en_str (ge_audit ge)) item in
      map_option (\<lambda>prio.
        \<lparr>p_id = str ''id'' [], p_tenant_id = str ''tenant_id'' [], p_mcp_server_name = str ''mcp_server_name'' [],
         p_tool_name = str ''tool_name'' [],
         p_condition_expr = (case obj_get item ''condition_expr'' of Some (JObj c) \<Rightarrow> JObj c | _ \<Rightarrow> JObj []),
         p_enabled = (case obj_get item ''enabled'' of None \<Rightarrow> True | Some e \<Rightarrow> py_bool e),
         p_priority = prio, p_updated_at = parse_updated_at (ge_parse_date ge) (obj_get item ''updated_at''),
         p_created_at = None\<rparr>)
        (py_int_or_zero (ge_int_of_str ge) (case obj_get item ''priority'' of None \<Rightarrow> JInt 0 | Some v \<Rightarrow> v)))"
| "policy_of_row ge _ = None"

definition policies_from_snapshot :: "gate_env \<Rightarrow> json list option \<Rightarrow> approval_policy list" where
  "policies_from_snapshot ge raw =
     List.map_filter (policy_of_row ge) (case raw of None \<Rightarrow> [] | Some rows \<Rightarrow> rows)"

section \<open>The safety handler\<close>

record tool_context =
  tc_job_id :: string
  tc_tenant_id :: string
  tc_coworker_id :: string
  tc_conversation_id :: string
  tc_user_id :: string
  tc_tool_reversibility :: "(string, (string, bool) dict) dict"

record safety_handler =
  sh_rules :: "safety_rule list"
  sh_registry :: check_registry
  sh_tool_ctx :: tool_context
  sh_has_awaiter :: bool

definition build_context ::
  "tool_context \<Rightarrow> stage \<Rightarrow> (string \<times> json) list \<Rightarrow> tool_info option \<Rightarrow> safety_context" where
  "build_context tc st payload tool =
     \<lparr>cx_stage = st, cx_tenant_id = tc_tenant_id tc, cx_coworker_id = tc_coworker_id tc, cx_user_id = tc_user_id tc,
      cx_job_id = tc_job_id tc, cx_conversation_id = tc_conversation_id tc, cx_payload = payload, cx_tool = tool\<rparr>"

definition tool_of :: "safety_handler \<Rightarrow> string \<Rightarrow> gate_world \<Rightarrow> tool_info" where
  "tool_of sh name w =
     \<lparr>ti_name = name,
      ti_reversible = ctx_tool_reversibility (gw_aliases w) (tc_tool_reversibility (sh_tool_ctx sh)) name\<rparr>"

definition run_rules ::
  "gate_env \<Rightarrow> safety_handler \<Rightarrow> safety_context \<Rightarrow> gate_world \<Rightarrow> (raised + verdict) \<times> gate_world" where
  "run_rules ge sh ctx w =
     (case pipeline_run (ge_audit ge) (sh_rules sh) (sh_registry sh) ctx of
        (Inl err, audit) \<Rightarrow> (Inl (Exn err), w\<lparr>gw_audit := gw_audit w @ audit\<rparr>)
      | (Inr v, audit) \<Rightarrow> (Inr v, w\<lparr>gw_audit := gw_audit w @ audit\<rparr>))"

definition safety_body :: "safety_handler \<Rightarrow> string \<Rightarrow> string \<Rightarrow> params \<Rightarrow> verdict \<Rightarrow> params" where
  "safety_body sh server tool ps v =
     (let tc = sh_tool_ctx sh in
      [(''tenant_id'', JStr (tc_tenant_id tc)), (''coworker_id'', JStr (tc_coworker_id tc)),
       (''conversation_id'', jopt (nonempty (tc_conversation_id tc))), (''user_id'', jopt (nonempty (tc_user_id tc))),
       (''policy_id'', JNull), (''mcp_server_name'', JStr server), (''tool_name'', JStr tool), (''params'', JObj ps),
       (''action_summary'', JStr (tool @ '' held for approval by a safety rule'')), (''rationale'', jopt (v_reason v)),
       (''triggered_by'', JObj
         [(''kind'', JStr ''safety_rule''), (''rule_id'', JStr (or_reason (v_firing_rule_id v) [])),
          (''check_id'', JStr (or_reason (v_firing_check_id v) [])), (''stage'', JStr (stage_value PRE_TOOL_CALL))])])"

definition request_approval ::
  "gate_env \<Rightarrow> safety_handler \<Rightarrow> tool_call_event \<Rightarrow> verdict \<Rightarrow> gate_world \<Rightarrow>
    (raised + tool_call_verdict option) \<times> gate_world" where
  "request_approval ge sh ev v w =
     (let (server, tool) =
        (case parse_mcp_tool_name (gw_aliases w) (te_tool_name ev) of
           Some st \<Rightarrow> st | None \<Rightarrow> ([], te_tool_name ev))
      in
      case safety_await ge (safety_body sh server tool (te_tool_input ev) v) w of
        (Inl err, w') \<Rightarrow> (Inl err, w')
      | (Inr d, w') \<Rightarrow>
          (Inr (if ad_approved d then None
                else if ad_timed_out d then
                  Some (block_call (''Safety approval for '' @ tool @
                    '' timed out without a decision; the tool call was not executed.''))
                else Some (block_call (with_note (or_reason (v_reason v) ''Tool call blocked by a safety rule.'')
                       (ad_note d)))), w'))"

definition pre_tool_ctx :: "safety_handler \<Rightarrow> tool_call_event \<Rightarrow> gate_world \<Rightarrow> safety_context" where
  "pre_tool_ctx sh ev w =
     build_context (sh_tool_ctx sh) PRE_TOOL_CALL
       [(''tool_name'', JStr (te_tool_name ev)), (''tool_input'', JObj (te_tool_input ev))]
       (Some (tool_of sh (te_tool_name ev) w))"

definition redacted_input :: "verdict \<Rightarrow> params option" where
  "redacted_input v =
     (case v_modified_payload v of
        Some (JObj kvs) \<Rightarrow> (case obj_get kvs ''tool_input'' of Some (JObj i) \<Rightarrow> Some i | _ \<Rightarrow> None)
      | _ \<Rightarrow> None)"

definition safety_on_pre_tool_use ::
  "gate_env \<Rightarrow> safety_handler \<Rightarrow> (gate_world, tool_call_event, tool_call_verdict option) hook" where
  "safety_on_pre_tool_use ge sh ev w =
     (case run_rules ge sh (pre_tool_ctx sh ev w) w of
        (Inl err, w') \<Rightarrow> (Inl err, w')
      | (Inr v, w') \<Rightarrow>
          if v_action v = ''require_approval'' \<and> sh_has_awaiter sh then request_approval ge sh ev v w'
          else if v_action v \<in> {''block'', ''require_approval''} then
            (Inr (Some (block_call (or_reason (v_reason v) ''Blocked by safety policy''))), w')
          else if v_action v = ''redact'' then
            (Inr (map_option modify_call (redacted_input v)), w')
          else (Inr None, w'))"

definition safety_on_user_prompt_submit ::
  "gate_env \<Rightarrow> safety_handler \<Rightarrow> (gate_world, user_prompt_event, user_prompt_verdict option) hook" where
  "safety_on_user_prompt_submit ge sh ev w =
     (case run_rules ge sh (build_context (sh_tool_ctx sh) INPUT_PROMPT [(''prompt'', JStr (ue_prompt ev))] None) w of
        (Inl err, w') \<Rightarrow> (Inl err, w')
      | (Inr v, w') \<Rightarrow>
          (Inr (if v_action v \<in> {''block'', ''require_approval''} then
                  Some \<lparr>uv_block = True, uv_reason = Some (or_reason (v_reason v) ''Blocked by safety policy''),
                        uv_appended_context = None\<rparr>
                else if v_action v = ''redact'' then
                  Some \<lparr>uv_block = True, uv_reason = Some (or_reason (v_reason v)
                          ''Blocked: prompt matched redact rule on a stage that does not support redaction''),
                        uv_appended_context = None\<rparr>
                else if v_action v = ''warn'' \<and> truthy (v_appended_context v) then
                  Some \<lparr>uv_block = False, uv_reason = None, uv_appended_context = v_appended_context v\<rparr>
                else None), w'))"

definition post_tool_note :: "verdict \<Rightarrow> string option" where
  "post_tool_note v =
     (if v_action v \<in> {''block'', ''require_approval''} then
        Some (''[Tool result withheld by safety policy: '' @ or_reason (v_reason v) ''policy match'' @ '']'')
      else if v_action v = ''redact'' then
        (case v_modified_payload v of
           Some (JObj kvs) \<Rightarrow>
             (case obj_get kvs ''tool_result'' of
                Some (JStr t) \<Rightarrow> Some (''[Tool result redacted by safety policy: '' @ t @ '']'')
              | _ \<Rightarrow> Some ''[Tool result flagged for redaction by safety policy but could not be replaced on this hook]'')
         | _ \<Rightarrow> Some ''[Tool result flagged for redaction by safety policy but could not be replaced on this hook]'')
      else if v_action v = ''warn'' then or_none (v_appended_context v)
      else None)"

definition safety_on_post_tool_use ::
  "gate_env \<Rightarrow> safety_handler \<Rightarrow> (gate_world, tool_result_event, tool_result_verdict option) hook" where
  "safety_on_post_tool_use ge sh ev w =
     (case run_rules ge sh
             (build_context (sh_tool_ctx sh) POST_TOOL_RESULT
                [(''tool_name'', JStr (tr_tool_name ev)), (''tool_input'', JObj (tr_tool_input ev)),
                 (''tool_result'', JStr (tr_tool_result ev)), (''is_error'', JBool (tr_is_error ev))]
                (Some (tool_of sh (tr_tool_name ev) w))) w of
        (Inl err, w') \<Rightarrow> (Inl err, w')
      | (Inr v, w') \<Rightarrow> (Inr (map_option (\<lambda>c. \<lparr>rv_appended_context = Some c\<rparr>) (post_tool_note v)), w'))"

definition safety_on_pre_compact :: "gate_env \<Rightarrow> safety_handler \<Rightarrow> (gate_world, compaction_event, unit) hook" where
  "safety_on_pre_compact ge sh ev w =
     (case run_rules ge sh
             (build_context (sh_tool_ctx sh) PRE_COMPACTION
                [(''transcript_path'', jopt (ce_transcript_path ev)), (''messages'', JList (ce_messages ev))] None) w of
        (Inl err, w') \<Rightarrow> (Inl err, w')
      | (Inr v, w') \<Rightarrow> (Inr (), w'))"

section \<open>Wiring\<close>

text \<open>\<open>fetch_safety_rule_snapshots\<close>: the tenant's rules, then the platform's.\<close>

definition fetch_safety_rule_snapshots :: "safety_rule list \<Rightarrow> safety_rule list \<Rightarrow> safety_rule list" where
  "fetch_safety_rule_snapshots tenant_rules platform_rules = tenant_rules @ platform_rules"

text \<open>\<open>load_safety_rules_snapshot\<close>: the database read is its result, \<open>Inl\<close> for an unreachable database;
  the job aborts (\<open>Inl\<close>) or runs with the rules, if any.\<close>

definition load_safety_rules_snapshot ::
  "string \<Rightarrow> string + safety_rule list \<Rightarrow> string + safety_rule list option" where
  "load_safety_rules_snapshot fail_mode_setting fetched =
     (case fetched of
        Inl err \<Rightarrow> if fail_mode_setting = ''open'' then Inr None else Inl err
      | Inr rules \<Rightarrow> Inr (if rules = [] then None else Some rules))"

definition safety_hooks :: "gate_env \<Rightarrow> safety_handler \<Rightarrow> gate_world hook_handler" where
  "safety_hooks ge sh =
     \<lparr>on_pre_tool_use = Some (safety_on_pre_tool_use ge sh), on_post_tool_use = Some (safety_on_post_tool_use ge sh),
      on_post_tool_use_failure = None, on_pre_compact = Some (safety_on_pre_compact ge sh),
      on_user_prompt_submit = Some (safety_on_user_prompt_submit ge sh), on_stop = None\<rparr>"

definition approval_hooks :: "gate_env \<Rightarrow> approval_handler \<Rightarrow> gate_world hook_handler" where
  "approval_hooks ge ah = no_hooks\<lparr>on_pre_tool_use := Some (approval_on_pre_tool_use ge ah)\<rparr>"

definition maybe_register_safety_handler ::
  "gate_env \<Rightarrow> gate_world hook_handler list \<Rightarrow> safety_handler \<Rightarrow> gate_world hook_handler list" where
  "maybe_register_safety_handler ge hs sh =
     (if sh_rules sh = [] then hs else register_hook hs (safety_hooks ge sh))"

text \<open>The handlers of a run: the transcript archive, whose only hook is the one before a compaction, the
  safety handler, the approval handler.\<close>

definition build_hooks ::
  "gate_env \<Rightarrow> (gate_world, compaction_event, unit) hook \<Rightarrow> safety_handler \<Rightarrow> approval_handler \<Rightarrow>
    gate_world hook_handler list" where
  "build_hooks ge archive sh ah =
     (let hs = maybe_register_safety_handler ge (register_hook [] (no_hooks\<lparr>on_pre_compact := Some archive\<rparr>)) sh
      in if ah_policies ah = [] then hs else register_hook hs (approval_hooks ge ah))"

text \<open>\<open>_route_approval_decision\<close>: first the business hook, then the safety bridge, if they are there.\<close>

definition route_approval_decision ::
  "params \<Rightarrow> awaiter option \<Rightarrow> awaiter option \<Rightarrow> bool \<times> awaiter option \<times> awaiter option" where
  "route_approval_decision data b s =
     (case map_option (resolve_decision data) b of
        Some (True, b') \<Rightarrow> (True, Some b', s)
      | _ \<Rightarrow>
          (case map_option (resolve_decision data) s of
             Some (True, s') \<Rightarrow> (True, b, Some s')
           | _ \<Rightarrow> (False, b, s)))"

end
