(* ===== verification/Gate_Props.thy ===== *)
theory Gate_Props
  imports Tool_Gate
begin

text \<open>
  What the gates in front of a tool call guarantee, on either backend, and where they do not hold
  what the documentation says of them.
\<close>

section \<open>Messages\<close>

lemma obj_get_merge:
  "obj_get (dict_merge a b) k = (case map_of (rev b) k of Some v \<Rightarrow> Some v | None \<Rightarrow> obj_get a k)"
proof (induction b arbitrary: a)
  case Nil
  then show ?case by (simp add: dict_merge_def)
next
  case (Cons x b)
  have "dict_merge a (x # b) = dict_merge (dict_set a (fst x) (snd x)) b"
    by (simp add: dict_merge_def case_prod_beta)
  then show ?case
    using Cons.IH [of "dict_set a (fst x) (snd x)"]
    by (auto simp: obj_get_def dict_set_def update_conv' map_add_def split: option.splits)
qed

lemma request_message_fields:
  assumes "map_of (rev body) ''request_id'' = None"
  shows "obj_get (request_message isofmt now rid body aw) ''request_id'' = Some (JStr rid)"
    and "k \<notin> {''request_id'', ''job_id'', ''requested_at'', ''expires_at''} \<Longrightarrow>
      obj_get (request_message isofmt now rid body aw) k = map_of (rev body) k"
  using assms by (auto simp: request_message_def obj_get_merge split: option.split) (simp_all add: obj_get_def)

lemma exec_sends: "set (aw_sent aw) \<subseteq> set (aw_sent (fst (aw_exec isofmt e aw)))"
  by (cases e) (auto simp: await_begin_def with_task_def resolve_decision_def aw_resume_def await_end_def
      split: option.splits json.splits)

lemma await_loop_sends:
  "await_loop isofmt rid evs aw = (r, rest, aw') \<Longrightarrow> set (aw_sent aw) \<subseteq> set (aw_sent aw')"
proof (induction evs arbitrary: aw)
  case (Cons e es)
  obtain a res where x: "aw_exec isofmt e aw = (a, res)" by (cases "aw_exec isofmt e aw")
  have "a = aw' \<or> await_loop isofmt rid es a = (r, rest, aw')"
    using Cons.prems x by (auto split: option.splits if_splits)
  then show ?case using Cons.IH exec_sends [of aw isofmt e] x by fastforce
qed simp

lemma await_decision_sends:
  assumes "await_decision isofmt now rid body evs aw = (r, rest, aw')"
  shows "(aw_subject aw ''approval_request'', request_message isofmt now rid body aw) \<in> set (aw_sent aw')"
proof -
  have "(aw_subject aw ''approval_request'', request_message isofmt now rid body aw) \<in>
      set (aw_sent (await_begin isofmt now rid body aw))"
    by (simp add: await_begin_def)
  then show ?thesis using await_loop_sends assms unfolding await_decision_def by blast
qed

text \<open>An approving decision among the events, for the request with this id.\<close>

definition approved_in :: "aw_event list \<Rightarrow> string \<Rightarrow> bool" where
  "approved_in evs rid =
     (\<exists>d. AwDecision d \<in> set evs \<and> obj_get d ''request_id'' = Some (JStr rid) \<and>
          obj_get d ''decision'' = Some (JStr ''approve''))"

lemma business_await_approved:
  assumes "business_await ge body w = (Inr d, w')" "ad_approved d"
  shows "approved_in (gw_business_events w) (next_id w) \<and>
    (aw_subject (gw_business w) ''approval_request'',
     request_message (ge_isofmt ge) (gw_now w) (next_id w) body (gw_business w)) \<in> set (aw_sent (gw_business w'))"
proof -
  obtain r rest aw where r: "await_decision (ge_isofmt ge) (gw_now w) (next_id w) body (gw_business_events w)
      (gw_business w) = (r, rest, aw)" by (metis prod_cases3)
  then have "r = Inr d" "gw_business w' = aw"
    using assms(1) by (auto simp: business_await_def)
  then show ?thesis
    using await_decision_sound [OF r] await_decision_sends [OF r] assms(2)
    by (simp add: clean_approve_def approved_in_def)
qed

lemma safety_await_approved:
  assumes "safety_await ge body w = (Inr d, w')" "ad_approved d"
  shows "approved_in (gw_safety_events w) (next_id w)"
proof -
  obtain r rest aw where r: "await_decision (ge_isofmt ge) (gw_now w) (next_id w) body (gw_safety_events w)
      (gw_safety w) = (r, rest, aw)" by (metis prod_cases3)
  then have "r = Inr d" using assms(1) by (auto simp: safety_await_def)
  then show ?thesis
    using await_decision_sound [OF r] assms(2) by (simp add: clean_approve_def approved_in_def)
qed

section \<open>One handler at a time\<close>

lemma approval_verdict_blocks:
  "approval_on_pre_tool_use ge ah ev w = (Inr (Some v), w') \<Longrightarrow> tv_block v"
  by (auto simp: approval_on_pre_tool_use_def approval_await_decision_def block_call_def
      split: option.splits prod.splits sum.splits if_splits)

lemma approval_passes:
  assumes "approval_on_pre_tool_use ge ah ev w = (Inr None, w')"
    and "parse_mcp_tool_name (gw_aliases w) (te_tool_name ev) = Some (server, tool)"
    and "find_matching_policy (ah_policies ah) server tool (te_tool_input ev) = Some p"
  shows "approved_in (gw_business_events w) (next_id w) \<and>
    (\<exists>subj msg. (subj, msg) \<in> set (aw_sent (gw_business w')) \<and> obj_get msg ''request_id'' = Some (JStr (next_id w)) \<and>
       obj_get msg ''mcp_server_name'' = Some (JStr server) \<and> obj_get msg ''tool_name'' = Some (JStr tool) \<and>
       obj_get msg ''params'' = Some (JObj (te_tool_input ev)))"
proof -
  define rationale where "rationale = map_option (ge_rationale ge)
    (snd (evaluate_condition_explained (p_condition_expr p) (te_tool_input ev)))"
  define body where "body = approval_body ah server tool (te_tool_input ev) p rationale"
  obtain d where d: "business_await ge body w = (Inr d, w')" "ad_approved d"
    using assms
    by (auto simp: approval_on_pre_tool_use_def approval_await_decision_def body_def rationale_def
        split: prod.splits sum.splits if_splits)
  have "map_of (rev body) ''request_id'' = None" "map_of (rev body) ''mcp_server_name'' = Some (JStr server)"
    "map_of (rev body) ''tool_name'' = Some (JStr tool)" "map_of (rev body) ''params'' = Some (JObj (te_tool_input ev))"
    by (simp_all add: body_def approval_body_def)
  with business_await_approved [OF d] show ?thesis
    by (force simp: request_message_fields)
qed

lemma run_rules_frame [simp]:
  "gw_aliases (snd (run_rules ge sh ctx w)) = gw_aliases w"
  "gw_business (snd (run_rules ge sh ctx w)) = gw_business w"
  "gw_business_events (snd (run_rules ge sh ctx w)) = gw_business_events w"
  "gw_safety_events (snd (run_rules ge sh ctx w)) = gw_safety_events w"
  by (simp_all add: run_rules_def split: prod.split sum.split)

lemma safety_await_frame [simp]:
  "gw_aliases (snd (safety_await ge body w)) = gw_aliases w"
  "gw_business (snd (safety_await ge body w)) = gw_business w"
  "gw_business_events (snd (safety_await ge body w)) = gw_business_events w"
  by (simp_all add: safety_await_def split: prod.split)

lemma safety_frame:
  assumes "safety_on_pre_tool_use ge sh ev w = (r, w')"
  shows "gw_aliases w' = gw_aliases w \<and> gw_business w' = gw_business w \<and>
    gw_business_events w' = gw_business_events w"
proof -
  obtain x w1 where x: "run_rules ge sh (pre_tool_ctx sh ev w) w = (x, w1)"
    by (cases "run_rules ge sh (pre_tool_ctx sh ev w) w")
  have 1: "gw_aliases w1 = gw_aliases w" "gw_business w1 = gw_business w"
    "gw_business_events w1 = gw_business_events w"
    using run_rules_frame [of ge sh "pre_tool_ctx sh ev w" w] x by simp_all
  have "w' = w1 \<or> (\<exists>body. w' = snd (safety_await ge body w1))"
    using assms x
    by (auto simp: safety_on_pre_tool_use_def request_approval_def split: sum.splits if_splits prod.splits)
      (metis snd_conv)+
  then show ?thesis using 1 by auto
qed
section \<open>The handlers of a run\<close>

text \<open>The archive handler does not take part.\<close>

lemma emit_build_hooks:
  "emit_pre_tool_use (build_hooks ge archive sh ah) ev w =
     pre_tool_use_loop
       ((if sh_rules sh = [] then [] else [safety_hooks ge sh]) @
        (if ah_policies ah = [] then [] else [approval_hooks ge ah])) ev False w"
  by (simp add: emit_pre_tool_use_def build_hooks_def maybe_register_safety_handler_def register_hook_def no_hooks_def
      Let_def)

lemma approval_loop:
  "pre_tool_use_loop (if ah_policies ah = [] then [] else [approval_hooks ge ah]) ev modified w =
     (if ah_policies ah = [] then (Inr (if modified then Some (modify_call (te_tool_input ev)) else None), w)
      else case approval_on_pre_tool_use ge ah ev w of
          (Inr None, w') \<Rightarrow> (Inr (if modified then Some (modify_call (te_tool_input ev)) else None), w')
        | other \<Rightarrow> other)"
  using approval_verdict_blocks [of ge ah ev w]
  by (auto simp: approval_hooks_def no_hooks_def split: prod.split sum.split option.split)

definition passes :: "raised + tool_call_verdict option \<Rightarrow> bool" where
  "passes r = (case r of Inl _ \<Rightarrow> False | Inr None \<Rightarrow> True | Inr (Some v) \<Rightarrow> \<not> tv_block v)"

text \<open>The input a call that passes goes on with.\<close>

definition new_input :: "params \<Rightarrow> raised + tool_call_verdict option \<Rightarrow> params" where
  "new_input input r =
     (case r of Inr (Some v) \<Rightarrow> (case tv_modified_input v of Some i \<Rightarrow> i | None \<Rightarrow> input) | _ \<Rightarrow> input)"

lemma safety_modifies:
  "safety_on_pre_tool_use ge sh ev w = (Inr (Some v), w') \<Longrightarrow> \<not> tv_block v \<Longrightarrow> \<exists>i. v = modify_call i"
  by (auto simp: safety_on_pre_tool_use_def request_approval_def block_call_def
      split: sum.splits if_splits prod.splits option.splits)

lemma approval_tail:
  assumes "pre_tool_use_loop (if ah_policies ah = [] then [] else [approval_hooks ge ah]) e m w1 = (r, w')" "passes r"
  shows "r = Inr (if m then Some (modify_call (te_tool_input e)) else None) \<and>
    ((ah_policies ah = [] \<and> w' = w1) \<or>
     (ah_policies ah \<noteq> [] \<and> approval_on_pre_tool_use ge ah e w1 = (Inr None, w')))"
  using assms approval_verdict_blocks [of ge ah e w1]
  by (auto simp: approval_loop passes_def split: if_splits prod.splits sum.splits option.splits)

text \<open>A call that passes the handlers of a run has passed the safety handler, if there is one, and then the
  approval handler, if there is one, with the input the safety handler left.\<close>

lemma passed_both:
  assumes "emit_pre_tool_use (build_hooks ge archive sh ah) ev w = (r, w')" "passes r"
  obtains r1 w1 where
    "(sh_rules sh = [] \<and> r1 = Inr None \<and> w1 = w) \<or>
     (sh_rules sh \<noteq> [] \<and> safety_on_pre_tool_use ge sh ev w = (r1, w1))"
    and "passes r1" "new_input (te_tool_input ev) r = new_input (te_tool_input ev) r1"
    and "(ah_policies ah = [] \<and> w' = w1) \<or>
       (ah_policies ah \<noteq> [] \<and>
        approval_on_pre_tool_use ge ah (ev\<lparr>te_tool_input := new_input (te_tool_input ev) r\<rparr>) w1 = (Inr None, w'))"
proof -
  define tl_hooks where "tl_hooks = (if ah_policies ah = [] then [] else [approval_hooks ge ah])"
  have run: "(r, w') = pre_tool_use_loop ((if sh_rules sh = [] then [] else [safety_hooks ge sh]) @ tl_hooks) ev False w"
    using assms(1) by (simp add: emit_build_hooks tl_hooks_def)
  note rest = approval_tail [of ah ge _ _ _ r w', OF _ assms(2), folded tl_hooks_def, OF sym]
  show thesis
  proof (cases "sh_rules sh = []")
    case True
    then have "(r, w') = pre_tool_use_loop tl_hooks ev False w" using run by simp
    from rest [OF this] show thesis
      using True by (intro that [of "Inr None" w]) (auto simp: new_input_def passes_def)
  next
    case False
    obtain r1 w1 where s: "safety_on_pre_tool_use ge sh ev w = (r1, w1)"
      by (cases "safety_on_pre_tool_use ge sh ev w")
    show thesis
    proof (cases r1)
      case (Inl err)
      then show thesis using run False s assms(2) by (simp add: safety_hooks_def passes_def)
    next
      case (Inr o1)
      show thesis
      proof (cases o1)
        case None
        then have "(r, w') = pre_tool_use_loop tl_hooks ev False w1"
          using run False s Inr by (simp add: safety_hooks_def)
        from rest [OF this] show thesis
          using False s Inr None by (intro that [of r1 w1]) (auto simp: new_input_def passes_def)
      next
        case (Some v)
        show thesis
        proof (cases "tv_block v")
          case True
          then show thesis using run False s Inr Some assms(2) by (simp add: safety_hooks_def passes_def)
        next
          case nb: False
          then obtain i where i: "v = modify_call i" using safety_modifies s Inr Some by blast
          then have "(r, w') = pre_tool_use_loop tl_hooks (ev\<lparr>te_tool_input := i\<rparr>) True w1"
            using run False s Inr Some by (simp add: safety_hooks_def modify_call_def)
          from rest [OF this] show thesis
            using False s Inr Some i nb
            by (intro that [of r1 w1]) (auto simp: new_input_def passes_def modify_call_def)
        qed
      qed
    qed
  qed
qed

section \<open>Properties\<close>

text \<open>What the tool runs with under the Claude backend, \<open>None\<close> when the call is denied.\<close>

fun runs_with :: "params \<Rightarrow> claude_reply \<Rightarrow> params option" where
  "runs_with input NoOpinion = Some input"
| "runs_with input (UpdatedInput i) = Some i"
| "runs_with input (Deny why) = None"

lemma claude_passes:
  assumes "claude_pre_tool_use hs name input callid w = (Inr reply, w')" "runs_with input reply = Some i"
  obtains r where
    "emit_pre_tool_use hs \<lparr>te_tool_name = name, te_tool_input = input, te_tool_call_id = callid\<rparr> w = (r, w')"
    "passes r" "new_input input r = i"
  using assms
  by (auto simp: claude_pre_tool_use_def passes_def new_input_def
      split: prod.splits sum.splits raised.splits option.splits if_splits)

text \<open>C4. Human in the loop: under the Claude backend, a call of an MCP tool whose parameters, as the tool will get
  them, are governed by an approval policy runs only if an approving decision arrived for a request
  that was sent out with this server, this tool and exactly these parameters. No verdict of the
  safety handler, no redaction of the parameters and no error opens a way around it.\<close>

theorem governed_call_approved:
  assumes "claude_pre_tool_use (build_hooks ge archive sh ah) name input callid w = (Inr reply, w')"
    and "runs_with input reply = Some i"
    and "parse_mcp_tool_name (gw_aliases w) name = Some (server, tool)"
    and "find_matching_policy (ah_policies ah) server tool i = Some p"
  shows "\<exists>rid subj msg. approved_in (gw_business_events w) rid \<and> (subj, msg) \<in> set (aw_sent (gw_business w')) \<and>
     obj_get msg ''request_id'' = Some (JStr rid) \<and> obj_get msg ''mcp_server_name'' = Some (JStr server) \<and>
     obj_get msg ''tool_name'' = Some (JStr tool) \<and> obj_get msg ''params'' = Some (JObj i)"
proof -
  let ?ev = "\<lparr>te_tool_name = name, te_tool_input = input, te_tool_call_id = callid\<rparr>"
  from claude_passes [OF assms(1,2)] obtain r where
    r: "emit_pre_tool_use (build_hooks ge archive sh ah) ?ev w = (r, w')" "passes r" "new_input input r = i" .
  have ne: "ah_policies ah \<noteq> []" using assms(4) by (auto simp: find_matching_policy_def)
  from passed_both [OF r(1,2)] obtain r1 w1 where
    s: "(sh_rules sh = [] \<and> r1 = Inr None \<and> w1 = w) \<or> (sh_rules sh \<noteq> [] \<and> safety_on_pre_tool_use ge sh ?ev w = (r1, w1))"
    and a: "approval_on_pre_tool_use ge ah (?ev\<lparr>te_tool_input := i\<rparr>) w1 = (Inr None, w')"
    using ne r(3) by (metis tool_call_event.select_convs(2))
  have f: "gw_aliases w1 = gw_aliases w" "gw_business_events w1 = gw_business_events w"
    using s safety_frame by blast+
  have "parse_mcp_tool_name (gw_aliases w1) (te_tool_name (?ev\<lparr>te_tool_input := i\<rparr>)) = Some (server, tool)"
    "find_matching_policy (ah_policies ah) server tool (te_tool_input (?ev\<lparr>te_tool_input := i\<rparr>)) = Some p"
    using assms(3,4) f by simp_all
  from approval_passes [OF a this] f show ?thesis by auto
qed

text \<open>C5. The safety gate on either backend: a tool call passes only if the rules of the run returned a verdict for
  it that is neither block nor require\_approval, or require\_approval and an approving decision
  arrived for the request made of it. If the verdict is redact with a rewritten input, that input
  is what the handlers pass on.\<close>

theorem safety_gate_sound:
  assumes "emit_pre_tool_use (build_hooks ge archive sh ah) ev w = (r, w')" "passes r" "sh_rules sh \<noteq> []"
  shows "\<exists>v. fst (pipeline_run (ge_audit ge) (sh_rules sh) (sh_registry sh) (pre_tool_ctx sh ev w)) = Inr v \<and>
    v_action v \<noteq> ''block'' \<and>
    (v_action v = ''require_approval'' \<longrightarrow> sh_has_awaiter sh \<and> (\<exists>rid. approved_in (gw_safety_events w) rid)) \<and>
    (v_action v = ''redact'' \<longrightarrow>
       (case redacted_input v of Some i \<Rightarrow> new_input (te_tool_input ev) r = i | None \<Rightarrow> True))"
proof -
  from passed_both [OF assms(1,2)] assms(3) obtain r1 w1 where
    s: "safety_on_pre_tool_use ge sh ev w = (r1, w1)" "passes r1"
      "new_input (te_tool_input ev) r = new_input (te_tool_input ev) r1"
    by metis
  obtain x w2 where x: "run_rules ge sh (pre_tool_ctx sh ev w) w = (x, w2)"
    by (cases "run_rules ge sh (pre_tool_ctx sh ev w) w")
  then obtain v where v: "x = Inr v"
    using s(1,2) by (cases x) (auto simp: safety_on_pre_tool_use_def passes_def)
  have ev2: "gw_safety_events w2 = gw_safety_events w"
    using run_rules_frame(4) [of ge sh "pre_tool_ctx sh ev w" w] x by simp
  have fst: "fst (pipeline_run (ge_audit ge) (sh_rules sh) (sh_registry sh) (pre_tool_ctx sh ev w)) = Inr v"
    using x v by (auto simp: run_rules_def split: prod.splits sum.splits)
  have blk: "v_action v \<noteq> ''block''"
    using s(1,2) x v by (auto simp: safety_on_pre_tool_use_def passes_def block_call_def)
  have red: "v_action v = ''redact'' \<longrightarrow>
      (case redacted_input v of Some i \<Rightarrow> new_input (te_tool_input ev) r = i | None \<Rightarrow> True)"
    using s x v by (auto simp: safety_on_pre_tool_use_def new_input_def modify_call_def split: option.split)
  have "sh_has_awaiter sh \<and> (\<exists>rid. approved_in (gw_safety_events w) rid)" if ra: "v_action v = ''require_approval''"
  proof -
    have h: "sh_has_awaiter sh"
      using s(1,2) x v ra by (auto simp: safety_on_pre_tool_use_def passes_def block_call_def split: if_splits)
    then have "request_approval ge sh ev v w2 = (r1, w1)"
      using s(1) x v ra by (simp add: safety_on_pre_tool_use_def)
    then obtain body d where "safety_await ge body w2 = (Inr d, w1)" "ad_approved d"
      using s(2)
      by (auto simp: request_approval_def passes_def block_call_def split: prod.splits sum.splits if_splits)
    then show ?thesis using safety_await_approved ev2 h by metis
  qed
  with fst blk red show ?thesis by blast
qed

text \<open>The two bridges decide alike: the Pi bridge blocks, fails or waits exactly when the Claude bridge does, for
  the same reason and with the same effects.\<close>

theorem bridges_agree:
  "pi_handle_tool_call hs name input callid w =
     (case claude_pre_tool_use hs name input callid w of
        (Inl err, w') \<Rightarrow> (Inl err, w')
      | (Inr (Deny why), w') \<Rightarrow> (Inr (Some why), w')
      | (Inr reply, w') \<Rightarrow> (Inr None, w'))"
  by (simp add: pi_handle_tool_call_def claude_pre_tool_use_def split: prod.split sum.split raised.split option.split)

section \<open>Examples\<close>

definition demo_gate_env :: gate_env where
  "demo_gate_env = \<lparr>ge_audit = demo_env, ge_isofmt = (\<lambda>_. ''t''), ge_rationale = (\<lambda>_. ''unreadable condition''),
     ge_int_of_str = (\<lambda>_. None), ge_parse_date = (\<lambda>_. None)\<rparr>"

definition demo_archive :: "(gate_world, compaction_event, unit) hook" where
  "demo_archive ev w = (Inr (), w)"

definition demo_tool_check :: "string \<Rightarrow> verdict \<Rightarrow> string \<times> safety_check" where
  "demo_tool_check i v =
     (i, \<lparr>sc_id = i, sc_stages = [PRE_TOOL_CALL], sc_cost_class = ''cheap'', sc_check = (\<lambda>ctx cfg. Inr v)\<rparr>)"

text \<open>Three checks: one blocks, one asks for approval, one scrubs the note of a payment.\<close>

definition demo_tool_registry :: check_registry where
  "demo_tool_registry =
     [demo_tool_check ''deny'' (plain_verdict ''block''), demo_tool_check ''hold'' (plain_verdict ''require_approval''),
      demo_tool_check ''scrub'' ((plain_verdict ''redact'')\<lparr>v_modified_payload :=
        Some (JObj [(''tool_name'', JStr ''mcp__pay__refund''), (''tool_input'', JObj [(''note'', JStr ''***'')])])\<rparr>)]"

definition demo_tool_rule :: "string \<Rightarrow> string \<Rightarrow> safety_rule" where
  "demo_tool_rule i c = (demo_rule i c 1000)\<lparr>ru_stage := ''pre_tool_call''\<rparr>"

definition demo_safety :: "safety_rule list \<Rightarrow> safety_handler" where
  "demo_safety rules = \<lparr>sh_rules = rules, sh_registry = demo_tool_registry,
     sh_tool_ctx = \<lparr>tc_job_id = ''job1'', tc_tenant_id = ''acme'', tc_coworker_id = ''bot'', tc_conversation_id = ''c1'',
       tc_user_id = ''u1'', tc_tool_reversibility = []\<rparr>, sh_has_awaiter = True\<rparr>"

definition note_policy :: "string \<Rightarrow> approval_policy" where
  "note_policy server = \<lparr>p_id = ''p1'', p_tenant_id = ''acme'', p_mcp_server_name = server, p_tool_name = ''*'',
     p_condition_expr = JObj [(''field'', JStr ''note''), (''op'', JStr ''contains''), (''value'', JStr ''IBAN'')],
     p_enabled = True, p_priority = 0, p_updated_at = 0, p_created_at = None\<rparr>"

definition demo_approval :: "approval_policy list \<Rightarrow> approval_handler" where
  "demo_approval ps = \<lparr>ah_policies = ps, ah_tenant_id = ''acme'', ah_coworker_id = ''bot'',
     ah_conversation_id = Some ''c1'', ah_user_id = Some ''u1'', ah_timeout_ms = 300000\<rparr>"

definition demo_world :: "aw_event list \<Rightarrow> gate_world" where
  "demo_world evs = \<lparr>gw_business = demo_awaiter, gw_business_events = evs, gw_safety = demo_awaiter,
     gw_safety_events = evs, gw_ids = [''r1'', ''r2''], gw_now = 0, gw_aliases = [], gw_audit = []\<rparr>"

definition demo_answer :: "string \<Rightarrow> aw_event list" where
  "demo_answer word = [AwPublished ''r1'', AwDecision (demo_decision word), AwResume ''r1'']"

definition demo_input :: params where
  "demo_input = [(''note'', JStr ''IBAN 12'')]"

definition demo_run :: "safety_rule list \<Rightarrow> approval_policy list \<Rightarrow> aw_event list \<Rightarrow> (raised + claude_reply) \<times> gate_world" where
  "demo_run rules ps evs =
     claude_pre_tool_use (build_hooks demo_gate_env demo_archive (demo_safety rules) (demo_approval ps))
       ''mcp__pay__refund'' demo_input ''t1'' (demo_world evs)"

definition demo_run_pi :: "safety_rule list \<Rightarrow> approval_policy list \<Rightarrow> aw_event list \<Rightarrow> (raised + string option) \<times> gate_world" where
  "demo_run_pi rules ps evs =
     pi_handle_tool_call (build_hooks demo_gate_env demo_archive (demo_safety rules) (demo_approval ps))
       ''mcp__pay__refund'' demo_input ''t1'' (demo_world evs)"

lemma demo_approved: "fst (demo_run [] [note_policy ''pay''] (demo_answer ''approve'')) = Inr NoOpinion"
  by code_simp

lemma demo_rejected:
  "fst (demo_run [] [note_policy ''pay''] (demo_answer ''reject'')) =
     Inr (Deny ''Tool call pay.refund was rejected by the approver.'')"
  by code_simp

lemma demo_parse: "parse_mcp_tool_name (gw_aliases (demo_world evs)) ''mcp__pay__refund'' = Some (''pay'', ''refund'')"
proof -
  have "gw_aliases (demo_world evs) = []" by (simp add: demo_world_def)
  moreover have "parse_mcp_tool_name [] ''mcp__pay__refund'' = Some (''pay'', ''refund'')" by code_simp
  ultimately show ?thesis by simp
qed

lemma demo_policy_matches:
  "find_matching_policy (ah_policies (demo_approval [note_policy ''pay''])) ''pay'' ''refund'' demo_input =
     Some (note_policy ''pay'')"
  by code_simp

theorem governed_call_approved_witness:
  "\<exists>rid subj msg. approved_in (gw_business_events (demo_world (demo_answer ''approve''))) rid \<and>
     (subj, msg) \<in> set (aw_sent (gw_business (snd (demo_run [] [note_policy ''pay''] (demo_answer ''approve''))))) \<and>
     obj_get msg ''request_id'' = Some (JStr rid) \<and> obj_get msg ''mcp_server_name'' = Some (JStr ''pay'') \<and>
     obj_get msg ''tool_name'' = Some (JStr ''refund'') \<and> obj_get msg ''params'' = Some (JObj demo_input)"
proof (rule governed_call_approved)
  show "claude_pre_tool_use (build_hooks demo_gate_env demo_archive (demo_safety []) (demo_approval [note_policy ''pay'']))
      ''mcp__pay__refund'' demo_input ''t1'' (demo_world (demo_answer ''approve'')) =
    (Inr NoOpinion, snd (demo_run [] [note_policy ''pay''] (demo_answer ''approve'')))"
    using demo_approved by (metis demo_run_def prod.collapse)
  show "runs_with demo_input NoOpinion = Some demo_input" by simp
qed (rule demo_parse demo_policy_matches)+

theorem safety_gate_sound_witness:
  "\<exists>v. fst (pipeline_run (ge_audit demo_gate_env) (sh_rules (demo_safety [demo_tool_rule ''r1'' ''hold'']))
      (sh_registry (demo_safety [demo_tool_rule ''r1'' ''hold'']))
      (pre_tool_ctx (demo_safety [demo_tool_rule ''r1'' ''hold''])
        \<lparr>te_tool_name = ''mcp__pay__refund'', te_tool_input = demo_input, te_tool_call_id = ''t1''\<rparr>
        (demo_world (demo_answer ''approve'')))) = Inr v \<and> v_action v \<noteq> ''block''"
proof -
  let ?hs = "build_hooks demo_gate_env demo_archive (demo_safety [demo_tool_rule ''r1'' ''hold'']) (demo_approval [])"
  let ?ev = "\<lparr>te_tool_name = ''mcp__pay__refund'', te_tool_input = demo_input, te_tool_call_id = ''t1''\<rparr>"
  have "fst (emit_pre_tool_use ?hs ?ev (demo_world (demo_answer ''approve''))) = Inr None" by code_simp
  then have 1: "emit_pre_tool_use ?hs ?ev (demo_world (demo_answer ''approve'')) =
      (Inr None, snd (emit_pre_tool_use ?hs ?ev (demo_world (demo_answer ''approve''))))"
    by (metis prod.collapse)
  have 2: "passes (Inr None)" by (simp add: passes_def)
  have 3: "sh_rules (demo_safety [demo_tool_rule ''r1'' ''hold'']) \<noteq> []" by (simp add: demo_safety_def)
  from safety_gate_sound [OF 1 2 3] show ?thesis by blast
qed

section \<open>Ways around the gates\<close>

text \<open>C32. On the Pi backend a redaction does not reach the tool, and it can hide the call from the approval policy:
  whenever the safety rules redact the input of a call, and no approval policy matches the redacted
  input though one matches the original, then on Pi the call runs with the original input, and no
  request for an approval is sent; the Claude backend runs the redacted call.\<close>

theorem pi_redaction_skips_approval:
  assumes "sh_rules sh \<noteq> []"
    and "fst (pipeline_run (ge_audit ge) (sh_rules sh) (sh_registry sh)
          (pre_tool_ctx sh \<lparr>te_tool_name = name, te_tool_input = input, te_tool_call_id = callid\<rparr> w)) = Inr v"
    and "v_action v = ''redact''" "redacted_input v = Some m"
    and "parse_mcp_tool_name (gw_aliases w) name = Some (server, tool)"
    and "find_matching_policy (ah_policies ah) server tool m = None"
    and "find_matching_policy (ah_policies ah) server tool input = Some p"
  shows "\<exists>w'. pi_handle_tool_call (build_hooks ge archive sh ah) name input callid w = (Inr None, w') \<and>
    gw_business w' = gw_business w \<and>
    claude_pre_tool_use (build_hooks ge archive sh ah) name input callid w = (Inr (UpdatedInput m), w')"
proof -
  let ?ev = "\<lparr>te_tool_name = name, te_tool_input = input, te_tool_call_id = callid\<rparr>"
  obtain audit where run: "pipeline_run (ge_audit ge) (sh_rules sh) (sh_registry sh) (pre_tool_ctx sh ?ev w) = (Inr v, audit)"
    using assms(2) by (metis prod.collapse)
  obtain w1 where s: "safety_on_pre_tool_use ge sh ?ev w = (Inr (Some (modify_call m)), w1)"
    using assms(3,4) run by (simp add: safety_on_pre_tool_use_def run_rules_def)
  have frame: "gw_aliases w1 = gw_aliases w" "gw_business w1 = gw_business w" using safety_frame [OF s] by simp_all
  have a: "approval_on_pre_tool_use ge ah (?ev\<lparr>te_tool_input := m\<rparr>) w1 = (Inr None, w1)"
    using assms(5,6) frame(1) by (simp add: approval_on_pre_tool_use_def)
  have "emit_pre_tool_use (build_hooks ge archive sh ah) ?ev w = (Inr (Some (modify_call m)), w1)"
    using s a assms(1) approval_loop [of ah ge "?ev\<lparr>te_tool_input := m\<rparr>" True w1]
    by (simp add: emit_build_hooks safety_hooks_def modify_call_def)
  then show ?thesis
    using frame(2) by (simp add: pi_handle_tool_call_def claude_pre_tool_use_def modify_call_def)
qed

theorem pi_redaction_skips_approval_witness:
  "find_matching_policy [note_policy ''pay''] ''pay'' ''refund'' demo_input = Some (note_policy ''pay'') \<and>
   (\<exists>w'. demo_run_pi [demo_tool_rule ''r1'' ''scrub''] [note_policy ''pay''] [] = (Inr None, w') \<and>
     gw_business w' = demo_awaiter)"
proof -
  let ?sh = "demo_safety [demo_tool_rule ''r1'' ''scrub'']" and ?ah = "demo_approval [note_policy ''pay'']"
  let ?ev = "\<lparr>te_tool_name = ''mcp__pay__refund'', te_tool_input = demo_input, te_tool_call_id = ''t1''\<rparr>"
  let ?run = "fst (pipeline_run (ge_audit demo_gate_env) (sh_rules ?sh) (sh_registry ?sh) (pre_tool_ctx ?sh ?ev (demo_world [])))"
  have "case ?run of Inl e \<Rightarrow> False
      | Inr v \<Rightarrow> v_action v = ''redact'' \<and> redacted_input v = Some [(''note'', JStr ''***'')]" by code_simp
  then obtain v where v: "?run = Inr v" "v_action v = ''redact''" "redacted_input v = Some [(''note'', JStr ''***'')]"
    by (cases ?run) auto
  have rules: "sh_rules ?sh \<noteq> []" by (simp add: demo_safety_def)
  have none: "find_matching_policy (ah_policies ?ah) ''pay'' ''refund'' [(''note'', JStr ''***'')] = None" by code_simp
  have "gw_business (demo_world []) = demo_awaiter" by (simp add: demo_world_def)
  then show ?thesis
    using pi_redaction_skips_approval [OF rules v demo_parse none demo_policy_matches, of demo_archive] demo_policy_matches
    by (auto simp: demo_run_pi_def demo_approval_def)
qed

text \<open>A server name with two underscores in a row, which the API accepts, is out of reach of the approval
  policies written for it: whatever tool the server offers, the gate lets the call pass.\<close>

theorem dunder_server_ungated:
  assumes "server = a @ ''__'' @ b" "splits_cleanly a" "server_name_ok server"
    and "compose_llm_tool_name sha1_hex server tool reg = Inr (te_tool_name ev, reg')"
    and "\<And>p. p \<in> set (ah_policies ah) \<Longrightarrow> p_mcp_server_name p = server"
  shows "approval_on_pre_tool_use ge ah ev w = (Inr None, w)"
proof -
  obtain seg where "te_tool_name ev = mcp_prefix server @ seg"
    using assms(4) by (cases rule: compose_cases) auto
  then obtain t where "parse_mcp_tool_name (gw_aliases w) (te_tool_name ev) = Some (a, t)"
    using parse_cut_short [OF assms(2), of b seg "gw_aliases w"] assms(1) by auto
  moreover have "find_matching_policy (ah_policies ah) a t (te_tool_input ev) = None"
  proof -
    have "a \<noteq> server" using assms(1) by auto
    then have "filter (policy_matches a t (te_tool_input ev)) (ah_policies ah) = []"
      using assms(5) by (auto simp: filter_empty_conv policy_matches_def)
    then show ?thesis by (simp add: find_matching_policy_def)
  qed
  ultimately show ?thesis by (simp add: approval_on_pre_tool_use_def)
qed

definition always_policy :: "string \<Rightarrow> approval_policy" where
  "always_policy server = (note_policy server)\<lparr>p_condition_expr := JObj [(''always'', JBool True)]\<rparr>"

theorem dunder_server_ungated_witness:
  "approval_on_pre_tool_use demo_gate_env (demo_approval [always_policy ''pay__prod''])
     \<lparr>te_tool_name = ''mcp__pay__prod__refund'', te_tool_input = demo_input, te_tool_call_id = ''t1''\<rparr> (demo_world []) =
   (Inr None, demo_world [])"
proof (rule dunder_server_ungated)
  show "''pay__prod'' = ''pay'' @ ''__'' @ ''prod''" by simp
  show "splits_cleanly ''pay''" "server_name_ok ''pay__prod''" by code_simp+
  show "compose_llm_tool_name demo_sha1 ''pay__prod'' ''refund'' [] =
      Inr (te_tool_name \<lparr>te_tool_name = ''mcp__pay__prod__refund'', te_tool_input = demo_input,
        te_tool_call_id = ''t1''\<rparr>, [])" by code_simp
  show "p_mcp_server_name p = ''pay__prod''" if "p \<in> set (ah_policies (demo_approval [always_policy ''pay__prod'']))" for p
    using that by (simp add: demo_approval_def always_policy_def note_policy_def)
qed

text \<open>Appending elements that do not come before \<open>t\<close> keeps what a stable sort puts up to \<open>t\<close>.\<close>

lemma sort_key_append_keeps:
  assumes "sort_key f xs = before @ t # after" "\<And>y. y \<in> set ys \<Longrightarrow> f t \<le> f y"
  shows "sort_key f (xs @ ys) = before @ t # sort_key f (after @ ys)"
proof (rule properties_for_sort_key)
  let ?zs = "before @ t # sort_key f (after @ ys)"
  have m: "mset xs = mset (before @ t # after)" using assms(1) by (metis mset_sort)
  then show "mset ?zs = mset (xs @ ys)" by simp
  have stable: "filter (\<lambda>x. f k = f x) (sort_key f as) = filter (\<lambda>x. f k = f x) as" for k as
    using sort_key_stable [of f "f k" as] by (simp add: eq_commute)
  show "filter (\<lambda>x. f k = f x) ?zs = filter (\<lambda>x. f k = f x) (xs @ ys)" for k
  proof -
    define Q where "Q = (\<lambda>x. f k = f x)"
    have "filter Q (before @ t # after) = filter Q xs" "filter Q (sort_key f (after @ ys)) = filter Q (after @ ys)"
      using stable [of k xs] stable [of k "after @ ys"] assms(1) by (simp_all add: Q_def)
    then show ?thesis unfolding Q_def [symmetric] by (metis append.assoc append_Cons filter.simps(2) filter_append)
  qed
  have "sorted (map f (before @ t # after))" using assms(1) sorted_sort_key [of f xs] by simp
  then show "sorted (map f ?zs)" using assms(2) by (force simp: sorted_append)
qed

text \<open>C35. A tenant can put platform rules out of action: take any rules of the tenant, one of which, in its place
  in the order of the pipeline over the tenant's rules alone, asks for approval of a call. Platform
  rules of no higher priority than that rule do not influence what happens to the call at all, even
  if all of them would block it: the outcome, the approval asked for and the decision on it included, is that of the
  tenant's rules alone.\<close>

theorem approval_rule_shadows_platform:
  assumes "applicable_rules tenant (pre_tool_ctx sh ev w) = before @ t # after"
    and "\<not> rule_skipped (sh_registry sh) (pre_tool_ctx sh ev w) t"
    and "rule_verdict (sh_registry sh) t
           (with_payload (pre_tool_ctx sh ev w) (redaction_chain (sh_registry sh) (pre_tool_ctx sh ev w) before)) = Some v"
      "v_action v = ''require_approval''"
    and "\<And>r. r \<in> set platform \<Longrightarrow> ru_priority r \<le> ru_priority t"
  shows "safety_on_pre_tool_use ge (sh\<lparr>sh_rules := fetch_safety_rule_snapshots tenant platform\<rparr>) ev w =
    safety_on_pre_tool_use ge (sh\<lparr>sh_rules := tenant\<rparr>) ev w"
proof -
  define ctx where "ctx = pre_tool_ctx sh ev w"
  let ?ps = "\<lparr>ps_ctx = ctx, ps_findings = [], ps_redacted = False, ps_warns = [], ps_audit = []\<rparr>"
  have same: "pre_tool_ctx (sh\<lparr>sh_rules := rs\<rparr>) ev w = ctx" for rs
    by (simp add: ctx_def pre_tool_ctx_def tool_of_def)
  have "\<exists>after'. applicable_rules (tenant @ platform) ctx = before @ t # after'"
    using assms(1,5) unfolding applicable_rules_def ctx_def [symmetric]
    by (auto intro!: exI sort_key_append_keeps)
  then obtain after' where all: "applicable_rules (tenant @ platform) ctx = (before @ [t]) @ after'" by auto
  have mine: "applicable_rules tenant ctx = (before @ [t]) @ after" using assms(1) by (simp add: ctx_def)
  have "refused (pipe_loop en (sh_registry sh) (before @ [t]) ?ps)" for en
    by (rule pipe_loop_objection) (use assms(2-4) in \<open>simp_all add: ctx_def short_circuit_actions_def\<close>)
  then have "pipe_loop en (sh_registry sh) ((before @ [t]) @ rest) ?ps = pipe_loop en (sh_registry sh) (before @ [t]) ?ps"
    for en rest by (rule pipe_loop_refused)
  then have "pipeline_run (ge_audit ge) (tenant @ platform) (sh_registry sh) ctx =
      pipeline_run (ge_audit ge) tenant (sh_registry sh) ctx"
    unfolding pipeline_run_def all mine by (simp only:)
  then have run: "run_rules ge (sh\<lparr>sh_rules := tenant @ platform\<rparr>) ctx w = run_rules ge (sh\<lparr>sh_rules := tenant\<rparr>) ctx w"
    by (simp add: run_rules_def)
  have "request_approval ge (sh\<lparr>sh_rules := rs\<rparr>) ev x w' = request_approval ge sh ev x w'" for rs x w'
    by (simp add: request_approval_def safety_body_def)
  then show ?thesis
    by (simp add: safety_on_pre_tool_use_def same fetch_safety_rule_snapshots_def run split: prod.split sum.split)
qed

text \<open>A call the platform blocks, and the same call once the tenant has added a rule of the same priority and
  its user has approved.\<close>

lemma platform_blocks:
  "fst (demo_run (fetch_safety_rule_snapshots [] [demo_tool_rule ''plat'' ''deny'']) [] (demo_answer ''approve'')) =
     Inr (Deny ''Blocked by safety policy'')"
  by code_simp

theorem approval_rule_shadows_platform_witness:
  "fst (safety_on_pre_tool_use demo_gate_env
      ((demo_safety [])\<lparr>sh_rules := fetch_safety_rule_snapshots [demo_tool_rule ''t'' ''hold''] [demo_tool_rule ''plat'' ''deny'']\<rparr>)
      \<lparr>te_tool_name = ''mcp__pay__refund'', te_tool_input = demo_input, te_tool_call_id = ''t1''\<rparr>
      (demo_world (demo_answer ''approve''))) = Inr None"
proof -
  let ?ev = "\<lparr>te_tool_name = ''mcp__pay__refund'', te_tool_input = demo_input, te_tool_call_id = ''t1''\<rparr>"
  let ?w = "demo_world (demo_answer ''approve'')"
  have 1: "applicable_rules [demo_tool_rule ''t'' ''hold''] (pre_tool_ctx (demo_safety []) ?ev ?w) =
      [] @ demo_tool_rule ''t'' ''hold'' # []" by code_simp
  have 2: "\<not> rule_skipped (sh_registry (demo_safety [])) (pre_tool_ctx (demo_safety []) ?ev ?w) (demo_tool_rule ''t'' ''hold'')"
    by code_simp
  have 3: "rule_verdict (sh_registry (demo_safety [])) (demo_tool_rule ''t'' ''hold'') (with_payload
      (pre_tool_ctx (demo_safety []) ?ev ?w) (redaction_chain (sh_registry (demo_safety [])) (pre_tool_ctx (demo_safety []) ?ev ?w) [])) =
      Some (plain_verdict ''require_approval'')" by code_simp
  have 4: "v_action (plain_verdict ''require_approval'') = ''require_approval''" by code_simp
  have 5: "ru_priority r \<le> ru_priority (demo_tool_rule ''t'' ''hold'')" if "r \<in> set [demo_tool_rule ''plat'' ''deny'']" for r
    using that by (simp add: demo_tool_rule_def demo_rule_def)
  have "fst (safety_on_pre_tool_use demo_gate_env ((demo_safety [])\<lparr>sh_rules := [demo_tool_rule ''t'' ''hold'']\<rparr>) ?ev ?w) =
      Inr None" by code_simp
  with approval_rule_shadows_platform [OF 1 2 3 4 5, of "[demo_tool_rule ''plat'' ''deny'']" demo_gate_env]
  show ?thesis by simp
qed

end
