(* ===== verification/Egress_Policy.thy ===== *)
theory Egress_Policy
  imports Safety_Pipeline Py_Str
begin

text \<open>
  The policy plane of the egress gateway: the rule cache of \<^verbatim>\<open>src/src/rolemesh/egress/policy_cache.py\<close>,
  the domain rule of \<^verbatim>\<open>src/src/rolemesh/safety/checks/egress_domain_rule.py\<close>, the DNS policy of
  \<^verbatim>\<open>egress/dns_policy.py\<close> and the decision of \<^verbatim>\<open>egress/safety_call.py\<close>.

  Entries of a snapshot and events are JSON objects. Python's \<open>str\<close>, \<open>int\<close> on a string and \<open>dict\<close> on a
  value that is not an object, the integer coercion of pydantic and the digest of a request are
  arguments. An exception of a check or of a constructor is a value.
\<close>

section \<open>Strings\<close>

text \<open>\<open>s.rstrip(".")\<close>\<close>

definition rstrip_dots :: "string \<Rightarrow> string" where
  "rstrip_dots s = rev (dropWhile (\<lambda>c. c = CHR ''.'') (rev s))"

section \<open>Cached rules\<close>

record cached_rule =
  cr_id :: string
  cr_tenant_id :: string
  cr_coworker_id :: "string option"
  cr_stage :: string
  cr_check_id :: string
  cr_config :: "(string \<times> json) list"
  cr_priority :: int
  cr_enabled :: bool

record wire_env =
  we_str :: "json \<Rightarrow> string"
  we_int_of_str :: "string \<Rightarrow> int option"
  we_dict_of :: "json \<Rightarrow> (string \<times> json) list option"

text \<open>\<open>dict(v)\<close>, \<open>None\<close> for the exception.\<close>

fun py_dict :: "(json \<Rightarrow> (string \<times> json) list option) \<Rightarrow> json \<Rightarrow> (string \<times> json) list option" where
  "py_dict f (JObj kvs) = Some kvs"
| "py_dict f j = f j"

text \<open>\<open>_rule_from_dict\<close>: \<open>None\<close> for a missing key or a value of the wrong kind.\<close>

definition rule_from_dict :: "wire_env \<Rightarrow> (string \<times> json) list \<Rightarrow> cached_rule option" where
  "rule_from_dict we d =
     (case (case obj_get d ''rule_id'' of Some v \<Rightarrow> Some v | None \<Rightarrow> obj_get d ''id'',
            obj_get d ''tenant_id'', obj_get d ''check_id'',
            py_dict (we_dict_of we) (get_or d ''config'' (JObj [])),
            py_int (we_int_of_str we) (get_or d ''priority'' (JInt 100))) of
        (Some i, Some t, Some c, Some cfg, Some prio) \<Rightarrow>
          Some \<lparr>cr_id = we_str we i, cr_tenant_id = we_str we t,
                cr_coworker_id = (case obj_get d ''coworker_id'' of
                   None \<Rightarrow> None | Some v \<Rightarrow> if py_bool v then Some (we_str we v) else None),
                cr_stage = we_str we (get_or d ''stage'' (JStr ''egress_request'')),
                cr_check_id = we_str we c, cr_config = cfg, cr_priority = prio,
                cr_enabled = py_bool (get_or d ''enabled'' (JBool True))\<rparr>
      | _ \<Rightarrow> None)"

section \<open>The cache\<close>

record policy_cache =
  pc_rules :: "(string, (string option, cached_rule list) dict) dict"
  pc_by_id :: "(string, cached_rule) dict"
  pc_seeded :: bool

definition empty_cache :: policy_cache where
  "empty_cache = \<lparr>pc_rules = [], pc_by_id = [], pc_seeded = False\<rparr>"

definition bucket :: "policy_cache \<Rightarrow> string \<Rightarrow> string option \<Rightarrow> cached_rule list" where
  "bucket pc t c =
     (case dict_get (pc_rules pc) t of
        None \<Rightarrow> []
      | Some tb \<Rightarrow> (case dict_get tb c of None \<Rightarrow> [] | Some rs \<Rightarrow> rs))"

text \<open>Replace the first rule with the same id, or append.\<close>

fun put_rule :: "cached_rule \<Rightarrow> cached_rule list \<Rightarrow> cached_rule list" where
  "put_rule r [] = [r]"
| "put_rule r (x # xs) = (if cr_id x = cr_id r then r # xs else x # put_rule r xs)"

definition set_bucket :: "string \<Rightarrow> string option \<Rightarrow> cached_rule list \<Rightarrow> policy_cache \<Rightarrow> policy_cache" where
  "set_bucket t c rs pc =
     pc\<lparr>pc_rules := dict_set (pc_rules pc) t
          (dict_set (case dict_get (pc_rules pc) t of None \<Rightarrow> [] | Some tb \<Rightarrow> tb) c rs)\<rparr>"

definition insert_locked :: "cached_rule \<Rightarrow> policy_cache \<Rightarrow> policy_cache" where
  "insert_locked r pc =
     (set_bucket (cr_tenant_id r) (cr_coworker_id r)
        (put_rule r (bucket pc (cr_tenant_id r) (cr_coworker_id r))) pc)
     \<lparr>pc_by_id := dict_set (pc_by_id pc) (cr_id r) r\<rparr>"

definition remove_locked :: "string \<Rightarrow> policy_cache \<Rightarrow> policy_cache" where
  "remove_locked rid pc =
     (case dict_get (pc_by_id pc) rid of
        None \<Rightarrow> pc
      | Some r \<Rightarrow>
          (let pc' = pc\<lparr>pc_by_id := dict_pop (pc_by_id pc) rid\<rparr> in
           case dict_get (pc_rules pc) (cr_tenant_id r) of
             None \<Rightarrow> pc'
           | Some tb \<Rightarrow>
               (case dict_get tb (cr_coworker_id r) of
                  None \<Rightarrow> pc'
                | Some rs \<Rightarrow>
                    set_bucket (cr_tenant_id r) (cr_coworker_id r) (filter (\<lambda>x. cr_id x \<noteq> rid) rs) pc')))"

fun seed_rules :: "wire_env \<Rightarrow> (string \<times> json) list list \<Rightarrow> policy_cache \<Rightarrow> policy_cache" where
  "seed_rules we [] pc = pc"
| "seed_rules we (e # es) pc =
     seed_rules we es
       (case rule_from_dict we e of
          None \<Rightarrow> pc
        | Some r \<Rightarrow> if cr_enabled r then insert_locked r pc else pc)"

definition seed :: "wire_env \<Rightarrow> (string \<times> json) list list \<Rightarrow> policy_cache \<Rightarrow> policy_cache" where
  "seed we snapshot pc = (seed_rules we snapshot (pc\<lparr>pc_rules := [], pc_by_id := []\<rparr>))\<lparr>pc_seeded := True\<rparr>"

definition apply_event :: "wire_env \<Rightarrow> (string \<times> json) list \<Rightarrow> policy_cache \<Rightarrow> policy_cache" where
  "apply_event we ev pc =
     (let action = obj_get ev ''action'';
          deleted = (action = Some (JStr ''deleted''));
          rid = get_str (we_str we) ev ''rule_id'' []
      in
      if obj_get ev ''stage'' \<noteq> Some (JStr ''egress_request'') \<and> \<not> deleted then pc
      else if rid = [] then pc
      else if deleted \<or> \<not> py_bool (get_or ev ''enabled'' (JBool True)) then remove_locked rid pc
      else if action \<noteq> Some (JStr ''created'') \<and> action \<noteq> Some (JStr ''updated'') then pc
      else
        (case rule_from_dict we ev of
           None \<Rightarrow> pc
         | Some r \<Rightarrow> insert_locked r pc))"

definition get_rules_for :: "policy_cache \<Rightarrow> string \<Rightarrow> string \<Rightarrow> cached_rule list" where
  "get_rules_for pc t c = sort_key (\<lambda>r. - cr_priority r) (bucket pc t None @ bucket pc t (Some c))"

section \<open>Domain rules\<close>

definition matches_domain :: "string \<Rightarrow> string \<Rightarrow> bool" where
  "matches_domain host pat =
     (let p = rstrip_dots (str_lower pat); h = rstrip_dots (str_lower host) in
      if is_prefix_of ''*.'' p then ends_with h (drop 1 p) else h = p)"

text \<open>\<open>EgressDomainRuleConfig.model_validate\<close>: patterns and ports, \<open>None\<close> for a validation error.\<close>

record domain_config =
  dc_patterns :: "string list"
  dc_ports :: "int list option"

fun strings_of :: "json list \<Rightarrow> string list option" where
  "strings_of [] = Some []"
| "strings_of (JStr s # js) = map_option (\<lambda>ss. s # ss) (strings_of js)"
| "strings_of (j # js) = None"

fun ints_of :: "(json \<Rightarrow> int option) \<Rightarrow> json list \<Rightarrow> int list option" where
  "ints_of f [] = Some []"
| "ints_of f (j # js) =
     (case (f j, ints_of f js) of (Some n, Some ns) \<Rightarrow> Some (n # ns) | _ \<Rightarrow> None)"

definition domain_patterns_ok :: "string list \<Rightarrow> bool" where
  "domain_patterns_ok ps =
     (1 \<le> length ps \<and> length ps \<le> 100 \<and> list_all (\<lambda>p. 1 \<le> length p \<and> length p \<le> 253) ps \<and>
      list_all (\<lambda>p. str_strip p \<noteq> []) ps)"

definition domain_config_of :: "(json \<Rightarrow> int option) \<Rightarrow> (string \<times> json) list \<Rightarrow> domain_config option" where
  "domain_config_of as_int cfg =
     (if \<not> set (map fst cfg) \<subseteq> {''domain_patterns'', ''ports''} then None
      else
        (case (case obj_get cfg ''domain_patterns'' of Some (JList js) \<Rightarrow> strings_of js | _ \<Rightarrow> None,
               case obj_get cfg ''ports'' of
                 None \<Rightarrow> Some None
               | Some JNull \<Rightarrow> Some None
               | Some (JList js) \<Rightarrow> map_option Some (ints_of as_int js)
               | _ \<Rightarrow> None) of
           (Some ps, Some ports) \<Rightarrow>
             if domain_patterns_ok ps then Some \<lparr>dc_patterns = map str_strip ps, dc_ports = ports\<rparr> else None
         | _ \<Rightarrow> None))"

section \<open>Decisions\<close>

record identity =
  id_tenant_id :: string
  id_coworker_id :: string
  id_user_id :: string
  id_conversation_id :: string
  id_job_id :: string
  id_container_name :: string

record egress_request =
  eq_host :: string
  eq_port :: int
  eq_mode :: string
  eq_method :: "string option"
  eq_qtype :: "string option"

record egress_decision =
  ed_action :: string
  ed_reason :: string
  ed_triggered :: "string list"
  ed_findings :: "finding list"

text \<open>The gateway's check for \<open>egress.domain_rule\<close>.\<close>

definition egress_domain_check ::
  "(json \<Rightarrow> int option) \<Rightarrow> egress_request \<Rightarrow> (string \<times> json) list \<Rightarrow> string + bool \<times> finding list" where
  "egress_domain_check as_int rq cfg =
     (case domain_config_of as_int cfg of
        None \<Rightarrow> Inr (False, [])
      | Some dc \<Rightarrow>
          if eq_host rq = [] then Inr (False, [])
          else if (case dc_ports dc of None \<Rightarrow> False | Some ps \<Rightarrow> eq_port rq \<notin> set ps) then Inr (False, [])
          else
            (case find (\<lambda>p. matches_domain (eq_host rq) p) (dc_patterns dc) of
               None \<Rightarrow> Inr (False, [])
             | Some p \<Rightarrow>
                 Inr (True, [\<lparr>fi_code = ''EGRESS.DOMAIN_ALLOWED'', fi_severity = ''info'',
                              fi_message = ''matched '' @ p,
                              fi_metadata = [(''host'', JStr (eq_host rq)), (''port'', JInt (eq_port rq))]\<rparr>])))"

type_synonym egress_checks = "(string, egress_request \<Rightarrow> (string \<times> json) list \<Rightarrow> string + bool \<times> finding list) dict"

record egress_caller =
  ec_cache :: policy_cache
  ec_checks :: egress_checks
  ec_platform_allow :: "(string \<Rightarrow> int \<Rightarrow> bool) option"
  ec_mcp_allow :: "(string \<Rightarrow> string \<Rightarrow> int \<Rightarrow> bool) option"

definition blocked :: "string \<Rightarrow> egress_decision" where
  "blocked why = \<lparr>ed_action = ''block'', ed_reason = why, ed_triggered = [], ed_findings = []\<rparr>"

definition origin_allowed :: "string \<Rightarrow> string \<Rightarrow> string \<Rightarrow> (string \<Rightarrow> string) \<Rightarrow> egress_request \<Rightarrow> egress_decision" where
  "origin_allowed why code what fmt rq =
     \<lparr>ed_action = ''allow'', ed_reason = why, ed_triggered = [],
      ed_findings = [\<lparr>fi_code = code, fi_severity = ''info'', fi_message = fmt what,
                      fi_metadata = [(''host'', JStr (eq_host rq)), (''port'', JInt (eq_port rq))]\<rparr>]\<rparr>"

fun vote :: "egress_checks \<Rightarrow> egress_request \<Rightarrow> cached_rule list \<Rightarrow> (string \<times> finding list) list" where
  "vote checks rq [] = []"
| "vote checks rq (r # rs) =
     (if cr_stage r \<noteq> ''egress_request'' then vote checks rq rs
      else
        (case dict_get checks (cr_check_id r) of
           None \<Rightarrow> vote checks rq rs
         | Some f \<Rightarrow>
             (case f rq (cr_config r) of
                Inl _ \<Rightarrow> vote checks rq rs
              | Inr (True, fs) \<Rightarrow> (cr_id r, fs) # vote checks rq rs
              | Inr (False, fs) \<Rightarrow> vote checks rq rs)))"

text \<open>\<open>decide\<close>: the decision, and whether an audit event is published for it. \<open>hp\<close> prints \<open>host:port\<close>
  behind a text and \<open>num\<close> a number.\<close>

definition decide_egress ::
  "(nat \<Rightarrow> string) \<Rightarrow> (egress_request \<Rightarrow> string \<Rightarrow> string) \<Rightarrow> egress_caller \<Rightarrow> identity option \<Rightarrow> egress_request \<Rightarrow>
    egress_decision \<times> bool" where
  "decide_egress num hp ec who rq =
     (case who of
        None \<Rightarrow> (blocked ''Unknown source identity'', False)
      | Some i \<Rightarrow>
          if eq_mode rq = ''reverse'' \<and>
             (case ec_platform_allow ec of None \<Rightarrow> False | Some f \<Rightarrow> f (eq_host rq) (eq_port rq)) then
            (origin_allowed ''Platform-managed provider allowlist'' ''EGRESS.PLATFORM_PROVIDER_ALLOWED''
               ''platform-managed provider host '' (hp rq) rq, True)
          else if eq_mode rq = ''reverse'' \<and>
             (case ec_mcp_allow ec of None \<Rightarrow> False | Some f \<Rightarrow> f (id_tenant_id i) (eq_host rq) (eq_port rq)) then
            (origin_allowed ''Registered MCP server origin'' ''EGRESS.MCP_REGISTRY_ALLOWED''
               ''registered MCP server origin '' (hp rq) rq, True)
          else if \<not> pc_seeded (ec_cache ec) then
            (blocked ''Egress policy snapshot not yet loaded (gateway degraded)'', True)
          else
            (let hits = vote (ec_checks ec) rq (get_rules_for (ec_cache ec) (id_tenant_id i) (id_coworker_id i)) in
             if hits \<noteq> [] then
               (\<lparr>ed_action = ''allow'', ed_reason = ''Matched '' @ num (length hits) @ '' allowlist rule(s)'',
                 ed_triggered = map fst hits, ed_findings = concat (map snd hits)\<rparr>, True)
             else (blocked (hp rq ''No egress allowlist rule matched ''), True)))"

text \<open>\<open>redact_dns_qname\<close>: all but the last two labels are hidden.\<close>

definition redact_dns_qname :: "string \<Rightarrow> string" where
  "redact_dns_qname q =
     (let cleaned = rstrip_dots q; parts = split_at (CHR ''.'') cleaned in
      if length parts \<le> 2 then cleaned
      else ''***.'' @ join_with ''.'' (drop (length parts - 2) parts))"

section \<open>The DNS policy\<close>

record dns_policy =
  dp_patterns :: "string list"
  dp_mode :: string

definition dns_is_allowed :: "dns_policy \<Rightarrow> string \<Rightarrow> bool" where
  "dns_is_allowed dp qname = list_ex (\<lambda>p. matches_domain qname p) (dp_patterns dp)"

text \<open>\<open>from_env\<close> on the two environment variables, \<open>None\<close> for the \<open>ValueError\<close> of an unknown mode.\<close>

definition dns_from_env :: "string option \<Rightarrow> string option \<Rightarrow> dns_policy option" where
  "dns_from_env allow md =
     (let raw = (case allow of None \<Rightarrow> [] | Some s \<Rightarrow> s);
          mode = str_lower (str_strip (case md of None \<Rightarrow> ''enforce'' | Some s \<Rightarrow> s))
      in if mode \<notin> {''enforce'', ''observe''} then None
         else Some \<lparr>dp_patterns = filter (\<lambda>p. p \<noteq> []) (map str_strip (split_at (CHR '','') raw)), dp_mode = mode\<rparr>)"

section \<open>The two-level index against a flat table\<close>

lemma bucket_set_bucket [simp]:
  "bucket (set_bucket t c rs pc) t' c' = (if t' = t \<and> c' = c then rs else bucket pc t' c')"
  by (auto simp: bucket_def set_bucket_def dict_get_def [of "[]"] split: option.split)

lemma bucket_frame [simp]:
  "bucket (pc\<lparr>pc_by_id := m\<rparr>) t c = bucket pc t c" "bucket (pc\<lparr>pc_seeded := b\<rparr>) t c = bucket pc t c"
  "pc_by_id (set_bucket t c rs pc) = pc_by_id pc"
  by (simp_all add: bucket_def set_bucket_def)

lemma put_rule_ids [simp]:
  "set (map cr_id (put_rule r xs)) = insert (cr_id r) (set (map cr_id xs))"
  by (induction xs) auto

lemma put_rule_distinct: "distinct (map cr_id xs) \<Longrightarrow> distinct (map cr_id (put_rule r xs))"
proof (induction xs)
  case (Cons x xs)
  then show ?case using put_rule_ids [of r xs] by auto
qed simp

lemma put_rule_set: "distinct (map cr_id xs) \<Longrightarrow> set (put_rule r xs) = insert r {x \<in> set xs. cr_id x \<noteq> cr_id r}"
proof (induction xs)
  case (Cons x xs)
  show ?case
  proof (cases "cr_id x = cr_id r")
    case True
    then have "cr_id y \<noteq> cr_id r" if "y \<in> set xs" for y using Cons.prems that by (auto simp: image_iff)
    then show ?thesis using True by auto
  qed (use Cons in auto)
qed simp

text \<open>The index holds exactly the rules of the flat table, each in its bucket.\<close>

definition cache_wf :: "policy_cache \<Rightarrow> bool" where
  "cache_wf pc \<longleftrightarrow>
     (\<forall>k r. dict_get (pc_by_id pc) k = Some r \<longrightarrow> cr_id r = k) \<and>
     (\<forall>t c. distinct (map cr_id (bucket pc t c))) \<and>
     (\<forall>t c r. r \<in> set (bucket pc t c) \<longleftrightarrow>
        dict_get (pc_by_id pc) (cr_id r) = Some r \<and> cr_tenant_id r = t \<and> cr_coworker_id r = c)"

lemma cache_wfD:
  assumes "cache_wf pc"
  shows "dict_get (pc_by_id pc) k = Some r \<Longrightarrow> cr_id r = k"
    and "distinct (map cr_id (bucket pc t c))"
    and "r \<in> set (bucket pc t c) \<longleftrightarrow>
      dict_get (pc_by_id pc) (cr_id r) = Some r \<and> cr_tenant_id r = t \<and> cr_coworker_id r = c"
  using assms unfolding cache_wf_def by blast+

lemma cache_wf_empty: "cache_wf (pc\<lparr>pc_rules := [], pc_by_id := []\<rparr>)"
  by (simp add: cache_wf_def bucket_def dict_get_def)

definition same_scope :: "cached_rule \<Rightarrow> cached_rule \<Rightarrow> bool" where
  "same_scope a b = (cr_tenant_id a = cr_tenant_id b \<and> cr_coworker_id a = cr_coworker_id b)"

lemma cache_wf_insert:
  assumes wf: "cache_wf pc" and stable: "\<And>old. dict_get (pc_by_id pc) (cr_id r) = Some old \<Longrightarrow> same_scope old r"
  shows "cache_wf (insert_locked r pc)"
proof -
  define b where "b = put_rule r (bucket pc (cr_tenant_id r) (cr_coworker_id r))"
  have bkt: "bucket (insert_locked r pc) t c =
      (if t = cr_tenant_id r \<and> c = cr_coworker_id r then b else bucket pc t c)" for t c
    by (simp add: insert_locked_def b_def)
  have ids: "dict_get (pc_by_id (insert_locked r pc)) = (dict_get (pc_by_id pc))(cr_id r \<mapsto> r)"
    by (simp add: insert_locked_def)
  have b: "distinct (map cr_id b)" "set b = insert r {x \<in> set (bucket pc (cr_tenant_id r) (cr_coworker_id r)). cr_id x \<noteq> cr_id r}"
    using put_rule_distinct put_rule_set cache_wfD(2) [OF wf] by (simp_all add: b_def)
  have "x \<notin> set (bucket pc t c)" if "cr_id x = cr_id r" "\<not> (t = cr_tenant_id r \<and> c = cr_coworker_id r)" for x t c
    using that stable cache_wfD(3) [OF wf, of x t c] by (auto simp: same_scope_def)
  then show ?thesis
    unfolding cache_wf_def bkt ids
    using b cache_wfD [OF wf] by (auto split: if_splits)
qed

lemma cache_wf_remove: "cache_wf pc \<Longrightarrow> cache_wf (remove_locked rid pc)"
proof -
  assume wf: "cache_wf pc"
  show ?thesis
  proof (cases "dict_get (pc_by_id pc) rid")
    case None
    then show ?thesis using wf by (simp add: remove_locked_def)
  next
    case (Some r)
    have id: "cr_id r = rid" using cache_wfD(1) [OF wf Some] .
    then have mem: "r \<in> set (bucket pc (cr_tenant_id r) (cr_coworker_id r))"
      using cache_wfD(3) [OF wf] Some by blast
    then have eq: "remove_locked rid pc = set_bucket (cr_tenant_id r) (cr_coworker_id r)
        (filter (\<lambda>x. cr_id x \<noteq> rid) (bucket pc (cr_tenant_id r) (cr_coworker_id r)))
        (pc\<lparr>pc_by_id := dict_pop (pc_by_id pc) rid\<rparr>)"
      using Some by (auto simp: remove_locked_def bucket_def Let_def split: option.splits)
    have "x \<notin> set (bucket pc t c)" if "cr_id x = rid" "\<not> (t = cr_tenant_id r \<and> c = cr_coworker_id r)" for x t c
      using that Some cache_wfD(3) [OF wf, of x t c] by auto
    then show ?thesis
      unfolding cache_wf_def eq using cache_wfD [OF wf] by (auto simp: distinct_map_filter split: if_splits)
  qed
qed

lemma remove_by_id [simp]: "dict_get (pc_by_id (remove_locked rid pc)) = (dict_get (pc_by_id pc))(rid := None)"
  by (auto simp: remove_locked_def Let_def split: option.split)

lemma insert_by_id [simp]: "dict_get (pc_by_id (insert_locked r pc)) = (dict_get (pc_by_id pc))(cr_id r \<mapsto> r)"
  by (simp add: insert_locked_def)

text \<open>The flat table the control plane means: one rule per id, last write wins.\<close>

fun table_seed :: "wire_env \<Rightarrow> (string \<times> json) list list \<Rightarrow> (string \<rightharpoonup> cached_rule) \<Rightarrow> (string \<rightharpoonup> cached_rule)" where
  "table_seed we [] tb = tb"
| "table_seed we (e # es) tb =
     table_seed we es
       (case rule_from_dict we e of None \<Rightarrow> tb | Some r \<Rightarrow> if cr_enabled r then tb(cr_id r \<mapsto> r) else tb)"

text \<open>What the gateway keeps of an event: an update that names another stage is dropped.\<close>

definition kept_event :: "wire_env \<Rightarrow> (string \<times> json) list \<Rightarrow> (string \<rightharpoonup> cached_rule) \<Rightarrow> (string \<rightharpoonup> cached_rule)" where
  "kept_event we ev tb =
     (let rid = get_str (we_str we) ev ''rule_id'' [];
          deleted = (obj_get ev ''action'' = Some (JStr ''deleted''));
          written = (obj_get ev ''action'' = Some (JStr ''created'') \<or> obj_get ev ''action'' = Some (JStr ''updated''))
      in
      if rid = [] \<or> (obj_get ev ''stage'' \<noteq> Some (JStr ''egress_request'') \<and> \<not> deleted) then tb
      else if deleted \<or> \<not> py_bool (get_or ev ''enabled'' (JBool True)) then tb(rid := None)
      else (case rule_from_dict we ev of Some r \<Rightarrow> if written then tb(cr_id r \<mapsto> r) else tb | None \<Rightarrow> tb))"

text \<open>The event as documented: a rule that is updated to another stage leaves the table of egress rules.\<close>

definition moved_out :: "(string \<times> json) list \<Rightarrow> bool" where
  "moved_out ev =
     (obj_get ev ''stage'' \<noteq> Some (JStr ''egress_request'') \<and>
      (obj_get ev ''action'' = Some (JStr ''created'') \<or> obj_get ev ''action'' = Some (JStr ''updated'')))"

definition table_event :: "wire_env \<Rightarrow> (string \<times> json) list \<Rightarrow> (string \<rightharpoonup> cached_rule) \<Rightarrow> (string \<rightharpoonup> cached_rule)" where
  "table_event we ev tb =
     (let rid = get_str (we_str we) ev ''rule_id'' [];
          deleted = (obj_get ev ''action'' = Some (JStr ''deleted''));
          written = (obj_get ev ''action'' = Some (JStr ''created'') \<or> obj_get ev ''action'' = Some (JStr ''updated''))
      in
      if rid = [] then tb
      else if deleted \<or> moved_out ev then tb(rid := None)
      else if obj_get ev ''stage'' \<noteq> Some (JStr ''egress_request'') then tb
      else if \<not> py_bool (get_or ev ''enabled'' (JBool True)) then tb(rid := None)
      else (case rule_from_dict we ev of Some r \<Rightarrow> if written then tb(cr_id r \<mapsto> r) else tb | None \<Rightarrow> tb))"

text \<open>No event of the sequence moves a rule of the table to another stage.\<close>

fun no_rule_moves :: "wire_env \<Rightarrow> (string \<times> json) list list \<Rightarrow> (string \<rightharpoonup> cached_rule) \<Rightarrow> bool" where
  "no_rule_moves we [] tb = True"
| "no_rule_moves we (ev # evs) tb =
     ((moved_out ev \<longrightarrow> tb (get_str (we_str we) ev ''rule_id'' []) = None) \<and> no_rule_moves we evs (table_event we ev tb))"

lemma table_kept: "no_rule_moves we evs tb \<Longrightarrow> fold (kept_event we) evs tb = fold (table_event we) evs tb"
proof (induction evs arbitrary: tb)
  case (Cons ev evs)
  have "kept_event we ev tb = table_event we ev tb"
    using Cons.prems by (auto simp: kept_event_def table_event_def moved_out_def Let_def fun_eq_iff)
  then show ?case using Cons by simp
qed simp

text \<open>Every rule on the wire has the scope its id has in the database.\<close>

definition scoped :: "wire_env \<Rightarrow> (string \<Rightarrow> string \<times> string option) \<Rightarrow> (string \<times> json) list \<Rightarrow> bool" where
  "scoped we sc d =
     (case rule_from_dict we d of None \<Rightarrow> True | Some r \<Rightarrow> sc (cr_id r) = (cr_tenant_id r, cr_coworker_id r))"

definition table_scoped :: "(string \<Rightarrow> string \<times> string option) \<Rightarrow> policy_cache \<Rightarrow> bool" where
  "table_scoped sc pc \<longleftrightarrow>
     (\<forall>k r. dict_get (pc_by_id pc) k = Some r \<longrightarrow> sc k = (cr_tenant_id r, cr_coworker_id r))"

definition tracks :: "(string \<Rightarrow> string \<times> string option) \<Rightarrow> policy_cache \<Rightarrow> (string \<rightharpoonup> cached_rule) \<Rightarrow> bool" where
  "tracks sc pc tb \<longleftrightarrow> cache_wf pc \<and> table_scoped sc pc \<and> dict_get (pc_by_id pc) = tb"

lemma tracks_insert:
  assumes "tracks sc pc tb" "sc (cr_id r) = (cr_tenant_id r, cr_coworker_id r)"
  shows "tracks sc (insert_locked r pc) (tb(cr_id r \<mapsto> r))"
proof -
  have "same_scope old r" if "dict_get (pc_by_id pc) (cr_id r) = Some old" for old
    using assms that by (fastforce simp: tracks_def table_scoped_def same_scope_def)
  moreover have "cache_wf pc" using assms(1) by (simp add: tracks_def)
  ultimately have "cache_wf (insert_locked r pc)" by (rule cache_wf_insert [rotated])
  then show ?thesis using assms by (auto simp: tracks_def table_scoped_def)
qed

lemma tracks_remove: "tracks sc pc tb \<Longrightarrow> tracks sc (remove_locked rid pc) (tb(rid := None))"
  using cache_wf_remove by (auto simp: tracks_def table_scoped_def)

lemma tracks_seed_rules:
  "tracks sc pc tb \<Longrightarrow> \<forall>e \<in> set es. scoped we sc e \<Longrightarrow> tracks sc (seed_rules we es pc) (table_seed we es tb)"
proof (induction es arbitrary: pc tb)
  case (Cons e es)
  show ?case
  proof (cases "rule_from_dict we e")
    case None
    then show ?thesis using Cons by simp
  next
    case (Some r)
    then have tr: "tracks sc (insert_locked r pc) (tb(cr_id r \<mapsto> r))"
      using Cons.prems by (intro tracks_insert) (simp_all add: scoped_def)
    have es: "\<forall>e \<in> set es. scoped we sc e" using Cons.prems(2) by simp
    show ?thesis
    proof (cases "cr_enabled r")
      case True
      show ?thesis
        unfolding seed_rules.simps table_seed.simps Some option.case if_P [OF True] by (rule Cons.IH [OF tr es])
    next
      case False
      show ?thesis
        unfolding seed_rules.simps table_seed.simps Some option.case if_not_P [OF False]
        by (rule Cons.IH [OF Cons.prems(1) es])
    qed
  qed
qed simp

lemma tracks_event:
  assumes "tracks sc pc tb" "scoped we sc ev"
  shows "tracks sc (apply_event we ev pc) (kept_event we ev tb)"
  using assms tracks_insert tracks_remove
  by (auto simp: apply_event_def kept_event_def scoped_def Let_def split: option.splits)

lemma tracks_events:
  "tracks sc pc tb \<Longrightarrow> \<forall>e \<in> set evs. scoped we sc e \<Longrightarrow>
     tracks sc (fold (apply_event we) evs pc) (fold (kept_event we) evs tb)"
  by (induction evs arbitrary: pc tb) (simp_all add: tracks_event)

lemma tracks_seed:
  assumes "\<forall>e \<in> set snapshot. scoped we sc e"
  shows "tracks sc (seed we snapshot pc) (table_seed we snapshot Map.empty)"
proof -
  have "tracks sc (pc\<lparr>pc_rules := [], pc_by_id := []\<rparr>) Map.empty"
    using cache_wf_empty [of pc] by (auto simp: tracks_def table_scoped_def dict_get_def)
  from tracks_seed_rules [OF this assms] show ?thesis
    by (simp add: seed_def tracks_def table_scoped_def cache_wf_def)
qed

lemma tracks_lookup:
  "tracks sc pc tb \<Longrightarrow>
   set (get_rules_for pc t c) = {r. tb (cr_id r) = Some r \<and> cr_tenant_id r = t \<and> cr_coworker_id r \<in> {None, Some c}}"
  by (auto simp: tracks_def get_rules_for_def cache_wfD(3))

section \<open>Properties\<close>

text \<open>C25. The gateway's cache is the documented rule table: after a snapshot and a sequence of change events, the rules
  looked up for a coworker are exactly the enabled rules of the table for its tenant that are
  tenant-wide or its own, without duplicates and by falling priority. The table is the snapshot
  updated by the events, the last write of an id winning, and a rule updated to another stage leaving
  it. Two conditions: a rule keeps its tenant and coworker, and no event of the sequence moves a rule
  of the table out of the egress stage, where the cache departs from the table.\<close>

theorem cache_refines_table:
  assumes "\<forall>e \<in> set snapshot. scoped we sc e" "\<forall>e \<in> set evs. scoped we sc e"
    and "pc = fold (apply_event we) evs (seed we snapshot pc0)"
    and "tb = fold (table_event we) evs (table_seed we snapshot Map.empty)"
    and "no_rule_moves we evs (table_seed we snapshot Map.empty)"
  shows "set (get_rules_for pc t c) =
      {r. tb (cr_id r) = Some r \<and> cr_tenant_id r = t \<and> cr_coworker_id r \<in> {None, Some c}} \<and>
    distinct (map cr_id (get_rules_for pc t c)) \<and>
    sorted_wrt (\<lambda>a b. cr_priority b \<le> cr_priority a) (get_rules_for pc t c)"
proof (intro conjI)
  have tr: "tracks sc pc tb" unfolding assms(3,4) table_kept [OF assms(5), symmetric]
    by (intro tracks_events tracks_seed assms(1,2))
  then show "set (get_rules_for pc t c) =
      {r. tb (cr_id r) = Some r \<and> cr_tenant_id r = t \<and> cr_coworker_id r \<in> {None, Some c}}"
    by (rule tracks_lookup)
  have wf: "cache_wf pc" using tr by (simp add: tracks_def)
  have "inj_on cr_id (set (get_rules_for pc t c))"
    using cache_wfD(3) [OF wf] by (auto simp: inj_on_def get_rules_for_def)
  moreover have "distinct (get_rules_for pc t c)"
    using cache_wfD(2,3) [OF wf] by (fastforce simp: get_rules_for_def distinct_map)
  ultimately show "distinct (map cr_id (get_rules_for pc t c))" by (simp add: distinct_map)
  show "sorted_wrt (\<lambda>a b. cr_priority b \<le> cr_priority a) (get_rules_for pc t c)"
    using sorted_sort_key [of "\<lambda>r. - cr_priority r" "bucket pc t None @ bucket pc t (Some c)"]
    unfolding sorted_map by (simp add: get_rules_for_def)
qed

lemma vote_hit:
  "hit \<in> set (vote checks rq rs) \<Longrightarrow>
   \<exists>r f fs. r \<in> set rs \<and> cr_stage r = ''egress_request'' \<and> dict_get checks (cr_check_id r) = Some f \<and>
     f rq (cr_config r) = Inr (True, fs) \<and> hit = (cr_id r, fs)"
proof (induction rs)
  case (Cons r rs)
  show ?case
  proof (cases "hit \<in> set (vote checks rq rs)")
    case True
    then show ?thesis using Cons.IH by auto
  next
    case False
    then show ?thesis using Cons.prems by (auto split: option.splits sum.splits bool.splits if_splits)
  qed
qed simp

text \<open>C22. Default deny: the gateway lets a request out only for a verified identity, and then only on the reverse
  path to an origin the platform or the identity's tenant has registered, or because the seeded
  table has an enabled egress rule of the identity's own tenant, in scope for its coworker, whose
  check matches the request. Rules of other tenants, rules of other stages, failing checks and the
  events before the first snapshot never let anything out.\<close>

theorem egress_default_deny:
  assumes "\<forall>e \<in> set snapshot. scoped we sc e" "\<forall>e \<in> set evs. scoped we sc e"
    and "ec_cache ec = fold (apply_event we) evs (if fetched then seed we snapshot empty_cache else empty_cache)"
    and "ed_action (fst (decide_egress num hp ec who rq)) = ''allow''"
  shows "\<exists>i. who = Some i \<and>
    (eq_mode rq = ''reverse'' \<and>
       ((\<exists>f. ec_platform_allow ec = Some f \<and> f (eq_host rq) (eq_port rq)) \<or>
        (\<exists>f. ec_mcp_allow ec = Some f \<and> f (id_tenant_id i) (eq_host rq) (eq_port rq))) \<or>
     fetched \<and>
       (\<exists>r f fs. fold (kept_event we) evs (table_seed we snapshot Map.empty) (cr_id r) = Some r \<and>
          cr_tenant_id r = id_tenant_id i \<and> cr_coworker_id r \<in> {None, Some (id_coworker_id i)} \<and>
          cr_stage r = ''egress_request'' \<and> dict_get (ec_checks ec) (cr_check_id r) = Some f \<and>
          f rq (cr_config r) = Inr (True, fs)))"
proof (cases who)
  case None
  then show ?thesis using assms(4) by (simp add: decide_egress_def blocked_def)
next
  case (Some i)
  have seeded: "pc_seeded (fold (apply_event we) es pc) = pc_seeded pc" for es pc
    by (induction es arbitrary: pc)
      (simp_all add: apply_event_def insert_locked_def remove_locked_def set_bucket_def Let_def split: option.split)
  show ?thesis
  proof (cases "eq_mode rq = ''reverse'' \<and>
       ((\<exists>f. ec_platform_allow ec = Some f \<and> f (eq_host rq) (eq_port rq)) \<or>
        (\<exists>f. ec_mcp_allow ec = Some f \<and> f (id_tenant_id i) (eq_host rq) (eq_port rq)))")
    case False
    let ?rs = "get_rules_for (ec_cache ec) (id_tenant_id i) (id_coworker_id i)"
    have s: "pc_seeded (ec_cache ec)" and "vote (ec_checks ec) rq ?rs \<noteq> []"
      using assms(4) False Some
      by (auto simp: decide_egress_def blocked_def Let_def split: if_splits option.splits)
    then obtain r f fs where r: "r \<in> set ?rs" "cr_stage r = ''egress_request''"
      "dict_get (ec_checks ec) (cr_check_id r) = Some f" "f rq (cr_config r) = Inr (True, fs)"
      using vote_hit by (metis list.set_intros(1) neq_Nil_conv)
    have f: fetched using s assms(3) seeded by (simp add: empty_cache_def split: if_splits)
    have "tracks sc (ec_cache ec) (fold (kept_event we) evs (table_seed we snapshot Map.empty))"
      using assms(1-3) f tracks_events tracks_seed by simp
    from r(1) tracks_lookup [OF this] show ?thesis using Some f r(2-4) by auto
  qed (use Some in auto)
qed

text \<open>An example: one rule that lets the tenant's agents reach a payment host.\<close>

definition demo_wire :: wire_env where
  "demo_wire = \<lparr>we_str = (\<lambda>j. case j of JStr s \<Rightarrow> s | _ \<Rightarrow> ''?''), we_int_of_str = (\<lambda>_. None), we_dict_of = (\<lambda>_. None)\<rparr>"

definition demo_rule_row :: "(string \<times> json) list" where
  "demo_rule_row =
     [(''id'', JStr ''e1''), (''tenant_id'', JStr ''acme''), (''coworker_id'', JNull), (''stage'', JStr ''egress_request''),
      (''check_id'', JStr ''egress.domain_rule''),
      (''config'', JObj [(''domain_patterns'', JList [JStr ''*.Pay.com''])]), (''priority'', JInt 100), (''enabled'', JBool True)]"

definition demo_change :: "string \<Rightarrow> string \<Rightarrow> (string \<times> json) list" where
  "demo_change act st =
     [(''action'', JStr act), (''rule_id'', JStr ''e1''), (''stage'', JStr st)] @ tl demo_rule_row"

definition demo_checks :: egress_checks where
  "demo_checks = [(''egress.domain_rule'', egress_domain_check (\<lambda>j. case j of JInt n \<Rightarrow> Some n | _ \<Rightarrow> None))]"

definition demo_caller :: "(string \<times> json) list list \<Rightarrow> egress_caller" where
  "demo_caller evs =
     \<lparr>ec_cache = fold (apply_event demo_wire) evs (if True then seed demo_wire [demo_rule_row] empty_cache else empty_cache),
      ec_checks = demo_checks, ec_platform_allow = None, ec_mcp_allow = None\<rparr>"

definition demo_identity :: identity where
  "demo_identity = \<lparr>id_tenant_id = ''acme'', id_coworker_id = ''bot'', id_user_id = ''u1'', id_conversation_id = ''c1'',
     id_job_id = ''j1'', id_container_name = ''k1''\<rparr>"

definition demo_connect :: "string \<Rightarrow> egress_request" where
  "demo_connect h = \<lparr>eq_host = h, eq_port = 443, eq_mode = ''forward'', eq_method = None, eq_qtype = None\<rparr>"

definition demo_decide :: "(string \<times> json) list list \<Rightarrow> string \<Rightarrow> egress_decision \<times> bool" where
  "demo_decide evs h =
     decide_egress (\<lambda>_. ''n'') (\<lambda>rq txt. txt @ eq_host rq) (demo_caller evs) (Some demo_identity) (demo_connect h)"

lemma demo_allows: "ed_action (fst (demo_decide [] ''api.pay.com.'')) = ''allow''"
  by code_simp

lemma demo_denies: "ed_action (fst (demo_decide [] ''pay.com.evil.com'')) = ''block''"
  by code_simp

lemma demo_scoped: "scoped demo_wire (\<lambda>_. (''acme'', None)) demo_rule_row"
  by code_simp

theorem cache_refines_table_witness:
  "set (get_rules_for (apply_event demo_wire (demo_change ''updated'' ''egress_request'') (seed demo_wire [demo_rule_row] empty_cache))
       ''acme'' ''bot'') =
     {r. table_event demo_wire (demo_change ''updated'' ''egress_request'') (table_seed demo_wire [demo_rule_row] Map.empty) (cr_id r) = Some r \<and>
         cr_tenant_id r = ''acme'' \<and> cr_coworker_id r \<in> {None, Some ''bot''}}"
proof -
  let ?evs = "[demo_change ''updated'' ''egress_request'']"
  have "scoped demo_wire (\<lambda>_. (''acme'', None)) (demo_change ''updated'' ''egress_request'')" by code_simp
  then have 1: "\<forall>e \<in> set [demo_rule_row]. scoped demo_wire (\<lambda>_. (''acme'', None)) e"
    and 2: "\<forall>e \<in> set ?evs. scoped demo_wire (\<lambda>_. (''acme'', None)) e"
    using demo_scoped by simp_all
  have "\<not> moved_out (demo_change ''updated'' ''egress_request'')" by code_simp
  then have 3: "no_rule_moves demo_wire ?evs (table_seed demo_wire [demo_rule_row] Map.empty)" by simp
  from cache_refines_table [OF 1 2 refl refl 3] show ?thesis by simp
qed

theorem egress_default_deny_witness:
  "\<exists>i r. Some demo_identity = Some i \<and>
     table_seed demo_wire [demo_rule_row] Map.empty (cr_id r) = Some r \<and> cr_tenant_id r = id_tenant_id i"
proof -
  have 1: "\<forall>e \<in> set [demo_rule_row]. scoped demo_wire (\<lambda>_. (''acme'', None)) e"
    and 2: "\<forall>e \<in> set []. scoped demo_wire (\<lambda>_. (''acme'', None)) e"
    using demo_scoped by simp_all
  have 3: "ec_cache (demo_caller []) = fold (apply_event demo_wire) []
      (if True then seed demo_wire [demo_rule_row] empty_cache else empty_cache)"
    by (simp add: demo_caller_def)
  from egress_default_deny [OF 1 2 3 demo_allows [unfolded demo_decide_def]] show ?thesis
    by (auto simp: demo_connect_def)
qed

text \<open>A rule that is moved out of the egress stage keeps granting: the cache drops an update with another stage
  before it looks at the rule id, so the gateway goes on deciding every request as if the rule had
  not been moved.\<close>

theorem moved_rule_keeps_granting:
  assumes "obj_get ev ''action'' = Some (JStr ''updated'')" "obj_get ev ''stage'' = Some (JStr st)"
    and "st \<noteq> ''egress_request''"
  shows "decide_egress num hp (ec\<lparr>ec_cache := apply_event we ev (ec_cache ec)\<rparr>) who rq = decide_egress num hp ec who rq"
  using assms by (simp add: apply_event_def)

theorem moved_rule_keeps_granting_witness:
  "ed_action (fst (decide_egress (\<lambda>_. ''n'') (\<lambda>rq txt. txt @ eq_host rq)
     ((demo_caller [])\<lparr>ec_cache := apply_event demo_wire (demo_change ''updated'' ''pre_tool_call'') (ec_cache (demo_caller []))\<rparr>)
     (Some demo_identity) (demo_connect ''api.pay.com.''))) = ''allow''"
proof -
  have 1: "obj_get (demo_change ''updated'' ''pre_tool_call'') ''action'' = Some (JStr ''updated'')"
    and 2: "obj_get (demo_change ''updated'' ''pre_tool_call'') ''stage'' = Some (JStr ''pre_tool_call'')"
    by code_simp+
  have 3: "''pre_tool_call'' \<noteq> ''egress_request''" by simp
  from moved_rule_keeps_granting [OF 1 2 3] demo_allows show ?thesis by (simp add: demo_decide_def)
qed

end
