(* ===== verification/Runs.thy ===== *)
theory Runs
  imports Approval_Store
begin

text \<open>
  The life of a run: \<^verbatim>\<open>src/src/rolemesh/runs/lifecycle.py\<close>, the only writer of the \<open>runs\<close> table, and the
  named ways to end a run of \<^verbatim>\<open>src/src/rolemesh/runs/terminators.py\<close>. The table is a list of rows in
  insertion order; the id the database generates and the time are arguments.
\<close>

section \<open>Rows and statements\<close>

record run_row =
  rn_id :: string
  rn_tenant_id :: string
  rn_conversation_id :: string
  rn_status :: string
  rn_started_at :: int
  rn_completed_at :: "int option"
  rn_usage :: "json option"
  rn_error :: "json option"

definition terminal_statuses :: "string list" where
  "terminal_statuses = [''completed'', ''failed'', ''cancelled'', ''awaiting_reauth'']"

definition create_run :: "int \<Rightarrow> string \<Rightarrow> string \<Rightarrow> string \<Rightarrow> run_row list \<Rightarrow> run_row list" where
  "create_run now rid tenant conv tbl =
     tbl @ [\<lparr>rn_id = rid, rn_tenant_id = tenant, rn_conversation_id = conv, rn_status = ''running'',
             rn_started_at = now, rn_completed_at = None, rn_usage = None, rn_error = None\<rparr>]"

definition coalesce :: "'a option \<Rightarrow> 'a option \<Rightarrow> 'a option" where
  "coalesce a b = (case a of None \<Rightarrow> b | Some x \<Rightarrow> Some x)"

definition finish_row :: "int \<Rightarrow> string \<Rightarrow> json option \<Rightarrow> json option \<Rightarrow> run_row \<Rightarrow> run_row" where
  "finish_row now status usage err r =
     r\<lparr>rn_status := status, rn_completed_at := Some now, rn_usage := coalesce usage (rn_usage r),
       rn_error := coalesce err (rn_error r)\<rparr>"

definition still_running :: "string \<Rightarrow> run_row \<Rightarrow> bool" where
  "still_running rid r = (rn_id r = rid \<and> rn_status r = ''running'')"

text \<open>\<open>Inl\<close> is the \<open>ValueError\<close> for a status that is not terminal; otherwise whether a row was updated.\<close>

definition update_run_terminal ::
  "int \<Rightarrow> string \<Rightarrow> string \<Rightarrow> json option \<Rightarrow> json option \<Rightarrow> run_row list \<Rightarrow> (unit + bool) \<times> run_row list" where
  "update_run_terminal now rid status usage err tbl =
     (if status \<notin> set terminal_statuses then (Inl (), tbl)
      else (Inr (list_ex (still_running rid) tbl),
            map (\<lambda>r. if still_running rid r then finish_row now status usage err r else r) tbl))"

definition get_run :: "string \<Rightarrow> string \<Rightarrow> run_row list \<Rightarrow> run_row option" where
  "get_run rid tenant tbl = find (\<lambda>r. rn_id r = rid \<and> rn_tenant_id r = tenant) tbl"

section \<open>The ways to end\<close>

datatype run_end =
    WsCompleted "json option"
  | WsError json "json option"
  | UserCancel
  | ScheduledCompletion bool "json option" "json option"
  | ContainerCrash int "string option"
  | ReauthRequired string

definition crash_error :: "int \<Rightarrow> string option \<Rightarrow> json" where
  "crash_error code sig =
     JObj ([(''code'', JStr ''CONTAINER_CRASH''), (''exit_code'', JInt code)] @
           (case sig of None \<Rightarrow> [] | Some s \<Rightarrow> [(''signal'', JStr s)]))"

fun terminate_run :: "int \<Rightarrow> run_end \<Rightarrow> string \<Rightarrow> run_row list \<Rightarrow> (unit + bool) \<times> run_row list" where
  "terminate_run now (WsCompleted usage) rid = update_run_terminal now rid ''completed'' usage None"
| "terminate_run now (WsError err usage) rid = update_run_terminal now rid ''failed'' usage (Some err)"
| "terminate_run now UserCancel rid = update_run_terminal now rid ''cancelled'' None None"
| "terminate_run now (ScheduledCompletion success usage err) rid =
     update_run_terminal now rid (if success then ''completed'' else ''failed'') usage err"
| "terminate_run now (ContainerCrash code sig) rid =
     update_run_terminal now rid ''failed'' None (Some (crash_error code sig))"
| "terminate_run now (ReauthRequired reason) rid =
     update_run_terminal now rid ''awaiting_reauth'' None
       (Some (JObj [(''code'', JStr ''REAUTH_REQUIRED''), (''reason'', JStr reason)]))"

fun end_status :: "run_end \<Rightarrow> string" where
  "end_status (WsCompleted _) = ''completed''"
| "end_status (WsError _ _) = ''failed''"
| "end_status UserCancel = ''cancelled''"
| "end_status (ScheduledCompletion success _ _) = (if success then ''completed'' else ''failed'')"
| "end_status (ContainerCrash _ _) = ''failed''"
| "end_status (ReauthRequired _) = ''awaiting_reauth''"

fun end_usage :: "run_end \<Rightarrow> json option" where
  "end_usage (WsCompleted u) = u"
| "end_usage (WsError _ u) = u"
| "end_usage (ScheduledCompletion _ u _) = u"
| "end_usage _ = None"

fun end_error :: "run_end \<Rightarrow> json option" where
  "end_error (WsError e _) = Some e"
| "end_error (ScheduledCompletion _ _ e) = e"
| "end_error (ContainerCrash code sig) = Some (crash_error code sig)"
| "end_error (ReauthRequired reason) = Some (JObj [(''code'', JStr ''REAUTH_REQUIRED''), (''reason'', JStr reason)])"
| "end_error _ = None"

lemma terminate_run_eq:
  "terminate_run now e rid tbl =
     (Inr (list_ex (still_running rid) tbl),
      map (\<lambda>r. if still_running rid r then finish_row now (end_status e) (end_usage e) (end_error e) r else r) tbl)"
  by (cases e) (simp_all add: update_run_terminal_def terminal_statuses_def)

section \<open>The first end wins\<close>

definition run_of :: "run_row list \<Rightarrow> string \<Rightarrow> run_row option" where
  "run_of tbl rid = find (\<lambda>r. rn_id r = rid) tbl"

definition runs_wf :: "run_row list \<Rightarrow> bool" where
  "runs_wf tbl \<longleftrightarrow> distinct (map rn_id tbl)"

definition is_running :: "run_row \<Rightarrow> bool" where
  "is_running r = (rn_status r = ''running'')"

definition end_attempt :: "int \<times> run_end \<Rightarrow> string \<Rightarrow> run_row list \<Rightarrow> run_row option \<times> run_row list" where
  "end_attempt a rid tbl =
     (let (res, tbl') = terminate_run (fst a) (snd a) rid tbl
      in (if res = Inr True then run_of tbl' rid else None, tbl'))"

lemma finish_row_id [simp]: "rn_id (finish_row now st u e r) = rn_id r"
  by (simp add: finish_row_def)

lemma run_of_map:
  "(\<And>r. rn_id (f r) = rn_id r) \<Longrightarrow> run_of (map f tbl) rid = map_option f (run_of tbl rid)"
  by (induction tbl) (simp_all add: run_of_def)

lemma run_of_id: "run_of tbl rid = Some r \<Longrightarrow> rn_id r = rid"
  by (auto simp: run_of_def find_Some_iff)

lemma run_of_mem: "runs_wf tbl \<Longrightarrow> r \<in> set tbl \<Longrightarrow> run_of tbl (rn_id r) = Some r"
proof (induction tbl)
  case (Cons x tbl)
  then show ?case by (auto simp: run_of_def runs_wf_def)
qed simp

lemma list_ex_running:
  assumes "runs_wf tbl"
  shows "list_ex (still_running rid) tbl \<longleftrightarrow> (\<exists>r. run_of tbl rid = Some r \<and> is_running r)"
proof
  assume "list_ex (still_running rid) tbl"
  then obtain r where "r \<in> set tbl" "rn_id r = rid" "is_running r"
    by (auto simp: list_ex_iff still_running_def is_running_def)
  then show "\<exists>r. run_of tbl rid = Some r \<and> is_running r" using run_of_mem [OF assms] by blast
next
  assume "\<exists>r. run_of tbl rid = Some r \<and> is_running r"
  then show "list_ex (still_running rid) tbl"
    by (auto simp: list_ex_iff still_running_def is_running_def run_of_def find_Some_iff)
qed

lemma run_of_terminate:
  "run_of (snd (terminate_run now e rid tbl)) k =
     map_option (\<lambda>r. if still_running rid r then finish_row now (end_status e) (end_usage e) (end_error e) r else r)
       (run_of tbl k)"
  by (simp add: terminate_run_eq run_of_map)

lemma end_status_terminal: "end_status e \<in> set terminal_statuses" "end_status e \<noteq> ''running''"
  by (cases e; simp add: terminal_statuses_def)+

lemma runs_wf_terminate: "runs_wf tbl \<Longrightarrow> runs_wf (snd (terminate_run now e rid tbl))"
  by (simp add: terminate_run_eq runs_wf_def comp_def if_distrib cong: if_cong)

interpretation run: first_wins runs_wf run_of is_running end_attempt
proof
  fix s :: "run_row list" and a k r
  assume wf: "runs_wf s" and r: "fst (end_attempt a k s) = Some r"
  have "list_ex (still_running k) s"
    using r by (auto simp: end_attempt_def terminate_run_eq split: if_splits)
  then obtain r0 where r0: "run_of s k = Some r0" "is_running r0" using list_ex_running [OF wf] by blast
  have "run_of (snd (end_attempt a k s)) k = Some r"
    using r by (auto simp: end_attempt_def split: if_splits prod.splits)
  moreover have "\<not> is_running r"
    using calculation r0 run_of_id [OF r0(1)] end_status_terminal(2) [of "snd a"]
    by (auto simp: end_attempt_def run_of_terminate is_running_def still_running_def finish_row_def
        split: prod.splits dest!: arg_cong [where f = "\<lambda>x. run_of (snd x) k"])
  ultimately show "(\<exists>r0. run_of s k = Some r0 \<and> is_running r0) \<and>
      run_of (snd (end_attempt a k s)) k = Some r \<and> \<not> is_running r"
    using r0 by blast
next
  fix s :: "run_row list" and a k
  assume wf: "runs_wf s" and none: "fst (end_attempt a k s) = None"
  have "\<not> (\<exists>r. run_of s k = Some r \<and> is_running r)"
  proof
    assume "\<exists>r. run_of s k = Some r \<and> is_running r"
    then show False
      using none list_ex_running [OF wf] run_of_terminate [of "fst a" "snd a" k s k]
      by (auto simp: end_attempt_def terminate_run_eq)
  qed
  then show "run_of (snd (end_attempt a k s)) k = run_of s k"
    by (cases "run_of s k")
      (auto simp: end_attempt_def run_of_terminate is_running_def still_running_def split: prod.split
        dest!: arg_cong [where f = "\<lambda>x. run_of (snd x) k"])
next
  fix s :: "run_row list" and a k k'
  assume "k' \<noteq> (k :: string)"
  then show "run_of (snd (end_attempt a k s)) k' = run_of s k'"
    using run_of_id [of s k'] run_of_terminate [of "fst a" "snd a" k s k']
    by (cases "run_of s k'") (auto simp: end_attempt_def still_running_def split: prod.split)
next
  fix s :: "run_row list" and a k
  assume "runs_wf s"
  then show "runs_wf (snd (end_attempt a k s))"
    using runs_wf_terminate [of s "fst a" "snd a" k] by (auto simp: end_attempt_def split: prod.split)
qed

section \<open>Properties\<close>

datatype run_call = RunCreate int string string string | RunEnd int run_end string
  | RunUpdate int string string "json option" "json option"

fun run_exec :: "run_call \<Rightarrow> run_row list \<Rightarrow> run_row list" where
  "run_exec (RunCreate now rid tenant conv) tbl = create_run now rid tenant conv tbl"
| "run_exec (RunEnd now e rid) tbl = snd (terminate_run now e rid tbl)"
| "run_exec (RunUpdate now rid status usage err) tbl = snd (update_run_terminal now rid status usage err tbl)"

text \<open>The ids a sequence of calls creates.\<close>

fun created :: "run_call list \<Rightarrow> string list" where
  "created [] = []"
| "created (RunCreate now rid tenant conv # cs) = rid # created cs"
| "created (_ # cs) = created cs"

definition run_typed :: "run_row \<Rightarrow> bool" where
  "run_typed r \<longleftrightarrow> rn_status r \<in> set (''running'' # terminal_statuses) \<and>
     (rn_completed_at r = None \<longleftrightarrow> rn_status r = ''running'')"

lemma finish_typed: "st \<in> set terminal_statuses \<Longrightarrow> run_typed (finish_row now st u e r)"
  by (auto simp: run_typed_def finish_row_def terminal_statuses_def)

lemma update_effect:
  "\<exists>f. snd (update_run_terminal now rid st u e tbl) = map f tbl \<and>
     (\<forall>r. rn_id (f r) = rn_id r \<and> (run_typed r \<longrightarrow> run_typed (f r)) \<and> (\<not> is_running r \<longrightarrow> f r = r))"
proof (cases "st \<in> set terminal_statuses")
  case True
  then show ?thesis
    by (intro exI [of _ "\<lambda>r. if still_running rid r then finish_row now st u e r else r"])
      (auto simp: update_run_terminal_def finish_typed still_running_def is_running_def)
next
  case False
  then show ?thesis by (intro exI [of _ id]) (simp add: update_run_terminal_def)
qed

text \<open>A call either inserts a running row or rewrites running rows in place.\<close>

lemma run_exec_cases:
  obtains (insert) now rid tenant conv where "c = RunCreate now rid tenant conv"
      "run_exec c tbl = create_run now rid tenant conv tbl"
  | (rewrite) f where "\<And>cs. created (c # cs) = created cs" "run_exec c tbl = map f tbl"
      "\<And>r. rn_id (f r) = rn_id r" "\<And>r. run_typed r \<Longrightarrow> run_typed (f r)" "\<And>r. \<not> is_running r \<Longrightarrow> f r = r"
proof (cases c)
  case (RunCreate now rid tenant conv)
  then show thesis using insert by simp
next
  case (RunEnd now e rid)
  have "terminate_run now e rid tbl = update_run_terminal now rid (end_status e) (end_usage e) (end_error e) tbl"
    using end_status_terminal(1) [of e] by (simp add: terminate_run_eq update_run_terminal_def)
  then show thesis
    using update_effect [of now rid "end_status e" "end_usage e" "end_error e" tbl] rewrite RunEnd by auto
next
  case (RunUpdate now rid st u e)
  then show thesis using update_effect [of now rid st u e tbl] rewrite by auto
qed

lemma run_fold_invariant:
  assumes "distinct (map rn_id tbl @ created cs)" "\<forall>r \<in> set tbl. run_typed r"
  shows "distinct (map rn_id (fold run_exec cs tbl)) \<and> (\<forall>r \<in> set (fold run_exec cs tbl). run_typed r) \<and>
    (\<forall>r \<in> set tbl. \<not> is_running r \<longrightarrow> r \<in> set (fold run_exec cs tbl))"
  using assms
proof (induction cs arbitrary: tbl)
  case (Cons c cs)
  show ?case
  proof (cases rule: run_exec_cases [of c tbl])
    case (insert now rid tenant conv)
    have "distinct (map rn_id (run_exec c tbl) @ created cs)" "\<forall>r \<in> set (run_exec c tbl). run_typed r"
      using Cons.prems insert by (auto simp: create_run_def run_typed_def)
    from Cons.IH [OF this] show ?thesis using insert by (auto simp: create_run_def)
  next
    case (rewrite f)
    have "distinct (map rn_id (run_exec c tbl) @ created cs)" "\<forall>r \<in> set (run_exec c tbl). run_typed r"
      using Cons.prems rewrite by (auto simp: comp_def)
    from Cons.IH [OF this] show ?thesis using rewrite(2,5) by (auto simp: image_iff)
  qed
qed simp

text \<open>C30. A run is well-formed and ends once: whatever sequence of inserts, named ends and raw updates is applied,
  every row has one of the five statuses and a completion time exactly if it is not running, and a
  run that has ended keeps its status, completion time, usage and error, whichever ends are
  attempted later.\<close>

theorem run_ends_once:
  assumes "distinct (created (cs1 @ cs2))"
  shows "(\<forall>r \<in> set (fold run_exec (cs1 @ cs2) []). run_typed r) \<and>
    (\<forall>r \<in> set (fold run_exec cs1 []). rn_status r \<noteq> ''running'' \<longrightarrow>
       run_of (fold run_exec (cs1 @ cs2) []) (rn_id r) = Some r)"
proof -
  have app: "created (xs @ ys) = created xs @ created ys" for xs ys by (induction xs rule: created.induct) auto
  have ids: "set (map rn_id (fold run_exec cs tbl)) \<subseteq> set (map rn_id tbl) \<union> set (created cs)" for cs tbl
  proof (induction cs arbitrary: tbl)
    case (Cons c cs)
    show ?case
      by (cases rule: run_exec_cases [of c tbl]) (use Cons.IH [of "run_exec c tbl"] in \<open>auto simp: create_run_def\<close>)
  qed simp
  have 1: "distinct (map rn_id (fold run_exec cs1 [])) \<and> (\<forall>r \<in> set (fold run_exec cs1 []). run_typed r)"
    using run_fold_invariant [of "[]" cs1] assms by (simp add: app)
  have "distinct (map rn_id (fold run_exec cs1 []) @ created cs2)"
    using 1 ids [of cs1 "[]"] assms by (auto simp: app)
  from run_fold_invariant [OF this] 1 show ?thesis
    using run_of_mem by (fastforce simp: runs_wf_def is_running_def)
qed

theorem run_ends_once_witness:
  "run_of (fold run_exec ([RunCreate 1 ''r'' ''t'' ''c'', RunEnd 2 UserCancel ''r''] @ [RunEnd 3 (WsCompleted None) ''r'']) [])
     ''r'' = Some \<lparr>rn_id = ''r'', rn_tenant_id = ''t'', rn_conversation_id = ''c'', rn_status = ''cancelled'',
       rn_started_at = 1, rn_completed_at = Some 2, rn_usage = None, rn_error = None\<rparr>"
proof -
  let ?r = "\<lparr>rn_id = ''r'', rn_tenant_id = ''t'', rn_conversation_id = ''c'', rn_status = ''cancelled'',
       rn_started_at = 1, rn_completed_at = Some 2, rn_usage = None, rn_error = None\<rparr>"
  have "distinct (created ([RunCreate 1 ''r'' ''t'' ''c'', RunEnd 2 UserCancel ''r''] @ [RunEnd 3 (WsCompleted None) ''r'']))"
    by simp
  moreover have "fold run_exec [RunCreate 1 ''r'' ''t'' ''c'', RunEnd 2 UserCancel ''r''] [] = [?r]" by code_simp
  ultimately show ?thesis
    using run_ends_once [of "[RunCreate 1 ''r'' ''t'' ''c'', RunEnd 2 UserCancel ''r'']" "[RunEnd 3 (WsCompleted None) ''r'']"]
    by simp
qed

text \<open>The same from the first-wins contract: of any sequence of named ends at most one takes effect on a run, and its
  row is the one that stays.\<close>

lemma first_end_wins:
  "runs_wf tbl \<Longrightarrow> length (run.wins rid ends tbl) \<le> 1 \<and>
     (run.wins rid ends tbl = [r] \<longrightarrow> run_of (run.attempts ends tbl) rid = Some r)"
  using run.at_most_one_win run.win_is_final by blast

end
