(* ===== verification/Pi_Messages.thy ===== *)
theory Pi_Messages
  imports Py_Json "HOL-Library.Monad_Syntax"
begin

text \<open>
  The messages of the Pi agent and their JSON form: \<^verbatim>\<open>src/src/pi/ai/types.py\<close>. Fields that the code only carries
  are the Python values they hold, with Python's \<open>None\<close> as \<open>JNull\<close>; a dict is the list of its items, whose
  order is not significant. A raised exception is \<open>None\<close>.
\<close>

section \<open>Codecs\<close>

text \<open>What a reader promises a writer: the values that are \<open>ok\<close> are written without an exception and read back
  unchanged. Lists are then written and read back item by item, and no two values are written alike.\<close>

locale partial_codec =
  fixes enc :: "'a \<Rightarrow> 'b option" and dec :: "'b \<Rightarrow> 'a option" and ok :: "'a \<Rightarrow> bool"
  assumes roundtrip: "ok x \<Longrightarrow> \<exists>y. enc x = Some y \<and> dec y = Some x"
begin

lemma list_roundtrip:
  assumes "\<forall>x \<in> set xs. ok x"
  shows "\<exists>ys. those (map enc xs) = Some ys \<and> those (map dec ys) = Some xs \<and> List.map_filter dec ys = xs"
  using assms
proof (induction xs)
  case (Cons x xs)
  from roundtrip [of x] Cons.prems obtain y where "enc x = Some y" "dec y = Some x" by auto
  moreover from Cons obtain ys where "those (map enc xs) = Some ys" "those (map dec ys) = Some xs" "List.map_filter dec ys = xs"
    by auto
  ultimately show ?case by (simp add: List.map_filter_def)
qed (simp add: List.map_filter_def)

lemma enc_injective: "ok x \<Longrightarrow> ok y \<Longrightarrow> enc x = enc y \<Longrightarrow> x = y"
  using roundtrip [of x] roundtrip [of y] by auto

end

section \<open>Data\<close>

datatype content_block =
    TextContent json json
  | ThinkingContent json json
  | ImageContent json json
  | ToolCall json json json json

fun user_block :: "content_block \<Rightarrow> bool" where
  "user_block (TextContent _ _) = True"
| "user_block (ImageContent _ _) = True"
| "user_block _ = False"

fun assistant_block :: "content_block \<Rightarrow> bool" where
  "assistant_block (ImageContent _ _) = False"
| "assistant_block _ = True"

record usage_cost =
  uc_input :: json
  uc_output :: json
  uc_cache_read :: json
  uc_cache_write :: json
  uc_total :: json

record usage =
  us_input :: json
  us_output :: json
  us_cache_read :: json
  us_cache_write :: json
  us_total_tokens :: json
  us_cost :: usage_cost

datatype msg_content = StrContent string | BlockContent "content_block list"

record assistant_message =
  am_content :: "content_block list"
  am_api :: json
  am_provider :: json
  am_model :: json
  am_usage :: usage
  am_stop_reason :: json
  am_error_message :: json
  am_timestamp :: json

record tool_result_message =
  tr_tool_call_id :: json
  tr_tool_name :: json
  tr_content :: "content_block list"
  tr_details :: json
  tr_is_error :: json
  tr_timestamp :: json

datatype pi_message =
    UserMessage msg_content json
  | AssistantMessage assistant_message
  | ToolResultMessage tool_result_message

section \<open>Writing\<close>

type_synonym line = "(string \<times> json) list"

text \<open>A key that is written only when its value is not \<open>None\<close>.\<close>

definition opt_field :: "string \<Rightarrow> json \<Rightarrow> line" where
  "opt_field k v = (if v = JNull then [] else [(k, v)])"

definition serialize_usage_cost :: "usage_cost \<Rightarrow> line" where
  "serialize_usage_cost c =
     [(''input'', uc_input c), (''output'', uc_output c), (''cacheRead'', uc_cache_read c),
      (''cacheWrite'', uc_cache_write c), (''total'', uc_total c)]"

definition serialize_usage :: "usage \<Rightarrow> line" where
  "serialize_usage u =
     [(''input'', us_input u), (''output'', us_output u), (''cacheRead'', us_cache_read u),
      (''cacheWrite'', us_cache_write u), (''totalTokens'', us_total_tokens u),
      (''cost'', JObj (serialize_usage_cost (us_cost u)))]"

fun serialize_content_block :: "content_block \<Rightarrow> line" where
  "serialize_content_block (TextContent t sig) =
     [(''type'', JStr ''text''), (''text'', t)] @ opt_field ''textSignature'' sig"
| "serialize_content_block (ThinkingContent t sig) =
     [(''type'', JStr ''thinking''), (''thinking'', t)] @ opt_field ''thinkingSignature'' sig"
| "serialize_content_block (ImageContent d mime) =
     [(''type'', JStr ''image''), (''data'', d), (''mimeType'', mime)]"
| "serialize_content_block (ToolCall i n args sig) =
     [(''type'', JStr ''toolCall''), (''id'', i), (''name'', n), (''arguments'', args)] @
     opt_field ''thoughtSignature'' sig"

definition ser_blocks :: "content_block list \<Rightarrow> json" where
  "ser_blocks bs = JList (map (\<lambda>b. JObj (serialize_content_block b)) bs)"

fun ser_content :: "msg_content \<Rightarrow> json" where
  "ser_content (StrContent t) = JStr t"
| "ser_content (BlockContent bs) = ser_blocks bs"

fun serialize_message :: "pi_message \<Rightarrow> line" where
  "serialize_message (UserMessage c ts) =
     [(''role'', JStr ''user''), (''content'', ser_content c), (''timestamp'', ts)]"
| "serialize_message (AssistantMessage m) =
     [(''role'', JStr ''assistant''), (''content'', ser_blocks (am_content m)), (''api'', am_api m),
      (''provider'', am_provider m), (''model'', am_model m), (''usage'', JObj (serialize_usage (am_usage m))),
      (''stopReason'', am_stop_reason m), (''timestamp'', am_timestamp m)] @
     opt_field ''errorMessage'' (am_error_message m)"
| "serialize_message (ToolResultMessage m) =
     [(''role'', JStr ''toolResult''), (''toolCallId'', tr_tool_call_id m), (''toolName'', tr_tool_name m),
      (''content'', ser_blocks (tr_content m)), (''isError'', tr_is_error m), (''timestamp'', tr_timestamp m)] @
     opt_field ''details'' (tr_details m)"

section \<open>Reading\<close>

text \<open>\<open>d.get(k, dflt)\<close>\<close>

definition get_dflt :: "line \<Rightarrow> string \<Rightarrow> json \<Rightarrow> json" where
  "get_dflt d k dflt = (case obj_get d k of None \<Rightarrow> dflt | Some v \<Rightarrow> v)"

text \<open>A value whose method \<open>get\<close> is called must be a dict.\<close>

fun as_dict :: "json \<Rightarrow> line option" where
  "as_dict (JObj d) = Some d"
| "as_dict _ = None"

text \<open>What a loop over a value yields: the items of a list, the characters of a string, the keys of a dict.\<close>

fun py_iter :: "json \<Rightarrow> json list option" where
  "py_iter (JList xs) = Some xs"
| "py_iter (JStr s) = Some (map (\<lambda>c. JStr [c]) s)"
| "py_iter (JObj d) = Some (map (\<lambda>kv. JStr (fst kv)) d)"
| "py_iter _ = None"

definition deserialize_usage_cost :: "json \<Rightarrow> usage_cost option" where
  "deserialize_usage_cost v = do {
     d \<leftarrow> as_dict v;
     Some \<lparr>uc_input = get_dflt d ''input'' (JFloat 0), uc_output = get_dflt d ''output'' (JFloat 0),
       uc_cache_read = get_dflt d ''cacheRead'' (JFloat 0), uc_cache_write = get_dflt d ''cacheWrite'' (JFloat 0),
       uc_total = get_dflt d ''total'' (JFloat 0)\<rparr> }"

definition deserialize_usage :: "json \<Rightarrow> usage option" where
  "deserialize_usage v = do {
     d \<leftarrow> as_dict v;
     cost \<leftarrow> deserialize_usage_cost (get_dflt d ''cost'' (JObj []));
     Some \<lparr>us_input = get_dflt d ''input'' (JInt 0), us_output = get_dflt d ''output'' (JInt 0),
       us_cache_read = get_dflt d ''cacheRead'' (JInt 0), us_cache_write = get_dflt d ''cacheWrite'' (JInt 0),
       us_total_tokens = get_dflt d ''totalTokens'' (JInt 0), us_cost = cost\<rparr> }"

definition deserialize_content_block :: "json \<Rightarrow> content_block option" where
  "deserialize_content_block v = do {
     d \<leftarrow> as_dict v;
     let ty = get_dflt d ''type'' JNull in
     if ty = JStr ''text'' then
       Some (TextContent (get_dflt d ''text'' (JStr [])) (get_dflt d ''textSignature'' JNull))
     else if ty = JStr ''thinking'' then
       Some (ThinkingContent (get_dflt d ''thinking'' (JStr [])) (get_dflt d ''thinkingSignature'' JNull))
     else if ty = JStr ''image'' then
       Some (ImageContent (get_dflt d ''data'' (JStr [])) (get_dflt d ''mimeType'' (JStr [])))
     else if ty = JStr ''toolCall'' then
       Some (ToolCall (get_dflt d ''id'' (JStr [])) (get_dflt d ''name'' (JStr []))
         (get_dflt d ''arguments'' (JObj [])) (get_dflt d ''thoughtSignature'' JNull))
     else None }"

text \<open>The blocks of the wanted kinds; one block that can not be read raises, whatever its kind.\<close>

definition deser_blocks :: "(content_block \<Rightarrow> bool) \<Rightarrow> json \<Rightarrow> content_block list option" where
  "deser_blocks keep v = do {
     raw \<leftarrow> py_iter v;
     blocks \<leftarrow> those (map deserialize_content_block raw);
     Some (filter keep blocks) }"

definition deser_content :: "json \<Rightarrow> msg_content option" where
  "deser_content v =
     (case v of JStr t \<Rightarrow> Some (StrContent t) | _ \<Rightarrow> map_option BlockContent (deser_blocks user_block v))"

definition deserialize_message :: "line \<Rightarrow> pi_message option" where
  "deserialize_message d =
     (let role = get_dflt d ''role'' JNull in
      if role = JStr ''user'' then do {
        c \<leftarrow> deser_content (get_dflt d ''content'' (JStr []));
        Some (UserMessage c (get_dflt d ''timestamp'' (JInt 0))) }
      else if role = JStr ''assistant'' then do {
        bs \<leftarrow> deser_blocks assistant_block (get_dflt d ''content'' (JList []));
        us \<leftarrow> deserialize_usage (get_dflt d ''usage'' (JObj []));
        Some (AssistantMessage \<lparr>am_content = bs, am_api = get_dflt d ''api'' (JStr []),
          am_provider = get_dflt d ''provider'' (JStr []), am_model = get_dflt d ''model'' (JStr []), am_usage = us,
          am_stop_reason = get_dflt d ''stopReason'' (JStr ''stop''),
          am_error_message = get_dflt d ''errorMessage'' JNull, am_timestamp = get_dflt d ''timestamp'' (JInt 0)\<rparr>) }
      else if role = JStr ''toolResult'' then do {
        bs \<leftarrow> deser_blocks user_block (get_dflt d ''content'' (JList []));
        Some (ToolResultMessage \<lparr>tr_tool_call_id = get_dflt d ''toolCallId'' (JStr []),
          tr_tool_name = get_dflt d ''toolName'' (JStr []), tr_content = bs, tr_details = get_dflt d ''details'' JNull,
          tr_is_error = get_dflt d ''isError'' (JBool False), tr_timestamp = get_dflt d ''timestamp'' (JInt 0)\<rparr>) }
      else None)"

section \<open>Round trip\<close>

text \<open>The block kinds the dataclasses declare for each message.\<close>

fun content_ok :: "msg_content \<Rightarrow> bool" where
  "content_ok (StrContent t) = True"
| "content_ok (BlockContent bs) = list_all user_block bs"

fun pi_message_ok :: "pi_message \<Rightarrow> bool" where
  "pi_message_ok (UserMessage c ts) = content_ok c"
| "pi_message_ok (AssistantMessage m) = list_all assistant_block (am_content m)"
| "pi_message_ok (ToolResultMessage m) = list_all user_block (tr_content m)"

lemma get_dflt_simps [simp]:
  "get_dflt [] k v = v"
  "get_dflt ((k', w) # d) k v = (if k = k' then w else get_dflt d k v)"
  by (simp_all add: get_dflt_def obj_get_def)

lemma get_dflt_opt_field [simp]:
  "get_dflt (opt_field k' w @ d) k v = (if k = k' \<and> w \<noteq> JNull then w else get_dflt d k v)"
  "get_dflt (opt_field k' w) k v = (if k = k' \<and> w \<noteq> JNull then w else v)"
  by (simp_all add: opt_field_def)

lemma block_roundtrip [simp]: "deserialize_content_block (JObj (serialize_content_block b)) = Some b"
  by (cases b) (simp_all add: deserialize_content_block_def)

interpretation block_codec: partial_codec "\<lambda>b. Some (JObj (serialize_content_block b))" deserialize_content_block "\<lambda>_. True"
  by unfold_locales simp

lemma those_Some: "those (map (\<lambda>x. Some (f x)) xs) = Some (map f xs)"
  by (induction xs) simp_all

lemma blocks_roundtrip:
  assumes "list_all keep bs"
  shows "deser_blocks keep (ser_blocks bs) = Some bs"
proof -
  have "those (map deserialize_content_block (map (\<lambda>b. JObj (serialize_content_block b)) bs)) = Some bs"
    using block_codec.list_roundtrip [of bs] by (auto simp: those_Some)
  moreover have "filter keep bs = bs" using assms by (simp add: list_all_iff)
  ultimately show ?thesis by (simp add: deser_blocks_def ser_blocks_def)
qed

lemma content_roundtrip: "content_ok c \<Longrightarrow> deser_content (ser_content c) = Some c"
  using blocks_roundtrip [of user_block] by (cases c) (simp_all add: deser_content_def ser_blocks_def)

lemma usage_roundtrip [simp]: "deserialize_usage (JObj (serialize_usage u)) = Some u"
  by (simp add: deserialize_usage_def serialize_usage_def deserialize_usage_cost_def serialize_usage_cost_def)

lemma pi_message_roundtrip: "pi_message_ok m \<Longrightarrow> deserialize_message (serialize_message m) = Some m"
  by (cases m) (simp_all add: deserialize_message_def content_roundtrip blocks_roundtrip)

interpretation pi_message_codec: partial_codec "\<lambda>m. Some (serialize_message m)" deserialize_message pi_message_ok
  by unfold_locales (simp add: pi_message_roundtrip)

end
