(* ===== verification/Session_Codec.thy ===== *)
theory Session_Codec
  imports Pi_Messages
begin

text \<open>
  The entries of a session file: the dataclasses of \<^verbatim>\<open>src/src/pi/coding_agent/core/session_manager.py\<close> and
  \<^verbatim>\<open>messages.py\<close>, \<open>_serialize_entry\<close>, \<open>_deserialize_message_data\<close>, \<open>_deserialize_entry\<close> and the reading of a
  file. A line of a session file is the JSON object on it; a line that is not a JSON object is skipped by
  the code and left out here.
\<close>

section \<open>Entries\<close>

record bash_message =
  bm_command :: json
  bm_stdout :: json
  bm_stderr :: json
  bm_exit_code :: json
  bm_cancelled :: json
  bm_truncated :: json
  bm_full_output_path :: json
  bm_timestamp :: json
  bm_exclude_from_context :: json

datatype session_message =
    LlmMessage pi_message
  | BashMessage bash_message
  | CustomMessage json msg_content json json json
  | BranchSummaryMessage string string json
  | CompactionSummaryMessage string json json

fun msg_role :: "session_message \<Rightarrow> string" where
  "msg_role (LlmMessage (UserMessage _ _)) = ''user''"
| "msg_role (LlmMessage (AssistantMessage _)) = ''assistant''"
| "msg_role (LlmMessage (ToolResultMessage _)) = ''toolResult''"
| "msg_role (BashMessage _) = ''bash_execution''"
| "msg_role (CustomMessage _ _ _ _ _) = ''custom''"
| "msg_role (BranchSummaryMessage _ _ _) = ''branch_summary''"
| "msg_role (CompactionSummaryMessage _ _ _) = ''compaction_summary''"

text \<open>The details of a compaction are a JSON value, or the \<open>CompactionDetails\<close> object that \<open>compact\<close> returns.\<close>

datatype compaction_details = JsonDetails json | FileDetails "string list" "string list"

datatype entry_kind =
    MessageEntry session_message
  | ThinkingLevelChange string
  | ModelChange string string
  | Compaction string string json compaction_details json
  | BranchSummary string string json json
  | CustomEntry json json
  | CustomMessageEntry json msg_content json json
  | LabelEntry string "string option"
  | SessionInfoEntry "string option"

record session_entry =
  se_id :: string
  se_parent_id :: "string option"
  se_timestamp :: string
  se_kind :: entry_kind

record session_header =
  hd_version :: "int option"
  hd_id :: string
  hd_timestamp :: string
  hd_cwd :: string
  hd_parent_session :: "string option"

datatype file_entry = Header session_header | Entry session_entry

section \<open>Serialisation\<close>

definition json_of_opt :: "string option \<Rightarrow> json" where
  "json_of_opt s = (case s of None \<Rightarrow> JNull | Some x \<Rightarrow> JStr x)"

text \<open>The line of an entry as \<open>json.dumps\<close> makes it from \<open>_serialize_entry\<close>, \<open>None\<close> when one of them raises. The summaries are
  made for the context of the model only and \<open>serialize_message\<close> raises on them; \<open>json.dumps\<close> raises on a
  \<open>CompactionDetails\<close> object.\<close>

fun ser_message :: "session_message \<Rightarrow> line option" where
  "ser_message (LlmMessage m) = Some (serialize_message m)"
| "ser_message (BashMessage m) = Some (
     [(''role'', JStr ''bashExecution''), (''command'', bm_command m), (''output'', bm_stdout m),
      (''exitCode'', bm_exit_code m), (''cancelled'', bm_cancelled m), (''truncated'', bm_truncated m),
      (''timestamp'', bm_timestamp m)] @
     opt_field ''fullOutputPath'' (bm_full_output_path m) @
     opt_field ''excludeFromContext'' (bm_exclude_from_context m))"
| "ser_message (CustomMessage ct c disp det ts) = Some (
     [(''role'', JStr ''custom''), (''customType'', ct), (''content'', ser_content c), (''display'', disp),
      (''timestamp'', ts)] @ opt_field ''details'' det)"
| "ser_message (BranchSummaryMessage _ _ _) = None"
| "ser_message (CompactionSummaryMessage _ _ _) = None"

fun ser_kind :: "entry_kind \<Rightarrow> (string \<times> line) option" where
  "ser_kind (MessageEntry m) = do { d \<leftarrow> ser_message m; Some (''message'', [(''message'', JObj d)]) }"
| "ser_kind (ThinkingLevelChange t) = Some (''thinking_level_change'', [(''thinkingLevel'', JStr t)])"
| "ser_kind (ModelChange p m) = Some (''model_change'', [(''provider'', JStr p), (''modelId'', JStr m)])"
| "ser_kind (Compaction s k n (FileDetails _ _) hook) = None"
| "ser_kind (Compaction s k n (JsonDetails det) hook) =
     Some (''compaction'', [(''summary'', JStr s), (''firstKeptEntryId'', JStr k), (''tokensBefore'', n)] @
        opt_field ''details'' det @ opt_field ''fromHook'' hook)"
| "ser_kind (BranchSummary f s det hook) =
     Some (''branch_summary'', [(''fromId'', JStr f), (''summary'', JStr s)] @
        opt_field ''details'' det @ opt_field ''fromHook'' hook)"
| "ser_kind (CustomEntry ct d) = Some (''custom'', [(''customType'', ct)] @ opt_field ''data'' d)"
| "ser_kind (CustomMessageEntry ct c disp det) =
     Some (''custom_message'', [(''customType'', ct), (''content'', ser_content c), (''display'', disp)] @
        opt_field ''details'' det)"
| "ser_kind (LabelEntry t l) = Some (''label'', [(''targetId'', JStr t), (''label'', json_of_opt l)])"
| "ser_kind (SessionInfoEntry n) = Some (''session_info'', opt_field ''name'' (json_of_opt n))"

fun serialize_entry :: "file_entry \<Rightarrow> line option" where
  "serialize_entry (Header h) = Some (
     [(''type'', JStr ''session''), (''id'', JStr (hd_id h)), (''timestamp'', JStr (hd_timestamp h)),
      (''cwd'', JStr (hd_cwd h))] @
     opt_field ''version'' (case hd_version h of None \<Rightarrow> JNull | Some v \<Rightarrow> JInt v) @
     opt_field ''parentSession'' (json_of_opt (hd_parent_session h)))"
| "serialize_entry (Entry e) = do {
     (ty, flds) \<leftarrow> ser_kind (se_kind e);
     Some ([(''type'', JStr ty), (''id'', JStr (se_id e)), (''parentId'', json_of_opt (se_parent_id e)),
       (''timestamp'', JStr (se_timestamp e))] @ flds) }"

section \<open>Deserialisation\<close>

text \<open>Reading back: \<open>None\<close> is a line that is skipped, because its type is unknown or something raises. In the fields
  the dataclasses declare as strings (ids, timestamps, summaries, labels) and as the version number, a
  value of another type, which the code would take over as it is, counts as skipped.\<close>

fun as_str :: "json \<Rightarrow> string option" where
  "as_str (JStr s) = Some s"
| "as_str _ = None"

fun as_opt_str :: "json \<Rightarrow> string option option" where
  "as_opt_str JNull = Some None"
| "as_opt_str (JStr s) = Some (Some s)"
| "as_opt_str _ = None"

fun as_opt_int :: "json \<Rightarrow> int option option" where
  "as_opt_int JNull = Some None"
| "as_opt_int (JInt n) = Some (Some n)"
| "as_opt_int _ = None"

definition deserialize_message_data :: "line \<Rightarrow> session_message option" where
  "deserialize_message_data d =
     (let role = get_dflt d ''role'' (JStr []) in
      if role = JStr ''bashExecution'' then
        Some (BashMessage
          \<lparr>bm_command = get_dflt d ''command'' (JStr []), bm_stdout = get_dflt d ''output'' (JStr []),
           bm_stderr = JStr [], bm_exit_code = get_dflt d ''exitCode'' JNull,
           bm_cancelled = get_dflt d ''cancelled'' (JBool False), bm_truncated = get_dflt d ''truncated'' (JBool False),
           bm_full_output_path = get_dflt d ''fullOutputPath'' JNull,
           bm_timestamp = get_dflt d ''timestamp'' (JInt 0),
           bm_exclude_from_context = get_dflt d ''excludeFromContext'' JNull\<rparr>)
      else if role = JStr ''custom'' then do {
        c \<leftarrow> deser_content (get_dflt d ''content'' (JStr []));
        Some (CustomMessage (get_dflt d ''customType'' (JStr [])) c (get_dflt d ''display'' (JBool True))
          (get_dflt d ''details'' JNull) (get_dflt d ''timestamp'' (JInt 0))) }
      else map_option LlmMessage (deserialize_message d))"

definition deser_kind :: "json \<Rightarrow> line \<Rightarrow> entry_kind option" where
  "deser_kind ty d =
     (if ty = JStr ''message'' then do {
        m \<leftarrow> as_dict (get_dflt d ''message'' (JObj []));
        map_option MessageEntry (deserialize_message_data m) }
      else if ty = JStr ''thinking_level_change'' then
        map_option ThinkingLevelChange (as_str (get_dflt d ''thinkingLevel'' (JStr ''off'')))
      else if ty = JStr ''model_change'' then do {
        p \<leftarrow> as_str (get_dflt d ''provider'' (JStr []));
        m \<leftarrow> as_str (get_dflt d ''modelId'' (JStr []));
        Some (ModelChange p m) }
      else if ty = JStr ''compaction'' then do {
        s \<leftarrow> as_str (get_dflt d ''summary'' (JStr []));
        k \<leftarrow> as_str (get_dflt d ''firstKeptEntryId'' (JStr []));
        Some (Compaction s k (get_dflt d ''tokensBefore'' (JInt 0)) (JsonDetails (get_dflt d ''details'' JNull))
          (get_dflt d ''fromHook'' JNull)) }
      else if ty = JStr ''branch_summary'' then do {
        f \<leftarrow> as_str (get_dflt d ''fromId'' (JStr []));
        s \<leftarrow> as_str (get_dflt d ''summary'' (JStr []));
        Some (BranchSummary f s (get_dflt d ''details'' JNull) (get_dflt d ''fromHook'' JNull)) }
      else if ty = JStr ''custom'' then
        Some (CustomEntry (get_dflt d ''customType'' (JStr [])) (get_dflt d ''data'' JNull))
      else if ty = JStr ''custom_message'' then do {
        c \<leftarrow> deser_content (get_dflt d ''content'' (JStr []));
        Some (CustomMessageEntry (get_dflt d ''customType'' (JStr [])) c (get_dflt d ''display'' (JBool True))
          (get_dflt d ''details'' JNull)) }
      else if ty = JStr ''label'' then do {
        t \<leftarrow> as_str (get_dflt d ''targetId'' (JStr []));
        l \<leftarrow> as_opt_str (get_dflt d ''label'' JNull);
        Some (LabelEntry t l) }
      else if ty = JStr ''session_info'' then
        map_option SessionInfoEntry (as_opt_str (get_dflt d ''name'' JNull))
      else None)"

definition deserialize_entry :: "line \<Rightarrow> file_entry option" where
  "deserialize_entry d =
     (let ty = get_dflt d ''type'' (JStr []) in
      if ty = JStr ''session'' then do {
        v \<leftarrow> as_opt_int (get_dflt d ''version'' JNull);
        i \<leftarrow> as_str (get_dflt d ''id'' (JStr []));
        ts \<leftarrow> as_str (get_dflt d ''timestamp'' (JStr []));
        cwd \<leftarrow> as_str (get_dflt d ''cwd'' (JStr []));
        par \<leftarrow> as_opt_str (get_dflt d ''parentSession'' JNull);
        Some (Header \<lparr>hd_version = v, hd_id = i, hd_timestamp = ts, hd_cwd = cwd, hd_parent_session = par\<rparr>) }
      else do {
        i \<leftarrow> as_str (get_dflt d ''id'' (JStr []));
        par \<leftarrow> as_opt_str (get_dflt d ''parentId'' JNull);
        ts \<leftarrow> as_str (get_dflt d ''timestamp'' (JStr []));
        k \<leftarrow> deser_kind ty d;
        Some (Entry \<lparr>se_id = i, se_parent_id = par, se_timestamp = ts, se_kind = k\<rparr>) })"

definition parse_session_entries :: "line list \<Rightarrow> file_entry list" where
  "parse_session_entries ls = List.map_filter deserialize_entry ls"

text \<open>A file whose first entry is not a header with an id counts as empty.\<close>

definition load_entries_from_file :: "line list \<Rightarrow> file_entry list" where
  "load_entries_from_file ls =
     (case parse_session_entries ls of
        Header h # es \<Rightarrow> if hd_id h = [] then [] else Header h # es
      | _ \<Rightarrow> [])"

section \<open>Round trip\<close>

text \<open>What can be stored without loss: the blocks of a message are of the declared kinds and a shell command has no
  error output, which is not stored.\<close>

fun message_ok :: "session_message \<Rightarrow> bool" where
  "message_ok (LlmMessage m) = pi_message_ok m"
| "message_ok (BashMessage m) = (bm_stderr m = JStr [])"
| "message_ok (CustomMessage ct c disp det ts) = content_ok c"
| "message_ok _ = False"

fun kind_ok :: "entry_kind \<Rightarrow> bool" where
  "kind_ok (MessageEntry m) = message_ok m"
| "kind_ok (CustomMessageEntry ct c disp det) = content_ok c"
| "kind_ok (Compaction s k n (FileDetails _ _) hook) = False"
| "kind_ok _ = True"

fun storable :: "file_entry \<Rightarrow> bool" where
  "storable (Header h) = True"
| "storable (Entry e) = kind_ok (se_kind e)"

lemma as_opt_str_roundtrip [simp]: "as_opt_str (json_of_opt s) = Some s" "json_of_opt s = JNull \<longleftrightarrow> s = None"
  by (cases s; simp add: json_of_opt_def)+

lemma message_roundtrip: "message_ok m \<Longrightarrow> \<exists>d. ser_message m = Some d \<and> deserialize_message_data d = Some m"
proof (cases m)
  case (LlmMessage p)
  assume "message_ok m"
  then have "deserialize_message (serialize_message p) = Some p" by (simp add: LlmMessage pi_message_roundtrip)
  moreover have "get_dflt (serialize_message p) ''role'' (JStr []) \<notin> {JStr ''bashExecution'', JStr ''custom''}"
    by (cases p) simp_all
  ultimately show ?thesis by (simp add: LlmMessage deserialize_message_data_def)
qed (simp_all add: deserialize_message_data_def content_roundtrip)

interpretation message_codec: partial_codec ser_message deserialize_message_data message_ok
  by unfold_locales (rule message_roundtrip)

text \<open>The keys every entry has; the fields of a kind use others, so they are read back through them.\<close>

definition base_keys :: "string set" where
  "base_keys = {''type'', ''id'', ''parentId'', ''timestamp''}"

lemma kind_roundtrip:
  assumes "kind_ok k"
  obtains ty flds where "ser_kind k = Some (ty, flds)" "ty \<noteq> ''session''"
    "\<And>d. (\<And>x v. x \<notin> base_keys \<Longrightarrow> get_dflt d x v = get_dflt flds x v) \<Longrightarrow> deser_kind (JStr ty) d = Some k"
proof (cases k)
  case (MessageEntry m)
  then obtain d where "ser_message m = Some d" "deserialize_message_data d = Some m"
    using assms message_codec.roundtrip by auto
  then show thesis using that MessageEntry by (auto simp: deser_kind_def base_keys_def)
next
  case (Compaction s i n det hook)
  then obtain j where j: "det = JsonDetails j" using assms by (cases det) auto
  let ?flds = "[(''summary'', JStr s), (''firstKeptEntryId'', JStr i), (''tokensBefore'', n)] @
        opt_field ''details'' j @ opt_field ''fromHook'' hook"
  show thesis
  proof (rule that [of "''compaction''" ?flds])
    show "ser_kind k = Some (''compaction'', ?flds)" using Compaction j by simp
    show "deser_kind (JStr ''compaction'') d = Some k"
      if "\<And>x v. x \<notin> base_keys \<Longrightarrow> get_dflt d x v = get_dflt ?flds x v" for d
      using that Compaction j by (simp add: deser_kind_def base_keys_def)
  qed simp
qed (use assms that in \<open>force simp: deser_kind_def base_keys_def content_roundtrip\<close>)+

lemma entry_roundtrip:
  assumes "storable e"
  shows "\<exists>d. serialize_entry e = Some d \<and> deserialize_entry d = Some e"
proof (cases e)
  case (Header h)
  then show ?thesis
    by (cases "hd_version h") (auto simp: deserialize_entry_def json_of_opt_def split: option.splits)
next
  case (Entry en)
  then obtain ty flds where k: "ser_kind (se_kind en) = Some (ty, flds)" "ty \<noteq> ''session''"
    "\<And>d. (\<And>x v. x \<notin> base_keys \<Longrightarrow> get_dflt d x v = get_dflt flds x v) \<Longrightarrow> deser_kind (JStr ty) d = Some (se_kind en)"
    using kind_roundtrip assms by (metis storable.simps(2))
  define d where "d = [(''type'', JStr ty), (''id'', JStr (se_id en)), (''parentId'', json_of_opt (se_parent_id en)),
       (''timestamp'', JStr (se_timestamp en))] @ flds"
  have "deser_kind (JStr ty) d = Some (se_kind en)"
    by (rule k(3)) (simp add: d_def base_keys_def)
  then have "deserialize_entry d = Some e"
    using k(2) by (simp add: deserialize_entry_def d_def Entry)
  then show ?thesis by (simp add: Entry k(1) d_def)
qed

interpretation entry_codec: partial_codec serialize_entry deserialize_entry storable
  by unfold_locales (rule entry_roundtrip)

lemma entries_roundtrip:
  "\<forall>e \<in> set es. storable e \<Longrightarrow> \<exists>ls. those (map serialize_entry es) = Some ls \<and> parse_session_entries ls = es"
  using entry_codec.list_roundtrip [of es] unfolding parse_session_entries_def by blast

text \<open>What is written to a session file is read back unchanged: a list of storable entries that starts with a
  header with an id is serialised without an exception, and loading the lines gives the entries
  back.\<close>

theorem session_file_roundtrip:
  assumes "\<forall>e \<in> set (Header h # es). storable e" "hd_id h \<noteq> []"
  shows "\<exists>ls. those (map serialize_entry (Header h # es)) = Some ls \<and> load_entries_from_file ls = Header h # es"
proof -
  from entries_roundtrip [OF assms(1)] obtain ls where
    "those (map serialize_entry (Header h # es)) = Some ls" "parse_session_entries ls = Header h # es" by blast
  with assms(2) show ?thesis by (auto simp: load_entries_from_file_def simp del: those.simps list.map)
qed

definition example_header :: session_header where
  "example_header = \<lparr>hd_version = Some 3, hd_id = ''s'', hd_timestamp = ''t'', hd_cwd = ''c'', hd_parent_session = None\<rparr>"

definition example_message :: file_entry where
  "example_message = Entry \<lparr>se_id = ''a'', se_parent_id = None, se_timestamp = ''t'',
     se_kind = MessageEntry (LlmMessage (UserMessage (BlockContent [TextContent (JStr ''hi'') JNull]) (JInt 1)))\<rparr>"

theorem session_file_roundtrip_witness:
  "\<exists>ls. those (map serialize_entry [Header example_header, example_message]) = Some ls \<and>
     load_entries_from_file ls = [Header example_header, example_message]"
proof -
  have "\<forall>e \<in> set [Header example_header, example_message]. storable e" "hd_id example_header \<noteq> []"
    by (simp_all add: example_message_def example_header_def)
  then show ?thesis by (rule session_file_roundtrip)
qed

text \<open>The error output of a shell command is not stored: it reads back empty.\<close>

lemma stderr_not_stored:
  "ser_message (BashMessage m) = Some d \<Longrightarrow>
   deserialize_message_data d = Some (BashMessage (m\<lparr>bm_stderr := JStr []\<rparr>))"
  by (auto simp: deserialize_message_data_def)

end
