(* ===== verification/Session_Tree.thy ===== *)
theory Session_Tree
  imports Session_Codec "HOL-Library.AList"
begin

text \<open>
  The session manager of the Pi agent, \<open>SessionManager\<close> and the functions around it in
  \<^verbatim>\<open>src/src/pi/coding_agent/core/session_manager.py\<close>: a conversation as an append-only tree of entries with a
  current leaf, persisted as a JSONL file.

  The file system is a map from paths to lines; a line is a JSON object, and appending starts a new line.
  The random UUIDs and the times that a call draws are its argument: \<open>io_uuid io n i\<close> is the \<open>i\<close>-th draw for
  the \<open>n\<close>-th new id. Walking from an entry to the root may not end, and is a partial function.
\<close>

section \<open>State\<close>

record session_io =
  io_uuid :: "nat \<Rightarrow> nat \<Rightarrow> string"
  io_now :: "nat \<Rightarrow> string"

record session_state =
  ss_cwd :: string
  ss_dir :: string
  ss_persist :: bool
  ss_flushed :: bool
  ss_file_entries :: "file_entry list"
  ss_by_id :: "(string \<times> session_entry) list"
  ss_labels_by_id :: "(string \<times> string) list"
  ss_leaf_id :: "string option"
  ss_session_id :: string
  ss_session_file :: "string option"
  ss_files :: "string \<rightharpoonup> line list"

datatype sess_error = NotFound string | SerializationError

definition current_session_version :: int where
  "current_session_version = 3"

definition generate_id :: "(nat \<Rightarrow> string) \<Rightarrow> string list \<Rightarrow> string" where
  "generate_id u ids =
     (case find (\<lambda>i. take 8 (u i) \<notin> set ids) [0..<100] of Some i \<Rightarrow> take 8 (u i) | None \<Rightarrow> u 100)"

section \<open>Migrations\<close>

fun migrate_v1_to_v2 :: "session_io \<Rightarrow> nat \<Rightarrow> string list \<Rightarrow> string option \<Rightarrow> file_entry list \<Rightarrow> file_entry list" where
  "migrate_v1_to_v2 io n ids prev [] = []"
| "migrate_v1_to_v2 io n ids prev (Header h # es) = Header (h\<lparr>hd_version := Some 2\<rparr>) # migrate_v1_to_v2 io n ids prev es"
| "migrate_v1_to_v2 io n ids prev (Entry e # es) =
     (let i = generate_id (io_uuid io n) ids in
      Entry (e\<lparr>se_id := i, se_parent_id := prev\<rparr>) # migrate_v1_to_v2 io (Suc n) (i # ids) (Some i) es)"

text \<open>\<open>getattr\<close> with its defaults on a message of any type.\<close>

fun hook_to_custom :: "session_message \<Rightarrow> session_message" where
  "hook_to_custom (LlmMessage (UserMessage c ts)) = CustomMessage (JStr ''hookMessage'') c (JBool True) JNull ts"
| "hook_to_custom (LlmMessage (AssistantMessage m)) =
     CustomMessage (JStr ''hookMessage'') (BlockContent (am_content m)) (JBool True) JNull (am_timestamp m)"
| "hook_to_custom (LlmMessage (ToolResultMessage m)) =
     CustomMessage (JStr ''hookMessage'') (BlockContent (tr_content m)) (JBool True) (tr_details m) (tr_timestamp m)"
| "hook_to_custom (BashMessage m) =
     CustomMessage (JStr ''hookMessage'') (StrContent []) (JBool True) JNull (bm_timestamp m)"
| "hook_to_custom (CustomMessage _ c disp det ts) = CustomMessage (JStr ''hookMessage'') c disp det ts"
| "hook_to_custom (BranchSummaryMessage _ _ ts) = CustomMessage (JStr ''hookMessage'') (StrContent []) (JBool True) JNull ts"
| "hook_to_custom (CompactionSummaryMessage _ _ ts) =
     CustomMessage (JStr ''hookMessage'') (StrContent []) (JBool True) JNull ts"

fun migrate_v2_to_v3 :: "file_entry \<Rightarrow> file_entry" where
  "migrate_v2_to_v3 (Header h) = Header (h\<lparr>hd_version := Some 3\<rparr>)"
| "migrate_v2_to_v3 (Entry e) =
     (case se_kind e of
        MessageEntry m \<Rightarrow>
          if msg_role m = ''hookMessage'' then Entry (e\<lparr>se_kind := MessageEntry (hook_to_custom m)\<rparr>) else Entry e
      | _ \<Rightarrow> Entry e)"

fun first_header :: "file_entry list \<Rightarrow> session_header option" where
  "first_header [] = None"
| "first_header (Header h # es) = Some h"
| "first_header (Entry e # es) = first_header es"

text \<open>The migrated entries and whether a migration was applied.\<close>

definition migrate_to_current_version :: "session_io \<Rightarrow> file_entry list \<Rightarrow> file_entry list \<times> bool" where
  "migrate_to_current_version io es =
     (let version = (case first_header es of None \<Rightarrow> 1 | Some h \<Rightarrow> (case hd_version h of None \<Rightarrow> 1 | Some v \<Rightarrow> v)) in
      if version \<ge> current_session_version then (es, False)
      else
        let es = (if version < 2 then migrate_v1_to_v2 io 0 [] None es else es);
            es = (if version < 3 then map migrate_v2_to_v3 es else es)
        in (es, True))"

section \<open>Lifecycle\<close>

fun is_entry :: "file_entry \<Rightarrow> bool" where
  "is_entry (Entry _) = True"
| "is_entry (Header _) = False"

fun entries_of :: "file_entry list \<Rightarrow> session_entry list" where
  "entries_of [] = []"
| "entries_of (Header h # es) = entries_of es"
| "entries_of (Entry e # es) = e # entries_of es"

text \<open>Setting a label, or removing it when it is \<open>None\<close> or empty.\<close>

definition set_label :: "string \<Rightarrow> string option \<Rightarrow> (string \<times> string) list \<Rightarrow> (string \<times> string) list" where
  "set_label t l labels = (if truthy l then AList.update t (the l) labels else AList.delete t labels)"

definition index_entry :: "session_entry \<Rightarrow> session_state \<Rightarrow> session_state" where
  "index_entry e st = st\<lparr>
     ss_by_id := AList.update (se_id e) e (ss_by_id st),
     ss_leaf_id := Some (se_id e),
     ss_labels_by_id :=
       (case se_kind e of LabelEntry t l \<Rightarrow> set_label t l (ss_labels_by_id st) | _ \<Rightarrow> ss_labels_by_id st)\<rparr>"

definition build_index :: "session_state \<Rightarrow> session_state" where
  "build_index st =
     fold index_entry (entries_of (ss_file_entries st)) (st\<lparr>ss_by_id := [], ss_labels_by_id := [], ss_leaf_id := None\<rparr>)"

text \<open>\<open>os.path.join\<close> for a relative second part, and the name of a session file.\<close>

definition path_join :: "string \<Rightarrow> string \<Rightarrow> string" where
  "path_join d f = (if d = [] then f else if last d = CHR ''/'' then d @ f else d @ ''/'' @ f)"

definition session_file_name :: "string \<Rightarrow> string \<Rightarrow> string \<Rightarrow> string" where
  "session_file_name d ts sid =
     path_join d (map (\<lambda>c. if c = CHR '':'' \<or> c = CHR ''.'' then CHR ''-'' else c) ts @ ''_'' @ sid @ ''.jsonl'')"

definition new_session :: "session_io \<Rightarrow> string option \<Rightarrow> session_state \<Rightarrow> session_state" where
  "new_session io parent st =
     (let sid = io_uuid io 0 0; ts = io_now io 0 in
      st\<lparr>ss_session_id := sid,
         ss_file_entries := [Header \<lparr>hd_version = Some current_session_version, hd_id = sid, hd_timestamp = ts,
           hd_cwd = ss_cwd st, hd_parent_session = parent\<rparr>],
         ss_by_id := [], ss_labels_by_id := [], ss_leaf_id := None, ss_flushed := False,
         ss_session_file := (if ss_persist st then Some (session_file_name (ss_dir st) ts sid) else ss_session_file st)\<rparr>)"

text \<open>Lines are written one by one: up to the first entry that can not be serialised.\<close>

fun ser_prefix :: "file_entry list \<Rightarrow> line list \<times> bool" where
  "ser_prefix [] = ([], True)"
| "ser_prefix (e # es) =
     (case serialize_entry e of
        None \<Rightarrow> ([], False)
      | Some d \<Rightarrow> (case ser_prefix es of (ds, ok) \<Rightarrow> (d # ds, ok)))"

definition append_lines :: "string \<Rightarrow> line list \<Rightarrow> session_state \<Rightarrow> session_state" where
  "append_lines f ls st =
     st\<lparr>ss_files := (ss_files st)(f \<mapsto> (case ss_files st f of None \<Rightarrow> [] | Some old \<Rightarrow> old) @ ls)\<rparr>"

definition rewrite_file :: "session_state \<Rightarrow> sess_error option \<times> session_state" where
  "rewrite_file st =
     (if \<not> ss_persist st \<or> \<not> truthy (ss_session_file st) then (None, st)
      else case those (map serialize_entry (ss_file_entries st)) of
             None \<Rightarrow> (Some SerializationError, st)
           | Some ls \<Rightarrow> (None, st\<lparr>ss_files := (ss_files st)(the (ss_session_file st) \<mapsto> ls)\<rparr>))"

text \<open>The path is the resolved one.\<close>

definition set_session_file :: "session_io \<Rightarrow> string \<Rightarrow> session_state \<Rightarrow> sess_error option \<times> session_state" where
  "set_session_file io path st =
     (let st = st\<lparr>ss_session_file := Some path\<rparr> in
      case ss_files st path of
        None \<Rightarrow> (None, (new_session io None st)\<lparr>ss_session_file := Some path\<rparr>)
      | Some ls \<Rightarrow>
          let es = load_entries_from_file ls in
          if es = [] then
            (case rewrite_file ((new_session io None st)\<lparr>ss_session_file := Some path\<rparr>) of
               (Some err, st) \<Rightarrow> (Some err, st)
             | (None, st) \<Rightarrow> (None, st\<lparr>ss_flushed := True\<rparr>))
          else
            let sid = (case first_header es of Some h \<Rightarrow> hd_id h | None \<Rightarrow> io_uuid io 0 0);
                (es, migrated) = migrate_to_current_version io es;
                st = st\<lparr>ss_file_entries := es, ss_session_id := sid\<rparr>
            in case (if migrated then rewrite_file st else (None, st)) of
                 (Some err, st) \<Rightarrow> (Some err, st)
               | (None, st) \<Rightarrow> (None, (build_index st)\<lparr>ss_flushed := True\<rparr>))"

definition init_session :: "session_io \<Rightarrow> string \<Rightarrow> string \<Rightarrow> string option \<Rightarrow> bool \<Rightarrow> (string \<rightharpoonup> line list) \<Rightarrow>
    sess_error option \<times> session_state" where
  "init_session io cwd dir file persist files =
     (let st = \<lparr>ss_cwd = cwd, ss_dir = dir, ss_persist = persist, ss_flushed = False, ss_file_entries = [],
        ss_by_id = [], ss_labels_by_id = [], ss_leaf_id = None, ss_session_id = [], ss_session_file = None,
        ss_files = files\<rparr>
      in case file of Some f \<Rightarrow> set_session_file io f st | None \<Rightarrow> (None, new_session io None st))"

section \<open>Appending\<close>

definition is_assistant :: "session_entry \<Rightarrow> bool" where
  "is_assistant e = (case se_kind e of MessageEntry m \<Rightarrow> msg_role m = ''assistant'' | _ \<Rightarrow> False)"

definition has_assistant :: "file_entry list \<Rightarrow> bool" where
  "has_assistant es = list_ex is_assistant (entries_of es)"

definition persist_entry :: "session_entry \<Rightarrow> session_state \<Rightarrow> sess_error option \<times> session_state" where
  "persist_entry e st =
     (if \<not> ss_persist st \<or> \<not> truthy (ss_session_file st) then (None, st)
      else if \<not> has_assistant (ss_file_entries st) then (None, st\<lparr>ss_flushed := False\<rparr>)
      else
        let f = the (ss_session_file st);
            (ls, ok) = ser_prefix (if ss_flushed st then [Entry e] else ss_file_entries st);
            st = append_lines f ls st
        in if ok then (None, st\<lparr>ss_flushed := True\<rparr>) else (Some SerializationError, st))"

definition append_entry :: "session_entry \<Rightarrow> session_state \<Rightarrow> sess_error option \<times> session_state" where
  "append_entry e st =
     persist_entry e (st\<lparr>ss_file_entries := ss_file_entries st @ [Entry e],
       ss_by_id := AList.update (se_id e) e (ss_by_id st), ss_leaf_id := Some (se_id e)\<rparr>)"

text \<open>The new entry of a kind, a child of the leaf.\<close>

definition new_entry :: "session_io \<Rightarrow> entry_kind \<Rightarrow> session_state \<Rightarrow> session_entry" where
  "new_entry io k st = \<lparr>se_id = generate_id (io_uuid io 0) (map fst (ss_by_id st)), se_parent_id = ss_leaf_id st,
     se_timestamp = io_now io 0, se_kind = k\<rparr>"

definition append_new :: "session_io \<Rightarrow> entry_kind \<Rightarrow> session_state \<Rightarrow> (sess_error + string) \<times> session_state" where
  "append_new io k st =
     (let e = new_entry io k st in
      case append_entry e st of (None, st') \<Rightarrow> (Inr (se_id e), st') | (Some err, st') \<Rightarrow> (Inl err, st'))"

definition append_message :: "session_io \<Rightarrow> session_message \<Rightarrow> session_state \<Rightarrow> (sess_error + string) \<times> session_state" where
  "append_message io m st = append_new io (MessageEntry m) st"

definition append_thinking_level_change :: "session_io \<Rightarrow> string \<Rightarrow> session_state \<Rightarrow> (sess_error + string) \<times> session_state" where
  "append_thinking_level_change io l st = append_new io (ThinkingLevelChange l) st"

definition append_model_change :: "session_io \<Rightarrow> string \<Rightarrow> string \<Rightarrow> session_state \<Rightarrow> (sess_error + string) \<times> session_state" where
  "append_model_change io p m st = append_new io (ModelChange p m) st"

definition append_compaction :: "session_io \<Rightarrow> string \<Rightarrow> string \<Rightarrow> json \<Rightarrow> compaction_details \<Rightarrow> json \<Rightarrow> session_state \<Rightarrow>
    (sess_error + string) \<times> session_state" where
  "append_compaction io summary kept toks details hook st = append_new io (Compaction summary kept toks details hook) st"

definition append_custom_entry :: "session_io \<Rightarrow> json \<Rightarrow> json \<Rightarrow> session_state \<Rightarrow> (sess_error + string) \<times> session_state" where
  "append_custom_entry io ct d st = append_new io (CustomEntry ct d) st"

definition append_session_info :: "session_io \<Rightarrow> string \<Rightarrow> session_state \<Rightarrow> (sess_error + string) \<times> session_state" where
  "append_session_info io n st = append_new io (SessionInfoEntry (Some (str_strip n))) st"

definition append_custom_message_entry :: "session_io \<Rightarrow> json \<Rightarrow> msg_content \<Rightarrow> json \<Rightarrow> json \<Rightarrow> session_state \<Rightarrow>
    (sess_error + string) \<times> session_state" where
  "append_custom_message_entry io ct c disp det st = append_new io (CustomMessageEntry ct c disp det) st"

definition append_label_change :: "session_io \<Rightarrow> string \<Rightarrow> string option \<Rightarrow> session_state \<Rightarrow>
    (sess_error + string) \<times> session_state" where
  "append_label_change io target l st =
     (if map_of (ss_by_id st) target = None then (Inl (NotFound target), st)
      else case append_new io (LabelEntry target l) st of
             (Inl err, st') \<Rightarrow> (Inl err, st')
           | (Inr i, st') \<Rightarrow> (Inr i, st'\<lparr>ss_labels_by_id := set_label target l (ss_labels_by_id st')\<rparr>))"

section \<open>Reading the tree\<close>

definition get_entries :: "session_state \<Rightarrow> session_entry list" where
  "get_entries st = entries_of (ss_file_entries st)"

definition get_session_name :: "session_state \<Rightarrow> string option" where
  "get_session_name st =
     (case filter (\<lambda>e. case se_kind e of SessionInfoEntry n \<Rightarrow> truthy n | _ \<Rightarrow> False) (get_entries st) of
        [] \<Rightarrow> None
      | xs \<Rightarrow> (case se_kind (last xs) of SessionInfoEntry n \<Rightarrow> n | _ \<Rightarrow> None))"

definition get_label :: "string \<Rightarrow> session_state \<Rightarrow> string option" where
  "get_label i st = map_of (ss_labels_by_id st) i"

definition get_children :: "string \<Rightarrow> session_state \<Rightarrow> session_entry list" where
  "get_children p st = filter (\<lambda>e. se_parent_id e = Some p) (map snd (ss_by_id st))"

definition parent_of :: "(string \<times> session_entry) list \<Rightarrow> session_entry \<Rightarrow> session_entry option" where
  "parent_of by_id e = (if truthy (se_parent_id e) then map_of by_id (the (se_parent_id e)) else None)"

partial_function (option) walk ::
    "(string \<times> session_entry) list \<Rightarrow> session_entry option \<Rightarrow> session_entry list \<Rightarrow> session_entry list option" where
  "walk by_id current path =
     (case current of
        None \<Rightarrow> Some path
      | Some e \<Rightarrow> walk by_id (parent_of by_id e) (e # path))"

declare walk.simps [code]

definition get_branch :: "string option \<Rightarrow> session_state \<Rightarrow> session_entry list option" where
  "get_branch from_id st =
     (let start = (case from_id of None \<Rightarrow> ss_leaf_id st | Some i \<Rightarrow> Some i);
          current = (if truthy start then map_of (ss_by_id st) (the start) else None)
      in walk (ss_by_id st) current [])"

section \<open>The context of the model\<close>

record session_context =
  sc_messages :: "session_message list"
  sc_thinking_level :: string
  sc_model :: "(json \<times> json) option"

fun entry_message :: "(string \<Rightarrow> json) \<Rightarrow> session_entry \<Rightarrow> session_message list" where
  "entry_message pt e =
     (case se_kind e of
        MessageEntry m \<Rightarrow> [m]
      | CustomMessageEntry ct c disp det \<Rightarrow> [CustomMessage ct c disp det (pt (se_timestamp e))]
      | BranchSummary f s det hook \<Rightarrow> if s = [] then [] else [BranchSummaryMessage s f (pt (se_timestamp e))]
      | _ \<Rightarrow> [])"

record path_settings =
  ps_thinking_level :: string
  ps_model :: "(json \<times> json) option"
  ps_compaction :: "session_entry option"

definition scan_entry :: "session_entry \<Rightarrow> path_settings \<Rightarrow> path_settings" where
  "scan_entry e s =
     (case se_kind e of
        ThinkingLevelChange l \<Rightarrow> s\<lparr>ps_thinking_level := l\<rparr>
      | ModelChange p m \<Rightarrow> s\<lparr>ps_model := Some (JStr p, JStr m)\<rparr>
      | MessageEntry (LlmMessage (AssistantMessage m)) \<Rightarrow>
          if py_bool (am_provider m) \<or> py_bool (am_model m) then s\<lparr>ps_model := Some (am_provider m, am_model m)\<rparr> else s
      | Compaction _ _ _ _ _ \<Rightarrow> s\<lparr>ps_compaction := Some e\<rparr>
      | _ \<Rightarrow> s)"

definition scan_path :: "session_entry list \<Rightarrow> path_settings" where
  "scan_path path = fold scan_entry path \<lparr>ps_thinking_level = ''off'', ps_model = None, ps_compaction = None\<rparr>"

fun is_compaction :: "entry_kind \<Rightarrow> bool" where
  "is_compaction (Compaction _ _ _ _ _) = True"
| "is_compaction _ = False"

definition path_messages :: "(string \<Rightarrow> json) \<Rightarrow> session_entry list \<Rightarrow> session_entry option \<Rightarrow> session_message list" where
  "path_messages pt path compaction =
     (case compaction of
        None \<Rightarrow> concat (map (entry_message pt) path)
      | Some c \<Rightarrow>
          (case se_kind c of
             Compaction summary kept toks _ _ \<Rightarrow>
               let pre = takeWhile (\<lambda>e. \<not> (is_compaction (se_kind e) \<and> se_id e = se_id c)) path;
                   post = drop (Suc (length pre)) path
               in CompactionSummaryMessage summary toks (pt (se_timestamp c)) #
                    concat (map (entry_message pt) (dropWhile (\<lambda>e. se_id e \<noteq> kept) pre @ post))
           | _ \<Rightarrow> []))"

definition build_session_context ::
    "(string \<Rightarrow> json) \<Rightarrow> session_entry list \<Rightarrow> string option \<Rightarrow> (string \<times> session_entry) list \<Rightarrow> session_context option" where
  "build_session_context pt entries leaf_id by_id =
     (let leaf = (case leaf_id of None \<Rightarrow> None | Some i \<Rightarrow> map_of by_id i);
          leaf = (case leaf of None \<Rightarrow> if entries = [] then None else Some (last entries) | Some e \<Rightarrow> Some e)
      in case leaf of
           None \<Rightarrow> Some \<lparr>sc_messages = [], sc_thinking_level = ''off'', sc_model = None\<rparr>
         | Some e \<Rightarrow> do {
             path \<leftarrow> walk by_id (Some e) [];
             let s = scan_path path in
             Some \<lparr>sc_messages = path_messages pt path (ps_compaction s), sc_thinking_level = ps_thinking_level s,
               sc_model = ps_model s\<rparr> })"

definition session_context_of :: "(string \<Rightarrow> json) \<Rightarrow> session_state \<Rightarrow> session_context option" where
  "session_context_of pt st = build_session_context pt (get_entries st) (ss_leaf_id st) (ss_by_id st)"

section \<open>Branching\<close>

definition branch :: "string \<Rightarrow> session_state \<Rightarrow> sess_error option \<times> session_state" where
  "branch i st =
     (if map_of (ss_by_id st) i = None then (Some (NotFound i), st) else (None, st\<lparr>ss_leaf_id := Some i\<rparr>))"

definition reset_leaf :: "session_state \<Rightarrow> session_state" where
  "reset_leaf st = st\<lparr>ss_leaf_id := None\<rparr>"

definition branch_with_summary :: "session_io \<Rightarrow> string option \<Rightarrow> string \<Rightarrow> json \<Rightarrow> json \<Rightarrow> session_state \<Rightarrow>
    (sess_error + string) \<times> session_state" where
  "branch_with_summary io from_id summary details hook st =
     (if from_id \<noteq> None \<and> map_of (ss_by_id st) (the from_id) = None then (Inl (NotFound (the from_id)), st)
      else append_new io (BranchSummary (if truthy from_id then the from_id else ''root'') summary details hook)
             (st\<lparr>ss_leaf_id := from_id\<rparr>))"

text \<open>The labels of the branched session: fresh entries chained after its last one.\<close>

fun label_chain :: "session_io \<Rightarrow> nat \<Rightarrow> string list \<Rightarrow> string option \<Rightarrow> (string \<times> string) list \<Rightarrow> session_entry list" where
  "label_chain io n ids parent [] = []"
| "label_chain io n ids parent ((t, l) # rest) =
     (let i = generate_id (io_uuid io n) ids in
      \<lparr>se_id = i, se_parent_id = parent, se_timestamp = io_now io n, se_kind = LabelEntry t (Some l)\<rparr> #
        label_chain io (Suc n) (i # ids) (Some i) rest)"

fun is_label :: "entry_kind \<Rightarrow> bool" where
  "is_label (LabelEntry _ _) = True"
| "is_label _ = False"

text \<open>The header and the entries of the branched session: the path without its label entries, and the labels that are
  still set on it written afresh.\<close>

definition branched_header :: "session_io \<Rightarrow> session_state \<Rightarrow> session_header" where
  "branched_header io st = \<lparr>hd_version = Some current_session_version, hd_id = io_uuid io 0 0, hd_timestamp = io_now io 0,
     hd_cwd = ss_cwd st, hd_parent_session = (if ss_persist st then ss_session_file st else None)\<rparr>"

definition branched_entries :: "session_io \<Rightarrow> session_entry list \<Rightarrow> session_state \<Rightarrow> session_entry list" where
  "branched_entries io path st =
     (let kept = filter (\<lambda>e. \<not> is_label (se_kind e)) path;
          ids = map se_id kept;
          labels = filter (\<lambda>tl. fst tl \<in> set ids) (ss_labels_by_id st)
      in kept @ label_chain io 1 ids (if kept = [] then None else Some (se_id (last kept))) labels)"

definition create_branched_session :: "session_io \<Rightarrow> string \<Rightarrow> session_state \<Rightarrow>
    ((sess_error + string option) \<times> session_state) option" where
  "create_branched_session io leaf_id st = do {
     path \<leftarrow> get_branch (Some leaf_id) st;
     if path = [] then Some (Inl (NotFound leaf_id), st)
     else
       let es = Header (branched_header io st) # map Entry (branched_entries io path st);
           sid = io_uuid io 0 0
       in if ss_persist st then
            let f = session_file_name (ss_dir st) (io_now io 0) sid;
                (ls, ok) = ser_prefix es;
                st' = append_lines f ls st
            in if ok then
                 Some (Inr (Some f), build_index (st'\<lparr>ss_file_entries := es, ss_session_id := sid,
                   ss_session_file := Some f, ss_flushed := True\<rparr>))
               else Some (Inl SerializationError, st')
          else Some (Inr None, build_index (st\<lparr>ss_file_entries := es, ss_session_id := sid\<rparr>)) }"

text \<open>What \<open>AgentSession.abort\<close> does to the session after an aborted turn, \<open>pre\<close> being the leaf before the turn, and
  the messages it gives back to the agent.\<close>

definition abort_rewind :: "(string \<Rightarrow> json) \<Rightarrow> string option \<Rightarrow> session_state \<Rightarrow> (session_state \<times> session_message list) option" where
  "abort_rewind pt pre st = do {
     let st' = (case pre of None \<Rightarrow> reset_leaf st | Some i \<Rightarrow> st\<lparr>ss_leaf_id := Some i\<rparr>);
     ctx \<leftarrow> session_context_of pt st';
     Some (st', sc_messages ctx) }"

end
