(* ===== verification/Session_Props.thy ===== *)
theory Session_Props
  imports Session_Tree "HOL-Library.Sublist"
begin

text \<open>
  Properties of the session manager over all its reachable states: walks to the root end, the indexes agree with
  the list of entries, and the file of a session holds exactly its entries.
\<close>

section \<open>Runs of the session manager\<close>

datatype sess_op =
    OpMessage session_message
  | OpThinking string
  | OpModel string string
  | OpCompaction string string json compaction_details json
  | OpCustom json json
  | OpInfo string
  | OpCustomMessage json msg_content json json
  | OpLabel string "string option"
  | OpBranch string
  | OpReset
  | OpBranchSummary "string option" string json json
  | OpCreateBranched string

fun sess_exec :: "session_io \<Rightarrow> sess_op \<Rightarrow> session_state \<Rightarrow> session_state option" where
  "sess_exec io (OpMessage m) st = Some (snd (append_message io m st))"
| "sess_exec io (OpThinking l) st = Some (snd (append_thinking_level_change io l st))"
| "sess_exec io (OpModel p m) st = Some (snd (append_model_change io p m st))"
| "sess_exec io (OpCompaction s k n det hook) st = Some (snd (append_compaction io s k n det hook st))"
| "sess_exec io (OpCustom ct d) st = Some (snd (append_custom_entry io ct d st))"
| "sess_exec io (OpInfo n) st = Some (snd (append_session_info io n st))"
| "sess_exec io (OpCustomMessage ct c disp det) st = Some (snd (append_custom_message_entry io ct c disp det st))"
| "sess_exec io (OpLabel t l) st = Some (snd (append_label_change io t l st))"
| "sess_exec io (OpBranch i) st = Some (snd (branch i st))"
| "sess_exec io OpReset st = Some (reset_leaf st)"
| "sess_exec io (OpBranchSummary f s det hook) st = Some (snd (branch_with_summary io f s det hook st))"
| "sess_exec io (OpCreateBranched l) st = map_option snd (create_branched_session io l st)"

text \<open>What can be written: messages of the declared block kinds, never the summaries, and compactions whose details are
  JSON.\<close>

fun op_ok :: "sess_op \<Rightarrow> bool" where
  "op_ok (OpMessage m) = message_ok m"
| "op_ok (OpCustomMessage ct c disp det) = content_ok c"
| "op_ok (OpCompaction s k n (FileDetails _ _) hook) = False"
| "op_ok _ = True"

text \<open>The ids in use: those of the entries and those that are named as a parent. The last resort of \<open>_generate_id\<close> is
  not checked against the existing ids, and no draw is checked against parents that a branched
  session has left behind; that they do not collide is the uniqueness of UUIDs.\<close>

definition used_ids :: "session_state \<Rightarrow> string set" where
  "used_ids st = set (map fst (ss_by_id st)) \<union> {p. \<exists>e \<in> set (map snd (ss_by_id st)). se_parent_id e = Some p}"

definition dangling :: "session_state \<Rightarrow> string set" where
  "dangling st = used_ids st - set (map fst (ss_by_id st))"

definition id_fresh :: "session_io \<Rightarrow> session_state \<Rightarrow> bool" where
  "id_fresh io st \<longleftrightarrow> io_uuid io 0 100 \<notin> used_ids st \<and> (\<forall>i < 100. take 8 (io_uuid io 0 i) \<notin> dangling st)"

definition labels_fresh :: "session_io \<Rightarrow> session_state \<Rightarrow> bool" where
  "labels_fresh io st \<longleftrightarrow>
     (\<forall>n i. io_uuid io n i \<notin> used_ids st \<and> take 8 (io_uuid io n i) \<notin> used_ids st) \<and>
     (\<forall>m n i. m < n \<longrightarrow> io_uuid io n 100 \<notin> {io_uuid io m i, take 8 (io_uuid io m i)})"

fun op_fresh :: "session_io \<Rightarrow> sess_op \<Rightarrow> session_state \<Rightarrow> bool" where
  "op_fresh io (OpCreateBranched l) st =
     (labels_fresh io st \<and> io_uuid io 0 0 \<noteq> [] \<and>
      ss_files st (session_file_name (ss_dir st) (io_now io 0) (io_uuid io 0 0)) = None)"
| "op_fresh io _ st = id_fresh io st"

text \<open>The reachable states: a new session, the operations on it, and, with \<open>whole\<close>, a session manager that resumes a
  persisted session which has a reply from its file, in another process and whatever the other files hold by
  then. With \<open>whole\<close>, a branched session is only made of a path that has a reply of the assistant. Not
  reached are files that no session manager of this kind has written, and what \<open>op_ok\<close> leaves out.\<close>

inductive session_reach :: "bool \<Rightarrow> session_state \<Rightarrow> bool" for whole where
  start: "init_session io cwd dir None persist files = (None, st) \<Longrightarrow> io_uuid io 0 0 \<noteq> [] \<Longrightarrow>
     files (session_file_name dir (io_now io 0) (io_uuid io 0 0)) = None \<Longrightarrow> session_reach whole st"
| step: "session_reach whole st \<Longrightarrow> op_ok op \<Longrightarrow> op_fresh io op st \<Longrightarrow> sess_exec io op st = Some st' \<Longrightarrow>
     (\<And>l. op = OpCreateBranched l \<Longrightarrow> whole \<Longrightarrow> st' = st \<or> has_assistant (ss_file_entries st')) \<Longrightarrow> session_reach whole st'"
| resume: "whole \<Longrightarrow> session_reach whole st \<Longrightarrow> ss_persist st \<Longrightarrow> has_assistant (ss_file_entries st) \<Longrightarrow>
     ss_session_file st = Some f \<Longrightarrow> files f = ss_files st f \<Longrightarrow>
     init_session io cwd dir (Some f) True files = (None, st') \<Longrightarrow> session_reach whole st'"

section \<open>Walking to the root\<close>

lemma generate_id_fresh:
  assumes "u 100 \<notin> set ids"
  shows "generate_id u ids \<notin> set ids"
  using assms by (auto simp: generate_id_def find_Some_iff split: option.splits)

lemma generate_id_cases: "generate_id u ids = u 100 \<or> (\<exists>i < 100. generate_id u ids = take 8 (u i))"
  by (auto simp: generate_id_def find_Some_iff split: option.splits)

definition index_of :: "session_entry list \<Rightarrow> (string \<times> session_entry) list" where
  "index_of es = map (\<lambda>e. (se_id e, e)) es"

lemma index_of_simps [simp]:
  "index_of [] = []" "index_of (e # es) = (se_id e, e) # index_of es" "index_of (es @ fs) = index_of es @ index_of fs"
  "length (index_of es) = length es" "map fst (index_of es) = map se_id es" "map snd (index_of es) = es"
  by (simp_all add: index_of_def comp_def)

text \<open>No entry names itself or a later entry as its parent.\<close>

fun ordered :: "session_entry list \<Rightarrow> bool" where
  "ordered [] = True"
| "ordered (e # es) = (se_parent_id e \<notin> Some ` se_id ` set (e # es) \<and> ordered es)"

definition tree_ok :: "session_entry list \<Rightarrow> bool" where
  "tree_ok es \<longleftrightarrow> distinct (map se_id es) \<and> ordered es"

lemma tree_ok_snoc:
  assumes "tree_ok es" "se_id e \<notin> se_id ` set es" "se_parent_id e \<noteq> Some (se_id e)"
    "\<forall>e' \<in> set es. se_parent_id e' \<noteq> Some (se_id e)"
  shows "tree_ok (es @ [e])"
proof -
  have "ordered (es @ [e])" if "ordered es" "\<forall>e' \<in> set es. se_parent_id e' \<noteq> Some (se_id e)" for es
    using that assms(3) by (induction es) auto
  with assms show ?thesis by (auto simp: tree_ok_def)
qed

lemma ordered_subseq: "subseq fs es \<Longrightarrow> ordered es \<Longrightarrow> ordered fs"
proof (induction fs es rule: list_emb.induct)
  case (list_emb_Cons2 x y xs ys)
  have "set xs \<subseteq> set ys" using list_emb_set [OF list_emb_Cons2(2)] by blast
  with list_emb_Cons2 show ?case by auto
qed auto

lemma tree_ok_subseq: "tree_ok es \<Longrightarrow> subseq fs es \<Longrightarrow> tree_ok fs"
  unfolding tree_ok_def by (metis distinct_nthsI ordered_subseq subseq_conv_nths subseq_map)

lemma ordered_nth:
  assumes "ordered es" "i < length es" "j < length es" "se_parent_id (es ! i) = Some (se_id (es ! j))"
  shows "j < i"
  using assms
proof (induction es arbitrary: i j)
  case (Cons e es)
  show ?case
  proof (cases i)
    case 0
    then have "se_parent_id e \<in> Some ` se_id ` set (e # es)" using Cons.prems nth_mem [of j "e # es"] by auto
    then show ?thesis using Cons.prems(1) by simp
  next
    case (Suc i')
    with Cons show ?thesis by (cases j) auto
  qed
qed simp

lemma update_fresh: "k \<notin> set (map fst xs) \<Longrightarrow> AList.update k v xs = xs @ [(k, v)]"
  by (induction xs) auto

lemma map_of_index: "map_of (index_of es) i = Some e \<Longrightarrow> e \<in> set es \<and> se_id e = i"
  by (auto simp: index_of_def dest: map_of_SomeD)

text \<open>A walk in a well-ordered tree returns, with a path that is part of the list of entries.\<close>

lemma walk_returns:
  assumes "tree_ok es" "i < length es"
  shows "\<exists>xs. walk (index_of es) (Some (es ! i)) path = Some (xs @ (es ! i) # path) \<and> subseq (xs @ [es ! i]) (take (Suc i) es)"
  using assms(2)
proof (induction i arbitrary: path rule: less_induct)
  case (less i)
  let ?e = "es ! i"
  have take: "take (Suc i) es = take i es @ [?e]" using less.prems by (rule take_Suc_conv_app_nth)
  show ?case
  proof (cases "parent_of (index_of es) ?e")
    case None
    then show ?thesis by (subst walk.simps) (simp add: walk.simps take)
  next
    case (Some p)
    then have "p \<in> set es" and t: "se_parent_id ?e = Some (se_id p)"
      by (auto simp: parent_of_def truthy_def dest!: map_of_index split: if_splits option.splits)
    then obtain j where j: "j < length es" "es ! j = p" by (auto simp: in_set_conv_nth)
    with t assms(1) less.prems have "j < i" by (auto simp: tree_ok_def intro: ordered_nth)
    from less.IH [OF this j(1)] obtain xs where
      xs: "walk (index_of es) (Some p) (?e # path) = Some (xs @ p # ?e # path)" "subseq (xs @ [p]) (take (Suc j) es)"
      using j(2) by auto
    moreover have "prefix (take (Suc j) es) (take i es)"
      using \<open>j < i\<close> by (metis Suc_leI min.absorb1 take_is_prefix take_take)
    ultimately have "subseq (xs @ [p]) (take i es)"
      by (meson prefix_imp_subseq subseq_order.order_trans)
    then have "subseq ((xs @ [p]) @ [?e]) (take (Suc i) es)" unfolding take by (rule list_emb_append_mono) simp
    with xs(1) show ?thesis by (subst walk.simps) (auto simp: Some)
  qed
qed

lemma walk_total:
  assumes "tree_ok es" "e \<in> set es"
  obtains xs where "walk (index_of es) (Some e) [] = Some (xs @ [e])" "subseq (xs @ [e]) es"
proof -
  from assms(2) obtain i where i: "i < length es" "e = es ! i" by (auto simp: in_set_conv_nth)
  with walk_returns [OF assms(1), of i "[]"] obtain xs where
    "walk (index_of es) (Some e) [] = Some (xs @ [e])" "subseq (xs @ [e]) (take (Suc i) es)" by auto
  with that show thesis by (meson prefix_imp_subseq subseq_order.order_trans take_is_prefix)
qed

section \<open>The invariant\<close>

definition labels_of :: "session_entry list \<Rightarrow> (string \<times> string) list" where
  "labels_of es = fold (\<lambda>e ls. case se_kind e of LabelEntry t l \<Rightarrow> set_label t l ls | _ \<Rightarrow> ls) es []"

lemma entries_of_map [simp]: "entries_of (map Entry es) = es"
  by (induction es) simp_all

lemma entries_of_append [simp]: "entries_of (xs @ ys) = entries_of xs @ entries_of ys"
  by (induction xs rule: entries_of.induct) simp_all

lemma fold_index_entry:
  assumes "ss_by_id st = index_of xs" "distinct (map se_id (xs @ es))"
  shows "fold index_entry es st = st\<lparr>ss_by_id := index_of (xs @ es),
     ss_leaf_id := (if es = [] then ss_leaf_id st else Some (se_id (last es))),
     ss_labels_by_id := fold (\<lambda>e ls. case se_kind e of LabelEntry t l \<Rightarrow> set_label t l ls | _ \<Rightarrow> ls) es (ss_labels_by_id st)\<rparr>"
  using assms
proof (induction es arbitrary: st xs)
  case (Cons e es)
  have "ss_by_id (index_entry e st) = index_of (xs @ [e])"
    using Cons.prems by (simp add: index_entry_def update_fresh)
  from Cons.IH [OF this] Cons.prems show ?case by (simp add: index_entry_def cong: if_cong)
qed simp

lemma build_index_eq:
  assumes "ss_file_entries st = Header h # map Entry es" "distinct (map se_id es)"
  shows "build_index st = st\<lparr>ss_by_id := index_of es, ss_labels_by_id := labels_of es,
     ss_leaf_id := (if es = [] then None else Some (se_id (last es)))\<rparr>"
  using fold_index_entry [of "st\<lparr>ss_by_id := [], ss_labels_by_id := [], ss_leaf_id := None\<rparr>" "[]" es] assms
  by (simp add: build_index_def labels_of_def)

text \<open>The state holds the header \<open>h\<close> and the tree \<open>es\<close>: its indexes are those a reader of the entries builds.\<close>

definition holds_tree :: "session_state \<Rightarrow> session_header \<Rightarrow> session_entry list \<Rightarrow> bool" where
  "holds_tree st h es \<longleftrightarrow>
     ss_file_entries st = Header h # map Entry es \<and> hd_id h = ss_session_id st \<and> hd_id h \<noteq> [] \<and>
     hd_version h = Some current_session_version \<and> (\<forall>e \<in> set es. kind_ok (se_kind e)) \<and> tree_ok es \<and>
     ss_by_id st = index_of es \<and> ss_labels_by_id st = labels_of es \<and>
     ss_leaf_id st \<in> insert None (Some ` se_id ` set es)"

text \<open>The file holds all entries once there is a reply of the assistant, and does not exist before.\<close>

definition file_whole :: "session_state \<Rightarrow> bool" where
  "file_whole st \<longleftrightarrow> (ss_persist st \<longrightarrow>
     (\<exists>f. ss_session_file st = Some f \<and> f \<noteq> [] \<and>
       (if has_assistant (ss_file_entries st)
        then ss_flushed st \<and> ss_files st f \<noteq> None \<and> those (map serialize_entry (ss_file_entries st)) = ss_files st f
        else \<not> ss_flushed st \<and> ss_files st f = None)))"

lemma ser_prefix_ok:
  assumes "\<forall>e \<in> set es. storable e"
  obtains ls where "ser_prefix es = (ls, True)" "those (map serialize_entry es) = Some ls"
  using assms
proof (induction es arbitrary: thesis)
  case (Cons e es)
  from Cons.prems entry_roundtrip [of e] obtain d where "serialize_entry e = Some d" by auto
  with Cons show ?case by (metis (no_types, lifting) case_prod_conv list.set_intros(2) list.simps(9) option.simps(5) option.simps(9) ser_prefix.simps(2) those.simps(2))
qed simp

lemma those_append: "those (xs @ ys) = (case those xs of None \<Rightarrow> None | Some a \<Rightarrow> map_option ((@) a) (those ys))"
  by (cases "those ys"; induction xs) (auto split: option.splits)

lemma persist_entry_ok:
  assumes "\<forall>x \<in> set (ss_file_entries st). storable x" "storable (Entry e)"
  obtains fl fs where "persist_entry e st = (None, st\<lparr>ss_flushed := fl, ss_files := fs\<rparr>)"
proof -
  let ?es = "if ss_flushed st then [Entry e] else ss_file_entries st"
  have "\<forall>x \<in> set ?es. storable x" using assms by simp
  then obtain ls where ls: "ser_prefix ?es = (ls, True)" by (rule ser_prefix_ok)
  consider (unsaved) "\<not> ss_persist st \<or> \<not> truthy (ss_session_file st)" 
    | (quiet) "ss_persist st" "truthy (ss_session_file st)" "\<not> has_assistant (ss_file_entries st)"
    | (written) "ss_persist st" "truthy (ss_session_file st)" "has_assistant (ss_file_entries st)" by blast
  then show thesis
  proof cases
    case unsaved
    then show ?thesis using that [of "ss_files st" "ss_flushed st"] by (simp add: persist_entry_def)
  next
    case quiet
    then show ?thesis
      using that [of "ss_files st" False] by (simp add: persist_entry_def)
  next
    case written
    then show ?thesis
      using ls that [of "(ss_files st)(the (ss_session_file st) \<mapsto>
        (case ss_files st (the (ss_session_file st)) of None \<Rightarrow> [] | Some old \<Rightarrow> old) @ ls)" True]
      by (simp add: persist_entry_def append_lines_def Let_def del: ser_prefix.simps)
  qed
qed

lemma holds_used_ids: "holds_tree st h es \<Longrightarrow> used_ids st = se_id ` set es \<union> {p. \<exists>e \<in> set es. se_parent_id e = Some p}"
  by (simp add: used_ids_def holds_tree_def)

lemma new_entry_tree_ok:
  assumes "holds_tree st h es" "id_fresh io st"
  shows "tree_ok (es @ [new_entry io k st])" "se_id (new_entry io k st) \<notin> se_id ` set es"
proof -
  let ?i = "se_id (new_entry io k st)"
  have ids: "map fst (ss_by_id st) = map se_id es" using assms(1) by (simp add: holds_tree_def)
  have used: "used_ids st = se_id ` set es \<union> {p. \<exists>e \<in> set es. se_parent_id e = Some p}"
    using assms(1) by (rule holds_used_ids)
  have new: "?i \<notin> se_id ` set es"
    using generate_id_fresh [of "io_uuid io 0" "map se_id es"] assms(2) by (simp add: new_entry_def ids id_fresh_def used)
  have "?i \<notin> dangling st"
    using generate_id_cases [of "io_uuid io 0" "map se_id es"] assms(2)
    by (auto simp: new_entry_def ids id_fresh_def dangling_def)
  then have "\<forall>e' \<in> set es. se_parent_id e' \<noteq> Some ?i" using new by (auto simp: dangling_def used ids)
  moreover have "se_parent_id (new_entry io k st) \<noteq> Some ?i"
    using assms(1) new by (auto simp: new_entry_def holds_tree_def image_iff)
  moreover have "tree_ok es" using assms(1) by (simp add: holds_tree_def)
  ultimately show "tree_ok (es @ [new_entry io k st])" using new by (intro tree_ok_snoc)
  show "?i \<notin> se_id ` set es" by (fact new)
qed

text \<open>Appending never raises, adds the entry to the list and the index, and keeps the file whole.\<close>

lemma append_new_ok:
  assumes "holds_tree st h es" "id_fresh io st" "kind_ok k"
  obtains fl fs where "append_new io k st = (Inr (se_id (new_entry io k st)), st\<lparr>
      ss_file_entries := Header h # map Entry (es @ [new_entry io k st]), ss_by_id := index_of (es @ [new_entry io k st]),
      ss_leaf_id := Some (se_id (new_entry io k st)), ss_flushed := fl, ss_files := fs\<rparr>)"
proof -
  let ?e = "new_entry io k st"
  let ?st = "st\<lparr>ss_file_entries := Header h # map Entry (es @ [?e]), ss_by_id := index_of (es @ [?e]), ss_leaf_id := Some (se_id ?e)\<rparr>"
  have "se_kind ?e = k" by (simp add: new_entry_def)
  then have "\<forall>x \<in> set (ss_file_entries ?st). storable x" "storable (Entry ?e)"
    using assms by (auto simp: holds_tree_def)
  then obtain fl fs where "persist_entry ?e ?st = (None, ?st\<lparr>ss_flushed := fl, ss_files := fs\<rparr>)"
    by (rule persist_entry_ok)
  moreover have "append_entry ?e st = persist_entry ?e ?st"
    using assms(1) new_entry_tree_ok(2) [OF assms(1,2), of k] by (simp add: append_entry_def holds_tree_def update_fresh)
  ultimately show thesis using that by (simp add: append_new_def Let_def)
qed

lemma append_entry_whole:
  assumes "file_whole st" "\<forall>x \<in> set (ss_file_entries st). storable x" "storable (Entry e)"
  shows "file_whole (snd (append_entry e st))"
proof (cases "ss_persist st")
  case True
  then obtain f where f: "ss_session_file st = Some f" "f \<noteq> []" using assms(1) by (auto simp: file_whole_def)
  let ?es = "ss_file_entries st"
  obtain d where d: "serialize_entry (Entry e) = Some d" using assms(3) entry_roundtrip by blast
  obtain ls where ls: "ser_prefix (?es @ [Entry e]) = (ls, True)" "those (map serialize_entry (?es @ [Entry e])) = Some ls"
    using ser_prefix_ok [of "?es @ [Entry e]"] assms by auto
  have has: "has_assistant (?es @ [Entry e]) \<longleftrightarrow> has_assistant ?es \<or> is_assistant e" by (simp add: has_assistant_def)
  show ?thesis
  proof (cases "has_assistant ?es")
    case old: True
    with True f assms(1) obtain old where "ss_flushed st" "ss_files st f = Some old" "those (map serialize_entry ?es) = Some old"
      by (auto simp: file_whole_def)
    then show ?thesis using True f old d
      by (simp add: append_entry_def persist_entry_def has file_whole_def append_lines_def those_append)
  next
    case False
    with True f assms(1) have "\<not> ss_flushed st" "ss_files st f = None" by (auto simp: file_whole_def)
    then show ?thesis using True f False ls
      by (simp add: append_entry_def persist_entry_def has file_whole_def append_lines_def del: map_append)
  qed
qed (simp add: append_entry_def persist_entry_def file_whole_def)

section \<open>Branched sessions\<close>

definition drawn :: "session_io \<Rightarrow> nat \<Rightarrow> string set" where
  "drawn io n = {s. \<exists>m i. m < n \<and> (s = io_uuid io m i \<or> s = take 8 (io_uuid io m i))}"

lemma label_chain_ok:
  assumes "labels_fresh io st" "tree_ok xs" "set ids = se_id ` set xs" "set ids \<subseteq> used_ids st \<union> drawn io n"
    "\<forall>e \<in> set xs. \<forall>p. se_parent_id e = Some p \<longrightarrow> p \<in> used_ids st \<union> set ids" "parent \<in> insert None (Some ` set ids)"
  shows "tree_ok (xs @ label_chain io n ids parent ls)"
  using assms(2-6)
proof (induction ls arbitrary: xs ids n parent)
  case (Cons tl ls)
  obtain t l where tl: "tl = (t, l)" by (cases tl)
  define i where "i = generate_id (io_uuid io n) ids"
  define e where "e = \<lparr>se_id = i, se_parent_id = parent, se_timestamp = io_now io n, se_kind = LabelEntry t (Some l)\<rparr>"
  have "io_uuid io n 100 \<notin> set ids"
  proof -
    have "io_uuid io n 100 \<notin> used_ids st" using assms(1) by (simp add: labels_fresh_def)
    moreover have "io_uuid io n 100 \<notin> drawn io n" using assms(1) unfolding labels_fresh_def drawn_def by blast
    ultimately show ?thesis using Cons.prems(3) by blast
  qed
  then have new: "i \<notin> set ids" unfolding i_def by (rule generate_id_fresh)
  have unused: "i \<notin> used_ids st"
    using generate_id_cases [of "io_uuid io n" ids] assms(1) by (auto simp: i_def labels_fresh_def)
  have "i \<in> drawn io (Suc n)" using generate_id_cases [of "io_uuid io n" ids] by (auto simp: i_def drawn_def)
  moreover have "drawn io n \<subseteq> drawn io (Suc n)" by (auto simp: drawn_def less_Suc_eq)
  ultimately have "set (i # ids) \<subseteq> used_ids st \<union> drawn io (Suc n)" using Cons.prems(3) by auto
  moreover have "tree_ok (xs @ [e])"
    using Cons.prems new unused by (intro tree_ok_snoc) (auto simp: e_def)
  moreover have "set (i # ids) = se_id ` set (xs @ [e])" using Cons.prems(2) by (simp add: e_def)
  moreover have "\<forall>x \<in> set (xs @ [e]). \<forall>p. se_parent_id x = Some p \<longrightarrow> p \<in> used_ids st \<union> set (i # ids)"
    using Cons.prems(4,5) by (auto simp: e_def)
  ultimately have "tree_ok ((xs @ [e]) @ label_chain io (Suc n) (i # ids) (Some i) ls)"
    by (intro Cons.IH) auto
  then show ?case by (simp add: tl e_def i_def Let_def)
qed simp

lemma label_chain_storable: "e \<in> set (label_chain io n ids parent ls) \<Longrightarrow> kind_ok (se_kind e)"
  by (induction ls arbitrary: n ids parent) (auto simp: Let_def)

lemma branch_subseq:
  assumes "holds_tree st h es" "get_branch from st = Some path"
  shows "subseq path es"
proof -
  define start where "start = (case from of None \<Rightarrow> ss_leaf_id st | Some i \<Rightarrow> Some i)"
  have by_id: "ss_by_id st = index_of es" "tree_ok es" using assms(1) by (simp_all add: holds_tree_def)
  have b: "walk (index_of es) (if truthy start then map_of (index_of es) (the start) else None) [] = Some path"
    using assms(2) unfolding get_branch_def start_def Let_def by_id .
  show ?thesis
  proof (cases "if truthy start then map_of (index_of es) (the start) else None")
    case None
    with b show ?thesis by (simp add: walk.simps)
  next
    case (Some e)
    then have "e \<in> set es" using map_of_index by (auto split: if_splits)
    with walk_total [OF by_id(2)] obtain xs where "walk (index_of es) (Some e) [] = Some (xs @ [e])" "subseq (xs @ [e]) es"
      by blast
    with b Some show ?thesis by simp
  qed
qed

lemma session_file_name_nonempty [simp]: "session_file_name d ts sid \<noteq> []"
  by (simp add: session_file_name_def path_join_def)

lemma branched_entries_ok:
  assumes "holds_tree st h es" "labels_fresh io st" "subseq path es"
  shows "tree_ok (branched_entries io path st)" "\<forall>e \<in> set (branched_entries io path st). kind_ok (se_kind e)"
proof -
  define kept where "kept = filter (\<lambda>e. \<not> is_label (se_kind e)) path"
  obtain parent ls where es': "branched_entries io path st = kept @ label_chain io 1 (map se_id kept) parent ls"
    "parent \<in> insert None (Some ` set (map se_id kept))"
    by (simp add: branched_entries_def Let_def kept_def [symmetric])
  have sub: "subseq kept es" unfolding kept_def by (meson assms(3) subseq_filter_left subseq_order.order_trans)
  have kept: "set kept \<subseteq> set es" using list_emb_set [OF sub] by blast
  show "tree_ok (branched_entries io path st)"
    unfolding es'
  proof (rule label_chain_ok [OF assms(2)])
    show "tree_ok kept" using assms(1) sub tree_ok_subseq by (auto simp: holds_tree_def)
  qed (use kept holds_used_ids [OF assms(1)] es'(2) in \<open>auto simp: subset_iff\<close>)
  show "\<forall>e \<in> set (branched_entries io path st). kind_ok (se_kind e)"
    using assms(1) kept label_chain_storable by (auto simp: es' holds_tree_def)
qed

text \<open>The branched session holds the new tree.\<close>

lemma create_branched_ok:
  assumes "holds_tree st h es" "labels_fresh io st" "io_uuid io 0 0 \<noteq> []"
    "ss_files st (session_file_name (ss_dir st) (io_now io 0) (io_uuid io 0 0)) = None"
    "create_branched_session io l st = Some (r, st')"
  shows "(\<exists>h' es'. holds_tree st' h' es') \<and> (file_whole st \<longrightarrow> st' = st \<or> has_assistant (ss_file_entries st') \<longrightarrow> file_whole st')"
proof -
  from assms(5) obtain path where path: "get_branch (Some l) st = Some path"
    by (auto simp: create_branched_session_def split: bind_splits)
  define h' where "h' = branched_header io st"
  define es' where "es' = branched_entries io path st"
  define f where "f = session_file_name (ss_dir st) (io_now io 0) (io_uuid io 0 0)"
  have ok: "tree_ok es'" "\<forall>e \<in> set es'. kind_ok (se_kind e)"
    using branched_entries_ok [OF assms(1,2) branch_subseq [OF assms(1) path]] by (simp_all add: es'_def)
  then obtain ls where ls: "ser_prefix (Header h' # map Entry es') = (ls, True)"
    "those (map serialize_entry (Header h' # map Entry es')) = Some ls"
    using ser_prefix_ok [of "Header h' # map Entry es'"] by auto
  let ?b = "\<lambda>s. s\<lparr>ss_file_entries := Header h' # map Entry es', ss_session_id := io_uuid io 0 0\<rparr>"
  have "create_branched_session io l st =
      (if path = [] then Some (Inl (NotFound l), st)
       else if ss_persist st then
         Some (Inr (Some f), build_index ((?b (append_lines f ls st))\<lparr>ss_session_file := Some f, ss_flushed := True\<rparr>))
       else Some (Inr None, build_index (?b st)))"
    unfolding create_branched_session_def path bind.bind_lunit Let_def h'_def [symmetric] es'_def [symmetric]
      f_def [symmetric] ls(1) by simp
  with assms(5) consider (missing) "st' = st"
    | (saved) "ss_persist st" "st' = build_index ((?b (append_lines f ls st))\<lparr>ss_session_file := Some f, ss_flushed := True\<rparr>)"
    | (memory) "\<not> ss_persist st" "st' = build_index (?b st)"
    by (cases "path = []"; cases "ss_persist st") auto
  then show ?thesis
  proof cases
    case missing
    then show ?thesis using assms(1) by auto
  next
    case saved
    then have "holds_tree st' h' es'"
      using ok assms(3) by (auto simp: holds_tree_def build_index_eq tree_ok_def h'_def branched_header_def)
    moreover have "file_whole st'" if "has_assistant (ss_file_entries st')"
      using saved that ok(1) ls(2) assms(4)
      by (simp add: file_whole_def build_index_eq tree_ok_def append_lines_def f_def)
    ultimately show ?thesis using saved by auto
  next
    case memory
    then have "holds_tree st' h' es'"
      using ok assms(3) by (auto simp: holds_tree_def build_index_eq tree_ok_def h'_def branched_header_def)
    moreover have "file_whole st'" using memory ok(1) by (simp add: file_whole_def build_index_eq tree_ok_def)
    ultimately show ?thesis by auto
  qed
qed

section \<open>The invariant holds\<close>

lemma append_new_snd: "snd (append_new io k st) = snd (append_entry (new_entry io k st) st)"
  by (auto simp: append_new_def Let_def split: prod.split option.split)

lemma append_new_whole:
  assumes "holds_tree st h es" "kind_ok k" "file_whole st"
  shows "file_whole (snd (append_new io k st))"
  unfolding append_new_snd
  by (rule append_entry_whole) (use assms in \<open>auto simp: holds_tree_def new_entry_def\<close>)

lemma labels_of_snoc:
  "labels_of (es @ [e]) = (case se_kind e of LabelEntry t l \<Rightarrow> set_label t l (labels_of es) | _ \<Rightarrow> labels_of es)"
  by (cases "se_kind e") (simp_all add: labels_of_def)

lemma append_new_holds:
  assumes "holds_tree st h es" "id_fresh io st" "kind_ok k" "\<not> is_label k"
  shows "holds_tree (snd (append_new io k st)) h (es @ [new_entry io k st])"
proof -
  obtain fl fs where "append_new io k st = (Inr (se_id (new_entry io k st)), st\<lparr>
      ss_file_entries := Header h # map Entry (es @ [new_entry io k st]), ss_by_id := index_of (es @ [new_entry io k st]),
      ss_leaf_id := Some (se_id (new_entry io k st)), ss_flushed := fl, ss_files := fs\<rparr>)"
    using append_new_ok [OF assms(1-3)] by blast
  moreover have "se_kind (new_entry io k st) = k" by (simp add: new_entry_def)
  moreover from this assms(4) have "labels_of (es @ [new_entry io k st]) = labels_of es"
    by (auto simp: labels_of_snoc split: entry_kind.split)
  ultimately show ?thesis
    using assms(1,3) new_entry_tree_ok(1) [OF assms(1,2), of k] by (auto simp: holds_tree_def)
qed

lemma append_label_holds:
  assumes "holds_tree st h es" "id_fresh io st" "map_of (ss_by_id st) t \<noteq> None"
  shows "holds_tree (snd (append_label_change io t l st)) h (es @ [new_entry io (LabelEntry t l) st])"
proof -
  let ?e = "new_entry io (LabelEntry t l) st"
  obtain fl fs where "append_new io (LabelEntry t l) st = (Inr (se_id ?e), st\<lparr>
      ss_file_entries := Header h # map Entry (es @ [?e]), ss_by_id := index_of (es @ [?e]),
      ss_leaf_id := Some (se_id ?e), ss_flushed := fl, ss_files := fs\<rparr>)"
    using append_new_ok [OF assms(1,2) kind_ok.simps(9) [THEN iffD2, OF TrueI]] by blast
  moreover have "se_kind ?e = LabelEntry t l" by (simp add: new_entry_def)
  ultimately show ?thesis
    using assms(1,3) new_entry_tree_ok(1) [OF assms(1,2), of "LabelEntry t l"]
    by (auto simp: holds_tree_def append_label_change_def labels_of_snoc)
qed

lemma append_label_whole:
  assumes "holds_tree st h es" "file_whole st"
  shows "file_whole (snd (append_label_change io t l st))"
proof -
  have "file_whole (st'\<lparr>ss_labels_by_id := ls\<rparr>) = file_whole st'" for st' ls by (simp add: file_whole_def)
  with append_new_whole [OF assms(1) _ assms(2), of "LabelEntry t l" io] assms(2) show ?thesis
    by (auto simp: append_label_change_def split: prod.split sum.split)
qed

lemma leaf_moved:
  assumes "holds_tree st h es" "l = None \<or> map_of (ss_by_id st) (the l) \<noteq> None"
  shows "holds_tree (st\<lparr>ss_leaf_id := l\<rparr>) h es" "file_whole (st\<lparr>ss_leaf_id := l\<rparr>) = file_whole st"
    "id_fresh io (st\<lparr>ss_leaf_id := l\<rparr>) = id_fresh io st"
proof -
  have "l \<in> insert None (Some ` se_id ` set es)"
    using assms map_of_index by (cases l) (fastforce simp: holds_tree_def)+
  then show "holds_tree (st\<lparr>ss_leaf_id := l\<rparr>) h es" using assms(1) by (auto simp: holds_tree_def)
qed (simp_all add: file_whole_def id_fresh_def used_ids_def dangling_def)

lemmas append_defs = append_message_def append_thinking_level_change_def append_model_change_def append_compaction_def
  append_custom_entry_def append_session_info_def append_custom_message_entry_def

text \<open>Every operation but the making of a branched session extends the tree at its end.\<close>

lemma exec_extends:
  assumes "holds_tree st h es" "op_ok op" "op_fresh io op st" "sess_exec io op st = Some st'" "\<forall>l. op \<noteq> OpCreateBranched l"
  shows "\<exists>new. holds_tree st' h (es @ new) \<and> (file_whole st \<longrightarrow> file_whole st')"
proof -
  have add: "\<exists>new. holds_tree (snd (append_new io k s)) h (es @ new) \<and> (file_whole s \<longrightarrow> file_whole (snd (append_new io k s)))"
    if "holds_tree s h es" "id_fresh io s" "kind_ok k" "\<not> is_label k" for k s
    using that append_new_holds append_new_whole by blast
  show ?thesis
  proof (cases op)
    case (OpLabel t l)
    then show ?thesis
      using assms append_label_holds [of st h es io t l] append_label_whole [of st h es io t l]
      by (cases "map_of (ss_by_id st) t = None") (auto simp: append_label_change_def intro: exI [of _ "[]"])
  next
    case (OpBranch i)
    then show ?thesis
      using assms leaf_moved [OF assms(1), of "Some i"] by (auto simp: branch_def split: if_splits intro: exI [of _ "[]"])
  next
    case OpReset
    then show ?thesis
      using assms leaf_moved [OF assms(1), of None] by (auto simp: reset_leaf_def intro: exI [of _ "[]"])
  next
    case (OpBranchSummary f s det hook)
    show ?thesis
    proof (cases "f \<noteq> None \<and> map_of (ss_by_id st) (the f) = None")
      case True
      then show ?thesis using assms OpBranchSummary by (auto simp: branch_with_summary_def intro: exI [of _ "[]"])
    next
      case False
      then have "holds_tree (st\<lparr>ss_leaf_id := f\<rparr>) h es" "file_whole (st\<lparr>ss_leaf_id := f\<rparr>) = file_whole st"
        "id_fresh io (st\<lparr>ss_leaf_id := f\<rparr>)"
        using leaf_moved [OF assms(1), of f] assms(3) OpBranchSummary by auto
      from add [OF this(1,3), of "BranchSummary (if truthy f then the f else ''root'') s det hook"] this(2) show ?thesis
        using assms(4) OpBranchSummary False by (auto simp: branch_with_summary_def)
    qed
  next
    case (OpCompaction s k n det hook)
    then have "kind_ok (Compaction s k n det hook)" using assms(2) by (cases det) auto
    then show ?thesis using assms add [OF assms(1), of "Compaction s k n det hook"] OpCompaction by (auto simp: append_defs)
  qed (use assms add [OF assms(1)] in \<open>auto simp: append_defs\<close>)
qed

text \<open>The file of a session gives the session back, as another state that satisfies the invariant.\<close>

lemma reopened:
  assumes "holds_tree st h es" "file_whole st" "ss_persist st" "has_assistant (ss_file_entries st)"
    "ss_session_file st = Some f" "files f = ss_files st f"
  shows "\<exists>st'. init_session io cwd dir (Some f) True files = (None, st') \<and> holds_tree st' h es \<and> file_whole st' \<and>
    ss_leaf_id st' = Some (se_id (last es))"
proof -
  have es: "ss_file_entries st = Header h # map Entry es" using assms(1) by (simp add: holds_tree_def)
  obtain ls where f: "ss_files st f = Some ls" "those (map serialize_entry (ss_file_entries st)) = Some ls"
    "f \<noteq> []"
    using assms(2-5) by (auto simp: file_whole_def)
  have "\<forall>e \<in> set (ss_file_entries st). storable e" using assms(1) by (auto simp: holds_tree_def)
  from entries_roundtrip [OF this] f(2) have "parse_session_entries ls = Header h # map Entry es" unfolding es [symmetric] by auto
  moreover have h: "hd_id h \<noteq> []" "hd_version h = Some current_session_version" using assms(1) by (auto simp: holds_tree_def)
  moreover from this have sid: "ss_session_id st \<noteq> []" using assms(1) by (auto simp: holds_tree_def)
  ultimately have load: "load_entries_from_file ls = Header h # map Entry es" by (simp add: load_entries_from_file_def)
  have ne: "es \<noteq> []" using assms(4) by (auto simp: es has_assistant_def)
  have "distinct (map se_id es)" using assms(1) by (simp add: holds_tree_def tree_ok_def)
  then have "build_index (s\<lparr>ss_file_entries := Header h # map Entry es, ss_session_id := hd_id h\<rparr>) =
      s\<lparr>ss_file_entries := Header h # map Entry es, ss_session_id := hd_id h, ss_by_id := index_of es,
        ss_labels_by_id := labels_of es, ss_leaf_id := Some (se_id (last es))\<rparr>" for s
    using ne by (simp add: build_index_eq)
  then show ?thesis
    using assms f ne sid
    by (simp add: init_session_def set_session_file_def load migrate_to_current_version_def h holds_tree_def file_whole_def)
qed

lemma reach_invariant:
  "session_reach whole st \<Longrightarrow> (\<exists>h es. holds_tree st h es) \<and> (whole \<longrightarrow> file_whole st)"
proof (induction rule: session_reach.induct)
  case (start io cwd dir persist files st)
  let ?h = "\<lparr>hd_version = Some current_session_version, hd_id = io_uuid io 0 0, hd_timestamp = io_now io 0,
     hd_cwd = cwd, hd_parent_session = None\<rparr>"
  have "holds_tree st ?h []"
    using start by (auto simp: init_session_def new_session_def holds_tree_def tree_ok_def labels_of_def Let_def)
  moreover have "file_whole st"
    using start by (auto simp: init_session_def new_session_def file_whole_def has_assistant_def Let_def)
  ultimately show ?case by blast
next
  case (step st op io st')
  then obtain h es where t: "holds_tree st h es" by blast
  show ?case
  proof (cases "\<exists>l. op = OpCreateBranched l")
    case True
    then obtain l r where "op = OpCreateBranched l" "create_branched_session io l st = Some (r, st')"
      using step.hyps(4) by auto
    with create_branched_ok [OF t _ _ _ this(2)] step show ?thesis by auto
  next
    case False
    with exec_extends [OF t step.hyps(2-4)] step.IH show ?thesis by blast
  qed
next
  case (resume st f files io cwd dir st')
  then obtain h es where "holds_tree st h es" "file_whole st" by blast
  from reopened [OF this resume.hyps(3-5), of files io cwd dir] resume.hyps(6,7) show ?case by auto
qed

end
