(* ===== verification/Session_Results.thy ===== *)
theory Session_Results
  imports Session_Props
begin

text \<open>
  What the session manager promises: walks end, a session file restores its session, an aborted turn leaves the
  context as it was, a compaction keeps what it says; and where it does not hold.
\<close>

section \<open>An example session\<close>

text \<open>Each call of the example draws ids that start with its own character.\<close>

definition ex_io :: "char \<Rightarrow> session_io" where
  "ex_io c = \<lparr>io_uuid = (\<lambda>n i. c # replicate n CHR ''x''), io_now = (\<lambda>n. ''t'')\<rparr>"

definition ex_user :: "string \<Rightarrow> session_message" where
  "ex_user t = LlmMessage (UserMessage (StrContent t) (JInt 0))"

definition ex_reply :: session_message where
  "ex_reply = LlmMessage (AssistantMessage \<lparr>am_content = [TextContent (JStr ''ok'') JNull], am_api = JNull,
     am_provider = JStr ''p'', am_model = JStr ''m'',
     am_usage = \<lparr>us_input = JInt 0, us_output = JInt 0, us_cache_read = JInt 0, us_cache_write = JInt 0,
       us_total_tokens = JInt 0, us_cost = \<lparr>uc_input = JInt 0, uc_output = JInt 0, uc_cache_read = JInt 0,
         uc_cache_write = JInt 0, uc_total = JInt 0\<rparr>\<rparr>,
     am_stop_reason = JStr ''aborted'', am_error_message = JNull, am_timestamp = JInt 0\<rparr>)"

definition ex_new :: session_state where
  "ex_new = snd (init_session (ex_io CHR ''s'') ''c'' ''d'' None True Map.empty)"

fun ex_run :: "(char \<times> sess_op) list \<Rightarrow> session_state \<Rightarrow> session_state" where
  "ex_run [] st = st"
| "ex_run ((c, op) # ops) st = ex_run ops (the (sess_exec (ex_io c) op st))"

definition ex_turn :: session_state where
  "ex_turn = ex_run [(CHR ''a'', OpMessage (ex_user ''hi'')), (CHR ''b'', OpMessage ex_reply)] ex_new"

lemma ex_reach_new: "session_reach whole ex_new"
proof (rule session_reach.start)
  show "init_session (ex_io CHR ''s'') ''c'' ''d'' None True Map.empty = (None, ex_new)"
    by (simp add: ex_new_def init_session_def Let_def)
qed (simp_all add: ex_io_def)

text \<open>A step of the example is a step of the session when its character is new and it makes no branched session.\<close>

lemma ex_reach_step:
  assumes "session_reach whole st" "op_ok op" "\<forall>l. op \<noteq> OpCreateBranched l" "[c] \<notin> used_ids st"
  shows "session_reach whole (the (sess_exec (ex_io c) op st))"
proof (rule session_reach.step [OF assms(1,2)])
  have "id_fresh (ex_io c) st" using assms(4) by (simp add: id_fresh_def dangling_def ex_io_def)
  then show "op_fresh (ex_io c) op st" using assms(3) by (cases op) auto
  show "sess_exec (ex_io c) op st = Some (the (sess_exec (ex_io c) op st))" using assms(3) by (cases op) auto
qed (use assms(3) in auto)

lemma ex_used:
  "used_ids st = set (map fst (ss_by_id st)) \<union> set (List.map_filter (\<lambda>e. se_parent_id (snd e)) (ss_by_id st))"
  by (force simp: used_ids_def List.map_filter_def)

lemma ex_by_id:
  "ss_by_id ex_new = []"
  "map fst (ss_by_id (ex_run [(CHR ''a'', OpMessage (ex_user ''hi''))] ex_new)) = [''a'']"
  "List.map_filter (\<lambda>e. se_parent_id (snd e)) (ss_by_id (ex_run [(CHR ''a'', OpMessage (ex_user ''hi''))] ex_new)) = []"
  by code_simp+

lemma ex_reach_turn: "session_reach whole ex_turn"
proof -
  have "session_reach whole (ex_run [(CHR ''a'', OpMessage (ex_user ''hi''))] ex_new)"
    using ex_reach_step [OF ex_reach_new, of "OpMessage (ex_user ''hi'')" "CHR ''a''"] by (simp add: ex_user_def ex_used ex_by_id List.map_filter_def)
  from ex_reach_step [OF this, of "OpMessage ex_reply" "CHR ''b''"] show ?thesis
    using ex_by_id(2,3) by (simp add: ex_turn_def ex_used ex_reply_def del: set_map map_map)
qed

section \<open>Termination\<close>

lemma get_branch_total:
  assumes "holds_tree st h es"
  shows "\<exists>path. get_branch from st = Some path"
proof -
  have by_id: "ss_by_id st = index_of es" "tree_ok es" using assms by (simp_all add: holds_tree_def)
  define start where "start = (case from of None \<Rightarrow> ss_leaf_id st | Some i \<Rightarrow> Some i)"
  have "\<exists>path. walk (index_of es) (if truthy start then map_of (index_of es) (the start) else None) [] = Some path"
  proof (cases "if truthy start then map_of (index_of es) (the start) else None")
    case None
    then show ?thesis by (simp add: walk.simps)
  next
    case (Some e)
    then have "e \<in> set es" using map_of_index by (auto split: if_splits)
    with walk_total [OF by_id(2)] Some show ?thesis by (metis (full_types))
  qed
  then show ?thesis unfolding get_branch_def Let_def by_id start_def .
qed

text \<open>The entry the context starts from, and the context of its path.\<close>

definition context_leaf :: "session_state \<Rightarrow> session_entry option" where
  "context_leaf st =
     (case (case ss_leaf_id st of None \<Rightarrow> None | Some i \<Rightarrow> map_of (ss_by_id st) i) of
        None \<Rightarrow> if get_entries st = [] then None else Some (last (get_entries st))
      | Some e \<Rightarrow> Some e)"

definition path_context :: "(string \<Rightarrow> json) \<Rightarrow> session_entry list \<Rightarrow> session_context" where
  "path_context pt path = \<lparr>sc_messages = path_messages pt path (ps_compaction (scan_path path)),
     sc_thinking_level = ps_thinking_level (scan_path path), sc_model = ps_model (scan_path path)\<rparr>"

lemma session_context_eq:
  "session_context_of pt st =
     (case context_leaf st of
        None \<Rightarrow> Some \<lparr>sc_messages = [], sc_thinking_level = ''off'', sc_model = None\<rparr>
      | Some e \<Rightarrow> map_option (path_context pt) (walk (ss_by_id st) (Some e) []))"
  unfolding session_context_of_def build_session_context_def context_leaf_def path_context_def Let_def
  by (simp add: map_conv_bind_option comp_def cong: option.case_cong)

lemma context_leaf_mem: "holds_tree st h es \<Longrightarrow> context_leaf st = Some e \<Longrightarrow> e \<in> set es"
  using map_of_index [of es]
  by (auto simp: context_leaf_def holds_tree_def get_entries_def split: option.splits if_splits)

text \<open>C17. Walks to the root end: in every reachable session, branched or resumed from its own file or not, \<open>get_branch\<close>
  returns from any starting point, the context of the model can be built, and \<open>createBranchedSession\<close> returns, with
  the new session or with its error for an unknown entry. Reachable is what the operations make of a new
  session when the drawn ids do not collide; a file written by hand is not covered (\<open>self_parent_loops\<close>), nor one that a branched
  session without a reply has doubled.\<close>

theorem session_walks_end:
  assumes "session_reach whole st"
  shows "(\<exists>path. get_branch start st = Some path) \<and> (\<exists>ctx. session_context_of pt st = Some ctx) \<and>
    (\<exists>r. create_branched_session io leaf st = Some r)"
proof -
  obtain h es where t: "holds_tree st h es" using assms reach_invariant by blast
  then have by_id: "ss_by_id st = index_of es" "tree_ok es" by (simp_all add: holds_tree_def)
  have "\<exists>ctx. session_context_of pt st = Some ctx"
  proof (cases "context_leaf st")
    case (Some e)
    with t have "e \<in> set es" by (rule context_leaf_mem)
    with walk_total [OF by_id(2)] obtain xs where "walk (index_of es) (Some e) [] = Some (xs @ [e])" by blast
    then show ?thesis by (simp add: session_context_eq Some by_id)
  qed (simp add: session_context_eq)
  moreover have "\<exists>r. create_branched_session io leaf st = Some r"
    using get_branch_total [OF t, of "Some leaf"] by (auto simp: create_branched_session_def Let_def split: prod.split)
  ultimately show ?thesis using get_branch_total [OF t] by blast
qed

theorem session_walks_end_witness:
  "(\<exists>path. get_branch None ex_turn = Some path) \<and> (\<exists>ctx. session_context_of JStr ex_turn = Some ctx) \<and>
   (\<exists>r. create_branched_session (ex_io CHR ''c'') ''b'' ex_turn = Some r)"
  using session_walks_end [OF ex_reach_turn] by blast

section \<open>Reopening a session\<close>

text \<open>C16. The file of a session restores it: once the assistant has replied, opening the file of a persisted session in a
  new session manager gives the same entries, the same indexes by id and by label and the same session id,
  with the last entry as the leaf. The session is any that starts new, runs the operations of the session
  manager and may be resumed from its own file in between, under these conditions: the drawn ids do not
  collide; the compactions carry JSON details, which those that \<open>compact\<close> itself makes do not (they are not
  saved at all); branched sessions are made of paths with a reply (\<open>branched_file_duplicates\<close> shows what
  happens to the others); messages hold the declared block kinds, and the bash messages no
  standard error, which is not stored (\<open>stderr_not_stored\<close>).\<close>

theorem reopen_restores:
  assumes "session_reach True st" "ss_persist st" "has_assistant (ss_file_entries st)"
  shows "\<exists>f st'. ss_session_file st = Some f \<and> init_session io cwd dir (Some f) True (ss_files st) = (None, st') \<and>
    ss_file_entries st' = ss_file_entries st \<and> ss_by_id st' = ss_by_id st \<and> ss_labels_by_id st' = ss_labels_by_id st \<and>
    ss_session_id st' = ss_session_id st \<and> ss_leaf_id st' = Some (se_id (last (get_entries st)))"
proof -
  obtain h es where t: "holds_tree st h es" and w: "file_whole st" using reach_invariant [OF assms(1)] by blast
  then obtain f where f: "ss_session_file st = Some f" using assms(2,3) by (auto simp: file_whole_def)
  from reopened [OF t w assms(2,3) f, of "ss_files st" io cwd dir] obtain st' where "init_session io cwd dir (Some f) True (ss_files st) = (None, st')"
    "holds_tree st' h es" "ss_leaf_id st' = Some (se_id (last es))"
    by blast
  with t f show ?thesis by (simp add: holds_tree_def get_entries_def)
qed

theorem reopen_restores_witness:
  "\<exists>f st'. ss_session_file ex_turn = Some f \<and>
    init_session (ex_io CHR ''z'') ''c'' ''d'' (Some f) True (ss_files ex_turn) = (None, st') \<and>
    ss_file_entries st' = ss_file_entries ex_turn \<and> ss_by_id st' = ss_by_id ex_turn \<and>
    ss_labels_by_id st' = ss_labels_by_id ex_turn \<and> ss_session_id st' = ss_session_id ex_turn \<and>
    ss_leaf_id st' = Some (se_id (last (get_entries ex_turn)))"
proof (rule reopen_restores [OF ex_reach_turn])
  show "ss_persist ex_turn" by code_simp
  show "has_assistant (ss_file_entries ex_turn)" by code_simp
qed

section \<open>Aborted turns\<close>

text \<open>What a turn appends: any operations but the making of a branched session.\<close>

fun turn_of :: "(session_io \<times> sess_op) list \<Rightarrow> session_state \<Rightarrow> session_state \<Rightarrow> bool" where
  "turn_of [] st st' = (st' = st)"
| "turn_of ((io, op) # ops) st st' =
     (op_ok op \<and> op_fresh io op st \<and> (\<forall>l. op \<noteq> OpCreateBranched l) \<and>
      (case sess_exec io op st of None \<Rightarrow> False | Some s \<Rightarrow> turn_of ops s st'))"

lemma turn_extends: "holds_tree st h es \<Longrightarrow> turn_of ops st st' \<Longrightarrow> \<exists>new. holds_tree st' h (es @ new)"
proof (induction ops arbitrary: st es)
  case Nil
  then show ?case by (auto intro: exI [of _ "[]"])
next
  case (Cons x ops)
  obtain io op where x: "x = (io, op)" by (cases x)
  with Cons.prems(2) obtain s where s: "op_ok op" "op_fresh io op st" "\<forall>l. op \<noteq> OpCreateBranched l"
    "sess_exec io op st = Some s" "turn_of ops s st'"
    by (auto split: option.splits)
  from exec_extends [OF Cons.prems(1) s(1,2,4,3)] obtain new where "holds_tree s h (es @ new)" by blast
  from Cons.IH [OF this s(5)] show ?case by auto
qed

text \<open>New entries do not change the walk from an old one.\<close>

lemma walk_extend:
  assumes "tree_ok (es @ new)" "i < length es"
  shows "walk (index_of (es @ new)) (Some (es ! i)) path = walk (index_of es) (Some (es ! i)) path"
  using assms(2)
proof (induction i arbitrary: path rule: less_induct)
  case (less i)
  let ?e = "es ! i"
  have old: "tree_ok es" by (rule tree_ok_subseq [OF assms(1)]) (simp add: prefix_imp_subseq)
  have later: "se_parent_id ?e \<noteq> Some (se_id n)" if mem: "n \<in> set new" for n
  proof
    assume "se_parent_id ?e = Some (se_id n)"
    moreover obtain j where "j < length new" "new ! j = n" using mem by (auto simp: in_set_conv_nth)
    ultimately have "length es + j < i"
      using ordered_nth [of "es @ new" i "length es + j"] assms(1) less.prems by (simp add: tree_ok_def nth_append)
    then show False using less.prems by simp
  qed
  have par: "parent_of (index_of (es @ new)) ?e = parent_of (index_of es) ?e"
  proof (cases "truthy (se_parent_id ?e)")
    case True
    then obtain p where p: "se_parent_id ?e = Some p" "p \<noteq> []" by (cases "se_parent_id ?e") auto
    have "map_of (index_of new) p = None"
      using later p(1) map_of_index [of new p] by (cases "map_of (index_of new) p") auto
    then show ?thesis by (simp add: parent_of_def p map_add_def split: option.split)
  qed (simp add: parent_of_def)
  show ?case
  proof (cases "parent_of (index_of es) ?e")
    case None
    then show ?thesis using par by (subst (1 2) walk.simps) (simp add: walk.simps)
  next
    case (Some p)
    then have "p \<in> set es" "se_parent_id ?e = Some (se_id p)"
      by (auto simp: parent_of_def truthy_def dest!: map_of_index split: if_splits option.splits)
    moreover from this(1) obtain j where j: "j < length es" "es ! j = p" by (auto simp: in_set_conv_nth)
    ultimately have "j < i" using old less.prems ordered_nth by (auto simp: tree_ok_def)
    from less.IH [OF this j(1), of "?e # path"] have
      "walk (index_of (es @ new)) (Some p) (?e # path) = walk (index_of es) (Some p) (?e # path)" by (simp only: j(2))
    then show ?thesis using par Some by (subst (1 2) walk.simps) simp
  qed
qed

text \<open>An aborted turn leaves no trace in the context: if the session had a leaf when the turn started, then whatever the
  turn appended or moved, rewinding gives the agent exactly the messages of the context before the turn.\<close>

theorem abort_restores_context:
  assumes "session_reach whole st" "ss_leaf_id st = Some pre" "turn_of ops st st'"
  shows "\<exists>ctx. session_context_of pt st = Some ctx \<and>
    abort_rewind pt (Some pre) st' = Some (st'\<lparr>ss_leaf_id := Some pre\<rparr>, sc_messages ctx)"
proof -
  obtain h es where t: "holds_tree st h es" using assms(1) reach_invariant by blast
  obtain new where t': "holds_tree st' h (es @ new)" using turn_extends [OF t assms(3)] by blast
  then have ok: "tree_ok (es @ new)" by (simp add: holds_tree_def)
  obtain i where i: "i < length es" "se_id (es ! i) = pre"
    using t assms(2) by (auto simp: holds_tree_def in_set_conv_nth)
  have dist: "distinct (map fst (index_of (es @ new)))" using ok by (simp add: tree_ok_def)
  have m: "map_of (index_of (es @ new)) pre = Some (es ! i)"
    by (rule map_of_is_SomeI [OF dist]) (use i in \<open>auto simp: index_of_def\<close>)
  have m0: "map_of (index_of es) pre = Some (es ! i)"
    by (rule map_of_is_SomeI) (use i dist in \<open>auto simp: index_of_def comp_def\<close>)
  have old: "tree_ok es" using t by (simp add: holds_tree_def)
  obtain path where path: "walk (index_of es) (Some (es ! i)) [] = Some path" using walk_returns [OF old i(1)] by blast
  then have path': "walk (index_of (es @ new)) (Some (es ! i)) [] = Some path"
    using walk_extend [OF ok i(1), of "[]"] by simp
  have "session_context_of pt st = Some (path_context pt path)"
    using t m0 path by (simp add: session_context_eq context_leaf_def assms(2) holds_tree_def)
  moreover have "session_context_of pt (st'\<lparr>ss_leaf_id := Some pre\<rparr>) = Some (path_context pt path)"
    using t' m path' by (simp add: session_context_eq context_leaf_def holds_tree_def)
  ultimately show ?thesis by (simp add: abort_rewind_def Let_def)
qed

definition ex_aborted :: session_state where
  "ex_aborted = ex_run [(CHR ''d'', OpMessage (ex_user ''again'')), (CHR ''e'', OpMessage ex_reply)] ex_turn"

theorem abort_restores_context_witness:
  "\<exists>ctx. session_context_of JStr ex_turn = Some ctx \<and>
    abort_rewind JStr (Some ''b'') ex_aborted = Some (ex_aborted\<lparr>ss_leaf_id := Some ''b''\<rparr>, sc_messages ctx)"
proof (rule abort_restores_context [OF ex_reach_turn])
  let ?one = "ex_run [(CHR ''d'', OpMessage (ex_user ''again''))] ex_turn"
  show "ss_leaf_id ex_turn = Some ''b''" by code_simp
  have ids: "map fst (ss_by_id ex_turn) = [''a'', ''b'']" "map fst (ss_by_id ?one) = [''a'', ''b'', ''d'']"
    "List.map_filter (\<lambda>e. se_parent_id (snd e)) (ss_by_id ex_turn) = [''a'']"
    "List.map_filter (\<lambda>e. se_parent_id (snd e)) (ss_by_id ?one) = [''a'', ''b'']"
    by code_simp+
  have fresh: "id_fresh (ex_io c) st" if "[c] \<notin> used_ids st" for c st
    using that by (simp add: id_fresh_def dangling_def ex_io_def)
  have "id_fresh (ex_io CHR ''d'') ex_turn" "id_fresh (ex_io CHR ''e'') ?one"
    by (rule fresh; simp only: ex_used ids; simp)+
  then show "turn_of [(ex_io CHR ''d'', OpMessage (ex_user ''again'')), (ex_io CHR ''e'', OpMessage ex_reply)] ex_turn ex_aborted"
    by (simp add: ex_aborted_def ex_user_def ex_reply_def)
qed

text \<open>The same rewind has no effect on a session that was empty before the turn: with no leaf to go back to,
  \<open>abort\<close> resets the leaf, but the context is then built from the last entry, so the agent keeps all
  messages of the aborted turn.\<close>

theorem abort_first_turn_keeps_messages:
  assumes "session_reach whole st" "get_entries st \<noteq> []" "ss_leaf_id st = Some (se_id (last (get_entries st)))"
  shows "\<exists>ctx. session_context_of pt st = Some ctx \<and> abort_rewind pt None st = Some (reset_leaf st, sc_messages ctx)"
proof -
  obtain h es where t: "holds_tree st h es" using assms(1) reach_invariant by blast
  then have es: "get_entries st = es" "ss_by_id st = index_of es" "tree_ok es" by (simp_all add: holds_tree_def get_entries_def)
  have "map_of (index_of es) (se_id (last es)) = Some (last es)"
    by (rule map_of_is_SomeI) (use assms(2) es in \<open>auto simp: index_of_def comp_def tree_ok_def\<close>)
  then have leaf: "context_leaf st = Some (last es)" "context_leaf (reset_leaf st) = Some (last es)"
    using assms(2,3) es by (simp_all add: context_leaf_def reset_leaf_def get_entries_def)
  obtain path where "walk (index_of es) (Some (last es)) [] = Some path"
    using walk_total [OF es(3), of "last es"] assms(2) es(1) by auto
  then show ?thesis using leaf es(2) by (simp add: abort_rewind_def session_context_eq reset_leaf_def)
qed

theorem abort_first_turn_keeps_messages_witness:
  "\<exists>ctx. session_context_of JStr ex_turn = Some ctx \<and> abort_rewind JStr None ex_turn = Some (reset_leaf ex_turn, sc_messages ctx) \<and>
    sc_messages ctx = [ex_user ''hi'', ex_reply]"
proof -
  have "get_entries ex_turn \<noteq> []" "ss_leaf_id ex_turn = Some (se_id (last (get_entries ex_turn)))" by code_simp+
  from abort_first_turn_keeps_messages [OF ex_reach_turn this, of JStr] obtain ctx where
    c: "session_context_of JStr ex_turn = Some ctx" "abort_rewind JStr None ex_turn = Some (reset_leaf ex_turn, sc_messages ctx)"
    by blast
  moreover have "map_option sc_messages (session_context_of JStr ex_turn) = Some [ex_user ''hi'', ex_reply]" by code_simp
  ultimately show ?thesis by simp
qed

section \<open>Compaction\<close>

lemma scan_compaction:
  assumes "\<forall>e \<in> set post. \<not> is_compaction (se_kind e)"
  shows "ps_compaction (fold scan_entry post s) = ps_compaction s"
  using assms
proof (induction post arbitrary: s)
  case (Cons e post)
  then have "ps_compaction (scan_entry e s) = ps_compaction s"
    by (auto simp: scan_entry_def split: entry_kind.split session_message.split pi_message.split)
  with Cons show ?case by simp
qed simp

text \<open>The context after a compaction: let the path to the leaf be the entries \<open>pre\<close>, then \<open>kept\<close>, then the last
  compaction on it, then \<open>post\<close>, with \<open>kept\<close> starting at the first kept entry the compaction names. Then
  the model sees the summary, the messages of \<open>kept\<close> and those of \<open>post\<close>, in this order, and nothing
  of \<open>pre\<close>.\<close>

theorem compaction_context:
  assumes "session_reach whole st" "get_branch None st = Some (pre @ kept @ c # post)"
    "se_kind c = Compaction summary first toks details hook" "\<forall>e \<in> set post. \<not> is_compaction (se_kind e)"
    "kept = [] \<or> se_id (hd kept) = first" "first \<notin> se_id ` set pre"
  shows "\<exists>ctx. session_context_of pt st = Some ctx \<and>
    sc_messages ctx = CompactionSummaryMessage summary toks (pt (se_timestamp c)) #
      concat (map (entry_message pt) (kept @ post))"
proof -
  obtain h es where t: "holds_tree st h es" using assms(1) reach_invariant by blast
  let ?path = "pre @ kept @ c # post"
  have by_id: "ss_by_id st = index_of es" using t by (simp add: holds_tree_def)
  have "distinct (map se_id ?path)"
    using tree_ok_subseq [OF _ branch_subseq [OF t assms(2)]] t by (simp add: holds_tree_def tree_ok_def)
  then have c: "\<forall>e \<in> set (pre @ kept). se_id e \<noteq> se_id c" by (auto simp: image_iff)
  obtain e where e: "map_of (index_of es) (the (ss_leaf_id st)) = Some e" "ss_leaf_id st \<noteq> None"
    "walk (index_of es) (Some e) [] = Some ?path"
  proof (cases "if truthy (ss_leaf_id st) then map_of (index_of es) (the (ss_leaf_id st)) else None")
    case None
    then have False using assms(2) unfolding get_branch_def by (auto simp: by_id walk.simps split: if_splits)
    then show ?thesis ..
  next
    case (Some e)
    then show ?thesis using that [of e] assms(2) unfolding get_branch_def by (auto simp: by_id truthy_def split: if_splits option.splits)
  qed
  have "ps_compaction (scan_path ?path) = Some c"
    using scan_compaction [OF assms(4)] assms(3) by (simp add: scan_path_def scan_entry_def)
  moreover have "takeWhile (\<lambda>e. \<not> (is_compaction (se_kind e) \<and> se_id e = se_id c)) ?path = pre @ kept"
    using c assms(3) takeWhile_append2 [of "pre @ kept" "\<lambda>e. \<not> (is_compaction (se_kind e) \<and> se_id e = se_id c)" "c # post"] by auto
  moreover have "dropWhile (\<lambda>e. se_id e \<noteq> first) (pre @ kept) = kept"
  proof -
    have "\<And>x. x \<in> set pre \<Longrightarrow> se_id x \<noteq> first" using assms(6) by blast
    then have "dropWhile (\<lambda>e. se_id e \<noteq> first) (pre @ kept) = dropWhile (\<lambda>e. se_id e \<noteq> first) kept" by (rule dropWhile_append2)
    also have "\<dots> = kept" using assms(5) by (cases kept) auto
    finally show ?thesis .
  qed
  moreover have "session_context_of pt st = Some (path_context pt ?path)"
    using e by (auto simp: session_context_eq context_leaf_def by_id)
  ultimately show ?thesis by (simp add: path_context_def path_messages_def assms(3))
qed

definition ex_compacted :: session_state where
  "ex_compacted = ex_run [(CHR ''d'', OpCompaction ''sum'' ''b'' (JInt 5) (JsonDetails JNull) JNull),
     (CHR ''e'', OpMessage (ex_user ''next''))] ex_turn"

theorem compaction_context_witness:
  "\<exists>ctx. session_context_of JStr ex_compacted = Some ctx \<and>
    sc_messages ctx = [CompactionSummaryMessage ''sum'' (JInt 5) (JStr ''t''), ex_reply, ex_user ''next'']"
proof -
  let ?one = "ex_run [(CHR ''d'', OpCompaction ''sum'' ''b'' (JInt 5) (JsonDetails JNull) JNull)] ex_turn"
  have ids: "map fst (ss_by_id ex_turn) = [''a'', ''b'']" "map fst (ss_by_id ?one) = [''a'', ''b'', ''d'']"
    "List.map_filter (\<lambda>e. se_parent_id (snd e)) (ss_by_id ex_turn) = [''a'']"
    "List.map_filter (\<lambda>e. se_parent_id (snd e)) (ss_by_id ?one) = [''a'', ''b'']"
    by code_simp+
  have "session_reach False ?one"
    using ex_reach_step [OF ex_reach_turn, of "OpCompaction ''sum'' ''b'' (JInt 5) (JsonDetails JNull) JNull" "CHR ''d''"]
    by (simp add: ex_used ids del: set_map)
  from ex_reach_step [OF this, of "OpMessage (ex_user ''next'')" "CHR ''e''"] have r: "session_reach False ex_compacted"
    using ids(2,4) by (simp add: ex_used ex_compacted_def ex_user_def del: set_map)
  let ?e = "\<lambda>i p k. \<lparr>se_id = i, se_parent_id = p, se_timestamp = ''t'', se_kind = k\<rparr>"
  let ?pre = "[?e ''a'' None (MessageEntry (ex_user ''hi''))]" and ?kept = "[?e ''b'' (Some ''a'') (MessageEntry ex_reply)]"
    and ?c = "?e ''d'' (Some ''b'') (Compaction ''sum'' ''b'' (JInt 5) (JsonDetails JNull) JNull)"
    and ?post = "[?e ''e'' (Some ''d'') (MessageEntry (ex_user ''next''))]"
  have "get_branch None ex_compacted = Some (?pre @ ?kept @ ?c # ?post)" by code_simp
  from compaction_context [OF r this, of "''sum''" "''b''" "JInt 5" "JsonDetails JNull" JNull JStr] show ?thesis by simp
qed

section \<open>Where sessions lose or repeat entries\<close>

definition ex_labelled :: session_state where
  "ex_labelled = ex_run [(CHR ''a'', OpMessage (ex_user ''hi'')), (CHR ''l'', OpLabel ''a'' (Some ''start'')),
     (CHR ''b'', OpMessage ex_reply)] ex_new"

lemma ex_reach_labelled: "session_reach whole ex_labelled"
proof -
  let ?a = "ex_run [(CHR ''a'', OpMessage (ex_user ''hi''))] ex_new"
  let ?l = "ex_run [(CHR ''a'', OpMessage (ex_user ''hi'')), (CHR ''l'', OpLabel ''a'' (Some ''start''))] ex_new"
  have ids: "map fst (ss_by_id ?l) = [''a'', ''l'']" "List.map_filter (\<lambda>e. se_parent_id (snd e)) (ss_by_id ?l) = [''a'']"
    by code_simp+
  have "session_reach whole ?a"
    using ex_reach_step [OF ex_reach_new, of "OpMessage (ex_user ''hi'')" "CHR ''a''"]
    by (simp add: ex_user_def ex_used ex_by_id List.map_filter_def)
  from ex_reach_step [OF this, of "OpLabel ''a'' (Some ''start'')" "CHR ''l''"] have "session_reach whole ?l"
    using ex_by_id(2,3) by (simp add: ex_used del: set_map)
  from ex_reach_step [OF this, of "OpMessage ex_reply" "CHR ''b''"] show ?thesis
    using ids by (simp add: ex_labelled_def ex_used ex_reply_def del: set_map)
qed

text \<open>A branched session can lose its history: the path it copies is stripped of label entries, but the entries that
  were children of a label keep it as their parent, so a walk stops at them. Here a user message
  was labelled and then answered; in the branched session the reply is the root and the model no longer sees
  the message.\<close>

theorem branched_session_loses_history:
  "session_reach True ex_labelled \<and> map_option (map se_id) (get_branch (Some ''b'') ex_labelled) = Some [''a'', ''l'', ''b''] \<and>
   map_option sc_messages (session_context_of JStr ex_labelled) = Some [ex_user ''hi'', ex_reply] \<and>
   (case create_branched_session (ex_io CHR ''k'') ''b'' ex_labelled of
      Some (Inr f, st') \<Rightarrow>
        map se_id (get_entries st') = [''a'', ''b'', ''kx''] \<and> map_option (map se_id) (get_branch None st') = Some [''b'', ''kx''] \<and>
        map_option sc_messages (session_context_of JStr st') = Some [ex_reply]
    | _ \<Rightarrow> False)"
proof (intro conjI)
  show "session_reach True ex_labelled" by (rule ex_reach_labelled)
qed code_simp+

definition ex_branched :: session_state where
  "ex_branched = ex_run [(CHR ''a'', OpMessage (ex_user ''hi'')), (CHR ''k'', OpCreateBranched ''a'')] ex_new"

text \<open>A branched session can be written twice: if the copied path has no reply of the assistant, the next entry that is
  not one marks the already written file as not flushed, and the first reply appends all entries
  again. The file then holds the header and the first message twice, and so does the session
  that is loaded from it.\<close>

theorem branched_file_duplicates:
  "(case (ss_session_file (ex_run [(CHR ''m'', OpMessage (ex_user ''more'')), (CHR ''n'', OpMessage ex_reply)] ex_branched),
     ex_run [(CHR ''m'', OpMessage (ex_user ''more'')), (CHR ''n'', OpMessage ex_reply)] ex_branched) of
      (Some f, st) \<Rightarrow>
        map se_id (get_entries st) = [''a'', ''m'', ''n''] \<and>
        map_option (\<lambda>ls. map se_id (entries_of (load_entries_from_file ls))) (ss_files st f) =
          Some [''a'', ''a'', ''m'', ''n'']
    | _ \<Rightarrow> False)"
  by code_simp

text \<open>A line of a version 2 file that holds a message with the role \<open>hookMessage\<close>.\<close>

definition hook_line :: "line \<Rightarrow> bool" where
  "hook_line d = (get_dflt d ''type'' JNull = JStr ''message'' \<and>
     (case get_dflt d ''message'' JNull of JObj m \<Rightarrow> get_dflt m ''role'' JNull = JStr ''hookMessage'' | _ \<Rightarrow> False))"

lemma get_dflt_found: "get_dflt d k v = x \<Longrightarrow> x \<noteq> v \<Longrightarrow> get_dflt d k w = x"
  by (auto simp: get_dflt_def split: option.splits)

lemma hook_line_skipped:
  assumes "hook_line d"
  shows "deserialize_entry d = None"
proof -
  obtain m where m: "get_dflt d ''message'' JNull = JObj m" "get_dflt m ''role'' JNull = JStr ''hookMessage''"
    "get_dflt d ''type'' JNull = JStr ''message''"
    using assms by (auto simp: hook_line_def split: json.splits)
  then have "get_dflt d ''type'' (JStr []) = JStr ''message''" "get_dflt d ''message'' (JObj []) = JObj m"
    "get_dflt m ''role'' (JStr []) = JStr ''hookMessage''"
    using get_dflt_found [OF m(1), of "JObj []"] get_dflt_found [OF m(2)] get_dflt_found [OF m(3)] by auto
  moreover from this m(2) have "deserialize_message_data m = None"
    by (simp add: deserialize_message_data_def deserialize_message_def)
  ultimately show ?thesis
    by (simp add: deserialize_entry_def deser_kind_def bind_eq_None_conv)
qed

text \<open>Opening a version 2 file deletes its hook messages: the migration is meant to turn them into custom messages, but
  they are skipped when the file is read, before the migration runs, and the migrated file is
  written back without them.\<close>

theorem hook_messages_deleted:
  assumes "serialize_entry (Header h) = Some hl" "hd_version h = Some 2" "hd_id h \<noteq> []" "list_all hook_line ds" "f \<noteq> []"
  shows "\<exists>st'. init_session io cwd dir (Some f) True (files(f \<mapsto> hl # ds)) = (None, st') \<and>
    get_entries st' = [] \<and> map_option length (ss_files st' f) = Some 1"
proof -
  have "storable (Header h)" by simp
  then have "deserialize_entry hl = Some (Header h)" using entry_roundtrip assms(1) by fastforce
  moreover have "List.map_filter deserialize_entry ds = []"
    using assms(4) hook_line_skipped by (induction ds) (simp_all add: List.map_filter_def)
  ultimately have "load_entries_from_file (hl # ds) = [Header h]"
    using assms(3) by (simp add: load_entries_from_file_def parse_session_entries_def List.map_filter_def)
  then show ?thesis
    using assms(2,5)
    by (simp add: init_session_def set_session_file_def migrate_to_current_version_def current_session_version_def
        rewrite_file_def build_index_def get_entries_def Let_def)
qed

definition ex_hook :: line where
  "ex_hook = [(''type'', JStr ''message''), (''id'', JStr ''q''),
     (''message'', JObj [(''role'', JStr ''hookMessage''), (''content'', JStr ''note'')])]"

theorem hook_messages_deleted_witness:
  "\<exists>st'. init_session (ex_io CHR ''z'') ''c'' ''d'' (Some ''f'') True
      [''f'' \<mapsto> [the (serialize_entry (Header (example_header\<lparr>hd_version := Some 2\<rparr>))), ex_hook]] = (None, st') \<and>
    get_entries st' = [] \<and> map_option length (ss_files st' ''f'') = Some 1"
  by (rule hook_messages_deleted [of "example_header\<lparr>hd_version := Some 2\<rparr>"])
    (simp_all add: example_header_def ex_hook_def hook_line_def)

text \<open>The walks rely on the order of the entries: with an entry that names itself as its parent, as a file may hold it, they
  do not return.\<close>

lemma self_parent_loops:
  assumes "se_parent_id e = Some (se_id e)" "se_id e \<noteq> []" "map_of by_id (se_id e) = Some e"
  shows "walk by_id (Some e) path = None"
proof -
  have self: "parent_of by_id e = Some e" using assms by (simp add: parent_of_def)
  have "\<not> (by_id' = by_id \<and> cur = Some e)" if "walk by_id' cur p = Some y" for by_id' cur p y
    by (rule walk.raw_induct [OF _ that, of "\<lambda>b c q z. \<not> (b = by_id \<and> c = Some e)"]) (force simp: self)
  then show ?thesis by (cases "walk by_id (Some e) path") auto
qed

end
