(* ===== verification/Compaction.thy ===== *)
theory Compaction
  imports Session_Results Py_Str "HOL-Library.List_Lexorder" "HOL-Library.Char_ord"
begin

text \<open>
  Context compaction of the Pi agent: \<^verbatim>\<open>src/src/pi/coding_agent/core/compaction/compaction.py\<close>, \<^verbatim>\<open>compaction/utils.py\<close>, and
  \<open>_check_compaction\<close> and \<open>_run_auto_compaction\<close> of \<^verbatim>\<open>agent_session.py\<close>.

  The entries are the session manager's, so the branches for entries that are dicts do not arise. Texts and
  names are strings, usage numbers integers and file names strings; Python's \<open>str\<close> of a dict, the
  overflow test on an error text and the model that writes the summaries are arguments.
\<close>

section \<open>Token estimates\<close>

record compaction_settings =
  cs_enabled :: bool
  cs_reserve_tokens :: int
  cs_keep_recent_tokens :: int

text \<open>What \<open>_get_message_from_entry\<close> returns: a message, or the stand-in for an entry that is not one.\<close>

datatype compact_msg = FullMsg session_message | SimpleMsg msg_content | SummaryMsg string string

fun num_of :: "json \<Rightarrow> int" where
  "num_of (JInt n) = n"
| "num_of _ = 0"

fun text_len :: "json \<Rightarrow> int" where
  "text_len (JStr s) = int (length s)"
| "text_len _ = 0"

definition calculate_context_tokens :: "usage \<Rightarrow> int" where
  "calculate_context_tokens u =
     (if num_of (us_total_tokens u) \<noteq> 0 then num_of (us_total_tokens u)
      else num_of (us_input u) + num_of (us_output u) + num_of (us_cache_read u) + num_of (us_cache_write u))"

fun get_assistant_usage :: "compact_msg \<Rightarrow> usage option" where
  "get_assistant_usage (FullMsg (LlmMessage (AssistantMessage m))) =
     (if am_stop_reason m \<in> {JStr ''aborted'', JStr ''error''} then None else Some (am_usage m))"
| "get_assistant_usage _ = None"

fun user_chars :: "msg_content \<Rightarrow> int" where
  "user_chars (StrContent t) = int (length t)"
| "user_chars (BlockContent bs) = sum_list (map (\<lambda>b. case b of TextContent t _ \<Rightarrow> text_len t | _ \<Rightarrow> 0) bs)"

fun assistant_chars :: "(json \<Rightarrow> string) \<Rightarrow> content_block \<Rightarrow> int" where
  "assistant_chars pystr (TextContent t _) = text_len t"
| "assistant_chars pystr (ThinkingContent t _) = text_len t"
| "assistant_chars pystr (ToolCall _ n args _) = text_len n + int (length (pystr args))"
| "assistant_chars pystr (ImageContent _ _) = 0"

fun result_chars :: "msg_content \<Rightarrow> int" where
  "result_chars (StrContent t) = int (length t)"
| "result_chars (BlockContent bs) =
     sum_list (map (\<lambda>b. case b of TextContent t _ \<Rightarrow> text_len t | ImageContent _ _ \<Rightarrow> 4800 | _ \<Rightarrow> 0) bs)"

fun estimate_chars :: "(json \<Rightarrow> string) \<Rightarrow> compact_msg \<Rightarrow> int" where
  "estimate_chars pystr (FullMsg (LlmMessage (UserMessage c _))) = user_chars c"
| "estimate_chars pystr (FullMsg (LlmMessage (AssistantMessage m))) = sum_list (map (assistant_chars pystr) (am_content m))"
| "estimate_chars pystr (FullMsg (LlmMessage (ToolResultMessage m))) = result_chars (BlockContent (tr_content m))"
| "estimate_chars pystr (FullMsg (CustomMessage _ c _ _ _)) = result_chars c"
| "estimate_chars pystr (FullMsg (BashMessage m)) = text_len (bm_command m) + text_len (bm_stdout m)"
| "estimate_chars pystr (FullMsg (BranchSummaryMessage s _ _)) = int (length s)"
| "estimate_chars pystr (FullMsg (CompactionSummaryMessage s _ _)) = int (length s)"
| "estimate_chars pystr (SimpleMsg c) = user_chars c"
| "estimate_chars pystr (SummaryMsg _ s) = int (length s)"

definition estimate_tokens :: "(json \<Rightarrow> string) \<Rightarrow> compact_msg \<Rightarrow> int" where
  "estimate_tokens pystr m = (estimate_chars pystr m + 3) div 4"

record usage_estimate =
  ue_tokens :: int
  ue_usage_tokens :: int
  ue_trailing_tokens :: int
  ue_last_usage_index :: "nat option"

definition get_last_assistant_usage_info :: "compact_msg list \<Rightarrow> (usage \<times> nat) option" where
  "get_last_assistant_usage_info ms =
     (case find (\<lambda>i. get_assistant_usage (ms ! i) \<noteq> None) (rev [0..<length ms]) of
        None \<Rightarrow> None
      | Some i \<Rightarrow> Some (the (get_assistant_usage (ms ! i)), i))"

definition estimate_context_tokens :: "(json \<Rightarrow> string) \<Rightarrow> compact_msg list \<Rightarrow> usage_estimate" where
  "estimate_context_tokens pystr ms =
     (case get_last_assistant_usage_info ms of
        None \<Rightarrow>
          let n = sum_list (map (estimate_tokens pystr) ms)
          in \<lparr>ue_tokens = n, ue_usage_tokens = 0, ue_trailing_tokens = n, ue_last_usage_index = None\<rparr>
      | Some (u, i) \<Rightarrow>
          let used = calculate_context_tokens u;
              trailing = sum_list (map (estimate_tokens pystr) (drop (Suc i) ms))
          in \<lparr>ue_tokens = used + trailing, ue_usage_tokens = used, ue_trailing_tokens = trailing,
              ue_last_usage_index = Some i\<rparr>)"

definition should_compact :: "int \<Rightarrow> int \<Rightarrow> compaction_settings \<Rightarrow> bool" where
  "should_compact context_tokens window s = (cs_enabled s \<and> context_tokens > window - cs_reserve_tokens s)"

section \<open>The cut point\<close>

fun is_message :: "entry_kind \<Rightarrow> bool" where
  "is_message (MessageEntry _) = True"
| "is_message _ = False"

fun valid_cut :: "entry_kind \<Rightarrow> bool" where
  "valid_cut (MessageEntry m) =
     (msg_role m \<in> {''bash_execution'', ''custom'', ''branch_summary'', ''compaction_summary'', ''user'', ''assistant''})"
| "valid_cut (BranchSummary _ _ _ _) = True"
| "valid_cut (CustomMessageEntry _ _ _ _) = True"
| "valid_cut _ = False"

definition find_valid_cut_points :: "session_entry list \<Rightarrow> nat \<Rightarrow> nat \<Rightarrow> nat list" where
  "find_valid_cut_points es start stop = filter (\<lambda>i. valid_cut (se_kind (es ! i))) [start..<stop]"

fun starts_turn :: "entry_kind \<Rightarrow> bool" where
  "starts_turn (MessageEntry m) = (msg_role m \<in> {''user'', ''bash_execution''})"
| "starts_turn (BranchSummary _ _ _ _) = True"
| "starts_turn (CustomMessageEntry _ _ _ _) = True"
| "starts_turn _ = False"

text \<open>\<open>None\<close> stands for the index \<open>-1\<close>.\<close>

definition find_turn_start_index :: "session_entry list \<Rightarrow> nat \<Rightarrow> nat \<Rightarrow> nat option" where
  "find_turn_start_index es i start = find (\<lambda>j. starts_turn (se_kind (es ! j))) (rev [start..<Suc i])"

text \<open>The index at which the messages from the end on reach the tokens to keep.\<close>

fun reach_keep :: "(json \<Rightarrow> string) \<Rightarrow> session_entry list \<Rightarrow> int \<Rightarrow> int \<Rightarrow> nat list \<Rightarrow> nat option" where
  "reach_keep pystr es keep acc [] = None"
| "reach_keep pystr es keep acc (i # is) =
     (case se_kind (es ! i) of
        MessageEntry m \<Rightarrow>
          let acc = acc + estimate_tokens pystr (FullMsg m)
          in if acc \<ge> keep then Some i else reach_keep pystr es keep acc is
      | _ \<Rightarrow> reach_keep pystr es keep acc is)"

text \<open>Settings and labels in front of the cut are kept with it.\<close>

fun scan_back :: "session_entry list \<Rightarrow> nat \<Rightarrow> nat \<Rightarrow> nat" where
  "scan_back es start 0 = 0"
| "scan_back es start (Suc i) =
     (if Suc i > start \<and> \<not> is_compaction (se_kind (es ! i)) \<and> \<not> is_message (se_kind (es ! i))
      then scan_back es start i else Suc i)"

record cut_point =
  cp_first_kept_entry_index :: nat
  cp_turn_start_index :: "nat option"
  cp_is_split_turn :: bool

definition find_cut_point :: "(json \<Rightarrow> string) \<Rightarrow> session_entry list \<Rightarrow> nat \<Rightarrow> nat \<Rightarrow> int \<Rightarrow> cut_point" where
  "find_cut_point pystr es start stop keep =
     (let cuts = find_valid_cut_points es start stop in
      if cuts = [] then \<lparr>cp_first_kept_entry_index = start, cp_turn_start_index = None, cp_is_split_turn = False\<rparr>
      else
        let cut = (case reach_keep pystr es keep 0 (rev [start..<stop]) of
                     None \<Rightarrow> hd cuts
                   | Some i \<Rightarrow> (case find (\<lambda>c. c \<ge> i) cuts of None \<Rightarrow> hd cuts | Some c \<Rightarrow> c));
            cut = scan_back es start cut;
            is_user = (case se_kind (es ! cut) of MessageEntry m \<Rightarrow> msg_role m = ''user'' | _ \<Rightarrow> False);
            turn = (if is_user then None else find_turn_start_index es cut start)
        in \<lparr>cp_first_kept_entry_index = cut, cp_turn_start_index = turn, cp_is_split_turn = (\<not> is_user \<and> turn \<noteq> None)\<rparr>)"

section \<open>Files named by tool calls\<close>

record file_ops =
  fo_read :: "string list"
  fo_written :: "string list"
  fo_edited :: "string list"

definition extract_block :: "content_block \<Rightarrow> file_ops \<Rightarrow> file_ops" where
  "extract_block b fo =
     (case b of
        ToolCall _ (JStr name) (JObj args) _ \<Rightarrow>
          (case get_dflt args ''path'' JNull of
             JStr p \<Rightarrow>
               if name = ''read'' then fo\<lparr>fo_read := List.insert p (fo_read fo)\<rparr>
               else if name = ''write'' then fo\<lparr>fo_written := List.insert p (fo_written fo)\<rparr>
               else if name = ''edit'' then fo\<lparr>fo_edited := List.insert p (fo_edited fo)\<rparr>
               else fo
           | _ \<Rightarrow> fo)
      | _ \<Rightarrow> fo)"

fun extract_file_ops_from_message :: "compact_msg \<Rightarrow> file_ops \<Rightarrow> file_ops" where
  "extract_file_ops_from_message (FullMsg (LlmMessage (AssistantMessage m))) fo = fold extract_block (am_content m) fo"
| "extract_file_ops_from_message _ fo = fo"

definition strings_in :: "json \<Rightarrow> string list" where
  "strings_in v = (case v of JList xs \<Rightarrow> List.map_filter as_str xs | _ \<Rightarrow> [])"

text \<open>The file lists of the previous compaction, unless an extension made it.\<close>

definition previous_ops :: "session_entry option \<Rightarrow> file_ops" where
  "previous_ops prev =
     (case map_option se_kind prev of
        Some (Compaction _ _ _ details hook) \<Rightarrow>
          if py_bool hook then \<lparr>fo_read = [], fo_written = [], fo_edited = []\<rparr>
          else (case details of
                  JsonDetails (JObj d) \<Rightarrow>
                    \<lparr>fo_read = strings_in (get_dflt d ''readFiles'' (JList [])), fo_written = [],
                     fo_edited = strings_in (get_dflt d ''modifiedFiles'' (JList []))\<rparr>
                | FileDetails r m \<Rightarrow> \<lparr>fo_read = r, fo_written = [], fo_edited = m\<rparr>
                | _ \<Rightarrow> \<lparr>fo_read = [], fo_written = [], fo_edited = []\<rparr>)
      | _ \<Rightarrow> \<lparr>fo_read = [], fo_written = [], fo_edited = []\<rparr>)"

definition compute_file_lists :: "file_ops \<Rightarrow> string list \<times> string list" where
  "compute_file_lists fo =
     (let modified = remdups (fo_edited fo @ fo_written fo)
      in (sort (filter (\<lambda>f. f \<notin> set modified) (remdups (fo_read fo))), sort modified))"

definition newline :: string where
  "newline = [CHR 0x0A]"

definition format_file_operations :: "string list \<Rightarrow> string list \<Rightarrow> string" where
  "format_file_operations r m =
     (let section = (\<lambda>tag fs. if fs = [] then [] else
            [''<'' @ tag @ ''>'' @ newline @ join_with newline fs @ newline @ ''</'' @ tag @ ''>'']);
          sections = section ''read-files'' r @ section ''modified-files'' m
      in if sections = [] then [] else newline @ newline @ join_with (newline @ newline) sections)"

section \<open>Preparing a compaction\<close>

definition get_message_from_entry :: "session_entry \<Rightarrow> compact_msg option" where
  "get_message_from_entry e =
     (case se_kind e of
        MessageEntry m \<Rightarrow> Some (FullMsg m)
      | CustomMessageEntry _ c _ _ \<Rightarrow> Some (SimpleMsg c)
      | BranchSummary _ s _ _ \<Rightarrow> Some (SummaryMsg ''branch_summary'' s)
      | Compaction s _ _ _ _ \<Rightarrow> Some (SummaryMsg ''compaction_summary'' s)
      | _ \<Rightarrow> None)"

definition messages_between :: "session_entry list \<Rightarrow> nat \<Rightarrow> nat \<Rightarrow> compact_msg list" where
  "messages_between es i j = List.map_filter (\<lambda>n. get_message_from_entry (es ! n)) [i..<j]"

record compaction_preparation =
  pr_first_kept_entry_id :: string
  pr_messages_to_summarize :: "compact_msg list"
  pr_turn_prefix_messages :: "compact_msg list"
  pr_is_split_turn :: bool
  pr_tokens_before :: int
  pr_file_ops :: file_ops
  pr_previous_summary :: "string option"

definition last_compaction_index :: "session_entry list \<Rightarrow> nat option" where
  "last_compaction_index es = find (\<lambda>i. is_compaction (se_kind (es ! i))) (rev [0..<length es])"

fun compaction_summary :: "entry_kind \<Rightarrow> string option" where
  "compaction_summary (Compaction s _ _ _ _) = Some s"
| "compaction_summary _ = None"

definition prepare_compaction :: "(json \<Rightarrow> string) \<Rightarrow> session_entry list \<Rightarrow> compaction_settings \<Rightarrow> compaction_preparation option" where
  "prepare_compaction pystr path settings =
     (if path = [] then None
      else if is_compaction (se_kind (last path)) then None
      else
        let prev = last_compaction_index path;
            start = (case prev of None \<Rightarrow> 0 | Some i \<Rightarrow> Suc i);
            stop = length path;
            tokens_before = ue_tokens (estimate_context_tokens pystr
              (messages_between path (case prev of None \<Rightarrow> 0 | Some i \<Rightarrow> i) stop));
            cut = find_cut_point pystr path start stop (cs_keep_recent_tokens settings);
            kept = cp_first_kept_entry_index cut
        in if se_id (path ! kept) = [] then None
           else
             let split = cp_is_split_turn cut;
                 history_end = (if split then the (cp_turn_start_index cut) else kept);
                 to_summarize = messages_between path start history_end;
                 prefix = (if split then messages_between path (the (cp_turn_start_index cut)) kept else []);
                 prev_entry = map_option (\<lambda>i. path ! i) prev
             in Some \<lparr>pr_first_kept_entry_id = se_id (path ! kept), pr_messages_to_summarize = to_summarize,
                  pr_turn_prefix_messages = prefix, pr_is_split_turn = split, pr_tokens_before = tokens_before,
                  pr_file_ops = fold extract_file_ops_from_message (to_summarize @ prefix) (previous_ops prev_entry),
                  pr_previous_summary = Option.bind prev_entry (\<lambda>e. compaction_summary (se_kind e))\<rparr>)"

section \<open>Compacting\<close>

record compaction_result =
  cr_summary :: string
  cr_first_kept :: string
  cr_tokens_before :: int
  cr_details :: compaction_details

text \<open>The summaries come from the model: \<open>gen\<close> for a history, with the previous summary, and \<open>gen_prefix\<close> for the prefix of
  a split turn; \<open>None\<close> is a failed call, which raises.\<close>

definition compact :: "(compact_msg list \<Rightarrow> string option \<Rightarrow> string option) \<Rightarrow> (compact_msg list \<Rightarrow> string option) \<Rightarrow>
    compaction_preparation \<Rightarrow> compaction_result option" where
  "compact gen gen_prefix p = do {
     summary \<leftarrow>
       (if pr_is_split_turn p \<and> pr_turn_prefix_messages p \<noteq> [] then do {
          history \<leftarrow> (if pr_messages_to_summarize p \<noteq> [] then gen (pr_messages_to_summarize p) (pr_previous_summary p)
                     else Some ''No prior history.'');
          prefix \<leftarrow> gen_prefix (pr_turn_prefix_messages p);
          Some (history @ newline @ newline @ ''---'' @ newline @ newline @ ''**Turn Context (split turn):**'' @
            newline @ newline @ prefix) }
        else gen (pr_messages_to_summarize p) (pr_previous_summary p));
     let (read_files, modified_files) = compute_file_lists (pr_file_ops p) in
     if pr_first_kept_entry_id p = [] then None
     else Some \<lparr>cr_summary = summary @ format_file_operations read_files modified_files,
            cr_first_kept = pr_first_kept_entry_id p, cr_tokens_before = pr_tokens_before p,
            cr_details = FileDetails read_files modified_files\<rparr> }"

text \<open>\<open>_run_auto_compaction\<close> from the path on. The answer of the extensions to \<open>session_before_compact\<close> and whether the
  compaction was aborted by the time the summary exists are arguments. Nothing to do, aborted, an exception, or
  the messages the agent is given.\<close>

datatype extension_answer = NoAnswer | CancelAnswer | CompactionAnswer compaction_result

datatype compaction_outcome = NothingToCompact | CompactionAborted | CompactionFailed | Compacted "session_message list"

definition run_auto_compaction :: "(string \<Rightarrow> json) \<Rightarrow> (json \<Rightarrow> string) \<Rightarrow> session_io \<Rightarrow>
    (compaction_preparation \<Rightarrow> compaction_result option) \<Rightarrow> extension_answer \<Rightarrow> bool \<Rightarrow> compaction_settings \<Rightarrow>
    session_state \<Rightarrow> (compaction_outcome \<times> session_state) option" where
  "run_auto_compaction pt pystr io run ext aborted settings st = do {
     path \<leftarrow> get_branch None st;
     case prepare_compaction pystr path settings of
       None \<Rightarrow> Some (NothingToCompact, st)
     | Some p \<Rightarrow>
         if ext = CancelAnswer then Some (CompactionAborted, st)
         else
           (case (case ext of CompactionAnswer r \<Rightarrow> Some r | _ \<Rightarrow> run p) of
              None \<Rightarrow> Some (CompactionFailed, st)
            | Some r \<Rightarrow>
                if aborted then Some (CompactionAborted, st)
                else
                  (case append_compaction io (cr_summary r) (cr_first_kept r) (JInt (cr_tokens_before r)) (cr_details r)
                      (JBool (ext \<noteq> NoAnswer)) st of
                     (Inl err, st') \<Rightarrow> Some (CompactionFailed, st')
                   | (Inr i, st') \<Rightarrow> do { ctx \<leftarrow> session_context_of pt st'; Some (Compacted (sc_messages ctx), st') })) }"

section \<open>When to compact\<close>

definition get_latest_compaction_entry :: "session_entry list \<Rightarrow> session_entry option" where
  "get_latest_compaction_entry es = find (\<lambda>e. is_compaction (se_kind e)) (rev es)"

datatype compaction_need = NoCompaction | OverflowCompaction | ThresholdCompaction

text \<open>\<open>_check_compaction\<close>: the provider and id of the current model, its window, and whether the message is an overflow;
  \<open>None\<close> is an exception. The message's timestamp is a number, an entry's a string.\<close>

definition check_compaction :: "compaction_settings \<Rightarrow> string \<Rightarrow> string \<Rightarrow> int \<Rightarrow> (assistant_message \<Rightarrow> bool) \<Rightarrow>
    bool \<Rightarrow> session_entry list \<Rightarrow> assistant_message \<Rightarrow> compaction_need option" where
  "check_compaction settings provider model_id window overflow skip_aborted path m =
     (if \<not> cs_enabled settings then Some NoCompaction
      else if skip_aborted \<and> am_stop_reason m = JStr ''aborted'' then Some NoCompaction
      else do {
        let same_model = (am_provider m = JStr provider \<and> am_model m = JStr model_id);
        before \<leftarrow> (case get_latest_compaction_entry path of
                     None \<Rightarrow> Some False
                   | Some c \<Rightarrow> py_less (am_timestamp m) (JStr (se_timestamp c)));
        Some (if same_model \<and> \<not> before \<and> overflow m then OverflowCompaction
              else if am_stop_reason m = JStr ''error'' then NoCompaction
              else if should_compact (calculate_context_tokens (am_usage m)) window settings then ThresholdCompaction
              else NoCompaction) })"

end
