(* ===== verification/Compaction_Props.thy ===== *)
theory Compaction_Props
  imports Compaction
begin

text \<open>
  What compaction keeps and what it loses: the messages since the last compaction are split between the summary and the
  context without loss, but a second compaction loses what the first had kept, and the entry of a
  compaction can not be saved.
\<close>

section \<open>The cut\<close>

lemma messages_between_append:
  assumes "i \<le> j" "j \<le> k"
  shows "messages_between es i k = messages_between es i j @ messages_between es j k"
proof -
  have "[i..<k] = [i..<j] @ [j..<k]" using assms by (metis le_add_diff_inverse upt_add_eq_append)
  then show ?thesis by (simp add: messages_between_def List.map_filter_def)
qed

lemma scan_back_bounds: "lo \<le> ct \<Longrightarrow> lo \<le> scan_back es lo ct \<and> scan_back es lo ct \<le> ct"
  by (induction ct) (auto split: if_splits)

lemma scan_back_skips: "scan_back es lo ct \<le> i \<Longrightarrow> i < ct \<Longrightarrow> \<not> is_message (se_kind (es ! i)) \<and> \<not> is_compaction (se_kind (es ! i))"
  by (induction ct) (auto split: if_splits simp: less_Suc_eq)

lemma find_mem: "find P xs = Some x \<Longrightarrow> x \<in> set xs \<and> P x"
  by (auto simp: find_Some_iff)

lemma find_cut_point_bounds:
  assumes "lo < hi" "find_cut_point pystr es lo hi keep = ct"
  shows "lo \<le> cp_first_kept_entry_index ct \<and> cp_first_kept_entry_index ct < hi \<and>
    (\<forall>t. cp_turn_start_index ct = Some t \<longrightarrow> lo \<le> t \<and> t \<le> cp_first_kept_entry_index ct) \<and>
    (cp_is_split_turn ct \<longrightarrow> cp_turn_start_index ct \<noteq> None)"
    and "find_valid_cut_points es lo hi \<noteq> [] \<Longrightarrow>
      \<exists>c. cp_first_kept_entry_index ct \<le> c \<and> c < hi \<and> valid_cut (se_kind (es ! c)) \<and>
        (\<forall>i. cp_first_kept_entry_index ct \<le> i \<and> i < c \<longrightarrow> \<not> is_message (se_kind (es ! i)))"
proof -
  define cuts where "cuts = find_valid_cut_points es lo hi"
  define c where "c = (case reach_keep pystr es keep 0 (rev [lo..<hi]) of None \<Rightarrow> hd cuts
      | Some i \<Rightarrow> (case find (\<lambda>c. c \<ge> i) cuts of None \<Rightarrow> hd cuts | Some c \<Rightarrow> c))"
  have c: "c \<in> set cuts" if "cuts \<noteq> []" using that by (auto simp: c_def split: option.split dest: find_mem)
  have mem: "lo \<le> x \<and> x < hi \<and> valid_cut (se_kind (es ! x))" if "x \<in> set cuts" for x
    using that by (auto simp: cuts_def find_valid_cut_points_def)
  have idx: "cp_first_kept_entry_index ct = (if cuts = [] then lo else scan_back es lo c)"
    and turn: "cp_turn_start_index ct \<in> {None, find_turn_start_index es (cp_first_kept_entry_index ct) lo}"
    and split: "cp_is_split_turn ct \<longrightarrow> cp_turn_start_index ct \<noteq> None"
    using assms(2) unfolding find_cut_point_def cuts_def [symmetric] c_def [symmetric] Let_def
    by (cases "cuts = []"; auto split: if_splits)+
  have kept: "lo \<le> cp_first_kept_entry_index ct \<and> cp_first_kept_entry_index ct < hi"
    using scan_back_bounds [of lo c es] c mem [of c] assms(1) by (auto simp: idx)
  moreover have "lo \<le> t \<and> t \<le> cp_first_kept_entry_index ct" if "cp_turn_start_index ct = Some t" for t
  proof -
    from turn that have "find (\<lambda>j. starts_turn (se_kind (es ! j))) (rev [lo..<Suc (cp_first_kept_entry_index ct)]) = Some t"
      unfolding find_turn_start_index_def by auto
    from find_mem [OF this] show ?thesis by auto
  qed
  ultimately show "lo \<le> cp_first_kept_entry_index ct \<and> cp_first_kept_entry_index ct < hi \<and>
    (\<forall>t. cp_turn_start_index ct = Some t \<longrightarrow> lo \<le> t \<and> t \<le> cp_first_kept_entry_index ct) \<and>
    (cp_is_split_turn ct \<longrightarrow> cp_turn_start_index ct \<noteq> None)" using split by blast
  assume "find_valid_cut_points es lo hi \<noteq> []"
  then have ne: "cuts \<noteq> []" by (simp add: cuts_def)
  with scan_back_bounds [of lo c es] scan_back_skips [of es lo c] c mem [of c] show
    "\<exists>c. cp_first_kept_entry_index ct \<le> c \<and> c < hi \<and> valid_cut (se_kind (es ! c)) \<and>
        (\<forall>i. cp_first_kept_entry_index ct \<le> i \<and> i < c \<longrightarrow> \<not> is_message (se_kind (es ! i)))"
    by (intro exI [of _ c]) (auto simp: idx)
qed

definition boundary_start :: "session_entry list \<Rightarrow> nat" where
  "boundary_start path = (case last_compaction_index path of None \<Rightarrow> 0 | Some i \<Rightarrow> Suc i)"

text \<open>A compaction splits the messages since the last one without loss: those handed to the summariser, those of the
  prefix of a split turn and those that stay in the context are, in this order, all messages since the
  last compaction. The kept part starts, after settings and labels, at an entry where a cut is allowed, never at
  a tool result, whose call would then be missing.\<close>

theorem compaction_partition:
  assumes "prepare_compaction pystr path settings = Some p"
  shows "\<exists>kept. boundary_start path \<le> kept \<and> kept < length path \<and> pr_first_kept_entry_id p = se_id (path ! kept) \<and>
    messages_between path (boundary_start path) (length path) =
      pr_messages_to_summarize p @ pr_turn_prefix_messages p @ messages_between path kept (length path) \<and>
    (find_valid_cut_points path (boundary_start path) (length path) \<noteq> [] \<longrightarrow>
       (\<exists>c. kept \<le> c \<and> c < length path \<and> valid_cut (se_kind (path ! c)) \<and>
          (\<forall>i. kept \<le> i \<and> i < c \<longrightarrow> \<not> is_message (se_kind (path ! i)))))"
proof -
  have path: "path \<noteq> []" "\<not> is_compaction (se_kind (last path))"
    using assms by (auto simp: prepare_compaction_def split: if_splits)
  have bs: "boundary_start path < length path"
  proof (cases "last_compaction_index path")
    case (Some i)
    then have "i < length path" "is_compaction (se_kind (path ! i))"
      by (auto simp: last_compaction_index_def dest: find_mem)
    moreover from this path have "i \<noteq> length path - 1" by (auto simp: last_conv_nth)
    ultimately show ?thesis by (simp add: boundary_start_def Some)
  qed (use path in \<open>simp add: boundary_start_def\<close>)
  define ct where "ct = find_cut_point pystr path (boundary_start path) (length path) (cs_keep_recent_tokens settings)"
  note b = find_cut_point_bounds [OF bs ct_def [symmetric]]
  define kept where "kept = cp_first_kept_entry_index ct"
  define mid where "mid = (if cp_is_split_turn ct then the (cp_turn_start_index ct) else kept)"
  have mid: "boundary_start path \<le> mid" "mid \<le> kept" "kept < length path"
    using b(1) by (auto simp: mid_def kept_def)
  have p: "pr_first_kept_entry_id p = se_id (path ! kept)"
    "pr_messages_to_summarize p = messages_between path (boundary_start path) mid"
    "pr_turn_prefix_messages p = messages_between path mid kept"
    using assms path
    by (auto simp: prepare_compaction_def Let_def boundary_start_def [symmetric] ct_def [symmetric] kept_def [symmetric]
        mid_def messages_between_def List.map_filter_def split: if_splits)
  have "messages_between path (boundary_start path) (length path) =
      messages_between path (boundary_start path) mid @ messages_between path mid kept @ messages_between path kept (length path)"
    using mid messages_between_append by (metis le_trans less_imp_le_nat)
  moreover note b(2) [folded kept_def]
  ultimately show ?thesis using p mid by (intro exI [of _ kept]) simp
qed

definition ex_settings :: compaction_settings where
  "ex_settings = \<lparr>cs_enabled = True, cs_reserve_tokens = 10, cs_keep_recent_tokens = 1\<rparr>"

text \<open>A session in memory in which the second user message is kept by a first compaction.\<close>

definition ex_memory :: session_state where
  "ex_memory = ex_run [(CHR ''a'', OpMessage (ex_user ''first'')), (CHR ''b'', OpMessage ex_reply),
     (CHR ''c'', OpMessage (ex_user ''remember''))] (snd (init_session (ex_io CHR ''s'') ''c'' ''d'' None False Map.empty))"

definition ex_gen :: "compact_msg list \<Rightarrow> string option \<Rightarrow> string option" where
  "ex_gen ms prev = Some ''S''"

definition ex_compact :: "char \<Rightarrow> session_state \<Rightarrow> (compaction_outcome \<times> session_state) option" where
  "ex_compact c st = run_auto_compaction JStr (\<lambda>_. []) (ex_io c) (compact ex_gen (\<lambda>_. Some ''P'')) NoAnswer False ex_settings st"

theorem compaction_partition_witness:
  "\<exists>kept. boundary_start (get_entries ex_memory) \<le> kept \<and> kept < length (get_entries ex_memory) \<and>
    messages_between (get_entries ex_memory) (boundary_start (get_entries ex_memory)) (length (get_entries ex_memory)) =
      [FullMsg (ex_user ''first''), FullMsg ex_reply] @ messages_between (get_entries ex_memory) kept (length (get_entries ex_memory))"
proof -
  let ?p = "prepare_compaction (\<lambda>_. []) (get_entries ex_memory) ex_settings"
  have "?p \<noteq> None" "map_option pr_messages_to_summarize ?p = Some [FullMsg (ex_user ''first''), FullMsg ex_reply]"
    "map_option pr_turn_prefix_messages ?p = Some []"
    by code_simp+
  then obtain p where p: "?p = Some p" "pr_messages_to_summarize p = [FullMsg (ex_user ''first''), FullMsg ex_reply]"
    "pr_turn_prefix_messages p = []" by auto
  from compaction_partition [OF p(1)] p(2,3) show ?thesis by auto
qed

section \<open>What compaction loses\<close>

definition messages_of :: "(compaction_outcome \<times> session_state) option \<Rightarrow> session_message list" where
  "messages_of r = (case r of Some (Compacted ms, st) \<Rightarrow> ms | _ \<Rightarrow> [])"

definition ex_once :: session_state where
  "ex_once = snd (the (ex_compact CHR ''d'' ex_memory))"

definition ex_twice :: session_state where
  "ex_twice = ex_run [(CHR ''e'', OpMessage ex_reply), (CHR ''f'', OpMessage (ex_user ''next''))] ex_once"

text \<open>A second compaction loses what the first one kept. Here the message \<open>remember\<close> is kept by the first compaction;
  after a reply and another message a second compaction is prepared from the entries after the first only,
  so \<open>remember\<close> is neither handed to the summariser nor kept: the model saw it before the second compaction
  and does not see it, or a summary of it, afterwards.\<close>

theorem second_compaction_drops_kept:
  "tl (messages_of (ex_compact CHR ''d'' ex_memory)) = [ex_user ''remember''] \<and>
   map_option (\<lambda>c. tl (sc_messages c)) (session_context_of JStr ex_twice) =
     Some [ex_user ''remember'', ex_reply, ex_user ''next''] \<and>
   map_option (\<lambda>p. (pr_messages_to_summarize p @ pr_turn_prefix_messages p, pr_previous_summary p))
       (Option.bind (get_branch None ex_twice) (\<lambda>path. prepare_compaction (\<lambda>_. []) path ex_settings)) =
     Some ([FullMsg ex_reply], Some ''S'') \<and>
   tl (messages_of (ex_compact CHR ''g'' ex_twice)) = [ex_user ''next'']"
  by (intro conjI; code_simp)

lemma compact_details: "compact gen gen_prefix p = Some r \<Longrightarrow> \<exists>a b. cr_details r = FileDetails a b"
  by (auto simp: compact_def Let_def split: bind_splits if_splits prod.splits)

text \<open>C34. A compaction can not be saved: \<open>compact\<close> returns its file lists as a \<open>CompactionDetails\<close> object, which \<open>json.dumps\<close>
  rejects. In a persisted session with a reply every compaction that is not made by an extension raises after
  the entry was added in memory and before it was written: the leaf is the compaction, the file does not have
  it, and whatever is appended next names a parent that the file lacks.\<close>

theorem compaction_not_saved:
  assumes "session_reach True st" "ss_persist st" "has_assistant (ss_file_entries st)" "id_fresh io st"
    and "get_branch None st = Some path" "prepare_compaction pystr path settings = Some p" "compact gen gen_prefix p = Some r"
  shows "\<exists>st' e. run_auto_compaction pt pystr io (compact gen gen_prefix) NoAnswer False settings st = Some (CompactionFailed, st') \<and>
    is_compaction (se_kind e) \<and> get_entries st' = get_entries st @ [e] \<and> ss_leaf_id st' = Some (se_id e) \<and>
    se_id e \<notin> se_id ` set (get_entries st) \<and> ss_files st' = ss_files st"
proof -
  obtain h es where t: "holds_tree st h es" and w: "file_whole st" using reach_invariant [OF assms(1)] by blast
  obtain f ls where f: "ss_session_file st = Some f" "f \<noteq> []" "ss_files st f = Some ls" "ss_flushed st"
    using w assms(2,3) by (auto simp: file_whole_def)
  obtain a b where d: "cr_details r = FileDetails a b" using compact_details [OF assms(7)] by blast
  define k where "k = Compaction (cr_summary r) (cr_first_kept r) (JInt (cr_tokens_before r)) (FileDetails a b) (JBool False)"
  define e where "e = new_entry io k st"
  have e: "serialize_entry (Entry e) = None" by (simp add: e_def k_def new_entry_def)
  have new: "se_id e \<notin> se_id ` set es" using new_entry_tree_ok(2) [OF t assms(4)] by (simp add: e_def)
  let ?st = "st\<lparr>ss_file_entries := ss_file_entries st @ [Entry e], ss_by_id := AList.update (se_id e) e (ss_by_id st),
      ss_leaf_id := Some (se_id e)\<rparr>"
  have has: "has_assistant (ss_file_entries st @ [Entry e])" using assms(3) by (simp add: has_assistant_def)
  have "append_entry e st = (Some SerializationError, ?st)"
    using assms(2) f e has fun_upd_triv [of "ss_files st" f]
    by (simp add: append_entry_def persist_entry_def append_lines_def)
  then have "append_new io k st = (Inl SerializationError, ?st)" by (simp add: append_new_def e_def [symmetric] Let_def)
  then have "run_auto_compaction pt pystr io (compact gen gen_prefix) NoAnswer False settings st = Some (CompactionFailed, ?st)"
    using assms(5-7) by (simp add: run_auto_compaction_def append_compaction_def d k_def)
  moreover have "is_compaction (se_kind e)" by (simp add: e_def k_def new_entry_def)
  moreover have "get_entries st = es" "get_entries ?st = es @ [e]" using t by (simp_all add: get_entries_def holds_tree_def)
  ultimately show ?thesis using new by (intro exI [of _ ?st] exI [of _ e]) simp
qed

definition ex_unsaved :: session_state where
  "ex_unsaved = ex_run [(CHR ''x'', OpMessage (ex_user ''next'')), (CHR ''y'', OpMessage ex_reply)]
     (snd (the (ex_compact CHR ''g'' ex_turn)))"

text \<open>At an example: the conversation goes on after the failed compaction, and when its file is opened again the model sees
  only what was said since, without the earlier messages and without the summary.\<close>

theorem compaction_not_saved_witness:
  "(\<exists>st' e. ex_compact CHR ''g'' ex_turn = Some (CompactionFailed, st') \<and> is_compaction (se_kind e) \<and>
      get_entries st' = get_entries ex_turn @ [e] \<and> ss_files st' = ss_files ex_turn) \<and>
   (case ss_session_file ex_unsaved of
      Some f \<Rightarrow> map_option sc_messages (session_context_of JStr
          (snd (init_session (ex_io CHR ''z'') ''c'' ''d'' (Some f) True (ss_files ex_unsaved)))) =
        Some [ex_user ''next'', ex_reply]
    | None \<Rightarrow> False)"
proof
  have ids: "map fst (ss_by_id ex_turn) = [''a'', ''b'']"
    "List.map_filter (\<lambda>e. se_parent_id (snd e)) (ss_by_id ex_turn) = [''a'']"
    by code_simp+
  have "id_fresh (ex_io CHR ''g'') ex_turn"
    by (simp add: id_fresh_def dangling_def ex_used ids ex_io_def del: set_map)
  moreover have "ss_persist ex_turn" "has_assistant (ss_file_entries ex_turn)" by code_simp+
  moreover obtain path p r where "get_branch None ex_turn = Some path" "prepare_compaction (\<lambda>_. []) path ex_settings = Some p"
    "compact ex_gen (\<lambda>_. Some ''P'') p = Some r"
  proof -
    have "Option.bind (Option.bind (get_branch None ex_turn) (\<lambda>path. prepare_compaction (\<lambda>_. []) path ex_settings))
        (compact ex_gen (\<lambda>_. Some ''P'')) \<noteq> None"
      by code_simp
    then show ?thesis using that by (auto simp: bind_eq_Some_conv)
  qed
  ultimately show "\<exists>st' e. ex_compact CHR ''g'' ex_turn = Some (CompactionFailed, st') \<and> is_compaction (se_kind e) \<and>
      get_entries st' = get_entries ex_turn @ [e] \<and> ss_files st' = ss_files ex_turn"
    unfolding ex_compact_def using compaction_not_saved [OF ex_reach_turn] by blast
next
  show "case ss_session_file ex_unsaved of
      Some f \<Rightarrow> map_option sc_messages (session_context_of JStr
          (snd (init_session (ex_io CHR ''z'') ''c'' ''d'' (Some f) True (ss_files ex_unsaved)))) =
        Some [ex_user ''next'', ex_reply]
    | None \<Rightarrow> False"
    by code_simp
qed

text \<open>Once there is a compaction on the path, the automatic check compares the number that is the message's timestamp with
  the text that is the entry's, and raises: it never asks for a compaction again.\<close>

lemma check_after_compaction_raises:
  assumes "cs_enabled settings" "am_stop_reason m \<noteq> JStr ''aborted''" "am_timestamp m = JFloat t" "c \<in> set path" "is_compaction (se_kind c)"
  shows "check_compaction settings provider model_id window overflow skip path m = None"
proof -
  have "\<exists>c'. get_latest_compaction_entry path = Some c'"
    using assms(4,5) by (cases "get_latest_compaction_entry path") (auto simp: get_latest_compaction_entry_def find_None_iff)
  then show ?thesis using assms by (auto simp: check_compaction_def)
qed

end
