(* ===== verification/Py_Path.thy ===== *)
theory Py_Path
  imports Py_Str "HOL-Library.Sublist"
begin

text \<open>
  The part of \<open>pathlib.PurePosixPath\<close> and \<open>os.path\<close> the sandbox code uses: a path is its root and its
  parts, the parts never being empty or a single dot. Two leading slashes are a root of their own,
  three or more count as one.
\<close>

datatype pure_path = PurePath (pp_root: string) (pp_parts: "string list")

definition root_of :: "string \<Rightarrow> string" where
  "root_of s =
     (if is_prefix_of ''//'' s \<and> \<not> is_prefix_of ''///'' s then ''//''
      else if is_prefix_of ''/'' s then ''/'' else '''')"

definition path_of :: "string \<Rightarrow> pure_path" where
  "path_of s = PurePath (root_of s) (filter (\<lambda>p. p \<noteq> '''' \<and> p \<noteq> ''.'') (split_at CHR ''/'' s))"

definition path_str :: "pure_path \<Rightarrow> string" where
  "path_str p =
     (if pp_root p = '''' \<and> pp_parts p = [] then ''.'' else pp_root p @ join_with ''/'' (pp_parts p))"

text \<open>\<open>p / s\<close>, for a path on the right and for a string.\<close>

definition path_div :: "pure_path \<Rightarrow> pure_path \<Rightarrow> pure_path" where
  "path_div p q = (if pp_root q \<noteq> '''' then q else PurePath (pp_root p) (pp_parts p @ pp_parts q))"

definition path_join :: "pure_path \<Rightarrow> string \<Rightarrow> pure_path" where
  "path_join p s = path_div p (path_of s)"

text \<open>\<open>p.name\<close> and \<open>p.parts\<close>\<close>

definition path_name :: "pure_path \<Rightarrow> string" where
  "path_name p = (if pp_parts p = [] then '''' else last (pp_parts p))"

definition path_parts :: "pure_path \<Rightarrow> string list" where
  "path_parts p = (if pp_root p = '''' then pp_parts p else pp_root p # pp_parts p)"

text \<open>\<open>p.relative_to(q)\<close>, \<open>None\<close> for the \<open>ValueError\<close>.\<close>

definition relative_to :: "pure_path \<Rightarrow> pure_path \<Rightarrow> pure_path option" where
  "relative_to p q =
     (if pp_root p = pp_root q \<and> prefix (pp_parts q) (pp_parts p)
      then Some (PurePath '''' (drop (length (pp_parts q)) (pp_parts p))) else None)"

text \<open>\<open>os.path.normpath(s)\<close> and \<open>os.path.basename(s)\<close>\<close>

definition norm_step :: "bool \<Rightarrow> string \<Rightarrow> string list \<Rightarrow> string list" where
  "norm_step rooted c acc =
     (if c = '''' \<or> c = ''.'' then acc
      else if c \<noteq> ''..'' \<or> (\<not> rooted \<and> acc = []) \<or> (acc \<noteq> [] \<and> last acc = ''..'') then acc @ [c]
      else if acc \<noteq> [] then butlast acc else acc)"

definition norm_parts :: "string \<Rightarrow> string list" where
  "norm_parts s = fold (norm_step (root_of s \<noteq> '''')) (split_at CHR ''/'' s) []"

definition normpath :: "string \<Rightarrow> string" where
  "normpath s =
     (if s = '''' then ''.''
      else let p = root_of s @ join_with ''/'' (norm_parts s) in if p = '''' then ''.'' else p)"

definition basename :: "string \<Rightarrow> string" where
  "basename s = last (split_at CHR ''/'' s)"

section \<open>Reading back a printed path\<close>

definition part_ok :: "string \<Rightarrow> bool" where
  "part_ok p = (p \<noteq> '''' \<and> p \<noteq> ''.'' \<and> CHR ''/'' \<notin> set p)"

definition path_ok :: "pure_path \<Rightarrow> bool" where
  "path_ok p = (pp_root p \<in> {'''', ''/'', ''//''} \<and> list_all part_ok (pp_parts p))"

lemma split_at_parts: "x \<in> set (split_at c s) \<Longrightarrow> c \<notin> set x"
  by (induction s arbitrary: x) (auto split: if_splits list.splits)

lemma path_of_ok [simp]: "path_ok (path_of s)"
  by (auto simp: path_ok_def path_of_def root_of_def list_all_iff part_ok_def dest: split_at_parts)

lemma path_div_ok [simp]: "path_ok p \<Longrightarrow> path_ok q \<Longrightarrow> path_ok (path_div p q)"
  by (auto simp: path_ok_def path_div_def)

lemma path_join_ok [simp]: "path_ok p \<Longrightarrow> path_ok (path_join p s)"
  by (simp add: path_join_def)

lemma list_all_drop: "list_all P xs \<Longrightarrow> list_all P (drop n xs)"
  by (metis append_take_drop_id list_all_append)

lemma relative_to_ok: "path_ok p \<Longrightarrow> relative_to p q = Some r \<Longrightarrow> path_ok r \<and> pp_root r = ''''"
  by (auto simp: path_ok_def relative_to_def list_all_drop split: if_splits)

text \<open>Joining back a relative path restores the path it was taken from.\<close>

lemma relative_to_join: "relative_to p q = Some r \<Longrightarrow> path_div q r = p"
  by (cases p; cases q) (auto simp: relative_to_def path_div_def prefix_def split: if_splits)

lemma join_with_no_slash:
  "list_all part_ok ps \<Longrightarrow> ps \<noteq> [] \<Longrightarrow> \<exists>c cs. join_with ''/'' ps = c # cs \<and> c \<noteq> CHR ''/''"
  by (cases ps; cases "hd ps") (auto simp: join_with_def part_ok_def)

lemma root_of_join:
  assumes "list_all part_ok ps" and "r \<in> {'''', ''/'', ''//''}"
  shows "root_of (r @ join_with ''/'' ps) = r"
proof (cases "ps = []")
  case True
  then show ?thesis using assms(2) by (auto simp: join_with_def root_of_def)
next
  case False
  then obtain c cs where "join_with ''/'' ps = c # cs" "c \<noteq> CHR ''/''"
    using join_with_no_slash assms(1) by blast
  then show ?thesis using assms(2) by (auto simp: root_of_def)
qed

lemma parts_of_join:
  assumes "list_all part_ok ps" and "r \<in> {'''', ''/'', ''//''}"
  shows "filter (\<lambda>p. p \<noteq> '''' \<and> p \<noteq> ''.'') (split_at CHR ''/'' (r @ join_with ''/'' ps)) = ps"
proof -
  let ?f = "filter (\<lambda>p. p \<noteq> '''' \<and> p \<noteq> ''.'')"
  have ps: "?f ps = ps" using assms(1) by (simp add: filter_id_conv list_all_iff part_ok_def)
  have "?f (split_at CHR ''/'' (join_with ''/'' ps)) = ps"
  proof (cases "ps = []")
    case False
    then have "split_at CHR ''/'' (join_with ''/'' ps) = ps"
      using assms(1) by (intro split_at_join) (auto simp: list_all_iff part_ok_def)
    then show ?thesis using ps by simp
  qed (simp add: join_with_def)
  then show ?thesis using assms(2) by auto
qed

lemma path_of_join:
  "list_all part_ok ps \<Longrightarrow> r \<in> {'''', ''/'', ''//''} \<Longrightarrow> path_of (r @ join_with ''/'' ps) = PurePath r ps"
  unfolding path_of_def using root_of_join parts_of_join by simp

lemma path_of_str: "path_ok p \<Longrightarrow> path_of (path_str p) = p"
proof (cases "pp_root p = '''' \<and> pp_parts p = []")
  case True
  then show ?thesis by (cases p) (simp add: path_str_def path_of_def root_of_def)
next
  case False
  assume "path_ok p"
  then show ?thesis using False by (cases p) (auto simp: path_str_def path_ok_def path_of_join)
qed

lemma path_str_inject: "path_ok p \<Longrightarrow> path_ok q \<Longrightarrow> path_str p = path_str q \<longleftrightarrow> p = q"
  using path_of_str by metis

section \<open>Normalised paths\<close>

lemma norm_fold_ok:
  "list_all part_ok acc \<Longrightarrow> \<forall>c \<in> set cs. CHR ''/'' \<notin> set c \<Longrightarrow> list_all part_ok (fold (norm_step r) cs acc)"
proof (induction cs arbitrary: acc)
  case (Cons c cs)
  have "list_all part_ok (norm_step r c acc)"
    using Cons.prems by (auto simp: norm_step_def part_ok_def list_all_iff dest: in_set_butlastD)
  then show ?case using Cons by simp
qed simp

lemma norm_parts_ok: "list_all part_ok (norm_parts s)"
  unfolding norm_parts_def by (rule norm_fold_ok) (auto dest: split_at_parts)

text \<open>A rooted path has no \<open>..\<close> left after normalisation: it cannot climb out of anything.\<close>

lemma norm_fold_rooted: "''..'' \<notin> set acc \<Longrightarrow> ''..'' \<notin> set (fold (norm_step True) cs acc)"
proof (induction cs arbitrary: acc)
  case (Cons c cs)
  have "last acc \<noteq> ''..''" if "acc \<noteq> []" using Cons.prems last_in_set [OF that] by metis
  then have "''..'' \<notin> set (norm_step True c acc)"
    using Cons.prems by (auto simp: norm_step_def dest: in_set_butlastD)
  then show ?case using Cons.IH by simp
qed simp

lemma norm_parts_rooted: "root_of s \<noteq> '''' \<Longrightarrow> ''..'' \<notin> set (norm_parts s)"
  unfolding norm_parts_def using norm_fold_rooted [of "[]"] by simp

lemma path_of_normpath: "path_of (normpath s) = PurePath (root_of s) (norm_parts s)"
proof -
  have root: "root_of s \<in> {'''', ''/'', ''//''}" by (simp add: root_of_def)
  show ?thesis
  proof (cases "s = '''' \<or> root_of s @ join_with ''/'' (norm_parts s) = ''''")
    case True
    then have "root_of s = ''''" by (cases "s = ''''") (simp add: root_of_def, simp)
    moreover have "norm_parts s = []"
    proof (rule ccontr)
      assume "norm_parts s \<noteq> []"
      moreover from this have "s \<noteq> ''''" by (auto simp: norm_parts_def norm_step_def)
      ultimately show False using True join_with_no_slash [OF norm_parts_ok] by fastforce
    qed
    moreover have "normpath s = ''.''" using True by (auto simp: normpath_def)
    ultimately show ?thesis by (simp add: path_of_def root_of_def)
  next
    case False
    then have "normpath s = root_of s @ join_with ''/'' (norm_parts s)"
      by (simp add: normpath_def Let_def)
    then show ?thesis using path_of_join [OF norm_parts_ok root] by simp
  qed
qed

text \<open>A path whose parts are clean and free of \<open>..\<close> is already normal.\<close>

lemma norm_fold_clean:
  "list_all part_ok cs \<Longrightarrow> ''..'' \<notin> set cs \<Longrightarrow> fold (norm_step r) cs acc = acc @ cs"
  by (induction cs arbitrary: acc) (auto simp: norm_step_def part_ok_def)

lemma norm_fold_filter:
  "fold (norm_step r) cs acc = fold (norm_step r) (filter (\<lambda>p. p \<noteq> '''' \<and> p \<noteq> ''.'') cs) acc"
  by (induction cs arbitrary: acc) (auto simp: norm_step_def)

lemma norm_parts_path_of: "''..'' \<notin> set (pp_parts (path_of s)) \<Longrightarrow> norm_parts s = pp_parts (path_of s)"
proof -
  assume *: "''..'' \<notin> set (pp_parts (path_of s))"
  have "list_all part_ok (pp_parts (path_of s))" using path_of_ok [of s] by (simp add: path_ok_def)
  then show ?thesis
    using * norm_fold_clean [of "pp_parts (path_of s)" _ "[]"]
    by (subst norm_parts_def, subst norm_fold_filter) (simp add: path_of_def)
qed

end
