(* ===== verification/Mount_Security.thy ===== *)
theory Mount_Security
  imports Py_Path Core_Types
begin

text \<open>
  The mount allowlist of \<^verbatim>\<open>src/src/rolemesh/security/mount_security.py\<close>: loading it once per process,
  the blocked patterns, the allowed roots and the validation of the mounts a coworker asks for.

  The allowlist file is what the process finds on disk when it first looks: nothing, a read error,
  text that is not JSON, or a JSON value. The file system is a pair of functions, the expansion and
  resolution of a path and the strict resolution that follows every link and fails on a missing
  file. The values of the allowlist are kept as the JSON values the file has, since the loader
  converts none of them; an exception that leaves a function is the left of a sum. A reason is the
  arguments of its message, less the list of roots in the one for a path under none of them.
\<close>

section \<open>Data\<close>

record allowed_root =
  ar_path :: json
  ar_allow_read_write :: json
  ar_description :: json

record mount_allowlist =
  al_allowed_roots :: "allowed_root list"
  al_blocked_patterns :: "json list"
  al_non_main_read_only :: bool

datatype allowlist_file = NoFile | ReadFails string | NotJson string | Holds json

datatype load_error =
    NotFound
  | OSFailure string
  | JsonDecode string
  | AllowedRootsNotArray
  | BlockedPatternsNotArray
  | NonMainReadOnlyNotBool
  | RootNotSubscriptable
  | RootPathMissing
  | PatternUnhashable

datatype mount_exn = NoGetAttribute | NotAString

record mount_cache =
  mc_allowlist :: "mount_allowlist option"
  mc_load_error :: "load_error option"

record host_fs =
  fs_expand :: "string \<Rightarrow> pure_path"
  fs_real :: "pure_path \<Rightarrow> pure_path option"

datatype mount_reason =
    NoAllowlist
  | InvalidContainerPath string
  | HostPathMissing string pure_path
  | MatchesBlocked json pure_path
  | UnderNoRoot pure_path
  | AllowedUnder json json

record mount_validation =
  mv_allowed :: bool
  mv_reason :: mount_reason
  mv_real_host_path :: "string option"
  mv_container_path :: "string option"
  mv_readonly :: "bool option"

record validated_mount =
  vm_host :: string
  vm_container :: string
  vm_ro :: bool

definition default_blocked_patterns :: "string list" where
  "default_blocked_patterns =
     [''.ssh'', ''.gnupg'', ''.gpg'', ''.aws'', ''.azure'', ''.gcloud'', ''.kube'', ''.docker'',
      ''credentials'', ''.env'', ''.netrc'', ''.npmrc'', ''.pypirc'', ''id_rsa'', ''id_ed25519'',
      ''private_key'', ''.secret'']"

section \<open>Loading the allowlist\<close>

definition parse_root :: "json \<Rightarrow> load_error + allowed_root" where
  "parse_root r =
     (case r of
        JObj d \<Rightarrow>
          (case obj_get d ''path'' of
             None \<Rightarrow> Inl RootPathMissing
           | Some p \<Rightarrow> Inr \<lparr>ar_path = p, ar_allow_read_write = get_or d ''allowReadWrite'' (JBool False),
                            ar_description = get_or d ''description'' JNull\<rparr>)
      | _ \<Rightarrow> Inl RootNotSubscriptable)"

fun parse_roots :: "json list \<Rightarrow> load_error + allowed_root list" where
  "parse_roots [] = Inr []"
| "parse_roots (r # rs) =
     (case parse_root r of
        Inl e \<Rightarrow> Inl e
      | Inr a \<Rightarrow> (case parse_roots rs of Inl e \<Rightarrow> Inl e | Inr as \<Rightarrow> Inr (a # as)))"

fun hashable :: "json \<Rightarrow> bool" where
  "hashable (JList _) = False"
| "hashable (JObj _) = False"
| "hashable _ = True"

text \<open>\<open>list(dict.fromkeys(xs))\<close>: the first of every group of equal elements.\<close>

definition dedup_keys :: "json list \<Rightarrow> json list" where
  "dedup_keys xs = fold (\<lambda>x acc. if py_in_list x acc then acc else acc @ [x]) xs []"

definition parse_allowlist :: "(string \<times> json) list \<Rightarrow> load_error + mount_allowlist" where
  "parse_allowlist d =
     (case obj_get d ''allowedRoots'' of
        Some (JList roots) \<Rightarrow>
          (case obj_get d ''blockedPatterns'' of
             Some (JList pats) \<Rightarrow>
               (case obj_get d ''nonMainReadOnly'' of
                  Some (JBool ro) \<Rightarrow>
                    (case parse_roots roots of
                       Inl e \<Rightarrow> Inl e
                     | Inr rs \<Rightarrow>
                         if list_all hashable pats
                         then Inr \<lparr>al_allowed_roots = rs,
                                   al_blocked_patterns = dedup_keys (map JStr default_blocked_patterns @ pats),
                                   al_non_main_read_only = ro\<rparr>
                         else Inl PatternUnhashable)
                | _ \<Rightarrow> Inl NonMainReadOnlyNotBool)
           | _ \<Rightarrow> Inl BlockedPatternsNotArray)
      | _ \<Rightarrow> Inl AllowedRootsNotArray)"

text \<open>
  The exceptions the loader catches become the remembered load error; the missing \<open>get\<close> of a
  top-level value that is not an object is none of them.
\<close>

definition load_mount_allowlist ::
  "allowlist_file \<Rightarrow> mount_cache \<Rightarrow> (mount_exn + mount_allowlist option) \<times> mount_cache" where
  "load_mount_allowlist file c =
     (case (mc_allowlist c, mc_load_error c) of
        (Some al, _) \<Rightarrow> (Inr (Some al), c)
      | (None, Some _) \<Rightarrow> (Inr None, c)
      | (None, None) \<Rightarrow>
          (let failed = (\<lambda>e. (Inr None, c\<lparr>mc_load_error := Some e\<rparr>)) in
           case file of
             NoFile \<Rightarrow> failed NotFound
           | ReadFails msg \<Rightarrow> failed (OSFailure msg)
           | NotJson msg \<Rightarrow> failed (JsonDecode msg)
           | Holds (JObj d) \<Rightarrow>
               (case parse_allowlist d of
                  Inl e \<Rightarrow> failed e
                | Inr al \<Rightarrow> (Inr (Some al), c\<lparr>mc_allowlist := Some al\<rparr>))
           | Holds _ \<Rightarrow> (Inl NoGetAttribute, c)))"

definition reset_cache :: "mount_cache \<Rightarrow> mount_cache" where
  "reset_cache c = c\<lparr>mc_allowlist := None, mc_load_error := None\<rparr>"

section \<open>The checks\<close>

definition expand_path :: "host_fs \<Rightarrow> json \<Rightarrow> mount_exn + pure_path" where
  "expand_path fs j = (case j of JStr s \<Rightarrow> Inr (fs_expand fs s) | _ \<Rightarrow> Inl NotAString)"

fun matches_blocked_pattern :: "pure_path \<Rightarrow> json list \<Rightarrow> mount_exn + json option" where
  "matches_blocked_pattern p [] = Inr None"
| "matches_blocked_pattern p (JStr pat # pats) =
     (if (\<exists>part \<in> set (path_parts p). part = pat \<or> is_substr pat part) \<or> is_substr pat (path_str p)
      then Inr (Some (JStr pat)) else matches_blocked_pattern p pats)"
| "matches_blocked_pattern p (_ # pats) = Inl NotAString"

fun find_allowed_root :: "host_fs \<Rightarrow> pure_path \<Rightarrow> allowed_root list \<Rightarrow> mount_exn + allowed_root option" where
  "find_allowed_root fs p [] = Inr None"
| "find_allowed_root fs p (r # rs) =
     (case expand_path fs (ar_path r) of
        Inl e \<Rightarrow> Inl e
      | Inr q \<Rightarrow>
          (case fs_real fs q of
             None \<Rightarrow> find_allowed_root fs p rs
           | Some rr \<Rightarrow> if relative_to p rr \<noteq> None then Inr (Some r) else find_allowed_root fs p rs))"

definition is_valid_container_path :: "string \<Rightarrow> bool" where
  "is_valid_container_path s =
     (if is_substr ''..'' s then False
      else if is_prefix_of ''/'' s then False
      else s \<noteq> '''' \<and> str_strip s \<noteq> '''')"

section \<open>Validating mounts\<close>

definition refused :: "mount_reason \<Rightarrow> mount_validation" where
  "refused r = \<lparr>mv_allowed = False, mv_reason = r, mv_real_host_path = None, mv_container_path = None,
                mv_readonly = None\<rparr>"

definition mount_container_path :: "additional_mount \<Rightarrow> string" where
  "mount_container_path m =
     (case or_none (am_container_path m) of Some s \<Rightarrow> s | None \<Rightarrow> path_name (path_of (am_host_path m)))"

definition effective_readonly :: "mount_allowlist \<Rightarrow> allowed_root \<Rightarrow> additional_mount \<Rightarrow> bool" where
  "effective_readonly al r m =
     (if \<not> am_readonly m
      then if al_non_main_read_only al then True
           else if \<not> py_bool (ar_allow_read_write r) then True else False
      else True)"

definition check_mount :: "host_fs \<Rightarrow> mount_allowlist \<Rightarrow> additional_mount \<Rightarrow> mount_exn + mount_validation" where
  "check_mount fs al m =
     (let cp = mount_container_path m in
      if \<not> is_valid_container_path cp then Inr (refused (InvalidContainerPath cp))
      else let ep = fs_expand fs (am_host_path m) in
           case fs_real fs ep of
             None \<Rightarrow> Inr (refused (HostPathMissing (am_host_path m) ep))
           | Some rp \<Rightarrow>
               (case matches_blocked_pattern rp (al_blocked_patterns al) of
                  Inl e \<Rightarrow> Inl e
                | Inr (Some pat) \<Rightarrow> Inr (refused (MatchesBlocked pat rp))
                | Inr None \<Rightarrow>
                    (case find_allowed_root fs rp (al_allowed_roots al) of
                       Inl e \<Rightarrow> Inl e
                     | Inr None \<Rightarrow> Inr (refused (UnderNoRoot rp))
                     | Inr (Some r) \<Rightarrow>
                         Inr \<lparr>mv_allowed = True, mv_reason = AllowedUnder (ar_path r) (ar_description r),
                              mv_real_host_path = Some (path_str rp), mv_container_path = Some cp,
                              mv_readonly = Some (effective_readonly al r m)\<rparr>)))"

definition validate_mount ::
  "host_fs \<Rightarrow> allowlist_file \<Rightarrow> additional_mount \<Rightarrow> mount_cache \<Rightarrow> (mount_exn + mount_validation) \<times> mount_cache" where
  "validate_mount fs file m c =
     (case load_mount_allowlist file c of
        (Inl e, c') \<Rightarrow> (Inl e, c')
      | (Inr None, c') \<Rightarrow> (Inr (refused NoAllowlist), c')
      | (Inr (Some al), c') \<Rightarrow> (check_mount fs al m, c'))"

definition extra_prefix :: string where
  "extra_prefix = ''/workspace/extra/''"

text \<open>One entry of the list of validated mounts, for a validation that allowed the mount.\<close>

definition validated_entry :: "mount_validation \<Rightarrow> validated_mount" where
  "validated_entry v =
     \<lparr>vm_host = the (mv_real_host_path v), vm_container = extra_prefix @ the (mv_container_path v),
      vm_ro = the (mv_readonly v)\<rparr>"

fun validate_additional_mounts ::
  "host_fs \<Rightarrow> allowlist_file \<Rightarrow> additional_mount list \<Rightarrow> mount_cache \<Rightarrow>
     (mount_exn + validated_mount list) \<times> mount_cache" where
  "validate_additional_mounts fs file [] c = (Inr [], c)"
| "validate_additional_mounts fs file (m # ms) c =
     (case validate_mount fs file m c of
        (Inl e, c') \<Rightarrow> (Inl e, c')
      | (Inr v, c') \<Rightarrow>
          (case validate_additional_mounts fs file ms c' of
             (Inl e, c'') \<Rightarrow> (Inl e, c'')
           | (Inr vs, c'') \<Rightarrow> (Inr (if mv_allowed v then validated_entry v # vs else vs), c'')))"

definition allowlist_template :: json where
  "allowlist_template =
     JObj [(''allowedRoots'', JList
              [JObj [(''path'', JStr ''~/projects''), (''allowReadWrite'', JBool True),
                     (''description'', JStr ''Development projects'')],
               JObj [(''path'', JStr ''~/repos''), (''allowReadWrite'', JBool True),
                     (''description'', JStr ''Git repositories'')],
               JObj [(''path'', JStr ''~/Documents/work''), (''allowReadWrite'', JBool False),
                     (''description'', JStr ''Work documents (read-only)'')]]),
           (''blockedPatterns'', JList [JStr ''password'', JStr ''secret'', JStr ''token'']),
           (''nonMainReadOnly'', JBool True)]"

section \<open>What an allowed mount satisfies\<close>

lemma part_substr: "part \<in> set (path_parts p) \<Longrightarrow> is_substr part (path_str p)"
proof (cases "part \<in> set (pp_parts p)")
  case True
  then obtain l r where "join_with ''/'' (pp_parts p) = l @ part @ r"
    using join_with_mem by metis
  then have "path_str p = (pp_root p @ l) @ part @ r" using True by (auto simp: path_str_def)
  then show ?thesis unfolding is_substr_iff by blast
next
  case False
  assume "part \<in> set (path_parts p)"
  with False have "pp_root p \<noteq> ''''" "part = pp_root p" by (auto simp: path_parts_def split: if_splits)
  then have "path_str p = [] @ part @ join_with ''/'' (pp_parts p)" by (simp add: path_str_def)
  then show ?thesis unfolding is_substr_iff by blast
qed

text \<open>The search through the parts adds nothing to the search in the whole path.\<close>

lemma matches_blocked_None:
  "matches_blocked_pattern p pats = Inr None \<longleftrightarrow>
     (\<forall>pat \<in> set pats. \<exists>s. pat = JStr s \<and> \<not> is_substr s (path_str p))"
proof (induction p pats rule: matches_blocked_pattern.induct)
  case (2 p pat pats)
  have "(\<exists>part \<in> set (path_parts p). part = pat \<or> is_substr pat part) \<Longrightarrow> is_substr pat (path_str p)"
    using part_substr is_substr_trans by blast
  then show ?case using 2 by auto
qed auto

lemma find_allowed_root_sound:
  "find_allowed_root fs p rs = Inr (Some r) \<Longrightarrow>
     r \<in> set rs \<and> (\<exists>s q. ar_path r = JStr s \<and> fs_real fs (fs_expand fs s) = Some q \<and> relative_to p q \<noteq> None)"
  by (induction rs) (auto simp: expand_path_def split: sum.splits option.splits if_splits json.splits)

lemma py_in_list_str [simp]: "py_in_list (JStr s) xs \<longleftrightarrow> JStr s \<in> set xs"
proof -
  have "py_eq (JStr s) y \<longleftrightarrow> y = JStr s" for y by (cases y) auto
  then show ?thesis by (auto simp: py_in_list_def)
qed

lemma dedup_keeps_str:
  "JStr s \<in> set acc \<or> JStr s \<in> set xs \<Longrightarrow>
   JStr s \<in> set (fold (\<lambda>x acc. if py_in_list x acc then acc else acc @ [x]) xs acc)"
proof (induction xs arbitrary: acc)
  case (Cons x xs)
  then show ?case by (cases "x = JStr s") auto
qed simp

lemma parse_keeps_defaults:
  "parse_allowlist d = Inr al \<Longrightarrow> s \<in> set default_blocked_patterns \<Longrightarrow> JStr s \<in> set (al_blocked_patterns al)"
  by (auto simp: parse_allowlist_def dedup_keys_def dedup_keeps_str
      split: option.splits json.splits sum.splits if_splits)

text \<open>The caches a process can have: a load and a reset are the only writes.\<close>

inductive cache_reach :: "mount_cache \<Rightarrow> bool" where
  start: "cache_reach \<lparr>mc_allowlist = None, mc_load_error = None\<rparr>"
| loaded: "cache_reach c \<Longrightarrow> cache_reach (snd (load_mount_allowlist file c))"
| reset: "cache_reach c \<Longrightarrow> cache_reach (reset_cache c)"

lemma load_cases:
  "load_mount_allowlist file c = (r, c') \<Longrightarrow>
     (r = Inr (mc_allowlist c') \<or> (\<exists>e. r = Inl e) \<and> mc_allowlist c' = None) \<and>
     (mc_allowlist c' = mc_allowlist c \<or> (\<exists>d al. parse_allowlist d = Inr al \<and> mc_allowlist c' = Some al))"
  by (auto simp: load_mount_allowlist_def Let_def
      split: option.splits allowlist_file.splits json.splits sum.splits)

lemma cache_reach_parsed: "cache_reach c \<Longrightarrow> mc_allowlist c = Some al \<Longrightarrow> \<exists>d. parse_allowlist d = Inr al"
proof (induction rule: cache_reach.induct)
  case (loaded c f)
  then show ?case using load_cases [of f c] by (cases "load_mount_allowlist f c") auto
qed (auto simp: reset_cache_def)

text \<open>Once an allowlist is loaded, neither it nor the answer changes, whatever happens to the file.\<close>

lemma load_fixed:
  "load_mount_allowlist file c = (Inr (Some al), c') \<Longrightarrow>
     mc_allowlist c' = Some al \<and> load_mount_allowlist file' c' = (Inr (Some al), c')"
  by (auto simp: load_mount_allowlist_def Let_def
      split: option.splits allowlist_file.splits json.splits sum.splits)

text \<open>A load error is remembered: every later load in the process refuses.\<close>

lemma load_error_sticky:
  "load_mount_allowlist file c = (Inr None, c') \<Longrightarrow> load_mount_allowlist file' c' = (Inr None, c')"
  by (auto simp: load_mount_allowlist_def Let_def
      split: option.splits allowlist_file.splits json.splits sum.splits)

lemma check_mount_sound:
  assumes "check_mount fs al m = Inr v" and "mv_allowed v"
  shows "\<exists>rp r. fs_real fs (fs_expand fs (am_host_path m)) = Some rp \<and>
           is_valid_container_path (mount_container_path m) \<and>
           matches_blocked_pattern rp (al_blocked_patterns al) = Inr None \<and>
           find_allowed_root fs rp (al_allowed_roots al) = Inr (Some r) \<and>
           validated_entry v = \<lparr>vm_host = path_str rp, vm_container = extra_prefix @ mount_container_path m,
                                vm_ro = effective_readonly al r m\<rparr>"
  using assms
  by (auto simp: check_mount_def Let_def refused_def validated_entry_def
      split: if_splits option.splits sum.splits)

lemma validated_from:
  assumes "validate_additional_mounts fs file ms c = (Inr vs, c')" and "v \<in> set vs"
  shows "\<exists>m \<in> set ms. \<exists>al w. mc_allowlist c' = Some al \<and> check_mount fs al m = Inr w \<and> mv_allowed w \<and>
           v = validated_entry w"
  using assms
proof (induction ms arbitrary: c vs)
  case (Cons m ms)
  obtain w c1 us where one: "validate_mount fs file m c = (Inr w, c1)"
    and rest: "validate_additional_mounts fs file ms c1 = (Inr us, c')"
    and vs: "vs = (if mv_allowed w then validated_entry w # us else us)"
    using Cons.prems(1) by (auto split: prod.splits sum.splits)
  show ?case
  proof (cases "v \<in> set us")
    case True
    then show ?thesis using Cons.IH [OF rest] by auto
  next
    case False
    then have w: "mv_allowed w" "v = validated_entry w" using Cons.prems(2) vs by (auto split: if_splits)
    then obtain al where al: "load_mount_allowlist file c = (Inr (Some al), c1)" "check_mount fs al m = Inr w"
      using one by (auto simp: validate_mount_def refused_def split: prod.splits sum.splits option.splits)
    have "mc_allowlist c' = Some al" using rest load_fixed [OF al(1)]
    proof (induction ms arbitrary: us)
      case (Cons m' ms')
      then show ?case
        by (auto simp: validate_mount_def split: prod.splits sum.splits option.splits)
    qed simp
    then show ?thesis using al w by auto
  qed
qed simp

lemma validated_reach:
  "validate_additional_mounts fs file ms c = (Inr vs, c') \<Longrightarrow> cache_reach c \<Longrightarrow> cache_reach c'"
proof (induction ms arbitrary: c vs)
  case (Cons m ms)
  obtain w c1 us where one: "validate_mount fs file m c = (Inr w, c1)"
    and rest: "validate_additional_mounts fs file ms c1 = (Inr us, c')"
    using Cons.prems(1) by (auto split: prod.splits sum.splits)
  have "c1 = snd (load_mount_allowlist file c)"
    using one by (auto simp: validate_mount_def split: prod.splits sum.splits option.splits)
  then show ?case using Cons.IH [OF rest] cache_reach.loaded Cons.prems(2) by simp
qed simp

lemma valid_container_path_inside:
  assumes "is_valid_container_path cp"
  shows "relative_to (path_of (normpath (extra_prefix @ cp))) (path_of ''/workspace/extra'') \<noteq> None"
proof -
  let ?s = "extra_prefix @ cp" and ?f = "filter (\<lambda>p. p \<noteq> '''' \<and> p \<noteq> ''.'') (split_at CHR ''/'' cp)"
  have path: "path_of ?s = PurePath ''/'' (''workspace'' # ''extra'' # ?f)"
    by (simp add: path_of_def root_of_def extra_prefix_def)
  have "''..'' \<notin> set ?f"
    using assms split_at_substr by (auto simp: is_valid_container_path_def split: if_splits)
  then have "norm_parts ?s = ''workspace'' # ''extra'' # ?f"
    using norm_parts_path_of [of ?s] by (simp add: path)
  moreover have "root_of ?s = ''/''" by (simp add: root_of_def extra_prefix_def)
  moreover have "path_of ''/workspace/extra'' = PurePath ''/'' [''workspace'', ''extra'']"
    by (simp add: path_of_def root_of_def)
  ultimately show ?thesis by (simp add: path_of_normpath relative_to_def)
qed

text \<open>What a mount that comes out owes to the allowlist and to the mount that was asked for.\<close>

definition permitted :: "host_fs \<Rightarrow> mount_allowlist \<Rightarrow> additional_mount \<Rightarrow> validated_mount \<Rightarrow> bool" where
  "permitted fs al m v \<longleftrightarrow>
     (\<exists>r \<in> set (al_allowed_roots al). \<exists>s rp rr.
        ar_path r = JStr s \<and>
        fs_real fs (fs_expand fs (am_host_path m)) = Some rp \<and> vm_host v = path_str rp \<and>
        fs_real fs (fs_expand fs s) = Some rr \<and> relative_to rp rr \<noteq> None \<and>
        (\<forall>pat \<in> set default_blocked_patterns. \<not> is_substr pat (vm_host v)) \<and>
        relative_to (path_of (normpath (vm_container v))) (path_of ''/workspace/extra'') \<noteq> None \<and>
        (\<not> vm_ro v \<longrightarrow> \<not> am_readonly m \<and> py_bool (ar_allow_read_write r) \<and> \<not> al_non_main_read_only al))"

lemma checked_permitted:
  assumes "parse_allowlist d = Inr al" and "check_mount fs al m = Inr w" and "mv_allowed w"
  shows "permitted fs al m (validated_entry w)"
proof -
  obtain rp r where rp: "fs_real fs (fs_expand fs (am_host_path m)) = Some rp"
    and cp: "is_valid_container_path (mount_container_path m)"
    and blocked: "matches_blocked_pattern rp (al_blocked_patterns al) = Inr None"
    and root: "find_allowed_root fs rp (al_allowed_roots al) = Inr (Some r)"
    and entry: "validated_entry w = \<lparr>vm_host = path_str rp, vm_container = extra_prefix @ mount_container_path m,
                     vm_ro = effective_readonly al r m\<rparr>"
    using check_mount_sound [OF assms(2,3)] by blast
  have "\<not> is_substr pat (path_str rp)" if "pat \<in> set default_blocked_patterns" for pat
    using parse_keeps_defaults [OF assms(1) that] blocked by (fastforce simp: matches_blocked_None)
  moreover obtain s rr where "r \<in> set (al_allowed_roots al)" "ar_path r = JStr s"
    "fs_real fs (fs_expand fs s) = Some rr" "relative_to rp rr \<noteq> None"
    using find_allowed_root_sound [OF root] by blast
  moreover have "\<not> effective_readonly al r m \<longrightarrow>
      \<not> am_readonly m \<and> py_bool (ar_allow_read_write r) \<and> \<not> al_non_main_read_only al"
    by (simp add: effective_readonly_def)
  ultimately show ?thesis
    unfolding permitted_def entry using rp valid_container_path_inside [OF cp]
    by (intro bexI [of _ r] exI [of _ s] exI [of _ rp] exI [of _ rr]) simp_all
qed

lemma validated_permitted:
  assumes "cache_reach c" and "validate_additional_mounts fs file ms c = (Inr vs, c')" and "v \<in> set vs"
  shows "\<exists>m \<in> set ms. \<exists>al. mc_allowlist c' = Some al \<and> permitted fs al m v"
proof -
  obtain m al w where "m \<in> set ms" "mc_allowlist c' = Some al" "check_mount fs al m = Inr w" "mv_allowed w"
    "v = validated_entry w"
    using validated_from [OF assms(2,3)] by blast
  moreover from this obtain d where "parse_allowlist d = Inr al"
    using cache_reach_parsed validated_reach [OF assms(2,1)] by blast
  ultimately show ?thesis using checked_permitted by blast
qed

definition demo_fs :: host_fs where
  "demo_fs = \<lparr>fs_expand = (\<lambda>s. if s = ''~/projects'' then path_of ''/home/op/projects'' else path_of s),
              fs_real = (\<lambda>p. if p \<in> {path_of ''/home/op/projects'', path_of ''/home/op/projects/site''} then Some p
                             else None)\<rparr>"

definition demo_mounts :: "additional_mount list" where
  "demo_mounts =
     [\<lparr>am_host_path = ''/home/op/projects/site'', am_container_path = None, am_readonly = False\<rparr>,
      \<lparr>am_host_path = ''/etc'', am_container_path = Some ''../etc'', am_readonly = False\<rparr>]"

definition demo_cache :: mount_cache where
  "demo_cache = \<lparr>mc_allowlist = None, mc_load_error = None\<rparr>"

text \<open>The template the code offers is one it loads.\<close>

lemma template_loads:
  "\<exists>al c. load_mount_allowlist (Holds allowlist_template) demo_cache = (Inr (Some al), c) \<and>
     map ar_path (al_allowed_roots al) = [JStr ''~/projects'', JStr ''~/repos'', JStr ''~/Documents/work''] \<and>
     al_blocked_patterns al = map JStr (default_blocked_patterns @ [''password'', ''secret'', ''token'']) \<and>
     al_non_main_read_only al"
  by (simp add: load_mount_allowlist_def demo_cache_def allowlist_template_def parse_allowlist_def obj_get_def
      parse_root_def get_or_def dedup_keys_def default_blocked_patterns_def)

text \<open>
  A file whose top-level value is not an object makes the loader raise instead of refusing, and
  nothing is remembered: the next spawn raises again.
\<close>

lemma top_level_not_object_raises:
  "\<forall>d. j \<noteq> JObj d \<Longrightarrow> load_mount_allowlist (Holds j) demo_cache = (Inl NoGetAttribute, demo_cache)"
  by (cases j) (simp_all add: load_mount_allowlist_def demo_cache_def)

lemma demo_validated:
  "fst (validate_additional_mounts demo_fs (Holds allowlist_template) demo_mounts demo_cache) =
     Inr [\<lparr>vm_host = ''/home/op/projects/site'', vm_container = ''/workspace/extra/site'', vm_ro = True\<rparr>]"
  by code_simp

section \<open>Exactly which mounts are allowed\<close>

lemma matches_blocked_total:
  "list_all (\<lambda>j. \<exists>s. j = JStr s) pats \<Longrightarrow> \<exists>o'. matches_blocked_pattern p pats = Inr o'"
  by (induction p pats rule: matches_blocked_pattern.induct) auto

lemma find_allowed_root_exact:
  "list_all (\<lambda>r. \<exists>s. ar_path r = JStr s) rs \<Longrightarrow>
   \<exists>o'. find_allowed_root fs p rs = Inr o' \<and>
     (o' \<noteq> None \<longleftrightarrow> (\<exists>r \<in> set rs. \<exists>s q. ar_path r = JStr s \<and> fs_real fs (fs_expand fs s) = Some q \<and> relative_to p q \<noteq> None))"
proof (induction rs)
  case (Cons r rs)
  obtain s where s: "ar_path r = JStr s" using Cons.prems by auto
  then have step: "find_allowed_root fs p (r # rs) =
      (case fs_real fs (fs_expand fs s) of
         None \<Rightarrow> find_allowed_root fs p rs
       | Some q \<Rightarrow> if relative_to p q \<noteq> None then Inr (Some r) else find_allowed_root fs p rs)"
    by (simp add: expand_path_def)
  show ?case
  proof (cases "\<exists>q. fs_real fs (fs_expand fs s) = Some q \<and> relative_to p q \<noteq> None")
    case True
    then show ?thesis using s step by auto
  next
    case False
    then have "find_allowed_root fs p (r # rs) = find_allowed_root fs p rs"
      unfolding step by (auto split: option.splits)
    then show ?thesis using Cons s False by auto
  qed
qed simp

fun is_jstr :: "json \<Rightarrow> bool" where
  "is_jstr (JStr _) = True"
| "is_jstr _ = False"

lemma is_jstr_iff: "is_jstr j \<longleftrightarrow> (\<exists>s. j = JStr s)"
  by (cases j) auto

definition well_typed :: "mount_allowlist \<Rightarrow> bool" where
  "well_typed al = (list_all is_jstr (al_blocked_patterns al) \<and> list_all (\<lambda>r. is_jstr (ar_path r)) (al_allowed_roots al))"

text \<open>With an allowlist whose patterns and root paths are strings, validating a mount never raises,
  and it allows exactly the mounts whose container path is relative, not blank and free of two
  consecutive dots, and whose source exists, contains no blocked pattern in its real path and lies
  under the real path of one of the roots.
\<close>

theorem mount_admission_exact:
  assumes "well_typed al"
  shows "\<exists>w. check_mount fs al m = Inr w \<and>
     (mv_allowed w \<longleftrightarrow>
        is_valid_container_path (mount_container_path m) \<and>
        (\<exists>rp. fs_real fs (fs_expand fs (am_host_path m)) = Some rp \<and>
           (\<forall>s. JStr s \<in> set (al_blocked_patterns al) \<longrightarrow> \<not> is_substr s (path_str rp)) \<and>
           (\<exists>r \<in> set (al_allowed_roots al). \<exists>s q. ar_path r = JStr s \<and>
              fs_real fs (fs_expand fs s) = Some q \<and> relative_to rp q \<noteq> None)))"
proof (cases "is_valid_container_path (mount_container_path m)")
  case False
  then show ?thesis by (simp add: check_mount_def Let_def refused_def)
next
  case valid: True
  have pats: "list_all (\<lambda>j. \<exists>s. j = JStr s) (al_blocked_patterns al)"
    and roots: "list_all (\<lambda>r. \<exists>s. ar_path r = JStr s) (al_allowed_roots al)"
    using assms by (auto simp: well_typed_def is_jstr_iff list_all_iff)
  show ?thesis
  proof (cases "fs_real fs (fs_expand fs (am_host_path m))")
    case None
    then show ?thesis using valid by (simp add: check_mount_def Let_def refused_def)
  next
    case (Some rp)
    obtain b where b: "matches_blocked_pattern rp (al_blocked_patterns al) = Inr b"
      using matches_blocked_total [OF pats] by blast
    obtain r where r: "find_allowed_root fs rp (al_allowed_roots al) = Inr r"
      and r_iff: "r \<noteq> None \<longleftrightarrow> (\<exists>r \<in> set (al_allowed_roots al). \<exists>s q. ar_path r = JStr s \<and>
              fs_real fs (fs_expand fs s) = Some q \<and> relative_to rp q \<noteq> None)"
      using find_allowed_root_exact [OF roots] by blast
    have "b = None \<longleftrightarrow> (\<forall>s. JStr s \<in> set (al_blocked_patterns al) \<longrightarrow> \<not> is_substr s (path_str rp))"
      using b matches_blocked_None [of rp "al_blocked_patterns al"] pats by (auto simp: list_all_iff)
    moreover have "\<exists>w. check_mount fs al m = Inr w \<and> (mv_allowed w \<longleftrightarrow> b = None \<and> r \<noteq> None)"
      using valid Some b r by (cases b; cases r) (simp_all add: check_mount_def Let_def refused_def)
    ultimately show ?thesis using valid Some r_iff by auto
  qed
qed

text \<open>The template's allowlist, and a mount inside its first root.\<close>

definition demo_allowlist :: mount_allowlist where
  "demo_allowlist =
     \<lparr>al_allowed_roots = [\<lparr>ar_path = JStr ''~/projects'', ar_allow_read_write = JBool True, ar_description = JNull\<rparr>],
      al_blocked_patterns = [JStr ''.ssh''], al_non_main_read_only = False\<rparr>"

theorem mount_admission_exact_witness:
  "\<exists>w. check_mount demo_fs demo_allowlist (hd demo_mounts) = Inr w \<and> mv_allowed w \<and> mv_readonly w = Some False"
proof -
  have "well_typed demo_allowlist" by code_simp
  then obtain w where w: "check_mount demo_fs demo_allowlist (hd demo_mounts) = Inr w"
    using mount_admission_exact by blast
  moreover have "check_mount demo_fs demo_allowlist (hd demo_mounts) =
      Inr \<lparr>mv_allowed = True, mv_reason = AllowedUnder (JStr ''~/projects'') JNull,
           mv_real_host_path = Some ''/home/op/projects/site'', mv_container_path = Some ''site'',
           mv_readonly = Some False\<rparr>"
    by code_simp
  ultimately show ?thesis by auto
qed

end
