(* ===== verification/Sandbox.thy ===== *)
theory Sandbox
  imports Mount_Security Config
begin

text \<open>
  The specification of an agent container: the data of \<^verbatim>\<open>src/src/rolemesh/container/runtime.py\<close>, the
  backend configurations of \<^verbatim>\<open>agent/executor.py\<close>, and \<^verbatim>\<open>container/runner.py\<close>, which builds the volume
  mounts and the specification.

  What the functions ask of the machine is a record of facts: which directories exist, the user and
  group the process runs as, the platform and the host's own variables. What they do to the file
  system is a list of effects. The conversion of a memory limit may raise \<open>ValueError\<close>, which is
  \<open>None\<close>.
\<close>

section \<open>Container specifications\<close>

record volume_mount =
  v_host_path :: string
  v_container_path :: string
  v_readonly :: bool

record container_spec =
  cs_name :: string
  cs_image :: string
  cs_mounts :: "volume_mount list"
  cs_env :: "(string, string) dict"
  cs_user :: "string option"
  cs_memory_limit :: "string option"
  cs_cpu_limit :: "rat option"
  cs_extra_hosts :: "(string, string) dict"
  cs_remove_on_exit :: bool
  cs_entrypoint :: "string list option"
  cs_cap_drop :: "string list"
  cs_cap_add :: "string list"
  cs_security_opt :: "string list"
  cs_readonly_rootfs :: bool
  cs_tmpfs :: "(string, string) dict"
  cs_pids_limit :: "int option"
  cs_memory_swap :: "int option"
  cs_memory_swappiness :: "int option"
  cs_ulimits :: "(string \<times> int \<times> int) list"
  cs_network_name :: "string option"
  cs_dns :: "string list"
  cs_runtime :: "string option"

section \<open>Backends\<close>

record agent_backend_config =
  bc_name :: string
  bc_image :: "string option"
  bc_entrypoint :: "string list option"
  bc_extra_mounts :: "(string \<times> string \<times> bool) list"
  bc_extra_env :: "(string, string) dict"
  bc_skip_claude_session :: bool

definition claude_code_backend :: agent_backend_config where
  "claude_code_backend =
     \<lparr>bc_name = ''claude'', bc_image = None, bc_entrypoint = None, bc_extra_mounts = [],
      bc_extra_env = [(''AGENT_BACKEND'', ''claude'')], bc_skip_claude_session = False\<rparr>"

definition bedrock_env :: "environ \<Rightarrow> (string, string) dict" where
  "bedrock_env env =
     [(''AWS_BEARER_TOKEN_BEDROCK'', ''placeholder-proxy-replaces-this''),
      (''AWS_REGION'', or_str (getenv env ''AWS_REGION'' '''') bedrock_default_region)]"

definition pi_extra_env :: "environ \<Rightarrow> (string, string) dict" where
  "pi_extra_env env =
     (let model_id = getenv env ''PI_MODEL_ID'' '''' in
      if model_id = '''' then [(''AGENT_BACKEND'', ''pi'')]
      else [(''AGENT_BACKEND'', ''pi''), (''PI_MODEL_ID'', model_id)] @
           (if is_prefix_of ''amazon-bedrock/'' model_id then bedrock_env env else []))"

definition pi_backend :: "environ \<Rightarrow> agent_backend_config" where
  "pi_backend env =
     \<lparr>bc_name = ''pi'', bc_image = None, bc_entrypoint = None, bc_extra_mounts = [],
      bc_extra_env = pi_extra_env env, bc_skip_claude_session = True\<rparr>"

section \<open>Folder names\<close>

definition alnum :: "char \<Rightarrow> bool" where
  "alnum c = (let n = of_char c :: nat in (48 \<le> n \<and> n \<le> 57) \<or> (65 \<le> n \<and> n \<le> 90) \<or> (97 \<le> n \<and> n \<le> 122))"

text \<open>The pattern of a folder: a letter or digit, then at most 63 of these, dashes and underscores.\<close>

definition folder_pattern :: "string \<Rightarrow> bool" where
  "folder_pattern s =
     (case s of
        [] \<Rightarrow> False
      | c # cs \<Rightarrow> alnum c \<and> length cs \<le> 63 \<and> list_all (\<lambda>x. alnum x \<or> x = CHR ''_'' \<or> x = CHR ''-'') cs)"

text \<open>\<open>re.match\<close> with a final \<open>$\<close> also accepts one newline at the end, which the comparison with the
  stripped name excludes.\<close>

definition folder_match :: "string \<Rightarrow> bool" where
  "folder_match s = (folder_pattern s \<or> (s \<noteq> [] \<and> last s = CHR 0x0A \<and> folder_pattern (butlast s)))"

definition is_valid_group_folder :: "string \<Rightarrow> bool" where
  "is_valid_group_folder s =
     (if s = [] \<or> s \<noteq> str_strip s then False
      else if \<not> folder_match s then False
      else if CHR ''/'' \<in> set s \<or> CHR 0x5C \<in> set s \<or> is_substr ''..'' s then False
      else str_lower s \<noteq> ''global'')"

definition coworker_create_folder :: "string \<Rightarrow> bool" where
  "coworker_create_folder s = (1 \<le> length s \<and> length s \<le> 64 \<and> folder_pattern s)"

text \<open>\<open>None\<close> is the \<open>ValueError\<close>; \<open>resolve\<close> follows the links of an absolute path.\<close>

definition resolve_under :: "(pure_path \<Rightarrow> pure_path) \<Rightarrow> pure_path \<Rightarrow> string \<Rightarrow> pure_path option" where
  "resolve_under resolve base folder =
     (if \<not> is_valid_group_folder folder then None
      else let p = resolve (path_join base folder) in
           if relative_to p (resolve base) \<noteq> None then Some p else None)"

section \<open>Volume mounts\<close>

datatype fs_effect = MakeDirs string | WriteJson string json

definition claude_settings :: json where
  "claude_settings =
     JObj [(''env'', JObj [(''CLAUDE_CODE_EXPERIMENTAL_AGENT_TEAMS'', JStr ''1''),
                           (''CLAUDE_CODE_ADDITIONAL_DIRECTORIES_CLAUDE_MD'', JStr ''1''),
                           (''CLAUDE_CODE_DISABLE_AUTO_MEMORY'', JStr ''0'')])]"

definition tenant_dir :: "deploy_config \<Rightarrow> string \<Rightarrow> pure_path" where
  "tenant_dir cfg tid = path_join (path_join (path_of (dc_data_dir cfg)) ''tenants'') tid"

definition coworker_dir :: "deploy_config \<Rightarrow> string \<Rightarrow> coworker \<Rightarrow> pure_path" where
  "coworker_dir cfg tid cw = path_join (path_join (tenant_dir cfg tid) ''coworkers'') (c_folder cw)"

definition base_mounts ::
  "deploy_config \<Rightarrow> (string \<Rightarrow> bool) \<Rightarrow> coworker \<Rightarrow> string \<Rightarrow> string \<Rightarrow> volume_mount list \<times> fs_effect list" where
  "base_mounts cfg fexists cw tid conv =
     (let cdir = coworker_dir cfg tid cw;
          workspace = path_str (path_join cdir ''workspace'');
          shared = path_str (path_join (tenant_dir cfg tid) ''shared'');
          session = path_str (path_join (path_join cdir ''sessions'') conv);
          logs = path_str (path_join cdir ''logs'');
          claude = path_join cdir ''.claude'';
          settings = path_str (path_join claude ''settings.json'');
          rw = (\<lambda>h c. \<lparr>v_host_path = h, v_container_path = c, v_readonly = False\<rparr>)
      in ([rw workspace ''/workspace/group''] @
          (if fexists shared
           then [\<lparr>v_host_path = shared, v_container_path = ''/workspace/shared'', v_readonly = True\<rparr>] else []) @
          [rw session ''/workspace/sessions'', rw logs ''/workspace/logs'',
           rw (path_str claude) ''/home/agent/.claude''],
          [MakeDirs workspace, MakeDirs session, MakeDirs logs, MakeDirs (path_str claude)] @
          (if fexists settings then [] else [WriteJson settings claude_settings])))"

definition as_volume :: "validated_mount \<Rightarrow> volume_mount" where
  "as_volume v = \<lparr>v_host_path = vm_host v, v_container_path = vm_container v, v_readonly = vm_ro v\<rparr>"

definition backend_mounts :: "agent_backend_config option \<Rightarrow> volume_mount list \<Rightarrow> volume_mount list" where
  "backend_mounts bc ms =
     (case bc of
        None \<Rightarrow> ms
      | Some b \<Rightarrow>
          (if bc_skip_claude_session b then filter (\<lambda>m. \<not> is_substr ''.claude'' (v_container_path m)) ms else ms) @
          map (\<lambda>(h, c, ro). \<lparr>v_host_path = h, v_container_path = c, v_readonly = ro\<rparr>) (bc_extra_mounts b))"

definition requested_mounts :: "coworker \<Rightarrow> additional_mount list" where
  "requested_mounts cw = (case c_container_config cw of None \<Rightarrow> [] | Some cc \<Rightarrow> cc_additional_mounts cc)"

definition build_volume_mounts ::
  "deploy_config \<Rightarrow> host_fs \<Rightarrow> (string \<Rightarrow> bool) \<Rightarrow> allowlist_file \<Rightarrow> coworker \<Rightarrow> string \<Rightarrow> string \<Rightarrow>
     agent_backend_config option \<Rightarrow> mount_cache \<Rightarrow>
     (mount_exn + volume_mount list) \<times> fs_effect list \<times> mount_cache" where
  "build_volume_mounts cfg fs fexists file cw tid conv bc c =
     (let (base, effects) = base_mounts cfg fexists cw tid conv in
      if requested_mounts cw = [] then (Inr (backend_mounts bc base), effects, c)
      else case validate_additional_mounts fs file (requested_mounts cw) c of
             (Inl e, c') \<Rightarrow> (Inl e, effects, c')
           | (Inr vs, c') \<Rightarrow> (Inr (backend_mounts bc (base @ map as_volume vs)), effects, c'))"

section \<open>Hardening defaults\<close>

definition agent_uid :: int where "agent_uid = 1000"
definition agent_gid :: int where "agent_gid = 1000"

definition default_security_opt :: "bool \<Rightarrow> string list" where
  "default_security_opt linux =
     ''no-new-privileges:true'' # (if linux then [''apparmor=docker-default''] else [])"

definition default_tmpfs :: "int \<Rightarrow> int \<Rightarrow> (string, string) dict" where
  "default_tmpfs uid gid =
     (let opt = ''uid='' @ show_int uid @ '',gid='' @ show_int gid in
      [(''/tmp'', ''rw,size=64m,mode=1777''),
       (''/home/agent/.cache'', ''rw,size=64m,'' @ opt @ '',mode=700''),
       (''/home/agent/.config'', ''rw,size=8m,'' @ opt @ '',mode=700''),
       (''/home/agent/.pi'', ''rw,size=32m,'' @ opt @ '',mode=700'')])"

definition default_ulimits :: "(string \<times> int \<times> int) list" where
  "default_ulimits = [(''nofile'', 1024, 2048)]"

definition metadata_blackhole :: "(string, string) dict" where
  "metadata_blackhole = [(''metadata.google.internal'', ''127.0.0.1''), (''169.254.169.254'', ''127.0.0.1'')]"

section \<open>Network routing\<close>

text \<open>The gateway address: the one discovered at run time, else the configured one.\<close>

definition get_gateway_dns_ip :: "deploy_config \<Rightarrow> string option \<Rightarrow> string" where
  "get_gateway_dns_ip cfg override = (case override of Some ip \<Rightarrow> ip | None \<Rightarrow> dc_gateway_dns_ip cfg)"

record egress_routing =
  er_nats_url :: string
  er_proxy_base :: string
  er_provider_prefix :: string
  er_proxy_env :: "(string, string) dict"
  er_network_name :: "string option"
  er_dns_servers :: "string list"
  er_extra_hosts :: "(string, string) dict"
  er_mcp_proxy_host :: string

definition compute_egress_routing :: "deploy_config \<Rightarrow> string option \<Rightarrow> string option \<Rightarrow> egress_routing" where
  "compute_egress_routing cfg override token =
     (let pfx = (case or_none token of Some t \<Rightarrow> ''/proxy/'' @ t | None \<Rightarrow> ''/proxy'');
          authority = (case or_none token of
                         Some t \<Rightarrow> ''job:'' @ t @ ''@'' @ dc_gateway_name cfg
                       | None \<Rightarrow> dc_gateway_name cfg);
          forward = ''http://'' @ authority @ '':'' @ show_int (dc_gateway_forward_port cfg)
      in \<lparr>er_nats_url = dc_agent_nats_url cfg,
          er_proxy_base = ''http://'' @ dc_gateway_name cfg @ '':'' @ show_int (dc_credential_proxy_port cfg),
          er_provider_prefix = pfx,
          er_proxy_env = [(''HTTP_PROXY'', forward), (''HTTPS_PROXY'', forward),
                          (''NO_PROXY'', dc_gateway_name cfg @ '',localhost,127.0.0.1'')],
          er_network_name = or_none (Some (dc_network_name cfg)),
          er_dns_servers = [get_gateway_dns_ip cfg override],
          er_extra_hosts = metadata_blackhole,
          er_mcp_proxy_host = dc_gateway_name cfg\<rparr>)"

section \<open>Resource limits and environment\<close>

definition mem_suffixes :: "(string \<times> int) list" where
  "mem_suffixes = [(''b'', 1), (''k'', 1024), (''m'', 1024 ^ 2), (''g'', 1024 ^ 3)]"

definition parse_memory :: "string \<Rightarrow> int option" where
  "parse_memory value =
     (let v = str_lower (str_strip value) in
      case find (\<lambda>(suf, _). ends_with v suf) mem_suffixes of
        Some (suf, k) \<Rightarrow> map_option (\<lambda>n. n * k) (int_of_str (take (length v - length suf) v))
      | None \<Rightarrow> int_of_str v)"

definition clamp_memory :: "string \<Rightarrow> string \<Rightarrow> string option" where
  "clamp_memory value max_value =
     (case (parse_memory value, parse_memory max_value) of
        (Some req, Some cap) \<Rightarrow> Some (if req > cap then max_value else value)
      | _ \<Rightarrow> None)"

definition clamp_cpu :: "rat \<Rightarrow> rat \<Rightarrow> rat" where
  "clamp_cpu value max_value = (if value > max_value then max_value else value)"

definition filter_env_allowlist :: "(string, string) dict \<Rightarrow> (string, string) dict" where
  "filter_env_allowlist env = filter (\<lambda>(k, _). k \<in> set container_env_allowlist) env"

text \<open>\<open>d.update(e)\<close>\<close>

definition dict_update :: "('k, 'v) dict \<Rightarrow> ('k, 'v) dict \<Rightarrow> ('k, 'v) dict" where
  "dict_update d e = fold (\<lambda>(k, v) acc. dict_set acc k v) e d"

section \<open>The specification of one spawn\<close>

record spawn_host =
  sh_linux :: bool
  sh_uid :: "(int \<times> int option) option"
  sh_environ :: environ
  sh_gateway_override :: "string option"

definition detect_auth_mode :: "environ \<Rightarrow> string" where
  "detect_auth_mode env = (if truthy (env ''ANTHROPIC_API_KEY'') then ''api-key'' else ''oauth'')"

text \<open>The user and group the container runs as, and whether the process has one to pass on.\<close>

definition run_ids :: "spawn_host \<Rightarrow> int \<times> int \<times> string option" where
  "run_ids h =
     (case sh_uid h of
        None \<Rightarrow> (agent_uid, agent_gid, None)
      | Some (uid, ogid) \<Rightarrow>
          (let gid = (case ogid of Some g \<Rightarrow> g | None \<Rightarrow> uid);
               (u, g) = (if uid \<noteq> 0 then (uid, gid) else (agent_uid, agent_gid))
           in (u, g, Some (show_int u @ '':'' @ show_int g))))"

definition override_env ::
  "spawn_host \<Rightarrow> agent_backend_config option \<Rightarrow> string option \<Rightarrow> (string, string) dict" where
  "override_env h bc model =
     (case (model, bc) of
        (Some mid, Some b) \<Rightarrow>
          if bc_name b = ''pi''
          then (''PI_MODEL_ID'', mid) #
               (if is_prefix_of ''amazon-bedrock/'' mid then bedrock_env (sh_environ h) else [])
          else []
      | _ \<Rightarrow> [])"

definition spawn_env ::
  "deploy_config \<Rightarrow> spawn_host \<Rightarrow> egress_routing \<Rightarrow> string \<Rightarrow> agent_backend_config option \<Rightarrow> string option \<Rightarrow>
     (string, string) dict" where
  "spawn_env cfg h rt job bc model =
     (let url = (\<lambda>p. er_proxy_base rt @ er_provider_prefix rt @ p);
          env0 = dict_update
            [(''TZ'', dc_timezone cfg), (''NATS_URL'', er_nats_url rt), (''JOB_ID'', job),
             (''ANTHROPIC_BASE_URL'', url ''/anthropic''), (''OPENAI_BASE_URL'', url ''/openai''),
             (''BEDROCK_BASE_URL'', url ''/bedrock''), (''CLAUDE_CONFIG_DIR'', ''/home/agent/.claude'')]
            (er_proxy_env rt);
          env1 = (if detect_auth_mode (sh_environ h) = ''api-key''
                  then dict_set env0 ''ANTHROPIC_API_KEY'' ''placeholder''
                  else dict_set env0 ''CLAUDE_CODE_OAUTH_TOKEN'' ''placeholder'');
          env2 = dict_set env1 ''OPENAI_API_KEY'' ''placeholder'';
          env3 = (case bc of
                    None \<Rightarrow> env2
                  | Some b \<Rightarrow> dict_update env2 (filter_env_allowlist (bc_extra_env b)));
          env4 = dict_update env3 (filter_env_allowlist (override_env h bc model));
          env5 = (if sh_uid h \<noteq> None then dict_set env4 ''HOME'' ''/home/agent'' else env4)
      in filter_env_allowlist env5)"

text \<open>The image, the requested limits and the runtime: an override of the coworker or the backend,
  else the deployment's default. An empty string and a zero count as no override.\<close>

definition spec_image :: "deploy_config \<Rightarrow> agent_backend_config option \<Rightarrow> string" where
  "spec_image cfg bc = (case or_none (Option.bind bc bc_image) of Some i \<Rightarrow> i | None \<Rightarrow> dc_container_image cfg)"

definition spec_memory :: "deploy_config \<Rightarrow> coworker option \<Rightarrow> string" where
  "spec_memory cfg cw =
     (case or_none (Option.bind (Option.bind cw c_container_config) cc_memory_limit) of
        Some m \<Rightarrow> m | None \<Rightarrow> dc_memory_limit cfg)"

definition spec_cpu :: "deploy_config \<Rightarrow> coworker option \<Rightarrow> rat" where
  "spec_cpu cfg cw =
     (case Option.bind (Option.bind cw c_container_config) cc_cpu_limit of
        Some x \<Rightarrow> if x \<noteq> 0 then x else dc_cpu_limit cfg
      | None \<Rightarrow> dc_cpu_limit cfg)"

definition spec_runtime :: "deploy_config \<Rightarrow> coworker option \<Rightarrow> string" where
  "spec_runtime cfg cw =
     (case or_none (Option.bind (Option.bind cw c_container_config) cc_runtime) of
        Some r \<Rightarrow> r | None \<Rightarrow> dc_oci_runtime cfg)"

definition build_container_spec ::
  "deploy_config \<Rightarrow> spawn_host \<Rightarrow> volume_mount list \<Rightarrow> string \<Rightarrow> string \<Rightarrow> agent_backend_config option \<Rightarrow>
     coworker option \<Rightarrow> string option \<Rightarrow> string option \<Rightarrow> container_spec option" where
  "build_container_spec cfg h mounts name job bc cw model token =
     (let rt = compute_egress_routing cfg (sh_gateway_override h) token;
          (uid, gid, user) = run_ids h
      in case clamp_memory (spec_memory cfg cw) (dc_max_memory cfg) of
           None \<Rightarrow> None
         | Some limit \<Rightarrow>
             Some \<lparr>cs_name = name, cs_image = spec_image cfg bc, cs_mounts = mounts,
                   cs_env = spawn_env cfg h rt job bc model, cs_user = user,
                   cs_memory_limit = Some limit, cs_cpu_limit = Some (clamp_cpu (spec_cpu cfg cw) (dc_max_cpu cfg)),
                   cs_extra_hosts = er_extra_hosts rt, cs_remove_on_exit = True,
                   cs_entrypoint = Option.bind bc bc_entrypoint,
                   cs_cap_drop = [''ALL''], cs_cap_add = [], cs_security_opt = default_security_opt (sh_linux h),
                   cs_readonly_rootfs = True, cs_tmpfs = default_tmpfs uid gid,
                   cs_pids_limit = Some (dc_pids_limit cfg), cs_memory_swap = None,
                   cs_memory_swappiness = Some 0, cs_ulimits = default_ulimits,
                   cs_network_name = er_network_name rt, cs_dns = er_dns_servers rt,
                   cs_runtime = Some (spec_runtime cfg cw)\<rparr>)"

section \<open>The task snapshot of an agent\<close>

definition snapshot_tasks :: "agent_permissions option \<Rightarrow> string \<Rightarrow> (string \<times> json) list list \<Rightarrow> (string \<times> json) list list" where
  "snapshot_tasks perms folder tasks =
     (if task_manage_others (case perms of Some p \<Rightarrow> p | None \<Rightarrow> default_permissions) then tasks
      else filter (\<lambda>t. obj_get t ''coworkerFolder'' = Some (JStr folder)) tasks)"

definition write_tasks_snapshot ::
  "string \<Rightarrow> string \<Rightarrow> agent_permissions option \<Rightarrow> (string \<times> json) list list option \<Rightarrow> string \<times> json" where
  "write_tasks_snapshot tid folder perms tasks =
     (tid @ ''.'' @ folder @ ''.tasks'',
      JList (map JObj (snapshot_tasks perms folder (case tasks of Some ts \<Rightarrow> ts | None \<Rightarrow> []))))"

end
