(* ===== verification/Sandbox_Runtimes.thy ===== *)
theory Sandbox_Runtimes
  imports Sandbox
begin

text \<open>
  The two runtimes that turn a container specification into what the platform is asked to run:
  \<^verbatim>\<open>src/src/rolemesh/container/docker_runtime.py\<close> (bind strings, translation of bind sources, the API
  configuration, orphan cleanup) and \<^verbatim>\<open>container/k8s_runtime.py\<close> (volume sub-paths, the pod manifest,
  the network policy check, orphan cleanup).

  A raised \<open>ValueError\<close> or \<open>RuntimeError\<close> is the left of a sum. The product of two floats is rounded:
  the rounded product is the argument \<open>fmul\<close>.
\<close>

datatype spawn_error = DockerSocketMount string string | BadMemory string | OutsideDataDir string | BadUser string

section \<open>Docker: binds\<close>

text \<open>\<open>path.rstrip("/\\")\<close>\<close>

definition rstrip_slashes :: "string \<Rightarrow> string" where
  "rstrip_slashes s = rev (dropWhile (\<lambda>c. c = CHR ''/'' \<or> c = CHR 0x5C) (rev s))"

definition is_docker_socket_path :: "string \<Rightarrow> bool" where
  "is_docker_socket_path p = (basename (rstrip_slashes p) = ''docker.sock'')"

definition bind_string :: "volume_mount \<Rightarrow> string" where
  "bind_string m = v_host_path m @ '':'' @ v_container_path m @ '':'' @ (if v_readonly m then ''ro'' else ''rw'')"

definition mounts_to_binds :: "volume_mount list \<Rightarrow> spawn_error + string list" where
  "mounts_to_binds ms =
     (case find (\<lambda>m. is_docker_socket_path (v_host_path m) \<or> is_docker_socket_path (v_container_path m)) ms of
        Some m \<Rightarrow> Inl (DockerSocketMount (v_host_path m) (v_container_path m))
      | None \<Rightarrow> Inr (map bind_string ms))"

definition norm_relative :: "string \<Rightarrow> string \<Rightarrow> pure_path option" where
  "norm_relative p base = relative_to (path_of (normpath p)) (path_of (normpath base))"

definition translate_bind_source :: "string \<Rightarrow> string \<Rightarrow> string \<Rightarrow> string" where
  "translate_bind_source data_dir host_data_dir host_path =
     (if host_data_dir = '''' then host_path
      else case norm_relative host_path data_dir of
             None \<Rightarrow> host_path
           | Some rel \<Rightarrow> path_str (path_div (path_of host_data_dir) rel))"

definition is_under :: "string \<Rightarrow> string \<Rightarrow> bool" where
  "is_under p base = (norm_relative p base \<noteq> None)"

definition translate_mounts :: "string \<Rightarrow> string \<Rightarrow> volume_mount list \<Rightarrow> volume_mount list" where
  "translate_mounts data_dir host_data_dir ms =
     (if host_data_dir = '''' then ms
      else map (\<lambda>m. let src = translate_bind_source data_dir host_data_dir (v_host_path m) in
                    if src = v_host_path m \<and> \<not> is_under (v_host_path m) data_dir then m
                    else m\<lparr>v_host_path := src\<rparr>) ms)"

section \<open>Docker: the API configuration\<close>

record host_config =
  hc_binds :: "string list"
  hc_cap_drop :: "string list"
  hc_cap_add :: "string list"
  hc_security_opt :: "string list"
  hc_readonly_rootfs :: bool
  hc_memory :: "int option"
  hc_memory_swap :: "int option"
  hc_memory_swappiness :: "int option"
  hc_nano_cpus :: "int option"
  hc_extra_hosts :: "string list option"
  hc_tmpfs :: "(string, string) dict option"
  hc_pids_limit :: "int option"
  hc_ulimits :: "(string \<times> int \<times> int) list option"
  hc_network_mode :: "string option"
  hc_dns :: "string list option"
  hc_runtime :: "string option"

record docker_config =
  dk_image :: string
  dk_env :: "string list"
  dk_host_config :: host_config
  dk_streams :: "(string \<times> bool) list"
  dk_user :: "string option"
  dk_entrypoint :: "string list option"

text \<open>An entry of the configuration that is only set for a non-empty value.\<close>

definition unless_empty :: "'a list \<Rightarrow> 'a list option" where
  "unless_empty xs = (if xs = [] then None else Some xs)"

text \<open>\<open>int(x)\<close> on a float truncates.\<close>

definition trunc_rat :: "rat \<Rightarrow> int" where
  "trunc_rat r = (if r < 0 then - \<lfloor>- r\<rfloor> else \<lfloor>r\<rfloor>)"

definition memory_of :: "container_spec \<Rightarrow> spawn_error + int option" where
  "memory_of spec =
     (case or_none (cs_memory_limit spec) of
        None \<Rightarrow> Inr None
      | Some s \<Rightarrow> (case parse_memory s of None \<Rightarrow> Inl (BadMemory s) | Some n \<Rightarrow> Inr (Some n)))"

definition cpu_of :: "(rat \<Rightarrow> rat \<Rightarrow> rat) \<Rightarrow> rat \<Rightarrow> container_spec \<Rightarrow> int option" where
  "cpu_of fmul k spec =
     (case cs_cpu_limit spec of
        Some x \<Rightarrow> if x \<noteq> 0 then Some (trunc_rat (fmul x k)) else None
      | None \<Rightarrow> None)"

definition spec_to_config :: "(rat \<Rightarrow> rat \<Rightarrow> rat) \<Rightarrow> container_spec \<Rightarrow> spawn_error + docker_config" where
  "spec_to_config fmul spec =
     (case mounts_to_binds (cs_mounts spec) of
        Inl e \<Rightarrow> Inl e
      | Inr binds \<Rightarrow>
          (case memory_of spec of
             Inl e \<Rightarrow> Inl e
           | Inr mem \<Rightarrow>
               Inr \<lparr>dk_image = cs_image spec,
                    dk_env = map (\<lambda>(k, v). k @ ''='' @ v) (cs_env spec),
                    dk_host_config =
                      \<lparr>hc_binds = binds, hc_cap_drop = cs_cap_drop spec, hc_cap_add = cs_cap_add spec,
                       hc_security_opt = cs_security_opt spec, hc_readonly_rootfs = cs_readonly_rootfs spec,
                       hc_memory = mem,
                       hc_memory_swap =
                         (if mem = None then None
                          else case cs_memory_swap spec of None \<Rightarrow> mem | Some s \<Rightarrow> Some s),
                       hc_memory_swappiness = cs_memory_swappiness spec,
                       hc_nano_cpus = cpu_of fmul 1000000000 spec,
                       hc_extra_hosts = unless_empty (map (\<lambda>(h, ip). h @ '':'' @ ip) (cs_extra_hosts spec)),
                       hc_tmpfs = unless_empty (cs_tmpfs spec),
                       hc_pids_limit = cs_pids_limit spec,
                       hc_ulimits = unless_empty (cs_ulimits spec),
                       hc_network_mode = or_none (cs_network_name spec),
                       hc_dns = unless_empty (cs_dns spec),
                       hc_runtime = or_none (cs_runtime spec)\<rparr>,
                    dk_streams = [(''Stdin'', False), (''AttachStdin'', False), (''AttachStdout'', False),
                                  (''AttachStderr'', True), (''OpenStdin'', False)],
                    dk_user = or_none (cs_user spec),
                    dk_entrypoint = Option.bind (cs_entrypoint spec) unless_empty\<rparr>))"

text \<open>What a run asks the daemon to create: the translated specification's configuration.\<close>

definition docker_run :: "(rat \<Rightarrow> rat \<Rightarrow> rat) \<Rightarrow> deploy_config \<Rightarrow> container_spec \<Rightarrow> spawn_error + docker_config" where
  "docker_run fmul cfg spec =
     spec_to_config fmul
       (if dc_host_data_dir cfg \<noteq> ''''
        then spec\<lparr>cs_mounts := translate_mounts (dc_data_dir cfg) (dc_host_data_dir cfg) (cs_mounts spec)\<rparr>
        else spec)"

section \<open>Orphan cleanup\<close>

definition image_prefixes :: "string list" where
  "image_prefixes = [''docker.io/library/'', ''docker.io/'', ''index.docker.io/library/'', ''index.docker.io/'']"

definition normalize_image_ref :: "string \<Rightarrow> string" where
  "normalize_image_ref ref =
     (case find (\<lambda>p. is_prefix_of p ref) image_prefixes of
        Some p \<Rightarrow> drop (length p) ref
      | None \<Rightarrow> ref)"

definition lstrip_slash :: "string \<Rightarrow> string" where
  "lstrip_slash s = dropWhile (\<lambda>c. c = CHR ''/'') s"

text \<open>The listed containers, each with its first name and its image; the names removed.\<close>

definition docker_orphans :: "string \<Rightarrow> string list \<Rightarrow> (string \<times> string) list \<Rightarrow> string list" where
  "docker_orphans pre allowed cs =
     map (\<lambda>(n, _). lstrip_slash n)
       (filter (\<lambda>(n, img). is_prefix_of pre (lstrip_slash n) \<and>
                           normalize_image_ref img \<in> set (map normalize_image_ref allowed)) cs)"

definition docker_list_live :: "string \<Rightarrow> (string \<times> string) list \<Rightarrow> string set" where
  "docker_list_live pre cs =
     set (filter (is_prefix_of pre) (map (\<lambda>(n, _). lstrip_slash n) cs))"

definition k8s_orphans :: "string \<Rightarrow> string list \<Rightarrow> (string \<times> string list) list \<Rightarrow> string list" where
  "k8s_orphans pre allowed pods =
     map fst
       (filter (\<lambda>(n, imgs). is_prefix_of pre n \<and>
                  normalize_image_ref (case imgs of [] \<Rightarrow> '''' | i # _ \<Rightarrow> i) \<in> set (map normalize_image_ref allowed)) pods)"

definition k8s_list_live :: "string \<Rightarrow> (string \<times> string) list \<Rightarrow> string set" where
  "k8s_list_live pre pods =
     set (map fst (filter (\<lambda>(n, phase). is_prefix_of pre n \<and> phase = ''Running'') pods))"

section \<open>Kubernetes: the pod manifest\<close>

definition mount_subpath :: "string \<Rightarrow> volume_mount \<Rightarrow> spawn_error + string" where
  "mount_subpath data_dir m =
     (case norm_relative (v_host_path m) data_dir of
        None \<Rightarrow> Inl (OutsideDataDir (v_host_path m))
      | Some rel \<Rightarrow> Inr (path_str rel))"

record security_context =
  sc_run_as_non_root :: bool
  sc_read_only_root :: bool
  sc_allow_privilege_escalation :: bool
  sc_drop :: "string list"
  sc_add :: "string list option"
  sc_seccomp :: string
  sc_run_as_user :: "int option"
  sc_run_as_group :: "int option"

text \<open>\<open>s.partition(":")\<close>, without the separator.\<close>

definition partition_colon :: "string \<Rightarrow> string \<times> string" where
  "partition_colon s = (takeWhile (\<lambda>c. c \<noteq> CHR '':'') s, drop 1 (dropWhile (\<lambda>c. c \<noteq> CHR '':'') s))"

definition run_as :: "string option \<Rightarrow> spawn_error + int option \<times> int option" where
  "run_as user =
     (case or_none user of
        None \<Rightarrow> Inr (None, None)
      | Some s \<Rightarrow>
          (let (u, g) = partition_colon s in
           case int_of_str u of
             None \<Rightarrow> Inl (BadUser s)
           | Some uid \<Rightarrow>
               if g = '''' then Inr (Some uid, None)
               else (case int_of_str g of None \<Rightarrow> Inl (BadUser s) | Some gid \<Rightarrow> Inr (Some uid, Some gid))))"

definition security_context_of :: "container_spec \<Rightarrow> spawn_error + security_context" where
  "security_context_of spec =
     (case run_as (cs_user spec) of
        Inl e \<Rightarrow> Inl e
      | Inr (u, g) \<Rightarrow>
          Inr \<lparr>sc_run_as_non_root = True, sc_read_only_root = cs_readonly_rootfs spec,
               sc_allow_privilege_escalation = False, sc_drop = cs_cap_drop spec,
               sc_add = unless_empty (cs_cap_add spec), sc_seccomp = ''RuntimeDefault'',
               sc_run_as_user = u, sc_run_as_group = g\<rparr>)"

text \<open>
  The size option of a tmpfs: the first comma-separated field \<open>size=\<close> with digits and at most one
  unit letter.
\<close>

definition size_field :: "string \<Rightarrow> string option" where
  "size_field f =
     (if is_prefix_of ''size='' f
      then let raw = drop 5 f;
               digits = takeWhile (\<lambda>c. digit_of c \<noteq> None) raw;
               rest = drop (length digits) raw
           in if digits \<noteq> '''' \<and> rest \<in> {'''', ''b'', ''k'', ''m'', ''g''} then Some raw else None
      else None)"

definition quantity_suffix :: "char \<Rightarrow> string option" where
  "quantity_suffix c =
     (if c = CHR ''b'' then Some '''' else if c = CHR ''k'' then Some ''Ki''
      else if c = CHR ''m'' then Some ''Mi'' else if c = CHR ''g'' then Some ''Gi'' else None)"

definition tmpfs_size_limit :: "string \<Rightarrow> string option" where
  "tmpfs_size_limit options =
     (case List.map_filter size_field (split_at CHR '','' (str_lower options)) of
        [] \<Rightarrow> None
      | raw # _ \<Rightarrow>
          (case quantity_suffix (last raw) of
             Some suf \<Rightarrow> Some (butlast raw @ suf)
           | None \<Rightarrow> Some raw))"

definition slug_char :: "char \<Rightarrow> bool" where
  "slug_char c = (let n = of_char c :: nat in (97 \<le> n \<and> n \<le> 122) \<or> (48 \<le> n \<and> n \<le> 57))"

text \<open>A run of other characters becomes one dash; dashes at both ends are dropped.\<close>

fun slugify :: "bool \<Rightarrow> string \<Rightarrow> string" where
  "slugify in_run [] = []"
| "slugify in_run (c # cs) =
     (if slug_char c then c # slugify False cs
      else if in_run then slugify True cs else CHR ''-'' # slugify True cs)"

definition strip_dashes :: "string \<Rightarrow> string" where
  "strip_dashes s = rev (dropWhile (\<lambda>c. c = CHR ''-'') (rev (dropWhile (\<lambda>c. c = CHR ''-'') s)))"

definition tmpfs_volume_name :: "string \<Rightarrow> string" where
  "tmpfs_volume_name p = ''tmpfs-'' @ strip_dashes (slugify False (str_lower p))"

datatype k8s_volume = ClaimVolume string string | MemoryVolume string "string option"

record k8s_mount =
  km_name :: string
  km_mount_path :: string
  km_read_only :: bool
  km_sub_path :: "string option"

record dns_config =
  dn_nameservers :: "string list"
  dn_searches :: "string list"
  dn_ndots :: string

record pod_manifest =
  pm_name :: string
  pm_namespace :: string
  pm_labels :: "(string, string) dict"
  pm_image :: string
  pm_pull_policy :: string
  pm_env :: "(string, string) dict"
  pm_security :: security_context
  pm_command :: "string list option"
  pm_volume_mounts :: "k8s_mount list"
  pm_memory :: "string option"
  pm_cpu :: "string option"
  pm_restart_policy :: string
  pm_automount_token :: bool
  pm_service_links :: bool
  pm_volumes :: "k8s_volume list"
  pm_dns :: "dns_config option"
  pm_host_aliases :: "(string \<times> string list) list"
  pm_runtime_class :: "string option"
  pm_pull_secret :: "string option"
  pm_node :: "string option"

definition agent_role_label :: string where "agent_role_label = ''rolemesh.io/role''"
definition agent_role_value :: string where "agent_role_value = ''agent''"

definition agent_pod_labels :: "(string, string) dict" where
  "agent_pod_labels = [(agent_role_label, agent_role_value), (''rolemesh.io/managed-by'', ''orchestrator'')]"

fun sub_mounts :: "string \<Rightarrow> volume_mount list \<Rightarrow> spawn_error + k8s_mount list" where
  "sub_mounts data_dir [] = Inr []"
| "sub_mounts data_dir (m # ms) =
     (case mount_subpath data_dir m of
        Inl e \<Rightarrow> Inl e
      | Inr sub \<Rightarrow>
          (case sub_mounts data_dir ms of
             Inl e \<Rightarrow> Inl e
           | Inr ks \<Rightarrow>
               Inr (\<lparr>km_name = ''data'', km_mount_path = v_container_path m, km_read_only = v_readonly m,
                     km_sub_path = (if sub \<noteq> ''.'' then Some sub else None)\<rparr> # ks)))"

definition host_aliases :: "(string, string) dict \<Rightarrow> (string \<times> string list) list" where
  "host_aliases hosts =
     fold (\<lambda>(h, ip) acc. dict_set acc ip (case dict_get acc ip of None \<Rightarrow> [h] | Some hs \<Rightarrow> hs @ [h])) hosts []"

definition cluster_searches :: "string \<Rightarrow> string \<Rightarrow> string list" where
  "cluster_searches namespace domain = [namespace @ ''.svc.'' @ domain, ''svc.'' @ domain, domain]"

definition spec_to_pod_manifest ::
  "(rat \<Rightarrow> rat \<Rightarrow> rat) \<Rightarrow> deploy_config \<Rightarrow> string \<Rightarrow> container_spec \<Rightarrow> spawn_error + pod_manifest" where
  "spec_to_pod_manifest fmul cfg domain spec =
     (case sub_mounts (dc_data_dir cfg) (cs_mounts spec) of
        Inl e \<Rightarrow> Inl e
      | Inr data_mounts \<Rightarrow>
          (case security_context_of spec of
             Inl e \<Rightarrow> Inl e
           | Inr ctx \<Rightarrow>
               (case memory_of spec of
                  Inl e \<Rightarrow> Inl e
                | Inr mem \<Rightarrow>
                    Inr \<lparr>pm_name = cs_name spec, pm_namespace = dc_k8s_namespace cfg, pm_labels = agent_pod_labels,
                         pm_image = cs_image spec, pm_pull_policy = dc_k8s_image_pull_policy cfg,
                         pm_env = cs_env spec, pm_security = ctx,
                         pm_command = Option.bind (cs_entrypoint spec) unless_empty,
                         pm_volume_mounts = data_mounts @
                           map (\<lambda>(p, _). \<lparr>km_name = tmpfs_volume_name p, km_mount_path = p, km_read_only = False,
                                          km_sub_path = None\<rparr>) (cs_tmpfs spec),
                         pm_memory = map_option show_int mem,
                         pm_cpu = map_option (\<lambda>n. show_int n @ ''m'') (cpu_of fmul 1000 spec),
                         pm_restart_policy = ''Never'', pm_automount_token = False, pm_service_links = False,
                         pm_volumes =
                           (if cs_mounts spec = [] then [] else [ClaimVolume ''data'' (dc_k8s_data_pvc cfg)]) @
                           map (\<lambda>(p, opts). MemoryVolume (tmpfs_volume_name p) (tmpfs_size_limit opts)) (cs_tmpfs spec),
                         pm_dns = (if cs_dns spec = [] then None
                                   else Some \<lparr>dn_nameservers = cs_dns spec,
                                              dn_searches = cluster_searches (dc_k8s_namespace cfg) domain,
                                              dn_ndots = ''5''\<rparr>),
                         pm_host_aliases = host_aliases (cs_extra_hosts spec),
                         pm_runtime_class =
                           (if cs_runtime spec = Some ''runsc'' then Some (or_str (dc_k8s_runtime_class cfg) ''gvisor'')
                            else None),
                         pm_pull_secret = or_none (Some (dc_k8s_image_pull_secret cfg)),
                         pm_node = or_none (Some (dc_k8s_agent_pin_node cfg))\<rparr>)))"

text \<open>
  The last look at the gateway address before a pod is created, when the deployment leaves it to be
  discovered: \<open>fresh\<close> is the address read, \<open>None\<close> when reading failed. The result is the
  specification to use and the address remembered.
\<close>

definition refresh_dns ::
  "deploy_config \<Rightarrow> string option \<Rightarrow> string option \<Rightarrow> container_spec \<Rightarrow> container_spec \<times> string option" where
  "refresh_dns cfg override fresh spec =
     (if dc_gateway_dns_ip cfg = '''' \<and> cs_dns spec \<noteq> []
      then case or_none fresh of
             None \<Rightarrow> (spec, override)
           | Some ip \<Rightarrow>
               (if cs_dns spec = [ip] then spec else spec\<lparr>cs_dns := [ip]\<rparr>,
                if ip \<noteq> get_gateway_dns_ip cfg override then Some ip else override)
      else (spec, override))"

definition k8s_run ::
  "(rat \<Rightarrow> rat \<Rightarrow> rat) \<Rightarrow> deploy_config \<Rightarrow> string \<Rightarrow> string option \<Rightarrow> string option \<Rightarrow> container_spec \<Rightarrow>
     (spawn_error + pod_manifest) \<times> string option" where
  "k8s_run fmul cfg domain override fresh spec =
     (let (spec', override') = refresh_dns cfg override fresh spec
      in (spec_to_pod_manifest fmul cfg domain spec', override'))"

section \<open>Kubernetes: the network policy check\<close>

record pod_selector =
  ps_match_expressions :: bool
  ps_match_labels :: "(string, string) dict"

text \<open>A policy as the API returns it, without a selector when it has none.\<close>

type_synonym net_policy = "pod_selector option"

datatype policy_error = PolicyMissing string | NotSelectingAgents string | SelectsAgents string

definition required_agent_policies :: "string list" where
  "required_agent_policies = [''agent-default-deny'', ''agent-allow-egress'']"

definition required_component_policies :: "string list" where
  "required_component_policies = [''gateway-policy'', ''orchestrator-policy'']"

definition selector_matches_agent_pods :: "net_policy \<Rightarrow> bool" where
  "selector_matches_agent_pods p =
     (case p of
        None \<Rightarrow> True
      | Some sel \<Rightarrow>
          if ps_match_expressions sel then False
          else list_all (\<lambda>(k, v). dict_get agent_pod_labels k = Some v) (ps_match_labels sel))"

definition check_network_policy :: "string \<Rightarrow> net_policy \<Rightarrow> policy_error option" where
  "check_network_policy name p =
     (let matches_agents = selector_matches_agent_pods p in
      if name \<in> set required_agent_policies
      then let match_labels = (case p of None \<Rightarrow> [] | Some sel \<Rightarrow> ps_match_labels sel) in
           if dict_get match_labels agent_role_label \<noteq> Some agent_role_value then Some (NotSelectingAgents name)
           else None
      else if matches_agents then Some (SelectsAgents name) else None)"

fun check_policies :: "(string \<Rightarrow> net_policy option) \<Rightarrow> string list \<Rightarrow> policy_error option" where
  "check_policies read [] = None"
| "check_policies read (name # names) =
     (case read name of
        None \<Rightarrow> Some (PolicyMissing name)
      | Some p \<Rightarrow> (case check_network_policy name p of Some e \<Rightarrow> Some e | None \<Rightarrow> check_policies read names))"

definition check_network_policies :: "(string \<Rightarrow> net_policy option) \<Rightarrow> policy_error option" where
  "check_network_policies read = check_policies read (required_agent_policies @ required_component_policies)"

end
