(* ===== verification/Skill_Projection.thy ===== *)
theory Skill_Projection
  imports Sandbox
begin

text \<open>
  The projection of a coworker's skills into the directory of a spawn
  (\<^verbatim>\<open>src/src/rolemesh/container/skill_projection.py\<close>, with the validators and the merge of
  \<^verbatim>\<open>core/skills.py\<close>) and the list of mounts the executor hands to the container specification
  (\<^verbatim>\<open>agent/container_executor.py\<close>).

  The file system answers three questions (is a path a symbolic link, does it exist, what does it
  resolve to) and refuses the operations it refuses with an \<open>OSError\<close>; the names of the skills of a
  tenant are distinct, so every question is asked of a path no earlier operation of the projection
  has changed. The operations attempted are recorded in order. \<open>yaml.safe_dump\<close> is a parameter.
\<close>

section \<open>Validators\<close>

definition reserved_skill_names :: "string list" where
  "reserved_skill_names = [''anthropic'', ''claude'']"

text \<open>\<open>re.match\<close> with a final \<open>$\<close> also accepts one newline at the end.\<close>

definition or_newline :: "(string \<Rightarrow> bool) \<Rightarrow> string \<Rightarrow> bool" where
  "or_newline pat s = (pat s \<or> (s \<noteq> [] \<and> last s = CHR 0x0A \<and> pat (butlast s)))"

definition lower_alnum :: "char \<Rightarrow> bool" where
  "lower_alnum c = (let n = of_char c :: nat in (48 \<le> n \<and> n \<le> 57) \<or> (97 \<le> n \<and> n \<le> 122))"

definition skill_name_pattern :: "string \<Rightarrow> bool" where
  "skill_name_pattern s =
     (case s of
        [] \<Rightarrow> False
      | c # cs \<Rightarrow> lower_alnum c \<and> length cs \<le> 63 \<and> list_all (\<lambda>x. lower_alnum x \<or> x = CHR ''-'') cs)"

definition validate_skill_name :: "string \<Rightarrow> bool" where
  "validate_skill_name s = (or_newline skill_name_pattern s \<and> s \<notin> set reserved_skill_names)"

definition segment_pattern :: "string \<Rightarrow> bool" where
  "segment_pattern s =
     (case s of
        [] \<Rightarrow> False
      | c # cs \<Rightarrow> (alnum c \<or> c = CHR ''_'') \<and>
                 list_all (\<lambda>x. alnum x \<or> x \<in> {CHR ''_'', CHR ''.'', CHR ''-''}) cs)"

definition file_path_pattern :: "string \<Rightarrow> bool" where
  "file_path_pattern s = list_all segment_pattern (split_at CHR ''/'' s)"

definition dot_segment :: "string \<Rightarrow> bool" where
  "dot_segment s =
     (let dots = (\<lambda>x. x \<noteq> [] \<and> list_all (\<lambda>c. c = CHR ''.'') x); segs = split_at CHR ''/'' s
      in list_ex dots segs \<or> or_newline dots (last segs))"

definition validate_skill_file_path :: "string \<Rightarrow> bool" where
  "validate_skill_file_path s =
     (if s = [] then False else if \<not> or_newline file_path_pattern s then False else \<not> dot_segment s)"

section \<open>The manifest of a skill\<close>

definition skill_manifest_name :: string where "skill_manifest_name = ''SKILL.md''"

definition known_backends :: "string list" where "known_backends = [''claude'', ''pi'']"

definition merge_frontmatter_for_backend ::
  "(string, json) dict \<Rightarrow> (string, (string, json) dict) dict \<Rightarrow> string \<Rightarrow> (string, json) dict option" where
  "merge_frontmatter_for_backend common backend target =
     (if target \<notin> set known_backends then None
      else Some (dict_update common (case map_of backend target of Some d \<Rightarrow> d | None \<Rightarrow> [])))"

definition serialize_skill_md :: "((string, json) dict \<Rightarrow> string) \<Rightarrow> (string, json) dict \<Rightarrow> string \<Rightarrow> string" where
  "serialize_skill_md dump merged body =
     ''---'' @ [CHR 0x0A] @ rev (dropWhile (\<lambda>c. c = CHR 0x0A) (rev (dump merged))) @
     [CHR 0x0A] @ ''---'' @ [CHR 0x0A] @ body"

section \<open>Operations on the disk\<close>

datatype disk_op =
    Mkdir pure_path
  | Chmod pure_path nat
  | Rmtree pure_path
  | WriteText pure_path string
  | Replace pure_path pure_path
  | Rename pure_path pure_path
  | Rmdir pure_path

datatype projection_error = SkillValidationError | OsError | QueryError

record host_disk =
  hd_symlink :: "pure_path \<Rightarrow> bool"
  hd_exists :: "pure_path \<Rightarrow> bool"
  hd_resolve :: "pure_path \<Rightarrow> pure_path"
  hd_refuses :: "disk_op \<Rightarrow> bool"

type_synonym 'a projection = "(projection_error + 'a) \<times> disk_op list"

definition op_do :: "host_disk \<Rightarrow> disk_op \<Rightarrow> unit projection" where
  "op_do d x = (if hd_refuses d x then Inl OsError else Inr (), [x])"

definition op_guard :: "bool \<Rightarrow> unit projection" where
  "op_guard b = (if b then Inr () else Inl SkillValidationError, [])"

definition op_then :: "unit projection \<Rightarrow> 'a projection \<Rightarrow> 'a projection" where
  "op_then p q = (case fst p of Inl e \<Rightarrow> (Inl e, snd p) | Inr _ \<Rightarrow> (fst q, snd p @ snd q))"

definition op_seq :: "unit projection list \<Rightarrow> unit projection" where
  "op_seq ps = foldr op_then ps (Inr (), [])"

definition op_when :: "bool \<Rightarrow> unit projection \<Rightarrow> unit projection" where
  "op_when b p = (if b then p else (Inr (), []))"

section \<open>The projection\<close>

definition spawn_root :: "deploy_config \<Rightarrow> pure_path" where
  "spawn_root cfg = path_join (path_of (dc_data_dir cfg)) ''spawns''"

definition spawn_skills_dir :: "deploy_config \<Rightarrow> string \<Rightarrow> pure_path" where
  "spawn_skills_dir cfg job = path_join (path_join (spawn_root cfg) job) ''skills''"

definition path_parent :: "pure_path \<Rightarrow> pure_path" where
  "path_parent p = PurePath (pp_root p) (butlast (pp_parts p))"

text \<open>The walk from a path up to a root it lies under; \<open>False\<close> is the refusal.\<close>

fun verify_parts :: "host_disk \<Rightarrow> string \<Rightarrow> string list \<Rightarrow> pure_path \<Rightarrow> bool" where
  "verify_parts d r rparts stop =
     (let p = PurePath r (rev rparts) in
      if p = stop then True
      else case rparts of
             [] \<Rightarrow> True
           | _ # rest \<Rightarrow> if hd_symlink d p then False else verify_parts d r rest stop)"

definition verify_no_symlink :: "host_disk \<Rightarrow> pure_path \<Rightarrow> pure_path \<Rightarrow> bool" where
  "verify_no_symlink d p stop = verify_parts d (pp_root p) (rev (pp_parts p)) stop"

definition resolved_path_inside :: "host_disk \<Rightarrow> pure_path \<Rightarrow> pure_path \<Rightarrow> bool" where
  "resolved_path_inside d stop target = (relative_to (hd_resolve d target) (hd_resolve d stop) \<noteq> None)"

text \<open>\<open>target.with_suffix(target.suffix + ".tmp")\<close> appends to the name.\<close>

definition tmp_path :: "pure_path \<Rightarrow> pure_path" where
  "tmp_path p = PurePath (pp_root p) (butlast (pp_parts p) @ [path_name p @ ''.tmp''])"

definition skill_content ::
  "((string, json) dict \<Rightarrow> string) \<Rightarrow> skill \<Rightarrow> string \<Rightarrow> string \<Rightarrow> skill_file \<Rightarrow> string option" where
  "skill_content dump sk backend name f =
     (if name = skill_manifest_name
      then map_option (\<lambda>m. serialize_skill_md dump m (sf_content f))
             (merge_frontmatter_for_backend (sk_frontmatter_common sk) (sk_frontmatter_backend sk) backend)
      else Some (sf_content f))"

definition write_skill_file ::
  "host_disk \<Rightarrow> ((string, json) dict \<Rightarrow> string) \<Rightarrow> skill \<Rightarrow> string \<Rightarrow> pure_path \<Rightarrow> string \<times> skill_file \<Rightarrow> unit projection" where
  "write_skill_file d dump sk backend partial entry =
     (let name = fst entry; target = path_join partial name; tmp = tmp_path target in
      op_then (op_guard (validate_skill_file_path name))
        (op_then (op_do d (Mkdir (path_parent target)))
          (op_then (op_guard (resolved_path_inside d partial target))
            (op_then (op_guard (verify_no_symlink d (path_parent target) partial))
              (case skill_content dump sk backend name (snd entry) of
                 None \<Rightarrow> (Inl SkillValidationError, [])
               | Some content \<Rightarrow>
                   op_seq [op_do d (WriteText tmp content), op_do d (Chmod tmp 0x1A4), op_do d (Replace tmp target)])))))"

definition materialize_one_skill ::
  "host_disk \<Rightarrow> ((string, json) dict \<Rightarrow> string) \<Rightarrow> string \<Rightarrow> pure_path \<Rightarrow> pure_path \<Rightarrow> skill \<Rightarrow> unit projection" where
  "materialize_one_skill d dump backend partial_root final_root sk =
     op_then (op_guard (validate_skill_name (sk_name sk)))
       (let partial = path_join partial_root (sk_name sk); final = path_join final_root (sk_name sk) in
        op_seq
          ([op_guard (\<not> hd_symlink d partial),
            op_when (hd_exists d partial) (op_do d (Rmtree partial)),
            op_do d (Mkdir partial),
            op_guard (skill_manifest_name \<in> fst ` set (sk_files sk))] @
           map (write_skill_file d dump sk backend partial) (sk_files sk) @
           [op_guard (\<not> hd_symlink d final),
            op_when (hd_exists d final) (op_do d (Rmtree final)),
            op_do d (Rename partial final)]))"

definition container_targets :: "(string, string) dict" where
  "container_targets = [(''claude'', ''/home/agent/.claude/skills''), (''pi'', ''/home/agent/.pi/skills'')]"

text \<open>The query of the skills raises (\<open>Inl\<close>) or returns the enabled ones. A refused removal of the
  empty partial directory at the end is only logged.\<close>

definition materialize_skills_for_spawn ::
  "deploy_config \<Rightarrow> host_disk \<Rightarrow> ((string, json) dict \<Rightarrow> string) \<Rightarrow> unit + skill list \<Rightarrow> string \<Rightarrow> string \<Rightarrow>
     volume_mount option projection" where
  "materialize_skills_for_spawn cfg d dump skills job backend =
     (case map_of container_targets backend of
        None \<Rightarrow> (Inl SkillValidationError, [])
      | Some target \<Rightarrow>
          (case skills of
             Inl _ \<Rightarrow> (Inl QueryError, [])
           | Inr [] \<Rightarrow> (Inr None, [])
           | Inr sks \<Rightarrow>
               (let build = spawn_skills_dir cfg job; partial = path_join build ''.partial'';
                    parent = path_join (spawn_root cfg) job
                in op_then
                     (op_seq
                        ([op_do d (Mkdir (spawn_root cfg)),
                          op_guard (\<not> hd_symlink d parent \<and> \<not> hd_symlink d (spawn_root cfg)),
                          op_do d (Mkdir parent),
                          op_do d (Chmod parent 0x1C9),
                          op_guard (\<not> hd_symlink d build),
                          op_when (hd_exists d build) (op_do d (Rmtree build)),
                          op_do d (Mkdir build),
                          op_do d (Mkdir partial)] @
                         map (materialize_one_skill d dump backend partial build) sks))
                     (Inr (Some \<lparr>v_host_path = path_str build, v_container_path = target, v_readonly = True\<rparr>),
                      [Rmdir partial]))))"

section \<open>The mounts of a spawn\<close>

text \<open>The executor creates the coworker's directory, builds the volume mounts and appends the one of
  the projected skills; a failed projection is logged and the container starts without skills. What
  the two steps do to the disk is returned separately.\<close>

definition spawn_mounts ::
  "deploy_config \<Rightarrow> host_fs \<Rightarrow> (string \<Rightarrow> bool) \<Rightarrow> allowlist_file \<Rightarrow> host_disk \<Rightarrow> ((string, json) dict \<Rightarrow> string) \<Rightarrow>
     unit + skill list \<Rightarrow> coworker \<Rightarrow> string \<Rightarrow> string \<Rightarrow> string \<Rightarrow> agent_backend_config \<Rightarrow> mount_cache \<Rightarrow>
     (mount_exn + volume_mount list) \<times> fs_effect list \<times> disk_op list \<times> mount_cache" where
  "spawn_mounts cfg fs fexists file d dump skills cw tid conv job bc c =
     (let cdir = MakeDirs (path_str (coworker_dir cfg tid cw)) in
      case build_volume_mounts cfg fs fexists file cw tid conv (Some bc) c of
        (Inl e, effects, c') \<Rightarrow> (Inl e, cdir # effects, [], c')
      | (Inr ms, effects, c') \<Rightarrow>
          (case materialize_skills_for_spawn cfg d dump skills job (bc_name bc) of
             (Inr (Some m), ops) \<Rightarrow> (Inr (ms @ [m]), cdir # effects, ops, c')
           | (_, ops) \<Rightarrow> (Inr ms, cdir # effects, ops, c')))"

section \<open>Where the projection writes\<close>

primrec op_paths :: "disk_op \<Rightarrow> pure_path list" where
  "op_paths (Mkdir p) = [p]"
| "op_paths (Chmod p m) = [p]"
| "op_paths (Rmtree p) = [p]"
| "op_paths (WriteText p s) = [p]"
| "op_paths (Replace p q) = [p, q]"
| "op_paths (Rename p q) = [p, q]"
| "op_paths (Rmdir p) = [p]"

text \<open>A path below the skills directory of a spawn, given by what follows it.\<close>

definition skills_path :: "deploy_config \<Rightarrow> string \<Rightarrow> string list \<Rightarrow> pure_path" where
  "skills_path cfg job rest =
     (let d = path_of (dc_data_dir cfg) in PurePath (pp_root d) (pp_parts d @ [''spawns'', job, ''skills''] @ rest))"

definition in_skills :: "deploy_config \<Rightarrow> string \<Rightarrow> pure_path \<Rightarrow> bool" where
  "in_skills cfg job p \<longleftrightarrow> (\<exists>rest. p = skills_path cfg job rest \<and> ''..'' \<notin> set rest)"

text \<open>The names of a skill and of its files, once validated, neither are absolute nor climb.\<close>

lemma file_path_relative: "validate_skill_file_path s \<Longrightarrow> root_of s = ''''"
proof -
  assume "validate_skill_file_path s"
  then have s: "s \<noteq> []" and pat: "or_newline file_path_pattern s" by (auto simp: validate_skill_file_path_def split: if_splits)
  have no: "\<not> file_path_pattern (CHR ''/'' # t)" "\<not> file_path_pattern []" for t
    by (simp_all add: file_path_pattern_def segment_pattern_def)
  have "s \<noteq> CHR ''/'' # t" for t
    using pat no by (cases "t = []") (auto simp: or_newline_def)
  then show ?thesis using s by (cases s) (auto simp: root_of_def)
qed

lemma file_path_no_climb: "validate_skill_file_path s \<Longrightarrow> ''..'' \<notin> set (pp_parts (path_of s))"
  by (auto simp: validate_skill_file_path_def path_of_def dot_segment_def Let_def list_ex_iff split: if_splits)

lemma skill_name_part: "validate_skill_name s \<Longrightarrow> part_ok s \<and> s \<noteq> ''..''"
proof -
  have pat: "part_ok t \<and> t \<noteq> ''..'' \<and> CHR ''/'' \<notin> set t" if "skill_name_pattern t" for t
    using that by (auto simp: skill_name_pattern_def part_ok_def lower_alnum_def list_all_iff Let_def split: list.splits)
  assume "validate_skill_name s"
  then have "skill_name_pattern s \<or> s \<noteq> [] \<and> last s = CHR 0x0A \<and> skill_name_pattern (butlast s)"
    by (auto simp: validate_skill_name_def or_newline_def)
  then show ?thesis
  proof
    assume nl: "s \<noteq> [] \<and> last s = CHR 0x0A \<and> skill_name_pattern (butlast s)"
    then obtain t where s: "s = t @ [CHR 0x0A]" and t: "skill_name_pattern t"
      by (metis append_butlast_last_id)
    have "s \<noteq> ''.'' \<and> s \<noteq> ''..''" using nl by auto
    then show ?thesis using s pat [OF t] by (auto simp: part_ok_def)
  qed (use pat in blast)
qed

lemma path_join_plain: "part_ok p \<Longrightarrow> path_join q p = PurePath (pp_root q) (pp_parts q @ [p])"
  using path_of_join [of "[p]" "''''"] by (simp add: path_join_def path_div_def join_with_def)

lemma skills_path_join: "part_ok x \<Longrightarrow> path_join (skills_path cfg job rest) x = skills_path cfg job (rest @ [x])"
  by (simp add: skills_path_def Let_def path_join_plain)

lemma spawn_parts: "part_ok ''spawns''" "part_ok ''skills''" "part_ok ''.partial''"
  by (simp_all add: part_ok_def)

lemma spawn_skills_dir_eq: "part_ok job \<Longrightarrow> spawn_skills_dir cfg job = skills_path cfg job []"
  by (simp add: spawn_skills_dir_def spawn_root_def skills_path_def Let_def path_join_plain spawn_parts)

lemma skills_path_ok: "part_ok job \<Longrightarrow> list_all part_ok rest \<Longrightarrow> path_ok (skills_path cfg job rest)"
  using path_of_ok [of "dc_data_dir cfg"] by (simp add: skills_path_def Let_def path_ok_def spawn_parts)

lemma in_skillsI: "''..'' \<notin> set rest \<Longrightarrow> in_skills cfg job (skills_path cfg job rest)"
  by (auto simp: in_skills_def)

section \<open>Operations attempted\<close>

lemma ops_then: "x \<in> set (snd (op_then p q)) \<Longrightarrow> x \<in> set (snd p) \<or> (\<not> isl (fst p) \<and> x \<in> set (snd q))"
  by (auto simp: op_then_def split: sum.splits)

lemma ops_guard_then: "x \<in> set (snd (op_then (op_guard b) q)) \<Longrightarrow> b \<and> x \<in> set (snd q)"
  by (auto simp: op_guard_def op_then_def split: if_splits)

lemma ops_seq: "x \<in> set (snd (op_seq ps)) \<Longrightarrow> x \<in> set (concat (map snd ps))"
  unfolding op_seq_def by (induction ps) (auto dest: ops_then)

lemma ops_simps [simp]:
  "snd (op_do d x) = [x]" "snd (op_guard b) = []" "set (snd (op_when b p)) = (if b then set (snd p) else {})"
  by (simp_all add: op_do_def op_guard_def op_when_def)

lemma write_ops:
  assumes x: "x \<in> set (snd (write_skill_file d dump sk backend (skills_path cfg job (r # rest)) entry))"
    and clean: "''..'' \<notin> set (r # rest)" and p: "p \<in> set (op_paths x)"
  shows "in_skills cfg job p"
proof -
  let ?top = "skills_path cfg job (r # rest)" and ?n = "fst entry"
  have ok: "validate_skill_file_path ?n"
    using x by (auto simp: write_skill_file_def Let_def dest: ops_guard_then)
  define parts where "parts = pp_parts (path_of ?n)"
  have parts: "''..'' \<notin> set parts" using file_path_no_climb [OF ok] parts_def by simp
  have "pp_root (path_of ?n) = ''''" using file_path_relative [OF ok] by (simp add: path_of_def)
  then have target: "path_join ?top ?n = skills_path cfg job (r # rest @ parts)"
    by (simp add: path_join_def path_div_def skills_path_def Let_def parts_def)
  let ?t = "path_join ?top ?n"
  have parent: "path_parent ?t = skills_path cfg job (butlast (r # rest @ parts))"
    unfolding target by (simp add: path_parent_def skills_path_def Let_def butlast_append)
  have tmp: "tmp_path ?t = skills_path cfg job (butlast (r # rest @ parts) @ [path_name ?t @ ''.tmp''])"
    unfolding target by (simp add: tmp_path_def skills_path_def Let_def butlast_append)
  have none: "''..'' \<notin> set (r # rest @ parts)" using clean parts by simp
  have "path_name ?t @ ''.tmp'' \<noteq> ''..''" by (cases "path_name ?t" rule: rev_cases) auto
  then have "in_skills cfg job (tmp_path ?t)"
    unfolding tmp using none by (intro in_skillsI) (auto dest: in_set_butlastD)
  moreover have "in_skills cfg job (path_parent ?t)"
    unfolding parent using none by (intro in_skillsI) (auto dest: in_set_butlastD split: if_splits)
  moreover have "in_skills cfg job ?t" unfolding target using none by (intro in_skillsI) simp
  moreover have "x = Mkdir (path_parent ?t) \<or>
      (\<exists>content. x \<in> {WriteText (tmp_path ?t) content, Chmod (tmp_path ?t) 0x1A4, Replace (tmp_path ?t) ?t})"
    using x by (auto simp: write_skill_file_def Let_def dest!: ops_then ops_seq split: option.splits)
  ultimately show ?thesis using p by auto
qed

lemma one_skill_ops:
  assumes x: "x \<in> set (snd (materialize_one_skill d dump backend (skills_path cfg job [''.partial'']) (skills_path cfg job []) sk))"
    and p: "p \<in> set (op_paths x)"
  shows "in_skills cfg job p"
proof -
  let ?n = "sk_name sk"
  have name: "part_ok ?n" "?n \<noteq> ''..''"
    using ops_guard_then [OF x [unfolded materialize_one_skill_def]] skill_name_part by blast+
  have paths: "path_join (skills_path cfg job [''.partial'']) ?n = skills_path cfg job [''.partial'', ?n]"
    "path_join (skills_path cfg job []) ?n = skills_path cfg job [?n]"
    using skills_path_join [OF name(1)] by simp_all
  have "in_skills cfg job (skills_path cfg job [''.partial'', ?n])" "in_skills cfg job (skills_path cfg job [?n])"
    using name by (auto intro!: in_skillsI)
  then show ?thesis
    using x p write_ops [of x d dump sk backend cfg job "''.partial''" "[?n]" _ p] name
    by (auto simp: materialize_one_skill_def Let_def paths dest!: ops_then ops_seq split: if_splits)
qed

text \<open>Whatever the rows of the skills hold, the projection touches the disk only inside the skills
  directory of its own spawn, apart from creating that spawn's directory and the directory of all
  spawns.\<close>

lemma projection_confined:
  assumes job: "part_ok job"
    and x: "x \<in> set (snd (materialize_skills_for_spawn cfg d dump skills job backend))" and p: "p \<in> set (op_paths x)"
  shows "in_skills cfg job p \<or> x \<in> {Mkdir (spawn_root cfg), Mkdir (path_join (spawn_root cfg) job),
           Chmod (path_join (spawn_root cfg) job) 0x1C9}"
proof -
  have dirs: "spawn_skills_dir cfg job = skills_path cfg job []"
    "path_join (skills_path cfg job []) ''.partial'' = skills_path cfg job [''.partial'']"
    using spawn_skills_dir_eq [OF job] skills_path_join [of "''.partial''"] spawn_parts by simp_all
  have "in_skills cfg job (skills_path cfg job [])" "in_skills cfg job (skills_path cfg job [''.partial''])"
    by (auto intro!: in_skillsI)
  then show ?thesis
    using x p one_skill_ops [of x d dump backend cfg job _ p]
    by (auto simp: materialize_skills_for_spawn_def Let_def dirs dest!: ops_then ops_seq
        split: option.splits sum.splits list.splits if_splits) blast+
qed

lemma projection_mount:
  assumes "part_ok job" and "fst (materialize_skills_for_spawn cfg d dump skills job backend) = Inr (Some m)"
  shows "path_of (v_host_path m) = skills_path cfg job [] \<and> v_readonly m \<and>
         map_of container_targets backend = Some (v_container_path m) \<and>
         (\<exists>sks. skills = Inr sks \<and> sks \<noteq> [])"
proof -
  have "path_of (path_str (skills_path cfg job [])) = skills_path cfg job []"
    using path_of_str skills_path_ok [OF assms(1), of "[]"] by simp
  then show ?thesis
    using assms(2)
    by (auto simp: materialize_skills_for_spawn_def Let_def op_then_def spawn_skills_dir_eq [OF assms(1)]
        split: option.splits sum.splits list.splits)
qed

end
