(* ===== verification/Sandbox_Props.thy ===== *)
theory Sandbox_Props
  imports Sandbox_Runtimes Skill_Projection
begin

text \<open>
  What the sandbox guarantees: which directories a container sees, which limits and privileges the
  two runtimes give it, that the runtimes agree on both, and where a check lets more through than
  it means to.
\<close>

declare show_nat.simps [simp del]

section \<open>Numbers printed and read back\<close>

lemma show_nat_cases:
  "n < 10 \<and> show_nat n = [char_of (48 + n)] \<or>
   \<not> n < 10 \<and> show_nat n = show_nat (n div 10) @ [char_of (48 + n mod 10)]"
  by (subst (1 2) show_nat.simps) auto

lemma show_nat_digits: "c \<in> set (show_nat n) \<Longrightarrow> digit_of c \<noteq> None"
proof (induction n rule: less_induct)
  case (less n)
  have last: "digit_of (char_of (48 + n mod 10)) \<noteq> None" using digit_of_char(1) [of "n mod 10"] by simp
  from show_nat_cases [of n] show ?case
  proof
    assume "n < 10 \<and> show_nat n = [char_of (48 + n)]"
    then show ?thesis using less.prems digit_of_char by auto
  next
    assume n: "\<not> n < 10 \<and> show_nat n = show_nat (n div 10) @ [char_of (48 + n mod 10)]"
    then have "c \<in> set (show_nat (n div 10)) \<or> c = char_of (48 + n mod 10)" using less.prems by auto
    then show ?thesis using less.IH [of "n div 10"] n last by auto
  qed
qed

lemma show_nat_not_Nil [simp]: "show_nat n \<noteq> []"
  using show_nat_cases [of n] by auto

lemma digit_plain: "digit_of c \<noteq> None \<Longrightarrow> \<not> is_space c \<and> c \<noteq> CHR ''-'' \<and> c \<noteq> CHR ''+'' \<and> c \<noteq> CHR '':''"
  by (auto simp: digit_of_def is_space_def Let_def split: if_splits)

lemma str_strip_plain: "\<forall>c \<in> set s. \<not> is_space c \<Longrightarrow> str_strip s = s"
proof -
  assume *: "\<forall>c \<in> set s. \<not> is_space c"
  have "dropWhile is_space t = t" if "\<forall>c \<in> set t. \<not> is_space c" for t using that by (cases t) auto
  from this [of s] this [of "rev s"] show ?thesis using * by (simp add: str_strip_def)
qed

lemma int_of_show_nat: "int_of_str (show_nat n) = Some (int n)"
proof -
  obtain c cs where cs: "show_nat n = c # cs" by (meson list.exhaust show_nat_not_Nil)
  then have "c \<noteq> CHR ''-''" "c \<noteq> CHR ''+''" using show_nat_digits [of c n] digit_plain by auto
  moreover have "str_strip (show_nat n) = show_nat n"
    using str_strip_plain show_nat_digits digit_plain by blast
  moreover have "int_digits False 0 (show_nat n) = Some n" using int_digits_show [of False 0 n "[]"] by simp
  ultimately show ?thesis using cs by (simp add: int_of_str_def)
qed

lemma int_of_show_int: "int_of_str (show_int i) = Some i"
proof (cases "i < 0")
  case True
  have "\<not> is_space CHR ''-''" by (simp add: is_space_def)
  then have "str_strip (CHR ''-'' # show_nat (nat (- i))) = CHR ''-'' # show_nat (nat (- i))"
    using str_strip_plain [of "CHR ''-'' # show_nat (nat (- i))"] show_nat_digits digit_plain
    by simp
  moreover have "int_digits False 0 (show_nat (nat (- i))) = Some (nat (- i))"
    using int_digits_show [of False 0 "nat (- i)" "[]"] by simp
  ultimately show ?thesis using True by (simp add: show_int_def int_of_str_def)
qed (simp add: show_int_def int_of_show_nat)

lemma show_int_no_colon: "CHR '':'' \<notin> set (show_int i)"
  using show_nat_digits digit_plain by (auto simp: show_int_def)

lemma show_int_not_Nil [simp]: "show_int i \<noteq> []"
  by (simp add: show_int_def)

lemma partition_user: "partition_colon (show_int u @ CHR '':'' # show_int g) = (show_int u, show_int g)"
proof -
  have "\<forall>c \<in> set (show_int u). c \<noteq> CHR '':''" using show_int_no_colon by metis
  then show ?thesis by (simp add: partition_colon_def)
qed

lemma run_as_user: "run_as (Some (show_int u @ '':'' @ show_int g)) = Inr (Some u, Some g)"
  by (simp add: run_as_def or_none_def partition_user int_of_show_int)

section \<open>Which directories a container sees\<close>

lemma alnum_plain: "alnum c \<Longrightarrow> c \<noteq> CHR ''/'' \<and> c \<noteq> CHR ''.'' \<and> \<not> is_space c"
  by (auto simp: alnum_def is_space_def Let_def)

lemma folder_pattern_part: "folder_pattern s \<Longrightarrow> part_ok s \<and> s \<noteq> ''..''"
proof (cases s)
  case (Cons c cs)
  assume "folder_pattern s"
  then have c: "alnum c" and cs: "\<forall>x \<in> set cs. alnum x \<or> x = CHR ''_'' \<or> x = CHR ''-''"
    using Cons by (auto simp: folder_pattern_def list_all_iff)
  then have "CHR ''/'' \<notin> set s" "c \<noteq> CHR ''.''" using Cons alnum_plain by auto
  then show ?thesis using Cons by (auto simp: part_ok_def)
qed (simp add: folder_pattern_def)

lemma valid_group_folder_pattern: "is_valid_group_folder s \<Longrightarrow> folder_pattern s"
proof -
  assume valid: "is_valid_group_folder s"
  have "\<not> is_space (last s)" if "str_strip s = s" "s \<noteq> []"
  proof -
    let ?t = "dropWhile is_space (rev (dropWhile is_space s))"
    have s: "s = rev ?t" using that(1) by (simp add: str_strip_def)
    have t: "?t \<noteq> []" using that(2) s by (metis rev.simps(1))
    then have "last s = hd ?t" using s last_rev by metis
    then show ?thesis using hd_dropWhile t by metis
  qed
  moreover have "is_space (CHR 0x0A)" by (simp add: is_space_def)
  ultimately show ?thesis using valid by (metis is_valid_group_folder_def folder_match_def)
qed

lemma path_of_part: "part_ok p \<Longrightarrow> path_of p = PurePath '''' [p]"
  using path_of_join [of "[p]" "''''"] by (simp add: join_with_def)

lemma path_join_part: "part_ok p \<Longrightarrow> path_join q p = PurePath (pp_root q) (pp_parts q @ [p])"
  by (simp add: path_join_def path_div_def path_of_part)

text \<open>A single name that is a directory of its own: the identifiers and folders of the deployment.\<close>

definition plain_name :: "string \<Rightarrow> bool" where
  "plain_name s = (part_ok s \<and> s \<noteq> ''..'')"

text \<open>A path inside the directory of a tenant, given by what follows it.\<close>

definition tenant_path :: "deploy_config \<Rightarrow> string \<Rightarrow> string list \<Rightarrow> pure_path" where
  "tenant_path cfg tid rest =
     (let d = path_of (dc_data_dir cfg) in PurePath (pp_root d) (pp_parts d @ [''tenants'', tid] @ rest))"

lemma known_parts:
  "part_ok ''workspace''" "part_ok ''shared''" "part_ok ''sessions''" "part_ok ''logs''" "part_ok ''.claude''"
  "part_ok ''settings.json''" "part_ok ''coworkers''" "part_ok ''tenants''"
  by (simp_all add: part_ok_def)

lemma tenant_path_ok: "part_ok tid \<Longrightarrow> list_all part_ok rest \<Longrightarrow> path_ok (tenant_path cfg tid rest)"
  using path_of_ok [of "dc_data_dir cfg"] by (simp add: tenant_path_def Let_def path_ok_def known_parts)

lemma tenant_path_join: "part_ok x \<Longrightarrow> path_join (tenant_path cfg tid rest) x = tenant_path cfg tid (rest @ [x])"
  by (simp add: tenant_path_def Let_def path_join_part)

lemma tenant_dir_eq: "part_ok tid \<Longrightarrow> tenant_dir cfg tid = tenant_path cfg tid []"
  by (simp add: tenant_dir_def tenant_path_def Let_def path_join_part known_parts)

lemma coworker_dir_eq:
  "part_ok tid \<Longrightarrow> part_ok (c_folder cw) \<Longrightarrow>
   coworker_dir cfg tid cw = tenant_path cfg tid [''coworkers'', c_folder cw]"
  by (simp add: coworker_dir_def tenant_dir_eq tenant_path_join known_parts)

lemmas dir_simps = tenant_dir_eq coworker_dir_eq tenant_path_join known_parts path_of_str tenant_path_ok

definition in_coworker :: "deploy_config \<Rightarrow> string \<Rightarrow> string \<Rightarrow> string \<Rightarrow> bool" where
  "in_coworker cfg tid folder p \<longleftrightarrow>
     (\<exists>rest. path_of p = tenant_path cfg tid ([''coworkers'', folder] @ rest) \<and> ''..'' \<notin> set rest)"

lemma in_coworkerI:
  "part_ok tid \<Longrightarrow> part_ok folder \<Longrightarrow> list_all part_ok rest \<Longrightarrow> ''..'' \<notin> set rest \<Longrightarrow>
   in_coworker cfg tid folder (path_str (tenant_path cfg tid (''coworkers'' # folder # rest)))"
  by (auto simp: in_coworker_def dir_simps)

lemma base_mounts_confined:
  assumes "plain_name tid" "plain_name (c_folder cw)" "plain_name conv"
    and "base_mounts cfg fexists cw tid conv = (ms, effects)"
  shows "m \<in> set ms \<Longrightarrow>
      in_coworker cfg tid (c_folder cw) (v_host_path m) \<or>
      path_of (v_host_path m) = tenant_path cfg tid [''shared''] \<and> v_readonly m"
    and "MakeDirs p \<in> set effects \<or> WriteJson p j \<in> set effects \<Longrightarrow> in_coworker cfg tid (c_folder cw) p"
  using assms
  by (auto simp: base_mounts_def Let_def dir_simps plain_name_def split: if_splits intro!: in_coworkerI)

lemma backend_mounts_from:
  "m \<in> set (backend_mounts bc ms) \<Longrightarrow> \<forall>b. bc = Some b \<longrightarrow> bc_extra_mounts b = [] \<Longrightarrow> m \<in> set ms"
  by (auto simp: backend_mounts_def split: option.splits if_splits)

lemma built_from:
  assumes "build_volume_mounts cfg fs fexists file cw tid conv bc c = (Inr ms, effects, c')" and "m \<in> set ms"
    and "\<forall>b. bc = Some b \<longrightarrow> bc_extra_mounts b = []"
  shows "\<exists>base. base_mounts cfg fexists cw tid conv = (base, effects) \<and>
     (m \<in> set base \<or>
      (\<exists>vs v. validate_additional_mounts fs file (requested_mounts cw) c = (Inr vs, c') \<and> v \<in> set vs \<and> m = as_volume v))"
proof -
  obtain base eff where base: "base_mounts cfg fexists cw tid conv = (base, eff)" by fastforce
  then show ?thesis
    using assms(1) backend_mounts_from [OF _ assms(3)] assms(2)
    by (fastforce simp: build_volume_mounts_def split: if_splits prod.splits sum.splits)
qed

lemma built_confined:
  assumes "plain_name tid" "plain_name (c_folder cw)" "plain_name conv" and "cache_reach c"
    and "\<forall>b. bc = Some b \<longrightarrow> bc_extra_mounts b = []"
    and "build_volume_mounts cfg fs fexists file cw tid conv bc c = (Inr ms, effects, c')"
  shows "m \<in> set ms \<Longrightarrow>
            in_coworker cfg tid (c_folder cw) (v_host_path m) \<or>
            path_of (v_host_path m) = tenant_path cfg tid [''shared''] \<and> v_readonly m \<or>
            (\<exists>req \<in> set (requested_mounts cw). \<exists>al v.
               mc_allowlist c' = Some al \<and> permitted fs al req v \<and> m = as_volume v)"
    and "MakeDirs p \<in> set effects \<or> WriteJson p j \<in> set effects \<Longrightarrow> in_coworker cfg tid (c_folder cw) p"
proof -
  assume "m \<in> set ms"
  from built_from [OF assms(6) this assms(5)] obtain base
    where base: "base_mounts cfg fexists cw tid conv = (base, effects)"
      and m: "m \<in> set base \<or> (\<exists>vs v. validate_additional_mounts fs file (requested_mounts cw) c = (Inr vs, c') \<and>
                v \<in> set vs \<and> m = as_volume v)" by blast
  from m show "in_coworker cfg tid (c_folder cw) (v_host_path m) \<or>
            path_of (v_host_path m) = tenant_path cfg tid [''shared''] \<and> v_readonly m \<or>
            (\<exists>req \<in> set (requested_mounts cw). \<exists>al v.
               mc_allowlist c' = Some al \<and> permitted fs al req v \<and> m = as_volume v)"
    using base_mounts_confined(1) [OF assms(1-3) base] validated_permitted [OF assms(4)] by blast
next
  assume "MakeDirs p \<in> set effects \<or> WriteJson p j \<in> set effects"
  moreover have "snd (base_mounts cfg fexists cw tid conv) = effects"
    using assms(6) by (auto simp: build_volume_mounts_def split: if_splits prod.splits sum.splits)
  ultimately show "in_coworker cfg tid (c_folder cw) p"
    using base_mounts_confined(2) [OF assms(1-3)] by (metis prod.collapse)
qed

lemma spawn_mounts_parts:
  assumes "spawn_mounts cfg fs fexists file d dump skills cw tid conv job bc c = (Inr ms, effects, ops, c')"
  obtains built eff where
    "build_volume_mounts cfg fs fexists file cw tid conv (Some bc) c = (Inr built, eff, c')"
    "effects = MakeDirs (path_str (coworker_dir cfg tid cw)) # eff"
    "ops = snd (materialize_skills_for_spawn cfg d dump skills job (bc_name bc))"
    "ms = built \<or> (\<exists>m. ms = built @ [m] \<and>
        fst (materialize_skills_for_spawn cfg d dump skills job (bc_name bc)) = Inr (Some m))"
  using assms by (auto simp: spawn_mounts_def Let_def split: prod.splits sum.splits option.splits)

text \<open>C6. The complete list of mounts the executor gives the container of a coworker, for tenant,
  folder, conversation and job names that are single directory names and a backend without extra
  mounts (both registered backends): every host directory in it is a directory of that coworker inside
  its tenant's data directory, or the tenant's shared directory read-only, or a mount the coworker
  asked for and the loaded allowlist permits (under the real path of a listed root, with no built-in
  blocked pattern in its real path, below the extra directory inside the container, and writable only
  if asked for, granted by the root and not overruled), or the projection of the coworker's enabled
  skills for this very spawn, read-only at the path its backend reads. What building the list creates
  on disk lies in the coworker's directory; what the projection does to the disk lies in the skills
  directory of the spawn whatever the rows of the skills hold, apart from creating the directories
  above it.
\<close>

theorem sandbox_mounts_confined:
  assumes "plain_name tid" "plain_name (c_folder cw)" "plain_name conv" "plain_name job" and "cache_reach c"
    and "bc_extra_mounts bc = []"
    and "spawn_mounts cfg fs fexists file d dump skills cw tid conv job bc c = (Inr ms, effects, ops, c')"
  shows "(\<forall>m \<in> set ms.
            in_coworker cfg tid (c_folder cw) (v_host_path m) \<or>
            path_of (v_host_path m) = tenant_path cfg tid [''shared''] \<and> v_readonly m \<or>
            (\<exists>req \<in> set (requested_mounts cw). \<exists>al v.
               mc_allowlist c' = Some al \<and> permitted fs al req v \<and> m = as_volume v) \<or>
            path_of (v_host_path m) = skills_path cfg job [] \<and> v_readonly m \<and>
              map_of container_targets (bc_name bc) = Some (v_container_path m) \<and>
              (\<exists>sks. skills = Inr sks \<and> sks \<noteq> [])) \<and>
         (\<forall>p j. MakeDirs p \<in> set effects \<or> WriteJson p j \<in> set effects \<longrightarrow> in_coworker cfg tid (c_folder cw) p) \<and>
         (\<forall>x \<in> set ops. \<forall>p \<in> set (op_paths x). in_skills cfg job p \<or>
            x \<in> {Mkdir (spawn_root cfg), Mkdir (path_join (spawn_root cfg) job),
                 Chmod (path_join (spawn_root cfg) job) 0x1C9})"
proof -
  from assms(7) obtain built eff where
    built: "build_volume_mounts cfg fs fexists file cw tid conv (Some bc) c = (Inr built, eff, c')"
    and effects: "effects = MakeDirs (path_str (coworker_dir cfg tid cw)) # eff"
    and ops: "ops = snd (materialize_skills_for_spawn cfg d dump skills job (bc_name bc))"
    and ms: "ms = built \<or> (\<exists>m. ms = built @ [m] \<and>
        fst (materialize_skills_for_spawn cfg d dump skills job (bc_name bc)) = Inr (Some m))"
    by (rule spawn_mounts_parts)
  have extra: "\<forall>b. Some bc = Some b \<longrightarrow> bc_extra_mounts b = []" using assms(6) by simp
  note parts = built_confined [OF assms(1-3,5) extra built]
  have job: "part_ok job" using assms(4) by (simp add: plain_name_def)
  have cdir: "in_coworker cfg tid (c_folder cw) (path_str (coworker_dir cfg tid cw))"
    using in_coworkerI [of tid "c_folder cw" "[]" cfg] assms(1,2) by (simp add: plain_name_def coworker_dir_eq)
  show ?thesis
  proof (intro conjI)
    show "\<forall>m \<in> set ms.
            in_coworker cfg tid (c_folder cw) (v_host_path m) \<or>
            path_of (v_host_path m) = tenant_path cfg tid [''shared''] \<and> v_readonly m \<or>
            (\<exists>req \<in> set (requested_mounts cw). \<exists>al v.
               mc_allowlist c' = Some al \<and> permitted fs al req v \<and> m = as_volume v) \<or>
            path_of (v_host_path m) = skills_path cfg job [] \<and> v_readonly m \<and>
              map_of container_targets (bc_name bc) = Some (v_container_path m) \<and>
              (\<exists>sks. skills = Inr sks \<and> sks \<noteq> [])"
    proof
      fix m assume "m \<in> set ms"
      then consider "m \<in> set built" | "fst (materialize_skills_for_spawn cfg d dump skills job (bc_name bc)) = Inr (Some m)"
        using ms by auto
      then show "in_coworker cfg tid (c_folder cw) (v_host_path m) \<or>
            path_of (v_host_path m) = tenant_path cfg tid [''shared''] \<and> v_readonly m \<or>
            (\<exists>req \<in> set (requested_mounts cw). \<exists>al v.
               mc_allowlist c' = Some al \<and> permitted fs al req v \<and> m = as_volume v) \<or>
            path_of (v_host_path m) = skills_path cfg job [] \<and> v_readonly m \<and>
              map_of container_targets (bc_name bc) = Some (v_container_path m) \<and>
              (\<exists>sks. skills = Inr sks \<and> sks \<noteq> [])"
        by cases (use parts(1) projection_mount [OF job] in blast)+
    qed
    show "\<forall>p j. MakeDirs p \<in> set effects \<or> WriteJson p j \<in> set effects \<longrightarrow> in_coworker cfg tid (c_folder cw) p"
      using parts(2) cdir by (auto simp: effects)
  qed (use projection_confined [OF job] in \<open>simp add: ops\<close>)
qed

definition demo_coworker :: "string option \<Rightarrow> coworker" where
  "demo_coworker mem =
     \<lparr>c_id = ''c1'', c_tenant_id = ''t1'', c_name = ''Ann'', c_folder = ''ann'', c_agent_backend = ''claude'',
      c_system_prompt = None,
      c_container_config = Some \<lparr>cc_additional_mounts = demo_mounts, cc_timeout = 300000, cc_runtime = None,
                                 cc_memory_limit = mem, cc_cpu_limit = None\<rparr>,
      c_max_concurrent_containers = 2, c_status = ''active'', c_created_at = '''', c_permissions = None,
      c_model_id = None, c_created_by_user_id = None, c_visibility = ''private'', c_is_frontdesk = False,
      c_routing_description = None\<rparr>"

definition demo_config :: deploy_config where
  "demo_config =
     \<lparr>dc_assistant_name = ''Andy'', dc_assistant_has_own_number = False,
      dc_mount_allowlist = ''/root/.config/rolemesh/mount-allowlist.json'', dc_store_dir = ''/app/store'',
      dc_groups_dir = ''/app/groups'', dc_data_dir = ''/app/data'', dc_host_data_dir = ''/srv/rolemesh'',
      dc_database_url = '''', dc_admin_database_url = '''', dc_nats_url = ''nats://localhost:4222'',
      dc_agent_nats_url = ''nats://nats:4222'', dc_container_image = ''rolemesh-agent:latest'',
      dc_container_timeout = 1800000, dc_container_max_output_size = 10485760, dc_credential_proxy_port = 3001,
      dc_idle_timeout = 300000, dc_turn_inactivity_timeout = 420000, dc_approval_timeout = 300000,
      dc_global_max_containers = 20, dc_container_runtime = ''docker'', dc_k8s_namespace = ''rolemesh'',
      dc_k8s_data_pvc = ''rolemesh-data'', dc_k8s_image_pull_secret = '''', dc_k8s_image_pull_policy = ''IfNotPresent'',
      dc_k8s_runtime_class = '''', dc_k8s_agent_pin_node = '''', dc_oci_runtime = ''runc'', dc_memory_limit = ''2g'',
      dc_cpu_limit = 2, dc_pids_limit = 512, dc_max_memory = ''8g'', dc_max_cpu = 4,
      dc_network_name = ''rolemesh-agent-net'', dc_egress_network_name = ''rolemesh-egress-net'',
      dc_gateway_name = ''egress-gateway'', dc_gateway_image = ''rolemesh-egress-gateway:latest'',
      dc_gateway_dns_ip = ''172.28.100.53'', dc_gateway_forward_port = 3128, dc_gateway_dns_port = 53,
      dc_agent_backend_default = ''claude'', dc_auth_mode = ''external'', dc_token_secret = '''',
      dc_safety_fail_mode = ''closed'', dc_timezone = ''UTC''\<rparr>"

definition demo_skill :: skill where
  "demo_skill =
     \<lparr>sk_id = ''s1'', sk_tenant_id = ''t1'', sk_name = ''report'',
      sk_frontmatter_common = [(''name'', JStr ''report''), (''description'', JStr ''Weekly report'')],
      sk_frontmatter_backend = [(''claude'', [(''model'', JStr ''opus'')])], sk_enabled = True,
      sk_created_at = '''', sk_updated_at = '''', sk_created_by_user_id = None, sk_visibility = ''private'',
      sk_files = [(''SKILL.md'', \<lparr>sf_path = ''SKILL.md'', sf_content = ''Write it.'', sf_mime_type = ''text/plain'',
                                 sf_updated_at = ''''\<rparr>)]\<rparr>"

definition demo_disk :: host_disk where
  "demo_disk = \<lparr>hd_symlink = (\<lambda>_. False), hd_exists = (\<lambda>_. False), hd_resolve = id, hd_refuses = (\<lambda>_. False)\<rparr>"

definition demo_spawn ::
  "(mount_exn + volume_mount list) \<times> fs_effect list \<times> disk_op list \<times> mount_cache" where
  "demo_spawn =
     spawn_mounts demo_config demo_fs (\<lambda>_. False) (Holds allowlist_template) demo_disk (\<lambda>_. ''name: report'')
       (Inr [demo_skill]) (demo_coworker None) ''t1'' ''conv1'' ''ann-0a1b'' claude_code_backend demo_cache"

definition demo_mount_list :: "volume_mount list" where
  "demo_mount_list = (case fst demo_spawn of Inr ms \<Rightarrow> ms | Inl _ \<Rightarrow> [])"

lemma demo_mount_list_paths:
  "map v_host_path demo_mount_list =
     [''/app/data/tenants/t1/coworkers/ann/workspace'', ''/app/data/tenants/t1/coworkers/ann/sessions/conv1'',
      ''/app/data/tenants/t1/coworkers/ann/logs'', ''/app/data/tenants/t1/coworkers/ann/.claude'',
      ''/home/op/projects/site'', ''/app/data/spawns/ann-0a1b/skills'']"
  by code_simp

lemma demo_built: "isl (fst demo_spawn) = False"
  by code_simp

theorem sandbox_mounts_confined_witness:
  "length demo_mount_list = 6 \<and>
   list_all (\<lambda>m. in_coworker demo_config ''t1'' ''ann'' (v_host_path m) \<or>
     path_of (v_host_path m) = tenant_path demo_config ''t1'' [''shared''] \<and> v_readonly m \<or>
     (\<exists>req al v. req \<in> set demo_mounts \<and> permitted demo_fs al req v \<and> m = as_volume v) \<or>
     path_of (v_host_path m) = skills_path demo_config ''ann-0a1b'' [] \<and> v_readonly m) demo_mount_list"
proof -
  obtain r eff ops c where run: "demo_spawn = (r, eff, ops, c)"
    using prod_cases4 by blast
  obtain ms where r: "r = Inr ms" using demo_built unfolding run by (cases r) auto
  have ms: "demo_mount_list = ms" unfolding demo_mount_list_def run r by simp
  have names: "plain_name ''t1''" "plain_name (c_folder (demo_coworker None))" "plain_name ''conv1''"
    "plain_name ''ann-0a1b''"
    by (simp_all add: plain_name_def part_ok_def demo_coworker_def)
  have reach: "cache_reach demo_cache" unfolding demo_cache_def by (rule cache_reach.start)
  have extra: "bc_extra_mounts claude_code_backend = []" by (simp add: claude_code_backend_def)
  have cw: "c_folder (demo_coworker None) = ''ann''" "requested_mounts (demo_coworker None) = demo_mounts"
    by (simp_all add: demo_coworker_def requested_mounts_def)
  have "length demo_mount_list = 6" using arg_cong [OF demo_mount_list_paths, of length] by simp
  then show ?thesis
    using sandbox_mounts_confined [OF names reach extra run [unfolded r demo_spawn_def]] unfolding cw ms list_all_iff by blast
qed

end
