(* ===== verification/Sandbox_Hardening.thy ===== *)
theory Sandbox_Hardening
  imports Sandbox_Props
begin

text \<open>
  The privileges and limits of an agent container under both runtimes, the agreement of the runtimes
  on where a mount comes from, and two checks that let more through than they mean to.
\<close>

section \<open>Bind sources\<close>

lemma relative_clean:
  "root_of d \<noteq> '''' \<Longrightarrow> norm_relative p d = Some r \<Longrightarrow> path_ok r \<and> pp_root r = '''' \<and> ''..'' \<notin> set (pp_parts r)"
proof -
  assume d: "root_of d \<noteq> ''''" and r: "norm_relative p d = Some r"
  have "path_ok r \<and> pp_root r = ''''" using r relative_to_ok path_of_ok unfolding norm_relative_def by blast
  moreover have "root_of p = root_of d" "r = PurePath '''' (drop (length (norm_parts d)) (norm_parts p))"
    using r by (auto simp: norm_relative_def path_of_normpath relative_to_def split: if_splits)
  moreover from this have "''..'' \<notin> set (norm_parts p)" using norm_parts_rooted d by simp
  ultimately show ?thesis by (auto dest: in_set_dropD)
qed

text \<open>The two runtimes give a container the same directory: where the Kubernetes runtime takes a
  sub-path of the data volume, that sub-path is relative and free of \<open>..\<close>, and the Docker runtime
  binds the same sub-path of the host's data directory; where Kubernetes refuses the mount, Docker
  passes the source on unchanged.
\<close>

theorem bind_source_agreement:
  assumes "root_of data_dir \<noteq> ''''" and "host_data_dir \<noteq> ''''"
  shows "case mount_subpath data_dir m of
           Inr sub \<Rightarrow>
             translate_bind_source data_dir host_data_dir (v_host_path m) = path_str (path_join (path_of host_data_dir) sub) \<and>
             pp_root (path_of sub) = '''' \<and> ''..'' \<notin> set (pp_parts (path_of sub)) \<and>
             relative_to (path_of (translate_bind_source data_dir host_data_dir (v_host_path m))) (path_of host_data_dir) =
               Some (path_of sub)
         | Inl e \<Rightarrow> translate_bind_source data_dir host_data_dir (v_host_path m) = v_host_path m"
proof (cases "norm_relative (v_host_path m) data_dir")
  case None
  then show ?thesis by (simp add: mount_subpath_def translate_bind_source_def)
next
  case (Some r)
  note clean = relative_clean [OF assms(1) Some]
  let ?q = "path_div (path_of host_data_dir) r"
  have "path_ok ?q" using clean by simp
  moreover have "relative_to ?q (path_of host_data_dir) = Some r"
    using clean by (cases r) (simp add: relative_to_def path_div_def)
  ultimately show ?thesis
    using assms(2) Some clean by (simp add: mount_subpath_def translate_bind_source_def path_join_def path_of_str)
qed

theorem bind_source_agreement_witness:
  "translate_bind_source ''/app/data'' ''/srv/rolemesh'' ''/app/data/tenants/t1/../t2'' =
     path_str (path_join (path_of ''/srv/rolemesh'') ''tenants/t2'')"
proof -
  let ?m = "\<lparr>v_host_path = ''/app/data/tenants/t1/../t2'', v_container_path = ''/w'', v_readonly = True\<rparr>"
  have "mount_subpath ''/app/data'' ?m = Inr ''tenants/t2''" by code_simp
  moreover have "root_of ''/app/data'' \<noteq> ''''" "''/srv/rolemesh'' \<noteq> ''''" by (simp_all add: root_of_def)
  ultimately show ?thesis using bind_source_agreement [of "''/app/data''" "''/srv/rolemesh''" ?m] by simp
qed

section \<open>Privileges and limits\<close>

lemma trunc_rat_mono: "x \<le> y \<Longrightarrow> trunc_rat x \<le> trunc_rat y"
proof -
  assume xy: "x \<le> y"
  consider "0 \<le> x" | "x < 0" "0 \<le> y" | "y < 0" by linarith
  then show ?thesis
  proof cases
    case 1
    then show ?thesis using xy by (simp add: trunc_rat_def floor_mono)
  next
    case 2
    then have "0 \<le> \<lfloor>- x\<rfloor>" "0 \<le> \<lfloor>y\<rfloor>" by simp_all
    moreover have "trunc_rat x = - \<lfloor>- x\<rfloor>" "trunc_rat y = \<lfloor>y\<rfloor>" using 2 by (simp_all add: trunc_rat_def)
    ultimately show ?thesis by linarith
  next
    case 3
    then have "\<lfloor>- y\<rfloor> \<le> \<lfloor>- x\<rfloor>" using xy by (intro floor_mono) simp
    then show ?thesis using 3 xy by (simp add: trunc_rat_def)
  qed
qed

lemma clamp_memory_cap:
  "clamp_memory v mx = Some s \<Longrightarrow>
     \<exists>req cap. parse_memory v = Some req \<and> parse_memory mx = Some cap \<and> parse_memory s = Some (min req cap)"
  by (auto simp: clamp_memory_def split: option.splits if_splits)

lemma parse_memory_empty: "parse_memory '''' = None"
  by code_simp

lemma filter_env_keys: "(k, v) \<in> set (filter_env_allowlist e) \<Longrightarrow> k \<in> set container_env_allowlist"
  by (simp add: filter_env_allowlist_def)

lemma spawn_env_keys: "(k, v) \<in> set (spawn_env cfg h rt job bc model) \<Longrightarrow> k \<in> set container_env_allowlist"
  unfolding spawn_env_def Let_def by (rule filter_env_keys)

lemma clamp_cpu_min: "clamp_cpu x mx = min x mx"
  by (simp add: clamp_cpu_def min_def)

lemma routing_fields:
  "er_dns_servers (compute_egress_routing cfg ov token) = [get_gateway_dns_ip cfg ov]"
  "er_network_name (compute_egress_routing cfg ov token) = or_none (Some (dc_network_name cfg))"
  by (simp_all add: compute_egress_routing_def Let_def)

lemma built_spec:
  assumes "build_container_spec cfg h ms name job bc cw model token = Some spec"
  shows "cs_cap_drop spec = [''ALL'']" "cs_cap_add spec = []" "cs_readonly_rootfs spec"
    "''no-new-privileges:true'' \<in> set (cs_security_opt spec)" "cs_memory_swap spec = None"
    "cs_mounts spec = ms" "cs_user spec = snd (snd (run_ids h))"
    "cs_dns spec = [get_gateway_dns_ip cfg (sh_gateway_override h)]"
    "cs_network_name spec = or_none (Some (dc_network_name cfg))"
    "(k, v) \<in> set (cs_env spec) \<Longrightarrow> k \<in> set container_env_allowlist"
    "cs_cpu_limit spec = Some (clamp_cpu (spec_cpu cfg cw) (dc_max_cpu cfg))"
    "\<exists>s. cs_memory_limit spec = Some s \<and> clamp_memory (spec_memory cfg cw) (dc_max_memory cfg) = Some s"
  using assms
  by (auto simp: build_container_spec_def Let_def case_prod_beta routing_fields default_security_opt_def
      split: option.split_asm intro: spawn_env_keys)

lemma or_none_Some: "s \<noteq> '''' \<Longrightarrow> or_none (Some s) = Some s"
  by (simp add: or_none_def)

lemma built_memory:
  assumes "build_container_spec cfg h ms name job bc cw model token = Some spec"
  shows "\<exists>req cap. parse_memory (spec_memory cfg cw) = Some req \<and> parse_memory (dc_max_memory cfg) = Some cap \<and>
     memory_of spec = Inr (Some (min req cap))"
proof -
  obtain s where s: "cs_memory_limit spec = Some s" "clamp_memory (spec_memory cfg cw) (dc_max_memory cfg) = Some s"
    using built_spec(12) [OF assms] by blast
  obtain req cap where n: "parse_memory (spec_memory cfg cw) = Some req" "parse_memory (dc_max_memory cfg) = Some cap"
    "parse_memory s = Some (min req cap)" using clamp_memory_cap [OF s(2)] by blast
  then have "s \<noteq> ''''" using parse_memory_empty by auto
  then show ?thesis using s n by (simp add: memory_of_def or_none_Some)
qed

lemma built_cpu:
  assumes "build_container_spec cfg h ms name job bc cw model token = Some spec"
  shows "cpu_of fmul k spec =
     (let c = min (spec_cpu cfg cw) (dc_max_cpu cfg) in if c \<noteq> 0 then Some (trunc_rat (fmul c k)) else None)"
  by (simp add: cpu_of_def built_spec(11) [OF assms] clamp_cpu_min Let_def)

lemma run_ids_user:
  "sh_uid h \<noteq> None \<Longrightarrow>
     snd (snd (run_ids h)) = Some (show_int (fst (run_ids h)) @ '':'' @ show_int (fst (snd (run_ids h)))) \<and>
     fst (run_ids h) \<noteq> 0"
  by (auto simp: run_ids_def agent_uid_def agent_gid_def Let_def split: prod.splits if_splits)

text \<open>The socket test looks only at paths, which translation changes before the test is made.\<close>

lemma binds_no_socket:
  "mounts_to_binds ms = Inr bs \<Longrightarrow> bs = map bind_string ms \<and>
     (\<forall>m \<in> set ms. \<not> is_docker_socket_path (v_host_path m) \<and> \<not> is_docker_socket_path (v_container_path m))"
  by (auto simp: mounts_to_binds_def find_None_iff split: option.splits)

lemma docker_run_config:
  assumes "docker_run fmul cfg spec = Inr dk" and "memory_of spec = Inr mem"
  shows "dk_env dk = map (\<lambda>(k, v). k @ ''='' @ v) (cs_env spec)" "dk_user dk = or_none (cs_user spec)"
    "hc_cap_drop (dk_host_config dk) = cs_cap_drop spec" "hc_cap_add (dk_host_config dk) = cs_cap_add spec"
    "hc_readonly_rootfs (dk_host_config dk) = cs_readonly_rootfs spec"
    "hc_security_opt (dk_host_config dk) = cs_security_opt spec"
    "hc_memory (dk_host_config dk) = mem"
    "hc_memory_swap (dk_host_config dk) =
       (if mem = None then None else case cs_memory_swap spec of None \<Rightarrow> mem | Some s \<Rightarrow> Some s)"
    "hc_nano_cpus (dk_host_config dk) = cpu_of fmul 1000000000 spec"
    "hc_dns (dk_host_config dk) = unless_empty (cs_dns spec)"
    "hc_network_mode (dk_host_config dk) = or_none (cs_network_name spec)"
    "\<exists>ms. hc_binds (dk_host_config dk) = map bind_string ms \<and>
       (\<forall>m \<in> set ms. \<not> is_docker_socket_path (v_host_path m) \<and> \<not> is_docker_socket_path (v_container_path m))"
proof -
  obtain spec' where run: "spec_to_config fmul spec' = Inr dk" and spec': "\<exists>ms. spec' = spec\<lparr>cs_mounts := ms\<rparr>"
    using assms(1) by (cases spec) (auto simp: docker_run_def split: if_splits)
  have mem: "memory_of spec' = Inr mem" using spec' assms(2) by (auto simp: memory_of_def)
  obtain bs where bs: "mounts_to_binds (cs_mounts spec') = Inr bs"
    using run by (auto simp: spec_to_config_def split: sum.splits)
  show "dk_env dk = map (\<lambda>(k, v). k @ ''='' @ v) (cs_env spec)" "dk_user dk = or_none (cs_user spec)"
    "hc_cap_drop (dk_host_config dk) = cs_cap_drop spec" "hc_cap_add (dk_host_config dk) = cs_cap_add spec"
    "hc_readonly_rootfs (dk_host_config dk) = cs_readonly_rootfs spec"
    "hc_security_opt (dk_host_config dk) = cs_security_opt spec"
    "hc_memory (dk_host_config dk) = mem"
    "hc_memory_swap (dk_host_config dk) =
       (if mem = None then None else case cs_memory_swap spec of None \<Rightarrow> mem | Some s \<Rightarrow> Some s)"
    "hc_nano_cpus (dk_host_config dk) = cpu_of fmul 1000000000 spec"
    "hc_dns (dk_host_config dk) = unless_empty (cs_dns spec)"
    "hc_network_mode (dk_host_config dk) = or_none (cs_network_name spec)"
    using run spec' mem bs by (auto simp: spec_to_config_def cpu_of_def)
  show "\<exists>ms. hc_binds (dk_host_config dk) = map bind_string ms \<and>
       (\<forall>m \<in> set ms. \<not> is_docker_socket_path (v_host_path m) \<and> \<not> is_docker_socket_path (v_container_path m))"
    using run mem bs binds_no_socket [OF bs] by (auto simp: spec_to_config_def)
qed

lemma manifest_config:
  assumes "spec_to_pod_manifest fmul cfg domain spec = Inr pm" and "memory_of spec = Inr mem"
    and "run_as (cs_user spec) = Inr (u, g)"
  shows "pm_env pm = cs_env spec" "pm_memory pm = map_option show_int mem"
    "pm_cpu pm = map_option (\<lambda>n. show_int n @ ''m'') (cpu_of fmul 1000 spec)"
    "pm_security pm = \<lparr>sc_run_as_non_root = True, sc_read_only_root = cs_readonly_rootfs spec,
               sc_allow_privilege_escalation = False, sc_drop = cs_cap_drop spec,
               sc_add = unless_empty (cs_cap_add spec), sc_seccomp = ''RuntimeDefault'',
               sc_run_as_user = u, sc_run_as_group = g\<rparr>"
    "cs_dns spec \<noteq> [] \<Longrightarrow> map_option dn_nameservers (pm_dns pm) = Some (cs_dns spec)"
  using assms by (auto simp: spec_to_pod_manifest_def security_context_of_def split: sum.splits)

text \<open>C7. Whatever the coworker, the backend and the model ask for, a specification built for an agent
  runs on both platforms with all capabilities dropped and none added, a read-only root file system,
  no privilege escalation, the same environment, whose names are all on the allowlist, and the
  gateway as only resolver. Its memory limit on both platforms is the smaller of what is asked for
  and the deployment's maximum, and Docker leaves no swap beyond it; its processor limit on both
  platforms is computed from the smaller of what is asked for and the maximum, and is at most that of
  the maximum, unless that smaller value is zero, which sets no processor limit. Nothing bounds the
  limits from below: a memory limit of zero or less is passed on as it is, and Docker takes zero for
  no limit. When the process has a user id, both platforms run the same user, who is not root; without
  one (a platform without user ids) Docker gets no user. Docker gets no bind that is the Docker
  socket. The rounding of a float product by a constant is assumed monotone.
\<close>

theorem sandbox_hardened:
  assumes build: "build_container_spec cfg h ms name job bc cw model token = Some spec"
    and docker: "docker_run fmul cfg spec = Inr dk"
    and k8s: "spec_to_pod_manifest fmul cfg domain spec = Inr pm"
    and mono: "\<forall>x y k. x \<le> y \<and> 0 \<le> k \<longrightarrow> fmul x k \<le> fmul y k"
  shows "let hc = dk_host_config dk; sc = pm_security pm; gw = get_gateway_dns_ip cfg (sh_gateway_override h);
             cpu = min (spec_cpu cfg cw) (dc_max_cpu cfg) in
     hc_cap_drop hc = [''ALL''] \<and> sc_drop sc = [''ALL''] \<and> hc_cap_add hc = [] \<and> sc_add sc = None \<and>
     hc_readonly_rootfs hc \<and> sc_read_only_root sc \<and>
     ''no-new-privileges:true'' \<in> set (hc_security_opt hc) \<and> \<not> sc_allow_privilege_escalation sc \<and>
     dk_env dk = map (\<lambda>(k, v). k @ ''='' @ v) (pm_env pm) \<and>
     (\<forall>(k, v) \<in> set (pm_env pm). k \<in> set container_env_allowlist) \<and>
     (\<exists>req cap. parse_memory (spec_memory cfg cw) = Some req \<and> parse_memory (dc_max_memory cfg) = Some cap \<and>
        hc_memory hc = Some (min req cap) \<and> hc_memory_swap hc = Some (min req cap) \<and>
        pm_memory pm = Some (show_int (min req cap))) \<and>
     (if cpu = 0 then hc_nano_cpus hc = None \<and> pm_cpu pm = None
      else hc_nano_cpus hc = Some (trunc_rat (fmul cpu 1000000000)) \<and>
           trunc_rat (fmul cpu 1000000000) \<le> trunc_rat (fmul (dc_max_cpu cfg) 1000000000) \<and>
           pm_cpu pm = Some (show_int (trunc_rat (fmul cpu 1000)) @ ''m'') \<and>
           trunc_rat (fmul cpu 1000) \<le> trunc_rat (fmul (dc_max_cpu cfg) 1000)) \<and>
     hc_dns hc = Some [gw] \<and> map_option dn_nameservers (pm_dns pm) = Some [gw] \<and>
     (sh_uid h \<noteq> None \<longrightarrow>
        (\<exists>u g. u \<noteq> 0 \<and> dk_user dk = Some (show_int u @ '':'' @ show_int g) \<and>
               sc_run_as_user sc = Some u \<and> sc_run_as_group sc = Some g)) \<and>
     (\<exists>bs. hc_binds hc = map bind_string bs \<and>
        (\<forall>m \<in> set bs. \<not> is_docker_socket_path (v_host_path m) \<and> \<not> is_docker_socket_path (v_container_path m)))"
proof -
  note sp = built_spec [OF build]
  obtain req cap where mem: "memory_of spec = Inr (Some (min req cap))"
    and cap: "parse_memory (spec_memory cfg cw) = Some req" "parse_memory (dc_max_memory cfg) = Some cap"
    using built_memory [OF build] by blast
  obtain u g where ids: "run_as (cs_user spec) = Inr (u, g)"
    using k8s by (auto simp: spec_to_pod_manifest_def security_context_of_def split: sum.splits)
  note dk = docker_run_config [OF docker mem] and pm = manifest_config [OF k8s mem ids]
  let ?c = "min (spec_cpu cfg cw) (dc_max_cpu cfg)"
  have cpu: "trunc_rat (fmul ?c k) \<le> trunc_rat (fmul (dc_max_cpu cfg) k)" if "0 \<le> k" for k
    using mono that by (intro trunc_rat_mono) (simp add: min.cobounded2)
  have user: "\<exists>u' g'. u' \<noteq> 0 \<and> dk_user dk = Some (show_int u' @ '':'' @ show_int g') \<and> u = Some u' \<and> g = Some g'"
    if "sh_uid h \<noteq> None"
  proof -
    let ?u = "fst (run_ids h)" and ?g = "fst (snd (run_ids h))"
    have "cs_user spec = Some (show_int ?u @ '':'' @ show_int ?g)" "?u \<noteq> 0"
      using run_ids_user [OF that] sp(7) by simp_all
    then show ?thesis using ids run_as_user [of ?u ?g] dk(2) by (auto simp: or_none_Some)
  qed
  have env: "\<forall>(k, v) \<in> set (pm_env pm). k \<in> set container_env_allowlist" using sp(10) pm(1) by auto
  have limits: "if ?c = 0 then hc_nano_cpus (dk_host_config dk) = None \<and> pm_cpu pm = None
      else hc_nano_cpus (dk_host_config dk) = Some (trunc_rat (fmul ?c 1000000000)) \<and>
           trunc_rat (fmul ?c 1000000000) \<le> trunc_rat (fmul (dc_max_cpu cfg) 1000000000) \<and>
           pm_cpu pm = Some (show_int (trunc_rat (fmul ?c 1000)) @ ''m'') \<and>
           trunc_rat (fmul ?c 1000) \<le> trunc_rat (fmul (dc_max_cpu cfg) 1000)"
    using cpu by (simp add: dk(9) pm(3) built_cpu [OF build] Let_def)
  show ?thesis
    unfolding Let_def
    by (intro conjI; (rule limits)?) (use dk pm sp(1-9) cap user env in \<open>simp_all add: unless_empty_def\<close>)
qed

definition demo_host :: spawn_host where
  "demo_host = \<lparr>sh_linux = True, sh_uid = Some (0, Some 0), sh_environ = (\<lambda>_. None), sh_gateway_override = None\<rparr>"

definition demo_mount :: volume_mount where
  "demo_mount = \<lparr>v_host_path = ''/app/data/tenants/t1/shared'', v_container_path = ''/workspace/shared'', v_readonly = True\<rparr>"

definition demo_spec :: "string option \<Rightarrow> container_spec" where
  "demo_spec mem =
     the (build_container_spec demo_config demo_host [demo_mount] ''agent-1'' ''job-1'' (Some claude_code_backend)
            (Some (demo_coworker mem)) None None)"

lemma demo_memory: "clamp_memory ''16g'' ''8g'' = Some ''8g''" "clamp_memory ''0'' ''8g'' = Some ''0''"
  "parse_memory ''8g'' = Some 8589934592" "parse_memory ''0'' = Some 0"
  by code_simp+

lemma demo_spec_built:
  "clamp_memory s ''8g'' = Some l \<Longrightarrow> s \<noteq> '''' \<Longrightarrow>
   build_container_spec demo_config demo_host [demo_mount] ''agent-1'' ''job-1'' (Some claude_code_backend)
            (Some (demo_coworker (Some s))) None None = Some (demo_spec (Some s)) \<and>
   cs_memory_limit (demo_spec (Some s)) = Some l"
  by (simp add: demo_spec_def build_container_spec_def spec_memory_def demo_coworker_def demo_config_def or_none_def
      Let_def split: prod.splits)

lemma demo_sources:
  "mounts_to_binds (translate_mounts ''/app/data'' ''/srv/rolemesh'' [demo_mount]) =
     Inr [''/srv/rolemesh/tenants/t1/shared:/workspace/shared:ro'']"
  "sub_mounts ''/app/data'' [demo_mount] =
     Inr [\<lparr>km_name = ''data'', km_mount_path = ''/workspace/shared'', km_read_only = True,
           km_sub_path = Some ''tenants/t1/shared''\<rparr>]"
  by code_simp+

lemma demo_runs:
  assumes "clamp_memory s ''8g'' = Some l" and "s \<noteq> ''''" and "l \<noteq> ''''" and "parse_memory l = Some n"
  shows "\<exists>dk. docker_run (*) demo_config (demo_spec (Some s)) = Inr dk"
    and "\<exists>pm. spec_to_pod_manifest (*) demo_config ''cluster.local'' (demo_spec (Some s)) = Inr pm"
proof -
  note b = demo_spec_built [OF assms(1,2)]
  have mem: "memory_of (demo_spec (Some s)) = Inr (Some n)" using b assms(3,4) by (simp add: memory_of_def or_none_Some)
  have ms: "cs_mounts (demo_spec (Some s)) = [demo_mount]" using built_spec(6) b by blast
  have cfg: "dc_host_data_dir demo_config = ''/srv/rolemesh''" "dc_data_dir demo_config = ''/app/data''"
    by (simp_all add: demo_config_def)
  show "\<exists>dk. docker_run (*) demo_config (demo_spec (Some s)) = Inr dk"
    using mem ms demo_sources(1) by (simp add: docker_run_def cfg spec_to_config_def memory_of_def)
  have "cs_user (demo_spec (Some s)) = Some (show_int 1000 @ '':'' @ show_int 1000)"
    using built_spec(7) b by (fastforce simp: run_ids_def demo_host_def agent_uid_def agent_gid_def)
  then have "run_as (cs_user (demo_spec (Some s))) = Inr (Some 1000, Some 1000)" using run_as_user by simp
  then show "\<exists>pm. spec_to_pod_manifest (*) demo_config ''cluster.local'' (demo_spec (Some s)) = Inr pm"
    using mem ms demo_sources(2) by (simp add: spec_to_pod_manifest_def security_context_of_def cfg)
qed

theorem sandbox_hardened_witness:
  "\<exists>dk pm. docker_run (*) demo_config (demo_spec (Some ''16g'')) = Inr dk \<and>
     spec_to_pod_manifest (*) demo_config ''cluster.local'' (demo_spec (Some ''16g'')) = Inr pm \<and>
     hc_cap_drop (dk_host_config dk) = [''ALL''] \<and> hc_readonly_rootfs (dk_host_config dk) \<and>
     (\<exists>req. hc_memory (dk_host_config dk) = Some (min req 8589934592)) \<and>
     hc_nano_cpus (dk_host_config dk) = Some 2000000000 \<and> pm_cpu pm = Some (show_int 2000 @ ''m'') \<and>
     (\<exists>u g. u \<noteq> 0 \<and> dk_user dk = Some (show_int u @ '':'' @ show_int g))"
proof -
  have s: "''16g'' \<noteq> ''''" "''8g'' \<noteq> ''''" by simp_all
  note runs = demo_runs [OF demo_memory(1) s demo_memory(3)]
  obtain dk where dk: "docker_run (*) demo_config (demo_spec (Some ''16g'')) = Inr dk" using runs(1) by blast
  obtain pm where pm: "spec_to_pod_manifest (*) demo_config ''cluster.local'' (demo_spec (Some ''16g'')) = Inr pm"
    using runs(2) by blast
  have "\<forall>x y k. x \<le> y \<and> 0 \<le> k \<longrightarrow> x * (k :: rat) \<le> y * k" by (simp add: mult_right_mono)
  note h = sandbox_hardened [OF conjunct1 [OF demo_spec_built [OF demo_memory(1) s(1)]] dk pm this]
  have cap: "parse_memory (dc_max_memory demo_config) = Some 8589934592"
    by (simp add: demo_config_def demo_memory)
  have cpu: "min (spec_cpu demo_config (Some (demo_coworker (Some ''16g'')))) (dc_max_cpu demo_config) = 2"
    by (simp add: spec_cpu_def demo_coworker_def demo_config_def)
  have "sh_uid demo_host \<noteq> None" by (simp add: demo_host_def)
  moreover have "trunc_rat (2 * 1000000000) = 2000000000" "trunc_rat (2 * 1000) = 2000"
    by (simp_all add: trunc_rat_def)
  ultimately show ?thesis using dk pm h [unfolded Let_def cap cpu] by auto
qed

section \<open>Where a check lets more through\<close>

text \<open>The clamp only looks for too large a limit: a coworker whose memory limit reads as zero or less
  gets exactly that number as its Docker memory and swap limit, whatever maximum the deployment
  sets; the API takes zero for no limit.
\<close>

theorem nonpositive_memory_unclamped:
  assumes "c_container_config cw = Some cc" and "cc_memory_limit cc = Some m" and "parse_memory m = Some n" and "n \<le> 0"
    and "parse_memory (dc_max_memory cfg) = Some cap" and "0 \<le> cap"
  shows "\<exists>spec. build_container_spec cfg h ms name job bc (Some cw) model token = Some spec \<and>
     (\<forall>dk. docker_run fmul cfg spec = Inr dk \<longrightarrow>
        hc_memory (dk_host_config dk) = Some n \<and> hc_memory_swap (dk_host_config dk) = Some n)"
proof -
  have m: "m \<noteq> ''''" using assms(3) parse_memory_empty by auto
  then have req: "spec_memory cfg (Some cw) = m" using assms(1,2) by (simp add: spec_memory_def or_none_Some)
  have clamp: "clamp_memory m (dc_max_memory cfg) = Some m" using assms(3-6) by (simp add: clamp_memory_def)
  then obtain spec where spec: "build_container_spec cfg h ms name job bc (Some cw) model token = Some spec"
    using req by (simp add: build_container_spec_def Let_def case_prod_beta)
  have "cs_memory_limit spec = Some m" using built_spec(12) [OF spec] req clamp by simp
  then have mem: "memory_of spec = Inr (Some n)" using m assms(3) by (simp add: memory_of_def or_none_Some)
  have "hc_memory (dk_host_config dk) = Some n \<and> hc_memory_swap (dk_host_config dk) = Some n"
    if "docker_run fmul cfg spec = Inr dk" for dk
    using docker_run_config(7,8) [OF that mem] built_spec(5) [OF spec] by simp
  then show ?thesis using spec by blast
qed

theorem nonpositive_memory_unclamped_witness:
  "\<exists>dk. docker_run (*) demo_config (demo_spec (Some ''0'')) = Inr dk \<and> hc_memory (dk_host_config dk) = Some 0"
proof -
  have s: "''0'' \<noteq> ''''" by simp
  obtain dk where dk: "docker_run (*) demo_config (demo_spec (Some ''0'')) = Inr dk"
    using demo_runs(1) [OF demo_memory(2) s s demo_memory(4)] by blast
  have cc: "c_container_config (demo_coworker (Some ''0'')) = Some \<lparr>cc_additional_mounts = demo_mounts,
      cc_timeout = 300000, cc_runtime = None, cc_memory_limit = Some ''0'', cc_cpu_limit = None\<rparr>"
    by (simp add: demo_coworker_def)
  have cap: "parse_memory (dc_max_memory demo_config) = Some 8589934592"
    by (simp add: demo_config_def demo_memory)
  have "hc_memory (dk_host_config dk) = Some 0"
    using nonpositive_memory_unclamped [OF cc _ demo_memory(4) _ cap, of demo_host "[demo_mount]" "''agent-1''" "''job-1''"
        "Some claude_code_backend" None None "(*)"]
      demo_spec_built [OF demo_memory(2) s] dk by auto
  then show ?thesis using dk by blast
qed

lemma accepted_component_policies:
  assumes "check_network_policies read = None" and "name \<in> set required_component_policies"
  shows "\<exists>p. read name = Some p \<and> \<not> selector_matches_agent_pods p"
  using assms
  by (auto simp: check_network_policies_def required_agent_policies_def required_component_policies_def
      check_network_policy_def Let_def split: option.splits if_splits)

text \<open>The policy check of the Kubernetes runtime accepts a default-deny policy that does not select
  the agent pods: when its selector asks for the agent role and for one more label the pods do not
  carry, verification passes, although the runtime's own selector test says the pods are not selected.
\<close>

theorem narrowed_policy_accepted:
  assumes "k \<noteq> agent_role_label" and "dict_get agent_pod_labels k \<noteq> Some v"
    and "\<forall>name \<in> set required_agent_policies.
           read name = Some (Some \<lparr>ps_match_expressions = False, ps_match_labels = [(agent_role_label, agent_role_value), (k, v)]\<rparr>)"
    and "\<forall>name \<in> set required_component_policies.
           read name = Some (Some \<lparr>ps_match_expressions = False, ps_match_labels = [(k, v)]\<rparr>)"
  shows "check_network_policies read = None \<and>
     (\<forall>name \<in> set required_agent_policies. \<exists>p. read name = Some p \<and> \<not> selector_matches_agent_pods p)"
proof
  show "check_network_policies read = None"
    using assms
    by (simp add: check_network_policies_def required_agent_policies_def required_component_policies_def
        check_network_policy_def Let_def dict_get_def selector_matches_agent_pods_def)
  show "\<forall>name \<in> set required_agent_policies. \<exists>p. read name = Some p \<and> \<not> selector_matches_agent_pods p"
    using assms(2,3) by (simp add: selector_matches_agent_pods_def)
qed

theorem narrowed_policy_accepted_witness:
  "check_network_policies
     (\<lambda>name. Some (Some \<lparr>ps_match_expressions = False,
        ps_match_labels = (if name \<in> set required_agent_policies then [(agent_role_label, agent_role_value)] else []) @
          [(''tier'', ''sandbox'')]\<rparr>)) = None"
proof -
  have "''tier'' \<noteq> agent_role_label" "dict_get agent_pod_labels ''tier'' \<noteq> Some ''sandbox''" by code_simp+
  moreover have "\<forall>name \<in> set required_component_policies. name \<notin> set required_agent_policies" by code_simp
  ultimately show ?thesis by (intro narrowed_policy_accepted [THEN conjunct1]) auto
qed

end
