(* ===== verification/Delegation.thy ===== *)
theory Delegation
  imports Scheduler Approval_Store Py_Str
begin

text \<open>
  Delegation from a front desk to a specialist: \<^verbatim>\<open>src/src/rolemesh/orchestration/delegation.py\<close> with the
  statements of \<^verbatim>\<open>db/delegation.py\<close>, the roster of \<^verbatim>\<open>orchestration/catalog.py\<close> and the throttle of
  \<^verbatim>\<open>orchestration/_chip_throttle.py\<close>.

  A request is handled by a coroutine. It is cut at its awaits: one event lets one statement or one
  future complete and runs the coroutine to its next await; the target's outputs, the end of the
  executor and the two timers are events of their own. The database generates ids, which the events
  carry, as they carry the clock. \<open>str(v)\<close> of a value that is not a string, the digest and the text of
  an exception are arguments. Chips are the progress lines sent to the user interface.
\<close>

section \<open>Agent input and output\<close>

lemma find_SomeD: "find P xs = Some x \<Longrightarrow> x \<in> set xs \<and> P x"
  by (auto simp: find_Some_iff)

record agent_input =
  ai_prompt :: string
  ai_group_folder :: string
  ai_chat_jid :: string
  ai_permissions :: "(string \<times> json) list"
  ai_tenant_id :: string
  ai_coworker_id :: string
  ai_conversation_id :: string
  ai_user_id :: string
  ai_session_id :: "string option"
  ai_is_scheduled_task :: bool
  ai_assistant_name :: "string option"
  ai_system_prompt :: "string option"
  ai_role_config :: "(string \<times> json) list option"

record agent_output =
  ao_status :: string
  ao_result :: "string option"
  ao_new_session_id :: "string option"
  ao_error :: "string option"
  ao_metadata :: "(string \<times> json) list option"
  ao_is_final :: bool
  ao_retryable :: bool

definition progress_statuses :: "string list" where
  "progress_statuses = [''queued'', ''container_starting'', ''running'', ''tool_use'']"

definition success_output :: "string option \<Rightarrow> string option \<Rightarrow> (string \<times> json) list option \<Rightarrow> agent_output" where
  "success_output res sid meta =
     \<lparr>ao_status = ''success'', ao_result = res, ao_new_session_id = sid, ao_error = None, ao_metadata = meta,
      ao_is_final = True, ao_retryable = True\<rparr>"

section \<open>The throttle of progress chips\<close>

type_synonym chip_bucket = "(string, rat \<times> payload option) dict"

definition throttle_window :: rat where
  "throttle_window = 1 / 2"

definition should_emit ::
  "rat \<Rightarrow> string \<Rightarrow> payload \<Rightarrow> chip_bucket \<Rightarrow> bool \<times> payload option \<times> chip_bucket" where
  "should_emit now phase pay b =
     (let (last_ts, deferred) = (case dict_get b phase of None \<Rightarrow> (0, None) | Some x \<Rightarrow> x) in
      if now - last_ts \<ge> throttle_window then (True, deferred, dict_set b phase (now, None))
      else (False, None, dict_set b phase (last_ts, Some pay)))"

definition flush_all :: "chip_bucket \<Rightarrow> (string \<times> payload) list \<times> chip_bucket" where
  "flush_all b =
     (List.map_filter (\<lambda>(phase, _, deferred). map_option (\<lambda>p. (phase, p)) deferred) b,
      map (\<lambda>(phase, ts, _). (phase, ts, None)) b)"

definition jopt_str :: "string option \<Rightarrow> json" where
  "jopt_str s = (case s of None \<Rightarrow> JNull | Some x \<Rightarrow> JStr x)"

definition emit_throttled ::
  "rat \<Rightarrow> string \<Rightarrow> payload \<Rightarrow> chip_bucket \<times> (string \<times> payload) list \<Rightarrow> chip_bucket \<times> (string \<times> payload) list" where
  "emit_throttled now phase pay = (\<lambda>(b, chips).
     (let (emit_now, prior, b') = should_emit now phase pay b in
      (b', if emit_now then chips @ (case prior of None \<Rightarrow> [] | Some p \<Rightarrow> [(phase, p)]) @ [(phase, pay)] else chips)))"

definition translate_progress_to_chip ::
  "rat \<Rightarrow> agent_output \<Rightarrow> chip_bucket \<times> (string \<times> payload) list \<Rightarrow> chip_bucket \<times> (string \<times> payload) list" where
  "translate_progress_to_chip now out =
     (if ao_status out = ''tool_use''
      then let meta = (case ao_metadata out of None \<Rightarrow> [] | Some m \<Rightarrow> m) in
           emit_throttled now ''tool_use''
             [(''phase_kind'', JStr ''tool_use''), (''tool_name'', get_or meta ''tool'' JNull),
              (''tool_input'', get_or meta ''input'' JNull)]
      else emit_throttled now ''status'' [(''phase_kind'', JStr ''status''), (''status'', JStr (ao_status out))])"

section \<open>The roster\<close>

definition delegatable :: "string \<Rightarrow> string \<Rightarrow> coworker \<Rightarrow> bool" where
  "delegatable tid exclude c =
     (c_tenant_id c = tid \<and> c_status c = ''active'' \<and> \<not> c_is_frontdesk c \<and> c_id c \<noteq> exclude)"

text \<open>The dash of a roster line is one character of three bytes in UTF-8.\<close>

definition em_dash :: string where
  "em_dash = [CHR 0xE2, CHR 0x80, CHR 0x94]"

definition render_agent_catalog :: "orch_state \<Rightarrow> string \<Rightarrow> string \<Rightarrow> string" where
  "render_agent_catalog os tid exclude =
     (let line = (\<lambda>c. ''- '' @ c_name c @ '' (id: '' @ c_folder c @ '') '' @ em_dash @ '' '' @
                   (case or_none (c_routing_description c) of Some d \<Rightarrow> d | None \<Rightarrow> ''(no description provided)''));
          lines = map line (filter (delegatable tid exclude) (map (cw_config \<circ> snd) (o_coworkers os)))
      in if lines = [] then ''No specialists available. Answer the user directly.''
         else join_with [CHR 0x0A] (''Domain specialists available in this tenant:'' # lines))"

definition compose_frontdesk_system_prompt ::
  "string \<Rightarrow> bool \<Rightarrow> string option \<Rightarrow> string \<Rightarrow> string option" where
  "compose_frontdesk_system_prompt rules is_frontdesk base_prompt catalog =
     (if \<not> is_frontdesk then base_prompt
      else let nl2 = [CHR 0x0A, CHR 0x0A]; appended = catalog @ nl2 @ rules in
           Some (case or_none base_prompt of Some p \<Rightarrow> p @ nl2 @ appended | None \<Rightarrow> appended))"

section \<open>Statements\<close>

record delegation_row =
  dr_id :: string
  dr_tenant_id :: string
  dr_parent_conversation_id :: string
  dr_child_conversation_id :: string
  dr_from_coworker_id :: string
  dr_target_coworker_id :: string
  dr_user_id :: "string option"
  dr_prompt_sha256 :: string
  dr_context_mode :: string
  dr_status :: string
  dr_duration_ms :: "int option"
  dr_error_message :: "string option"

definition get_or_create_internal_binding ::
  "string \<Rightarrow> string \<Rightarrow> string \<Rightarrow> channel_binding list \<Rightarrow> channel_binding option \<times> channel_binding list" where
  "get_or_create_internal_binding new_id tid cid bs =
     (case find (\<lambda>b. cb_coworker_id b = cid \<and> cb_channel_type b = ''internal'') bs of
        None \<Rightarrow>
          (let b = \<lparr>cb_id = new_id, cb_coworker_id = cid, cb_tenant_id = tid, cb_channel_type = ''internal'',
                    cb_credentials = [], cb_bot_display_name = None, cb_status = '''', cb_created_at = '''',
                    cb_bot_username = None\<rparr>
           in (Some b, bs @ [b]))
      | Some _ \<Rightarrow>
          (find (\<lambda>b. cb_coworker_id b = cid \<and> cb_channel_type b = ''internal'' \<and> cb_tenant_id b = tid) bs, bs))"

definition find_child_conversation ::
  "string \<Rightarrow> string \<Rightarrow> string \<Rightarrow> string \<Rightarrow> conversation list \<Rightarrow> conversation option" where
  "find_child_conversation tid parent target chat cs =
     find (\<lambda>c. cv_tenant_id c = tid \<and> cv_parent_conversation_id c = Some parent \<and> cv_coworker_id c = target \<and>
               cv_channel_chat_id c = chat) cs"

definition child_chat_id :: "string \<Rightarrow> string \<Rightarrow> string \<Rightarrow> string \<Rightarrow> string" where
  "child_chat_id parent target mode uuid =
     (let base = ''internal:'' @ parent @ '':'' @ target in
      if mode = ''isolated'' then base @ '':'' @ uuid else base)"

definition create_child_conversation ::
  "string \<Rightarrow> string \<Rightarrow> string \<Rightarrow> string \<Rightarrow> string \<Rightarrow> string \<Rightarrow> string option \<Rightarrow> string \<Rightarrow> conversation list \<Rightarrow>
     conversation option \<times> conversation list" where
  "create_child_conversation new_id uuid tid parent target binding user mode cs =
     (let chat = child_chat_id parent target mode uuid in
      case find (\<lambda>c. cv_channel_binding_id c = binding \<and> cv_channel_chat_id c = chat) cs of
        None \<Rightarrow>
          (let c = \<lparr>cv_id = new_id, cv_tenant_id = tid, cv_coworker_id = target, cv_channel_binding_id = binding,
                    cv_channel_chat_id = chat, cv_name = None, cv_last_agent_invocation = None, cv_created_at = '''',
                    cv_user_id = user, cv_parent_conversation_id = Some parent\<rparr>
           in (Some c, cs @ [c]))
      | Some _ \<Rightarrow>
          (find (\<lambda>c. cv_channel_binding_id c = binding \<and> cv_channel_chat_id c = chat \<and> cv_tenant_id c = tid) cs, cs))"

definition open_delegation :: "string \<Rightarrow> delegation_row \<Rightarrow> bool" where
  "open_delegation did r = (dr_id r = did \<and> dr_status r = ''running'')"

definition update_delegation_terminal ::
  "string \<Rightarrow> string \<Rightarrow> int \<Rightarrow> string option \<Rightarrow> delegation_row list \<Rightarrow> bool \<times> delegation_row list" where
  "update_delegation_terminal did status ms err rows =
     (list_ex (open_delegation did) rows,
      map (\<lambda>r. if open_delegation did r
               then r\<lparr>dr_status := status, dr_duration_ms := Some ms, dr_error_message := err\<rparr> else r) rows)"

definition cleanup_running_delegations :: "delegation_row list \<Rightarrow> nat \<times> delegation_row list" where
  "cleanup_running_delegations rows =
     (length (filter (\<lambda>r. dr_status r = ''running'') rows),
      map (\<lambda>r. if dr_status r = ''running''
               then r\<lparr>dr_status := ''error'',
                      dr_error_message := (case dr_error_message r of
                         None \<Rightarrow> Some ''cleanup: orchestrator restarted'' | Some e \<Rightarrow> Some e)\<rparr> else r) rows)"

section \<open>Replies\<close>

record reply_meta =
  rm_target_coworker_id :: string
  rm_target_folder :: string
  rm_child_conversation_id :: string
  rm_new_session_id :: "string option"
  rm_duration_ms :: int
  rm_safety_stage :: json
  rm_delegation_id :: string

record reply =
  rp_status :: string
  rp_text :: string
  rp_is_error :: bool
  rp_metadata :: "reply_meta option"

definition err_reply :: "string \<Rightarrow> reply" where
  "err_reply text = \<lparr>rp_status = ''error'', rp_text = text, rp_is_error = True, rp_metadata = None\<rparr>"

definition meta_of :: "coworker \<Rightarrow> string \<Rightarrow> string \<Rightarrow> int \<Rightarrow> string option \<Rightarrow> json \<Rightarrow> reply_meta" where
  "meta_of target did child ms sid stage =
     \<lparr>rm_target_coworker_id = c_id target, rm_target_folder = c_folder target, rm_child_conversation_id = child,
      rm_new_session_id = sid, rm_duration_ms = ms, rm_safety_stage = stage, rm_delegation_id = did\<rparr>"

definition timeout_response :: "coworker \<Rightarrow> string \<Rightarrow> string \<Rightarrow> int \<Rightarrow> reply" where
  "timeout_response target did child ms =
     \<lparr>rp_status = ''timeout'', rp_text = c_name target @ '' took too long; aborted.'', rp_is_error = True,
      rp_metadata = Some (meta_of target did child ms None JNull)\<rparr>"

definition error_response :: "coworker \<Rightarrow> string \<Rightarrow> string \<Rightarrow> int \<Rightarrow> string \<Rightarrow> reply" where
  "error_response target did child ms err =
     \<lparr>rp_status = ''error'', rp_text = c_name target @ '' failed: '' @ err, rp_is_error = True,
      rp_metadata = Some (meta_of target did child ms None JNull)\<rparr>"

definition or_empty :: "string option \<Rightarrow> string" where
  "or_empty s = (case s of None \<Rightarrow> '''' | Some x \<Rightarrow> x)"

definition map_output_to_response :: "agent_output \<Rightarrow> coworker \<Rightarrow> string \<Rightarrow> string \<Rightarrow> int \<Rightarrow> reply \<times> string" where
  "map_output_to_response out target did child ms =
     (let meta = meta_of target did child ms (ao_new_session_id out) in
      if ao_status out = ''success''
      then (\<lparr>rp_status = ''success'', rp_text = or_empty (ao_result out), rp_is_error = False,
             rp_metadata = Some (meta JNull)\<rparr>, ''success'')
      else if ao_status out = ''safety_blocked''
      then (\<lparr>rp_status = ''safety_blocked'', rp_text = c_name target @ '' declined: '' @ or_empty (ao_result out),
             rp_is_error = True,
             rp_metadata = Some (meta (case ao_metadata out of None \<Rightarrow> JNull | Some m \<Rightarrow> get_or m ''stage'' JNull))\<rparr>,
            ''safety_blocked'')
      else if ao_status out = ''stopped''
      then (\<lparr>rp_status = ''error'', rp_text = c_name target @ '' was interrupted.'', rp_is_error = True,
             rp_metadata = Some (meta JNull)\<rparr>, ''error'')
      else (\<lparr>rp_status = ''error'',
             rp_text = c_name target @ '' failed: '' @
               or_str (or_str (or_empty (ao_error out)) (or_empty (ao_result out))) ''unknown error'',
             rp_is_error = True, rp_metadata = Some (meta JNull)\<rparr>, ''error''))"

section \<open>Merging the events of a turn\<close>

definition merge_pi_two_event_pattern ::
  "agent_output option \<Rightarrow> agent_output option \<Rightarrow> agent_output option \<Rightarrow> agent_output" where
  "merge_pi_two_event_pattern text marker term =
     (case term of
        Some t \<Rightarrow> t
      | None \<Rightarrow>
          (case (text, marker) of
             (Some t, Some m) \<Rightarrow>
               success_output (ao_result t)
                 (if truthy (ao_new_session_id m) then ao_new_session_id m else ao_new_session_id t) (ao_metadata t)
           | (None, Some m) \<Rightarrow> success_output None (ao_new_session_id m) None
           | (Some t, None) \<Rightarrow> success_output (ao_result t) (ao_new_session_id t) (ao_metadata t)
           | (None, None) \<Rightarrow> success_output None None None))"

section \<open>Requests\<close>

record deleg_request =
  rq_tenant_id :: string
  rq_from_id :: string
  rq_parent_conv_id :: string
  rq_target :: string
  rq_prompt :: string
  rq_context_mode :: string
  rq_depth :: int
  rq_user_id :: "string option"

text \<open>\<open>None\<close> is the \<open>KeyError\<close> of a missing key or the \<open>ValueError\<close> of the depth.\<close>

definition parse_request :: "(json \<Rightarrow> string) \<Rightarrow> (string \<times> json) list \<Rightarrow> deleg_request option" where
  "parse_request py_str d =
     (case (obj_get d ''tenantId'', obj_get d ''fromCoworkerId'', obj_get d ''fromConversationId'',
            obj_get d ''target'', obj_get d ''prompt'', obj_get d ''contextMode'',
            py_int int_of_str (get_or d ''depth'' (JInt 0))) of
        (Some t, Some f, Some p, Some g, Some m, Some c, Some n) \<Rightarrow>
          Some \<lparr>rq_tenant_id = py_str t, rq_from_id = py_str f, rq_parent_conv_id = py_str p, rq_target = py_str g,
                rq_prompt = py_str m, rq_context_mode = py_str c, rq_depth = n,
                rq_user_id = (case get_or d ''userId'' JNull of JNull \<Rightarrow> None | v \<Rightarrow> Some (py_str v))\<rparr>
      | _ \<Rightarrow> None)"

definition max_delegation_depth :: int where
  "max_delegation_depth = 1"

definition resolve_target :: "orch_state \<Rightarrow> string \<Rightarrow> string \<Rightarrow> string \<Rightarrow> coworker option" where
  "resolve_target os tid slug exclude =
     (case (case get_coworker_by_folder os tid slug of
              Some cs \<Rightarrow> Some cs | None \<Rightarrow> dict_get (o_coworkers os) slug) of
        None \<Rightarrow> None
      | Some cs \<Rightarrow>
          (let c = cw_config cs in
           if c_tenant_id c \<noteq> tid then None
           else if c_is_frontdesk c then None
           else if c_status c \<noteq> ''active'' then None
           else if c_id c = exclude then None
           else Some c))"

definition quoted :: "string \<Rightarrow> string" where
  "quoted s = [CHR 0x27] @ s @ [CHR 0x27]"

text \<open>The checks before the first await: the refusal, or the caller and the target.\<close>

definition validate_request :: "(string \<Rightarrow> string) \<Rightarrow> orch_state \<Rightarrow> deleg_request \<Rightarrow> reply + coworker \<times> coworker" where
  "validate_request py_repr os rq =
     (case dict_get (o_coworkers os) (rq_from_id rq) of
        None \<Rightarrow> Inl (err_reply ''Calling coworker not found.'')
      | Some cs \<Rightarrow>
          (let from_co = cw_config cs in
           if c_tenant_id from_co \<noteq> rq_tenant_id rq then Inl (err_reply ''Tenant mismatch.'')
           else if (case c_permissions from_co of None \<Rightarrow> True | Some p \<Rightarrow> \<not> agent_delegate p)
             then Inl (err_reply (c_name from_co @ '' cannot delegate.''))
           else if rq_depth rq \<ge> max_delegation_depth
             then Inl (err_reply (''Delegation depth '' @ show_int (rq_depth rq) @ '' exceeds limit (max 1 hop).''))
           else if rq_context_mode rq \<notin> {''sticky'', ''isolated''}
             then Inl (err_reply (''contextMode must be '' @ quoted ''sticky'' @ '' or '' @ quoted ''isolated'' @ ''; got '' @ py_repr (rq_context_mode rq) @ ''.''))
           else (case resolve_target os (c_tenant_id from_co) (rq_target rq) (c_id from_co) of
                   None \<Rightarrow> Inl (err_reply (''Agent '' @ quoted (rq_target rq) @ '' not found.'' @ [CHR 0x0A, CHR 0x0A] @
                                 render_agent_catalog os (c_tenant_id from_co) (c_id from_co)))
                 | Some target \<Rightarrow> Inr (from_co, target))))"

text \<open>\<open>None\<close> is the failed assertion on the permissions of the target.\<close>

definition build_agent_input ::
  "coworker \<Rightarrow> coworker \<Rightarrow> string \<Rightarrow> string \<Rightarrow> string \<Rightarrow> string option \<Rightarrow> string option \<Rightarrow> int \<Rightarrow> string \<Rightarrow> string \<Rightarrow>
     agent_input option" where
  "build_agent_input target from_co chat child prompt user sid depth parent did =
     map_option (\<lambda>perms.
     \<lparr>ai_prompt = prompt, ai_group_folder = c_folder target, ai_chat_jid = chat,
      ai_permissions = perms_to_dict perms, ai_tenant_id = c_tenant_id target,
      ai_coworker_id = c_id target, ai_conversation_id = child, ai_user_id = or_empty user, ai_session_id = sid,
      ai_is_scheduled_task = False, ai_assistant_name = Some (c_name target),
      ai_system_prompt = c_system_prompt target,
      ai_role_config = Some [(''is_delegated_call'', JBool True), (''delegated_by'', JStr (c_id from_co)),
        (''delegation_depth'', JInt (depth + 1)), (''parent_conversation_id'', JStr parent),
        (''delegation_id'', JStr did)]\<rparr>) (c_permissions target)"

end
