(* ===== verification/Delegation_Run.thy ===== *)
theory Delegation_Run
  imports Delegation
begin

text \<open>
  The coroutine that handles one delegation request, with everything it shares: the queue, the
  bindings, the child conversations, the sessions and the audit rows. \<open>process_one\<close> of
  \<^verbatim>\<open>src/src/rolemesh/orchestration/delegation.py\<close> is cut at its awaits; \<open>dstep\<close> is the effect of one event.
\<close>

section \<open>State\<close>

datatype deleg_failure = BusinessTimeout | ExecutorRaised string

datatype closure_state = NotQueued | Queued | Running | Ended

text \<open>
  What remains after the turn: the reply, the status and message for the audit row, the duration and the
  session to keep.
\<close>

datatype dphase =
    AwaitBinding
  | AwaitFind
  | AwaitCreate
  | AwaitSession
  | AwaitInsert
  | AwaitStarted
  | AwaitResult
  | Closing reply string "string option" int "string option"
  | Replied reply

record dcall =
  dl_request :: deleg_request
  dl_from :: coworker
  dl_target :: coworker
  dl_phase :: dphase
  dl_binding :: "channel_binding option"
  dl_child :: "conversation option"
  dl_session :: "string option"
  dl_id :: "string option"
  dl_input :: "agent_input option"
  dl_text :: "agent_output option"
  dl_marker :: "agent_output option"
  dl_terminal :: "agent_output option"
  dl_started :: bool
  dl_result :: "(deleg_failure + unit) option"
  dl_closure :: closure_state
  dl_bucket :: chip_bucket
  dl_chips :: "(string \<times> payload) list"

record dworld =
  dw_queue :: queue
  dw_bindings :: "channel_binding list"
  dw_conversations :: "conversation list"
  dw_sessions :: "(string, string) dict"
  dw_rows :: "delegation_row list"
  dw_refused :: "reply list"
  dw_calls :: "dcall list"

record denv =
  de_str :: "json \<Rightarrow> string"
  de_repr :: "string \<Rightarrow> string"
  de_sha256 :: "string \<Rightarrow> string"
  de_executor :: "string \<Rightarrow> bool"
  de_bad_request :: "(string \<times> json) list \<Rightarrow> string"

definition new_call :: "deleg_request \<Rightarrow> coworker \<Rightarrow> coworker \<Rightarrow> dcall" where
  "new_call rq from_co target =
     \<lparr>dl_request = rq, dl_from = from_co, dl_target = target, dl_phase = AwaitBinding, dl_binding = None,
      dl_child = None, dl_session = None, dl_id = None, dl_input = None, dl_text = None, dl_marker = None,
      dl_terminal = None, dl_started = False, dl_result = None, dl_closure = NotQueued, dl_bucket = [],
      dl_chips = []\<rparr>"

definition handler_error :: "string \<Rightarrow> reply" where
  "handler_error msg = err_reply (''Delegation handler error: '' @ msg)"

text \<open>\<open>result_future.set_\<dots>\<close> under the test that it is not done.\<close>

definition set_result_once :: "deleg_failure + unit \<Rightarrow> dcall \<Rightarrow> dcall" where
  "set_result_once r c = (if dl_result c = None then c\<lparr>dl_result := Some r\<rparr> else c)"

definition queue_key :: "dcall \<Rightarrow> string" where
  "queue_key c = ''delegate:'' @ (case dl_child c of None \<Rightarrow> '''' | Some cv \<Rightarrow> cv_id cv)"

section \<open>The stretches of the coroutine\<close>

definition after_binding :: "channel_binding option \<Rightarrow> dcall \<Rightarrow> dcall" where
  "after_binding b c =
     (case b of
        None \<Rightarrow> c\<lparr>dl_phase := Replied (handler_error ''internal binding lookup returned NULL after ON CONFLICT'')\<rparr>
      | Some x \<Rightarrow> c\<lparr>dl_binding := Some x,
                    dl_phase := (if rq_context_mode (dl_request c) = ''sticky'' then AwaitFind else AwaitCreate)\<rparr>)"

definition after_child :: "conversation \<Rightarrow> dcall \<Rightarrow> dcall" where
  "after_child cv c =
     c\<lparr>dl_child := Some cv,
       dl_phase := (if rq_context_mode (dl_request c) = ''sticky'' then AwaitSession else AwaitInsert)\<rparr>"

definition after_find :: "conversation option \<Rightarrow> dcall \<Rightarrow> dcall" where
  "after_find r c = (case r of None \<Rightarrow> c\<lparr>dl_phase := AwaitCreate\<rparr> | Some cv \<Rightarrow> after_child cv c)"

definition after_create :: "conversation option \<Rightarrow> dcall \<Rightarrow> dcall" where
  "after_create r c =
     (case r of
        None \<Rightarrow> c\<lparr>dl_phase := Replied (handler_error ''child conv lookup returned NULL after ON CONFLICT'')\<rparr>
      | Some cv \<Rightarrow> after_child cv c)"

definition audit_row :: "denv \<Rightarrow> string \<Rightarrow> dcall \<Rightarrow> delegation_row" where
  "audit_row env did c =
     \<lparr>dr_id = did, dr_tenant_id = c_tenant_id (dl_target c),
      dr_parent_conversation_id = rq_parent_conv_id (dl_request c),
      dr_child_conversation_id = (case dl_child c of None \<Rightarrow> '''' | Some cv \<Rightarrow> cv_id cv),
      dr_from_coworker_id = c_id (dl_from c), dr_target_coworker_id = c_id (dl_target c),
      dr_user_id = rq_user_id (dl_request c), dr_prompt_sha256 = de_sha256 env (rq_prompt (dl_request c)),
      dr_context_mode = rq_context_mode (dl_request c), dr_status = ''running'', dr_duration_ms = None,
      dr_error_message = None\<rparr>"

definition shutdown_text :: string where
  "shutdown_text = ''GroupQueue is shutting down; delegation refused.''"

definition refuse :: "int \<Rightarrow> string \<Rightarrow> dcall \<Rightarrow> dcall" where
  "refuse ms text c = c\<lparr>dl_phase := Closing (err_reply text) ''error'' (Some text) ms None\<rparr>"

text \<open>From the inserted audit row to the wait for the start: refusals, the input, the first chip, the queue.\<close>

definition launch :: "denv \<Rightarrow> nat \<Rightarrow> string \<Rightarrow> int \<Rightarrow> dcall \<Rightarrow> queue \<Rightarrow> dcall \<times> queue" where
  "launch env i did ms c0 q =
     (let c = c0\<lparr>dl_id := Some did\<rparr>; target = dl_target c; rq = dl_request c in
      if q_shutting_down q then (refuse ms shutdown_text c, q)
      else if \<not> de_executor env (c_agent_backend target)
        then (refuse ms (''No executor for backend '' @ de_repr env (c_agent_backend target) @ ''.'') c, q)
      else (case build_agent_input target (dl_from c)
                 (case dl_child c of None \<Rightarrow> '''' | Some cv \<Rightarrow> cv_channel_chat_id cv)
                 (case dl_child c of None \<Rightarrow> '''' | Some cv \<Rightarrow> cv_id cv)
                 (rq_prompt rq) (rq_user_id rq) (dl_session c) (rq_depth rq) (rq_parent_conv_id rq) did of
              None \<Rightarrow> (c\<lparr>dl_phase := Replied (handler_error '''')\<rparr>, q)
            | Some inp \<Rightarrow>
                (c\<lparr>dl_input := Some inp,
                   dl_chips := [(''open'', [(''initial_status'', JStr ''queued''),
                                            (''context_mode'', JStr (rq_context_mode rq))])],
                   dl_closure := Queued, dl_phase := AwaitStarted\<rparr>,
                 enqueue_task (queue_key c) (''delegate-'' @ did) i (c_tenant_id target) (c_id target) q)))"

text \<open>\<open>_on_output\<close>, with the call and the queue it changes.\<close>

definition on_output :: "rat \<Rightarrow> agent_output \<Rightarrow> dcall \<times> queue \<Rightarrow> dcall \<times> queue" where
  "on_output now out = (\<lambda>(c, q).
     (if ao_status out \<in> set progress_statuses
      then let (b, chips) = translate_progress_to_chip now out (dl_bucket c, dl_chips c)
           in (c\<lparr>dl_bucket := b, dl_chips := chips\<rparr>, q)
      else if ao_status out = ''success'' \<and> \<not> ao_is_final out
        then (if truthy (ao_result out) then c\<lparr>dl_text := Some out\<rparr> else c, q)
      else if ao_status out = ''success''
        then (set_result_once (Inr ())
                (c\<lparr>dl_marker := Some out,
                   dl_text := (if truthy (ao_result out) \<and> dl_text c = None then Some out else dl_text c)\<rparr>),
              request_shutdown (queue_key c) q)
      else if ao_status out \<in> {''error'', ''safety_blocked'', ''stopped''}
        then (set_result_once (Inr ()) (c\<lparr>dl_terminal := Some out\<rparr>), request_shutdown (queue_key c) q)
      else (c, q)))"

definition stalled_text :: string where
  "stalled_text = ''Delegation task never started (queue stalled).''"

definition guard_passes :: "int \<Rightarrow> dcall \<Rightarrow> dcall" where
  "guard_passes ms c =
     c\<lparr>dl_phase := Closing (err_reply ''Delegation task failed to start.'') ''error'' (Some stalled_text) ms None\<rparr>"

text \<open>From the result to the closing statements.\<close>

definition conclude :: "int \<Rightarrow> dcall \<Rightarrow> dphase" where
  "conclude ms c =
     (let target = dl_target c; did = or_empty (dl_id c);
          child = (case dl_child c of None \<Rightarrow> '''' | Some cv \<Rightarrow> cv_id cv)
      in case dl_result c of
           Some (Inl BusinessTimeout) \<Rightarrow>
             Closing (timeout_response target did child ms) ''timeout''
               (Some (c_name target @ '' took too long; aborted.'')) ms None
         | Some (Inl (ExecutorRaised msg)) \<Rightarrow>
             Closing (error_response target did child ms msg) ''error'' (Some msg) ms None
         | _ \<Rightarrow>
             (let out = merge_pi_two_event_pattern (dl_text c) (dl_marker c) (dl_terminal c);
                  (resp, audit) = map_output_to_response out target did child ms
              in Closing resp audit (if audit = ''success'' then None else Some (rp_text resp)) ms
                   (if rq_context_mode (dl_request c) = ''sticky'' \<and> ao_status out = ''success''
                    then or_none (ao_new_session_id out) else None)))"

definition close_chips :: "string \<Rightarrow> int \<Rightarrow> dcall \<Rightarrow> dcall" where
  "close_chips status ms c =
     (let (deferred, b) = flush_all (dl_bucket c) in
      c\<lparr>dl_bucket := b,
        dl_chips := dl_chips c @ deferred @
          [(''close'', [(''final_status'', JStr status), (''duration_ms'', JInt ms)])]\<rparr>)"

section \<open>Events\<close>

text \<open>The last event is any other activity on the queue and the tables of coworkers it holds.\<close>

datatype devent =
    Request "(string \<times> json) list"
  | BindingDone nat string
  | FindDone nat
  | CreateDone nat string string
  | SessionDone nat
  | InsertDone nat string int
  | StatementFails nat string
  | ClosureBegins nat
  | Registers nat string string
  | Outputs nat rat agent_output
  | ExecutorReturns nat
  | ExecutorRaises nat string
  | DeadlinePasses nat
  | GuardPasses nat int
  | StartedWakes nat
  | ResultWakes nat int
  | SessionSaved nat bool
  | ClosingDone nat
  | QueueMoves queue

definition set_call :: "nat \<Rightarrow> dcall \<Rightarrow> dworld \<Rightarrow> dworld" where
  "set_call i c w = w\<lparr>dw_calls := (dw_calls w)[i := c]\<rparr>"

text \<open>The call with a number, when it is in the given phase.\<close>

definition call_in :: "dworld \<Rightarrow> nat \<Rightarrow> (dcall \<Rightarrow> bool) \<Rightarrow> dcall option" where
  "call_in w i P = (if i < length (dw_calls w) \<and> P (dw_calls w ! i) then Some (dw_calls w ! i) else None)"

fun statement_phase :: "dphase \<Rightarrow> bool" where
  "statement_phase AwaitBinding = True"
| "statement_phase AwaitFind = True"
| "statement_phase AwaitCreate = True"
| "statement_phase AwaitSession = True"
| "statement_phase AwaitInsert = True"
| "statement_phase (Closing _ _ _ _ sid) = (sid = None)"
| "statement_phase _ = False"

definition request_step :: "denv \<Rightarrow> (string \<times> json) list \<Rightarrow> dworld \<Rightarrow> dworld" where
  "request_step env d w =
     (case parse_request (de_str env) d of
        None \<Rightarrow> w\<lparr>dw_refused := dw_refused w @ [handler_error (de_bad_request env d)]\<rparr>
      | Some rq \<Rightarrow>
          (case validate_request (de_repr env) (q_orch (dw_queue w)) rq of
             Inl r \<Rightarrow> w\<lparr>dw_refused := dw_refused w @ [r]\<rparr>
           | Inr (from_co, target) \<Rightarrow> w\<lparr>dw_calls := dw_calls w @ [new_call rq from_co target]\<rparr>))"

definition binding_step :: "nat \<Rightarrow> string \<Rightarrow> dcall \<Rightarrow> dworld \<Rightarrow> dworld" where
  "binding_step i new_id c w =
     (let (b, bs) = get_or_create_internal_binding new_id (c_tenant_id (dl_target c)) (c_id (dl_target c)) (dw_bindings w)
      in set_call i (after_binding b c) (w\<lparr>dw_bindings := bs\<rparr>))"

definition find_step :: "nat \<Rightarrow> dcall \<Rightarrow> dworld \<Rightarrow> dworld" where
  "find_step i c w =
     (let parent = rq_parent_conv_id (dl_request c); target = dl_target c
      in set_call i (after_find (find_child_conversation (c_tenant_id target) parent (c_id target)
           (child_chat_id parent (c_id target) ''sticky'' '''') (dw_conversations w)) c) w)"

definition create_step :: "nat \<Rightarrow> string \<Rightarrow> string \<Rightarrow> dcall \<Rightarrow> dworld \<Rightarrow> dworld" where
  "create_step i new_id uuid c w =
     (let (r, cs) = create_child_conversation new_id uuid (c_tenant_id (dl_target c))
            (rq_parent_conv_id (dl_request c)) (c_id (dl_target c))
            (case dl_binding c of None \<Rightarrow> '''' | Some b \<Rightarrow> cb_id b) (rq_user_id (dl_request c))
            (rq_context_mode (dl_request c)) (dw_conversations w)
      in set_call i (after_create r c) (w\<lparr>dw_conversations := cs\<rparr>))"

definition insert_step :: "denv \<Rightarrow> nat \<Rightarrow> string \<Rightarrow> int \<Rightarrow> dcall \<Rightarrow> dworld \<Rightarrow> dworld" where
  "insert_step env i did ms c w =
     (if did \<in> set (map dr_id (dw_rows w)) then w
      else let (c', q') = launch env i did ms c (dw_queue w)
           in set_call i c' (w\<lparr>dw_rows := dw_rows w @ [audit_row env did c], dw_queue := q'\<rparr>))"

text \<open>\<open>set_session\<close>, whose failure is only logged, and then the statement that closes the row.\<close>

definition session_step :: "nat \<Rightarrow> bool \<Rightarrow> dcall \<Rightarrow> dworld \<Rightarrow> dworld" where
  "session_step i saved c w =
     (case dl_phase c of
        Closing resp status err ms (Some s) \<Rightarrow>
          (let child = (case dl_child c of None \<Rightarrow> '''' | Some cv \<Rightarrow> cv_id cv)
           in set_call i (c\<lparr>dl_phase := Closing resp status err ms None\<rparr>)
                (if saved then w\<lparr>dw_sessions := dict_set (dw_sessions w) child s\<rparr> else w))
      | _ \<Rightarrow> w)"

definition closing_step :: "nat \<Rightarrow> dcall \<Rightarrow> dworld \<Rightarrow> dworld" where
  "closing_step i c w =
     (case dl_phase c of
        Closing resp status err ms None \<Rightarrow>
          (let c1 = (if dl_input c = None then c else close_chips status ms c)
           in set_call i (c1\<lparr>dl_phase := Replied resp\<rparr>)
                (w\<lparr>dw_rows := snd (update_delegation_terminal (or_empty (dl_id c)) status ms err (dw_rows w))\<rparr>))
      | _ \<Rightarrow> w)"

fun dstep :: "denv \<Rightarrow> devent \<Rightarrow> dworld \<Rightarrow> dworld" where
  "dstep env (Request d) w = request_step env d w"
| "dstep env (BindingDone i new_id) w =
     (case call_in w i (\<lambda>c. dl_phase c = AwaitBinding) of None \<Rightarrow> w | Some c \<Rightarrow> binding_step i new_id c w)"
| "dstep env (FindDone i) w =
     (case call_in w i (\<lambda>c. dl_phase c = AwaitFind) of None \<Rightarrow> w | Some c \<Rightarrow> find_step i c w)"
| "dstep env (CreateDone i new_id uuid) w =
     (case call_in w i (\<lambda>c. dl_phase c = AwaitCreate) of None \<Rightarrow> w | Some c \<Rightarrow> create_step i new_id uuid c w)"
| "dstep env (SessionDone i) w =
     (case call_in w i (\<lambda>c. dl_phase c = AwaitSession) of
        None \<Rightarrow> w
      | Some c \<Rightarrow> set_call i (c\<lparr>dl_session := (case dl_child c of None \<Rightarrow> None | Some cv \<Rightarrow> dict_get (dw_sessions w) (cv_id cv)),
                               dl_phase := AwaitInsert\<rparr>) w)"
| "dstep env (InsertDone i did ms) w =
     (case call_in w i (\<lambda>c. dl_phase c = AwaitInsert) of None \<Rightarrow> w | Some c \<Rightarrow> insert_step env i did ms c w)"
| "dstep env (StatementFails i msg) w =
     (case call_in w i (\<lambda>c. statement_phase (dl_phase c)) of
        None \<Rightarrow> w | Some c \<Rightarrow> set_call i (c\<lparr>dl_phase := Replied (handler_error msg)\<rparr>) w)"
| "dstep env (ClosureBegins i) w =
     (case call_in w i (\<lambda>c. dl_closure c = Queued) of
        None \<Rightarrow> w | Some c \<Rightarrow> set_call i (c\<lparr>dl_started := True, dl_closure := Running\<rparr>) w)"
| "dstep env (Registers i container job) w =
     (case call_in w i (\<lambda>c. dl_closure c = Running) of
        None \<Rightarrow> w
      | Some c \<Rightarrow> w\<lparr>dw_queue := register_process (queue_key c) container (Some (c_folder (dl_target c))) (Some job) (dw_queue w)\<rparr>)"
| "dstep env (Outputs i now out) w =
     (case call_in w i (\<lambda>c. dl_closure c = Running) of
        None \<Rightarrow> w
      | Some c \<Rightarrow> let (c', q') = on_output now out (c, dw_queue w) in set_call i c' (w\<lparr>dw_queue := q'\<rparr>))"
| "dstep env (ExecutorReturns i) w =
     (case call_in w i (\<lambda>c. dl_closure c = Running) of
        None \<Rightarrow> w | Some c \<Rightarrow> set_call i (set_result_once (Inr ()) (c\<lparr>dl_closure := Ended\<rparr>)) w)"
| "dstep env (ExecutorRaises i msg) w =
     (case call_in w i (\<lambda>c. dl_closure c = Running) of
        None \<Rightarrow> w | Some c \<Rightarrow> set_call i (set_result_once (Inl (ExecutorRaised msg)) (c\<lparr>dl_closure := Ended\<rparr>)) w)"
| "dstep env (DeadlinePasses i) w =
     (case call_in w i (\<lambda>c. dl_closure c = Running) of
        None \<Rightarrow> w
      | Some c \<Rightarrow> set_call i (set_result_once (Inl BusinessTimeout) (c\<lparr>dl_closure := Ended\<rparr>))
                   (w\<lparr>dw_queue := request_shutdown (queue_key c) (dw_queue w)\<rparr>))"
| "dstep env (GuardPasses i ms) w =
     (case call_in w i (\<lambda>c. dl_phase c = AwaitStarted \<and> \<not> dl_started c) of
        None \<Rightarrow> w | Some c \<Rightarrow> set_call i (guard_passes ms c) w)"
| "dstep env (StartedWakes i) w =
     (case call_in w i (\<lambda>c. dl_phase c = AwaitStarted \<and> dl_started c) of
        None \<Rightarrow> w | Some c \<Rightarrow> set_call i (c\<lparr>dl_phase := AwaitResult\<rparr>) w)"
| "dstep env (ResultWakes i ms) w =
     (case call_in w i (\<lambda>c. dl_phase c = AwaitResult \<and> dl_result c \<noteq> None) of
        None \<Rightarrow> w | Some c \<Rightarrow> set_call i (c\<lparr>dl_phase := conclude ms c\<rparr>) w)"
| "dstep env (SessionSaved i saved) w =
     (case call_in w i (\<lambda>c. True) of None \<Rightarrow> w | Some c \<Rightarrow> session_step i saved c w)"
| "dstep env (ClosingDone i) w =
     (case call_in w i (\<lambda>c. True) of None \<Rightarrow> w | Some c \<Rightarrow> closing_step i c w)"
| "dstep env (QueueMoves q) w = w\<lparr>dw_queue := q\<rparr>"

definition drun :: "denv \<Rightarrow> devent list \<Rightarrow> dworld \<Rightarrow> dworld" where
  "drun env es w = fold (dstep env) es w"

definition new_world :: "queue \<Rightarrow> dworld" where
  "new_world q =
     \<lparr>dw_queue = q, dw_bindings = [], dw_conversations = [], dw_sessions = [], dw_rows = [], dw_refused = [],
      dw_calls = []\<rparr>"

end
