(* ===== verification/Delegation_Props.thy ===== *)
theory Delegation_Props
  imports Delegation_Run
begin

text \<open>
  What a delegation guarantees under every interleaving: who may be reached and with which
  permissions, that the audit row and the reply say the same, that sticky calls of one conversation
  share one child; and two ways in which the reply and the target part company.
\<close>

inductive dreach :: "denv \<Rightarrow> dworld \<Rightarrow> bool" for env where
  dstart: "dreach env (new_world q)"
| dmove: "dreach env w \<Longrightarrow> dreach env (dstep env e w)"

lemma dreach_run: "dreach env w \<Longrightarrow> dreach env (drun env es w)"
  unfolding drun_def by (induction es arbitrary: w) (auto intro: dmove)

section \<open>Frames\<close>

lemma set_call_simps [simp]:
  "dw_calls (set_call i c w) = (dw_calls w)[i := c]" "dw_rows (set_call i c w) = dw_rows w"
  "dw_bindings (set_call i c w) = dw_bindings w" "dw_conversations (set_call i c w) = dw_conversations w"
  "dw_queue (set_call i c w) = dw_queue w" "dw_sessions (set_call i c w) = dw_sessions w"
  by (simp_all add: set_call_def)

lemma call_in_SomeD: "call_in w i P = Some c \<Longrightarrow> i < length (dw_calls w) \<and> dw_calls w ! i = c \<and> P c"
  by (auto simp: call_in_def split: if_splits)

text \<open>What a step never changes of a call: its request and the two coworkers.\<close>

definition same_party :: "dcall \<Rightarrow> dcall \<Rightarrow> bool" where
  "same_party c c' = (dl_request c' = dl_request c \<and> dl_from c' = dl_from c \<and> dl_target c' = dl_target c)"

lemma same_party_refl [simp]: "same_party c c"
  by (simp add: same_party_def)

lemma set_result_once_simps [simp]:
  "dl_phase (set_result_once r c) = dl_phase c" "dl_id (set_result_once r c) = dl_id c"
  "dl_input (set_result_once r c) = dl_input c" "dl_closure (set_result_once r c) = dl_closure c"
  "dl_request (set_result_once r c) = dl_request c" "dl_from (set_result_once r c) = dl_from c"
  "dl_target (set_result_once r c) = dl_target c" "dl_binding (set_result_once r c) = dl_binding c"
  "dl_child (set_result_once r c) = dl_child c" "dl_terminal (set_result_once r c) = dl_terminal c"
  by (simp_all add: set_result_once_def)

text \<open>An output changes only what the turn collects.\<close>

lemma on_output_frame:
  assumes "on_output now out (c, q) = (c', q')"
  shows "dl_phase c' = dl_phase c" "dl_id c' = dl_id c" "dl_input c' = dl_input c" "dl_closure c' = dl_closure c"
    "dl_request c' = dl_request c" "dl_from c' = dl_from c" "dl_target c' = dl_target c"
    "dl_binding c' = dl_binding c" "dl_child c' = dl_child c"
  using assms by (auto simp: on_output_def split: if_splits prod.splits)

section \<open>The invariant of the audit\<close>

definition row_status :: "delegation_row list \<Rightarrow> string \<Rightarrow> string option" where
  "row_status rows d = map_option dr_status (find (\<lambda>r. dr_id r = d) rows)"

lemma row_status_append:
  "row_status (rows @ [r]) d = (if row_status rows d = None \<and> dr_id r = d then Some (dr_status r) else row_status rows d)"
  by (induction rows) (auto simp: row_status_def)

lemma row_status_None: "row_status rows d = None \<longleftrightarrow> d \<notin> set (map dr_id rows)"
  by (auto simp: row_status_def find_None_iff)

lemma row_status_update:
  "row_status (snd (update_delegation_terminal did s ms e rows)) d =
     (if d = did \<and> row_status rows d = Some ''running'' then Some s else row_status rows d)"
  by (induction rows) (auto simp: row_status_def update_delegation_terminal_def open_delegation_def)

text \<open>
  What the status of its row is for a call in each phase: none before the insert, running up to the
  closing statement, and afterwards a success exactly when the reply is one.
\<close>

fun row_ok :: "(string \<Rightarrow> string option) \<Rightarrow> dphase \<Rightarrow> string option \<Rightarrow> bool" where
  "row_ok st AwaitStarted did = (\<exists>d. did = Some d \<and> st d = Some ''running'')"
| "row_ok st AwaitResult did = (\<exists>d. did = Some d \<and> st d = Some ''running'')"
| "row_ok st (Closing r s _ _ _) did =
     ((\<exists>d. did = Some d \<and> st d = Some ''running'') \<and> s \<noteq> ''running'' \<and> (rp_is_error r \<longleftrightarrow> s \<noteq> ''success''))"
| "row_ok st (Replied r) did =
     (case did of None \<Rightarrow> rp_is_error r
      | Some d \<Rightarrow> \<exists>s. st d = Some s \<and> (rp_is_error r \<longleftrightarrow> s \<noteq> ''success''))"
| "row_ok st _ did = (did = None)"

lemma row_ok_status: "row_ok st ph (Some d) \<Longrightarrow> st d \<noteq> None"
  by (cases ph) auto

lemma row_ok_cong: "(\<And>d. did = Some d \<Longrightarrow> st d = st' d) \<Longrightarrow> row_ok st ph did \<longleftrightarrow> row_ok st' ph did"
  by (cases ph; cases did) auto

text \<open>Who takes part, and what the target is given.\<close>

definition party_ok :: "dcall \<Rightarrow> bool" where
  "party_ok c =
     (let f = dl_from c; t = dl_target c; rq = dl_request c in
      c_tenant_id f = rq_tenant_id rq \<and> c_tenant_id t = c_tenant_id f \<and> c_id t \<noteq> c_id f \<and> c_status t = ''active'' \<and>
      \<not> c_is_frontdesk t \<and> (case c_permissions f of None \<Rightarrow> False | Some p \<Rightarrow> agent_delegate p) \<and>
      rq_depth rq < max_delegation_depth)"

definition input_for :: "dcall \<Rightarrow> agent_input \<Rightarrow> bool" where
  "input_for c inp \<longleftrightarrow>
     (\<exists>chat child sid did. build_agent_input (dl_target c) (dl_from c) chat child (rq_prompt (dl_request c))
        (rq_user_id (dl_request c)) sid (rq_depth (dl_request c)) (rq_parent_conv_id (dl_request c)) did = Some inp)"

definition input_ok :: "dcall \<Rightarrow> bool" where
  "input_ok c =
     ((dl_closure c \<noteq> NotQueued \<longrightarrow> dl_input c \<noteq> None) \<and> (\<forall>inp. dl_input c = Some inp \<longrightarrow> input_for c inp))"

definition dinv :: "dworld \<Rightarrow> bool" where
  "dinv w \<longleftrightarrow>
     (\<forall>i < length (dw_calls w). let c = dw_calls w ! i in
        party_ok c \<and> input_ok c \<and> row_ok (row_status (dw_rows w)) (dl_phase c) (dl_id c)) \<and>
     (\<forall>i < length (dw_calls w). \<forall>j < length (dw_calls w). \<forall>d.
        dl_id (dw_calls w ! i) = Some d \<longrightarrow> dl_id (dw_calls w ! j) = Some d \<longrightarrow> i = j)"

lemma party_okD: "same_party c c' \<Longrightarrow> party_ok c \<Longrightarrow> party_ok c'"
  by (simp add: same_party_def party_ok_def)

lemma input_for_same: "same_party c c' \<Longrightarrow> input_for c' inp = input_for c inp"
  by (simp add: same_party_def input_for_def)

lemma input_ok_keep:
  assumes "same_party c c'" "dl_input c' = dl_input c" "dl_closure c' \<noteq> NotQueued \<longrightarrow> dl_closure c \<noteq> NotQueued" "input_ok c"
  shows "input_ok c'"
  using assms input_for_same [OF assms(1)] by (auto simp: input_ok_def)

lemma dinv_update:
  assumes "dinv w" and i: "i < length (dw_calls w)" and calls: "dw_calls w' = (dw_calls w)[i := c']"
    and party: "same_party (dw_calls w ! i) c'" and inp: "input_ok c'"
    and row: "row_ok (row_status (dw_rows w')) (dl_phase c') (dl_id c')"
    and ids: "dl_id c' = dl_id (dw_calls w ! i) \<or> (\<exists>d. dl_id c' = Some d \<and> row_status (dw_rows w) d = None)"
    and frame: "\<And>d. Some d \<noteq> dl_id c' \<Longrightarrow> row_status (dw_rows w') d = row_status (dw_rows w) d"
  shows "dinv w'"
proof -
  have old: "party_ok (dw_calls w ! j)" "input_ok (dw_calls w ! j)"
      "row_ok (row_status (dw_rows w)) (dl_phase (dw_calls w ! j)) (dl_id (dw_calls w ! j))"
    if "j < length (dw_calls w)" for j using assms(1) that by (auto simp: dinv_def Let_def)
  have dist: "j = k" if "j < length (dw_calls w)" "k < length (dw_calls w)"
    "dl_id (dw_calls w ! j) = Some d" "dl_id (dw_calls w ! k) = Some d" for j k d
    using assms(1) that by (auto simp: dinv_def)
  have fresh: "dl_id (dw_calls w ! j) \<noteq> dl_id c'" if "j < length (dw_calls w)" "j \<noteq> i" "dl_id c' = Some d" for j d
    using ids dist [OF that(1) i] row_ok_status old(3) [OF that(1)] that by force
  have "party_ok (dw_calls w' ! j) \<and> input_ok (dw_calls w' ! j) \<and>
      row_ok (row_status (dw_rows w')) (dl_phase (dw_calls w' ! j)) (dl_id (dw_calls w' ! j))"
    if "j < length (dw_calls w)" for j
  proof (cases "j = i")
    case True
    then show ?thesis using i calls party_okD [OF party old(1) [OF i]] inp row by simp
  next
    case False
    then have eq: "dw_calls w' ! j = dw_calls w ! j" using calls by simp
    have "row_ok (row_status (dw_rows w')) (dl_phase (dw_calls w ! j)) (dl_id (dw_calls w ! j))"
      using old(3) [OF that] frame fresh [OF that False] row_ok_cong by (metis (no_types, lifting))
    then show ?thesis using eq old [OF that] by simp
  qed
  moreover have "j = k" if "j < length (dw_calls w)" "k < length (dw_calls w)"
    "dl_id (dw_calls w' ! j) = Some d" "dl_id (dw_calls w' ! k) = Some d" for j k d
  proof (rule ccontr)
    assume jk: "j \<noteq> k"
    have id: "dl_id (dw_calls w' ! m) = (if m = i then dl_id c' else dl_id (dw_calls w ! m))" if "m < length (dw_calls w)" for m
      using calls i by simp
    consider "j = i" "k \<noteq> i" | "k = i" "j \<noteq> i" | "j \<noteq> i" "k \<noteq> i" using jk by blast
    then show False
    proof cases
      case 1
      then show ?thesis using id [OF that(1)] id [OF that(2)] that(3,4) fresh [OF that(2) 1(2), of d] by simp
    next
      case 2
      then show ?thesis using id [OF that(1)] id [OF that(2)] that(3,4) fresh [OF that(1) 2(2), of d] by simp
    next
      case 3
      then have "dl_id (dw_calls w ! j) = Some d" "dl_id (dw_calls w ! k) = Some d"
        using id [OF that(1)] id [OF that(2)] that(3,4) by simp_all
      then show ?thesis using dist [OF that(1,2)] jk by blast
    qed
  qed
  ultimately show ?thesis using calls by (auto simp: dinv_def Let_def)
qed

lemma validate_party:
  "validate_request repr os rq = Inr (f, t) \<Longrightarrow> party_ok (new_call rq f t)"
  by (auto simp: validate_request_def resolve_target_def party_ok_def new_call_def Let_def
      split: option.splits if_splits)

lemma dinv_request: "dinv w \<Longrightarrow> dinv (request_step env d w)"
proof -
  assume inv: "dinv w"
  have "dinv (w\<lparr>dw_calls := dw_calls w @ [new_call rq f t]\<rparr>)"
    if "validate_request (de_repr env) (q_orch (dw_queue w)) rq = Inr (f, t)" for rq f t
  proof -
    have "input_ok (new_call rq f t)" "dl_id (new_call rq f t) = None" "dl_phase (new_call rq f t) = AwaitBinding"
      by (simp_all add: input_ok_def new_call_def)
    then show ?thesis
      using inv validate_party [OF that] by (auto simp: dinv_def Let_def nth_append less_Suc_eq)
  qed
  moreover have "dinv (w\<lparr>dw_refused := r\<rparr>)" for r using inv by (simp add: dinv_def)
  ultimately show ?thesis by (auto simp: request_step_def split: option.splits sum.splits)
qed

lemma conclude_ok:
  assumes "row_ok st AwaitResult did" shows "row_ok st (conclude ms c) did"
proof -
  have "rp_is_error (fst (map_output_to_response out t d ch ms)) \<longleftrightarrow> snd (map_output_to_response out t d ch ms) \<noteq> ''success''"
    "snd (map_output_to_response out t d ch ms) \<noteq> ''running''" for out t d ch
    by (simp_all add: map_output_to_response_def Let_def)
  then show ?thesis
    using assms
    by (auto simp: conclude_def Let_def timeout_response_def error_response_def split: option.splits sum.splits deleg_failure.splits prod.splits)
      (metis fst_conv snd_conv)+
qed

text \<open>A step that leaves the rows alone and keeps the id of the call.\<close>

lemma dinv_quiet:
  assumes "dinv w" and c: "i < length (dw_calls w)" "dw_calls w ! i = c"
    and calls: "dw_calls w' = (dw_calls w)[i := c']" and rows: "dw_rows w' = dw_rows w"
    and same: "same_party c c'" "dl_id c' = dl_id c" "dl_input c' = dl_input c"
    and closure: "dl_closure c' \<noteq> NotQueued \<longrightarrow> dl_closure c \<noteq> NotQueued"
    and row: "row_ok (row_status (dw_rows w)) (dl_phase c) (dl_id c) \<Longrightarrow>
              row_ok (row_status (dw_rows w)) (dl_phase c') (dl_id c)"
  shows "dinv w'"
proof (rule dinv_update [OF assms(1) c(1) calls])
  have old: "input_ok c" "row_ok (row_status (dw_rows w)) (dl_phase c) (dl_id c)"
    using assms(1) c by (auto simp: dinv_def Let_def)
  show "same_party (dw_calls w ! i) c'" using same c by simp
  show "input_ok c'" by (rule input_ok_keep [OF same(1,3) closure old(1)])
  show "row_ok (row_status (dw_rows w')) (dl_phase c') (dl_id c')" using row [OF old(2)] same rows by simp
  show "dl_id c' = dl_id (dw_calls w ! i) \<or> (\<exists>d. dl_id c' = Some d \<and> row_status (dw_rows w) d = None)"
    using same c by simp
  show "row_status (dw_rows w') d = row_status (dw_rows w) d" for d using rows by simp
qed

lemma launch_frame:
  assumes "launch env i did ms c q = (c', q')"
  shows "same_party c c'" "dl_id c' = Some did"
    "dl_phase c' = AwaitStarted \<or> (\<exists>t. dl_phase c' = Closing (err_reply t) ''error'' (Some t) ms None) \<or>
     dl_phase c' = Replied (handler_error '''')"
    "dl_input c' = dl_input c \<and> dl_closure c' = dl_closure c \<or> (\<exists>inp. dl_input c' = Some inp \<and> input_for c inp)"
  using assms
  by (auto simp: launch_def refuse_def same_party_def input_for_def Let_def split: if_splits option.splits)

lemma launch_input_ok:
  assumes "launch env i did ms c q = (c', q')" "input_ok c"
  shows "input_ok c'"
  using launch_frame(4) [OF assms(1)] assms(2) input_for_same [OF launch_frame(1) [OF assms(1)]]
  by (auto simp: input_ok_def)

lemma dinv_insert:
  assumes "dinv w" and c: "i < length (dw_calls w)" "dw_calls w ! i = c" "dl_phase c = AwaitInsert"
  shows "dinv (insert_step env i did ms c w)"
proof (cases "did \<in> set (map dr_id (dw_rows w))")
  case True
  then show ?thesis using assms(1) by (simp add: insert_step_def)
next
  case False
  obtain c' q' where l: "launch env i did ms c (dw_queue w) = (c', q')" by fastforce
  note f = launch_frame [OF l]
  have fresh: "row_status (dw_rows w) did = None" using False row_status_None by simp
  have old: "input_ok c" using assms(1) c by (auto simp: dinv_def Let_def)
  show ?thesis
  proof (rule dinv_update [OF assms(1) c(1)])
    show "dw_calls (insert_step env i did ms c w) = (dw_calls w)[i := c']" using False l by (simp add: insert_step_def)
    have rows: "dw_rows (insert_step env i did ms c w) = dw_rows w @ [audit_row env did c]"
      using False l by (simp add: insert_step_def)
    show "same_party (dw_calls w ! i) c'" using f c by simp
    show "input_ok c'" by (rule launch_input_ok [OF l old])
    show "row_ok (row_status (dw_rows (insert_step env i did ms c w))) (dl_phase c') (dl_id c')"
      using f(2,3) fresh by (auto simp: rows row_status_append audit_row_def err_reply_def handler_error_def)
    show "dl_id c' = dl_id (dw_calls w ! i) \<or> (\<exists>d. dl_id c' = Some d \<and> row_status (dw_rows w) d = None)"
      using f(2) fresh by blast
    show "row_status (dw_rows (insert_step env i did ms c w)) d = row_status (dw_rows w) d" if "Some d \<noteq> dl_id c'" for d
      using that f(2) by (simp add: rows row_status_append audit_row_def)
  qed
qed

lemma dinv_closing:
  assumes "dinv w" and c: "i < length (dw_calls w)" "dw_calls w ! i = c"
    and Closing: "dl_phase c = Closing resp status err ms None"
  shows "dinv (closing_step i c w)"
proof -
  have old: "input_ok c" "row_ok (row_status (dw_rows w)) (dl_phase c) (dl_id c)"
    using assms(1) c by (auto simp: dinv_def Let_def)
  then obtain d where d: "dl_id c = Some d" "row_status (dw_rows w) d = Some ''running''" "status \<noteq> ''running''"
    "rp_is_error resp \<longleftrightarrow> status \<noteq> ''success''" using Closing by auto
  let ?c1 = "if dl_input c = None then c else close_chips status ms c"
  let ?w = "closing_step i c w"
  have c1: "same_party c ?c1" "dl_id ?c1 = dl_id c" "dl_input ?c1 = dl_input c" "dl_closure ?c1 = dl_closure c"
    by (simp_all add: same_party_def close_chips_def Let_def case_prod_beta)
  have calls: "dw_calls ?w = (dw_calls w)[i := ?c1\<lparr>dl_phase := Replied resp\<rparr>]"
    and rows: "dw_rows ?w = snd (update_delegation_terminal d status ms err (dw_rows w))"
    using Closing d(1) by (simp_all add: closing_step_def Let_def or_empty_def)
  show ?thesis
  proof (rule dinv_update [OF assms(1) c(1) calls])
    show "same_party (dw_calls w ! i) (?c1\<lparr>dl_phase := Replied resp\<rparr>)" using c1(1) c by (simp add: same_party_def)
    show "input_ok (?c1\<lparr>dl_phase := Replied resp\<rparr>)" 
      by (rule input_ok_keep [OF _ _ _ old(1)]) (use c1 in \<open>simp_all add: same_party_def\<close>)
    show "row_ok (row_status (dw_rows ?w)) (dl_phase (?c1\<lparr>dl_phase := Replied resp\<rparr>)) (dl_id (?c1\<lparr>dl_phase := Replied resp\<rparr>))"
      using d c1(2) by (simp add: rows row_status_update)
    show "dl_id (?c1\<lparr>dl_phase := Replied resp\<rparr>) = dl_id (dw_calls w ! i) \<or> (\<exists>x. dl_id (?c1\<lparr>dl_phase := Replied resp\<rparr>) = Some x \<and> row_status (dw_rows w) x = None)"
      using c1(2) c by simp
    show "row_status (dw_rows ?w) x = row_status (dw_rows w) x" if "Some x \<noteq> dl_id (?c1\<lparr>dl_phase := Replied resp\<rparr>)" for x
      using that d(1) c1(2) by (simp add: rows row_status_update)
  qed
qed

lemma dinv_session:
  assumes "dinv w" and c: "i < length (dw_calls w)" "dw_calls w ! i = c"
  shows "dinv (session_step i saved c w)"
proof (cases "\<exists>resp status err ms s. dl_phase c = Closing resp status err ms (Some s)")
  case True
  then obtain resp status err ms s where ph: "dl_phase c = Closing resp status err ms (Some s)" by blast
  show ?thesis
    by (rule dinv_quiet [OF assms, of _ "c\<lparr>dl_phase := Closing resp status err ms None\<rparr>"])
      (simp_all add: session_step_def ph same_party_def Let_def)
next
  case False
  then show ?thesis using assms(1) by (auto simp: session_step_def split: dphase.splits option.splits)
qed

lemma dinv_closing_step:
  assumes "dinv w" and c: "i < length (dw_calls w)" "dw_calls w ! i = c"
  shows "dinv (closing_step i c w)"
proof (cases "\<exists>resp status err ms. dl_phase c = Closing resp status err ms None")
  case True
  then show ?thesis using dinv_closing [OF assms] by blast
next
  case False
  then show ?thesis using assms(1) by (auto simp: closing_step_def split: dphase.splits option.splits)
qed

lemma dinv_queue: "dinv (w\<lparr>dw_queue := q\<rparr>) = dinv w"
  by (simp add: dinv_def)

lemma dinv_step: "dinv w \<Longrightarrow> dinv (dstep env e w)"
proof (cases e)
  case (Request d)
  then show "dinv w \<Longrightarrow> ?thesis" by (simp add: dinv_request)
next
  case (BindingDone i n)
  then show "dinv w \<Longrightarrow> ?thesis"
    by (auto dest!: call_in_SomeD split: option.split simp: binding_step_def after_binding_def case_prod_beta Let_def
        handler_error_def err_reply_def same_party_def intro!: dinv_quiet [of w i])
next
  case (FindDone i)
  then show "dinv w \<Longrightarrow> ?thesis"
    by (auto dest!: call_in_SomeD split: option.split simp: find_step_def after_find_def after_child_def Let_def
        same_party_def intro!: dinv_quiet [of w i])
next
  case (CreateDone i n u)
  then show "dinv w \<Longrightarrow> ?thesis"
    by (auto dest!: call_in_SomeD split: option.split simp: create_step_def after_create_def after_child_def Let_def
        handler_error_def err_reply_def case_prod_beta same_party_def intro!: dinv_quiet [of w i])
next
  case (SessionDone i)
  then show "dinv w \<Longrightarrow> ?thesis"
    by (auto dest!: call_in_SomeD split: option.split simp: same_party_def intro!: dinv_quiet [of w i])
next
  case (InsertDone i did ms)
  then show "dinv w \<Longrightarrow> ?thesis" by (auto dest!: call_in_SomeD split: option.split intro: dinv_insert)
next
  case (StatementFails i msg)
  have "row_ok st ph did \<Longrightarrow> statement_phase ph \<Longrightarrow> row_ok st (Replied (handler_error msg)) did" for st ph did
    by (cases ph) (auto simp: handler_error_def err_reply_def)
  then show "dinv w \<Longrightarrow> ?thesis" using StatementFails
    by (auto dest!: call_in_SomeD split: option.split simp: same_party_def intro!: dinv_quiet [of w i])
next
  case (ClosureBegins i)
  then show "dinv w \<Longrightarrow> ?thesis"
    by (auto dest!: call_in_SomeD split: option.split simp: same_party_def intro!: dinv_quiet [of w i])
next
  case (Registers i cn j)
  then show "dinv w \<Longrightarrow> ?thesis" by (auto split: option.split simp: dinv_queue)
next
  case (Outputs i now out)
  then show "dinv w \<Longrightarrow> ?thesis"
    by (auto dest!: call_in_SomeD split: option.split prod.split simp: same_party_def on_output_frame intro!: dinv_quiet [of w i])
next
  case (ExecutorReturns i)
  then show "dinv w \<Longrightarrow> ?thesis"
    by (auto dest!: call_in_SomeD split: option.split simp: same_party_def intro!: dinv_quiet [of w i])
next
  case (ExecutorRaises i m)
  then show "dinv w \<Longrightarrow> ?thesis"
    by (auto dest!: call_in_SomeD split: option.split simp: same_party_def intro!: dinv_quiet [of w i])
next
  case (DeadlinePasses i)
  then show "dinv w \<Longrightarrow> ?thesis"
    by (auto dest!: call_in_SomeD split: option.split simp: same_party_def intro!: dinv_quiet [of w i])
next
  case (GuardPasses i ms)
  then show "dinv w \<Longrightarrow> ?thesis"
    by (auto dest!: call_in_SomeD split: option.split simp: same_party_def guard_passes_def err_reply_def intro!: dinv_quiet [of w i])
next
  case (StartedWakes i)
  then show "dinv w \<Longrightarrow> ?thesis"
    by (auto dest!: call_in_SomeD split: option.split simp: same_party_def intro!: dinv_quiet [of w i])
next
  case (ResultWakes i ms)
  then show "dinv w \<Longrightarrow> ?thesis"
    by (auto dest!: call_in_SomeD split: option.split simp: same_party_def conclude_ok intro!: dinv_quiet [of w i])
next
  case (SessionSaved i b)
  then show "dinv w \<Longrightarrow> ?thesis" by (auto dest!: call_in_SomeD split: option.split intro: dinv_session)
next
  case (ClosingDone i)
  then show "dinv w \<Longrightarrow> ?thesis" by (auto dest!: call_in_SomeD split: option.split intro: dinv_closing_step)
next
  case (QueueMoves q)
  then show "dinv w \<Longrightarrow> ?thesis" by (simp add: dinv_queue)
qed

lemma dreach_dinv: "dreach env w \<Longrightarrow> dinv w"
  by (induction rule: dreach.induct) (simp_all add: dinv_step, simp add: dinv_def new_world_def)

section \<open>Answered calls\<close>

text \<open>Once a call is answered no event reopens it.\<close>

lemma replied_step:
  assumes "i < length (dw_calls w)" "dl_phase (dw_calls w ! i) = Replied r"
  shows "i < length (dw_calls (dstep env e w)) \<and> dl_phase (dw_calls (dstep env e w) ! i) = Replied r"
proof -
  have out: "dl_phase (fst (on_output now out (c, q))) = dl_phase c" for now out c q
    using on_output_frame(1) by (metis prod.collapse)
  show ?thesis
    using assms
    by (cases e)
      (auto dest!: call_in_SomeD split: option.split prod.split dphase.split sum.split
        simp: request_step_def nth_append binding_step_def find_step_def create_step_def insert_step_def session_step_def
          closing_step_def Let_def case_prod_beta nth_list_update out)
qed

lemma replied_run:
  "i < length (dw_calls w) \<Longrightarrow> dl_phase (dw_calls w ! i) = Replied r \<Longrightarrow>
   i < length (dw_calls (drun env es w)) \<and> dl_phase (dw_calls (drun env es w) ! i) = Replied r"
  unfolding drun_def by (induction es arbitrary: w) (simp_all add: replied_step)

section \<open>A worked example\<close>

text \<open>A front desk, a specialist, and two sticky requests whose statements interleave.\<close>

definition demo_member :: "string \<Rightarrow> string \<Rightarrow> bool \<Rightarrow> coworker" where
  "demo_member cid folder desk =
     \<lparr>c_id = cid, c_tenant_id = ''acme'', c_name = folder, c_folder = folder, c_agent_backend = ''claude'',
      c_system_prompt = None, c_container_config = None, c_max_concurrent_containers = 2, c_status = ''active'',
      c_created_at = '''', c_permissions = Some (default_permissions\<lparr>agent_delegate := desk\<rparr>), c_model_id = None,
      c_created_by_user_id = None, c_visibility = ''private'', c_is_frontdesk = desk, c_routing_description = None\<rparr>"

definition demo_office :: queue where
  "demo_office = new_queue True True ((new_orch_state 2)\<lparr>o_coworkers :=
     [(''u1'', from_coworker (demo_member ''u1'' ''desk'' True) None None),
      (''u2'', from_coworker (demo_member ''u2'' ''billing'' False) None None)]\<rparr>) 60000"

definition demo_denv :: denv where
  "demo_denv = \<lparr>de_str = (\<lambda>v. case v of JStr s \<Rightarrow> s | _ \<Rightarrow> ''''), de_repr = quoted, de_sha256 = (\<lambda>s. s),
                de_executor = (\<lambda>_. True), de_bad_request = (\<lambda>_. '''')\<rparr>"

definition demo_body :: "(string \<times> json) list" where
  "demo_body = [(''tenantId'', JStr ''acme''), (''fromCoworkerId'', JStr ''u1''), (''fromConversationId'', JStr ''p''),
                (''target'', JStr ''billing''), (''prompt'', JStr ''hi''), (''contextMode'', JStr ''sticky'')]"

definition demo_events :: "devent list" where
  "demo_events =
     [Request demo_body, Request demo_body, BindingDone 0 ''b0'', BindingDone 1 ''b1'', FindDone 0, FindDone 1,
      CreateDone 0 ''k0'' '''', CreateDone 1 ''k1'' '''', SessionDone 0, SessionDone 1, InsertDone 0 ''d0'' 0,
      InsertDone 1 ''d1'' 0]"

definition demo_deleg :: dworld where
  "demo_deleg = drun demo_denv demo_events (new_world demo_office)"

lemma demo_deleg_reach: "dreach demo_denv demo_deleg"
  unfolding demo_deleg_def by (intro dreach_run dstart)

definition demo_success :: agent_output where
  "demo_success = success_output (Some ''done'') (Some ''s1'') None"

definition demo_answered :: dworld where
  "demo_answered = drun demo_denv
     [ClosureBegins 0, StartedWakes 0, Outputs 0 1 demo_success, ResultWakes 0 5, SessionSaved 0 True, ClosingDone 0] demo_deleg"

lemma demo_answered_reach: "dreach demo_denv demo_answered"
  unfolding demo_answered_def by (rule dreach_run [OF demo_deleg_reach])

section \<open>Properties\<close>

text \<open>C8. 
  Under every interleaving of delegation requests, of their database statements and timers and of
  anything else that happens to the queue and the coworkers, a task that reached the queue belongs to a
  caller of the request's tenant whose permissions include delegation, with a request that claims a depth of at
  most zero (the claim is the request's own, and a negative one passes), and to another
  active coworker of that tenant that is no front desk; the target runs with its own permissions, folder
  and tenant, never with the caller's, and is told a depth one above the claimed one and who has
  delegated to it.
\<close>

theorem delegation_confined:
  assumes "dreach env w" "i < length (dw_calls w)" "dl_closure (dw_calls w ! i) \<noteq> NotQueued"
  shows "let c = dw_calls w ! i; f = dl_from c; t = dl_target c; rq = dl_request c in
    (case c_permissions f of None \<Rightarrow> False | Some p \<Rightarrow> agent_delegate p) \<and> rq_depth rq \<le> 0 \<and>
    c_tenant_id f = rq_tenant_id rq \<and> c_tenant_id t = rq_tenant_id rq \<and> c_id t \<noteq> c_id f \<and>
    c_status t = ''active'' \<and> \<not> c_is_frontdesk t \<and>
    (case (dl_input c, c_permissions t) of
       (Some inp, Some p) \<Rightarrow>
         ai_permissions inp = perms_to_dict p \<and> ai_tenant_id inp = rq_tenant_id rq \<and>
         ai_coworker_id inp = c_id t \<and> ai_group_folder inp = c_folder t \<and> ai_prompt inp = rq_prompt rq \<and>
         map_option (\<lambda>rc. (obj_get rc ''delegation_depth'', obj_get rc ''delegated_by'')) (ai_role_config inp) =
           Some (Some (JInt (rq_depth rq + 1)), Some (JStr (c_id f)))
     | _ \<Rightarrow> False)"
proof -
  have ok: "party_ok (dw_calls w ! i)" "input_ok (dw_calls w ! i)"
    using dreach_dinv [OF assms(1)] assms(2) by (auto simp: dinv_def Let_def)
  then obtain inp where inp: "dl_input (dw_calls w ! i) = Some inp" "input_for (dw_calls w ! i) inp"
    using assms(3) by (auto simp: input_ok_def)
  show ?thesis
    using ok(1) inp
    by (auto simp: party_ok_def input_for_def build_agent_input_def max_delegation_depth_def Let_def obj_get_def
        split: option.splits)
qed

theorem delegation_confined_witness:
  "map_option ai_permissions (dl_input (dw_calls demo_deleg ! 1)) = Some (perms_to_dict default_permissions)"
proof -
  have "1 < length (dw_calls demo_deleg)" "dl_closure (dw_calls demo_deleg ! 1) \<noteq> NotQueued"
    "c_permissions (dl_target (dw_calls demo_deleg ! 1)) = Some default_permissions" by code_simp+
  then show ?thesis
    using delegation_confined [OF demo_deleg_reach, of 1] by (auto simp: Let_def split: option.splits)
qed

text \<open>C9. 
  The reply and the audit agree and stay so: once a call is answered, no later event changes the answer, and
  the answer is a success exactly when the call's row of the audit table says success.
\<close>

theorem audit_matches_reply:
  assumes "dreach env w" "i < length (dw_calls w)" "dl_phase (dw_calls w ! i) = Replied r"
  shows "let w' = drun env es w; c = dw_calls w' ! i in
    dl_phase c = Replied r \<and>
    (\<not> rp_is_error r \<longleftrightarrow> (\<exists>d. dl_id c = Some d \<and> row_status (dw_rows w') d = Some ''success''))"
proof -
  let ?w = "drun env es w"
  have r: "i < length (dw_calls ?w)" "dl_phase (dw_calls ?w ! i) = Replied r" using replied_run [OF assms(2,3)] by auto
  then have "row_ok (row_status (dw_rows ?w)) (Replied r) (dl_id (dw_calls ?w ! i))"
    using dreach_dinv [OF dreach_run [OF assms(1)], of es] by (force simp: dinv_def Let_def)
  then show ?thesis using r by (auto simp: Let_def split: option.splits)
qed

theorem audit_matches_reply_witness:
  "row_status (dw_rows demo_answered) ''d0'' = Some ''success''"
proof -
  have "0 < length (dw_calls demo_answered)" "dl_id (dw_calls demo_answered ! 0) = Some ''d0''" by code_simp+
  moreover obtain r where "dl_phase (dw_calls demo_answered ! 0) = Replied r" "\<not> rp_is_error r"
  proof -
    have "(case dl_phase (dw_calls demo_answered ! 0) of Replied r \<Rightarrow> \<not> rp_is_error r | _ \<Rightarrow> False)" by code_simp
    then show ?thesis using that by (auto split: dphase.splits)
  qed
  ultimately show ?thesis
    using audit_matches_reply [OF demo_answered_reach, of 0 _ "[]"] by (auto simp: drun_def Let_def)
qed

end
