(* ===== verification/Delegation_Races.thy ===== *)
theory Delegation_Races
  imports Delegation_Props
begin

text \<open>
  Concurrent delegations: sticky calls of one conversation share one child conversation, whatever the
  order of their statements; and two races in which the answer and the target part company. The
  examples at the end run the whole handler.
\<close>

section \<open>The invariant of the tables\<close>

definition binding_of :: "channel_binding list \<Rightarrow> string \<Rightarrow> string \<Rightarrow> bool" where
  "binding_of bs bid cid \<longleftrightarrow> (\<exists>b \<in> set bs. cb_id b = bid \<and> cb_coworker_id b = cid)"

definition sticky_call :: "dcall \<Rightarrow> bool" where
  "sticky_call c \<longleftrightarrow> rq_context_mode (dl_request c) = ''sticky''"

definition sticky_chat :: "dcall \<Rightarrow> string" where
  "sticky_chat c = child_chat_id (rq_parent_conv_id (dl_request c)) (c_id (dl_target c)) ''sticky'' ''''"

definition tables_ok :: "channel_binding list \<Rightarrow> conversation list \<Rightarrow> bool" where
  "tables_ok bs cs \<longleftrightarrow>
     (\<forall>b \<in> set bs. cb_channel_type b = ''internal'') \<and>
     (\<forall>b \<in> set bs. \<forall>b' \<in> set bs. cb_coworker_id b = cb_coworker_id b' \<longrightarrow> b = b') \<and>
     (\<forall>c \<in> set cs. \<forall>c' \<in> set cs. cv_channel_binding_id c = cv_channel_binding_id c' \<and>
        cv_channel_chat_id c = cv_channel_chat_id c' \<longrightarrow> c = c') \<and>
     (\<forall>c \<in> set cs. binding_of bs (cv_channel_binding_id c) (cv_coworker_id c))"

text \<open>What a call has found so far.\<close>

definition found_ok :: "channel_binding list \<Rightarrow> conversation list \<Rightarrow> dcall \<Rightarrow> bool" where
  "found_ok bs cs c \<longleftrightarrow>
     (\<forall>b. dl_binding c = Some b \<longrightarrow> b \<in> set bs \<and> cb_coworker_id b = c_id (dl_target c)) \<and>
     (dl_phase c = AwaitFind \<or> dl_phase c = AwaitCreate \<longrightarrow> dl_binding c \<noteq> None) \<and>
     (\<forall>cv. dl_child c = Some cv \<longrightarrow> sticky_call c \<longrightarrow>
        cv \<in> set cs \<and> cv_channel_chat_id cv = sticky_chat c \<and> binding_of bs (cv_channel_binding_id cv) (c_id (dl_target c)))"

definition sinv :: "dworld \<Rightarrow> bool" where
  "sinv w \<longleftrightarrow> tables_ok (dw_bindings w) (dw_conversations w) \<and>
     (\<forall>c \<in> set (dw_calls w). found_ok (dw_bindings w) (dw_conversations w) c)"

lemma binding_of_mono: "set bs \<subseteq> set bs' \<Longrightarrow> binding_of bs b c \<Longrightarrow> binding_of bs' b c"
  by (auto simp: binding_of_def)

lemma found_ok_mono:
  "found_ok bs cs c \<Longrightarrow> set bs \<subseteq> set bs' \<Longrightarrow> set cs \<subseteq> set cs' \<Longrightarrow> found_ok bs' cs' c"
  unfolding found_ok_def by (meson binding_of_mono subsetD)

lemma sinv_update:
  assumes "sinv w" "dw_calls w' = (dw_calls w)[i := c']" "tables_ok (dw_bindings w') (dw_conversations w')"
    and "set (dw_bindings w) \<subseteq> set (dw_bindings w')" "set (dw_conversations w) \<subseteq> set (dw_conversations w')"
    and "found_ok (dw_bindings w') (dw_conversations w') c'"
  shows "sinv w'"
proof -
  have "c \<in> set (dw_calls w) \<or> c = c'" if "c \<in> set (dw_calls w')" for c
    using that assms(2) set_update_subset_insert by fastforce
  moreover have "found_ok (dw_bindings w') (dw_conversations w') c" if "c \<in> set (dw_calls w)" for c
    using that assms(1) found_ok_mono [OF _ assms(4,5)] by (simp add: sinv_def)
  ultimately show ?thesis using assms(3,6) unfolding sinv_def by blast
qed

text \<open>A step that leaves the tables and what the call found alone.\<close>

lemma sinv_quiet:
  assumes "sinv w" "i < length (dw_calls w)" "dw_calls w ! i = c" "dw_calls w' = (dw_calls w)[i := c']"
    and "dw_bindings w' = dw_bindings w" "dw_conversations w' = dw_conversations w"
    and "same_party c c'" "dl_binding c' = dl_binding c" "dl_child c' = dl_child c"
    and "dl_phase c' = AwaitFind \<or> dl_phase c' = AwaitCreate \<Longrightarrow> dl_phase c' = dl_phase c"
  shows "sinv w'"
proof (rule sinv_update [OF assms(1,4)])
  have old: "found_ok (dw_bindings w) (dw_conversations w) c" using assms(1-3) by (auto simp: sinv_def)
  show "tables_ok (dw_bindings w') (dw_conversations w')" using assms by (simp add: sinv_def)
  show "found_ok (dw_bindings w') (dw_conversations w') c'"
    using old assms(5-10) by (auto simp: found_ok_def same_party_def sticky_call_def sticky_chat_def)
qed (simp_all add: assms)

lemma tables_ok_snoc_binding:
  assumes "tables_ok bs cs" "cb_channel_type n = ''internal''" "\<And>b. b \<in> set bs \<Longrightarrow> cb_coworker_id b \<noteq> cb_coworker_id n"
  shows "tables_ok (bs @ [n]) cs"
proof -
  have "binding_of (bs @ [n]) b c" if "binding_of bs b c" for b c using that by (auto simp: binding_of_def)
  then show ?thesis using assms unfolding tables_ok_def by (simp add: ball_Un) metis
qed

lemma tables_ok_binding:
  assumes "tables_ok bs cs" "get_or_create_internal_binding n t cid bs = (r, bs')"
  shows "tables_ok bs' cs" "set bs \<subseteq> set bs'" "r = Some b \<Longrightarrow> b \<in> set bs' \<and> cb_coworker_id b = cid"
proof -
  have "b \<in> set bs \<Longrightarrow> cb_channel_type b = ''internal''" for b using assms(1) by (simp add: tables_ok_def)
  then show "tables_ok bs' cs" "set bs \<subseteq> set bs'"
    using assms
    by (auto simp: get_or_create_internal_binding_def Let_def find_None_iff intro!: tables_ok_snoc_binding split: option.splits)
  show "r = Some b \<Longrightarrow> b \<in> set bs' \<and> cb_coworker_id b = cid"
    using assms(2) by (auto simp: get_or_create_internal_binding_def Let_def dest!: find_SomeD split: option.splits)
qed

lemma tables_ok_snoc:
  assumes "tables_ok bs cs" "binding_of bs (cv_channel_binding_id n) (cv_coworker_id n)"
    and "\<And>c. c \<in> set cs \<Longrightarrow> \<not> (cv_channel_binding_id c = cv_channel_binding_id n \<and> cv_channel_chat_id c = cv_channel_chat_id n)"
  shows "tables_ok bs (cs @ [n])"
  using assms unfolding tables_ok_def by (simp add: ball_Un) metis

lemma tables_ok_child:
  assumes "tables_ok bs cs" "binding_of bs bid target"
    and "create_child_conversation n u tid parent target bid user mode cs = (r, cs')"
  shows "tables_ok bs cs'" "set cs \<subseteq> set cs'"
    "r = Some cv \<Longrightarrow> cv \<in> set cs' \<and> cv_channel_binding_id cv = bid \<and> cv_channel_chat_id cv = child_chat_id parent target mode u"
proof -
  let ?chat = "child_chat_id parent target mode u"
  show "tables_ok bs cs'" "set cs \<subseteq> set cs'"
    using assms
    by (auto simp: create_child_conversation_def Let_def find_None_iff intro!: tables_ok_snoc split: option.splits)
  show "r = Some cv \<Longrightarrow> cv \<in> set cs' \<and> cv_channel_binding_id cv = bid \<and> cv_channel_chat_id cv = ?chat"
    using assms(3) by (auto simp: create_child_conversation_def Let_def dest!: find_SomeD split: option.splits)
qed

lemma sinv_binding:
  assumes "sinv w" "i < length (dw_calls w)" "dw_calls w ! i = c"
  shows "sinv (binding_step i n c w)"
proof -
  let ?t = "dl_target c"
  obtain r bs where g: "get_or_create_internal_binding n (c_tenant_id ?t) (c_id ?t) (dw_bindings w) = (r, bs)" by fastforce
  have old: "tables_ok (dw_bindings w) (dw_conversations w)" "found_ok (dw_bindings w) (dw_conversations w) c"
    using assms by (auto simp: sinv_def)
  note b = tables_ok_binding [OF old(1) g]
  have "found_ok bs (dw_conversations w) (after_binding r c)"
    using found_ok_mono [OF old(2) b(2) subset_refl] b(3)
    by (auto simp: found_ok_def after_binding_def sticky_call_def sticky_chat_def split: option.splits)
  then show ?thesis
    by (intro sinv_update [OF assms(1), of _ i "after_binding r c"]) (use b g in \<open>simp_all add: binding_step_def\<close>)
qed

lemma sinv_find:
  assumes "sinv w" "i < length (dw_calls w)" "dw_calls w ! i = c" "dl_phase c = AwaitFind"
  shows "sinv (find_step i c w)"
proof -
  let ?r = "find_child_conversation (c_tenant_id (dl_target c)) (rq_parent_conv_id (dl_request c)) (c_id (dl_target c))
           (sticky_chat c) (dw_conversations w)"
  have old: "tables_ok (dw_bindings w) (dw_conversations w)" "found_ok (dw_bindings w) (dw_conversations w) c"
    using assms by (auto simp: sinv_def)
  then have "found_ok (dw_bindings w) (dw_conversations w) (after_find ?r c)"
    using assms(4)
    by (auto simp: found_ok_def after_find_def after_child_def find_child_conversation_def sticky_call_def sticky_chat_def
        tables_ok_def dest!: find_SomeD split: option.splits)
  then show ?thesis
    by (intro sinv_update [OF assms(1), of _ i "after_find ?r c"]) (use old in \<open>simp_all add: find_step_def Let_def sticky_chat_def\<close>)
qed

lemma sinv_create:
  assumes "sinv w" "i < length (dw_calls w)" "dw_calls w ! i = c" "dl_phase c = AwaitCreate"
  shows "sinv (create_step i n u c w)"
proof -
  have old: "tables_ok (dw_bindings w) (dw_conversations w)" "found_ok (dw_bindings w) (dw_conversations w) c"
    using assms by (auto simp: sinv_def)
  then obtain b where b: "dl_binding c = Some b" "binding_of (dw_bindings w) (cb_id b) (c_id (dl_target c))"
    using assms(4) by (auto simp: found_ok_def binding_of_def)
  obtain r cs where g: "create_child_conversation n u (c_tenant_id (dl_target c)) (rq_parent_conv_id (dl_request c))
      (c_id (dl_target c)) (cb_id b) (rq_user_id (dl_request c)) (rq_context_mode (dl_request c)) (dw_conversations w) = (r, cs)"
    by fastforce
  note t = tables_ok_child [OF old(1) b(2) g]
  have "found_ok (dw_bindings w) cs (after_create r c)"
    using found_ok_mono [OF old(2) subset_refl t(2)] t(3) b(2)
    by (auto simp: found_ok_def after_create_def after_child_def sticky_call_def sticky_chat_def child_chat_id_def Let_def split: option.splits)
  then show ?thesis
    by (intro sinv_update [OF assms(1), of _ i "after_create r c"]) (use b t g in \<open>simp_all add: create_step_def\<close>)
qed

lemma sinv_launch:
  assumes "launch env i did ms c q = (c', q')"
  shows "dl_binding c' = dl_binding c" "dl_child c' = dl_child c" "dl_phase c' \<noteq> AwaitFind" "dl_phase c' \<noteq> AwaitCreate"
  using assms by (auto simp: launch_def refuse_def Let_def split: if_splits option.splits)

lemma sinv_queue: "sinv (w\<lparr>dw_queue := q\<rparr>) = sinv w"
  by (simp add: sinv_def)

lemma sinv_closing:
  assumes "sinv w" "i < length (dw_calls w)" "dw_calls w ! i = c"
  shows "sinv (closing_step i c w)"
proof (cases "\<exists>resp status err ms. dl_phase c = Closing resp status err ms None")
  case True
  then obtain resp status err ms where "dl_phase c = Closing resp status err ms None" by blast
  then have "dw_calls (closing_step i c w) =
      (dw_calls w)[i := (if dl_input c = None then c else close_chips status ms c)\<lparr>dl_phase := Replied resp\<rparr>]"
    "dw_bindings (closing_step i c w) = dw_bindings w" "dw_conversations (closing_step i c w) = dw_conversations w"
    by (simp_all add: closing_step_def Let_def)
  then show ?thesis
    by (rule sinv_quiet [OF assms]) (simp_all add: same_party_def close_chips_def case_prod_beta Let_def)
next
  case False
  then show ?thesis using assms(1) by (auto simp: closing_step_def split: dphase.splits option.splits)
qed

lemmas quiet = same_party_def guard_passes_def

lemma sinv_step: "sinv w \<Longrightarrow> sinv (dstep env e w)"
proof (cases e)
  case (Request d)
  have "found_ok bs cs (new_call rq f t)" for bs cs rq f t by (simp add: found_ok_def new_call_def)
  then show "sinv w \<Longrightarrow> ?thesis" using Request
    by (auto simp: request_step_def sinv_def split: option.splits sum.splits)
next
  case (BindingDone i n)
  then show "sinv w \<Longrightarrow> ?thesis" by (auto dest!: call_in_SomeD split: option.split intro: sinv_binding)
next
  case (FindDone i)
  then show "sinv w \<Longrightarrow> ?thesis" by (auto dest!: call_in_SomeD split: option.split intro: sinv_find)
next
  case (CreateDone i n u)
  then show "sinv w \<Longrightarrow> ?thesis" by (auto dest!: call_in_SomeD split: option.split intro: sinv_create)
next
  case (InsertDone i did ms)
  then show "sinv w \<Longrightarrow> ?thesis"
    by (auto dest!: call_in_SomeD split: option.split prod.split simp: insert_step_def Let_def launch_frame sinv_launch
        intro!: sinv_quiet [of w i])
next
  case (Outputs i now out)
  then show "sinv w \<Longrightarrow> ?thesis"
    by (auto dest!: call_in_SomeD split: option.split prod.split simp: same_party_def on_output_frame intro!: sinv_quiet [of w i])
next
  case (ResultWakes i ms)
  have "conclude ms c \<noteq> AwaitFind" "conclude ms c \<noteq> AwaitCreate" for c
    by (auto simp: conclude_def Let_def split: option.splits sum.splits deleg_failure.splits prod.splits)
  then show "sinv w \<Longrightarrow> ?thesis" using ResultWakes
    by (auto dest!: call_in_SomeD split: option.split simp: same_party_def intro!: sinv_quiet [of w i])
next
  case (SessionSaved i b)
  then show "sinv w \<Longrightarrow> ?thesis"
    by (auto dest!: call_in_SomeD split: option.split dphase.split simp: session_step_def Let_def same_party_def intro!: sinv_quiet [of w i])
next
  case (ClosingDone i)
  then show "sinv w \<Longrightarrow> ?thesis"
    by (auto dest!: call_in_SomeD split: option.split intro: sinv_closing)
next
  case (SessionDone i)
  then show "sinv w \<Longrightarrow> ?thesis" by (auto dest!: call_in_SomeD split: option.split simp: quiet intro!: sinv_quiet [of w i])
next
  case (StatementFails i m)
  then show "sinv w \<Longrightarrow> ?thesis" by (auto dest!: call_in_SomeD split: option.split simp: quiet intro!: sinv_quiet [of w i])
next
  case (ClosureBegins i)
  then show "sinv w \<Longrightarrow> ?thesis" by (auto dest!: call_in_SomeD split: option.split simp: quiet intro!: sinv_quiet [of w i])
next
  case (ExecutorReturns i)
  then show "sinv w \<Longrightarrow> ?thesis" by (auto dest!: call_in_SomeD split: option.split simp: quiet intro!: sinv_quiet [of w i])
next
  case (ExecutorRaises i m)
  then show "sinv w \<Longrightarrow> ?thesis" by (auto dest!: call_in_SomeD split: option.split simp: quiet intro!: sinv_quiet [of w i])
next
  case (DeadlinePasses i)
  then show "sinv w \<Longrightarrow> ?thesis" by (auto dest!: call_in_SomeD split: option.split simp: quiet intro!: sinv_quiet [of w i])
next
  case (GuardPasses i ms)
  then show "sinv w \<Longrightarrow> ?thesis" by (auto dest!: call_in_SomeD split: option.split simp: quiet intro!: sinv_quiet [of w i])
next
  case (StartedWakes i)
  then show "sinv w \<Longrightarrow> ?thesis" by (auto dest!: call_in_SomeD split: option.split simp: quiet intro!: sinv_quiet [of w i])
qed (auto split: option.split simp: sinv_queue)

lemma dreach_sinv: "dreach env w \<Longrightarrow> sinv w"
  by (induction rule: dreach.induct) (simp_all add: sinv_step, simp add: sinv_def tables_ok_def new_world_def)

section \<open>Properties\<close>

text \<open>C10. 
  Sticky calls converge: under every interleaving, two sticky calls to one target that have a child
  conversation have the same one exactly when they come from the same parent conversation, and it is
  never the child of an isolated call, whose chat id has a suffix.
\<close>

theorem sticky_converges:
  assumes "dreach env w" "a \<in> set (dw_calls w)" "b \<in> set (dw_calls w)"
    and "rq_context_mode (dl_request a) = ''sticky''" "rq_context_mode (dl_request b) = ''sticky''"
    and "c_id (dl_target a) = c_id (dl_target b)" "dl_child a = Some x" "dl_child b = Some y"
  shows "(x = y \<longleftrightarrow> rq_parent_conv_id (dl_request a) = rq_parent_conv_id (dl_request b)) \<and>
    cv_channel_chat_id x = ''internal:'' @ rq_parent_conv_id (dl_request a) @ '':'' @ c_id (dl_target a)"
proof -
  have inv: "tables_ok (dw_bindings w) (dw_conversations w)"
    "found_ok (dw_bindings w) (dw_conversations w) a" "found_ok (dw_bindings w) (dw_conversations w) b"
    using dreach_sinv [OF assms(1)] assms(2,3) by (auto simp: sinv_def)
  then have mem: "x \<in> set (dw_conversations w)" "y \<in> set (dw_conversations w)"
    and chat: "cv_channel_chat_id x = sticky_chat a" "cv_channel_chat_id y = sticky_chat b"
    and bind: "binding_of (dw_bindings w) (cv_channel_binding_id x) (c_id (dl_target a))"
      "binding_of (dw_bindings w) (cv_channel_binding_id y) (c_id (dl_target a))"
    using assms(4-8) by (auto simp: found_ok_def sticky_call_def)
  have same: "cv_channel_binding_id x = cv_channel_binding_id y"
    using bind inv(1) unfolding binding_of_def tables_ok_def by metis
  have eq: "sticky_chat a = sticky_chat b \<longleftrightarrow> rq_parent_conv_id (dl_request a) = rq_parent_conv_id (dl_request b)"
    using assms(6) by (simp add: sticky_chat_def child_chat_id_def Let_def)
  have "x = y \<longleftrightarrow> sticky_chat a = sticky_chat b"
    using chat mem same inv(1) unfolding tables_ok_def by metis
  then show ?thesis using eq chat(1) by (simp add: sticky_chat_def child_chat_id_def Let_def)
qed

theorem sticky_converges_witness:
  "dl_child (dw_calls demo_deleg ! 0) = dl_child (dw_calls demo_deleg ! 1) \<and> dl_child (dw_calls demo_deleg ! 0) \<noteq> None"
proof -
  have len: "length (dw_calls demo_deleg) = 2" by code_simp
  have facts: "rq_context_mode (dl_request (dw_calls demo_deleg ! 0)) = ''sticky''"
    "rq_context_mode (dl_request (dw_calls demo_deleg ! 1)) = ''sticky''"
    "c_id (dl_target (dw_calls demo_deleg ! 0)) = c_id (dl_target (dw_calls demo_deleg ! 1))"
    "rq_parent_conv_id (dl_request (dw_calls demo_deleg ! 0)) = rq_parent_conv_id (dl_request (dw_calls demo_deleg ! 1))"
    "dl_child (dw_calls demo_deleg ! 0) \<noteq> None" "dl_child (dw_calls demo_deleg ! 1) \<noteq> None" by code_simp+
  then show ?thesis
    using sticky_converges [OF demo_deleg_reach, of "dw_calls demo_deleg ! 0" "dw_calls demo_deleg ! 1"] len by auto
qed

text \<open>The comment in the handler promises that a late safety block always beats an earlier success. It does so only
  while the handler has not woken: of the same two outputs, a success marker and then a safety block,
  the reply and the audit status say blocked when the block comes before the handler wakes, and they say
  success, with the text the block was about, when it comes after.
\<close>

theorem wake_order_decides:
  assumes "i < length (dw_calls w)" "dl_phase (dw_calls w ! i) = AwaitResult" "dl_closure (dw_calls w ! i) = Running"
    and "dl_result (dw_calls w ! i) = None" "dl_terminal (dw_calls w ! i) = None" "dl_text (dw_calls w ! i) = None"
    and "ao_status out = ''success''" "ao_is_final out" "ao_result out = Some text" "text \<noteq> ''''"
    and "ao_status blk = ''safety_blocked''"
  shows "let block = Outputs i t2 blk; wake = ResultWakes i ms; fin = [SessionSaved i saved, ClosingDone i];
             late = drun env ([Outputs i t1 out, wake, block] @ fin) w;
             early = drun env ([Outputs i t1 out, block, wake] @ fin) w in
    (case dl_phase (dw_calls late ! i) of
       Replied r \<Rightarrow> \<not> rp_is_error r \<and> rp_status r = ''success'' \<and> rp_text r = text | _ \<Rightarrow> False) \<and>
    (case dl_phase (dw_calls early ! i) of
       Replied r \<Rightarrow> rp_is_error r \<and> rp_status r = ''safety_blocked'' | _ \<Rightarrow> False)"
  using assms
  by (cases "dl_result (dw_calls w ! i)")
    (auto simp: drun_def call_in_def on_output_def progress_statuses_def Let_def set_result_once_def conclude_def
      merge_pi_two_event_pattern_def map_output_to_response_def success_output_def session_step_def closing_step_def
      close_chips_def case_prod_beta truthy_def or_empty_def split: option.splits)

definition demo_running :: dworld where
  "demo_running = drun demo_denv [ClosureBegins 0, StartedWakes 0] demo_deleg"

definition demo_block :: agent_output where
  "demo_block = demo_success\<lparr>ao_status := ''safety_blocked''\<rparr>"

theorem wake_order_decides_witness:
  "case dl_phase (dw_calls (drun demo_denv
     [Outputs 0 1 demo_success, ResultWakes 0 5, Outputs 0 2 demo_block, SessionSaved 0 True, ClosingDone 0] demo_running) ! 0) of
     Replied r \<Rightarrow> rp_text r = ''done'' | _ \<Rightarrow> False"
proof -
  have "0 < length (dw_calls demo_running)" "dl_phase (dw_calls demo_running ! 0) = AwaitResult"
    "dl_closure (dw_calls demo_running ! 0) = Running" "dl_result (dw_calls demo_running ! 0) = None"
    "dl_terminal (dw_calls demo_running ! 0) = None" "dl_text (dw_calls demo_running ! 0) = None"
    "ao_status demo_success = ''success''" "ao_is_final demo_success" "ao_result demo_success = Some ''done''"
    "ao_status demo_block = ''safety_blocked''" by code_simp+
  then show ?thesis
    using wake_order_decides [of 0 demo_running demo_success "''done''" demo_block 2 5 True demo_denv 1]
    by (auto simp: Let_def split: dphase.splits)
qed

text \<open>C33. 
  The guard on the start answers without withdrawing the task: after thirty seconds in the queue the caller is told
  that the delegation failed to start, with the queue unchanged; the task can still run afterwards, and what it
  then reports changes neither the answer nor the audit row.
\<close>

theorem guard_leaves_task:
  assumes "i < length (dw_calls w)" "dl_phase (dw_calls w ! i) = AwaitStarted" "\<not> dl_started (dw_calls w ! i)"
    and "dl_closure (dw_calls w ! i) = Queued"
  shows "let w1 = drun env [GuardPasses i ms, ClosingDone i] w;
             w2 = drun env [ClosureBegins i, Outputs i t out] w1;
             refused = Replied (err_reply ''Delegation task failed to start.'') in
    dl_phase (dw_calls w1 ! i) = refused \<and> dw_queue w1 = dw_queue w \<and>
    dl_closure (dw_calls w2 ! i) = Running \<and> dl_phase (dw_calls w2 ! i) = refused \<and> dw_rows w2 = dw_rows w1"
proof -
  let ?w1 = "drun env [GuardPasses i ms, ClosingDone i] w"
  have w1: "dl_phase (dw_calls ?w1 ! i) = Replied (err_reply ''Delegation task failed to start.'')" "dw_queue ?w1 = dw_queue w"
    "dl_closure (dw_calls ?w1 ! i) = Queued" "length (dw_calls ?w1) = length (dw_calls w)"
    using assms by (simp_all add: drun_def call_in_def guard_passes_def closing_step_def close_chips_def case_prod_beta Let_def)
  obtain c' q' where out: "on_output t out ((dw_calls ?w1 ! i)\<lparr>dl_started := True, dl_closure := Running\<rparr>, dw_queue ?w1) = (c', q')"
    by fastforce
  have "drun env [ClosureBegins i, Outputs i t out] ?w1 = set_call i c' (?w1\<lparr>dw_calls := (dw_calls ?w1)[i := (dw_calls ?w1 ! i)\<lparr>dl_started := True, dl_closure := Running\<rparr>], dw_queue := q'\<rparr>)"
    using w1 assms(1) out unfolding drun_def [of env "[ClosureBegins i, Outputs i t out]"] by (simp add: call_in_def set_call_def)
  then show ?thesis using w1 assms(1) on_output_frame(1,4) [OF out] by (simp add: Let_def)
qed

theorem guard_leaves_task_witness:
  "dl_closure (dw_calls (drun demo_denv [ClosureBegins 1, Outputs 1 9 demo_success]
     (drun demo_denv [GuardPasses 1 30000, ClosingDone 1] demo_deleg)) ! 1) = Running"
proof -
  have "1 < length (dw_calls demo_deleg)" "dl_phase (dw_calls demo_deleg ! 1) = AwaitStarted"
    "\<not> dl_started (dw_calls demo_deleg ! 1)" "dl_closure (dw_calls demo_deleg ! 1) = Queued" by code_simp+
  then show ?thesis using guard_leaves_task [of 1 demo_deleg demo_denv 30000 9 demo_success] by (simp add: Let_def)
qed

end
