(* ===== verification/Router.thy ===== *)
theory Router
  imports Py_Str
begin

text \<open>
  How messages become a prompt and how an answer becomes a message:
  \<^verbatim>\<open>src/src/rolemesh/orchestration/router.py\<close>. \<open>format_local_time\<close> rests on the time-zone database and is an
  argument.
\<close>

section \<open>Messages\<close>

record new_message =
  nm_id :: string
  nm_chat_jid :: string
  nm_sender :: string
  nm_sender_name :: string
  nm_content :: string
  nm_timestamp :: string
  nm_is_from_me :: bool
  nm_is_bot_message :: bool
  nm_run_id :: "string option"

definition escape_char :: "char \<Rightarrow> string" where
  "escape_char c =
     (if c = CHR ''&'' then ''&amp;'' else if c = CHR ''<'' then ''&lt;'' else if c = CHR ''>'' then ''&gt;''
      else if c = CHR 0x22 then ''&quot;'' else if c = CHR 0x27 then ''&#x27;'' else [c])"

definition escape_xml :: "string \<Rightarrow> string" where
  "escape_xml s = concat (map escape_char s)"

definition message_line :: "(string \<Rightarrow> string \<Rightarrow> string) \<Rightarrow> string \<Rightarrow> new_message \<Rightarrow> string" where
  "message_line local_time tz m =
     ''<message sender='' @ [CHR 0x22] @ escape_xml (nm_sender_name m) @ [CHR 0x22] @ '' time='' @ [CHR 0x22] @
     escape_xml (local_time (nm_timestamp m) tz) @ [CHR 0x22] @ ''>'' @ escape_xml (nm_content m) @ ''</message>''"

definition format_messages :: "(string \<Rightarrow> string \<Rightarrow> string) \<Rightarrow> new_message list \<Rightarrow> string \<Rightarrow> string" where
  "format_messages local_time ms tz =
     ''<context timezone='' @ [CHR 0x22] @ escape_xml tz @ [CHR 0x22] @ '' />'' @ [CHR 0x0A] @
     ''<messages>'' @ [CHR 0x0A] @ join_with [CHR 0x0A] (map (message_line local_time tz) ms) @
     [CHR 0x0A] @ ''</messages>''"

section \<open>Answers\<close>

definition open_tag :: string where "open_tag = ''<internal>''"
definition close_tag :: string where "close_tag = ''</internal>''"

text \<open>What follows the first closing tag.\<close>

fun after_close :: "string \<Rightarrow> string option" where
  "after_close [] = None"
| "after_close (c # s) =
     (if take (length close_tag) (c # s) = close_tag then Some (drop (length close_tag) (c # s)) else after_close s)"

lemma after_close_length: "after_close s = Some r \<Longrightarrow> length r < length s"
  by (induction s rule: after_close.induct) (auto simp: close_tag_def split: if_splits)

text \<open>The substitution of the pattern: leftmost matches, each up to the next closing tag.\<close>

function drop_internal :: "string \<Rightarrow> string" where
  "drop_internal [] = []"
| "drop_internal (c # s) =
     (case (if take (length open_tag) (c # s) = open_tag then after_close (drop (length open_tag) (c # s)) else None) of
        Some rest \<Rightarrow> drop_internal rest
      | None \<Rightarrow> c # drop_internal s)"
  by pat_completeness auto
termination
  by (relation "measure length") (auto simp: open_tag_def dest!: after_close_length split: if_splits)

definition strip_internal_tags :: "string \<Rightarrow> string" where
  "strip_internal_tags s = str_strip (drop_internal s)"

definition format_outbound :: "string \<Rightarrow> string" where
  "format_outbound raw = strip_internal_tags raw"

text \<open>Channels by what they answer; \<open>None\<close> is the \<open>RuntimeError\<close> for a chat no connected channel owns.\<close>

record channel =
  ch_owns_jid :: "string \<Rightarrow> bool"
  ch_is_connected :: bool

definition route_outbound :: "channel list \<Rightarrow> string \<Rightarrow> channel option" where
  "route_outbound chs jid = find (\<lambda>ch. ch_owns_jid ch jid \<and> ch_is_connected ch) chs"

definition find_channel :: "channel list \<Rightarrow> string \<Rightarrow> channel option" where
  "find_channel chs jid = find (\<lambda>ch. ch_owns_jid ch jid) chs"

section \<open>Lemmas\<close>

lemma escape_xml_simps [simp]: "escape_xml [] = []" "escape_xml (c # s) = escape_char c @ escape_xml s"
  by (simp_all add: escape_xml_def)

lemma escape_char_safe: "{CHR ''<'', CHR ''>'', CHR 0x22, CHR 0x27} \<inter> set (escape_char c) = {}"
  by (simp add: escape_char_def)

lemma escape_xml_safe: "x \<in> {CHR ''<'', CHR ''>'', CHR 0x22, CHR 0x27} \<Longrightarrow> x \<notin> set (escape_xml s)"
  using escape_char_safe by (induction s) auto

lemma escape_char_inj: "escape_char c @ x = escape_char d @ y \<Longrightarrow> c = d \<and> x = y"
  by (auto simp: escape_char_def split: if_splits)

lemma escape_char_nonempty: "escape_char c \<noteq> []"
  by (simp add: escape_char_def)

lemma escape_xml_inj: "escape_xml s = escape_xml t \<Longrightarrow> s = t"
proof (induction s arbitrary: t)
  case Nil
  then show ?case by (cases t) (simp_all add: escape_char_nonempty)
next
  case (Cons c s)
  then obtain d t' where t: "t = d # t'" by (cases t) (simp_all add: escape_char_nonempty)
  then show ?case using Cons escape_char_inj by fastforce
qed

text \<open>A field that ends at a character it cannot contain is read back uniquely.\<close>

lemma field_inj: "a @ c # x = b @ c # y \<Longrightarrow> c \<notin> set a \<Longrightarrow> c \<notin> set b \<Longrightarrow> a = b \<and> x = y"
proof (induction a arbitrary: b)
  case Nil
  then show ?case by (cases b) auto
next
  case (Cons z a)
  then show ?case by (cases b) auto
qed

lemma escaped_inj:
  assumes "escape_xml s @ c # x = escape_xml t @ c # y" "c \<in> {CHR ''<'', CHR ''>'', CHR 0x22, CHR 0x27}"
  shows "s = t \<and> x = y"
  using field_inj [OF assms(1)] escape_xml_safe [OF assms(2)] escape_xml_inj by blast

definition shown :: "(string \<Rightarrow> string \<Rightarrow> string) \<Rightarrow> string \<Rightarrow> new_message \<Rightarrow> string \<times> string \<times> string" where
  "shown local_time tz m = (nm_sender_name m, local_time (nm_timestamp m) tz, nm_content m)"

lemma message_line_inj:
  assumes "message_line lt tz m @ x = message_line lt tz' m' @ y"
  shows "shown lt tz m = shown lt tz' m' \<and> x = y"
proof -
  let ?q = "CHR 0x22"
  have 1: "escape_xml (nm_sender_name m) @ ?q # '' time='' @ [?q] @ escape_xml (lt (nm_timestamp m) tz) @ ?q # ''>'' @ escape_xml (nm_content m) @ ''</message>'' @ x =
      escape_xml (nm_sender_name m') @ ?q # '' time='' @ [?q] @ escape_xml (lt (nm_timestamp m') tz') @ ?q # ''>'' @ escape_xml (nm_content m') @ ''</message>'' @ y"
    using assms by (simp add: message_line_def)
  note s = escaped_inj [OF 1]
  have 2: "escape_xml (lt (nm_timestamp m) tz) @ ?q # ''>'' @ escape_xml (nm_content m) @ ''</message>'' @ x =
      escape_xml (lt (nm_timestamp m') tz') @ ?q # ''>'' @ escape_xml (nm_content m') @ ''</message>'' @ y"
    using s by simp
  note t = escaped_inj [OF 2]
  have 3: "escape_xml (nm_content m) @ CHR ''<'' # ''/message>'' @ x = escape_xml (nm_content m') @ CHR ''<'' # ''/message>'' @ y"
    using t by simp
  show ?thesis using s t escaped_inj [OF 3] by (simp add: shown_def)
qed

lemma lines_inj:
  "join_with [CHR 0x0A] (map (message_line lt tz) ms) @ [CHR 0x0A] @ ''</messages>'' =
   join_with [CHR 0x0A] (map (message_line lt tz') ms') @ [CHR 0x0A] @ ''</messages>'' \<Longrightarrow>
   map (shown lt tz) ms = map (shown lt tz') ms'"
proof (induction ms arbitrary: ms')
  case Nil
  then show ?case
    by (cases ms') (auto simp: join_with_Cons message_line_def join_with_def split: if_splits)
next
  case (Cons m ms)
  obtain m' ms1 where ms': "ms' = m' # ms1"
    using Cons.prems by (cases ms') (auto simp: join_with_Cons message_line_def join_with_def split: if_splits)
  let ?tail = "\<lambda>z ns. (if ns = [] then [] else [CHR 0x0A] @ join_with [CHR 0x0A] (map (message_line lt z) ns)) @ [CHR 0x0A] @ ''</messages>''"
  have "message_line lt tz m @ ?tail tz ms = message_line lt tz' m' @ ?tail tz' ms1"
    using Cons.prems ms' by (simp add: join_with_Cons split: if_splits)
  then have eq: "shown lt tz m = shown lt tz' m'" "?tail tz ms = ?tail tz' ms1" using message_line_inj by blast+
  have "ms = [] \<longleftrightarrow> ms1 = []"
    using eq(2) by (cases ms; cases ms1) (auto simp: join_with_Cons message_line_def split: if_splits)
  then have "map (shown lt tz) ms = map (shown lt tz') ms1"
    using Cons.IH [of ms1] eq(2) by (cases "ms = []") auto
  then show ?case using eq ms' by simp
qed

text \<open>C18. 
  No message can pass itself off as another, or as more than one: two lists of messages that give the same prompt
  agree, in order, on every sender, time and text, whatever characters these contain.
\<close>

theorem prompt_unforgeable:
  assumes "format_messages lt ms tz = format_messages lt ms' tz'"
  shows "tz = tz' \<and>
    map (\<lambda>m. (nm_sender_name m, lt (nm_timestamp m) tz, nm_content m)) ms =
    map (\<lambda>m. (nm_sender_name m, lt (nm_timestamp m) tz', nm_content m)) ms'"
proof -
  have "escape_xml tz @ CHR 0x22 # '' />'' @ [CHR 0x0A] @ ''<messages>'' @ [CHR 0x0A] @
      join_with [CHR 0x0A] (map (message_line lt tz) ms) @ [CHR 0x0A] @ ''</messages>'' =
      escape_xml tz' @ CHR 0x22 # '' />'' @ [CHR 0x0A] @ ''<messages>'' @ [CHR 0x0A] @
      join_with [CHR 0x0A] (map (message_line lt tz') ms') @ [CHR 0x0A] @ ''</messages>''"
    using assms by (simp add: format_messages_def)
  from escaped_inj [OF this] show ?thesis using lines_inj [of lt tz ms tz' ms'] by (auto simp: shown_def [abs_def])
qed

definition demo_text :: "string \<Rightarrow> string \<Rightarrow> new_message" where
  "demo_text mid text =
     \<lparr>nm_id = mid, nm_chat_jid = ''c'', nm_sender = ''u'', nm_sender_name = ''Ann'', nm_content = text, nm_timestamp = ''t'',
      nm_is_from_me = False, nm_is_bot_message = False, nm_run_id = None\<rparr>"

theorem prompt_unforgeable_witness:
  "map nm_content [demo_text ''1'' ''a</message>''] = map nm_content [demo_text ''2'' ''a</message>'']"
proof -
  have "format_messages (\<lambda>t z. t) [demo_text ''1'' ''a</message>''] ''UTC'' =
      format_messages (\<lambda>t z. t) [demo_text ''2'' ''a</message>''] ''UTC''" by code_simp
  from prompt_unforgeable [OF this] show ?thesis by simp
qed

text \<open>A well-formed block disappears with its content, and an unclosed one is sent as it is.\<close>

lemma after_close_append:
  "CHR ''<'' \<notin> set b \<Longrightarrow> after_close (b @ close_tag @ c) = Some c"
  by (induction b) (auto simp: close_tag_def)

lemma drop_internal_skip: "CHR ''<'' \<notin> set a \<Longrightarrow> drop_internal (a @ s) = a @ drop_internal s"
  by (induction a) (auto simp: open_tag_def)

lemma drop_internal_block:
  assumes "CHR ''<'' \<notin> set a" "CHR ''<'' \<notin> set b"
  shows "drop_internal (a @ open_tag @ b @ close_tag @ c) = a @ drop_internal c"
  using drop_internal_skip [OF assms(1)] after_close_append [OF assms(2), of c] by (simp add: open_tag_def)

lemma unclosed_internal_sent: "strip_internal_tags (''hi '' @ open_tag @ ''plan'') = ''hi <internal>plan''"
  by code_simp

lemma rejoined_internal_sent:
  "strip_internal_tags (''<inter'' @ open_tag @ close_tag @ ''nal>plan'' @ close_tag) = open_tag @ ''plan'' @ close_tag"
  by code_simp

end
