(* ===== verification/Turns.thy ===== *)
theory Turns
  imports Router Delegation Runs Safety_Pipeline
begin

text \<open>
  The conversation turns of the orchestrator, \<^verbatim>\<open>src/src/rolemesh/main.py\<close>: what is stored, which messages a turn
  hands to the agent, what happens to the agent's outputs, and how a run ends, with the message statements of
  \<^verbatim>\<open>src/src/rolemesh/db/chat.py\<close>. Printing and reading of dates are arguments, as are the rules the database
  returns and the gateways, of which only the kind matters.
\<close>

section \<open>Messages in the database\<close>

record usage_fields =
  us_input_tokens :: "int option"
  us_output_tokens :: "int option"
  us_cache_read_tokens :: "int option"
  us_cache_write_tokens :: "int option"
  us_cost_usd :: "rat option"
  us_model_id :: "string option"

definition no_usage :: usage_fields where
  "no_usage = \<lparr>us_input_tokens = None, us_output_tokens = None, us_cache_read_tokens = None,
               us_cache_write_tokens = None, us_cost_usd = None, us_model_id = None\<rparr>"

text \<open>\<open>int(val)\<close> of a number: towards zero.\<close>

definition trunc_num :: "rat \<Rightarrow> int" where
  "trunc_num r = (if r \<ge> 0 then \<lfloor>r\<rfloor> else \<lceil>r\<rceil>)"

definition extract_usage :: "(string \<times> json) list option \<Rightarrow> usage_fields" where
  "extract_usage metadata =
     (case metadata of
        None \<Rightarrow> no_usage
      | Some md \<Rightarrow>
          (case obj_get md ''usage'' of
             Some (JObj u) \<Rightarrow>
               (let num = (\<lambda>k. case obj_get u k of None \<Rightarrow> None | Some v \<Rightarrow> py_num v);
                    int_of = (\<lambda>k. map_option trunc_num (num k))
                in \<lparr>us_input_tokens = int_of ''input_tokens'', us_output_tokens = int_of ''output_tokens'',
                    us_cache_read_tokens = int_of ''cache_read_tokens'', us_cache_write_tokens = int_of ''cache_write_tokens'',
                    us_cost_usd = num ''cost_usd'',
                    us_model_id = (case obj_get u ''model_id'' of Some (JStr s) \<Rightarrow> Some s | _ \<Rightarrow> None)\<rparr>)
           | _ \<Rightarrow> no_usage))"

record message_row =
  mr_tenant_id :: string
  mr_conversation_id :: string
  mr_id :: string
  mr_sender :: string
  mr_sender_name :: string
  mr_content :: string
  mr_timestamp :: int
  mr_is_from_me :: bool
  mr_is_bot_message :: bool
  mr_usage :: usage_fields
  mr_run_id :: "string option"

definition same_key :: "message_row \<Rightarrow> message_row \<Rightarrow> bool" where
  "same_key a b = (mr_tenant_id a = mr_tenant_id b \<and> mr_id a = mr_id b \<and> mr_conversation_id a = mr_conversation_id b)"

definition store_message :: "message_row \<Rightarrow> message_row list \<Rightarrow> message_row list" where
  "store_message r rows =
     (if list_ex (same_key r) rows
      then map (\<lambda>x. if same_key r x then x\<lparr>mr_content := mr_content r, mr_timestamp := mr_timestamp r\<rparr> else x) rows
      else rows @ [r])"

text \<open>The operator \<open>LIKE\<close>.\<close>

fun sql_like :: "string \<Rightarrow> string \<Rightarrow> bool" where
  "sql_like [] s = (s = [])"
| "sql_like (p # ps) s =
     (if p = CHR ''%'' then sql_like ps s \<or> (case s of [] \<Rightarrow> False | _ # t \<Rightarrow> sql_like (p # ps) t)
      else case s of
             [] \<Rightarrow> False
           | c # t \<Rightarrow>
               if p = CHR ''_'' then sql_like ps t
               else if p = CHR 0x5C then (case ps of [] \<Rightarrow> False | q # qs \<Rightarrow> q = c \<and> sql_like qs t)
               else p = c \<and> sql_like ps t)"

definition readable :: "string \<Rightarrow> string \<Rightarrow> string \<Rightarrow> message_row \<Rightarrow> bool" where
  "readable tid cid bname r =
     (mr_tenant_id r = tid \<and> mr_conversation_id r = cid \<and> \<not> mr_is_bot_message r \<and>
      \<not> sql_like (bname @ '':%'') (mr_content r) \<and> mr_content r \<noteq> '''')"

definition record_to_new_message :: "(int \<Rightarrow> string) \<Rightarrow> string \<Rightarrow> message_row \<Rightarrow> new_message" where
  "record_to_new_message isof chat r =
     \<lparr>nm_id = mr_id r, nm_chat_jid = chat, nm_sender = mr_sender r, nm_sender_name = mr_sender_name r,
      nm_content = mr_content r, nm_timestamp = isof (mr_timestamp r), nm_is_from_me = mr_is_from_me r,
      nm_is_bot_message = mr_is_bot_message r, nm_run_id = mr_run_id r\<rparr>"

definition message_limit :: nat where
  "message_limit = 200"

definition epoch :: string where
  "epoch = ''1970-01-01T00:00:00+00:00''"

text \<open>The last rows after a time, oldest first; rows of one time keep the order of the table.\<close>

definition rows_since :: "string \<Rightarrow> string \<Rightarrow> int \<Rightarrow> string \<Rightarrow> message_row list \<Rightarrow> message_row list" where
  "rows_since tid cid ts bname rows =
     (let found = sort_key mr_timestamp (filter (\<lambda>r. readable tid cid bname r \<and> mr_timestamp r > ts) rows)
      in drop (length found - message_limit) found)"

section \<open>Gateways and frames\<close>

datatype frame =
    FTyping string string bool
  | FStatus string string payload
  | FChunk string string string
  | FDone string string
  | FBlock string string string string "string option"
  | FMessage string string string
  | FRunCompleted string string string
  | FRunError string string string json

definition channel_type_for_chat :: "string \<Rightarrow> string" where
  "channel_type_for_chat chat =
     (if take 1 chat = ''C'' \<or> take 1 chat = ''D'' then ''slack'' else ''telegram'')"

definition channel_type_for_conv :: "coworker_state \<Rightarrow> conversation \<Rightarrow> string" where
  "channel_type_for_conv cw conv =
     (case find (\<lambda>(ct, b). cb_id b = cv_channel_binding_id conv) (cw_channel_bindings cw) of
        Some (ct, _) \<Rightarrow> ct
      | None \<Rightarrow> channel_type_for_chat (cv_channel_chat_id conv))"

text \<open>The binding and, when there is one, the gateway: whether it is the web gateway.\<close>

definition route_of :: "(string \<Rightarrow> bool option) \<Rightarrow> coworker_state \<Rightarrow> conversation \<Rightarrow> (string \<times> bool option) option" where
  "route_of gateways cw conv =
     (let ct = channel_type_for_conv cw conv in
      map_option (\<lambda>b. (cb_id b, gateways ct)) (dict_get (cw_channel_bindings cw) ct))"

definition on_web :: "(string \<times> bool option) option \<Rightarrow> string option" where
  "on_web r = (case r of Some (b, Some True) \<Rightarrow> Some b | _ \<Rightarrow> None)"

section \<open>Screening an answer\<close>

datatype screened = Forward string | Blocked string "string option"

definition blocked_text :: string where
  "blocked_text = ''[Response blocked by safety policy]''"

definition output_context :: "coworker \<Rightarrow> conversation \<Rightarrow> string \<Rightarrow> safety_context" where
  "output_context cfg conv text =
     \<lparr>cx_stage = MODEL_OUTPUT, cx_tenant_id = c_tenant_id cfg, cx_coworker_id = c_id cfg,
      cx_user_id = or_empty (cv_user_id conv), cx_job_id = '''', cx_conversation_id = cv_id conv,
      cx_payload = [(''text'', JStr text)], cx_tool = None\<rparr>"

text \<open>\<open>Inl\<close> is a failure to load the rules.\<close>

definition apply_model_output_safety ::
  "(audit_env \<times> check_registry) option \<Rightarrow> unit + safety_rule list \<Rightarrow> coworker \<Rightarrow> conversation \<Rightarrow> string \<Rightarrow> screened" where
  "apply_model_output_safety engine loaded cfg conv text =
     (if text = '''' then Forward text
      else case engine of
        None \<Rightarrow> Forward text
      | Some (en, reg) \<Rightarrow>
          (case loaded of
             Inl _ \<Rightarrow> Forward text
           | Inr rules \<Rightarrow>
               if rules = [] then Forward text
               else (case fst (run_orchestrator_pipeline en reg (output_context cfg conv text) rules) of
                       Inl _ \<Rightarrow> Blocked blocked_text None
                     | Inr v \<Rightarrow>
                         if v_action v \<in> {''block'', ''require_approval''}
                         then Blocked (or_str (or_empty (v_reason v)) blocked_text) None
                         else if v_action v = ''redact''
                         then (case v_modified_payload v of
                                 Some (JObj kvs) \<Rightarrow> (case obj_get kvs ''text'' of Some (JStr t) \<Rightarrow> Forward t | _ \<Rightarrow> Forward text)
                               | _ \<Rightarrow> Forward text)
                         else Forward text)))"

section \<open>State\<close>

text \<open>
  What is left of the handling of the agent's outputs, one item per await: a block of sends whose failures are
  suppressed, a send that may raise, the screening, a statement, or what follows them.
\<close>

datatype kont =
    KOutput agent_output
  | KSession string
  | KForward agent_output
  | KSends "frame list"
  | KSend frame
  | KScreen string agent_output
  | KStore string agent_output
  | KSent
  | KArm
  | KStatus agent_output
  | KFinal agent_output
  | KNotify
  | KWrite "string option" "json option" "json option" bool
  | KSnapshot string "json option"
  | KRunFrame string "json option"

datatype tphase =
    TQuery string
  | TFetched string "new_message list"
  | TCursor
  | TTyping
  | TRunning
  | TSession bool string
  | TStop bool
  | TNotice string
  | TRollback
  | TReturned bool
  | TRaised

record turn =
  tn_phase :: tphase
  tn_kont :: "kont list"
  tn_messages :: "new_message list"
  tn_previous_cursor :: string
  tn_had_error :: bool
  tn_output_sent :: bool
  tn_non_retryable :: "string option"

datatype loop_state = LIdle | LAsked string string | LRead string string "new_message list" | LSave string string

record tworld =
  tw_queue :: queue
  tw_convs :: "(string, conversation_state) dict"
  tw_messages :: "message_row list"
  tw_runs :: "run_row list"
  tw_cursors :: "(string, string) dict"
  tw_sessions :: "(string, string) dict"
  tw_turns :: "(string, turn) dict"
  tw_loop :: loop_state
  tw_inputs :: "agent_input list"
  tw_handed :: "(string \<times> string) list"
  tw_frames :: "frame list"

record tenv =
  te_str :: "json \<Rightarrow> string"
  te_iso :: "int \<Rightarrow> string"
  te_fromiso :: "string \<Rightarrow> int"
  te_local_time :: "string \<Rightarrow> string \<Rightarrow> string"
  te_timezone :: string
  te_coworker :: "string \<Rightarrow> coworker_state"
  te_gateways :: "string \<Rightarrow> bool option"
  te_engine :: "(audit_env \<times> check_registry) option"
  te_executors :: "string list"
  te_default_executor :: bool

definition emit :: "frame \<Rightarrow> tworld \<Rightarrow> tworld" where
  "emit f w = w\<lparr>tw_frames := tw_frames w @ [f]\<rparr>"

definition upd_conv :: "string \<Rightarrow> (conversation_state \<Rightarrow> conversation_state) \<Rightarrow> tworld \<Rightarrow> tworld" where
  "upd_conv cid f w =
     (case dict_get (tw_convs w) cid of None \<Rightarrow> w | Some cs \<Rightarrow> w\<lparr>tw_convs := dict_set (tw_convs w) cid (f cs)\<rparr>)"

definition set_turn :: "string \<Rightarrow> turn \<Rightarrow> tworld \<Rightarrow> tworld" where
  "set_turn cid t w = w\<lparr>tw_turns := dict_set (tw_turns w) cid t\<rparr>"

definition on_queue :: "(queue \<Rightarrow> queue) \<Rightarrow> tworld \<Rightarrow> tworld" where
  "on_queue f w = w\<lparr>tw_queue := f (tw_queue w)\<rparr>"

definition get_messages_since :: "tenv \<Rightarrow> conversation_state \<Rightarrow> string \<Rightarrow> string \<Rightarrow> message_row list \<Rightarrow> new_message list" where
  "get_messages_since env cs since bname rows =
     (let conv = cs_conversation cs; ts = te_fromiso env (or_str since epoch) in
      map (record_to_new_message (te_iso env) (cv_channel_chat_id conv))
        (rows_since (cv_tenant_id conv) (cv_id conv) ts bname rows))"

text \<open>The run of the last message that has one.\<close>

definition last_run :: "new_message list \<Rightarrow> string option" where
  "last_run ms = (case find (\<lambda>m. truthy (nm_run_id m)) (rev ms) of None \<Rightarrow> None | Some m \<Rightarrow> nm_run_id m)"

end
