(* ===== verification/Turn_Steps.thy ===== *)
theory Turn_Steps
  imports Turns
begin

text \<open>
  A turn and the message loop as events: \<open>_process_conversation_messages\<close> with its \<open>_on_output\<close>, \<open>_run_agent\<close>, the run
  terminators and the body of \<open>_message_loop\<close> in \<^verbatim>\<open>src/src/rolemesh/main.py\<close>. Each event lets one await complete; its
  flag says whether the awaited call succeeded; a call that fails raises an exception the code expects there. A step of the handling of outputs is the head of the turn's list.
\<close>

section \<open>Outputs\<close>

definition status_payload :: "agent_output \<Rightarrow> payload" where
  "status_payload out =
     fold (\<lambda>(k, v) d. dict_set d k v) (case ao_metadata out of None \<Rightarrow> [] | Some m \<Rightarrow> m) [(''status'', JStr (ao_status out))]"

definition block_stage :: "tenv \<Rightarrow> agent_output \<Rightarrow> string" where
  "block_stage env out =
     (case obj_get (case ao_metadata out of None \<Rightarrow> [] | Some m \<Rightarrow> m) ''stage'' of
        None \<Rightarrow> ''unknown'' | Some (JStr s) \<Rightarrow> s | Some v \<Rightarrow> te_str env v)"

definition block_rule :: "agent_output \<Rightarrow> string option" where
  "block_rule out =
     (case obj_get (case ao_metadata out of None \<Rightarrow> [] | Some m \<Rightarrow> m) ''rule_id'' of Some (JStr s) \<Rightarrow> Some s | _ \<Rightarrow> None)"

definition block_error :: "string \<Rightarrow> string \<Rightarrow> string option \<Rightarrow> json" where
  "block_error reason stage rule =
     JObj [(''code'', JStr ''SAFETY_BLOCKED''), (''message'', JStr reason), (''stage'', JStr stage),
           (''rule_id'', jopt_str rule)]"

definition agent_error :: "string \<Rightarrow> string \<Rightarrow> json" where
  "agent_error code msg = JObj [(''code'', JStr code), (''message'', JStr msg)]"

definition web_sends :: "(string \<times> bool option) option \<Rightarrow> (string \<Rightarrow> frame list) \<Rightarrow> kont list" where
  "web_sends route fs = (case on_web route of None \<Rightarrow> [] | Some b \<Rightarrow> [KSends (fs b)])"

text \<open>\<open>_on_output\<close> up to its first await.\<close>

definition forward_output ::
  "tenv \<Rightarrow> (string \<times> bool option) option \<Rightarrow> string \<Rightarrow> string option \<Rightarrow> agent_output \<Rightarrow> kont list" where
  "forward_output env route chat run out =
     (if ao_status out \<in> set progress_statuses
      then web_sends route (\<lambda>b. [FStatus b chat (status_payload out)])
      else if ao_status out = ''safety_blocked''
      then let reason = or_str (or_empty (ao_result out)) ''Blocked by safety policy'';
               stage = block_stage env out; rule = block_rule out in
           (if ao_is_final out then [KWrite run None (Some (block_error reason stage rule)) False] else []) @
           web_sends route (\<lambda>b. [FBlock b chat reason stage rule]) @ web_sends route (\<lambda>b. [FDone b chat]) @
           [KSent] @ (if ao_is_final out then [KNotify] else [])
      else (if truthy (ao_result out) then [KScreen (strip_internal_tags (or_empty (ao_result out))) out] else []) @
           [KStatus out])"

text \<open>After the screening.\<close>

definition deliver :: "(string \<times> bool option) option \<Rightarrow> string \<Rightarrow> agent_output \<Rightarrow> screened \<Rightarrow> kont list" where
  "deliver route chat out s =
     (case s of
        Blocked reason rule \<Rightarrow> web_sends route (\<lambda>b. [FBlock b chat reason ''model_output'' rule]) @ [KSent]
      | Forward text \<Rightarrow>
          (case route of
             Some (b, gw) \<Rightarrow>
               if text = '''' then [KArm]
               else (case gw of
                       Some True \<Rightarrow> [KSend (FChunk b chat text), KStore text out, KSent]
                     | Some False \<Rightarrow> [KSend (FMessage b chat text), KSent]
                     | None \<Rightarrow> [KSent])
           | None \<Rightarrow> [KArm]))"

text \<open>The part of \<open>_on_output\<close> after the text: by status.\<close>

definition settle_output ::
  "(string \<times> bool option) option \<Rightarrow> string \<Rightarrow> string option \<Rightarrow> agent_output \<Rightarrow> turn \<Rightarrow> turn \<times> kont list" where
  "settle_output route chat run out t =
     (if ao_status out = ''success''
      then (t, web_sends route (\<lambda>b. [FDone b chat]) @ (if ao_is_final out then [KFinal out] else []))
      else if ao_status out = ''stopped''
      then (t, web_sends route (\<lambda>b. [FStatus b chat [(''status'', JStr ''stopped'')], FDone b chat]) @ [KNotify])
      else if ao_status out = ''error''
      then if ao_retryable out
           then (t\<lparr>tn_had_error := True\<rparr>,
                 [KWrite run None (Some (agent_error ''AGENT_ERROR'' (or_str (or_empty (ao_error out)) ''agent run failed''))) False])
           else let msg = or_str (or_empty (ao_error out)) ''agent configuration error'' in
                (t\<lparr>tn_non_retryable := Some msg\<rparr>, [KWrite run None (Some (agent_error ''CONFIG_ERROR'' msg)) True])
      else (t, []))"

definition output_usage :: "agent_output \<Rightarrow> json option" where
  "output_usage out =
     (case ao_metadata out of
        None \<Rightarrow> None
      | Some m \<Rightarrow> (case obj_get m ''usage'' of Some (JObj u) \<Rightarrow> Some (JObj u) | _ \<Rightarrow> None))"

definition reply_row :: "tenv \<Rightarrow> conversation \<Rightarrow> coworker \<Rightarrow> int \<Rightarrow> string \<Rightarrow> string \<Rightarrow> usage_fields \<Rightarrow> message_row" where
  "reply_row env conv cfg now uid text usage =
     \<lparr>mr_tenant_id = cv_tenant_id conv, mr_conversation_id = cv_id conv, mr_id = uid, mr_sender = c_name cfg,
      mr_sender_name = c_name cfg, mr_content = text, mr_timestamp = now, mr_is_from_me = True,
      mr_is_bot_message = True, mr_usage = usage, mr_run_id = None\<rparr>"

text \<open>What the frame of a lost write reports.\<close>

definition frame_error :: "run_row option \<Rightarrow> json option \<Rightarrow> json option" where
  "frame_error snapshot intent =
     (case snapshot of
        None \<Rightarrow> intent
      | Some r \<Rightarrow>
          if rn_status r \<in> {''failed'', ''awaiting_reauth''}
          then Some (case rn_error r of Some (JObj d) \<Rightarrow> JObj d | _ \<Rightarrow> JObj [])
          else None)"

text \<open>What an await may need: success, the time, a fresh id, the rules.\<close>

record await_result =
  aw_ok :: bool
  aw_now :: int
  aw_uid :: string
  aw_rules :: "unit + safety_rule list"

text \<open>One item of the list; the rest is \<open>ks\<close>, and an exception leaves nothing.\<close>

fun kstep ::
  "tenv \<Rightarrow> string \<Rightarrow> conversation_state \<Rightarrow> await_result \<Rightarrow> kont \<Rightarrow> kont list \<Rightarrow> turn \<Rightarrow> tworld \<Rightarrow> tworld" where
  "kstep env cid cs a (KOutput out) ks t w =
     (case or_none (ao_new_session_id out) of
        Some sid \<Rightarrow> set_turn cid (t\<lparr>tn_kont := KSession sid # KForward out # ks\<rparr>)
                     (upd_conv cid (\<lambda>c. c\<lparr>cs_session_id := Some sid\<rparr>) w)
      | None \<Rightarrow> set_turn cid (t\<lparr>tn_kont := KForward out # ks\<rparr>) w)"
| "kstep env cid cs a (KSession sid) ks t w =
     (if aw_ok a then set_turn cid (t\<lparr>tn_kont := ks\<rparr>) (w\<lparr>tw_sessions := dict_set (tw_sessions w) cid sid\<rparr>)
      else set_turn cid (t\<lparr>tn_kont := []\<rparr>) w)"
| "kstep env cid cs a (KForward out) ks t w =
     (let conv = cs_conversation cs in
      set_turn cid (t\<lparr>tn_kont := forward_output env (route_of (te_gateways env) (te_coworker env cid) conv)
                                   (cv_channel_chat_id conv) (cs_active_run_id cs) out @ ks\<rparr>) w)"
| "kstep env cid cs a (KSends fs) ks t w =
     (case fs of
        [] \<Rightarrow> set_turn cid (t\<lparr>tn_kont := ks\<rparr>) w
      | f # fs' \<Rightarrow> if aw_ok a then set_turn cid (t\<lparr>tn_kont := KSends fs' # ks\<rparr>) (emit f w)
                  else set_turn cid (t\<lparr>tn_kont := ks\<rparr>) w)"
| "kstep env cid cs a (KSend f) ks t w =
     (if aw_ok a then set_turn cid (t\<lparr>tn_kont := ks\<rparr>) (emit f w) else set_turn cid (t\<lparr>tn_kont := []\<rparr>) w)"
| "kstep env cid cs a (KScreen text out) ks t w =
     (let conv = cs_conversation cs; cw = te_coworker env cid in
      set_turn cid (t\<lparr>tn_kont := deliver (route_of (te_gateways env) cw conv) (cv_channel_chat_id conv) out
        (apply_model_output_safety (te_engine env) (aw_rules a) (cw_config cw) conv text) @ ks\<rparr>) w)"
| "kstep env cid cs a (KStore text out) ks t w =
     (if aw_uid a \<in> set (map mr_id (tw_messages w)) then w
      else if aw_ok a
      then set_turn cid (t\<lparr>tn_kont := ks\<rparr>)
             (w\<lparr>tw_messages := store_message (reply_row env (cs_conversation cs) (cw_config (te_coworker env cid)) (aw_now a)
                                 (aw_uid a) text (extract_usage (ao_metadata out))) (tw_messages w)\<rparr>)
      else set_turn cid (t\<lparr>tn_kont := []\<rparr>) w)"
| "kstep env cid cs a KSent ks t w =
     set_turn cid (t\<lparr>tn_output_sent := True, tn_kont := ks\<rparr>) (on_queue (arm_idle_timer cid) w)"
| "kstep env cid cs a KArm ks t w = set_turn cid (t\<lparr>tn_kont := ks\<rparr>) (on_queue (arm_idle_timer cid) w)"
| "kstep env cid cs a (KStatus out) ks t w =
     (let conv = cs_conversation cs;
          (t', ks') = settle_output (route_of (te_gateways env) (te_coworker env cid) conv) (cv_channel_chat_id conv)
                        (cs_active_run_id cs) out t
      in set_turn cid (t'\<lparr>tn_kont := ks' @ ks\<rparr>) w)"
| "kstep env cid cs a (KFinal out) ks t w =
     set_turn cid (t\<lparr>tn_kont := KWrite (cs_active_run_id cs) (output_usage out) None True # ks\<rparr>)
       (on_queue (notify_idle cid (aw_now a)) w)"
| "kstep env cid cs a KNotify ks t w =
     set_turn cid (t\<lparr>tn_kont := ks\<rparr>) (on_queue (notify_idle cid (aw_now a)) w)"
| "kstep env cid cs a (KWrite run usage err wants_frame) ks t w =
     (case or_none run of
        None \<Rightarrow> set_turn cid (t\<lparr>tn_kont := ks\<rparr>) w
      | Some rid \<Rightarrow>
          (let framed = wants_frame \<and> on_web (route_of (te_gateways env) (te_coworker env cid) (cs_conversation cs)) \<noteq> None;
               (res, runs) = (if aw_ok a
                              then terminate_run (aw_now a) (case err of None \<Rightarrow> WsCompleted usage | Some e \<Rightarrow> WsError e None)
                                     rid (tw_runs w)
                              else (Inl (), tw_runs w));
               next = (if \<not> framed then [] else if res = Inr False then [KSnapshot rid err] else [KRunFrame rid err])
           in set_turn cid (t\<lparr>tn_kont := next @ ks\<rparr>) (w\<lparr>tw_runs := runs\<rparr>)))"
| "kstep env cid cs a (KSnapshot rid intent) ks t w =
     set_turn cid (t\<lparr>tn_kont := KRunFrame rid
       (if aw_ok a then frame_error (get_run rid (cv_tenant_id (cs_conversation cs)) (tw_runs w)) intent else intent) # ks\<rparr>) w"
| "kstep env cid cs a (KRunFrame rid err) ks t w =
     (case on_web (route_of (te_gateways env) (te_coworker env cid) (cs_conversation cs)) of
        None \<Rightarrow> set_turn cid (t\<lparr>tn_kont := ks\<rparr>) w
      | Some b \<Rightarrow>
          (let chat = cv_channel_chat_id (cs_conversation cs);
               f = (case err of None \<Rightarrow> FRunCompleted b chat rid | Some e \<Rightarrow> FRunError b chat rid e)
           in set_turn cid (t\<lparr>tn_kont := ks\<rparr>) (if aw_ok a then emit f w else w)))"

section \<open>The turn\<close>

definition turn_over :: "turn \<Rightarrow> bool" where
  "turn_over t = (case tn_phase t of TReturned _ \<Rightarrow> True | TRaised \<Rightarrow> True | _ \<Rightarrow> False)"

definition new_turn :: "tphase \<Rightarrow> turn" where
  "new_turn ph = \<lparr>tn_phase = ph, tn_kont = [], tn_messages = [], tn_previous_cursor = '''', tn_had_error = False,
                 tn_output_sent = False, tn_non_retryable = None\<rparr>"

definition start_turn :: "string \<Rightarrow> tworld \<Rightarrow> tworld" where
  "start_turn cid w =
     (if (case dict_get (tw_turns w) cid of None \<Rightarrow> False | Some t \<Rightarrow> \<not> turn_over t) then w
      else case dict_get (tw_convs w) cid of
             None \<Rightarrow> set_turn cid (new_turn (TReturned True)) w
           | Some cs \<Rightarrow> set_turn cid (new_turn (TQuery (cs_last_agent_timestamp cs))) w)"

text \<open>From the fetched messages to the statement that keeps the cursor.\<close>

definition begin_turn :: "string \<Rightarrow> conversation_state \<Rightarrow> new_message list \<Rightarrow> turn \<Rightarrow> tworld \<Rightarrow> tworld" where
  "begin_turn cid cs ms t w =
     (if ms = [] then set_turn cid (t\<lparr>tn_phase := TReturned True\<rparr>) w
      else set_turn cid (t\<lparr>tn_phase := TCursor, tn_messages := ms, tn_previous_cursor := cs_last_agent_timestamp cs\<rparr>)
             (upd_conv cid (\<lambda>c. c\<lparr>cs_active_run_id := last_run ms, cs_last_agent_timestamp := nm_timestamp (last ms)\<rparr>) w))"

definition executor_for :: "tenv \<Rightarrow> string \<Rightarrow> bool" where
  "executor_for env backend = (te_executors env \<noteq> [] \<and> (backend \<in> set (te_executors env) \<or> te_default_executor env))"

definition turn_input :: "tenv \<Rightarrow> string \<Rightarrow> conversation_state \<Rightarrow> string \<Rightarrow> agent_input option" where
  "turn_input env cid cs prompt =
     (let cfg = cw_config (te_coworker env cid); conv = cs_conversation cs in
      map_option (\<lambda>perms.
        \<lparr>ai_prompt = prompt, ai_group_folder = c_folder cfg, ai_chat_jid = cv_channel_chat_id conv,
         ai_permissions = perms_to_dict perms, ai_tenant_id = c_tenant_id cfg, ai_coworker_id = c_id cfg,
         ai_conversation_id = cv_id conv, ai_user_id = or_empty (cv_user_id conv), ai_session_id = cs_session_id cs,
         ai_is_scheduled_task = False, ai_assistant_name = Some (c_name cfg), ai_system_prompt = c_system_prompt cfg,
         ai_role_config = None\<rparr>) (c_permissions cfg))"

definition typing :: "tenv \<Rightarrow> string \<Rightarrow> conversation_state \<Rightarrow> bool \<Rightarrow> tworld \<Rightarrow> tworld" where
  "typing env cid cs b w =
     (case route_of (te_gateways env) (te_coworker env cid) (cs_conversation cs) of
        Some (bid, Some _) \<Rightarrow> emit (FTyping bid (cv_channel_chat_id (cs_conversation cs)) b) w
      | _ \<Rightarrow> w)"

definition prompt_of :: "tenv \<Rightarrow> new_message list \<Rightarrow> string" where
  "prompt_of env ms = format_messages (te_local_time env) ms (te_timezone env)"

text \<open>The typing indicator and \<open>_run_agent\<close> up to the executor; without permissions the attribute error escapes.\<close>

definition launch_turn :: "tenv \<Rightarrow> string \<Rightarrow> conversation_state \<Rightarrow> turn \<Rightarrow> tworld \<Rightarrow> tworld" where
  "launch_turn env cid cs t w0 =
     (let w = typing env cid cs True w0; prompt = prompt_of env (tn_messages t) in
      if \<not> executor_for env (c_agent_backend (cw_config (te_coworker env cid)))
      then set_turn cid (t\<lparr>tn_phase := TStop True\<rparr>) w
      else case turn_input env cid cs prompt of
             None \<Rightarrow> set_turn cid (t\<lparr>tn_phase := TRaised\<rparr>) w
           | Some inp \<Rightarrow> set_turn cid (t\<lparr>tn_phase := TRunning\<rparr>)
                          (w\<lparr>tw_inputs := tw_inputs w @ [inp], tw_handed := tw_handed w @ [(cid, prompt)]\<rparr>))"

text \<open>The executor is done: \<open>None\<close> when it raised.\<close>

definition end_execute :: "string \<Rightarrow> agent_output option \<Rightarrow> turn \<Rightarrow> tworld \<Rightarrow> tworld" where
  "end_execute cid res t w =
     (case res of
        None \<Rightarrow> set_turn cid (t\<lparr>tn_phase := TStop True\<rparr>) w
      | Some out \<Rightarrow>
          (case or_none (ao_new_session_id out) of
             None \<Rightarrow> set_turn cid (t\<lparr>tn_phase := TStop (ao_status out = ''error'')\<rparr>) w
           | Some sid \<Rightarrow> set_turn cid (t\<lparr>tn_phase := TSession (ao_status out = ''error'') sid\<rparr>)
                          (upd_conv cid (\<lambda>c. c\<lparr>cs_session_id := Some sid\<rparr>) w)))"

text \<open>The sign is two characters of six bytes in UTF-8.\<close>

definition warning_sign :: string where
  "warning_sign = [CHR 0xE2, CHR 0x9A, CHR 0xA0, CHR 0xEF, CHR 0xB8, CHR 0x8F]"

definition notice_text :: "string \<Rightarrow> string" where
  "notice_text msg = warning_sign @ '' Configuration error: '' @ take 200 msg @ [CHR 0x0A, CHR 0x0A] @
     ''This failure is deterministic and will not be retried '' @ em_dash @ '' please fix the coworker's configuration.''"

definition finish_turn :: "tenv \<Rightarrow> string \<Rightarrow> conversation_state \<Rightarrow> bool \<Rightarrow> turn \<Rightarrow> tworld \<Rightarrow> tworld" where
  "finish_turn env cid cs failed t w0 =
     (let w = on_queue (cancel_idle_timer cid) (typing env cid cs False w0) in
      case tn_non_retryable t of
        Some msg \<Rightarrow>
          (case route_of (te_gateways env) (te_coworker env cid) (cs_conversation cs) of
             Some (_, Some _) \<Rightarrow> set_turn cid (t\<lparr>tn_phase := TNotice msg\<rparr>) w
           | _ \<Rightarrow> set_turn cid (t\<lparr>tn_phase := TReturned True\<rparr>) w)
      | None \<Rightarrow>
          if failed \<or> tn_had_error t
          then if tn_output_sent t then set_turn cid (t\<lparr>tn_phase := TReturned True\<rparr>) w
               else set_turn cid (t\<lparr>tn_phase := TRollback\<rparr>)
                      (upd_conv cid (\<lambda>c. c\<lparr>cs_last_agent_timestamp := tn_previous_cursor t\<rparr>) w)
          else set_turn cid (t\<lparr>tn_phase := TReturned True\<rparr>) w)"

text \<open>
  \<open>_notify_conversation_error\<close>: the message, for the web its copy in the table and the end of the stream; a
  failure skips the rest, so a number of them is done.
\<close>

definition send_notice :: "tenv \<Rightarrow> string \<Rightarrow> conversation_state \<Rightarrow> nat \<Rightarrow> int \<Rightarrow> string \<Rightarrow> string \<Rightarrow> tworld \<Rightarrow> tworld" where
  "send_notice env cid cs n now uid msg w =
     (let conv = cs_conversation cs; chat = cv_channel_chat_id conv; cfg = cw_config (te_coworker env cid) in
      case route_of (te_gateways env) (te_coworker env cid) conv of
        Some (b, Some web) \<Rightarrow>
          (let w1 = (if 1 \<le> n then emit (FMessage b chat (notice_text msg)) w else w);
               w2 = (if web \<and> 2 \<le> n
                     then w1\<lparr>tw_messages := store_message (reply_row env conv cfg now uid (notice_text msg) no_usage) (tw_messages w1)\<rparr>
                     else w1)
           in if web \<and> 3 \<le> n then emit (FDone b chat) w2 else w2)
      | _ \<Rightarrow> w)"

section \<open>The message loop\<close>

definition pipe_messages :: "tenv \<Rightarrow> string \<Rightarrow> new_message list \<Rightarrow> tworld \<Rightarrow> tworld" where
  "pipe_messages env cid ms w0 =
     (if ms = [] then w0\<lparr>tw_loop := LIdle\<rparr>
      else let w = upd_conv cid (\<lambda>c. c\<lparr>cs_active_run_id := last_run ms\<rparr>) w0;
               cfg = cw_config (te_coworker env cid);
               (sent, q) = send_message cid (prompt_of env ms) (tw_queue w) in
           if sent
           then upd_conv cid (\<lambda>c. c\<lparr>cs_last_agent_timestamp := nm_timestamp (last ms)\<rparr>)
                  (w\<lparr>tw_queue := q, tw_handed := tw_handed w @ [(cid, prompt_of env ms)],
                     tw_loop := LSave cid (nm_timestamp (last ms))\<rparr>)
           else w\<lparr>tw_queue := enqueue_message_check cid (c_tenant_id cfg) (c_id cfg) q, tw_loop := LIdle\<rparr>)"

section \<open>Events\<close>

datatype tevent =
    Incoming string message_row
  | RunCreated int string string string
  | RunEnded int run_end string
  | TurnStarts string
  | QueryDone string bool
  | TurnResumes string
  | CursorSaved string bool
  | TurnLaunches string bool
  | Registered string string string
  | Output string agent_output
  | Advance string await_result
  | ExecuteEnds string "agent_output option"
  | SessionKept string bool
  | TurnStops string
  | NoticeSent string nat int string
  | RolledBack string bool
  | LoopAsks string
  | LoopReads bool
  | LoopResumes
  | LoopSaved bool
  | QueueRuns queue

text \<open>A turn in a phase, with its conversation.\<close>

definition with_turn :: "tworld \<Rightarrow> string \<Rightarrow> (conversation_state \<Rightarrow> turn \<Rightarrow> tworld) \<Rightarrow> tworld" where
  "with_turn w cid f =
     (case (dict_get (tw_convs w) cid, dict_get (tw_turns w) cid) of (Some cs, Some t) \<Rightarrow> f cs t | _ \<Rightarrow> w)"

text \<open>
  A message of a user: the conversation exists, so does the run it names (a foreign key), and it is not one of
  the assistant's; the queue is told.
\<close>

definition incoming :: "string \<Rightarrow> message_row \<Rightarrow> tworld \<Rightarrow> tworld" where
  "incoming cid r w =
     (case dict_get (tw_convs w) cid of
        None \<Rightarrow> w
      | Some cs \<Rightarrow>
          (let conv = cs_conversation cs;
               row = r\<lparr>mr_tenant_id := cv_tenant_id conv, mr_conversation_id := cv_id conv, mr_is_from_me := False,
                       mr_is_bot_message := False, mr_usage := no_usage\<rparr>
           in if (case mr_run_id r of None \<Rightarrow> False | Some rid \<Rightarrow> rid \<notin> set (map rn_id (tw_runs w))) then w
              else on_queue (enqueue_message_check (cv_id conv) (cv_tenant_id conv) (cv_coworker_id conv))
                     (w\<lparr>tw_messages := store_message row (tw_messages w)\<rparr>)))"

fun tstep :: "tenv \<Rightarrow> tevent \<Rightarrow> tworld \<Rightarrow> tworld" where
  "tstep env (Incoming cid r) w = incoming cid r w"
| "tstep env (RunCreated now rid tid cid) w =
     (if rid \<in> set (map rn_id (tw_runs w)) then w else w\<lparr>tw_runs := create_run now rid tid cid (tw_runs w)\<rparr>)"
| "tstep env (RunEnded now e rid) w = w\<lparr>tw_runs := snd (terminate_run now e rid (tw_runs w))\<rparr>"
| "tstep env (TurnStarts cid) w = start_turn cid w"
| "tstep env (QueryDone cid ok) w = with_turn w cid (\<lambda>cs t. case tn_phase t of
     TQuery since \<Rightarrow>
       set_turn cid (t\<lparr>tn_phase := (if ok then TFetched since
         (get_messages_since env cs since (c_name (cw_config (te_coworker env cid))) (tw_messages w)) else TRaised)\<rparr>) w
   | _ \<Rightarrow> w)"
| "tstep env (TurnResumes cid) w = with_turn w cid (\<lambda>cs t. case tn_phase t of
     TFetched since ms \<Rightarrow> begin_turn cid cs ms t w | _ \<Rightarrow> w)"
| "tstep env (CursorSaved cid ok) w = with_turn w cid (\<lambda>cs t. case tn_phase t of
     TCursor \<Rightarrow>
       if ok then set_turn cid (t\<lparr>tn_phase := TTyping\<rparr>)
                    (w\<lparr>tw_cursors := dict_set (tw_cursors w) cid (nm_timestamp (last (tn_messages t)))\<rparr>)
       else set_turn cid (t\<lparr>tn_phase := TRaised\<rparr>) w
   | _ \<Rightarrow> w)"
| "tstep env (TurnLaunches cid ok) w = with_turn w cid (\<lambda>cs t. case tn_phase t of
     TTyping \<Rightarrow> if ok then launch_turn env cid cs t w else set_turn cid (t\<lparr>tn_phase := TRaised\<rparr>) w
   | _ \<Rightarrow> w)"
| "tstep env (Registered cid container job) w = with_turn w cid (\<lambda>cs t. case tn_phase t of
     TRunning \<Rightarrow> on_queue (register_process cid container (Some (c_folder (cw_config (te_coworker env cid)))) (Some job)) w
   | _ \<Rightarrow> w)"
| "tstep env (Output cid out) w = with_turn w cid (\<lambda>cs t. case tn_phase t of
     TRunning \<Rightarrow> set_turn cid (t\<lparr>tn_kont := tn_kont t @ [KOutput out]\<rparr>) w
   | _ \<Rightarrow> w)"
| "tstep env (Advance cid a) w = with_turn w cid (\<lambda>cs t. case (tn_phase t, tn_kont t) of
     (TRunning, k # ks) \<Rightarrow> kstep env cid cs a k ks t w
   | _ \<Rightarrow> w)"
| "tstep env (ExecuteEnds cid res) w = with_turn w cid (\<lambda>cs t. case (tn_phase t, tn_kont t) of
     (TRunning, []) \<Rightarrow> end_execute cid res t w
   | _ \<Rightarrow> w)"
| "tstep env (SessionKept cid ok) w = with_turn w cid (\<lambda>cs t. case tn_phase t of
     TSession failed sid \<Rightarrow>
       if ok then set_turn cid (t\<lparr>tn_phase := TStop failed\<rparr>) (w\<lparr>tw_sessions := dict_set (tw_sessions w) cid sid\<rparr>)
       else set_turn cid (t\<lparr>tn_phase := TStop True\<rparr>) w
   | _ \<Rightarrow> w)"
| "tstep env (TurnStops cid) w = with_turn w cid (\<lambda>cs t. case tn_phase t of
     TStop failed \<Rightarrow> finish_turn env cid cs failed t w | _ \<Rightarrow> w)"
| "tstep env (NoticeSent cid n now uid) w = with_turn w cid (\<lambda>cs t. case tn_phase t of
     TNotice msg \<Rightarrow>
       if uid \<in> set (map mr_id (tw_messages w)) then w
       else set_turn cid (t\<lparr>tn_phase := TReturned True\<rparr>) (send_notice env cid cs n now uid msg w)
   | _ \<Rightarrow> w)"
| "tstep env (RolledBack cid ok) w = with_turn w cid (\<lambda>cs t. case tn_phase t of
     TRollback \<Rightarrow>
       if ok then set_turn cid (t\<lparr>tn_phase := TReturned False\<rparr>)
                    (w\<lparr>tw_cursors := dict_set (tw_cursors w) cid (tn_previous_cursor t)\<rparr>)
       else set_turn cid (t\<lparr>tn_phase := TRaised\<rparr>) w
   | _ \<Rightarrow> w)"
| "tstep env (LoopAsks cid) w =
     (case (tw_loop w, dict_get (tw_convs w) cid) of
        (LIdle, Some cs) \<Rightarrow> w\<lparr>tw_loop := LAsked cid (cs_last_agent_timestamp cs)\<rparr>
      | _ \<Rightarrow> w)"
| "tstep env (LoopReads ok) w =
     (case tw_loop w of
        LAsked cid since \<Rightarrow>
          (case dict_get (tw_convs w) cid of
             None \<Rightarrow> w\<lparr>tw_loop := LIdle\<rparr>
           | Some cs \<Rightarrow> w\<lparr>tw_loop := (if ok then LRead cid since (get_messages_since env cs since
                                    (c_name (cw_config (te_coworker env cid))) (tw_messages w)) else LIdle)\<rparr>)
      | _ \<Rightarrow> w)"
| "tstep env LoopResumes w = (case tw_loop w of LRead cid since ms \<Rightarrow> pipe_messages env cid ms w | _ \<Rightarrow> w)"
| "tstep env (LoopSaved ok) w =
     (case tw_loop w of
        LSave cid ts \<Rightarrow>
          (let w1 = w\<lparr>tw_loop := LIdle\<rparr> in
           case dict_get (tw_convs w) cid of
             None \<Rightarrow> w1
           | Some cs \<Rightarrow> if ok then typing env cid cs True (w1\<lparr>tw_cursors := dict_set (tw_cursors w1) cid ts\<rparr>) else w1)
      | _ \<Rightarrow> w)"
| "tstep env (QueueRuns q) w = w\<lparr>tw_queue := q\<rparr>"

definition trun :: "tenv \<Rightarrow> tevent list \<Rightarrow> tworld \<Rightarrow> tworld" where
  "trun env es w = fold (tstep env) es w"

end
