(* ===== verification/Turn_Props.thy ===== *)
theory Turn_Props
  imports Turn_Steps
begin

text \<open>
  What a turn guarantees under every interleaving with other turns, the message loop, other writers of runs and the
  queue: which text reaches a channel, and that the end of a run is reported as it is stored.
\<close>

section \<open>Frames\<close>

lemma set_turn_simps [simp]:
  "tw_queue (set_turn cid t w) = tw_queue w" "tw_convs (set_turn cid t w) = tw_convs w"
  "tw_messages (set_turn cid t w) = tw_messages w" "tw_runs (set_turn cid t w) = tw_runs w"
  "tw_loop (set_turn cid t w) = tw_loop w" "tw_inputs (set_turn cid t w) = tw_inputs w"
  "tw_handed (set_turn cid t w) = tw_handed w" "tw_frames (set_turn cid t w) = tw_frames w"
  "tw_turns (set_turn cid t w) = dict_set (tw_turns w) cid t"
  by (simp_all add: set_turn_def)

lemma emit_simps [simp]:
  "tw_queue (emit f w) = tw_queue w" "tw_convs (emit f w) = tw_convs w" "tw_messages (emit f w) = tw_messages w"
  "tw_runs (emit f w) = tw_runs w" "tw_loop (emit f w) = tw_loop w" "tw_inputs (emit f w) = tw_inputs w"
  "tw_handed (emit f w) = tw_handed w" "tw_frames (emit f w) = tw_frames w @ [f]" "tw_turns (emit f w) = tw_turns w"
  by (simp_all add: emit_def)

lemma on_queue_simps [simp]:
  "tw_convs (on_queue g w) = tw_convs w" "tw_messages (on_queue g w) = tw_messages w" "tw_runs (on_queue g w) = tw_runs w"
  "tw_loop (on_queue g w) = tw_loop w" "tw_inputs (on_queue g w) = tw_inputs w" "tw_handed (on_queue g w) = tw_handed w"
  "tw_frames (on_queue g w) = tw_frames w" "tw_turns (on_queue g w) = tw_turns w"
  by (simp_all add: on_queue_def)

lemma upd_conv_simps [simp]:
  "tw_queue (upd_conv cid f w) = tw_queue w" "tw_messages (upd_conv cid f w) = tw_messages w"
  "tw_runs (upd_conv cid f w) = tw_runs w" "tw_loop (upd_conv cid f w) = tw_loop w"
  "tw_inputs (upd_conv cid f w) = tw_inputs w" "tw_handed (upd_conv cid f w) = tw_handed w"
  "tw_frames (upd_conv cid f w) = tw_frames w" "tw_turns (upd_conv cid f w) = tw_turns w"
  "dict_get (tw_convs (upd_conv cid f w)) x =
     (if x = cid then map_option f (dict_get (tw_convs w) cid) else dict_get (tw_convs w) x)"
  by (simp_all add: upd_conv_def split: option.split)

lemma typing_simps [simp]:
  "tw_queue (typing env cid cs b w) = tw_queue w" "tw_convs (typing env cid cs b w) = tw_convs w"
  "tw_messages (typing env cid cs b w) = tw_messages w" "tw_runs (typing env cid cs b w) = tw_runs w"
  "tw_loop (typing env cid cs b w) = tw_loop w" "tw_inputs (typing env cid cs b w) = tw_inputs w"
  "tw_handed (typing env cid cs b w) = tw_handed w" "tw_turns (typing env cid cs b w) = tw_turns w"
  by (simp_all add: typing_def split: option.split)

lemma typing_frames:
  "f \<in> set (tw_frames (typing env cid cs b w)) \<Longrightarrow> f \<in> set (tw_frames w) \<or> (\<exists>x y z. f = FTyping x y z)"
  by (auto simp: typing_def split: option.splits)

text \<open>The conversation itself, its binding, chat and tenant, never changes.\<close>

definition convs_of :: "tworld \<Rightarrow> string \<Rightarrow> conversation option" where
  "convs_of w cid = map_option cs_conversation (dict_get (tw_convs w) cid)"

lemma convs_of_cong: "tw_convs w' = tw_convs w \<Longrightarrow> convs_of w' = convs_of w"
  by (simp add: convs_of_def fun_eq_iff)

lemma convs_of_upd [simp]:
  "(\<And>c. cs_conversation (f c) = cs_conversation c) \<Longrightarrow> convs_of (upd_conv cid f w) = convs_of w"
  by (auto simp: convs_of_def fun_eq_iff option.map_comp comp_def)

lemma convs_of_simps [simp]:
  "convs_of (set_turn cid t w) = convs_of w" "convs_of (emit f w) = convs_of w" "convs_of (on_queue g w) = convs_of w"
  "convs_of (typing env cid cs b w) = convs_of w" "convs_of (w\<lparr>tw_runs := rs\<rparr>) = convs_of w"
  "convs_of (w\<lparr>tw_messages := ms\<rparr>) = convs_of w" "convs_of (w\<lparr>tw_queue := q\<rparr>) = convs_of w"
  "convs_of (w\<lparr>tw_loop := l\<rparr>) = convs_of w" "convs_of (w\<lparr>tw_sessions := s\<rparr>) = convs_of w"
  "convs_of (w\<lparr>tw_cursors := s\<rparr>) = convs_of w" "convs_of (w\<lparr>tw_inputs := i\<rparr>) = convs_of w"
  "convs_of (w\<lparr>tw_handed := h\<rparr>) = convs_of w" "convs_of (w\<lparr>tw_frames := fs\<rparr>) = convs_of w"
  by (simp_all add: convs_of_def fun_eq_iff)

lemma with_turn_convs:
  "(\<And>cs t. convs_of (f cs t) = convs_of w) \<Longrightarrow> convs_of (with_turn w cid f) = convs_of w"
  by (auto simp: with_turn_def split: option.split)

lemma kstep_convs: "convs_of (kstep env cid cs a k ks t w) = convs_of w"
  by (cases k) (auto split: option.split list.split prod.split simp: Let_def settle_output_def)

lemma send_notice_simps [simp]:
  "tw_queue (send_notice env cid cs n now uid msg w) = tw_queue w" "tw_convs (send_notice env cid cs n now uid msg w) = tw_convs w"
  "tw_runs (send_notice env cid cs n now uid msg w) = tw_runs w" "tw_loop (send_notice env cid cs n now uid msg w) = tw_loop w"
  "tw_inputs (send_notice env cid cs n now uid msg w) = tw_inputs w" "tw_handed (send_notice env cid cs n now uid msg w) = tw_handed w"
  "tw_turns (send_notice env cid cs n now uid msg w) = tw_turns w"
  by (simp_all add: send_notice_def Let_def split: option.split)

lemma convs_of_notice [simp]: "convs_of (send_notice env cid cs n now uid msg w) = convs_of w"
  by (rule convs_of_cong) simp

lemma pipe_convs: "convs_of (pipe_messages env cid ms w) = convs_of w"
  by (auto simp: pipe_messages_def Let_def split: prod.split)

lemma tstep_convs: "convs_of (tstep env e w) = convs_of w"
  by (cases e)
    (auto intro!: with_turn_convs simp: incoming_def start_turn_def begin_turn_def launch_turn_def end_execute_def
      finish_turn_def kstep_convs pipe_convs Let_def split: option.split tphase.split list.split loop_state.split)

section \<open>Only screened text\<close>

text \<open>What the agents of a deployment say, and what loading the rules of a conversation gives.\<close>

record screening =
  sp_says :: "string \<Rightarrow> agent_output \<Rightarrow> bool"
  sp_loads :: "string \<Rightarrow> unit + safety_rule list \<Rightarrow> bool"

fun screening_event :: "screening \<Rightarrow> tevent \<Rightarrow> bool" where
  "screening_event p (Output cid out) = sp_says p cid out"
| "screening_event p (Advance cid a) = sp_loads p cid (aw_rules a)"
| "screening_event p _ = True"

text \<open>A text the screening lets through, from an output of the agent without its internal blocks.\<close>

definition released :: "screening \<Rightarrow> tenv \<Rightarrow> string \<Rightarrow> conversation \<Rightarrow> string \<Rightarrow> bool" where
  "released p env cid conv text \<longleftrightarrow> text \<noteq> [] \<and>
     (\<exists>out raw loaded. sp_says p cid out \<and> ao_result out = Some raw \<and> sp_loads p cid loaded \<and>
        apply_model_output_safety (te_engine env) loaded (cw_config (te_coworker env cid)) conv
          (strip_internal_tags raw) = Forward text)"

fun frame_ok :: "screening \<Rightarrow> tenv \<Rightarrow> (string \<Rightarrow> conversation option) \<Rightarrow> frame \<Rightarrow> bool" where
  "frame_ok p env cv (FChunk b chat text) =
     (\<exists>cid conv. cv cid = Some conv \<and> cv_channel_chat_id conv = chat \<and> released p env cid conv text)"
| "frame_ok p env cv (FMessage b chat text) =
     ((\<exists>msg. text = notice_text msg) \<or>
      (\<exists>cid conv. cv cid = Some conv \<and> cv_channel_chat_id conv = chat \<and> released p env cid conv text))"
| "frame_ok p env cv _ = True"

fun kont_screened :: "screening \<Rightarrow> tenv \<Rightarrow> (string \<Rightarrow> conversation option) \<Rightarrow> string \<Rightarrow> kont \<Rightarrow> bool" where
  "kont_screened p env cv cid (KSends fs) = (\<forall>f \<in> set fs. frame_ok p env cv f)"
| "kont_screened p env cv cid (KSend f) = frame_ok p env cv f"
| "kont_screened p env cv cid (KOutput out) = sp_says p cid out"
| "kont_screened p env cv cid (KForward out) = sp_says p cid out"
| "kont_screened p env cv cid (KScreen text out) =
     (\<exists>said raw. sp_says p cid said \<and> ao_result said = Some raw \<and> text = strip_internal_tags raw)"
| "kont_screened p env cv cid _ = True"

definition screened_inv :: "screening \<Rightarrow> tenv \<Rightarrow> tworld \<Rightarrow> bool" where
  "screened_inv p env w \<longleftrightarrow>
     (\<forall>f \<in> set (tw_frames w). frame_ok p env (convs_of w) f) \<and>
     (\<forall>cid t. dict_get (tw_turns w) cid = Some t \<longrightarrow> (\<forall>k \<in> set (tn_kont t). kont_screened p env (convs_of w) cid k))"

lemma forward_screened:
  "sp_says p cid out \<Longrightarrow> k \<in> set (forward_output env route chat run out) \<Longrightarrow> kont_screened p env cv cid k"
  by (auto simp: forward_output_def web_sends_def Let_def truthy_def or_empty_def split: if_splits option.splits) blast

lemma settle_screened: "k \<in> set (snd (settle_output route chat run out t)) \<Longrightarrow> kont_screened p env cv cid k"
  by (auto simp: settle_output_def web_sends_def Let_def split: if_splits option.splits)

lemma deliver_screened:
  assumes "cv cid = Some conv" "cv_channel_chat_id conv = chat" "\<And>text. s = Forward text \<Longrightarrow> text \<noteq> [] \<Longrightarrow> released p env cid conv text"
    and "k \<in> set (deliver route chat out s)"
  shows "kont_screened p env cv cid k"
proof (cases s)
  case (Forward tx)
  show ?thesis
  proof (cases "tx = []")
    case True
    then show ?thesis using assms(4) Forward by (auto simp: deliver_def split: option.splits if_splits bool.splits)
  next
    case False
    then have "released p env cid conv tx" using assms(3) Forward by blast
    then have ok: "frame_ok p env cv (FChunk b chat tx)" "frame_ok p env cv (FMessage b chat tx)" for b using assms(1,2) by auto
    then show ?thesis
      using assms(4) Forward by (auto simp: deliver_def simp del: frame_ok.simps split: option.splits if_splits bool.splits)
  qed
next
  case (Blocked reason rule)
  then show ?thesis using assms(4) by (auto simp: deliver_def web_sends_def split: option.splits)
qed

lemma kont_rest: "settle_output route chat run out t = (t', ks) \<Longrightarrow> tn_phase t' = tn_phase t \<and> tn_kont t' = tn_kont t"
  by (auto simp: settle_output_def Let_def split: if_splits)

text \<open>A step that keeps the conversations, with all new frames and items screened.\<close>

lemma screened_update:
  assumes "screened_inv p env w" "convs_of w' = convs_of w" "tw_turns w' = dict_set (tw_turns w) cid t'"
    and "\<And>f. f \<in> set (tw_frames w') \<Longrightarrow> f \<in> set (tw_frames w) \<or> frame_ok p env (convs_of w) f"
    and "\<And>k. k \<in> set (tn_kont t') \<Longrightarrow> kont_screened p env (convs_of w) cid k"
  shows "screened_inv p env w'"
  using assms unfolding screened_inv_def by (auto split: if_splits)

lemma screened_keep:
  assumes "screened_inv p env w" "convs_of w' = convs_of w" "tw_turns w' = tw_turns w"
    and "\<And>f. f \<in> set (tw_frames w') \<Longrightarrow> f \<in> set (tw_frames w) \<or> (\<exists>x y z. f = FTyping x y z)"
  shows "screened_inv p env w'"
proof -
  have "frame_ok p env (convs_of w) f" if "f \<in> set (tw_frames w')" for f
    using assms(1) assms(4) [OF that] by (auto simp: screened_inv_def)
  then show ?thesis using assms(1-3) by (simp add: screened_inv_def)
qed

lemma screened_kstep:
  assumes inv: "screened_inv p env w" and cs: "dict_get (tw_convs w) cid = Some cs"
    and t: "dict_get (tw_turns w) cid = Some t" "tn_kont t = k # ks" and loads: "sp_loads p cid (aw_rules a)"
  shows "screened_inv p env (kstep env cid cs a k ks t w)"
proof -
  have cv: "convs_of w cid = Some (cs_conversation cs)" using cs by (simp add: convs_of_def)
  have old: "kont_screened p env (convs_of w) cid x" if "x \<in> set (k # ks)" for x using inv t that by (auto simp: screened_inv_def)
  have ks: "kont_screened p env (convs_of w) cid x" if "x \<in> set ks" for x using old that by simp
  show ?thesis
  proof (cases k)
    case (KScreen tx out)
    then obtain said raw where raw: "sp_says p cid said" "ao_result said = Some raw" "tx = strip_internal_tags raw"
      using old [of k] by auto
    have rel: "released p env cid (cs_conversation cs) tx'" if "apply_model_output_safety (te_engine env) (aw_rules a)
        (cw_config (te_coworker env cid)) (cs_conversation cs) tx = Forward tx'" "tx' \<noteq> []" for tx'
      using that raw loads by (auto simp: released_def)
    have "kont_screened p env (convs_of w) cid x" if "x \<in> set (deliver (route_of (te_gateways env) (te_coworker env cid)
        (cs_conversation cs)) (cv_channel_chat_id (cs_conversation cs)) out (apply_model_output_safety (te_engine env)
        (aw_rules a) (cw_config (te_coworker env cid)) (cs_conversation cs) tx))" for x
      by (rule deliver_screened [of "convs_of w" cid, OF cv _ _ that]) (use rel in auto)
    then show ?thesis using KScreen ks by (intro screened_update [OF inv, of _ cid]) (auto simp: Let_def)
  next
    case (KStatus out)
    obtain t' ks' where st: "settle_output (route_of (te_gateways env) (te_coworker env cid) (cs_conversation cs))
        (cv_channel_chat_id (cs_conversation cs)) (cs_active_run_id cs) out t = (t', ks')" by fastforce
    have "kont_screened p env (convs_of w) cid x" if "x \<in> set ks'" for x
      using settle_screened [of x _ _ _ out t p env "convs_of w" cid] st that by (metis snd_conv)
    then show ?thesis using KStatus st ks by (intro screened_update [OF inv, of _ cid]) (auto simp: Let_def)
  next
    case (KForward out)
    then have says: "sp_says p cid out" using old [of k] by simp
    show ?thesis using KForward ks forward_screened [OF says, of _ env _ _ _ "convs_of w"]
      by (intro screened_update [OF inv, of _ cid]) (auto simp: Let_def)
  next
    case (KSends fs)
    show ?thesis using KSends ks old [of k]
      by (cases fs) (auto intro!: screened_update [OF inv, of _ cid])
  next
    case (KWrite run usage err fr)
    then show ?thesis using ks
      by (auto simp: Let_def split: option.split prod.split intro!: screened_update [OF inv, of _ cid])
  qed (use ks old [of k] inv in
      \<open>auto simp: Let_def split: option.split intro!: screened_update [OF inv, of _ cid]\<close>)
qed

lemma with_turn_screened:
  assumes "screened_inv p env w"
    and "\<And>cs t. dict_get (tw_convs w) cid = Some cs \<Longrightarrow> dict_get (tw_turns w) cid = Some t \<Longrightarrow> screened_inv p env (f cs t)"
  shows "screened_inv p env (with_turn w cid f)"
  using assms by (auto simp: with_turn_def split: option.split)

lemma notice_ok: "frame_ok p env cv (FMessage b chat (notice_text msg))"
  by auto

lemma typing_ok: "frame_ok p env cv (FTyping x y z)"
  by simp

lemma notice_frames:
  "f \<in> set (tw_frames (send_notice env cid cs n now uid msg w)) \<Longrightarrow> f \<in> set (tw_frames w) \<or> frame_ok p env cv f"
  by (auto simp: send_notice_def Let_def notice_ok simp del: frame_ok.simps(2) split: option.splits if_splits)

text \<open>A step that only sets the phase of a turn, keeps its items or adds one that stands for no text yet.\<close>

lemma screened_phase:
  assumes "screened_inv p env w" "dict_get (tw_turns w) cid = Some t" "convs_of w1 = convs_of w"
    and "tw_turns w1 = tw_turns w" "set (tn_kont t') \<subseteq> set (tn_kont t) \<union> KOutput ` Collect (sp_says p cid)"
    and "\<And>f. f \<in> set (tw_frames w1) \<Longrightarrow> f \<in> set (tw_frames w) \<or> (\<exists>x y z. f = FTyping x y z) \<or> frame_ok p env (convs_of w) f"
  shows "screened_inv p env (set_turn cid t' w1)"
proof (rule screened_update [OF assms(1), of _ cid t'])
  show "kont_screened p env (convs_of w) cid k" if "k \<in> set (tn_kont t')" for k
    using that assms(1,2,5) by (auto simp: screened_inv_def)
  show "f \<in> set (tw_frames w) \<or> frame_ok p env (convs_of w) f" if "f \<in> set (tw_frames (set_turn cid t' w1))" for f
    using that assms(6) typing_ok by force
qed (simp_all add: assms(3,4))

lemma launch_screened:
  assumes "screened_inv p env w" "dict_get (tw_turns w) cid = Some t"
  shows "screened_inv p env (launch_turn env cid cs t w)"
  using assms typing_frames
  by (auto simp: launch_turn_def Let_def split: option.split intro!: screened_phase [OF assms] dest!: typing_frames)

lemma finish_screened:
  assumes "screened_inv p env w" "dict_get (tw_turns w) cid = Some t"
  shows "screened_inv p env (finish_turn env cid cs b t w)"
  by (auto simp: finish_turn_def Let_def split: option.split intro!: screened_phase [OF assms] dest!: typing_frames)

lemma pipe_screened:
  assumes "screened_inv p env w" shows "screened_inv p env (pipe_messages env cid ms w)"
  by (rule screened_keep [OF assms(1) pipe_convs]) (auto simp: pipe_messages_def Let_def split: prod.splits if_splits)

lemma screened_start: "screened_inv p env w \<Longrightarrow> screened_inv p env (start_turn cid w)"
  by (auto simp: start_turn_def new_turn_def split: option.split intro!: screened_update [of p env w _ cid])

lemma screened_step:
  assumes "screened_inv p env w" and e: "screening_event p e" shows "screened_inv p env (tstep env e w)"
proof (cases e)
  case (TurnStarts cid)
  then show ?thesis using screened_start [OF assms(1)] by simp
next
  case (Advance cid a)
  then show ?thesis using e
    by (auto split: tphase.split list.split intro!: with_turn_screened [OF assms(1)] screened_kstep [OF assms(1)] intro: assms(1))
next
  case (TurnLaunches cid ok)
  then show ?thesis
    by (auto split: tphase.split intro!: with_turn_screened [OF assms(1)] launch_screened [OF assms(1)] screened_phase [OF assms(1)] intro: assms(1))
next
  case (TurnStops cid)
  then show ?thesis
    by (auto split: tphase.split intro!: with_turn_screened [OF assms(1)] finish_screened [OF assms(1)] intro: assms(1))
next
  case (NoticeSent cid n now uid)
  then show ?thesis
    by (auto split: tphase.split intro!: with_turn_screened [OF assms(1)] screened_phase [OF assms(1)] dest!: notice_frames intro: assms(1))
next
  case LoopResumes
  then show ?thesis using pipe_screened [OF assms(1)] assms(1) by (auto split: loop_state.split)
next
  case (LoopSaved ok)
  then show ?thesis using LoopSaved assms(1)
    by (auto simp: Let_def split: loop_state.splits option.splits if_splits intro!: screened_keep [OF assms(1)] dest!: typing_frames)
next
  case (Incoming cid r)
  then show ?thesis using assms(1)
    by (auto simp: incoming_def Let_def split: option.splits if_splits intro!: screened_keep [OF assms(1)])
next
  case (RunCreated now rid tid cid)
  then show ?thesis by (auto intro!: screened_keep [OF assms(1)])
next
  case (RunEnded now en rid)
  then show ?thesis by (auto intro!: screened_keep [OF assms(1)])
next
  case (LoopAsks cid)
  then show ?thesis using assms(1) by (auto split: loop_state.splits option.splits if_splits intro!: screened_keep [OF assms(1)])
next
  case (LoopReads ok)
  then show ?thesis using assms(1) by (auto split: loop_state.splits option.splits if_splits intro!: screened_keep [OF assms(1)])
next
  case (QueueRuns q)
  then show ?thesis by (auto intro!: screened_keep [OF assms(1)])
next
  case (Output cid out)
  have "screened_inv p env (set_turn cid (t\<lparr>tn_kont := tn_kont t @ [KOutput out]\<rparr>) w)"
    if "dict_get (tw_turns w) cid = Some t" for t
    by (rule screened_phase [OF assms(1) that]) (use e Output in auto)
  then show ?thesis using Output assms(1) by (auto split: tphase.split intro!: with_turn_screened)
next
  case (Registered cid cn j)
  then show ?thesis
    by (auto split: tphase.splits intro!: with_turn_screened [OF assms(1)] screened_keep [OF assms(1)])
qed (auto simp: begin_turn_def end_execute_def split: tphase.split option.split list.split
       intro!: with_turn_screened [OF assms(1)] screened_phase [OF assms(1)] intro: assms(1))

section \<open>Reachable worlds\<close>

definition fresh_world :: "tworld \<Rightarrow> bool" where
  "fresh_world w \<longleftrightarrow>
     tw_messages w = [] \<and> tw_runs w = [] \<and> tw_turns w = [] \<and> tw_loop w = LIdle \<and> tw_frames w = [] \<and> tw_handed w = [] \<and>
     list_all (\<lambda>(cid, cs). cv_id (cs_conversation cs) = cid \<and> cs_active_run_id cs = None \<and> cs_last_agent_timestamp cs = '''')
       (tw_convs w)"

text \<open>Any interleaving of events that meet a condition.\<close>

inductive treach :: "tenv \<Rightarrow> (tworld \<Rightarrow> tevent \<Rightarrow> bool) \<Rightarrow> tworld \<Rightarrow> bool" for env adm where
  tstart: "fresh_world w \<Longrightarrow> treach env adm w"
| tmove: "treach env adm w \<Longrightarrow> adm w e \<Longrightarrow> treach env adm (tstep env e w)"

text \<open>A sequence of events all of which meet the condition.\<close>

fun admissible :: "tenv \<Rightarrow> (tworld \<Rightarrow> tevent \<Rightarrow> bool) \<Rightarrow> tevent list \<Rightarrow> tworld \<Rightarrow> bool" where
  "admissible env adm [] w = True"
| "admissible env adm (e # es) w = (adm w e \<and> admissible env adm es (tstep env e w))"

lemma treach_run: "treach env adm w \<Longrightarrow> admissible env adm es w \<Longrightarrow> treach env adm (trun env es w)"
  by (induction es arbitrary: w) (auto simp: trun_def intro: tmove)

lemma fresh_conv:
  assumes "fresh_world w" "dict_get (tw_convs w) cid = Some cs"
  shows "cv_id (cs_conversation cs) = cid" "cs_active_run_id cs = None" "cs_last_agent_timestamp cs = ''''"
proof -
  have "(cid, cs) \<in> set (tw_convs w)" using assms(2) by (simp add: dict_get_def map_of_SomeD)
  then have "cv_id (cs_conversation cs) = cid \<and> cs_active_run_id cs = None \<and> cs_last_agent_timestamp cs = ''''"
    using assms(1) by (auto simp: fresh_world_def list_all_iff)
  then show "cv_id (cs_conversation cs) = cid" "cs_active_run_id cs = None" "cs_last_agent_timestamp cs = ''''" by auto
qed

lemma treach_invariant:
  assumes "treach env adm w" "\<And>w. fresh_world w \<Longrightarrow> I w" "\<And>w e. I w \<Longrightarrow> adm w e \<Longrightarrow> I (tstep env e w)"
  shows "I w"
  using assms(1) by (induction rule: treach.induct) (auto intro: assms)

lemma treach_screened:
  "treach env adm w \<Longrightarrow> (\<And>v e. adm v e \<Longrightarrow> screening_event p e) \<Longrightarrow> screened_inv p env w"
  by (erule treach_invariant) (simp add: fresh_world_def screened_inv_def dict_get_def, blast intro: screened_step)

text \<open>What is sent of a text on a verdict that lets it through.\<close>

definition text_after :: "verdict \<Rightarrow> string \<Rightarrow> string" where
  "text_after v text =
     (if v_action v = ''redact''
      then (case v_modified_payload v of
              Some (JObj kvs) \<Rightarrow> (case obj_get kvs ''text'' of Some (JStr t) \<Rightarrow> t | _ \<Rightarrow> text)
            | _ \<Rightarrow> text)
      else text)"

lemma forwarded_verdict:
  assumes "apply_model_output_safety (Some (en, reg)) (Inr rules) cfg conv text = Forward msg" "msg \<noteq> []"
  shows "\<exists>v. fst (run_orchestrator_pipeline en reg (output_context cfg conv text) rules) = Inr v \<and>
    v_action v \<notin> {''block'', ''require_approval''} \<and> msg = text_after v text"
proof -
  have "text \<noteq> []" using assms by (auto simp: apply_model_output_safety_def)
  then show ?thesis
    using assms(1)
    by (auto simp: apply_model_output_safety_def run_orchestrator_pipeline_def text_after_def plain_verdict_def
        split: if_splits sum.splits option.splits json.splits)
qed

text \<open>C12. 
  Take any property of what the agents say and any property of the rules the database returns, and suppose the
  engine is configured and every load of the rules succeeds. Under every interleaving, a text that reaches a user as
  the agent's answer, streamed to the web or sent to another channel, stems from an output the agent of that very
  conversation said: the safety pipeline, run with rules loaded for that conversation over that output without its
  internal blocks, ended with a verdict that neither blocks nor asks for approval, and the text is that output as the
  verdict leaves it, redacted when the verdict redacts. The only other messages are the notices of a configuration
  error. A load that fails is not covered: there the code forwards the text unscreened.
\<close>

theorem only_screened_text:
  assumes "treach env adm w" and "te_engine env = Some (en, reg)"
    and "\<And>v cid out. adm v (Output cid out) \<Longrightarrow> says cid out"
    and "\<And>v cid a. adm v (Advance cid a) \<Longrightarrow> \<exists>rules. aw_rules a = Inr rules \<and> stored cid rules"
    and "FChunk b chat msg \<in> set (tw_frames w) \<or> FMessage b chat msg \<in> set (tw_frames w) \<and> (\<forall>e. msg \<noteq> notice_text e)"
  shows "\<exists>cid conv out raw rules v. convs_of w cid = Some conv \<and> cv_channel_chat_id conv = chat \<and>
    says cid out \<and> ao_result out = Some raw \<and> stored cid rules \<and>
    fst (run_orchestrator_pipeline en reg
      (output_context (cw_config (te_coworker env cid)) conv (strip_internal_tags raw)) rules) = Inr v \<and>
    v_action v \<notin> {''block'', ''require_approval''} \<and> msg = text_after v (strip_internal_tags raw)"
proof -
  let ?p = "\<lparr>sp_says = says, sp_loads = (\<lambda>cid l. \<exists>rules. l = Inr rules \<and> stored cid rules)\<rparr>"
  have "screening_event ?p e" if "adm v e" for v e using that assms(3,4) by (cases e) auto
  then have "screened_inv ?p env w" by (rule treach_screened [OF assms(1)])
  then have "frame_ok ?p env (convs_of w) (FChunk b chat msg) \<or>
      frame_ok ?p env (convs_of w) (FMessage b chat msg) \<and> (\<forall>e. msg \<noteq> notice_text e)"
    using assms(5) by (auto simp: screened_inv_def simp del: frame_ok.simps)
  then obtain cid conv out raw rules where "convs_of w cid = Some conv" "cv_channel_chat_id conv = chat"
    "says cid out" "ao_result out = Some raw" "stored cid rules" "msg \<noteq> []"
    "apply_model_output_safety (Some (en, reg)) (Inr rules) (cw_config (te_coworker env cid)) conv (strip_internal_tags raw) =
       Forward msg"
    by (auto simp: released_def assms(2))
  then show ?thesis using forwarded_verdict by blast
qed

end
