(* ===== verification/Turn_Runs.thy ===== *)
theory Turn_Runs
  imports Turn_Props
begin

text \<open>
  The end of a run as the browser is told and as it is stored. Under every interleaving in which the statements on
  runs are answered, the frame that ends a run says what its row says.
\<close>

section \<open>The table of runs along a turn\<close>

text \<open>Rows stay, and an ended row stays as it is.\<close>

definition runs_grow :: "run_row list \<Rightarrow> run_row list \<Rightarrow> bool" where
  "runs_grow rs rs' \<longleftrightarrow>
     (\<forall>r \<in> set rs. \<exists>r' \<in> set rs'. rn_id r' = rn_id r \<and> rn_tenant_id r' = rn_tenant_id r \<and> (\<not> is_running r \<longrightarrow> r' = r))"

definition owned :: "run_row list \<Rightarrow> string \<Rightarrow> string option \<Rightarrow> bool" where
  "owned rs tid run \<longleftrightarrow>
     (\<forall>rid. or_none run = Some rid \<longrightarrow> (\<exists>r \<in> set rs. rn_id r = rid \<and> rn_tenant_id r = tid))"

text \<open>What a frame without or with an error says of a run.\<close>

definition tells :: "run_row list \<Rightarrow> string \<Rightarrow> json option \<Rightarrow> bool" where
  "tells rs rid err \<longleftrightarrow>
     (\<exists>r \<in> set rs. rn_id r = rid \<and> \<not> is_running r \<and>
        (case err of
           None \<Rightarrow> rn_status r = ''completed'' \<or> rn_status r = ''cancelled''
         | Some e \<Rightarrow> (rn_status r = ''failed'' \<or> rn_status r = ''awaiting_reauth'') \<and>
                     e = (case rn_error r of Some (JObj d) \<Rightarrow> JObj d | _ \<Rightarrow> JObj [])))"

lemma runs_grow_refl [simp]: "runs_grow rs rs"
  by (auto simp: runs_grow_def)

lemma owned_grow: "owned rs tid run \<Longrightarrow> runs_grow rs rs' \<Longrightarrow> owned rs' tid run"
  unfolding owned_def runs_grow_def by (metis (no_types, lifting))

lemma tells_grow: "tells rs rid err \<Longrightarrow> runs_grow rs rs' \<Longrightarrow> tells rs' rid err"
  unfolding tells_def runs_grow_def by (metis (no_types, lifting))

lemma grow_create: "runs_grow rs (create_run now rid tid cid rs)"
  by (auto simp: runs_grow_def create_run_def)

lemma grow_map:
  assumes "\<And>r. rn_id (f r) = rn_id r" "\<And>r. rn_tenant_id (f r) = rn_tenant_id r" "\<And>r. \<not> is_running r \<Longrightarrow> f r = r"
  shows "runs_grow rs (map f rs)"
  unfolding runs_grow_def using assms by force

lemma grow_terminate: "runs_grow rs (snd (terminate_run now e rid rs))"
  unfolding terminate_run_eq snd_conv
  by (rule grow_map) (auto simp: still_running_def is_running_def finish_row_def)

definition runs_ok :: "run_row list \<Rightarrow> bool" where
  "runs_ok rs \<longleftrightarrow> runs_wf rs \<and> (\<forall>r \<in> set rs. run_typed r)"

lemma runs_ok_terminate: "runs_ok rs \<Longrightarrow> runs_ok (snd (terminate_run now e rid rs))"
  using runs_wf_terminate [of rs now e rid] end_status_terminal(1) [of e]
  by (auto simp: runs_ok_def terminate_run_eq finish_typed)

lemma runs_ok_create: "runs_ok rs \<Longrightarrow> rid \<notin> set (map rn_id rs) \<Longrightarrow> runs_ok (create_run now rid tid cid rs)"
  by (auto simp: runs_ok_def runs_wf_def create_run_def run_typed_def)

lemma runs_unique: "runs_ok rs \<Longrightarrow> r \<in> set rs \<Longrightarrow> r' \<in> set rs \<Longrightarrow> rn_id r = rn_id r' \<Longrightarrow> r = r'"
  unfolding runs_ok_def runs_wf_def by (meson distinct_map inj_onD)

lemma get_run_own: "runs_ok rs \<Longrightarrow> r \<in> set rs \<Longrightarrow> get_run (rn_id r) (rn_tenant_id r) rs = Some r"
proof -
  assume ok: "runs_ok rs" and r: "r \<in> set rs"
  then obtain r' where r': "get_run (rn_id r) (rn_tenant_id r) rs = Some r'"
    by (cases "get_run (rn_id r) (rn_tenant_id r) rs") (auto simp: get_run_def find_None_iff)
  then have "r' \<in> set rs" "rn_id r' = rn_id r" by (auto simp: get_run_def find_Some_iff)
  then show ?thesis using runs_unique [OF ok _ r] r' by blast
qed

section \<open>The invariant\<close>

fun ends_run :: "frame \<Rightarrow> bool" where
  "ends_run (FRunCompleted b chat rid) = True"
| "ends_run (FRunError b chat rid err) = True"
| "ends_run _ = False"

fun kont_run :: "run_row list \<Rightarrow> string \<Rightarrow> kont \<Rightarrow> bool" where
  "kont_run rs tid (KWrite run usage err fr) \<longleftrightarrow> owned rs tid run \<and> (\<forall>e. err = Some e \<longrightarrow> (\<exists>d. e = JObj d))"
| "kont_run rs tid (KSnapshot rid err) \<longleftrightarrow> (\<exists>r \<in> set rs. rn_id r = rid \<and> rn_tenant_id r = tid \<and> \<not> is_running r)"
| "kont_run rs tid (KRunFrame rid err) \<longleftrightarrow> tells rs rid err"
| "kont_run rs tid (KSends fs) \<longleftrightarrow> list_all (Not \<circ> ends_run) fs"
| "kont_run rs tid (KSend f) \<longleftrightarrow> \<not> ends_run f"
| "kont_run rs tid _ \<longleftrightarrow> True"

fun frame_run :: "run_row list \<Rightarrow> frame \<Rightarrow> bool" where
  "frame_run rs (FRunCompleted b chat rid) \<longleftrightarrow> tells rs rid None"
| "frame_run rs (FRunError b chat rid err) \<longleftrightarrow> tells rs rid (Some err)"
| "frame_run rs _ \<longleftrightarrow> True"

definition msgs_run :: "run_row list \<Rightarrow> string \<Rightarrow> new_message list \<Rightarrow> bool" where
  "msgs_run rs tid ms \<longleftrightarrow> (\<forall>m \<in> set ms. owned rs tid (nm_run_id m))"

fun phase_run :: "run_row list \<Rightarrow> string \<Rightarrow> tphase \<Rightarrow> bool" where
  "phase_run rs tid (TFetched since ms) = msgs_run rs tid ms"
| "phase_run rs tid _ = True"

fun loop_run :: "run_row list \<Rightarrow> (string \<Rightarrow> conversation option) \<Rightarrow> loop_state \<Rightarrow> bool" where
  "loop_run rs cv (LRead cid since ms) = (\<forall>conv. cv cid = Some conv \<longrightarrow> msgs_run rs (cv_tenant_id conv) ms)"
| "loop_run rs cv _ = True"

definition turn_run :: "run_row list \<Rightarrow> string \<Rightarrow> turn \<Rightarrow> bool" where
  "turn_run rs tid t \<longleftrightarrow> phase_run rs tid (tn_phase t) \<and> (\<forall>k \<in> set (tn_kont t). kont_run rs tid k)"

definition rinv :: "tworld \<Rightarrow> bool" where
  "rinv w \<longleftrightarrow>
     runs_ok (tw_runs w) \<and> (\<forall>f \<in> set (tw_frames w). frame_run (tw_runs w) f) \<and>
     (\<forall>r \<in> set (tw_messages w). owned (tw_runs w) (mr_tenant_id r) (mr_run_id r)) \<and>
     (\<forall>cid cs. dict_get (tw_convs w) cid = Some cs \<longrightarrow>
        owned (tw_runs w) (cv_tenant_id (cs_conversation cs)) (cs_active_run_id cs)) \<and>
     (\<forall>cid t conv. dict_get (tw_turns w) cid = Some t \<longrightarrow> convs_of w cid = Some conv \<longrightarrow> turn_run (tw_runs w) (cv_tenant_id conv) t) \<and>
     loop_run (tw_runs w) (convs_of w) (tw_loop w)"

lemma frame_run_grow: "frame_run rs f \<Longrightarrow> runs_grow rs rs' \<Longrightarrow> frame_run rs' f"
  by (cases f) (auto intro: tells_grow)

lemma kont_run_grow: "kont_run rs tid k \<Longrightarrow> runs_grow rs rs' \<Longrightarrow> kont_run rs' tid k"
  by (cases k) (auto intro: tells_grow owned_grow simp: runs_grow_def)

lemma msgs_run_grow: "msgs_run rs tid ms \<Longrightarrow> runs_grow rs rs' \<Longrightarrow> msgs_run rs' tid ms"
  by (auto simp: msgs_run_def intro: owned_grow)

lemma turn_run_grow: "turn_run rs tid t \<Longrightarrow> runs_grow rs rs' \<Longrightarrow> turn_run rs' tid t"
  by (cases "tn_phase t") (auto simp: turn_run_def intro: kont_run_grow msgs_run_grow)

lemma loop_run_grow: "loop_run rs cv l \<Longrightarrow> runs_grow rs rs' \<Longrightarrow> loop_run rs' cv l"
  by (cases l) (auto intro: msgs_run_grow)

lemma rinv_grow:
  assumes "rinv w" "runs_grow (tw_runs w) rs" "runs_ok rs"
  shows "rinv (w\<lparr>tw_runs := rs\<rparr>)"
  using assms(1) frame_run_grow [OF _ assms(2)] owned_grow [OF _ assms(2)] turn_run_grow [OF _ assms(2)]
    loop_run_grow [OF _ assms(2)] assms(3)
  unfolding rinv_def by auto

section \<open>How the invariant is kept\<close>

lemma rinv_set_turn:
  "rinv w \<Longrightarrow> (\<And>conv. convs_of w cid = Some conv \<Longrightarrow> turn_run (tw_runs w) (cv_tenant_id conv) t) \<Longrightarrow> rinv (set_turn cid t w)"
  unfolding rinv_def by auto

lemma rinv_emit: "rinv w \<Longrightarrow> frame_run (tw_runs w) f \<Longrightarrow> rinv (emit f w)"
  unfolding rinv_def by auto

lemma rinv_other [simp]:
  "rinv (on_queue g w) = rinv w" "rinv (w\<lparr>tw_queue := q\<rparr>) = rinv w" "rinv (w\<lparr>tw_sessions := s\<rparr>) = rinv w"
  "rinv (w\<lparr>tw_cursors := c\<rparr>) = rinv w" "rinv (w\<lparr>tw_inputs := i\<rparr>) = rinv w" "rinv (w\<lparr>tw_handed := h\<rparr>) = rinv w"
  unfolding rinv_def by simp_all

lemma rinv_typing: "rinv w \<Longrightarrow> rinv (typing env cid cs b w)"
  by (auto simp: typing_def split: option.split intro!: rinv_emit)

lemma rinv_upd_conv:
  assumes "rinv w" "\<And>c. cs_conversation (f c) = cs_conversation c"
    and "\<And>cs. dict_get (tw_convs w) cid = Some cs \<Longrightarrow>
      owned (tw_runs w) (cv_tenant_id (cs_conversation cs)) (cs_active_run_id (f cs))"
  shows "rinv (upd_conv cid f w)"
  using assms unfolding rinv_def by auto

lemma rinv_loop: "rinv w \<Longrightarrow> loop_run (tw_runs w) (convs_of w) l \<Longrightarrow> rinv (w\<lparr>tw_loop := l\<rparr>)"
  unfolding rinv_def by auto

lemma rinv_store:
  assumes "rinv w" "owned (tw_runs w) (mr_tenant_id r) (mr_run_id r)" "rows = tw_messages w"
  shows "rinv (w\<lparr>tw_messages := store_message r rows\<rparr>)"
  using assms unfolding rinv_def store_message_def by (auto split: if_splits)

lemma rinv_with_turn:
  assumes "rinv w" "\<And>cs t. dict_get (tw_convs w) cid = Some cs \<Longrightarrow> dict_get (tw_turns w) cid = Some t \<Longrightarrow>
      turn_run (tw_runs w) (cv_tenant_id (cs_conversation cs)) t \<Longrightarrow> rinv (f cs t)"
  shows "rinv (with_turn w cid f)"
  using assms by (auto simp: with_turn_def rinv_def convs_of_def split: option.split)

lemma owned_None [simp]: "owned rs tid None"
  by (simp add: owned_def or_none_def)

lemma owned_last: "msgs_run rs tid ms \<Longrightarrow> owned rs tid (last_run ms)"
  by (auto simp: last_run_def msgs_run_def dest!: find_SomeD split: option.splits)

lemma msgs_since:
  assumes "rinv w"
  shows "msgs_run (tw_runs w) (cv_tenant_id (cs_conversation cs)) (get_messages_since env cs since nm (tw_messages w))"
proof -
  have "set (rows_since tid cid ts nm rows) \<subseteq> {r \<in> set rows. mr_tenant_id r = tid}" for tid cid ts rows
    by (auto simp: rows_since_def Let_def readable_def dest!: in_set_dropD)
  then show ?thesis
    using assms by (fastforce simp: msgs_run_def get_messages_since_def Let_def record_to_new_message_def rinv_def)
qed

lemma forward_run: "owned rs tid run \<Longrightarrow> k \<in> set (forward_output env route chat run out) \<Longrightarrow> kont_run rs tid k"
  by (auto simp: forward_output_def web_sends_def block_error_def Let_def split: if_splits option.splits)

lemma deliver_run: "k \<in> set (deliver route chat out s) \<Longrightarrow> kont_run rs tid k"
proof -
  have fwd: "k \<in> set (deliver (Some (b, gw)) chat out (Forward tx)) \<Longrightarrow> kont_run rs tid k" for b gw tx
  proof (cases gw)
    case (Some web)
    then show "k \<in> set (deliver (Some (b, gw)) chat out (Forward tx)) \<Longrightarrow> ?thesis"
      by (cases web) (auto simp: deliver_def split: if_splits)
  qed (auto simp: deliver_def split: if_splits)
  have "k \<in> set (deliver None chat out (Forward tx)) \<Longrightarrow> kont_run rs tid k" for tx by (auto simp: deliver_def)
  moreover have "k \<in> set (deliver route chat out (Blocked reason rule)) \<Longrightarrow> kont_run rs tid k" for reason rule
    by (auto simp: deliver_def web_sends_def split: option.splits)
  ultimately show "k \<in> set (deliver route chat out s) \<Longrightarrow> kont_run rs tid k"
    using fwd by (cases s; cases route) auto
qed

lemma settle_run: "owned rs tid run \<Longrightarrow> k \<in> set (snd (settle_output route chat run out t)) \<Longrightarrow> kont_run rs tid k"
  by (auto simp: settle_output_def web_sends_def agent_error_def Let_def split: if_splits option.splits)

text \<open>An answered write either ends the run as intended or finds it ended.\<close>

lemma write_run:
  assumes "runs_ok rs" "r \<in> set rs"
  shows "fst (terminate_run now e (rn_id r) rs) = Inr (is_running r)"
    "is_running r \<Longrightarrow> finish_row now (end_status e) (end_usage e) (end_error e) r \<in> set (snd (terminate_run now e (rn_id r) rs))"
    "\<not> is_running r \<Longrightarrow> r \<in> set (snd (terminate_run now e (rn_id r) rs))"
proof -
  have "still_running (rn_id r) x \<longleftrightarrow> x = r \<and> is_running r" if "x \<in> set rs" for x
    using runs_unique [OF assms(1) that assms(2)] by (auto simp: still_running_def is_running_def)
  then have "list_ex (still_running (rn_id r)) rs \<longleftrightarrow> is_running r" using assms(2) by (auto simp: list_ex_iff)
  then show "fst (terminate_run now e (rn_id r) rs) = Inr (is_running r)" by (simp add: terminate_run_eq)
  have "still_running (rn_id r) r \<longleftrightarrow> is_running r" by (simp add: still_running_def is_running_def)
  then show "is_running r \<Longrightarrow> finish_row now (end_status e) (end_usage e) (end_error e) r \<in> set (snd (terminate_run now e (rn_id r) rs))"
    "\<not> is_running r \<Longrightarrow> r \<in> set (snd (terminate_run now e (rn_id r) rs))"
    using assms(2) by (auto simp: terminate_run_eq image_iff intro!: bexI [of _ r])
qed

definition run_end_of :: "json option \<Rightarrow> json option \<Rightarrow> run_end" where
  "run_end_of usage err = (case err of None \<Rightarrow> WsCompleted usage | Some e \<Rightarrow> WsError e None)"

lemma write_tells:
  assumes "runs_ok rs" "r \<in> set rs" "is_running r" "\<And>x. err = Some x \<Longrightarrow> \<exists>d. x = JObj d"
  shows "tells (snd (terminate_run now (run_end_of usage err) (rn_id r) rs)) (rn_id r) err"
proof -
  let ?e = "run_end_of usage err"
  let ?r = "finish_row now (end_status ?e) (end_usage ?e) (end_error ?e) r"
  have "?r \<in> set (snd (terminate_run now ?e (rn_id r) rs))" using write_run(2) [OF assms(1-3)] .
  moreover have "\<not> is_running ?r \<and> (case err of
           None \<Rightarrow> rn_status ?r = ''completed'' \<or> rn_status ?r = ''cancelled''
         | Some e \<Rightarrow> (rn_status ?r = ''failed'' \<or> rn_status ?r = ''awaiting_reauth'') \<and>
                     e = (case rn_error ?r of Some (JObj d) \<Rightarrow> JObj d | _ \<Rightarrow> JObj []))"
    using assms(4) by (cases err) (auto simp: run_end_of_def finish_row_def is_running_def coalesce_def)
  ultimately show ?thesis unfolding tells_def by (intro bexI [of _ ?r]) simp_all
qed

lemma snapshot_tells:
  assumes "runs_ok rs" "r \<in> set rs" "rn_id r = rid" "rn_tenant_id r = tid" "\<not> is_running r"
  shows "tells rs rid (frame_error (get_run rid tid rs) intent)"
proof -
  have "get_run rid tid rs = Some r" using get_run_own [OF assms(1,2)] assms(3,4) by simp
  moreover have "rn_status r \<in> set terminal_statuses"
    using assms(1,2,5) by (auto simp: runs_ok_def run_typed_def is_running_def)
  ultimately show ?thesis using assms(2,3,5) unfolding tells_def frame_error_def
    by (auto simp: terminal_statuses_def)
qed

lemma frame_run_other: "\<not> ends_run f \<Longrightarrow> frame_run rs f"
  by (cases f) simp_all

section \<open>Steps\<close>

text \<open>The statements on runs are answered, and a message names only a run of its own tenant.\<close>

definition runs_answered :: "tworld \<Rightarrow> tevent \<Rightarrow> bool" where
  "runs_answered w e =
     (case e of
        Advance cid a \<Rightarrow>
          (case dict_get (tw_turns w) cid of
             None \<Rightarrow> True
           | Some t \<Rightarrow> (case tn_kont t of KWrite _ _ _ _ # _ \<Rightarrow> aw_ok a | KSnapshot _ _ # _ \<Rightarrow> aw_ok a | _ \<Rightarrow> True))
      | Incoming cid r \<Rightarrow>
          (case (convs_of w cid, mr_run_id r) of
             (Some conv, Some rid) \<Rightarrow> list_all (\<lambda>x. rn_id x = rid \<longrightarrow> rn_tenant_id x = cv_tenant_id conv) (tw_runs w)
           | _ \<Rightarrow> True)
      | _ \<Rightarrow> True)"

lemma turn_run_kont:
  "turn_run rs tid t \<Longrightarrow> tn_phase t = TRunning \<Longrightarrow> (\<And>k. k \<in> set ks \<Longrightarrow> kont_run rs tid k) \<Longrightarrow> turn_run rs tid (t\<lparr>tn_kont := ks\<rparr>)"
  by (simp add: turn_run_def)

lemma rinv_write:
  assumes inv: "rinv w" and cs: "dict_get (tw_convs w) cid = Some cs" and ph: "tn_phase t = TRunning"
    and rest: "\<And>k. k \<in> set ks \<Longrightarrow> kont_run (tw_runs w) (cv_tenant_id (cs_conversation cs)) k"
    and k: "kont_run (tw_runs w) (cv_tenant_id (cs_conversation cs)) (KWrite run usage err fr)" and ok: "aw_ok a"
  shows "rinv (kstep env cid cs a (KWrite run usage err fr) ks t w)"
proof (cases "or_none run")
  case None
  then show ?thesis using rest ph by (auto intro!: rinv_set_turn [OF inv] simp: turn_run_def convs_of_def cs)
next
  case (Some rid)
  let ?tid = "cv_tenant_id (cs_conversation cs)" and ?e = "run_end_of usage err"
  let ?rs = "snd (terminate_run (aw_now a) ?e rid (tw_runs w))"
  have okr: "runs_ok (tw_runs w)" using inv by (simp add: rinv_def)
  obtain r where r: "r \<in> set (tw_runs w)" "rn_id r = rid" "rn_tenant_id r = ?tid"
    using k Some by (auto simp: owned_def)
  have res: "fst (terminate_run (aw_now a) ?e rid (tw_runs w)) = Inr (is_running r)" using write_run(1) [OF okr r(1)] r(2) by simp
  have inv': "rinv (w\<lparr>tw_runs := ?rs\<rparr>)" by (rule rinv_grow [OF inv grow_terminate runs_ok_terminate [OF okr]])
  have rest': "kont_run ?rs ?tid x" if "x \<in> set ks" for x by (rule kont_run_grow [OF rest [OF that] grow_terminate])
  have snap: "kont_run ?rs ?tid (KSnapshot rid err)" if "\<not> is_running r"
    using write_run(3) [OF okr r(1) that] r that by auto
  have frame: "kont_run ?rs ?tid (KRunFrame rid err)" if "is_running r"
    using write_tells [OF okr r(1) that] k r(2) by auto
  have turns: "turn_run ?rs ?tid (t\<lparr>tn_kont := ks\<rparr>)"
    "\<not> is_running r \<Longrightarrow> turn_run ?rs ?tid (t\<lparr>tn_kont := KSnapshot rid err # ks\<rparr>)"
    "is_running r \<Longrightarrow> turn_run ?rs ?tid (t\<lparr>tn_kont := KRunFrame rid err # ks\<rparr>)"
    using rest' snap frame ph by (auto simp: turn_run_def simp del: kont_run.simps)
  then show ?thesis
    using Some ok res inv' by (auto simp: Let_def case_prod_beta run_end_of_def [symmetric] convs_of_def cs intro!: rinv_set_turn)
qed

lemma rinv_kstep:
  assumes inv: "rinv w" and cs: "dict_get (tw_convs w) cid = Some cs" and t: "tn_phase t = TRunning" "tn_kont t = k # ks"
    and tr: "turn_run (tw_runs w) (cv_tenant_id (cs_conversation cs)) t"
    and ok: "\<And>r u e f. k = KWrite r u e f \<Longrightarrow> aw_ok a" "\<And>r e. k = KSnapshot r e \<Longrightarrow> aw_ok a"
  shows "rinv (kstep env cid cs a k ks t w)"
proof -
  let ?tid = "cv_tenant_id (cs_conversation cs)"
  have kk: "kont_run (tw_runs w) ?tid x" if "x \<in> set (k # ks)" for x using tr t that by (auto simp: turn_run_def)
  have ks: "kont_run (tw_runs w) ?tid x" if "x \<in> set ks" for x using kk that by simp
  have own: "owned (tw_runs w) ?tid (cs_active_run_id cs)" using inv cs by (simp add: rinv_def)
  have cv: "convs_of w cid = Some (cs_conversation cs)" using cs by (simp add: convs_of_def)
  have set: "rinv (set_turn cid (t'\<lparr>tn_kont := ks' @ ks\<rparr>) w1)" if "rinv w1" "tw_runs w1 = tw_runs w" "convs_of w1 = convs_of w"
    "tn_phase t' = TRunning" "\<And>x. x \<in> set ks' \<Longrightarrow> kont_run (tw_runs w) ?tid x" for t' ks' w1
    using that ks cv by (auto intro!: rinv_set_turn simp: turn_run_def)
  have nil: "rinv (set_turn cid (t\<lparr>tn_kont := []\<rparr>) w)" using inv t by (auto intro!: rinv_set_turn simp: turn_run_def)
  note set0 = set [where ks' = "[]", simplified] and setw = set [OF inv refl refl t(1)]
  show ?thesis
  proof (cases k)
    case (KWrite run usage err fr)
    then show ?thesis using rinv_write [OF inv cs t(1) ks] kk [of k] ok(1) by simp
  next
    case (KStatus out)
    obtain t' ks' where st: "settle_output (route_of (te_gateways env) (te_coworker env cid) (cs_conversation cs))
        (cv_channel_chat_id (cs_conversation cs)) (cs_active_run_id cs) out t = (t', ks')" by fastforce
    have "kont_run (tw_runs w) ?tid x" if "x \<in> set ks'" for x using settle_run [OF own] st that by (metis snd_conv)
    then show ?thesis using KStatus st set [OF inv refl refl, of t' ks'] kont_rest [OF st] t by (simp add: Let_def)
  next
    case (KSnapshot rid err)
    obtain r where "r \<in> set (tw_runs w)" "rn_id r = rid" "rn_tenant_id r = ?tid" "\<not> is_running r"
      using kk [of k] KSnapshot by auto
    then have "tells (tw_runs w) rid (frame_error (get_run rid ?tid (tw_runs w)) err)"
      using snapshot_tells inv by (simp add: rinv_def)
    then show ?thesis using KSnapshot ok(2) setw [of "[KRunFrame rid (frame_error (get_run rid ?tid (tw_runs w)) err)]"] by simp
  next
    case (KRunFrame rid err)
    have "frame_run (tw_runs w) (case err of None \<Rightarrow> FRunCompleted b chat rid | Some e \<Rightarrow> FRunError b chat rid e)" for b chat
      using kk [of k] KRunFrame by (cases err) auto
    then show ?thesis using KRunFrame set0 [OF inv refl refl t(1)] set0 [OF rinv_emit [OF inv]] t(1)
      by (auto simp: Let_def split: option.split)
  next
    case (KSends fs)
    then show ?thesis
      using kk [of k] set0 [OF inv refl refl t(1)] set [OF rinv_emit [OF inv frame_run_other], of "hd fs" t "[KSends (tl fs)]"] t(1)
      by (cases fs) auto
  next
    case (KSend f)
    then show ?thesis
      using kk [of k] nil set0 [OF rinv_emit [OF inv frame_run_other], of f t] t(1) by auto
  next
    case (KStore tx out)
    have "owned (tw_runs w) tid None" for tid by simp
    then show ?thesis using KStore inv nil t(1) set0 [OF rinv_store [OF inv _ refl], of "reply_row env (cs_conversation cs)
        (cw_config (te_coworker env cid)) (aw_now a) (aw_uid a) tx (extract_usage (ao_metadata out))" t]
      by (auto simp: reply_row_def)
  next
    case (KOutput out)
    have upd: "rinv (upd_conv cid (\<lambda>c. c\<lparr>cs_session_id := s\<rparr>) w)" for s
      using own cs by (auto intro!: rinv_upd_conv [OF inv])
    have "rinv (set_turn cid (t\<lparr>tn_kont := KSession x # KForward out # ks\<rparr>) (upd_conv cid (\<lambda>c. c\<lparr>cs_session_id := Some x\<rparr>) w))" for x
      by (rule set [OF upd, of "Some x" t "[KSession x, KForward out]", simplified]) (use t(1) in auto)
    then show ?thesis using KOutput setw [of "[KForward out]"] by (auto split: option.split)
  next
    case (KForward out)
    then show ?thesis using forward_run [OF own] setw by (simp add: Let_def)
  next
    case (KScreen tx out)
    then show ?thesis using deliver_run setw by (simp add: Let_def)
  next
    case (KFinal out)
    then show ?thesis using own set [of "on_queue (notify_idle cid (aw_now a)) w" t "[KWrite (cs_active_run_id cs) (output_usage out) None True]"] inv t(1)
      by simp
  next
    case (KSession sid)
    then show ?thesis using nil set0 [of "w\<lparr>tw_sessions := dict_set (tw_sessions w) cid sid\<rparr>" t] inv t(1) by auto
  next
    case KSent
    then show ?thesis using set0 [of "on_queue (arm_idle_timer cid) w" "t\<lparr>tn_output_sent := True\<rparr>"] inv t(1) by simp
  next
    case KArm
    then show ?thesis using set0 [of "on_queue (arm_idle_timer cid) w" t] inv t(1) by simp
  next
    case KNotify
    then show ?thesis using set0 [of "on_queue (notify_idle cid (aw_now a)) w" t] inv t(1) by simp
  qed
qed

lemma turn_run_phase [simp]:
  "(\<And>since ms. ph \<noteq> TFetched since ms) \<Longrightarrow> turn_run rs tid t \<Longrightarrow> turn_run rs tid (t\<lparr>tn_phase := ph\<rparr>)"
  by (cases ph) (auto simp: turn_run_def)

lemma turn_run_fields [simp]:
  "turn_run rs tid (t\<lparr>tn_messages := m\<rparr>) = turn_run rs tid t" "turn_run rs tid (t\<lparr>tn_previous_cursor := c\<rparr>) = turn_run rs tid t"
  by (simp_all add: turn_run_def)

lemma rinv_begin:
  assumes "rinv w" "dict_get (tw_convs w) cid = Some cs" "turn_run (tw_runs w) (cv_tenant_id (cs_conversation cs)) t"
    and "tn_phase t = TFetched since ms"
  shows "rinv (begin_turn cid cs ms t w)"
proof -
  have "msgs_run (tw_runs w) (cv_tenant_id (cs_conversation cs)) ms" using assms(3,4) by (simp add: turn_run_def)
  then have "rinv (upd_conv cid (\<lambda>c. c\<lparr>cs_active_run_id := last_run ms, cs_last_agent_timestamp := x\<rparr>) w)" for x
    using owned_last assms(2) by (auto intro!: rinv_upd_conv [OF assms(1)])
  moreover have "convs_of w cid = Some (cs_conversation cs)" using assms(2) by (simp add: convs_of_def)
  ultimately show ?thesis
    using assms(1,3) by (auto simp: begin_turn_def intro!: rinv_set_turn)
qed

lemma rinv_launch:
  assumes "rinv w" "dict_get (tw_convs w) cid = Some cs" "turn_run (tw_runs w) (cv_tenant_id (cs_conversation cs)) t"
  shows "rinv (launch_turn env cid cs t w)"
proof -
  have "convs_of w cid = Some (cs_conversation cs)" using assms(2) by (simp add: convs_of_def)
  then show ?thesis using assms(3) rinv_typing [OF assms(1)]
    by (auto simp: launch_turn_def Let_def split: option.split intro!: rinv_set_turn)
qed

lemma rinv_session: "rinv w \<Longrightarrow> rinv (upd_conv cid (\<lambda>c. c\<lparr>cs_session_id := s\<rparr>) w)"
  by (rule rinv_upd_conv) (auto simp: rinv_def)

lemma rinv_cursor: "rinv w \<Longrightarrow> rinv (upd_conv cid (\<lambda>c. c\<lparr>cs_last_agent_timestamp := s\<rparr>) w)"
  by (rule rinv_upd_conv) (auto simp: rinv_def)

lemma rinv_execute:
  assumes "rinv w" "dict_get (tw_convs w) cid = Some cs" "turn_run (tw_runs w) (cv_tenant_id (cs_conversation cs)) t"
  shows "rinv (end_execute cid res t w)"
proof -
  have "convs_of w cid = Some (cs_conversation cs)" using assms(2) by (simp add: convs_of_def)
  then show ?thesis using assms(1,3) rinv_session [OF assms(1)]
    by (auto simp: end_execute_def split: option.split intro!: rinv_set_turn)
qed

lemma rinv_finish:
  assumes "rinv w" "dict_get (tw_convs w) cid = Some cs" "turn_run (tw_runs w) (cv_tenant_id (cs_conversation cs)) t"
  shows "rinv (finish_turn env cid cs failed t w)"
proof -
  have "convs_of w cid = Some (cs_conversation cs)" using assms(2) by (simp add: convs_of_def)
  then show ?thesis using assms(3) rinv_typing [OF assms(1)]
    by (auto simp: finish_turn_def Let_def split: option.split intro!: rinv_set_turn rinv_cursor)
qed

lemma rinv_notice:
  assumes "rinv w" shows "rinv (send_notice env cid cs n now uid msg w)"
proof -
  have "rinv (emit (FMessage b chat x) w)" "frame_run rs (FDone b chat)" for b chat x rs using assms by (auto intro!: rinv_emit)
  then show ?thesis using assms
    by (auto simp: send_notice_def Let_def reply_row_def split: option.split intro!: rinv_emit rinv_store)
qed

lemma rinv_pipe:
  assumes "rinv w" "tw_loop w = LRead cid since ms"
  shows "rinv (pipe_messages env cid ms w)"
proof -
  have run: "rinv (upd_conv cid (\<lambda>c. c\<lparr>cs_active_run_id := last_run ms\<rparr>) w)"
    using assms owned_last by (auto simp: rinv_def convs_of_def intro!: rinv_upd_conv [OF assms(1)])
  have "rinv (v\<lparr>tw_queue := q, tw_loop := LIdle\<rparr>)" "rinv (v\<lparr>tw_loop := LIdle\<rparr>)" "rinv (v\<lparr>tw_queue := q, tw_handed := h, tw_loop := LSave cid x\<rparr>)"
    if "rinv v" for v q h x using that by (auto intro!: rinv_loop)
  then show ?thesis using run assms(1) by (auto simp: pipe_messages_def Let_def split: prod.split intro!: rinv_cursor)
qed

lemma rinv_incoming:
  assumes "rinv w" "runs_answered w (Incoming cid r)"
  shows "rinv (incoming cid r w)"
  using assms
  by (auto simp: incoming_def runs_answered_def convs_of_def owned_def or_none_def list_all_iff Let_def
      split: option.splits if_splits intro!: rinv_store [OF assms(1) _ refl] bexI)

lemma rinv_step:
  assumes inv: "rinv w" and adm: "runs_answered w e"
  shows "rinv (tstep env e w)"
proof (cases e)
  case (Incoming cid r)
  then show ?thesis using rinv_incoming [OF inv] adm by simp
next
  case (RunCreated now rid tid cid)
  then show ?thesis
    using inv runs_ok_create [of "tw_runs w"] by (auto simp: rinv_def [of w] intro!: rinv_grow [OF inv grow_create])
next
  case (RunEnded now en rid)
  then show ?thesis using inv by (auto simp: rinv_def [of w] intro!: rinv_grow [OF inv grow_terminate] runs_ok_terminate)
next
  case (TurnStarts cid)
  then show ?thesis using inv
    by (auto simp: start_turn_def new_turn_def turn_run_def split: option.split intro!: rinv_set_turn)
next
  case (Advance cid a)
  then show ?thesis using adm inv
    by (auto simp: runs_answered_def split: tphase.split list.split intro!: rinv_with_turn rinv_kstep)
next
  case (QueryDone cid ok)
  then show ?thesis using inv msgs_since [OF inv]
    by (auto split: tphase.split intro!: rinv_with_turn rinv_set_turn simp: turn_run_def convs_of_def)
next
  case (TurnResumes cid)
  then show ?thesis using inv by (auto split: tphase.split intro!: rinv_with_turn rinv_begin)
next
  case (TurnLaunches cid ok)
  then show ?thesis using inv
    by (auto split: tphase.split intro!: rinv_with_turn rinv_launch rinv_set_turn simp: convs_of_def)
next
  case (Output cid out)
  then show ?thesis using inv
    by (auto split: tphase.split intro!: rinv_with_turn rinv_set_turn simp: turn_run_def convs_of_def)
next
  case (ExecuteEnds cid res)
  then show ?thesis using inv by (auto split: tphase.split list.split intro!: rinv_with_turn rinv_execute)
next
  case (TurnStops cid)
  then show ?thesis using inv by (auto split: tphase.split intro!: rinv_with_turn rinv_finish)
next
  case (NoticeSent cid n now uid)
  then show ?thesis using inv
    by (auto split: tphase.split intro!: rinv_with_turn rinv_set_turn rinv_notice simp: convs_of_def)
next
  case (LoopReads ok)
  then show ?thesis using inv msgs_since [OF inv]
    by (auto split: loop_state.split option.split intro!: rinv_loop simp: convs_of_def)
next
  case LoopResumes
  then show ?thesis using inv rinv_pipe [OF inv] by (auto split: loop_state.split)
next
  case (LoopSaved ok)
  then show ?thesis using inv
    by (auto simp: Let_def split: loop_state.split option.split intro!: rinv_typing rinv_loop)
qed (use inv in \<open>auto split: tphase.split option.split loop_state.split intro!: rinv_with_turn rinv_set_turn rinv_loop
       simp: convs_of_def\<close>)

lemma rinv_fresh: "fresh_world w \<Longrightarrow> rinv w"
  using fresh_conv(2) [of w] by (auto simp: fresh_world_def rinv_def runs_ok_def runs_wf_def dict_get_def)

lemma treach_rinv: "treach env runs_answered w \<Longrightarrow> rinv w"
  by (erule treach_invariant) (blast intro: rinv_fresh rinv_step)+

end
