(* ===== verification/Turn_Demo.thy ===== *)
theory Turn_Demo
  imports Turn_Runs Delegation_Props
begin

text \<open>
  A small deployment on which the properties of turns are exercised: one coworker, one conversation on the web,
  dates in unary, and a container that accepts messages.
\<close>

definition demo_iso :: "int \<Rightarrow> string" where
  "demo_iso t = (if t \<ge> 0 then CHR ''p'' # replicate (nat t) CHR ''x'' else CHR ''n'' # replicate (nat (- t)) CHR ''x'')"

definition demo_fromiso :: "string \<Rightarrow> int" where
  "demo_fromiso s =
     (case s of [] \<Rightarrow> 0 | c # r \<Rightarrow> if c = CHR ''p'' then int (length r) else if c = CHR ''n'' then - int (length r) else 0)"

lemma demo_iso: "demo_fromiso (demo_iso t) = t" "demo_iso t \<noteq> []"
  by (simp_all add: demo_iso_def demo_fromiso_def)

definition demo_web :: channel_binding where
  "demo_web = \<lparr>cb_id = ''b'', cb_coworker_id = ''u2'', cb_tenant_id = ''acme'', cb_channel_type = ''web'', cb_credentials = [],
               cb_bot_display_name = None, cb_status = '''', cb_created_at = '''', cb_bot_username = None\<rparr>"

definition demo_tenv :: tenv where
  "demo_tenv =
     \<lparr>te_str = (\<lambda>v. ''''), te_iso = demo_iso, te_fromiso = demo_fromiso, te_local_time = (\<lambda>t z. t), te_timezone = ''UTC'',
      te_coworker = (\<lambda>cid. (from_coworker (demo_member ''u2'' ''billing'' False) None None)\<lparr>cw_channel_bindings := [(''web'', demo_web)]\<rparr>),
      te_gateways = (\<lambda>ct. if ct = ''web'' then Some True else None), te_engine = None, te_executors = [''claude''],
      te_default_executor = True\<rparr>"

definition demo_conv :: conversation where
  "demo_conv = \<lparr>cv_id = ''k'', cv_tenant_id = ''acme'', cv_coworker_id = ''u2'', cv_channel_binding_id = ''b'',
                cv_channel_chat_id = ''web-1'', cv_name = None, cv_last_agent_invocation = None, cv_created_at = '''',
                cv_user_id = None, cv_parent_conversation_id = None\<rparr>"

definition demo_busy :: queue where
  "demo_busy = upd_group ''k'' (\<lambda>g. g\<lparr>g_active := True, g_job_id := Some ''j'', g_processing := True\<rparr>) demo_office"

definition demo_tworld :: tworld where
  "demo_tworld =
     \<lparr>tw_queue = demo_busy,
      tw_convs = [(''k'', \<lparr>cs_conversation = demo_conv, cs_session_id = None, cs_last_agent_timestamp = '''', cs_active_run_id = None\<rparr>)],
      tw_messages = [], tw_runs = [], tw_cursors = [], tw_sessions = [], tw_turns = [], tw_loop = LIdle, tw_inputs = [],
      tw_handed = [], tw_frames = []\<rparr>"

lemma demo_fresh: "fresh_world demo_tworld"
  by code_simp

definition demo_msg :: "string \<Rightarrow> string \<Rightarrow> int \<Rightarrow> string option \<Rightarrow> message_row" where
  "demo_msg mid text ts run =
     \<lparr>mr_tenant_id = '''', mr_conversation_id = '''', mr_id = mid, mr_sender = ''u'', mr_sender_name = ''Ann'', mr_content = text,
      mr_timestamp = ts, mr_is_from_me = False, mr_is_bot_message = False, mr_usage = no_usage, mr_run_id = run\<rparr>"

definition demo_aw :: "string \<Rightarrow> await_result" where
  "demo_aw uid = \<lparr>aw_ok = True, aw_now = 9, aw_uid = uid, aw_rules = Inr []\<rparr>"

text \<open>The turn of a first message, up to the executor.\<close>

definition demo_opening :: "tevent list" where
  "demo_opening =
     [RunCreated 1 ''R1'' ''acme'' ''k'', Incoming ''k'' (demo_msg ''m1'' ''hi'' 5 (Some ''R1'')), TurnStarts ''k'',
      QueryDone ''k'' True, TurnResumes ''k'', CursorSaved ''k'' True, TurnLaunches ''k'' True]"

definition demo_answer :: agent_output where
  "demo_answer = success_output (Some ''done'') None None"

definition demo_turn :: tworld where
  "demo_turn = trun demo_tenv (demo_opening @ [Output ''k'' demo_answer]) demo_tworld"

text \<open>The output is screened, streamed and stored; the run is still to be ended.\<close>

definition demo_streamed :: "tevent list" where
  "demo_streamed = replicate 9 (Advance ''k'' (demo_aw ''z1''))"

definition demo_at_final :: tworld where
  "demo_at_final = trun demo_tenv demo_streamed demo_turn"

lemma demo_at_final_state:
  "map_option tn_kont (dict_get (tw_turns demo_at_final) ''k'') = Some [KFinal demo_answer]"
  by code_simp

section \<open>Properties\<close>

lemma demo_at_final_reach: "treach demo_tenv runs_answered demo_at_final"
proof -
  have "demo_at_final = trun demo_tenv (demo_opening @ [Output ''k'' demo_answer] @ demo_streamed) demo_tworld"
    by (simp add: demo_at_final_def demo_turn_def trun_def)
  moreover have "admissible demo_tenv runs_answered (demo_opening @ [Output ''k'' demo_answer] @ demo_streamed) demo_tworld"
    by code_simp
  ultimately show ?thesis using treach_run [OF tstart [OF demo_fresh]] by metis
qed

text \<open>The same turn where a rule masks every answer.\<close>

definition mask_registry :: check_registry where
  "mask_registry =
     [(''mask'', \<lparr>sc_id = ''mask'', sc_stages = [MODEL_OUTPUT], sc_cost_class = ''cheap'',
        sc_check = (\<lambda>ctx cfg. Inr ((plain_verdict ''redact'')\<lparr>v_modified_payload :=
          Some (JObj [(''text'', JStr ''removed'')])\<rparr>))\<rparr>)]"

definition mask_rule :: safety_rule where
  "mask_rule = \<lparr>ru_id = ''r1'', ru_tenant_id = ''acme'', ru_coworker_id = None, ru_stage = ''model_output'',
                ru_check_id = ''mask'', ru_config = JObj [], ru_priority = 5, ru_enabled = True, ru_description = ''''\<rparr>"

definition mask_audit :: audit_env where
  "mask_audit = \<lparr>en_digest = (\<lambda>_. ''d''), en_str = (\<lambda>_. ''s'')\<rparr>"

definition mask_tenv :: tenv where
  "mask_tenv = demo_tenv\<lparr>te_engine := Some (mask_audit, mask_registry)\<rparr>"

definition mask_events :: "tevent list" where
  "mask_events =
     demo_opening @ [Output ''k'' demo_answer] @ replicate 9 (Advance ''k'' ((demo_aw ''z1'')\<lparr>aw_rules := Inr [mask_rule]\<rparr>))"

definition mask_allowed :: "tworld \<Rightarrow> tevent \<Rightarrow> bool" where
  "mask_allowed w e =
     (case e of Output cid out \<Rightarrow> cid = ''k'' \<and> ao_result out = Some ''done'' | Advance cid a \<Rightarrow> aw_rules a = Inr [mask_rule] | _ \<Rightarrow> True)"

theorem only_screened_text_witness:
  "FChunk ''b'' ''web-1'' ''removed'' \<in> set (tw_frames (trun mask_tenv mask_events demo_tworld)) \<and>
   (\<exists>conv v. cv_channel_chat_id conv = ''web-1'' \<and>
      fst (run_orchestrator_pipeline mask_audit mask_registry
        (output_context (cw_config (te_coworker mask_tenv ''k'')) conv (strip_internal_tags ''done'')) [mask_rule]) = Inr v \<and>
      v_action v \<notin> {''block'', ''require_approval''} \<and> ''removed'' = text_after v (strip_internal_tags ''done''))"
proof -
  let ?w = "trun mask_tenv mask_events demo_tworld"
  have sent: "FChunk ''b'' ''web-1'' ''removed'' \<in> set (tw_frames ?w)" by code_simp
  have "admissible mask_tenv mask_allowed mask_events demo_tworld" by code_simp
  then have reach: "treach mask_tenv mask_allowed ?w" by (rule treach_run [OF tstart [OF demo_fresh]])
  have engine: "te_engine mask_tenv = Some (mask_audit, mask_registry)" by (simp add: mask_tenv_def)
  from only_screened_text [OF reach engine, of "\<lambda>cid out. cid = ''k'' \<and> ao_result out = Some ''done''" "\<lambda>cid rules. rules = [mask_rule]"
      "''b''" "''web-1''" "''removed''"] sent
  show ?thesis by (auto simp: mask_allowed_def)
qed

text \<open>C13. 
  The frames that end a run in the browser follow the database: under every interleaving with other turns, with the
  message loop and with other writers of the run, as long as the statements on runs are answered, a run reported as
  completed is stored as completed or cancelled and stays so, and a run reported as failed is stored as failed or waiting for a new
  login, with the error that was reported.
\<close>

theorem run_frames_mirror_rows:
  assumes "treach env runs_answered w"
  shows "(FRunCompleted b chat rid \<in> set (tw_frames w) \<longrightarrow>
      (\<exists>r. run_of (tw_runs w) rid = Some r \<and> rn_status r \<in> {''completed'', ''cancelled''})) \<and>
    (FRunError b chat rid err \<in> set (tw_frames w) \<longrightarrow>
      (\<exists>r. run_of (tw_runs w) rid = Some r \<and> rn_status r \<in> {''failed'', ''awaiting_reauth''} \<and>
         err = (case rn_error r of Some (JObj d) \<Rightarrow> JObj d | _ \<Rightarrow> JObj [])))"
proof -
  have inv: "rinv w" by (rule treach_rinv [OF assms])
  then have wf: "runs_wf (tw_runs w)" by (simp add: rinv_def runs_ok_def)
  have tells: "\<exists>r. run_of (tw_runs w) rid = Some r \<and> (case e of
           None \<Rightarrow> rn_status r = ''completed'' \<or> rn_status r = ''cancelled''
         | Some x \<Rightarrow> (rn_status r = ''failed'' \<or> rn_status r = ''awaiting_reauth'') \<and>
                     x = (case rn_error r of Some (JObj d) \<Rightarrow> JObj d | _ \<Rightarrow> JObj []))"
    if "tells (tw_runs w) rid e" for e
    using that run_of_mem [OF wf] unfolding tells_def by blast
  have "FRunCompleted b chat rid \<in> set (tw_frames w) \<Longrightarrow> tells (tw_runs w) rid None"
    "FRunError b chat rid err \<in> set (tw_frames w) \<Longrightarrow> tells (tw_runs w) rid (Some err)"
    using inv by (auto simp: rinv_def)
  then show ?thesis using tells [of None] tells [of "Some err"] by auto
qed

theorem run_frames_mirror_rows_witness:
  "\<exists>r. run_of (tw_runs (trun demo_tenv [Advance ''k'' (demo_aw ''z2''), Advance ''k'' (demo_aw ''z2''), Advance ''k'' (demo_aw ''z2'')] demo_at_final)) ''R1'' = Some r \<and>
     rn_status r \<in> {''completed'', ''cancelled''}"
proof -
  let ?es = "[Advance ''k'' (demo_aw ''z2''), Advance ''k'' (demo_aw ''z2''), Advance ''k'' (demo_aw ''z2'')]"
  have "admissible demo_tenv runs_answered ?es demo_at_final" by code_simp
  then have "treach demo_tenv runs_answered (trun demo_tenv ?es demo_at_final)" by (rule treach_run [OF demo_at_final_reach])
  moreover have "FRunCompleted ''b'' ''web-1'' ''R1'' \<in> set (tw_frames (trun demo_tenv ?es demo_at_final))" by code_simp
  ultimately show ?thesis using run_frames_mirror_rows by blast
qed

text \<open>C36. 
  A message that is piped into the container while the last output of a turn is still being handled takes the end
  of that turn for its own: the run of the new message is closed as completed although nothing has answered it yet, and the
  run that was answered stays open. The comment on the active run promises that each batch ends the run it belongs to.
\<close>

theorem piped_message_steals_end:
  assumes "dict_get (tw_convs w) cid = Some cs" "dict_get (tw_turns w) cid = Some t" "tn_phase t = TRunning" "tn_kont t = KFinal out # ks"
    and "tw_loop w = LRead cid since ms" "ms \<noteq> []" "last_run ms = Some new" "new \<noteq> ''''"
    and "fst (send_message cid (prompt_of env ms) (tw_queue w))"
    and "runs_wf (tw_runs w)" "run_of (tw_runs w) new = Some r" "rn_status r = ''running''"
    and "run_of (tw_runs w) old = Some r0" "rn_status r0 = ''running''" "old \<noteq> new" "aw_ok a2"
  shows "let w' = trun env [LoopResumes, Advance cid a1, Advance cid a2] w in
    map_option rn_status (run_of (tw_runs w') new) = Some ''completed'' \<and>
    map_option rn_status (run_of (tw_runs w') old) = Some ''running''"
proof -
  let ?w1 = "tstep env LoopResumes w"
  let ?w2 = "tstep env (Advance cid a1) ?w1"
  obtain q where q: "send_message cid (prompt_of env ms) (tw_queue w) = (True, q)" using assms(9) by (metis prod.collapse)
  have w1: "dict_get (tw_convs ?w1) cid = Some (cs\<lparr>cs_active_run_id := Some new, cs_last_agent_timestamp := nm_timestamp (last ms)\<rparr>)"
    "tw_turns ?w1 = tw_turns w" "tw_runs ?w1 = tw_runs w"
    using assms(1,5-7) q by (simp_all add: pipe_messages_def Let_def)
  have w2: "dict_get (tw_turns ?w2) cid = Some (t\<lparr>tn_kont := KWrite (Some new) (output_usage out) None True # ks\<rparr>)"
    "dict_get (tw_convs ?w2) cid = dict_get (tw_convs ?w1) cid" "tw_runs ?w2 = tw_runs w"
    using w1 assms(2-4) by (simp_all add: with_turn_def)
  have "tw_runs (tstep env (Advance cid a2) ?w2) = snd (terminate_run (aw_now a2) (WsCompleted (output_usage out)) new (tw_runs w))"
    using w1(1) w2 assms(3,8,16) by (simp add: with_turn_def or_none_def case_prod_beta Let_def del: terminate_run.simps)
  moreover have "rn_id r = new" "rn_id r0 = old" using assms(11,13) run_of_id by blast+
  ultimately show ?thesis
    using assms(11-15) by (simp add: trun_def Let_def run_of_terminate still_running_def finish_row_def del: terminate_run.simps tstep.simps)
qed

text \<open>A second message is stored, and the loop has read it, when the first turn comes to its end.\<close>

definition demo_race :: tworld where
  "demo_race = trun demo_tenv
     [RunCreated 6 ''R2'' ''acme'' ''k'', Incoming ''k'' (demo_msg ''m2'' ''more'' 7 (Some ''R2'')), LoopAsks ''k'', LoopReads True] demo_at_final"

theorem piped_message_steals_end_witness:
  "map_option rn_status (run_of (tw_runs (trun demo_tenv
      [LoopResumes, Advance ''k'' (demo_aw ''z3''), Advance ''k'' (demo_aw ''z3'')] demo_race)) ''R1'') = Some ''running''"
proof -
  have "dict_get (tw_convs demo_race) ''k'' \<noteq> None" by code_simp
  then obtain cs where cs: "dict_get (tw_convs demo_race) ''k'' = Some cs" by blast
  have t: "map_option tn_phase (dict_get (tw_turns demo_race) ''k'') = Some TRunning"
    "map_option tn_kont (dict_get (tw_turns demo_race) ''k'') = Some [KFinal demo_answer]" by code_simp+
  have "(case tw_loop demo_race of LRead c s ms \<Rightarrow> c = ''k'' \<and> ms \<noteq> [] \<and> last_run ms = Some ''R2'' \<and>
      fst (send_message ''k'' (prompt_of demo_tenv ms) (tw_queue demo_race)) | _ \<Rightarrow> False)" by code_simp
  then obtain since ms where l: "tw_loop demo_race = LRead ''k'' since ms" "ms \<noteq> []" "last_run ms = Some ''R2''"
    "fst (send_message ''k'' (prompt_of demo_tenv ms) (tw_queue demo_race))" by (auto split: loop_state.splits)
  have r: "map_option rn_status (run_of (tw_runs demo_race) ''R2'') = Some ''running''"
    "map_option rn_status (run_of (tw_runs demo_race) ''R1'') = Some ''running''" "runs_wf (tw_runs demo_race)" by code_simp+
  show ?thesis
    using piped_message_steals_end [OF cs _ _ _ l(1-3) _ l(4) r(3), of _ demo_answer "[]" _ "''R1''" _ "demo_aw ''z3''" "demo_aw ''z3''"] t r
    by (auto simp: Let_def demo_aw_def)
qed

end
