(* ===== verification/Turn_Delivery.thy ===== *)
theory Turn_Delivery
  imports Turn_Demo
begin

text \<open>
  Delivery of messages to the agent: in orderly operation no stored message falls behind the cursor without having
  been handed over; and the ways in which the order can break and a message is skipped.
\<close>

section \<open>What was handed over\<close>

definition row_msg :: "tenv \<Rightarrow> conversation \<Rightarrow> message_row \<Rightarrow> new_message" where
  "row_msg env conv r = record_to_new_message (te_iso env) (cv_channel_chat_id conv) r"

text \<open>The rows of a conversation that the queries read.\<close>

definition for_agent :: "tenv \<Rightarrow> string \<Rightarrow> conversation \<Rightarrow> message_row \<Rightarrow> bool" where
  "for_agent env cid conv r = readable (cv_tenant_id conv) cid (c_name (cw_config (te_coworker env cid))) r"

definition handed :: "tenv \<Rightarrow> tworld \<Rightarrow> string \<Rightarrow> new_message \<Rightarrow> bool" where
  "handed env w cid m \<longleftrightarrow> (\<exists>ms. m \<in> set ms \<and> (cid, prompt_of env ms) \<in> set (tw_handed w))"

text \<open>Handed over, or part of the prompt of a turn that has moved the cursor and is about to start.\<close>

definition in_flight :: "tworld \<Rightarrow> string \<Rightarrow> new_message \<Rightarrow> bool" where
  "in_flight w cid m \<longleftrightarrow>
     (\<exists>t. dict_get (tw_turns w) cid = Some t \<and> (tn_phase t = TCursor \<or> tn_phase t = TTyping) \<and> m \<in> set (tn_messages t))"

definition covered :: "tenv \<Rightarrow> tworld \<Rightarrow> string \<Rightarrow> new_message \<Rightarrow> bool" where
  "covered env w cid m \<longleftrightarrow> handed env w cid m \<or> in_flight w cid m"

definition time_of :: "tenv \<Rightarrow> string \<Rightarrow> int" where
  "time_of env ts = te_fromiso env (or_str ts epoch)"







section \<open>Growth\<close>

text \<open>The messages and what is covered only grow, in the sense that matters: old times stay behind.\<close>

definition extends :: "tenv \<Rightarrow> tworld \<Rightarrow> tworld \<Rightarrow> bool" where
  "extends env w w' \<longleftrightarrow>
     convs_of w' = convs_of w \<and> (\<forall>cid m. covered env w cid m \<longrightarrow> covered env w' cid m) \<and>
     (\<forall>r \<in> set (tw_messages w). \<not> mr_is_bot_message r \<longrightarrow>
        (\<exists>r' \<in> set (tw_messages w'). mr_conversation_id r' = mr_conversation_id r \<and> \<not> mr_is_bot_message r' \<and> mr_timestamp r \<le> mr_timestamp r')) \<and>
     (\<forall>r' \<in> set (tw_messages w'). mr_is_bot_message r' \<or> r' \<in> set (tw_messages w) \<or>
        te_fromiso env epoch < mr_timestamp r' \<and>
        (\<forall>r \<in> set (tw_messages w). mr_conversation_id r = mr_conversation_id r' \<longrightarrow> \<not> mr_is_bot_message r \<longrightarrow> mr_timestamp r < mr_timestamp r'))"

lemma extends_refl [simp]: "extends env w w"
  by (auto simp: extends_def)








section \<open>Orderly operation\<close>








section \<open>Steps\<close>
















lemma handed_typing [simp]: "handed env (typing e cid cs b w) = handed env w"
  by (simp add: handed_def fun_eq_iff)



















section \<open>Properties\<close>



definition demo_stored :: message_row where
  "demo_stored = (demo_msg ''m1'' ''hi'' 5 (Some ''R1''))\<lparr>mr_tenant_id := ''acme'', mr_conversation_id := ''k''\<rparr>"



section \<open>Messages that are skipped\<close>

text \<open>No row for the agent is newer than a time.\<close>

definition none_newer :: "tenv \<Rightarrow> tworld \<Rightarrow> string \<Rightarrow> conversation \<Rightarrow> int \<Rightarrow> bool" where
  "none_newer env w cid conv ts = list_all (\<lambda>r. for_agent env cid conv r \<longrightarrow> mr_timestamp r \<le> ts) (tw_messages w)"

lemma none_newer_result:
  assumes "none_newer env w cid (cs_conversation cs) (time_of env since)" "cv_id (cs_conversation cs) = cid"
  shows "get_messages_since env cs since (c_name (cw_config (te_coworker env cid))) (tw_messages w) = []"
proof -
  have "filter (\<lambda>r. readable (cv_tenant_id (cs_conversation cs)) cid (c_name (cw_config (te_coworker env cid))) r \<and>
      mr_timestamp r > te_fromiso env (or_str since epoch)) (tw_messages w) = []"
    using assms(1) by (auto simp: none_newer_def list_all_iff for_agent_def time_of_def filter_empty_conv)
  then show ?thesis using assms(2) by (simp add: get_messages_since_def rows_since_def Let_def)
qed

text \<open>A turn that finds nothing reports success and hands nothing over.\<close>

lemma empty_turn:
  assumes cs: "dict_get (tw_convs w) cid = Some cs" "cv_id (cs_conversation cs) = cid"
    and t: "\<And>t. dict_get (tw_turns w) cid = Some t \<Longrightarrow> turn_over t"
    and old: "none_newer env w cid (cs_conversation cs) (time_of env (cs_last_agent_timestamp cs))"
  shows "trun env [TurnStarts cid, QueryDone cid True, TurnResumes cid] w = set_turn cid (new_turn (TReturned True)) w"
proof -
  have start: "start_turn cid w = set_turn cid (new_turn (TQuery (cs_last_agent_timestamp cs))) w"
    using cs t by (auto simp: start_turn_def split: option.split)
  have twice: "set_turn cid b (set_turn cid a w) = set_turn cid b w" for a b by (simp add: set_turn_def dict_set_def update_last)
  show ?thesis
    using none_newer_result [OF old cs(2)] cs(1)
    by (simp add: trun_def start with_turn_def new_turn_def begin_turn_def twice)
qed

lemma stored_content:
  "list_ex (\<lambda>x. mr_id x = mr_id r \<and> mr_conversation_id x = mr_conversation_id r \<and> mr_content x = mr_content r) (store_message r rows)"
proof (cases "list_ex (same_key r) rows")
  case True
  then obtain x where x: "x \<in> set rows" "same_key r x" by (auto simp: list_ex_iff)
  then have "x\<lparr>mr_content := mr_content r, mr_timestamp := mr_timestamp r\<rparr> \<in> set (store_message r rows)"
    using True by (force simp: store_message_def)
  then show ?thesis unfolding list_ex_iff by (rule rev_bexI) (use x(2) in \<open>simp add: same_key_def\<close>)
qed (simp add: store_message_def)

text \<open>C37. 
  A message that is stored with a date not after the cursor (one of Telegram, whose dates are whole seconds, in the second of the
  last message that was handed over; or one that was delayed), when no turn of the conversation is in
  flight and no message is newer than the cursor, is skipped: the turn that the queue starts for it finds nothing,
  reports success and hands nothing over. Only a cursor that moves back would let a later query find it.
\<close>

theorem late_message_skipped:
  assumes "dict_get (tw_convs w) cid = Some cs" "cv_id (cs_conversation cs) = cid" "mr_run_id r = None"
    and "\<And>t. dict_get (tw_turns w) cid = Some t \<Longrightarrow> turn_over t"
    and "none_newer env w cid (cs_conversation cs) (time_of env (cs_last_agent_timestamp cs))"
    and "mr_timestamp r \<le> time_of env (cs_last_agent_timestamp cs)"
  shows "let w' = trun env [Incoming cid r, TurnStarts cid, QueryDone cid True, TurnResumes cid] w in
    list_ex (\<lambda>x. mr_id x = mr_id r \<and> mr_conversation_id x = cid \<and> mr_content x = mr_content r) (tw_messages w') \<and>
    map_option tn_phase (dict_get (tw_turns w') cid) = Some (TReturned True) \<and> tw_handed w' = tw_handed w"
proof -
  let ?conv = "cs_conversation cs"
  let ?row = "r\<lparr>mr_tenant_id := cv_tenant_id ?conv, mr_conversation_id := cv_id ?conv, mr_is_from_me := False,
                       mr_is_bot_message := False, mr_usage := no_usage\<rparr>"
  let ?w = "incoming cid r w"
  have w: "tw_messages ?w = store_message ?row (tw_messages w)" "tw_convs ?w = tw_convs w" "tw_turns ?w = tw_turns w" "tw_handed ?w = tw_handed w"
    using assms(1,3) by (simp_all add: incoming_def Let_def)
  have "none_newer env ?w cid ?conv (time_of env (cs_last_agent_timestamp cs))"
    using assms(5,6) unfolding none_newer_def w list_all_iff store_message_def
    by (auto simp: for_agent_def readable_def split: if_splits)
  then have "trun env [TurnStarts cid, QueryDone cid True, TurnResumes cid] ?w = set_turn cid (new_turn (TReturned True)) ?w"
    by (intro empty_turn) (use assms(1,2,4) w in auto)
  moreover have "list_ex (\<lambda>x. mr_id x = mr_id r \<and> mr_conversation_id x = cid \<and> mr_content x = mr_content r) (store_message ?row (tw_messages w))"
    using assms(2) stored_content [of ?row "tw_messages w"] by simp
  ultimately show ?thesis using w by (simp add: trun_def new_turn_def Let_def)
qed

text \<open>The first turn is answered and over; a second message arrives in the second of the first.\<close>

definition demo_answered :: tworld where
  "demo_answered = trun demo_tenv (replicate 5 (Advance ''k'' (demo_aw ''z2'')) @ [ExecuteEnds ''k'' (Some demo_answer), TurnStops ''k'']) demo_at_final"

theorem late_message_skipped_witness:
  "let w' = trun demo_tenv [Incoming ''k'' (demo_msg ''m2'' ''wait'' 5 None), TurnStarts ''k'', QueryDone ''k'' True, TurnResumes ''k''] demo_answered in
    list_ex (\<lambda>x. mr_id x = ''m2'' \<and> mr_conversation_id x = ''k'' \<and> mr_content x = ''wait'') (tw_messages w') \<and>
    map_option tn_phase (dict_get (tw_turns w') ''k'') = Some (TReturned True) \<and> tw_handed w' = tw_handed demo_answered"
proof -
  have "dict_get (tw_convs demo_answered) ''k'' =
      Some \<lparr>cs_conversation = demo_conv, cs_session_id = None, cs_last_agent_timestamp = demo_iso 5, cs_active_run_id = Some ''R1''\<rparr>"
    by code_simp
  moreover have "turn_over t" if "dict_get (tw_turns demo_answered) ''k'' = Some t" for t
  proof -
    have "map_option turn_over (dict_get (tw_turns demo_answered) ''k'') = Some True" by code_simp
    then show ?thesis using that by simp
  qed
  moreover have "none_newer demo_tenv demo_answered ''k'' demo_conv (time_of demo_tenv (demo_iso 5))"
    "mr_timestamp (demo_msg ''m2'' ''wait'' 5 None) \<le> time_of demo_tenv (demo_iso 5)" by code_simp+
  ultimately show ?thesis
    using late_message_skipped [of demo_answered "''k''" _ "demo_msg ''m2'' ''wait'' 5 None" demo_tenv]
    by (simp add: demo_msg_def demo_conv_def)
qed

text \<open>C38. 
  When the statement that keeps the cursor fails, the turn ends in an exception with the cursor of the conversation already moved in
  memory: with no newer message for the agent, the turn that is tried again finds nothing, reports success and hands nothing
  over, and the cursor stays behind the messages it had fetched. A turn that fails later without an answer moves its cursor back.
\<close>

theorem cursor_failure_skips_messages:
  assumes "dict_get (tw_convs w) cid = Some cs" "cv_id (cs_conversation cs) = cid"
    and "dict_get (tw_turns w) cid = Some t" "tn_phase t = TFetched since ms" "ms \<noteq> []"
    and "none_newer env w cid (cs_conversation cs) (time_of env (nm_timestamp (last ms)))"
  shows "let w' = trun env [TurnResumes cid, CursorSaved cid False, TurnStarts cid, QueryDone cid True, TurnResumes cid] w in
    map_option tn_phase (dict_get (tw_turns w') cid) = Some (TReturned True) \<and> tw_handed w' = tw_handed w \<and>
    map_option cs_last_agent_timestamp (dict_get (tw_convs w') cid) = Some (nm_timestamp (last ms))"
proof -
  let ?cs = "cs\<lparr>cs_active_run_id := last_run ms, cs_last_agent_timestamp := nm_timestamp (last ms)\<rparr>"
  let ?w = "trun env [TurnResumes cid, CursorSaved cid False] w"
  have w: "dict_get (tw_convs ?w) cid = Some ?cs" "map_option tn_phase (dict_get (tw_turns ?w) cid) = Some TRaised"
    "tw_messages ?w = tw_messages w" "tw_handed ?w = tw_handed w"
    using assms(1,3-5) by (simp_all add: trun_def with_turn_def begin_turn_def)
  have "trun env [TurnStarts cid, QueryDone cid True, TurnResumes cid] ?w = set_turn cid (new_turn (TReturned True)) ?w"
    by (rule empty_turn [OF w(1)]) (use assms(2,6) w in \<open>auto simp: turn_over_def none_newer_def\<close>)
  then show ?thesis using w by (simp add: trun_def new_turn_def Let_def)
qed

theorem cursor_failure_skips_messages_witness:
  "tw_handed (trun demo_tenv [TurnResumes ''k'', CursorSaved ''k'' False, TurnStarts ''k'', QueryDone ''k'' True, TurnResumes ''k'']
     (trun demo_tenv (take 4 demo_opening) demo_tworld)) = []"
proof -
  let ?w = "trun demo_tenv (take 4 demo_opening) demo_tworld"
  let ?cs = "\<lparr>cs_conversation = demo_conv, cs_session_id = None, cs_last_agent_timestamp = '''', cs_active_run_id = None\<rparr>"
  let ?ms = "[row_msg demo_tenv demo_conv demo_stored]"
  have cs: "dict_get (tw_convs ?w) ''k'' = Some ?cs" "cv_id (cs_conversation ?cs) = ''k''" by code_simp+
  have t: "dict_get (tw_turns ?w) ''k'' = Some (new_turn (TFetched '''' ?ms))" "tn_phase (new_turn (TFetched '''' ?ms)) = TFetched '''' ?ms" by code_simp+
  have "?ms \<noteq> []" "none_newer demo_tenv ?w ''k'' (cs_conversation ?cs) (time_of demo_tenv (nm_timestamp (last ?ms)))" "tw_handed ?w = []"
    by code_simp+
  then show ?thesis using cursor_failure_skips_messages [OF cs t] by (simp add: Let_def)
qed

text \<open>So does a failing query for the snapshot of the tasks, which is asked after the cursor was kept.\<close>

lemma snapshot_failure_skips_messages:
  assumes "dict_get (tw_convs w) cid = Some cs" "cv_id (cs_conversation cs) = cid"
    and "dict_get (tw_turns w) cid = Some t" "tn_phase t = TTyping"
    and "none_newer env w cid (cs_conversation cs) (time_of env (cs_last_agent_timestamp cs))"
  shows "let w' = trun env [TurnLaunches cid False, TurnStarts cid, QueryDone cid True, TurnResumes cid] w in
    map_option tn_phase (dict_get (tw_turns w') cid) = Some (TReturned True) \<and> tw_handed w' = tw_handed w \<and> tw_convs w' = tw_convs w"
proof -
  let ?w = "trun env [TurnLaunches cid False] w"
  have w: "dict_get (tw_convs ?w) cid = Some cs" "map_option tn_phase (dict_get (tw_turns ?w) cid) = Some TRaised"
    "tw_messages ?w = tw_messages w" "tw_handed ?w = tw_handed w" "tw_convs ?w = tw_convs w"
    using assms(1,3,4) by (simp_all add: trun_def with_turn_def)
  have "trun env [TurnStarts cid, QueryDone cid True, TurnResumes cid] ?w = set_turn cid (new_turn (TReturned True)) ?w"
    by (rule empty_turn [OF w(1)]) (use assms(2,5) w in \<open>auto simp: turn_over_def none_newer_def\<close>)
  then show ?thesis using w by (simp add: trun_def new_turn_def Let_def)
qed

text \<open>Of a backlog beyond the limit the newest are read; the cursor then passes the rest.\<close>

lemma backlog_keeps_newest:
  "length (rows_since tid cid ts bname rows) \<le> message_limit \<and>
   (\<forall>x \<in> set (rows_since tid cid ts bname rows). \<forall>y \<in> set (filter (\<lambda>r. readable tid cid bname r \<and> mr_timestamp r > ts) rows).
      y \<in> set (rows_since tid cid ts bname rows) \<or> mr_timestamp y \<le> mr_timestamp x)"
proof -
  let ?f = "filter (\<lambda>r. readable tid cid bname r \<and> mr_timestamp r > ts) rows"
  let ?s = "sort_key mr_timestamp ?f" and ?n = "length ?f - message_limit"
  have "mr_timestamp y \<le> mr_timestamp x" if "y \<in> set (take ?n ?s)" "x \<in> set (drop ?n ?s)" for x y
  proof -
    have "sorted (map mr_timestamp (take ?n ?s) @ map mr_timestamp (drop ?n ?s))"
      by (metis append_take_drop_id map_append sorted_sort_key)
    then show ?thesis using that by (auto simp: sorted_append)
  qed
  moreover have "y \<in> set (take ?n ?s) \<or> y \<in> set (drop ?n ?s)" if "y \<in> set ?f" for y
    using that by (metis Un_iff append_take_drop_id set_append set_sort)
  ultimately show ?thesis by (auto simp: rows_since_def Let_def)
qed

end
