(* ===== verification/Tasks.thy ===== *)
theory Tasks
  imports Turn_Steps Sandbox
begin

text \<open>
  Scheduled tasks: the table and its statements (\<^verbatim>\<open>src/src/rolemesh/db/task.py\<close>), the requests of agents
  (\<^verbatim>\<open>src/src/rolemesh/ipc/task_handler.py\<close> with \<^verbatim>\<open>src/src/rolemesh/auth/authorization.py\<close> and the subscriber in
  \<^verbatim>\<open>src/src/rolemesh/main.py\<close>), the snapshots agents see, and due tasks and their runs
  (\<^verbatim>\<open>src/src/rolemesh/orchestration/task_scheduler.py\<close>). Dates are instants in seconds, between which \<open>isoformat\<close> and
  \<open>fromisoformat\<close> lead back and forth; cron expressions, the reading of dates and ids and \<open>str\<close> are arguments.
\<close>

section \<open>Authorization\<close>

definition can_schedule_task :: "agent_permissions \<Rightarrow> bool" where
  "can_schedule_task p = task_schedule p"

definition can_manage_task :: "agent_permissions \<Rightarrow> string \<Rightarrow> json \<Rightarrow> bool" where
  "can_manage_task p task_coworker self = (if JStr task_coworker = self then True else task_manage_others p)"

definition can_delegate :: "agent_permissions \<Rightarrow> bool" where
  "can_delegate p = agent_delegate p"

section \<open>The table\<close>

record scheduled_task =
  sk_id :: string
  sk_tenant_id :: string
  sk_coworker_id :: string
  sk_prompt :: string
  sk_schedule_type :: string
  sk_schedule_value :: string
  sk_context_mode :: string
  sk_conversation_id :: "string option"
  sk_next_run :: "rat option"
  sk_last_run :: "rat option"
  sk_last_result :: "string option"
  sk_status :: string
  sk_created_at :: rat
  sk_created_by_user_id :: "string option"

record task_run_log =
  tl_tenant_id :: string
  tl_task_id :: string
  tl_run_at :: rat
  tl_duration_ms :: int
  tl_status :: string
  tl_result :: "string option"
  tl_error :: "string option"

text \<open>
  The environment: \<open>str(v)\<close>, whether a string is a UUID, \<open>datetime.fromisoformat\<close>, \<open>datetime.fromtimestamp\<close> (\<open>Inl True\<close> for its
  \<open>ValueError\<close>, \<open>Inl False\<close> for its \<open>OverflowError\<close>), the next time of a cron expression, and whether the columns of a row
  have their types and the rows they refer to exist.
\<close>

record task_env =
  tk_str :: "json \<Rightarrow> string"
  tk_uuid :: "string \<Rightarrow> bool"
  tk_fromiso :: "string \<Rightarrow> rat option"
  tk_fromts :: "rat \<Rightarrow> bool + rat"
  tk_cron :: "string \<Rightarrow> rat \<Rightarrow> rat option"
  tk_refs :: "scheduled_task \<Rightarrow> bool"

text \<open>\<open>Inl\<close> is the error of the database.\<close>

definition create_task :: "task_env \<Rightarrow> scheduled_task \<Rightarrow> scheduled_task list \<Rightarrow> unit + scheduled_task list" where
  "create_task env t rows =
     (if tk_refs env t \<and> sk_id t \<notin> set (map sk_id rows)
      then Inr (rows @ [t\<lparr>sk_context_mode := or_str (sk_context_mode t) ''isolated''\<rparr>]) else Inl ())"

definition task_key :: "string \<Rightarrow> string \<Rightarrow> scheduled_task \<Rightarrow> bool" where
  "task_key tid k t = (sk_id t = k \<and> sk_tenant_id t = tid)"

definition get_task_by_id :: "string \<Rightarrow> string \<Rightarrow> scheduled_task list \<Rightarrow> scheduled_task option" where
  "get_task_by_id k tid rows = find (task_key tid k) rows"

definition get_all_tasks :: "string \<Rightarrow> scheduled_task list \<Rightarrow> unit + scheduled_task list" where
  "get_all_tasks tid rows =
     (if tid = '''' then Inl ()
      else Inr (sort_key (\<lambda>t. - sk_created_at t) (filter (\<lambda>t. sk_tenant_id t = tid) rows)))"

record task_update =
  up_prompt :: "string option"
  up_schedule_type :: "string option"
  up_schedule_value :: "string option"
  up_next_run :: "rat option"
  up_status :: "string option"

definition no_update :: task_update where
  "no_update = \<lparr>up_prompt = None, up_schedule_type = None, up_schedule_value = None, up_next_run = None, up_status = None\<rparr>"

definition set_fields :: "task_update \<Rightarrow> scheduled_task \<Rightarrow> scheduled_task" where
  "set_fields u t =
     t\<lparr>sk_prompt := (case up_prompt u of None \<Rightarrow> sk_prompt t | Some x \<Rightarrow> x),
       sk_schedule_type := (case up_schedule_type u of None \<Rightarrow> sk_schedule_type t | Some x \<Rightarrow> x),
       sk_schedule_value := (case up_schedule_value u of None \<Rightarrow> sk_schedule_value t | Some x \<Rightarrow> x),
       sk_next_run := (case up_next_run u of None \<Rightarrow> sk_next_run t | Some x \<Rightarrow> Some x),
       sk_status := (case up_status u of None \<Rightarrow> sk_status t | Some x \<Rightarrow> x)\<rparr>"

definition update_task :: "string \<Rightarrow> string \<Rightarrow> task_update \<Rightarrow> scheduled_task list \<Rightarrow> scheduled_task list" where
  "update_task k tid u rows = map (\<lambda>t. if task_key tid k t then set_fields u t else t) rows"

definition delete_task :: "string \<Rightarrow> string \<Rightarrow> scheduled_task list \<Rightarrow> scheduled_task list" where
  "delete_task k tid rows = filter (\<lambda>t. \<not> task_key tid k t) rows"

text \<open>The sweep over all tenants; the first argument tells the active ones.\<close>

definition due :: "(string \<Rightarrow> bool) \<Rightarrow> rat \<Rightarrow> scheduled_task \<Rightarrow> bool" where
  "due active now t =
     (sk_status t = ''active'' \<and> active (sk_tenant_id t) \<and> (case sk_next_run t of None \<Rightarrow> False | Some r \<Rightarrow> r \<le> now))"

definition get_due_tasks :: "(string \<Rightarrow> bool) \<Rightarrow> rat \<Rightarrow> scheduled_task list \<Rightarrow> scheduled_task list" where
  "get_due_tasks active now rows =
     sort_key (\<lambda>t. case sk_next_run t of None \<Rightarrow> 0 | Some r \<Rightarrow> r) (filter (due active now) rows)"

definition update_task_after_run :: "string \<Rightarrow> string \<Rightarrow> rat \<Rightarrow> rat option \<Rightarrow> string \<Rightarrow> scheduled_task list \<Rightarrow> scheduled_task list" where
  "update_task_after_run k tid now next_run last_result rows =
     map (\<lambda>t. if task_key tid k t
              then t\<lparr>sk_next_run := next_run, sk_last_run := Some now, sk_last_result := Some (take 500 last_result),
                     sk_status := (if next_run = None then ''completed'' else sk_status t)\<rparr>
              else t) rows"

definition cancel_tasks_for_user :: "string \<Rightarrow> string \<Rightarrow> scheduled_task list \<Rightarrow> nat \<times> scheduled_task list" where
  "cancel_tasks_for_user uid tid rows =
     (let hit = (\<lambda>t. sk_created_by_user_id t = Some uid \<and> sk_tenant_id t = tid \<and> sk_status t = ''active'') in
      (length (filter hit rows), map (\<lambda>t. if hit t then t\<lparr>sk_status := ''cancelled''\<rparr> else t) rows))"

text \<open>A log refers to its task.\<close>

definition log_task_run :: "task_run_log \<Rightarrow> scheduled_task list \<Rightarrow> task_run_log list \<Rightarrow> unit + task_run_log list" where
  "log_task_run l rows logs =
     (if tl_task_id l \<in> set (map sk_id rows) then Inr (logs @ [l\<lparr>tl_result := map_option (take 500) (tl_result l)\<rparr>]) else Inl ())"

section \<open>Requests of agents\<close>

definition py_string :: "task_env \<Rightarrow> json \<Rightarrow> string" where
  "py_string env v = (case v of JStr s \<Rightarrow> s | _ \<Rightarrow> tk_str env v)"

text \<open>
  The time of the first run: \<open>Inl None\<close> refuses the request, \<open>Inl (Some ())\<close> is an exception that escapes.
\<close>

definition first_run :: "task_env \<Rightarrow> rat \<Rightarrow> string \<Rightarrow> string \<Rightarrow> unit option + rat option" where
  "first_run env now ty v =
     (if ty = ''cron'' then (case tk_cron env v now of None \<Rightarrow> Inl None | Some t \<Rightarrow> Inr (Some t))
      else if ty = ''interval''
      then (case int_of_str v of
              None \<Rightarrow> Inl None
            | Some ms \<Rightarrow> if ms \<le> 0 then Inl None
                         else (case tk_fromts env (now + of_int ms / 1000) of Inl _ \<Rightarrow> Inl (Some ()) | Inr t \<Rightarrow> Inr (Some t)))
      else if ty = ''once'' then (case tk_fromiso env v of None \<Rightarrow> Inl None | Some t \<Rightarrow> Inr (Some t))
      else Inr None)"

text \<open>The row of a request whose strings were checked, for the coworker it is meant for.\<close>

definition new_task :: "task_env \<Rightarrow> rat \<Rightarrow> string \<Rightarrow> string \<Rightarrow> string \<Rightarrow> string \<times> string \<times> string \<Rightarrow> rat option \<Rightarrow> payload \<Rightarrow> scheduled_task" where
  "new_task env now uid tid cw = (\<lambda>(p, sty, sv) nr d.
     (let raw = py_string env (get_or d ''taskId'' (JStr ''''));
          conv = py_string env (get_or d ''conversationId'' (JStr '''')) in
      \<lparr>sk_id = (if tk_uuid env raw then raw else uid), sk_tenant_id = tid, sk_coworker_id = cw, sk_prompt = p,
       sk_schedule_type = sty, sk_schedule_value = sv,
       sk_context_mode = (case get_or d ''context_mode'' JNull of
                            JStr m \<Rightarrow> if m \<in> {''group'', ''isolated''} then m else ''isolated''
                          | _ \<Rightarrow> ''isolated''),
       sk_conversation_id = or_none (Some conv), sk_next_run = nr, sk_last_run = None, sk_last_result = None,
       sk_status = ''active'', sk_created_at = now,
       sk_created_by_user_id = (case get_or d ''userId'' JNull of JStr u \<Rightarrow> or_none (Some u) | _ \<Rightarrow> None)\<rparr>))"

definition schedule_for ::
  "task_env \<Rightarrow> rat \<Rightarrow> string \<Rightarrow> agent_permissions \<Rightarrow> json \<Rightarrow> json \<Rightarrow> string \<times> string \<times> string \<Rightarrow> string \<Rightarrow> payload \<Rightarrow>
   scheduled_task list \<Rightarrow> unit + scheduled_task list" where
  "schedule_for env now uid perms tenant coworker spec cw d rows =
     (if \<not> can_schedule_task perms then Inr rows
      else if JStr cw \<noteq> coworker \<and> \<not> can_manage_task perms cw coworker then Inr rows
      else case first_run env now (fst (snd spec)) (snd (snd spec)) of
             Inl None \<Rightarrow> Inr rows
           | Inl (Some _) \<Rightarrow> Inl ()
           | Inr nr \<Rightarrow> (case tenant of JStr tid \<Rightarrow> create_task env (new_task env now uid tid cw spec nr d) rows | _ \<Rightarrow> Inl ()))"

definition schedule_request ::
  "task_env \<Rightarrow> rat \<Rightarrow> string \<Rightarrow> agent_permissions \<Rightarrow> json \<Rightarrow> json \<Rightarrow> payload \<Rightarrow> scheduled_task list \<Rightarrow> unit + scheduled_task list" where
  "schedule_request env now uid perms tenant coworker d rows =
     (let prompt = get_or d ''prompt'' JNull; ty = get_or d ''schedule_type'' JNull; v = get_or d ''schedule_value'' JNull;
          target = (let x = get_or d ''targetCoworkerId'' JNull in if py_bool x then x else coworker) in
      if \<not> (py_bool prompt \<and> py_bool ty \<and> py_bool v) then Inr rows
      else case (prompt, ty, v, target) of
             (JStr p, JStr sty, JStr sv, JStr cw) \<Rightarrow> schedule_for env now uid perms tenant coworker (p, sty, sv) cw d rows
           | _ \<Rightarrow> Inl ())"

text \<open>A request on an existing task: what is done when the task is found and may be managed.\<close>

definition manage_request ::
  "agent_permissions \<Rightarrow> json \<Rightarrow> json \<Rightarrow> payload \<Rightarrow> (string \<Rightarrow> string \<Rightarrow> scheduled_task \<Rightarrow> unit + scheduled_task list) \<Rightarrow>
   scheduled_task list \<Rightarrow> unit + scheduled_task list" where
  "manage_request perms tenant coworker d act rows =
     (let v = get_or d ''taskId'' JNull in
      if \<not> py_bool v then Inr rows
      else case (v, tenant) of
             (JStr k, JStr tid) \<Rightarrow>
               (case get_task_by_id k tid rows of
                  None \<Rightarrow> Inr rows
                | Some t \<Rightarrow> if can_manage_task perms (sk_coworker_id t) coworker then act k tid t else Inr rows)
           | _ \<Rightarrow> Inl ())"

text \<open>The fields an update sets; the schedule is worked out anew when it changes, apart from that of a single run.\<close>

definition given :: "task_env \<Rightarrow> payload \<Rightarrow> string \<Rightarrow> string option" where
  "given env d k = (case get_or d k JNull of JNull \<Rightarrow> None | v \<Rightarrow> Some (py_string env v))"

definition task_changes :: "task_env \<Rightarrow> rat \<Rightarrow> payload \<Rightarrow> scheduled_task \<Rightarrow> unit option + task_update" where
  "task_changes env now d t =
     (let u = no_update\<lparr>up_prompt := given env d ''prompt'', up_schedule_type := given env d ''schedule_type'',
                        up_schedule_value := given env d ''schedule_value''\<rparr>;
          ty = (case up_schedule_type u of None \<Rightarrow> sk_schedule_type t | Some x \<Rightarrow> x);
          v = (case up_schedule_value u of None \<Rightarrow> sk_schedule_value t | Some x \<Rightarrow> x) in
      if py_bool (get_or d ''schedule_type'' JNull) \<or> py_bool (get_or d ''schedule_value'' JNull)
      then if ty = ''cron''
           then (case tk_cron env v now of None \<Rightarrow> Inl None | Some r \<Rightarrow> Inr (u\<lparr>up_next_run := Some r\<rparr>))
           else if ty = ''interval''
           then (case int_of_str v of
                   None \<Rightarrow> Inr u
                 | Some ms \<Rightarrow> if ms \<le> 0 then Inr u
                              else (case tk_fromts env (now + of_int ms / 1000) of
                                      Inl True \<Rightarrow> Inr u | Inl False \<Rightarrow> Inl (Some ()) | Inr r \<Rightarrow> Inr (u\<lparr>up_next_run := Some r\<rparr>)))
           else Inr u
      else Inr u)"

definition process_task_ipc ::
  "task_env \<Rightarrow> rat \<Rightarrow> string \<Rightarrow> agent_permissions \<Rightarrow> json \<Rightarrow> json \<Rightarrow> payload \<Rightarrow> scheduled_task list \<Rightarrow> unit + scheduled_task list" where
  "process_task_ipc env now uid perms tenant coworker d rows =
     (let ty = get_or d ''type'' JNull;
          status = (\<lambda>s. manage_request perms tenant coworker d (\<lambda>k tid t. Inr (update_task k tid (no_update\<lparr>up_status := Some s\<rparr>) rows)) rows) in
      if ty = JStr ''schedule_task'' then schedule_request env now uid perms tenant coworker d rows
      else if ty = JStr ''pause_task'' then status ''paused''
      else if ty = JStr ''resume_task'' then status ''active''
      else if ty = JStr ''cancel_task'' then manage_request perms tenant coworker d (\<lambda>k tid t. Inr (delete_task k tid rows)) rows
      else if ty = JStr ''update_task''
      then manage_request perms tenant coworker d
             (\<lambda>k tid t. case task_changes env now d t of
                          Inl None \<Rightarrow> Inr rows | Inl (Some _) \<Rightarrow> Inl () | Inr u \<Rightarrow> Inr (update_task k tid u rows)) rows
      else Inr rows)"

text \<open>
  The subscriber: the coworker that sends is looked up by the id the message claims, else by its folder in any tenant. An id
  that is a list or an object cannot be looked up.
\<close>

definition default_tenant :: string where
  "default_tenant = ''default''"

definition source_coworker :: "orch_state \<Rightarrow> payload \<Rightarrow> unit + coworker_state option" where
  "source_coworker os d =
     (let group = get_or d ''groupFolder'' (get_or d ''createdBy'' (JStr ''''));
          claimed = get_or d ''coworkerId'' (JStr '''');
          by_folder = (if py_bool group
                       then (case group of
                               JStr f \<Rightarrow> map_option the (find (\<lambda>x. x \<noteq> None) (map (\<lambda>(k, t). get_coworker_by_folder os (t_id t) f) (o_tenants os)))
                             | _ \<Rightarrow> None)
                       else None) in
      if \<not> py_bool claimed then Inr by_folder
      else case claimed of
             JStr c \<Rightarrow> Inr (case dict_get (o_coworkers os) c of None \<Rightarrow> by_folder | Some cw \<Rightarrow> Some cw)
           | JList _ \<Rightarrow> Inl ()
           | JObj _ \<Rightarrow> Inl ()
           | _ \<Rightarrow> Inr by_folder)"

definition handle_task_message ::
  "task_env \<Rightarrow> orch_state \<Rightarrow> rat \<Rightarrow> string \<Rightarrow> payload \<Rightarrow> scheduled_task list \<Rightarrow> unit + scheduled_task list" where
  "handle_task_message env os now uid d rows =
     (case source_coworker os d of
        Inl _ \<Rightarrow> Inl ()
      | Inr None \<Rightarrow>
          process_task_ipc env now uid default_permissions (get_or d ''tenantId'' (JStr default_tenant))
            (get_or d ''coworkerId'' (JStr '''')) d rows
      | Inr (Some cw) \<Rightarrow>
          (let cfg = cw_config cw in
           process_task_ipc env now uid (case c_permissions cfg of None \<Rightarrow> default_permissions | Some p \<Rightarrow> p)
             (JStr (c_tenant_id cfg)) (JStr (c_id cfg)) d rows))"

section \<open>Snapshots\<close>

definition task_entry :: "(rat \<Rightarrow> string) \<Rightarrow> string \<Rightarrow> scheduled_task \<Rightarrow> payload" where
  "task_entry isof folder t =
     [(''id'', JStr (sk_id t)), (''coworkerFolder'', JStr folder), (''prompt'', JStr (sk_prompt t)),
      (''schedule_type'', JStr (sk_schedule_type t)), (''schedule_value'', JStr (sk_schedule_value t)),
      (''status'', JStr (sk_status t)), (''next_run'', jopt_str (map_option isof (sk_next_run t)))]"

definition tasks_snapshot :: "(rat \<Rightarrow> string) \<Rightarrow> coworker \<Rightarrow> scheduled_task list \<Rightarrow> unit + string \<times> json" where
  "tasks_snapshot isof cfg rows =
     (case get_all_tasks (c_tenant_id cfg) rows of
        Inl _ \<Rightarrow> Inl ()
      | Inr ts \<Rightarrow> Inr (write_tasks_snapshot (c_tenant_id cfg) (c_folder cfg) (c_permissions cfg) (Some (map (task_entry isof (c_folder cfg)) ts))))"

text \<open>After a change the snapshots of all coworkers are written, up to a failing query.\<close>

definition on_tasks_changed :: "(rat \<Rightarrow> string) \<Rightarrow> orch_state \<Rightarrow> scheduled_task list \<Rightarrow> (string \<times> json) list" where
  "on_tasks_changed isof os rows =
     concat (map (\<lambda>r. case r of Inl _ \<Rightarrow> [] | Inr s \<Rightarrow> [s])
       (takeWhile (\<lambda>r. r \<noteq> Inl ()) (map (\<lambda>(k, cw). tasks_snapshot isof (cw_config cw) rows) (o_coworkers os))))"

section \<open>The next run\<close>

text \<open>The loop that steps over missed runs; its step is positive.\<close>

function next_tick :: "rat \<Rightarrow> rat \<Rightarrow> rat \<Rightarrow> rat" where
  "next_tick step now ts = (if 0 < step \<and> ts \<le> now then next_tick step now (ts + step) else ts)"
  by pat_completeness auto

termination
proof (relation "measure (\<lambda>(step, now, ts). nat (\<lfloor>(now - ts) / step\<rfloor> + 1))")
  fix step now ts :: rat
  assume a: "0 < step \<and> ts \<le> now"
  then have "(now - (ts + step)) / step = (now - ts) / step - 1" by (simp add: field_simps)
  moreover have "0 \<le> \<lfloor>(now - ts) / step\<rfloor>" using a by simp
  ultimately show "((step, now, ts + step), (step, now, ts)) \<in> measure (\<lambda>(step, now, ts). nat (\<lfloor>(now - ts) / step\<rfloor> + 1))" by simp
qed simp

declare next_tick.simps [simp del]

text \<open>\<open>Inl\<close> is an exception: a broken cron expression, a missing date, a date out of range.\<close>

definition compute_next_run :: "task_env \<Rightarrow> rat \<Rightarrow> scheduled_task \<Rightarrow> unit + rat option" where
  "compute_next_run env now t =
     (let stamp = (\<lambda>x. case tk_fromts env x of Inl _ \<Rightarrow> Inl () | Inr r \<Rightarrow> Inr (Some r)) in
      if sk_schedule_type t = ''once'' then Inr None
      else if sk_schedule_type t = ''cron''
      then (case tk_cron env (sk_schedule_value t) now of None \<Rightarrow> Inl () | Some r \<Rightarrow> Inr (Some r))
      else if sk_schedule_type t = ''interval''
      then (let ms = (case int_of_str (sk_schedule_value t) of None \<Rightarrow> 0 | Some n \<Rightarrow> n) in
            if ms \<le> 0 then stamp (now + 60)
            else case sk_next_run t of
                   None \<Rightarrow> Inl ()
                 | Some r \<Rightarrow> stamp (next_tick (of_int ms / 1000) now (r + of_int ms / 1000)))
      else Inr None)"

section \<open>Due tasks\<close>

definition compute_queue_key :: "scheduled_task \<Rightarrow> string" where
  "compute_queue_key t = or_str (or_empty (sk_conversation_id t)) (sk_coworker_id t)"

text \<open>One task of the sweep, read again before it is queued; the function that runs it is known by a number.\<close>

definition enqueue_due_task :: "nat \<Rightarrow> scheduled_task list \<Rightarrow> scheduled_task \<Rightarrow> queue \<Rightarrow> queue" where
  "enqueue_due_task fn rows t q =
     (case get_task_by_id (sk_id t) (sk_tenant_id t) rows of
        None \<Rightarrow> q
      | Some cur \<Rightarrow>
          if sk_status cur \<noteq> ''active'' then q
          else enqueue_task (compute_queue_key cur) (sk_id cur) fn (sk_tenant_id cur) (sk_coworker_id cur) q)"

section \<open>Sending\<close>

text \<open>The first conversation with a chat id and where its messages go: the binding and whether the table keeps them.\<close>

definition conv_with_chat :: "coworker_state \<Rightarrow> string \<Rightarrow> conversation option" where
  "conv_with_chat cw chat =
     find (\<lambda>c. cv_channel_chat_id c = chat) (map (cs_conversation \<circ> snd) (cw_conversations cw))"

definition deliver_to ::
  "(string \<Rightarrow> bool option) \<Rightarrow> coworker_state \<Rightarrow> conversation \<Rightarrow> string \<Rightarrow> string \<Rightarrow> (frame \<times> bool) option" where
  "deliver_to gateways cw conv chat tx =
     (let ct = channel_type_for_conv cw conv in
      case dict_get (cw_channel_bindings cw) ct of
        None \<Rightarrow> None
      | Some b \<Rightarrow> map_option (\<lambda>_. (FMessage (cb_id b) chat tx, ct = ''web'')) (gateways ct))"

fun send_by_scan :: "(string \<Rightarrow> bool option) \<Rightarrow> coworker_state list \<Rightarrow> string \<Rightarrow> string \<Rightarrow> (frame \<times> bool) option" where
  "send_by_scan gateways [] chat tx = None"
| "send_by_scan gateways (cw # cws) chat tx =
     (case conv_with_chat cw chat of
        Some conv \<Rightarrow> deliver_to gateways cw conv chat tx
      | None \<Rightarrow> send_by_scan gateways cws chat tx)"

definition send_via_coworker ::
  "(string \<Rightarrow> bool option) \<Rightarrow> orch_state \<Rightarrow> coworker_state option \<Rightarrow> string \<Rightarrow> string \<Rightarrow> (frame \<times> bool) option" where
  "send_via_coworker gateways os cw chat tx =
     (case cw of
        None \<Rightarrow> send_by_scan gateways (map snd (o_coworkers os)) chat tx
      | Some c \<Rightarrow> (case conv_with_chat c chat of
                     Some conv \<Rightarrow> deliver_to gateways c conv chat tx
                   | None \<Rightarrow> send_by_scan gateways (map snd (o_coworkers os)) chat tx))"

definition task_send_message ::
  "(string \<Rightarrow> bool option) \<Rightarrow> orch_state \<Rightarrow> string \<Rightarrow> string \<Rightarrow> string \<Rightarrow> (frame \<times> bool) option" where
  "task_send_message gateways os chat raw coworker_id =
     (let tx = format_outbound raw in
      if tx = '''' then None
      else send_via_coworker gateways os (if coworker_id = '''' then None else dict_get (o_coworkers os) coworker_id) chat tx)"

text \<open>The message an agent publishes itself: only that of a scheduled task is forwarded.\<close>

definition handle_agent_message ::
  "(json \<Rightarrow> string) \<Rightarrow> (string \<Rightarrow> bool option) \<Rightarrow> orch_state \<Rightarrow> payload \<Rightarrow> (frame \<times> bool) option" where
  "handle_agent_message pstr gateways os d =
     (let chat = get_or d ''chatJid'' JNull; tx = get_or d ''text'' JNull;
          as_string = (\<lambda>v. case v of JStr s \<Rightarrow> s | _ \<Rightarrow> pstr v);
          group = as_string (get_or d ''groupFolder'' (JStr ''''));
          claimed = (case get_or d ''coworkerId'' JNull of JStr c \<Rightarrow> if c = '''' then None else dict_get (o_coworkers os) c | _ \<Rightarrow> None);
          cw = (case claimed of
                  Some c \<Rightarrow> Some c
                | None \<Rightarrow> if group = '''' then None
                          else map_option the (find (\<lambda>x. x \<noteq> None) (map (\<lambda>(k, t). get_coworker_by_folder os (t_id t) group) (o_tenants os)))) in
      if get_or d ''type'' JNull \<noteq> JStr ''message'' then None
      else if \<not> py_bool chat \<or> \<not> py_bool tx then None
      else if \<not> py_bool (get_or d ''isScheduledTask'' JNull) then None
      else case cw of None \<Rightarrow> None | Some c \<Rightarrow> send_via_coworker gateways os (Some c) (as_string chat) (as_string tx))"

section \<open>A run\<close>

definition get_session :: "orch_state \<Rightarrow> string \<Rightarrow> string option" where
  "get_session os conv_id =
     (case find (\<lambda>c. cv_id (cs_conversation c) = conv_id) (concat (map (\<lambda>(k, cw). map snd (cw_conversations cw)) (o_coworkers os))) of
        None \<Rightarrow> None | Some c \<Rightarrow> cs_session_id c)"

text \<open>Up to the executor: an error that is logged, or the input.\<close>

definition begin_task :: "(string \<Rightarrow> bool) \<Rightarrow> bool \<Rightarrow> orch_state \<Rightarrow> scheduled_task \<Rightarrow> string + agent_input" where
  "begin_task executors default_executor os t =
     (case dict_get (o_coworkers os) (sk_coworker_id t) of
        None \<Rightarrow> Inl (''Coworker not found: '' @ sk_coworker_id t)
      | Some cw \<Rightarrow>
          (let cfg = cw_config cw; conv_id = or_empty (sk_conversation_id t);
               chat = (case dict_get (o_coworkers os) (c_id cfg) of
                         None \<Rightarrow> ''''
                       | Some cs \<Rightarrow>
                           if conv_id = '''' then ''''
                           else case find (\<lambda>c. cv_id c = conv_id) (map (cs_conversation \<circ> snd) (cw_conversations cs)) of
                                  None \<Rightarrow> '''' | Some c \<Rightarrow> cv_channel_chat_id c) in
           if \<not> executors (c_agent_backend cfg) \<and> \<not> default_executor then Inl ''Agent executor not initialized''
           else Inr \<lparr>ai_prompt = sk_prompt t, ai_group_folder = c_folder cfg, ai_chat_jid = chat,
                     ai_permissions = perms_to_dict (case c_permissions cfg of None \<Rightarrow> default_permissions | Some p \<Rightarrow> p),
                     ai_tenant_id = sk_tenant_id t, ai_coworker_id = sk_coworker_id t, ai_conversation_id = conv_id,
                     ai_user_id = or_empty (sk_created_by_user_id t),
                     ai_session_id = (if sk_context_mode t = ''group'' \<and> conv_id \<noteq> '''' then get_session os conv_id else None),
                     ai_is_scheduled_task = True, ai_assistant_name = Some (c_name cfg), ai_system_prompt = None,
                     ai_role_config = None\<rparr>))"

record task_run =
  tr_task :: scheduled_task
  tr_chat :: string
  tr_result :: "string option"
  tr_error :: "string option"
  tr_close_armed :: bool

text \<open>An output of the container: the run, what is sent, and the queue; an exception of the send ends the handling.\<close>

definition task_output ::
  "(string \<Rightarrow> bool option) \<Rightarrow> orch_state \<Rightarrow> bool \<Rightarrow> int \<Rightarrow> agent_output \<Rightarrow> task_run \<Rightarrow> queue \<Rightarrow>
   task_run \<times> (frame \<times> bool) option \<times> queue" where
  "task_output gateways os ok now out r q =
     (let said = truthy (ao_result out);
          send = (if said \<and> tr_chat r \<noteq> ''''
                  then task_send_message gateways os (tr_chat r) (or_empty (ao_result out)) (sk_coworker_id (tr_task r)) else None);
          r1 = (if said then r\<lparr>tr_result := ao_result out\<rparr> else r);
          success = (ao_status out = ''success'') in
      if send \<noteq> None \<and> \<not> ok then (r1, None, q)
      else (r1\<lparr>tr_close_armed := tr_close_armed r \<or> said \<or> success,
               tr_error := (if ao_status out = ''error'' then Some (or_str (or_empty (ao_error out)) ''Unknown error'') else tr_error r)\<rparr>,
            send, if success \<and> ao_is_final out then notify_idle (compute_queue_key (tr_task r)) now q else q))"

text \<open>The end: what the executor returned, or the text of its exception.\<close>

definition task_outcome :: "string + agent_output \<Rightarrow> task_run \<Rightarrow> string option \<times> string option" where
  "task_outcome res r =
     (case res of
        Inl exc \<Rightarrow> (tr_result r, Some exc)
      | Inr out \<Rightarrow>
          if ao_status out = ''error'' then (tr_result r, Some (or_str (or_empty (ao_error out)) ''Unknown error''))
          else if truthy (ao_result out) then (ao_result out, tr_error r)
          else (tr_result r, tr_error r))"

definition run_log :: "scheduled_task \<Rightarrow> rat \<Rightarrow> int \<Rightarrow> string option \<Rightarrow> string option \<Rightarrow> task_run_log" where
  "run_log t now ms result err =
     \<lparr>tl_tenant_id = sk_tenant_id t, tl_task_id = sk_id t, tl_run_at = now, tl_duration_ms = ms,
      tl_status = (if truthy err then ''error'' else ''success''), tl_result = result, tl_error = err\<rparr>"

definition result_summary :: "string option \<Rightarrow> string option \<Rightarrow> string" where
  "result_summary result err =
     (if truthy err then ''Error: '' @ or_empty err else if truthy result then take 200 (or_empty result) else ''Completed'')"

text \<open>The tables after the run, and whether it ended without an exception.\<close>

definition finish_task ::
  "task_env \<Rightarrow> rat \<Rightarrow> int \<Rightarrow> string + agent_output \<Rightarrow> task_run \<Rightarrow> scheduled_task list \<Rightarrow> task_run_log list \<Rightarrow>
   bool \<times> scheduled_task list \<times> task_run_log list" where
  "finish_task env now ms res r rows logs =
     (let t = tr_task r; (result, err) = task_outcome res r in
      case log_task_run (run_log t now ms result err) rows logs of
        Inl _ \<Rightarrow> (False, rows, logs)
      | Inr logs' \<Rightarrow>
          (case compute_next_run env now t of
             Inl _ \<Rightarrow> (False, rows, logs')
           | Inr nr \<Rightarrow> (True, update_task_after_run (sk_id t) (sk_tenant_id t) now nr (result_summary result err) rows, logs')))"

text \<open>A run that does not reach the executor leaves a log and nothing else.\<close>

definition fail_task :: "rat \<Rightarrow> int \<Rightarrow> string \<Rightarrow> scheduled_task \<Rightarrow> scheduled_task list \<Rightarrow> task_run_log list \<Rightarrow> unit + task_run_log list" where
  "fail_task now ms err t rows logs = log_task_run (run_log t now ms None (Some err)) rows logs"

text \<open>The whole run: up to the executor, the query for the snapshot of the tasks (\<open>snap\<close>: it is answered), which
  is outside every handler, the executor with its result, and the tables at the end. The first component says whether
  the run ends without an exception.\<close>

definition run_task ::
  "task_env \<Rightarrow> (string \<Rightarrow> bool) \<Rightarrow> bool \<Rightarrow> orch_state \<Rightarrow> bool \<Rightarrow> rat \<Rightarrow> int \<Rightarrow> string + agent_output \<Rightarrow> task_run \<Rightarrow>
   scheduled_task list \<Rightarrow> task_run_log list \<Rightarrow> bool \<times> scheduled_task list \<times> task_run_log list" where
  "run_task env executors default_executor os snap now ms res r rows logs =
     (case begin_task executors default_executor os (tr_task r) of
        Inl err \<Rightarrow>
          (case fail_task now ms err (tr_task r) rows logs of
             Inl _ \<Rightarrow> (False, rows, logs)
           | Inr logs' \<Rightarrow> (True, rows, logs'))
      | Inr inp \<Rightarrow> if \<not> snap then (False, rows, logs) else finish_task env now ms res r rows logs)"

end
