(* ===== verification/Task_Props.thy ===== *)
theory Task_Props
  imports Tasks Delegation_Props
begin

text \<open>
  Scheduled tasks: what a request of an agent can change, when a task runs next, and where the handling of tasks
  falls short of its promises.
\<close>

section \<open>Tables\<close>

lemma set_fields_keys [simp]:
  "sk_id (set_fields u t) = sk_id t" "sk_tenant_id (set_fields u t) = sk_tenant_id t" "sk_coworker_id (set_fields u t) = sk_coworker_id t"
  by (simp_all add: set_fields_def)

lemma filter_map_keep:
  assumes "\<And>t. t \<in> set rows \<Longrightarrow> Q (f t) = Q t" "\<And>t. t \<in> set rows \<Longrightarrow> Q t \<Longrightarrow> f t = t"
  shows "filter Q (map f rows) = filter Q rows"
  using assms by (induction rows) auto

lemma found_task: "get_task_by_id k tid rows = Some t \<Longrightarrow> t \<in> set rows \<and> sk_id t = k \<and> sk_tenant_id t = tid"
  by (auto simp: get_task_by_id_def task_key_def dest!: find_SomeD)

section \<open>Requests\<close>

text \<open>The tasks a caller may touch.\<close>

definition reach_of :: "agent_permissions \<Rightarrow> json \<Rightarrow> json \<Rightarrow> scheduled_task \<Rightarrow> bool" where
  "reach_of perms tenant coworker t \<longleftrightarrow> JStr (sk_tenant_id t) = tenant \<and> (JStr (sk_coworker_id t) = coworker \<or> task_manage_others perms)"

definition confined :: "agent_permissions \<Rightarrow> json \<Rightarrow> json \<Rightarrow> scheduled_task list \<Rightarrow> scheduled_task list \<Rightarrow> bool" where
  "confined perms tenant coworker rows rows' \<longleftrightarrow>
     filter (\<lambda>t. \<not> reach_of perms tenant coworker t) rows' = filter (\<lambda>t. \<not> reach_of perms tenant coworker t) rows \<and>
     (\<forall>t \<in> set rows'. sk_id t \<in> set (map sk_id rows) \<or> task_schedule perms \<and> reach_of perms tenant coworker t \<and> sk_status t = ''active'')"

lemma confined_refl [simp]: "confined perms tenant coworker rows rows"
  by (simp add: confined_def)

text \<open>The key of a table: an id has one row.\<close>

definition task_ids_unique :: "scheduled_task list \<Rightarrow> bool" where
  "task_ids_unique rows = distinct (map sk_id rows)"

lemma same_task:
  "task_ids_unique rows \<Longrightarrow> t \<in> set rows \<Longrightarrow> t' \<in> set rows \<Longrightarrow> sk_id t = sk_id t' \<Longrightarrow> t = t'"
  by (auto simp: task_ids_unique_def distinct_map inj_on_def)

lemma schedule_for_confined:
  assumes "schedule_for env now uid perms tenant coworker spec cw d rows = Inr rows'"
  shows "confined perms tenant coworker rows rows'"
proof (cases "rows' = rows")
  case False
  obtain tid nr where t: "tenant = JStr tid" "create_task env (new_task env now uid tid cw spec nr d) rows = Inr rows'"
    "task_schedule perms" "JStr cw = coworker \<or> task_manage_others perms"
    using assms False
    by (auto simp: schedule_for_def can_schedule_task_def can_manage_task_def split: if_splits json.splits sum.splits option.splits)
  have n: "sk_tenant_id (new_task env now uid tid cw spec nr d) = tid" "sk_coworker_id (new_task env now uid tid cw spec nr d) = cw"
    "sk_status (new_task env now uid tid cw spec nr d) = ''active''"
    by (simp_all add: new_task_def case_prod_beta Let_def)
  then have "reach_of perms tenant coworker (new_task env now uid tid cw spec nr d)" using t by (auto simp: reach_of_def)
  then show ?thesis using t(2,3) n by (auto simp: create_task_def confined_def reach_of_def split: if_splits)
qed simp

lemma schedule_confined:
  assumes "schedule_request env now uid perms tenant coworker d rows = Inr rows'"
  shows "confined perms tenant coworker rows rows'"
proof (cases "rows' = rows")
  case False
  have "\<exists>spec cw. schedule_for env now uid perms tenant coworker spec cw d rows = Inr rows'"
    using assms False unfolding schedule_request_def Let_def by (simp split: if_split_asm json.split_asm) blast+
  then show ?thesis using schedule_for_confined by blast
qed simp

lemma manage_confined:
  assumes "manage_request perms tenant coworker d act rows = Inr rows'" "task_ids_unique rows"
    and act: "\<And>k tid t. act k tid t = Inr rows' \<Longrightarrow> rows' = rows \<or> (\<exists>u. rows' = update_task k tid u rows) \<or> rows' = delete_task k tid rows"
  shows "confined perms tenant coworker rows rows'"
proof (cases "rows' = rows")
  case False
  obtain k tid t where t: "get_task_by_id k tid rows = Some t" "can_manage_task perms (sk_coworker_id t) coworker"
    "tenant = JStr tid" "act k tid t = Inr rows'"
    using assms(1) False by (auto simp: manage_request_def Let_def split: if_splits json.splits option.splits)
  have mine: "reach_of perms tenant coworker x" if "x \<in> set rows" "task_key tid k x" for x
  proof -
    have "x = t" using same_task [OF assms(2) that(1)] found_task [OF t(1)] that(2) by (auto simp: task_key_def)
    then show ?thesis using t found_task [OF t(1)] by (auto simp: reach_of_def can_manage_task_def split: if_splits)
  qed
  have "filter (\<lambda>t. \<not> reach_of perms tenant coworker t) (update_task k tid u rows) =
      filter (\<lambda>t. \<not> reach_of perms tenant coworker t) rows" for u
    unfolding update_task_def by (rule filter_map_keep) (use mine in \<open>auto simp: reach_of_def\<close>)
  moreover have "filter (\<lambda>t. \<not> reach_of perms tenant coworker t) (delete_task k tid rows) =
      filter (\<lambda>t. \<not> reach_of perms tenant coworker t) rows"
    using mine by (auto simp: delete_task_def intro!: filter_cong)
  ultimately show ?thesis using act [OF t(4)] False by (auto simp: confined_def update_task_def delete_task_def)
qed simp

lemma process_confined:
  assumes "process_task_ipc env now uid perms tenant coworker d rows = Inr rows'" "task_ids_unique rows"
  shows "confined perms tenant coworker rows rows'"
proof -
  note manage = manage_confined [OF _ assms(2)]
  show ?thesis
    using assms(1) unfolding process_task_ipc_def Let_def
    by (auto split: if_splits sum.splits option.splits intro: schedule_confined elim!: manage)
qed

text \<open>With whose rights a message is processed: those of the coworker it names, by id or else by folder; when no
  coworker resolves, the default rights on the tenant and for the coworker the message claims.\<close>

definition task_authority :: "orch_state \<Rightarrow> payload \<Rightarrow> agent_permissions \<times> json \<times> json" where
  "task_authority os d =
     (case source_coworker os d of
        Inr (Some cw) \<Rightarrow>
          (case c_permissions (cw_config cw) of None \<Rightarrow> default_permissions | Some p \<Rightarrow> p,
           JStr (c_tenant_id (cw_config cw)), JStr (c_id (cw_config cw)))
      | _ \<Rightarrow> (default_permissions, get_or d ''tenantId'' (JStr default_tenant), get_or d ''coworkerId'' (JStr '''')))"

text \<open>C14. 
  A task message acts with the rights of the coworker it names, and with those of no other: it changes, pauses, resumes
  or deletes only tasks of that coworker's tenant, whatever tenant the message claims, and only that coworker's own
  unless the coworker may manage others'; it adds a task only if the coworker may schedule, under that tenant, and for
  another coworker only if it may manage others' tasks. When the named coworker is unknown and so is the folder, the message has the
  default rights, which neither schedule nor manage others' tasks, on the tenant it claims itself. All other rows stay as they are, in their
  order. That the sender is the coworker it names is not checked by the code and not part of the statement.
\<close>

theorem task_ipc_confined:
  assumes "handle_task_message env os now uid d rows = Inr rows'" "task_ids_unique rows"
  shows "let (perms, tenant, coworker) = task_authority os d;
      mine = (\<lambda>t. JStr (sk_tenant_id t) = tenant \<and> (JStr (sk_coworker_id t) = coworker \<or> task_manage_others perms)) in
    filter (\<lambda>t. \<not> mine t) rows' = filter (\<lambda>t. \<not> mine t) rows \<and>
    list_all (\<lambda>t. sk_id t \<in> set (map sk_id rows) \<or> task_schedule perms \<and> mine t) rows'"
proof -
  obtain perms tenant coworker where a: "task_authority os d = (perms, tenant, coworker)" by (metis prod_cases3)
  then have "process_task_ipc env now uid perms tenant coworker d rows = Inr rows'"
    using assms(1) by (auto simp: handle_task_message_def task_authority_def Let_def split: sum.splits option.splits)
  from process_confined [OF this assms(2)] show ?thesis by (auto simp: a confined_def reach_of_def list_all_iff)
qed


section \<open>Times\<close>

text \<open>The loop ends at the first point of the grid after the present.\<close>

lemma next_tick_grid:
  assumes "0 < step"
  shows "\<exists>n. next_tick step now ts = ts + of_nat n * step \<and> now < ts + of_nat n * step \<and> (n = 0 \<or> ts + of_nat (n - 1) * step \<le> now)"
  using assms
proof (induction step now ts rule: next_tick.induct)
  case (1 step now ts)
  show ?case
  proof (cases "ts \<le> now")
    case True
    then obtain n where n: "next_tick step now (ts + step) = ts + step + of_nat n * step" "now < ts + step + of_nat n * step"
      "n = 0 \<or> ts + step + of_nat (n - 1) * step \<le> now"
      using 1 by blast
    have "next_tick step now ts = ts + of_nat (Suc n) * step" using True 1(2) n(1) by (subst next_tick.simps) (simp add: algebra_simps)
    moreover have "ts + of_nat (Suc n - 1) * step \<le> now" using n(3) True by (cases n) (auto simp: algebra_simps)
    ultimately show ?thesis using n(2) by (intro exI [of _ "Suc n"]) (simp add: algebra_simps)
  next
    case False
    then show ?thesis by (intro exI [of _ 0]) (subst next_tick.simps, simp)
  qed
qed


lemma compute_later:
  assumes "compute_next_run env now t = Inr (Some x)"
    and "\<And>v y. tk_cron env v now = Some y \<Longrightarrow> now < y" "\<And>z y. tk_fromts env z = Inr y \<Longrightarrow> y = z"
  shows "now < x"
proof (cases "sk_schedule_type t = ''interval''")
  case True
  show ?thesis
  proof (cases "\<exists>ms. int_of_str (sk_schedule_value t) = Some ms \<and> 0 < ms")
    case pos: True
    then obtain ms where ms: "int_of_str (sk_schedule_value t) = Some ms" "0 < ms" by blast
    then obtain r where r: "sk_next_run t = Some r" using assms(1) True by (auto simp: compute_next_run_def split: option.splits)
    let ?x = "next_tick (of_int ms / 1000) now (r + of_int ms / 1000)"
    have "tk_fromts env ?x = Inr x" using assms(1) True ms r by (auto simp: compute_next_run_def Let_def split: sum.splits)
    moreover have "now < ?x" using next_tick_grid [of "of_int ms / 1000" now "r + of_int ms / 1000"] ms(2) by auto
    ultimately show ?thesis using assms(3) by metis
  next
    case False
    then have "tk_fromts env (now + 60) = Inr x"
      using assms(1) True by (auto simp: compute_next_run_def Let_def split: option.splits sum.splits if_splits)
    then show ?thesis using assms(3) by force
  qed
next
  case False
  then show ?thesis using assms(1,2) by (auto simp: compute_next_run_def Let_def split: if_splits option.splits)
qed

text \<open>
  A run that reached the executor and ends without an exception is not due again: afterwards no sweep at that time
  finds the task, and a task that was to run once is completed. Its log is written exactly once.
\<close>

lemma finished_not_due:
  assumes "finish_task env now ms res run rows logs = (True, rows', logs')"
    and "\<And>v y. tk_cron env v now = Some y \<Longrightarrow> now < y" "\<And>z y. tk_fromts env z = Inr y \<Longrightarrow> y = z"
  shows "list_all (\<lambda>t. \<not> task_key (sk_tenant_id (tr_task run)) (sk_id (tr_task run)) t) (get_due_tasks active now rows') \<and>
    length logs' = Suc (length logs) \<and>
    list_all (\<lambda>t. task_key (sk_tenant_id (tr_task run)) (sk_id (tr_task run)) t \<longrightarrow> sk_schedule_type (tr_task run) = ''once'' \<longrightarrow>
      sk_status t = ''completed'') rows'"
proof -
  let ?t = "tr_task run"
  obtain nr sum where nr: "compute_next_run env now ?t = Inr nr" "rows' = update_task_after_run (sk_id ?t) (sk_tenant_id ?t) now nr sum rows"
    and logs: "length logs' = Suc (length logs)"
    using assms(1) by (auto simp: finish_task_def log_task_run_def Let_def case_prod_beta split: sum.splits if_splits)
  have row: "sk_next_run t = nr \<and> (nr = None \<longrightarrow> sk_status t = ''completed'')"
    if "t \<in> set rows'" "task_key (sk_tenant_id ?t) (sk_id ?t) t" for t
    using that unfolding nr(2) update_task_after_run_def by (auto simp: task_key_def split: if_splits)
  have "\<not> due active now t" if "t \<in> set rows'" "task_key (sk_tenant_id ?t) (sk_id ?t) t" for t
    using row [OF that] compute_later [of env now ?t] nr(1) assms(2,3) by (cases nr) (auto simp: due_def)
  moreover have "sk_schedule_type ?t = ''once'' \<Longrightarrow> nr = None" using nr(1) by (simp add: compute_next_run_def)
  ultimately show ?thesis using row logs by (auto simp: list_all_iff get_due_tasks_def)
qed

lemma raising_task_stays_due:
  "finish_task env now ms res run rows logs = (False, rows', logs') \<Longrightarrow> rows' = rows"
  by (auto simp: finish_task_def Let_def case_prod_beta split: sum.splits)

lemma failed_task_log: "fail_task now ms err t rows logs = Inr logs' \<Longrightarrow> length logs' = Suc (length logs)"
  by (auto simp: fail_task_def log_task_run_def split: if_splits)

text \<open>C24. 
  A run of a task whose coworker and executor exist, and that ends without an exception, leaves the task not due at
  that time, a task that was to run once completed, and one log more. Every other run, without a coworker or an executor, or with an
  exception, leaves the table of tasks as it is, so a task that was due stays due; if such a run returns, it has
  written one log. The library's next cron time is assumed to lie after the present, and a time stamp to be read back as it is.
\<close>

theorem finished_task_not_due:
  assumes "run_task env executors default_executor os snap now ms res run rows logs = (ok, rows', logs')"
    and "\<And>v y. tk_cron env v now = Some y \<Longrightarrow> now < y" "\<And>z y. tk_fromts env z = Inr y \<Longrightarrow> y = z"
  shows "if ok \<and> \<not> isl (begin_task executors default_executor os (tr_task run))
    then list_all (\<lambda>t. \<not> task_key (sk_tenant_id (tr_task run)) (sk_id (tr_task run)) t) (get_due_tasks active now rows') \<and>
      length logs' = Suc (length logs) \<and>
      list_all (\<lambda>t. task_key (sk_tenant_id (tr_task run)) (sk_id (tr_task run)) t \<longrightarrow> sk_schedule_type (tr_task run) = ''once'' \<longrightarrow>
        sk_status t = ''completed'') rows'
    else rows' = rows \<and> (ok \<longrightarrow> length logs' = Suc (length logs))"
proof (cases "begin_task executors default_executor os (tr_task run)")
  case (Inl err)
  then show ?thesis using assms(1) failed_task_log by (auto simp: run_task_def split: sum.splits)
next
  case (Inr inp)
  show ?thesis
  proof (cases "ok")
    case True
    then have "finish_task env now ms res run rows logs = (True, rows', logs')"
      using assms(1) Inr by (auto simp: run_task_def split: if_splits)
    from finished_not_due [OF this assms(2,3)] show ?thesis using True Inr by simp
  next
    case False
    then show ?thesis using assms(1) Inr raising_task_stays_due by (auto simp: run_task_def split: if_splits)
  qed
qed

section \<open>Snapshots\<close>

text \<open>C40. 
  The snapshot of the tasks that is written for a coworker without the permission to manage others' tasks has every task of the
  tenant, with its prompt: every entry is stamped with the reader's own folder before the filter compares the folders.
  The documents say that such a coworker sees only its own tasks.
\<close>

theorem task_snapshot_leaks:
  assumes "c_tenant_id cfg \<noteq> ''''" "c_permissions cfg = Some perms" "\<not> task_manage_others perms"
    and "t \<in> set rows" "sk_tenant_id t = c_tenant_id cfg" "sk_coworker_id t \<noteq> c_id cfg"
  shows "\<exists>key es e. tasks_snapshot isof cfg rows = Inr (key, JList es) \<and> JObj e \<in> set es \<and>
    obj_get e ''id'' = Some (JStr (sk_id t)) \<and> obj_get e ''prompt'' = Some (JStr (sk_prompt t))"
proof -
  have "obj_get (task_entry isof (c_folder cfg) x) ''coworkerFolder'' = Some (JStr (c_folder cfg))" for x
    by (simp add: task_entry_def obj_get_def)
  then have "snapshot_tasks (c_permissions cfg) (c_folder cfg) (map (task_entry isof (c_folder cfg)) ts) = map (task_entry isof (c_folder cfg)) ts" for ts
    by (auto simp: snapshot_tasks_def intro!: filter_True)
  then have "\<exists>key. tasks_snapshot isof cfg rows = Inr (key, JList (map JObj (map (task_entry isof (c_folder cfg))
      (sort_key (\<lambda>t. - sk_created_at t) (filter (\<lambda>t. sk_tenant_id t = c_tenant_id cfg) rows)))))"
    using assms(1) by (simp add: tasks_snapshot_def get_all_tasks_def write_tasks_snapshot_def)
  moreover have "obj_get (task_entry isof (c_folder cfg) t) ''id'' = Some (JStr (sk_id t))"
    "obj_get (task_entry isof (c_folder cfg) t) ''prompt'' = Some (JStr (sk_prompt t))"
    by (simp_all add: task_entry_def obj_get_def)
  ultimately show ?thesis using assms(4,5) by fastforce
qed

section \<open>Targets\<close>

text \<open>C39. 
  The target of a task is not checked for its tenant. An agent that may schedule and manage others' tasks can create, in its own
  tenant, a task for a coworker of another tenant; when it is due the run takes that coworker's folder, name and permissions, with a prompt of
  the caller's choice, while tenant, and with it policies and quotas, are the caller's. The documents confine agents to their tenant.
\<close>

theorem cross_tenant_task:
  assumes "source_coworker os d = Inr (Some cw)" "c_permissions (cw_config cw) = Some perms" "task_schedule perms" "task_manage_others perms"
    and "dict_get (o_coworkers os) b = Some other" "c_tenant_id (cw_config other) \<noteq> c_tenant_id (cw_config cw)" "b \<noteq> ''''"
    and "get_or d ''type'' JNull = JStr ''schedule_task''" "get_or d ''targetCoworkerId'' JNull = JStr b"
      "get_or d ''prompt'' JNull = JStr p" "get_or d ''schedule_type'' JNull = JStr sty" "get_or d ''schedule_value'' JNull = JStr sv"
      "p \<noteq> ''''" "sty \<noteq> ''''" "sv \<noteq> ''''"
    and "first_run env now sty sv = Inr nr"
    and "tk_refs env (new_task env now uid (c_tenant_id (cw_config cw)) b (p, sty, sv) nr d)"
      "sk_id (new_task env now uid (c_tenant_id (cw_config cw)) b (p, sty, sv) nr d) \<notin> set (map sk_id rows)"
  shows "\<exists>t inp. handle_task_message env os now uid d rows = Inr (rows @ [t]) \<and> sk_tenant_id t = c_tenant_id (cw_config cw) \<and>
    begin_task ex True os t = Inr inp \<and> ai_prompt inp = p \<and> ai_tenant_id inp = c_tenant_id (cw_config cw) \<and>
    ai_coworker_id inp = b \<and> ai_group_folder inp = c_folder (cw_config other) \<and> ai_assistant_name inp = Some (c_name (cw_config other)) \<and>
    ai_permissions inp = perms_to_dict (case c_permissions (cw_config other) of None \<Rightarrow> default_permissions | Some q \<Rightarrow> q)"
proof -
  let ?t = "new_task env now uid (c_tenant_id (cw_config cw)) b (p, sty, sv) nr d"
  let ?row = "?t\<lparr>sk_context_mode := or_str (sk_context_mode ?t) ''isolated''\<rparr>"
  have n: "sk_tenant_id ?row = c_tenant_id (cw_config cw)" "sk_coworker_id ?row = b" "sk_prompt ?row = p"
    by (simp_all add: new_task_def Let_def)
  have "handle_task_message env os now uid d rows = Inr (rows @ [?row])"
    using assms(1-4,7-18)
    by (simp add: handle_task_message_def process_task_ipc_def schedule_request_def schedule_for_def can_schedule_task_def
        can_manage_task_def create_task_def Let_def)
  moreover obtain inp where "begin_task ex True os ?row = Inr inp" "ai_prompt inp = p" "ai_tenant_id inp = c_tenant_id (cw_config cw)"
    "ai_coworker_id inp = b" "ai_group_folder inp = c_folder (cw_config other)" "ai_assistant_name inp = Some (c_name (cw_config other))"
    "ai_permissions inp = perms_to_dict (case c_permissions (cw_config other) of None \<Rightarrow> default_permissions | Some q \<Rightarrow> q)"
    using assms(5) n by (auto simp: begin_task_def Let_def)
  ultimately show ?thesis using n(1) by blast
qed

text \<open>A run of a task is started without the system prompt of its coworker.\<close>

lemma task_without_system_prompt: "begin_task ex d os t = Inr inp \<Longrightarrow> ai_system_prompt inp = None"
  by (auto simp: begin_task_def Let_def split: option.splits if_splits)

text \<open>A new date for a task that runs once is stored, but the task still runs at the old one.\<close>

lemma once_update_keeps_time:
  assumes "task_changes env now d t = Inr u" "sk_schedule_type t = ''once''" "given env d ''schedule_type'' = None"
  shows "sk_next_run (set_fields u t) = sk_next_run t"
  using assms by (auto simp: task_changes_def set_fields_def no_update_def Let_def split: if_splits)

text \<open>What a task says is sent as it is, without the screening that answers of a turn go through.\<close>

lemma task_output_unscreened:
  assumes "dict_get (o_coworkers os) (sk_coworker_id (tr_task r)) = Some cw" "sk_coworker_id (tr_task r) \<noteq> ''''"
    and "conv_with_chat cw (tr_chat r) = Some conv" "tr_chat r \<noteq> ''''"
    and "dict_get (cw_channel_bindings cw) (channel_type_for_conv cw conv) = Some b" "gateways (channel_type_for_conv cw conv) = Some g"
    and "ao_result out = Some raw" "raw \<noteq> ''''" "format_outbound raw \<noteq> ''''"
  shows "fst (snd (task_output gateways os True now out r q)) =
    Some (FMessage (cb_id b) (tr_chat r) (format_outbound raw), channel_type_for_conv cw conv = ''web'')"
  using assms by (simp add: task_output_def task_send_message_def send_via_coworker_def deliver_to_def Let_def or_empty_def)


section \<open>A small deployment\<close>

text \<open>Two tenants with a coworker each, and a third that shares the tenant of the first; the first may schedule for others.\<close>

definition demo_task_env :: task_env where
  "demo_task_env = \<lparr>tk_str = (\<lambda>v. ''?''), tk_uuid = (\<lambda>s. s = ''t9''), tk_fromiso = (\<lambda>s. None), tk_fromts = Inr,
                    tk_cron = (\<lambda>v now. Some (now + 60)), tk_refs = (\<lambda>t. True)\<rparr>"

definition demo_tenants :: orch_state where
  "demo_tenants = (new_orch_state 2)\<lparr>o_coworkers :=
     [(''u1'', from_coworker ((demo_member ''u1'' ''ops'' False)\<lparr>c_permissions := Some \<lparr>task_schedule = True, task_manage_others = True, agent_delegate = False\<rparr>\<rparr>) None None),
      (''u2'', from_coworker (demo_member ''u2'' ''billing'' False) None None),
      (''u3'', from_coworker ((demo_member ''u3'' ''vault'' False)\<lparr>c_tenant_id := ''rival''\<rparr>) None None)]\<rparr>"

definition demo_task :: "string \<Rightarrow> string \<Rightarrow> string \<Rightarrow> scheduled_task" where
  "demo_task k tid cw =
     \<lparr>sk_id = k, sk_tenant_id = tid, sk_coworker_id = cw, sk_prompt = ''pay'', sk_schedule_type = ''interval'', sk_schedule_value = ''2000'',
      sk_context_mode = ''isolated'', sk_conversation_id = None, sk_next_run = Some 10, sk_last_run = None, sk_last_result = None,
      sk_status = ''active'', sk_created_at = 1, sk_created_by_user_id = None\<rparr>"

definition demo_tasks :: "scheduled_task list" where
  "demo_tasks = [demo_task ''t1'' ''acme'' ''u1'', demo_task ''t2'' ''acme'' ''u2'', demo_task ''t3'' ''rival'' ''u3'']"

definition demo_request :: "string \<Rightarrow> string \<Rightarrow> payload" where
  "demo_request sender k = [(''type'', JStr ''cancel_task''), (''coworkerId'', JStr sender), (''taskId'', JStr k)]"

theorem task_ipc_confined_witness:
  "let mine = (\<lambda>t. JStr (sk_tenant_id t) = JStr ''acme'' \<and> (JStr (sk_coworker_id t) = JStr ''u2'' \<or> task_manage_others default_permissions)) in
    filter (\<lambda>t. \<not> mine t) [demo_task ''t1'' ''acme'' ''u1'', demo_task ''t3'' ''rival'' ''u3''] = filter (\<lambda>t. \<not> mine t) demo_tasks"
proof -
  have src: "task_authority demo_tenants (demo_request ''u2'' ''t2'') = (default_permissions, JStr ''acme'', JStr ''u2'')" by code_simp
  have res: "handle_task_message demo_task_env demo_tenants 20 ''z'' (demo_request ''u2'' ''t2'') demo_tasks =
      Inr [demo_task ''t1'' ''acme'' ''u1'', demo_task ''t3'' ''rival'' ''u3'']" by code_simp
  have "task_ids_unique demo_tasks" by code_simp
  from task_ipc_confined [OF res this] show ?thesis unfolding src Let_def prod.case by (rule conjunct1)
qed


definition demo_run :: task_run where
  "demo_run = \<lparr>tr_task = demo_task ''t1'' ''acme'' ''u1'', tr_chat = '''', tr_result = Some ''paid'', tr_error = None, tr_close_armed = True\<rparr>"

theorem finished_task_not_due_witness:
  "let rows = fst (snd (run_task demo_task_env (\<lambda>b. True) True demo_tenants True 20 5 (Inl ''boom'') demo_run demo_tasks [])) in
    list_all (\<lambda>t. \<not> task_key ''acme'' ''t1'' t) (get_due_tasks (\<lambda>x. True) 20 rows)"
proof -
  obtain ok rows logs
    where f: "run_task demo_task_env (\<lambda>b. True) True demo_tenants True 20 5 (Inl ''boom'') demo_run demo_tasks [] = (ok, rows, logs)"
    by (metis prod_cases3)
  have "fst (run_task demo_task_env (\<lambda>b. True) True demo_tenants True 20 5 (Inl ''boom'') demo_run demo_tasks [])"
    "\<not> isl (begin_task (\<lambda>b. True) True demo_tenants (tr_task demo_run))" by code_simp+
  then have "ok \<and> \<not> isl (begin_task (\<lambda>b. True) True demo_tenants (tr_task demo_run))" using f by simp
  moreover have "20 < y" if "tk_cron demo_task_env v 20 = Some y" for v y using that by (auto simp: demo_task_env_def)
  moreover have "y = z" if "tk_fromts demo_task_env z = Inr y" for z y using that by (simp add: demo_task_env_def)
  ultimately show ?thesis
    using finished_task_not_due [OF f, of "\<lambda>x. True"] f by (simp add: Let_def demo_run_def demo_task_def)
qed

theorem task_snapshot_leaks_witness:
  "\<exists>key es e. tasks_snapshot (\<lambda>t. '''') (demo_member ''u2'' ''billing'' False) demo_tasks = Inr (key, JList es) \<and> JObj e \<in> set es \<and>
    obj_get e ''id'' = Some (JStr ''t1'') \<and> obj_get e ''prompt'' = Some (JStr ''pay'')"
proof -
  let ?t = "demo_task ''t1'' ''acme'' ''u1''"
  have "?t \<in> set demo_tasks" by (simp add: demo_tasks_def)
  then show ?thesis
    using task_snapshot_leaks [of "demo_member ''u2'' ''billing'' False" default_permissions ?t demo_tasks "\<lambda>t. ''''"]
    by (simp add: demo_member_def demo_task_def default_permissions_def)
qed

definition demo_intrusion :: payload where
  "demo_intrusion = [(''type'', JStr ''schedule_task''), (''coworkerId'', JStr ''u1''), (''targetCoworkerId'', JStr ''u3''),
     (''prompt'', JStr ''export''), (''schedule_type'', JStr ''cron''), (''schedule_value'', JStr ''* * * * *'')]"

theorem cross_tenant_task_witness:
  "\<exists>t inp. handle_task_message demo_task_env demo_tenants 20 ''z'' demo_intrusion demo_tasks = Inr (demo_tasks @ [t]) \<and>
    sk_tenant_id t = ''acme'' \<and> begin_task (\<lambda>b. True) True demo_tenants t = Inr inp \<and> ai_prompt inp = ''export'' \<and>
    ai_tenant_id inp = ''acme'' \<and> ai_coworker_id inp = ''u3'' \<and> ai_group_folder inp = ''vault'' \<and>
    ai_permissions inp = perms_to_dict default_permissions"
proof -
  let ?cw = "from_coworker ((demo_member ''u1'' ''ops'' False)\<lparr>c_permissions := Some \<lparr>task_schedule = True, task_manage_others = True, agent_delegate = False\<rparr>\<rparr>) None None"
  let ?other = "from_coworker ((demo_member ''u3'' ''vault'' False)\<lparr>c_tenant_id := ''rival''\<rparr>) None None"
  let ?perms = "\<lparr>task_schedule = True, task_manage_others = True, agent_delegate = False\<rparr>"
  have src: "source_coworker demo_tenants demo_intrusion = Inr (Some ?cw)" "c_permissions (cw_config ?cw) = Some ?perms" by code_simp+
  have b: "dict_get (o_coworkers demo_tenants) ''u3'' = Some ?other" "c_tenant_id (cw_config ?other) \<noteq> c_tenant_id (cw_config ?cw)" by code_simp+
  have d: "get_or demo_intrusion ''type'' JNull = JStr ''schedule_task''" "get_or demo_intrusion ''targetCoworkerId'' JNull = JStr ''u3''"
    "get_or demo_intrusion ''prompt'' JNull = JStr ''export''" "get_or demo_intrusion ''schedule_type'' JNull = JStr ''cron''"
    "get_or demo_intrusion ''schedule_value'' JNull = JStr ''* * * * *''" by code_simp+
  have n: "first_run demo_task_env 20 ''cron'' ''* * * * *'' = Inr (Some 80)" by code_simp
  let ?t = "new_task demo_task_env 20 ''z'' (c_tenant_id (cw_config ?cw)) ''u3'' (''export'', ''cron'', ''* * * * *'') (Some 80) demo_intrusion"
  have t: "tk_refs demo_task_env ?t" "sk_id ?t \<notin> set (map sk_id demo_tasks)" by code_simp+
  have c: "c_tenant_id (cw_config ?cw) = ''acme''" "c_folder (cw_config ?other) = ''vault''"
    "(case c_permissions (cw_config ?other) of None \<Rightarrow> default_permissions | Some q \<Rightarrow> q) = default_permissions" by code_simp+
  show ?thesis
    using cross_tenant_task [OF src _ _ b _ d _ _ _ n t, of "\<lambda>b. True"] unfolding c by auto
qed

end
