(* ===== verification/Safety_Rpc.thy ===== *)
theory Safety_Rpc
  imports Safety_Pipeline Orch_State Py_Str
begin

text \<open>
  Slow safety checks and safety events between container and orchestrator: the codec
  (\<^verbatim>\<open>src/src/rolemesh/safety/rpc_codec.py\<close>), the server of the checks (\<^verbatim>\<open>src/src/rolemesh/safety/rpc_server.py\<close>), their stand-in in the
  container (\<^verbatim>\<open>src/src/agent_runner/safety/remote.py\<close>) and the subscriber that keeps the audit
  (\<^verbatim>\<open>src/src/rolemesh/safety/subscriber.py\<close>, \<^verbatim>\<open>engine.py\<close>). JSON text is the value it denotes. No context carries metadata; an action, severity or
  reason that is no string stands as its text, which is no action the pipeline knows.
\<close>

text \<open>\<open>str(v)\<close>, \<open>repr(s)\<close>, \<open>dict(v)\<close> of a value that is no dict, the name of a type, and the texts of exceptions.\<close>

record rpc_env =
  re_str :: "json \<Rightarrow> string"
  re_repr :: "string \<Rightarrow> string"
  re_dict :: "json \<Rightarrow> payload option"
  re_type :: "json \<Rightarrow> string"
  re_no_json :: string
  re_bad_context :: "payload \<Rightarrow> string"
  re_transport :: string

definition text_of :: "rpc_env \<Rightarrow> json \<Rightarrow> string" where
  "text_of en v = (case v of JStr s \<Rightarrow> s | _ \<Rightarrow> re_str en v)"

section \<open>The codec\<close>

definition json_of :: "string option \<Rightarrow> json" where
  "json_of s = (case s of None \<Rightarrow> JNull | Some x \<Rightarrow> JStr x)"

definition serialize_context :: "safety_context \<Rightarrow> payload" where
  "serialize_context ctx =
     [(''stage'', JStr (stage_value (cx_stage ctx))), (''tenant_id'', JStr (cx_tenant_id ctx)), (''coworker_id'', JStr (cx_coworker_id ctx)),
      (''user_id'', JStr (cx_user_id ctx)), (''job_id'', JStr (cx_job_id ctx)), (''conversation_id'', JStr (cx_conversation_id ctx)),
      (''payload'', JObj (cx_payload ctx)),
      (''tool'', case cx_tool ctx of None \<Rightarrow> JNull | Some t \<Rightarrow> JObj [(''name'', JStr (ti_name t)), (''reversible'', JBool (ti_reversible t))]),
      (''metadata'', JObj [])]"

definition stage_of :: "string \<Rightarrow> stage option" where
  "stage_of s = find (\<lambda>x. stage_value x = s) [INPUT_PROMPT, PRE_TOOL_CALL, POST_TOOL_RESULT, MODEL_OUTPUT, PRE_COMPACTION, EGRESS_REQUEST]"

text \<open>\<open>Inl None\<close> is a missing key or an unknown stage; \<open>Inl (Some v)\<close> a context whose payload is no dict.\<close>

definition deserialize_context :: "rpc_env \<Rightarrow> payload \<Rightarrow> json option + safety_context" where
  "deserialize_context en d =
     (let field = (\<lambda>k. map_option (text_of en) (obj_get d k));
          tool = (case get_or d ''tool'' JNull of
                    JObj t \<Rightarrow> Some \<lparr>ti_name = text_of en (get_or t ''name'' (JStr '''')), ti_reversible = py_bool (get_or t ''reversible'' (JBool False))\<rparr>
                  | _ \<Rightarrow> None);
          body = get_or d ''payload'' JNull in
      case (Option.bind (field ''stage'') stage_of, field ''tenant_id'', field ''coworker_id'', field ''user_id'', field ''job_id'', field ''conversation_id'') of
        (Some st, Some tid, Some cid, Some uid, Some jid, Some conv) \<Rightarrow>
          (let ctx = \<lparr>cx_stage = st, cx_tenant_id = tid, cx_coworker_id = cid, cx_user_id = uid, cx_job_id = jid, cx_conversation_id = conv,
                      cx_payload = [], cx_tool = tool\<rparr> in
           if \<not> py_bool body then Inr ctx
           else (case body of JObj kvs \<Rightarrow> Inr (ctx\<lparr>cx_payload := kvs\<rparr>) | v \<Rightarrow> Inl (Some v)))
      | _ \<Rightarrow> Inl None)"

definition serialize_finding :: "finding \<Rightarrow> json" where
  "serialize_finding f =
     JObj [(''code'', JStr (fi_code f)), (''severity'', JStr (fi_severity f)), (''message'', JStr (fi_message f)), (''metadata'', JObj (fi_metadata f))]"

definition serialize_verdict :: "verdict \<Rightarrow> payload" where
  "serialize_verdict v =
     [(''action'', JStr (v_action v)), (''reason'', json_of (v_reason v)),
      (''modified_payload'', case v_modified_payload v of None \<Rightarrow> JNull | Some j \<Rightarrow> j),
      (''findings'', JList (map serialize_finding (v_findings v))), (''appended_context'', json_of (v_appended_context v))]"

text \<open>\<open>None\<close> is the exception of \<open>dict\<close> or of a loop over what cannot be iterated.\<close>

definition deserialize_finding :: "rpc_env \<Rightarrow> payload \<Rightarrow> finding option" where
  "deserialize_finding en f =
     (let m = get_or f ''metadata'' JNull in
      map_option (\<lambda>md. \<lparr>fi_code = text_of en (get_or f ''code'' (JStr '''')), fi_severity = text_of en (get_or f ''severity'' (JStr ''info'')),
                         fi_message = text_of en (get_or f ''message'' (JStr '''')), fi_metadata = md\<rparr>)
        (if \<not> py_bool m then Some [] else case m of JObj kvs \<Rightarrow> Some kvs | _ \<Rightarrow> re_dict en m))"

definition text_or_none :: "rpc_env \<Rightarrow> json \<Rightarrow> string option" where
  "text_or_none en v = (case v of JNull \<Rightarrow> None | _ \<Rightarrow> Some (text_of en v))"

definition items_of :: "json \<Rightarrow> json list option" where
  "items_of v =
     (if \<not> py_bool v then Some []
      else case v of JList xs \<Rightarrow> Some xs | JStr s \<Rightarrow> Some (map (\<lambda>c. JStr [c]) s) | JObj kvs \<Rightarrow> Some (map (JStr \<circ> fst) kvs) | _ \<Rightarrow> None)"

definition deserialize_verdict :: "rpc_env \<Rightarrow> payload \<Rightarrow> verdict option" where
  "deserialize_verdict en d =
     (case items_of (get_or d ''findings'' JNull) of
        None \<Rightarrow> None
      | Some xs \<Rightarrow>
          map_option (\<lambda>fs. \<lparr>v_action = text_of en (get_or d ''action'' (JStr ''allow'')), v_reason = text_or_none en (get_or d ''reason'' JNull),
             v_modified_payload = (case get_or d ''modified_payload'' JNull of JNull \<Rightarrow> None | j \<Rightarrow> Some j), v_findings = fs,
             v_appended_context = text_or_none en (get_or d ''appended_context'' JNull), v_firing_rule_id = None, v_firing_check_id = None\<rparr>)
            (those (map (deserialize_finding en) (concat (map (\<lambda>x. case x of JObj f \<Rightarrow> [f] | _ \<Rightarrow> []) xs)))))"

section \<open>The server\<close>

text \<open>The coworker a message claims to come from: its tenant and id in memory.\<close>

definition trusted_coworker :: "orch_state \<Rightarrow> string \<Rightarrow> (string \<times> string) option" where
  "trusted_coworker os cid = map_option (\<lambda>cw. (c_tenant_id (cw_config cw), c_id (cw_config cw))) (dict_get (o_coworkers os) cid)"

definition error_reply :: "string \<Rightarrow> string \<Rightarrow> json" where
  "error_reply rid err = JObj [(''request_id'', JStr rid), (''verdict'', JNull), (''error'', JStr err)]"

definition verdict_reply :: "string \<Rightarrow> verdict \<Rightarrow> json" where
  "verdict_reply rid v = JObj [(''request_id'', JStr rid), (''verdict'', JObj (serialize_verdict v)), (''error'', JNull)]"

definition or_text :: "rpc_env \<Rightarrow> json \<Rightarrow> string" where
  "or_text en v = (if py_bool v then text_of en v else '''')"

definition server_deadline :: "payload \<Rightarrow> int" where
  "server_deadline rq =
     (let v = get_or rq ''deadline_ms'' JNull;
          n = (if py_bool v then (case py_int int_of_str v of None \<Rightarrow> 2000 | Some k \<Rightarrow> k) else 2000)
      in max 100 (min n 30000))"

text \<open>
  A request, \<open>None\<close> for text that is no JSON. The flag tells that the check is not done by the deadline; what a check makes of a payload
  that is no dict is an argument.
\<close>

definition handle_request ::
  "rpc_env \<Rightarrow> orch_state \<Rightarrow> check_registry \<Rightarrow> (safety_check \<Rightarrow> json \<Rightarrow> string + verdict) \<Rightarrow> bool \<Rightarrow> json option \<Rightarrow> json" where
  "handle_request en os reg other late rq =
     (case rq of
        None \<Rightarrow> error_reply '''' (''malformed JSON: '' @ re_no_json en)
      | Some (JObj r) \<Rightarrow>
          (let rid = or_text en (get_or r ''request_id'' JNull) in
           case get_or r ''context'' JNull of
             JObj cd \<Rightarrow>
               (case deserialize_context en cd of
                  Inl None \<Rightarrow> error_reply rid (''bad context: '' @ re_bad_context en cd)
                | dec \<Rightarrow>
                    (let cid = text_of en (get_or cd ''coworker_id'' JNull); tid = text_of en (get_or cd ''tenant_id'' JNull) in
                     case trusted_coworker os cid of
                       None \<Rightarrow> error_reply rid ''unknown coworker_id''
                     | Some (tenant, _) \<Rightarrow>
                         if tenant \<noteq> tid then error_reply rid ''tenant_id mismatch''
                         else
                           (let k = or_text en (get_or r ''check_id'' JNull);
                                cfg = (case get_or r ''config'' JNull of JObj c \<Rightarrow> c | _ \<Rightarrow> []) in
                            case reg_get reg k of
                              None \<Rightarrow> error_reply rid (''unknown check_id: '' @ re_repr en k)
                            | Some c \<Rightarrow>
                                if late then error_reply rid (''check timeout after '' @ show_int (server_deadline r) @ ''ms'')
                                else (case (case dec of Inr ctx \<Rightarrow> sc_check c ctx cfg | Inl v \<Rightarrow> other c (the v)) of
                                        Inl err \<Rightarrow> error_reply rid (''check raised: '' @ err)
                                      | Inr v \<Rightarrow> verdict_reply rid v))))
           | _ \<Rightarrow> error_reply rid ''missing or non-dict context'')
      | Some _ \<Rightarrow> error_reply '''' ''request is not a JSON object'')"

section \<open>The stand-in\<close>

definition fail_open :: "string \<Rightarrow> string \<Rightarrow> verdict" where
  "fail_open code msg =
     (plain_verdict ''allow'')\<lparr>v_findings := [\<lparr>fi_code = code, fi_severity = ''critical'', fi_message = msg, fi_metadata = []\<rparr>]\<rparr>"

definition remote_timeout :: "int \<Rightarrow> payload \<Rightarrow> int option" where
  "remote_timeout dflt cfg = (let v = get_or cfg ''timeout_ms'' JNull in if py_bool v then py_int int_of_str v else Some dflt)"

definition wire_config :: "payload \<Rightarrow> payload" where
  "wire_config cfg = filter (\<lambda>(k, v). take 1 k \<noteq> ''_'') cfg"

definition detect_request :: "string \<Rightarrow> string \<Rightarrow> int \<Rightarrow> safety_context \<Rightarrow> payload \<Rightarrow> payload" where
  "detect_request uid k ms ctx cfg =
     [(''request_id'', JStr uid), (''check_id'', JStr k), (''config'', JObj (wire_config cfg)), (''context'', JObj (serialize_context ctx)),
      (''deadline_ms'', JInt ms)]"

text \<open>What a request brings: a timeout, an error of the transport, or bytes, \<open>None\<close> when they are no JSON.\<close>

datatype rpc_result = RpcTimeout | RpcBroken | RpcReply "json option"

text \<open>\<open>Inl\<close> is an exception of the check: a timeout that is no number, or a verdict that cannot be read.\<close>

definition read_reply :: "rpc_env \<Rightarrow> string \<Rightarrow> json option \<Rightarrow> string + verdict" where
  "read_reply en k reply =
     (case reply of
        None \<Rightarrow> Inr (fail_open ''SAFETY.RPC_ERROR'' (k @ '' malformed reply: '' @ re_no_json en))
      | Some (JObj r) \<Rightarrow>
          (let e = get_or r ''error'' JNull in
           if py_bool e then Inr (fail_open ''SAFETY.RPC_ERROR'' (k @ '' remote error: '' @ text_of en e))
           else case get_or r ''verdict'' JNull of
                  JObj vd \<Rightarrow> (case deserialize_verdict en vd of None \<Rightarrow> Inl ''unreadable verdict'' | Some v \<Rightarrow> Inr v)
                | _ \<Rightarrow> Inr (fail_open ''SAFETY.RPC_ERROR'' (k @ '' reply missing verdict'')))
      | Some v \<Rightarrow> Inr (fail_open ''SAFETY.RPC_ERROR'' (k @ '' non-dict reply: '' @ re_type en v)))"

definition remote_check ::
  "rpc_env \<Rightarrow> (payload \<Rightarrow> rpc_result) \<Rightarrow> string \<Rightarrow> string \<Rightarrow> int \<Rightarrow> safety_context \<Rightarrow> payload \<Rightarrow> string + verdict" where
  "remote_check en request uid k dflt ctx cfg =
     (case remote_timeout dflt cfg of
        None \<Rightarrow> Inl ''bad timeout''
      | Some ms \<Rightarrow>
          (case request (detect_request uid k ms ctx cfg) of
             RpcTimeout \<Rightarrow> Inr (fail_open ''SAFETY.RPC_TIMEOUT'' (k @ '' timeout after '' @ show_int ms @ ''ms''))
           | RpcBroken \<Rightarrow> Inr (fail_open ''SAFETY.RPC_ERROR'' (k @ '' transport error: '' @ re_transport en))
           | RpcReply r \<Rightarrow> read_reply en k r))"

text \<open>The stand-in as a check of the container's registry; from the description of a check, \<open>None\<close> when it is malformed.\<close>

definition as_remote :: "rpc_env \<Rightarrow> (payload \<Rightarrow> rpc_result) \<Rightarrow> string \<Rightarrow> int \<Rightarrow> safety_check \<Rightarrow> safety_check" where
  "as_remote en request uid dflt c = c\<lparr>sc_check := remote_check en request uid (sc_id c) dflt\<rparr>"

definition from_spec :: "rpc_env \<Rightarrow> (payload \<Rightarrow> rpc_result) \<Rightarrow> string \<Rightarrow> payload \<Rightarrow> safety_check option" where
  "from_spec en request uid spec =
     (case (items_of (get_or spec ''stages'' JNull), obj_get spec ''check_id'', py_int int_of_str (get_or spec ''default_timeout_ms'' (JInt 1500))) of
        (Some ss, Some k, Some ms) \<Rightarrow>
          map_option (\<lambda>sts. \<lparr>sc_id = text_of en k, sc_stages = sts, sc_cost_class = text_of en (get_or spec ''cost_class'' (JStr ''slow'')),
              sc_check = remote_check en request uid (text_of en k) ms\<rparr>)
            (those (map (stage_of \<circ> text_of en) ss))
      | _ \<Rightarrow> None)"

section \<open>Safety events\<close>

text \<open>The row of the audit, with the values that may be of any type.\<close>

record safety_decision =
  sd_tenant_id :: string
  sd_coworker_id :: json
  sd_conversation_id :: json
  sd_job_id :: json
  sd_user_id :: json
  sd_stage :: string
  sd_verdict_action :: string
  sd_triggered_rule_ids :: "json list"
  sd_findings :: "json list"
  sd_context_digest :: string
  sd_context_summary :: string

text \<open>\<open>None\<close> drops the event.\<close>

definition handle_safety_event :: "rpc_env \<Rightarrow> payload \<Rightarrow> safety_decision option" where
  "handle_safety_event en d =
     (case (obj_get d ''tenant_id'', obj_get d ''stage'', obj_get d ''verdict_action'',
            items_of (get_or d ''triggered_rule_ids'' JNull), items_of (get_or d ''findings'' JNull)) of
        (Some tid, Some st, Some act, Some ids, Some fs) \<Rightarrow>
          Some \<lparr>sd_tenant_id = text_of en tid, sd_coworker_id = get_or d ''coworker_id'' JNull, sd_conversation_id = get_or d ''conversation_id'' JNull,
                sd_job_id = get_or d ''job_id'' JNull, sd_user_id = get_or d ''user_id'' JNull, sd_stage = text_of en st,
                sd_verdict_action = text_of en act, sd_triggered_rule_ids = ids, sd_findings = fs,
                sd_context_digest = text_of en (get_or d ''context_digest'' (JStr '''')),
                sd_context_summary = text_of en (get_or d ''context_summary'' (JStr ''''))\<rparr>
      | _ \<Rightarrow> None)"

definition on_payload :: "rpc_env \<Rightarrow> orch_state \<Rightarrow> payload \<Rightarrow> safety_decision option" where
  "on_payload en os d =
     (let tenant = or_text en (get_or d ''tenant_id'' JNull); cid = or_text en (get_or d ''coworker_id'' JNull) in
      if cid = '''' then None
      else case trusted_coworker os cid of
             None \<Rightarrow> None
           | Some (tid, own) \<Rightarrow>
               if tenant \<noteq> '''' \<and> tenant \<noteq> tid then None
               else handle_safety_event en (dict_set (dict_set d ''tenant_id'' (JStr tid)) ''coworker_id'' (JStr own)))"

definition on_message_bytes :: "rpc_env \<Rightarrow> orch_state \<Rightarrow> json option \<Rightarrow> safety_decision option" where
  "on_message_bytes en os msg = (case msg of Some (JObj d) \<Rightarrow> on_payload en os d | _ \<Rightarrow> None)"

end
