(* ===== verification/Rpc_Props.thy ===== *)
theory Rpc_Props
  imports Safety_Rpc Delegation_Props
begin

text \<open>
  A slow check decides through the wire as it does in place, and so does the pipeline; and the audit of safety events is
  kept under the tenant of the coworker it names.
\<close>

section \<open>Round trips\<close>

lemma stage_of_value [simp]: "stage_of (stage_value st) = Some st"
  by (cases st) (simp_all add: stage_of_def)

lemma text_of_str [simp]: "text_of en (JStr s) = s"
  by (simp add: text_of_def)

lemma text_or_none_json_of [simp]: "text_or_none en (json_of s) = s"
  by (cases s) (simp_all add: text_or_none_def json_of_def)

lemma get_or_simps [simp]:
  "get_or [] k d = d" "get_or ((k', v) # xs) k d = (if k = k' then v else get_or xs k d)"
  by (simp_all add: get_or_def obj_get_def)

lemma obj_get_simps [simp]:
  "obj_get [] k = None" "obj_get ((k', v) # xs) k = (if k = k' then Some v else obj_get xs k)"
  by (simp_all add: obj_get_def)

lemma context_roundtrip: "deserialize_context en (serialize_context ctx) = Inr ctx"
  by (cases ctx) (auto simp: deserialize_context_def serialize_context_def Let_def split: option.split)

lemma finding_roundtrip:
  "\<exists>kvs. serialize_finding f = JObj kvs \<and> deserialize_finding en kvs = Some f"
  by (cases f) (simp add: serialize_finding_def deserialize_finding_def Let_def)

text \<open>A verdict of a check: the pipeline names the rule that fired only later, and a payload is not null.\<close>

definition sendable :: "verdict \<Rightarrow> bool" where
  "sendable v \<longleftrightarrow> v_modified_payload v \<noteq> Some JNull \<and> v_firing_rule_id v = None \<and> v_firing_check_id v = None"

lemma findings_roundtrip:
  "those (map (deserialize_finding en) (concat (map (\<lambda>x. case x of JObj f \<Rightarrow> [f] | _ \<Rightarrow> []) (map serialize_finding fs)))) = Some fs"
proof (induction fs)
  case (Cons f fs)
  then show ?case using finding_roundtrip [of f en] by auto
qed simp

lemma verdict_roundtrip:
  assumes "sendable v"
  shows "deserialize_verdict en (serialize_verdict v) = Some v"
proof -
  have items: "items_of (JList (map serialize_finding (v_findings v))) = Some (map serialize_finding (v_findings v))"
    by (simp add: items_of_def)
  have mp: "(case (case v_modified_payload v of None \<Rightarrow> JNull | Some j \<Rightarrow> j) of JNull \<Rightarrow> None | j \<Rightarrow> Some j) = v_modified_payload v"
    using assms by (auto simp: sendable_def split: option.split json.split)
  show ?thesis
    using assms findings_roundtrip [of en "v_findings v"]
    by (cases v) (simp add: deserialize_verdict_def serialize_verdict_def items mp [simplified] sendable_def items_of_def split: option.splits json.splits)
qed

section \<open>The remote check\<close>

text \<open>A transport that brings every reply of the server in time.\<close>

definition served :: "rpc_env \<Rightarrow> orch_state \<Rightarrow> check_registry \<Rightarrow> (safety_check \<Rightarrow> json \<Rightarrow> string + verdict) \<Rightarrow> payload \<Rightarrow> rpc_result" where
  "served en os reg other rq = RpcReply (Some (handle_request en os reg other False (Some (JObj rq))))"

lemma remote_check_verdict:
  assumes "trusted_coworker os (cx_coworker_id ctx) = Some (cx_tenant_id ctx, own)" "reg_get reg k = Some c" "k \<noteq> ''''"
    and "remote_timeout dflt cfg = Some ms" "sc_check c ctx (wire_config cfg) = Inr v" "sendable v"
  shows "remote_check en (served en os reg other) uid k dflt ctx cfg = Inr v"
proof -
  let ?cd = "serialize_context ctx"
  have ids: "get_or ?cd ''coworker_id'' JNull = JStr (cx_coworker_id ctx)" "get_or ?cd ''tenant_id'' JNull = JStr (cx_tenant_id ctx)"
    by (simp_all add: serialize_context_def)
  have "handle_request en os reg other False (Some (JObj (detect_request uid k ms ctx cfg))) = verdict_reply (or_text en (JStr uid)) v"
    using assms by (simp add: handle_request_def detect_request_def Let_def context_roundtrip ids or_text_def)
  then show ?thesis
    using assms(4,6) by (simp add: remote_check_def served_def read_reply_def verdict_reply_def verdict_roundtrip)
qed

section \<open>The pipeline\<close>

text \<open>The registry of the container: a stand-in for every slow check.\<close>

definition with_proxies :: "rpc_env \<Rightarrow> (payload \<Rightarrow> rpc_result) \<Rightarrow> string \<Rightarrow> int \<Rightarrow> check_registry \<Rightarrow> check_registry" where
  "with_proxies en request uid dflt reg = map (\<lambda>(k, c). (k, if sc_cost_class c = ''slow'' then as_remote en request uid dflt c else c)) reg"

lemma with_proxies_get:
  "reg_get (with_proxies en request uid dflt reg) k =
     map_option (\<lambda>c. if sc_cost_class c = ''slow'' then as_remote en request uid dflt c else c) (reg_get reg k)"
  by (induction reg) (auto simp: with_proxies_def reg_get_def dict_get_def)

lemma pipe_rule_context:
  assumes "pipe_rule env reg r ps = Continue ps'"
  shows "\<exists>p. ps_ctx ps' = with_payload (ps_ctx ps) p"
proof -
  have "with_payload (ps_ctx ps) (cx_payload (ps_ctx ps)) = ps_ctx ps" by simp
  then show ?thesis
    using assms
    by (auto simp: pipe_rule_def apply_verdict_def fail_mode_def Let_def with_payload_def
        split: if_splits sum.splits option.splits json.splits intro: exI [of _ "cx_payload (ps_ctx ps)"])
qed

lemma pipe_rule_cong:
  assumes "\<And>c. reg_get reg (ru_check_id r) = Some c \<Longrightarrow> sc_cost_class c = ''slow'' \<Longrightarrow>
      remote_check en request uid (sc_id c) dflt (ps_ctx ps) (rule_config r) = sc_check c (ps_ctx ps) (rule_config r)"
  shows "pipe_rule env (with_proxies en request uid dflt reg) r ps = pipe_rule env reg r ps"
proof -
  have "rule_skipped (with_proxies en request uid dflt reg) (ps_ctx ps) r = rule_skipped reg (ps_ctx ps) r"
    by (auto simp: rule_skipped_def with_proxies_get as_remote_def split: option.split)
  moreover have "\<not> rule_skipped reg (ps_ctx ps) r \<Longrightarrow>
      sc_check (the (reg_get (with_proxies en request uid dflt reg) (ru_check_id r))) (ps_ctx ps) (rule_config r) =
      sc_check (the (reg_get reg (ru_check_id r))) (ps_ctx ps) (rule_config r)"
    using assms by (auto simp: rule_skipped_def with_proxies_get as_remote_def split: option.splits)
  ultimately show ?thesis by (simp add: pipe_rule_def)
qed

lemma pipe_loop_cong:
  assumes "\<And>r c p. r \<in> set rs \<Longrightarrow> reg_get reg (ru_check_id r) = Some c \<Longrightarrow> sc_cost_class c = ''slow'' \<Longrightarrow>
      remote_check en request uid (sc_id c) dflt (with_payload ctx p) (rule_config r) = sc_check c (with_payload ctx p) (rule_config r)"
    and "\<exists>p. ps_ctx ps = with_payload ctx p"
  shows "pipe_loop env (with_proxies en request uid dflt reg) rs ps = pipe_loop env reg rs ps"
  using assms
proof (induction rs arbitrary: ps)
  case (Cons r rs)
  have one: "pipe_rule env (with_proxies en request uid dflt reg) r ps = pipe_rule env reg r ps"
    by (rule pipe_rule_cong) (use Cons.prems in auto)
  have "\<exists>p. ps_ctx ps' = with_payload ctx p" if "pipe_rule env reg r ps = Continue ps'" for ps'
    using pipe_rule_context [OF that] Cons.prems(2) by auto
  then show ?case using one Cons.IH Cons.prems(1) by (auto split: pipe_step.split)
qed simp

text \<open>C19. 
  The pipeline in the container decides like the one in the orchestrator. With every slow check behind its stand-in, which sends
  context and configuration to the server and reads the verdict back, the rules come to the same verdict with the
  same audit, provided the server knows the coworker under its tenant, replies in time, and the checks answer.
\<close>

theorem remote_pipeline_agrees:
  assumes "trusted_coworker os (cx_coworker_id ctx) = Some (cx_tenant_id ctx, own)"
    and "\<And>k c. reg_get reg k = Some c \<Longrightarrow> sc_id c = k \<and> k \<noteq> ''''"
    and "\<And>r. r \<in> set rules \<Longrightarrow> wire_config (rule_config r) = rule_config r \<and> remote_timeout dflt (rule_config r) \<noteq> None"
    and "\<And>r c p. r \<in> set rules \<Longrightarrow> reg_get reg (ru_check_id r) = Some c \<Longrightarrow> sc_cost_class c = ''slow'' \<Longrightarrow>
      \<exists>v. sc_check c (with_payload ctx p) (rule_config r) = Inr v \<and> sendable v"
  shows "pipeline_run env rules (with_proxies en (served en os reg other) uid dflt reg) ctx = pipeline_run env rules reg ctx"
proof -
  have "remote_check en (served en os reg other) uid (sc_id c) dflt (with_payload ctx p) (rule_config r) = sc_check c (with_payload ctx p) (rule_config r)"
    if r: "r \<in> set rules" "reg_get reg (ru_check_id r) = Some c" "sc_cost_class c = ''slow''" for r c p
  proof -
    obtain v where v: "sc_check c (with_payload ctx p) (rule_config r) = Inr v" "sendable v" using assms(4) [OF r] by blast
    obtain ms where ms: "remote_timeout dflt (rule_config r) = Some ms" using assms(3) [OF r(1)] by blast
    have "trusted_coworker os (cx_coworker_id (with_payload ctx p)) = Some (cx_tenant_id (with_payload ctx p), own)"
      using assms(1) by (simp add: with_payload_def)
    from remote_check_verdict [OF this _ _ ms, of reg "sc_id c" c v en other uid] show ?thesis
      using assms(2) [OF r(2)] assms(3) [OF r(1)] r(2) v by simp
  qed
  moreover have "\<exists>p. ctx = with_payload ctx p" by (rule exI [of _ "cx_payload ctx"]) simp
  ultimately have "pipe_loop env (with_proxies en (served en os reg other) uid dflt reg) (applicable_rules rules ctx)
      \<lparr>ps_ctx = ctx, ps_findings = [], ps_redacted = False, ps_warns = [], ps_audit = []\<rparr> =
    pipe_loop env reg (applicable_rules rules ctx) \<lparr>ps_ctx = ctx, ps_findings = [], ps_redacted = False, ps_warns = [], ps_audit = []\<rparr>"
    by (intro pipe_loop_cong) (auto simp: applicable_rules_def)
  then show ?thesis by (simp add: pipeline_run_def)
qed

section \<open>Safety events\<close>

text \<open>C26. 
  Whatever a container publishes, a safety decision is kept only for a coworker the orchestrator has, under that coworker's
  tenant and id, and only when the event names no other tenant.
\<close>

theorem audit_under_own_tenant:
  assumes "on_message_bytes en os msg = Some row"
  shows "\<exists>k cw. dict_get (o_coworkers os) k = Some cw \<and> sd_tenant_id row = c_tenant_id (cw_config cw) \<and>
    sd_coworker_id row = JStr (c_id (cw_config cw)) \<and>
    (\<exists>d. msg = Some (JObj d) \<and> or_text en (get_or d ''tenant_id'' JNull) \<in> {'''', c_tenant_id (cw_config cw)})"
proof -
  obtain d where d: "msg = Some (JObj d)" "on_payload en os d = Some row"
    using assms by (auto simp: on_message_bytes_def split: option.splits json.splits)
  let ?k = "or_text en (get_or d ''coworker_id'' JNull)"
  obtain cw where cw: "dict_get (o_coworkers os) ?k = Some cw" "or_text en (get_or d ''tenant_id'' JNull) \<in> {'''', c_tenant_id (cw_config cw)}"
    "handle_safety_event en (dict_set (dict_set d ''tenant_id'' (JStr (c_tenant_id (cw_config cw)))) ''coworker_id'' (JStr (c_id (cw_config cw)))) = Some row"
    using d(2) by (auto simp: on_payload_def trusted_coworker_def Let_def split: if_splits option.splits)
  have set: "obj_get (dict_set x k v) k' = (if k = k' then Some v else obj_get x k')" for x :: payload and k k' v
    by (simp add: obj_get_def dict_set_def update_conv')
  have "sd_tenant_id row = c_tenant_id (cw_config cw)" "sd_coworker_id row = JStr (c_id (cw_config cw))"
    using cw(3) by (auto simp: handle_safety_event_def set get_or_def split: option.splits)
  then show ?thesis using cw d(1) by blast
qed

text \<open>
  The sender is no part of the check: an event that names a coworker of any tenant, and no tenant, is kept under the tenant of
  that coworker. The comment says that no event can reach another tenant.
\<close>

lemma forged_audit_event:
  assumes "dict_get (o_coworkers os) b = Some cw" "b \<noteq> ''''"
  shows "on_payload en os [(''coworker_id'', JStr b), (''stage'', JStr st), (''verdict_action'', JStr act)] \<noteq> None"
  using assms by (simp add: on_payload_def trusted_coworker_def or_text_def handle_safety_event_def dict_set_def items_of_def Let_def)


section \<open>A small deployment\<close>

definition demo_rpc_env :: rpc_env where
  "demo_rpc_env = \<lparr>re_str = (\<lambda>v. ''?''), re_repr = (\<lambda>s. s), re_dict = (\<lambda>v. None), re_type = (\<lambda>v. ''?''), re_no_json = '''',
                   re_bad_context = (\<lambda>d. ''''), re_transport = ''''\<rparr>"

definition demo_owner :: orch_state where
  "demo_owner = (new_orch_state 2)\<lparr>o_coworkers := [(''u2'', from_coworker (demo_member ''u2'' ''billing'' False) None None)]\<rparr>"

definition demo_call :: safety_context where
  "demo_call = \<lparr>cx_stage = MODEL_OUTPUT, cx_tenant_id = ''acme'', cx_coworker_id = ''u2'', cx_user_id = '''', cx_job_id = ''j'',
                cx_conversation_id = ''k'', cx_payload = [(''text'', JStr ''my key'')], cx_tool = None\<rparr>"

text \<open>A slow check that takes the text out, and a rule for it.\<close>

definition demo_scanner :: safety_check where
  "demo_scanner = \<lparr>sc_id = ''scan'', sc_stages = [MODEL_OUTPUT], sc_cost_class = ''slow'',
     sc_check = (\<lambda>ctx cfg. Inr ((plain_verdict ''redact'')\<lparr>v_modified_payload := Some (JObj [(''text'', JStr ''***'')])\<rparr>))\<rparr>"

definition demo_scan_rule :: safety_rule where
  "demo_scan_rule = \<lparr>ru_id = ''r'', ru_tenant_id = ''acme'', ru_coworker_id = None, ru_stage = ''model_output'', ru_check_id = ''scan'',
                     ru_config = JObj [], ru_priority = 1, ru_enabled = True, ru_description = ''''\<rparr>"

theorem remote_pipeline_agrees_witness:
  "fst (pipeline_run demo_env [demo_scan_rule]
     (with_proxies demo_rpc_env (served demo_rpc_env demo_owner [(''scan'', demo_scanner)] (\<lambda>c v. Inl '''')) ''u'' 1500 [(''scan'', demo_scanner)]) demo_call) =
   fst (pipeline_run demo_env [demo_scan_rule] [(''scan'', demo_scanner)] demo_call)"
proof -
  let ?reg = "[(''scan'', demo_scanner)]"
  have t: "trusted_coworker demo_owner (cx_coworker_id demo_call) = Some (cx_tenant_id demo_call, ''u2'')" by code_simp
  have ids: "sc_id c = k \<and> k \<noteq> ''''" if "reg_get ?reg k = Some c" for k c
    using that by (auto simp: reg_get_def dict_get_def demo_scanner_def split: if_splits)
  have cfg: "wire_config (rule_config r) = rule_config r \<and> remote_timeout 1500 (rule_config r) \<noteq> None" if "r \<in> set [demo_scan_rule]" for r
    using that by (simp add: demo_scan_rule_def rule_config_def wire_config_def remote_timeout_def)
  have v: "\<exists>v. sc_check c (with_payload demo_call p) (rule_config r) = Inr v \<and> sendable v"
    if "r \<in> set [demo_scan_rule]" "reg_get ?reg (ru_check_id r) = Some c" "sc_cost_class c = ''slow''" for r c p
    using that by (auto simp: reg_get_def dict_get_def demo_scanner_def demo_scan_rule_def sendable_def plain_verdict_def)
  show ?thesis by (rule arg_cong [OF remote_pipeline_agrees [OF t ids cfg v]])
qed

theorem audit_under_own_tenant_witness:
  "map_option sd_tenant_id (on_message_bytes demo_rpc_env demo_owner
     (Some (JObj [(''coworker_id'', JStr ''u2''), (''stage'', JStr ''model_output''), (''verdict_action'', JStr ''block'')]))) = Some ''acme''"
proof -
  let ?msg = "Some (JObj [(''coworker_id'', JStr ''u2''), (''stage'', JStr ''model_output''), (''verdict_action'', JStr ''block'')])"
  have "on_message_bytes demo_rpc_env demo_owner ?msg \<noteq> None" by code_simp
  then obtain row where row: "on_message_bytes demo_rpc_env demo_owner ?msg = Some row" by blast
  have "k = ''u2'' \<and> c_tenant_id (cw_config cw) = ''acme''" if "dict_get (o_coworkers demo_owner) k = Some cw" for k cw
    using that by (auto simp: demo_owner_def new_orch_state_def dict_get_def from_coworker_def demo_member_def split: if_splits)
  then show ?thesis using audit_under_own_tenant [OF row] row by auto
qed

end
