(* ===== verification/Spec2Isabelle.thy ===== *)
theory Spec2Isabelle
  imports Scheduler_Paths Coordinator_Props Permissions Gate_Props Egress_Policy Runs Compaction_Props
    Sandbox_Hardening Delegation_Races Turn_Delivery Task_Props Rpc_Props
begin

text \<open>
  \<^bold>\<open>RoleMesh\<close> runs AI coworkers for several tenants: an orchestrator admits conversations to containers, an agent
  in each container talks to a model and calls tools, and everything the agent does passes through
  approvals, a safety pipeline and an egress gateway. This development models the parts of it that decide:
  who may run, which call needs whose approval, what the safety rules make of a payload, which host may be
  reached, what a container may see and use, when a run ends, and what a session remembers. All paths below are under \<^verbatim>\<open>src/src/\<close>.

  \<^bold>\<open>How the parts interact.\<close> The orchestrator (\<^verbatim>\<open>rolemesh/main.py\<close>) hands messages and tasks to the group queue
  (\<^verbatim>\<open>rolemesh/container/scheduler.py\<close>), which asks the orchestrator state
  (\<^verbatim>\<open>rolemesh/core/orchestrator_state.py\<close>) for turn slots. In the container every tool call goes through the hook
  registry (\<^verbatim>\<open>agent_runner/hooks/registry.py\<close>) to the safety handler and the approval handler; the latter matches
  policies and blocks in the awaiter until the approval coordinator of the orchestrator
  (\<^verbatim>\<open>rolemesh/orchestration/approval_coordinator.py\<close>) relays a decision. The coordinator keeps requests in the
  database (\<^verbatim>\<open>rolemesh/db/approval.py\<close>), caches the pending ones and suspends the conversation in the queue. Requests that
  leave the container meet the egress gateway (\<^verbatim>\<open>rolemesh/egress\<close>); what the container is allowed to be in the first place is
  decided where it is specified (\<^verbatim>\<open>rolemesh/container/runner.py\<close>) and where mounts are validated. The Pi backend keeps its conversation in a
  session tree (\<^verbatim>\<open>pi/coding_agent/core/session_manager.py\<close>).

  \<^bold>\<open>Theories.\<close>
  \<^item> \<open>Prelude\<close>: Python truthiness, insertion-ordered dictionaries with their interface \<open>ordered_dict\<close>, counting lemmas.
    \<open>Py_Json\<close>: the values of \<open>json.loads\<close>, with truth value, equality, ordering, membership, \<open>strip\<close>. \<open>Py_Str\<close>: splitting,
    joining, printing and reading numbers. \<open>Py_Path\<close>: pure paths, \<open>relative_to\<close> and \<open>normpath\<close>.
  \<^item> \<open>Permissions\<close> (\<^verbatim>\<open>rolemesh/auth/permissions.py\<close>): role and action tables, \<open>user_can\<close>, agent permissions and their
    dictionary form.
  \<^item> \<open>Core_Types\<close> (\<^verbatim>\<open>rolemesh/core/types.py\<close>) and \<open>Orch_State\<close>: the records, the in-memory tables and turn admission, whose
    contract is the locale \<open>turn_admission\<close>.
  \<^item> \<open>Scheduler\<close>: \<open>GroupQueue\<close>, one definition per method, cut where the code awaits; \<open>Scheduler_Inv\<close> and \<open>Scheduler_Disc\<close>:
    the accounting invariant and the discipline of flags, runners and waiting list; \<open>Scheduler_Run\<close>: the calls as
    an inductive reachability relation; \<open>Scheduler_Props\<close>, \<open>Scheduler_Live\<close>, \<open>Scheduler_Paths\<close>: exact counters,
    limits, one runner per conversation, no lost work, work conservation, and behaviour along particular paths.
  \<^item> \<open>Approval_Policy\<close> (\<^verbatim>\<open>agent_runner/approval/policy.py\<close>): evaluator, validator and matcher of conditions; the denotation
    of a validated condition is an abstract syntax the evaluator refines. \<open>Approval_Store\<close>: the tables and statements;
    the conditional update of a request is the first instance of the contract \<open>first_wins\<close>.
    \<open>Approval_Coordinator\<close> and \<open>Coordinator_Props\<close>: every handler as a transition, with each await of the database
    as a suspension point, run against the queue; the locale \<open>approval_hold\<close> is what the coordinator needs of it.
  \<^item> \<open>Safety_Pipeline\<close> (\<^verbatim>\<open>rolemesh/safety/pipeline_core.py\<close>, \<^verbatim>\<open>types.py\<close>, \<^verbatim>\<open>registry.py\<close>, \<^verbatim>\<open>audit.py\<close>, \<^verbatim>\<open>engine.py\<close>, \<^verbatim>\<open>loader.py\<close>):
    the run of the rules with skips, overrides, failure modes, redaction chain and audit, and a reference trace.
    \<open>Safety_Rpc\<close> and \<open>Rpc_Props\<close> (\<^verbatim>\<open>rpc_codec.py\<close>, \<^verbatim>\<open>rpc_server.py\<close>, \<^verbatim>\<open>subscriber.py\<close>, \<^verbatim>\<open>agent_runner/safety/remote.py\<close>): slow checks
    behind the wire, which decide as in place, and the tenant safety events are kept under.
  \<^item> \<open>Mcp_Naming\<close> (\<^verbatim>\<open>pi/mcp_naming.py\<close>, \<^verbatim>\<open>agent_runner/hooks/handlers/approval.py\<close>): tool names, aliases and what the gates
    read back. \<open>Approval_Awaiter\<close> (\<^verbatim>\<open>agent_runner/approval/awaiter.py\<close>): a coroutine with a future over a sequence of events,
    again \<open>first_wins\<close>. \<open>Hook_Registry\<close>: the emit functions. \<open>Tool_Gate\<close>: both handlers, their wiring and the bridges
    of the two backends. \<open>Gate_Props\<close>: what all of it means for a tool call.
  \<^item> \<open>Egress_Policy\<close> (\<^verbatim>\<open>rolemesh/egress/policy_cache.py\<close>, \<^verbatim>\<open>safety_call.py\<close>, \<^verbatim>\<open>dns_policy.py\<close>,
    \<^verbatim>\<open>rolemesh/safety/checks/egress_domain_rule.py\<close>): the rule cache, which refines the documented table of rules by id
    as long as no rule moves to another stage, and the decision.
  \<^item> \<open>Mount_Security\<close> (\<^verbatim>\<open>rolemesh/security/mount_security.py\<close>): the mount allowlist, its cache and the checks of a mount. \<open>Config\<close>
    (\<^verbatim>\<open>rolemesh/core/config.py\<close>): the deployment constants. \<open>Sandbox\<close> (\<^verbatim>\<open>rolemesh/container/runner.py\<close>, \<^verbatim>\<open>runtime.py\<close>,
    \<^verbatim>\<open>rolemesh/agent/executor.py\<close>): volume mounts, environment and specification of a container. \<open>Skill_Projection\<close>
    (\<^verbatim>\<open>rolemesh/container/skill_projection.py\<close>, \<^verbatim>\<open>rolemesh/core/skills.py\<close>, \<^verbatim>\<open>rolemesh/agent/container_executor.py\<close>): the skills
    projected for a spawn, as the file operations attempted, and the complete list of mounts. \<open>Sandbox_Runtimes\<close>: what the
    Docker and the Kubernetes runtime make of it. \<open>Sandbox_Props\<close> and \<open>Sandbox_Hardening\<close>: which directories a container
    sees, its privileges and limits on both platforms, and the agreement of the two.
  \<^item> \<open>Delegation\<close> (\<^verbatim>\<open>rolemesh/orchestration/delegation.py\<close>, \<^verbatim>\<open>catalog.py\<close>, \<^verbatim>\<open>_chip_throttle.py\<close>, \<^verbatim>\<open>rolemesh/db/delegation.py\<close>):
    the request of a front desk, its checks, the roster and the statements. \<open>Delegation_Run\<close>: the handler as events on a
    shared world of calls, tables and the queue. \<open>Delegation_Props\<close> and \<open>Delegation_Races\<close>: who is reached with which
    permissions, that the audit agrees with the reply, that sticky calls converge, and two races.
  \<^item> \<open>Runs\<close> (\<^verbatim>\<open>rolemesh/runs\<close>): the run table and its six named ends, the third instance of \<open>first_wins\<close>.
  \<^item> \<open>Router\<close> (\<^verbatim>\<open>rolemesh/orchestration/router.py\<close>): the prompt and the removal of internal blocks. \<open>Turns\<close> and \<open>Turn_Steps\<close>
    (\<^verbatim>\<open>rolemesh/main.py\<close>, \<^verbatim>\<open>rolemesh/db/chat.py\<close>): the message table, the screening of an answer, and the turns of all
    conversations (\<open>_process_conversation_messages\<close>, \<open>_run_agent\<close>) with the message loop (\<open>_message_loop\<close>) as events on one
    world that holds the queue, the tables and the frames sent. \<open>Turn_Props\<close>: reachable worlds, and what users are
    sent. \<open>Turn_Runs\<close> and \<open>Turn_Demo\<close>: the ends of runs in the table and in the browser, and a small deployment.
    \<open>Turn_Delivery\<close>: which messages reach the agent, and which are skipped.
  \<^item> \<open>Tasks\<close> (\<^verbatim>\<open>rolemesh/orchestration/task_scheduler.py\<close>, \<^verbatim>\<open>rolemesh/ipc/task_handler.py\<close>, \<^verbatim>\<open>rolemesh/db/task.py\<close>): scheduled tasks,
    the requests of agents, snapshots, the next run, the sweep and a run. \<open>Task_Props\<close>: what a request can change and when
    a task is due.
  \<^item> \<open>Pi_Messages\<close> (\<^verbatim>\<open>pi/ai/types.py\<close>) and \<open>Session_Codec\<close>: messages and session entries with their JSON form; the contract
    \<open>partial_codec\<close> is interpreted on blocks, messages and entries. \<open>Session_Tree\<close>: the session manager, one
    definition per method. \<open>Session_Props\<close>: its operations as a reachability relation and the invariants of tree,
    indexes and file. \<open>Session_Results\<close>: its guarantees, and the rewind of \<open>AgentSession.abort\<close>. \<open>Compaction\<close> and
    \<open>Compaction_Props\<close> (\<^verbatim>\<open>pi/coding_agent/core/compaction\<close>, \<^verbatim>\<open>agent_session.py\<close>): token estimates, cut points, the
    preparation of a compaction, when one is due and what it does to the session.

  \<^bold>\<open>What the lemmas show.\<close> The queue: counters are exact, limits hold, nothing accepted is lost, and waiting means
  that capacity is taken. Approvals: an approve reaches a container at most once and only for a row its approver decided;
  a governed call runs only after an approving decision for exactly its parameters; policies fail closed. Safety: an
  objection to the payload a rule is given is not outvoted, redactions compose, the audit is the trace, and remote checks decide like local ones. Egress: deny by default. Sandboxes: only the
  coworker's own directories, permitted mounts and its own skills, no privileges, limits capped by the deployment's. Delegation: inside the tenant,
  with the target's permissions, and audited as answered. Runs: one end. Turns: while rules can be loaded a user is sent screened text only, a run is
  reported as the table has it, a prompt cannot be forged, and a message that arrives in order is handed over or still found. Tasks: requests stay within
  tenant and permissions of the coworker they name, and a finished run is not due again.
  Sessions: walks end, a file restores its session, also one resumed from a file, a rewind restores the context, a compaction
  keeps what it names and loses nothing since the last one.
  Properties of kind error state what the code does where its comments, tests or documents promise otherwise.

  \<^bold>\<open>Modelling decisions.\<close> A coroutine is cut at its awaits; between two cuts it runs alone, as on one event loop, and an
  execution is any sequence of such stretches. Exceptions are values. Clocks, UUIDs, hashes, digests, the printing of
  numbers and dates and the parsing of dates are arguments; what is assumed of them is stated in the theorem that
  needs it (that a signature or a UUID does not repeat). A dict is an association list in insertion order, a table a
  list of rows in insertion order. A char has eight bits; a float is the rational number it denotes, and where
  the code multiplies floats the rounded product is an argument; JSON has no non-finite numbers. A session file is a list of JSON objects. Functions are total by structural or measured recursion,
  so no fuel is chosen anywhere; the one loop that may not end, the walk of a session to its root, is a partial function into
  \<open>option\<close>, and that it ends is proved for all reachable sessions.

  \<^bold>\<open>Not modelled.\<close> The calls of the container platforms, the channels, the web API, the database layer beyond the statements above, the
  schema, authentication and OIDC, the evaluation harness, the model providers and the generated model table are I/O,
  glue or data. Of the modelled files, logging, network calls, connection handling, \<open>get_tree\<close>, the listing of session
  files, the machine-learned checks, token signatures and the audit publishers are left out; of \<^verbatim>\<open>rolemesh/main.py\<close> start-up,
  subscriptions, the admission and creation of conversations, the tenant-wide query that tells the loop which conversations to look at (it looks
  at any) and the moment the snapshot of tasks is written. A coworker's configuration does not change during the turns of a world.
\<close>

end
